(* ===== verification/Prelude.thy ===== *)
theory Prelude
  imports Complex_Main "HOL-Library.Sublist" "HOL-Library.AList" "HOL-Library.Char_ord"
begin

text \<open>
  Shared vocabulary of the development: Python values and floats, strings, insertion-ordered
  dictionaries, errors as values, and the generic interfaces (bounded buffers, dictionaries,
  event-driven machines) that several components implement.

  Conventions.
  \<^item> A Python \<open>float\<close> is \<open>pyfloat\<close>: a finite value is an exact rational, and the three
    non-finite values are constructors, ordered as IEEE 754 orders them (every comparison with
    NaN is false). Rounding of finite arithmetic is not modelled.
  \<^item> A Python \<open>str\<close> is a \<open>string\<close> (code points up to 255); case folding is ASCII folding.
  \<^item> A \<open>dict\<close> is an association list with distinct keys, in insertion order.
  \<^item> A raised exception is \<open>Inl\<close> of an \<open>py_error\<close>.
\<close>

section \<open>Rule collections\<close>

named_theorems py_simps \<open>equations that evaluate the Python vocabulary\<close>
named_theorems thermal_defs \<open>definitions of the thermal policy\<close>
named_theorems supervisor_defs \<open>definitions of the worker supervisor\<close>
named_theorems gateway_defs \<open>definitions of the gateway\<close>

section \<open>Errors as values\<close>

datatype py_error =
    ValueError string
  | RuntimeError string
  | KeyError string
  | TypeError string
  | IndexError string
  | OSError string
  | OverflowError string
  | AttributeError string

type_synonym 'a res = "py_error + 'a"

text \<open>\<open>str(error)\<close>; that of a \<open>KeyError\<close> is the quoted key.\<close>

fun error_text :: "py_error \<Rightarrow> string" where
  "error_text (ValueError m) = m"
| "error_text (RuntimeError m) = m"
| "error_text (KeyError m) = CHR 0x27 # m @ [CHR 0x27]"
| "error_text (TypeError m) = m"
| "error_text (IndexError m) = m"
| "error_text (OSError m) = m"
| "error_text (OverflowError m) = m"
| "error_text (AttributeError m) = m"

definition rbind :: "'e + 'a \<Rightarrow> ('a \<Rightarrow> 'e + 'b) \<Rightarrow> 'e + 'b" where
  "rbind r f = (case r of Inl e \<Rightarrow> Inl e | Inr x \<Rightarrow> f x)"

lemma rbind_simps [simp]: "rbind (Inl e) f = Inl e" "rbind (Inr x) f = f x"
  by (simp_all add: rbind_def)

lemma rbind_eq_Inr: "rbind r f = Inr y \<longleftrightarrow> (\<exists>x. r = Inr x \<and> f x = Inr y)"
  by (cases r) auto

lemma rbind_eq_Inl: "rbind r f = Inl e \<longleftrightarrow> r = Inl e \<or> (\<exists>x. r = Inr x \<and> f x = Inl e)"
  by (cases r) auto

definition guard :: "bool \<Rightarrow> 'e \<Rightarrow> 'e + unit" where
  "guard ok e = (if ok then Inr () else Inl e)"

lemma guard_simps [simp]: "guard True e = Inr ()" "guard False e = Inl e"
  by (simp_all add: guard_def)

lemma guard_eq_Inr [simp]: "guard b e = Inr u \<longleftrightarrow> b"
  by (simp add: guard_def)

definition is_ok :: "'e + 'a \<Rightarrow> bool" where
  "is_ok r = (case r of Inl _ \<Rightarrow> False | Inr _ \<Rightarrow> True)"

lemma is_ok_simps [simp]: "\<not> is_ok (Inl e)" "is_ok (Inr x)"
  by (simp_all add: is_ok_def)

lemma is_ok_iff: "is_ok r \<longleftrightarrow> (\<exists>x. r = Inr x)"
  by (cases r) auto

lemma is_ok_rbind [simp]: "is_ok (rbind r f) \<longleftrightarrow> (\<exists>x. r = Inr x \<and> is_ok (f x))"
  by (cases r) auto

lemma is_ok_guard [simp]: "is_ok (guard b e) \<longleftrightarrow> b"
  by (simp add: guard_def)

section \<open>Floats\<close>

datatype pyfloat = Fin rat | PosInf | NegInf | NaN

instantiation pyfloat :: ord
begin

fun less_eq_pyfloat :: "pyfloat \<Rightarrow> pyfloat \<Rightarrow> bool" where
  "less_eq_pyfloat NaN _ = False"
| "less_eq_pyfloat _ NaN = False"
| "less_eq_pyfloat NegInf _ = True"
| "less_eq_pyfloat _ PosInf = True"
| "less_eq_pyfloat (Fin a) (Fin b) = (a \<le> b)"
| "less_eq_pyfloat _ _ = False"

fun less_pyfloat :: "pyfloat \<Rightarrow> pyfloat \<Rightarrow> bool" where
  "less_pyfloat NaN _ = False"
| "less_pyfloat _ NaN = False"
| "less_pyfloat (Fin a) (Fin b) = (a < b)"
| "less_pyfloat NegInf b = (b \<noteq> NegInf)"
| "less_pyfloat a PosInf = (a \<noteq> PosInf)"
| "less_pyfloat _ _ = False"

instance ..

end

instantiation pyfloat :: minus
begin

fun minus_pyfloat :: "pyfloat \<Rightarrow> pyfloat \<Rightarrow> pyfloat" where
  "minus_pyfloat (Fin a) (Fin b) = Fin (a - b)"
| "minus_pyfloat NaN _ = NaN"
| "minus_pyfloat _ NaN = NaN"
| "minus_pyfloat PosInf PosInf = NaN"
| "minus_pyfloat NegInf NegInf = NaN"
| "minus_pyfloat PosInf _ = PosInf"
| "minus_pyfloat NegInf _ = NegInf"
| "minus_pyfloat (Fin _) PosInf = NegInf"
| "minus_pyfloat (Fin _) NegInf = PosInf"

instance ..

end

instantiation pyfloat :: plus
begin

fun plus_pyfloat :: "pyfloat \<Rightarrow> pyfloat \<Rightarrow> pyfloat" where
  "plus_pyfloat (Fin a) (Fin b) = Fin (a + b)"
| "plus_pyfloat NaN _ = NaN"
| "plus_pyfloat _ NaN = NaN"
| "plus_pyfloat PosInf NegInf = NaN"
| "plus_pyfloat NegInf PosInf = NaN"
| "plus_pyfloat PosInf _ = PosInf"
| "plus_pyfloat NegInf _ = NegInf"
| "plus_pyfloat (Fin _) PosInf = PosInf"
| "plus_pyfloat (Fin _) NegInf = NegInf"

instance ..

end

fun isfinite :: "pyfloat \<Rightarrow> bool" where
  "isfinite (Fin _) = True"
| "isfinite _ = False"

lemma isfinite_iff: "isfinite x \<longleftrightarrow> (\<exists>q. x = Fin q)"
  by (cases x) auto

text \<open>Python's \<open>max(a, b)\<close> keeps the first argument unless the second is greater.\<close>

definition pymax :: "pyfloat \<Rightarrow> pyfloat \<Rightarrow> pyfloat" where
  "pymax a b = (if a < b then b else a)"

text \<open>\<open>==\<close> on floats: NaN differs from itself.\<close>

definition float_eq :: "pyfloat \<Rightarrow> pyfloat \<Rightarrow> bool" where
  "float_eq a b = (a = b \<and> a \<noteq> NaN)"

lemma pyfloat_le_trans: "(a::pyfloat) \<le> b \<Longrightarrow> b \<le> c \<Longrightarrow> a \<le> c"
  by (cases a; cases b; cases c) auto

lemma pyfloat_less_le_trans: "(a::pyfloat) < b \<Longrightarrow> b \<le> c \<Longrightarrow> a < c"
  by (cases a; cases b; cases c) auto

lemma pyfloat_le_less_trans: "(a::pyfloat) \<le> b \<Longrightarrow> b < c \<Longrightarrow> a < c"
  by (cases a; cases b; cases c) auto

lemma pyfloat_less_trans: "(a::pyfloat) < b \<Longrightarrow> b < c \<Longrightarrow> a < c"
  by (cases a; cases b; cases c) auto

lemma pyfloat_less_imp_le: "(a::pyfloat) < b \<Longrightarrow> a \<le> b"
  by (cases a; cases b) auto

lemma pyfloat_not_le: "isfinite a \<Longrightarrow> isfinite b \<Longrightarrow> \<not> a \<le> b \<longleftrightarrow> (b::pyfloat) < a"
  by (cases a; cases b) auto

lemma pyfloat_less_not_le: "(a::pyfloat) < b \<Longrightarrow> \<not> b \<le> a"
  by (cases a; cases b) auto

lemmas pyfloat_order = pyfloat_le_trans pyfloat_less_le_trans pyfloat_le_less_trans
  pyfloat_less_trans pyfloat_less_imp_le

section \<open>Python values\<close>

datatype pyval =
    VNone
  | VBool bool
  | VInt int
  | VFloat pyfloat
  | VStr string
  | VList "pyval list"
  | VDict "(string \<times> pyval) list"

type_synonym pydict = "(string \<times> pyval) list"

text \<open>The number a value is for \<open>==\<close>, \<open><\<close>: \<open>bool\<close> is a subclass of \<open>int\<close>.\<close>

fun py_num :: "pyval \<Rightarrow> pyfloat option" where
  "py_num (VBool b) = Some (Fin (if b then 1 else 0))"
| "py_num (VInt i) = Some (Fin (of_int i))"
| "py_num (VFloat f) = Some f"
| "py_num _ = None"

fun py_truthy :: "pyval \<Rightarrow> bool" where
  "py_truthy VNone = False"
| "py_truthy (VBool b) = b"
| "py_truthy (VInt i) = (i \<noteq> 0)"
| "py_truthy (VFloat f) = (f \<noteq> Fin 0)"
| "py_truthy (VStr s) = (s \<noteq> [])"
| "py_truthy (VList xs) = (xs \<noteq> [])"
| "py_truthy (VDict d) = (d \<noteq> [])"

text \<open>\<open>d.get(k)\<close>: a missing key reads as \<open>None\<close>.\<close>

definition dget :: "pydict \<Rightarrow> string \<Rightarrow> pyval" where
  "dget d k = (case map_of d k of None \<Rightarrow> VNone | Some v \<Rightarrow> v)"

definition dget_or :: "pydict \<Rightarrow> string \<Rightarrow> pyval \<Rightarrow> pyval" where
  "dget_or d k v = (case map_of d k of None \<Rightarrow> v | Some w \<Rightarrow> w)"

definition dhas :: "(string \<times> 'a) list \<Rightarrow> string \<Rightarrow> bool" where
  "dhas d k = (map_of d k \<noteq> None)"

text \<open>\<open>a or b\<close>.\<close>

definition py_or :: "pyval \<Rightarrow> pyval \<Rightarrow> pyval" where
  "py_or a b = (if py_truthy a then a else b)"

text \<open>\<open>v == expected\<close> where \<open>expected\<close> is a string or an integer constant of the code.\<close>

definition eq_str :: "pyval \<Rightarrow> string \<Rightarrow> bool" where
  "eq_str v s = (v = VStr s)"

definition eq_int :: "pyval \<Rightarrow> int \<Rightarrow> bool" where
  "eq_int v i = (py_num v = Some (Fin (of_int i)))"

lemma size_of_zip: "(x, y) \<in> set (zip xs ys) \<Longrightarrow> size x < Suc (size_list size xs)"
  by (auto dest!: set_zip_leftD simp: less_Suc_eq_le intro: size_list_estimation')

lemma size_of_entry: "(k, v) \<in> set d \<Longrightarrow> size v < Suc (size_list (size_prod (\<lambda>x. 0) size) d)"
  by (auto simp: less_Suc_eq_le intro: size_list_estimation')

text \<open>\<open>a == b\<close>: numbers compare across types, dictionaries without regard to order.\<close>

function py_eq :: "pyval \<Rightarrow> pyval \<Rightarrow> bool" where
  "py_eq a b = (case (a, b) of
     (VList xs, VList ys) \<Rightarrow> length xs = length ys \<and> list_all (\<lambda>(x, y). py_eq x y) (zip xs ys)
   | (VDict d, VDict e) \<Rightarrow> length d = length e \<and>
       list_all (\<lambda>(k, v). case map_of e k of None \<Rightarrow> False | Some w \<Rightarrow> py_eq v w) d
   | _ \<Rightarrow> (case (py_num a, py_num b) of (Some x, Some y) \<Rightarrow> float_eq x y | _ \<Rightarrow> a = b))"
  by pat_completeness auto
termination
  by (relation "measure (\<lambda>(a, b). size a)") (auto intro: size_of_zip size_of_entry)

declare py_eq.simps [simp del]

lemma py_eq_VStr [simp]: "py_eq v (VStr s) \<longleftrightarrow> v = VStr s" "py_eq (VStr s) v \<longleftrightarrow> v = VStr s"
  by (cases v; subst py_eq.simps; auto)+

text \<open>An optional text, \<open>None\<close> when absent; and \<open>{**base, **other}\<close>.\<close>

definition opt_str :: "string option \<Rightarrow> pyval" where
  "opt_str t = (case t of None \<Rightarrow> VNone | Some s \<Rightarrow> VStr s)"

definition merged :: "pydict \<Rightarrow> pydict \<Rightarrow> pydict" where
  "merged base other = fold (\<lambda>(k, v). AList.update k v) other base"

lemmas dget_simps [py_simps] = dget_def dget_or_def dhas_def py_or_def eq_str_def eq_int_def

lemma dget_Nil [simp]: "dget [] k = VNone"
  by (simp add: dget_def)

lemma dget_update [simp]:
  "dget (AList.update k v d) k' = (if k = k' then v else dget d k')"
  by (auto simp: dget_def update_conv' split: option.splits)

section \<open>Strings\<close>

definition is_space :: "char \<Rightarrow> bool" where
  "is_space c = (let n = (of_char c :: nat) in
     (9 \<le> n \<and> n \<le> 13) \<or> (28 \<le> n \<and> n \<le> 32) \<or> n = 133 \<or> n = 160)"

definition lower_char :: "char \<Rightarrow> char" where
  "lower_char c = (let n = (of_char c :: nat) in if 65 \<le> n \<and> n \<le> 90 then char_of (n + 32) else c)"

definition casefold :: "string \<Rightarrow> string" where
  "casefold s = map lower_char s"

definition lstrip :: "string \<Rightarrow> string" where
  "lstrip s = dropWhile is_space s"

definition strip :: "string \<Rightarrow> string" where
  "strip s = rev (dropWhile is_space (rev (dropWhile is_space s)))"

text \<open>\<open>s.find(p)\<close>: the first position where \<open>p\<close> occurs.\<close>

fun str_find :: "string \<Rightarrow> string \<Rightarrow> nat option" where
  "str_find p [] = (if p = [] then Some 0 else None)"
| "str_find p (c # s) = (if prefix p (c # s) then Some 0 else map_option Suc (str_find p s))"

definition str_in :: "string \<Rightarrow> string \<Rightarrow> bool" where
  "str_in p s = (str_find p s \<noteq> None)"

lemma str_find_Some: "str_find p s = Some i \<Longrightarrow> prefix p (drop i s) \<and> i \<le> length s"
proof (induction s arbitrary: i)
  case Nil
  then show ?case by (simp split: if_splits)
next
  case (Cons c s)
  then show ?case by (auto split: if_splits)
qed

lemma str_in_sublist: "str_in p s \<longleftrightarrow> sublist p s"
proof (induction s)
  case Nil
  show ?case by (auto simp: str_in_def)
next
  case (Cons c s)
  have "str_in p (c # s) \<longleftrightarrow> prefix p (c # s) \<or> str_in p s"
    by (simp add: str_in_def)
  with Cons show ?case by (simp add: sublist_Cons_right)
qed

text \<open>\<open>s.split()\<close>: the maximal runs of non-space characters.\<close>

function py_words :: "string \<Rightarrow> string list" where
  "py_words s = (case dropWhile is_space s of [] \<Rightarrow> []
     | c # t \<Rightarrow> (c # takeWhile (\<lambda>x. \<not> is_space x) t) # py_words (dropWhile (\<lambda>x. \<not> is_space x) t))"
  by pat_completeness auto
termination
proof (relation "measure length")
  fix s c t
  assume "dropWhile is_space s = c # t"
  then have "length (c # t) \<le> length s" by (metis length_dropWhile_le)
  then have "length t < length s" by simp
  then have "length (dropWhile (\<lambda>x. \<not> is_space x) t) < length s"
    by (rule order.strict_trans1 [OF length_dropWhile_le])
  then show "(dropWhile (\<lambda>x. \<not> is_space x) t, s) \<in> measure length" by simp
qed simp

declare py_words.simps [simp del]

fun join :: "string \<Rightarrow> string list \<Rightarrow> string" where
  "join sep [] = []"
| "join sep [x] = x"
| "join sep (x # y # xs) = x @ sep @ join sep (y # xs)"

text \<open>Decimal notation of integers.\<close>

text \<open>Paths as \<open>pathlib.Path\<close> writes them.\<close>

fun split_slash :: "string \<Rightarrow> string list" where
  "split_slash [] = [[]]"
| "split_slash (c # s) = (if c = CHR 0x2F then [] # split_slash s
     else (case split_slash s of w # ws \<Rightarrow> (c # w) # ws | [] \<Rightarrow> [[c]]))"

definition path_parts :: "string \<Rightarrow> string list" where
  "path_parts s = filter (\<lambda>p. p \<noteq> [] \<and> p \<noteq> ''.'') (split_slash s)"

definition path_root :: "string \<Rightarrow> string" where
  "path_root s = (if prefix ''///'' s then ''/'' else if prefix ''//'' s then ''//''
     else if prefix ''/'' s then ''/'' else [])"

definition path_str :: "string \<Rightarrow> string" where
  "path_str s = (if path_root s = [] \<and> path_parts s = [] then ''.'' else path_root s @ join ''/'' (path_parts s))"

definition path_name :: "string \<Rightarrow> string" where
  "path_name s = (if path_parts s = [] then [] else last (path_parts s))"

definition path_join :: "string \<Rightarrow> string \<Rightarrow> string" where
  "path_join a b = (if prefix ''/'' b then path_str b else path_str (a @ ''/'' @ b))"

definition is_relative_to :: "string \<Rightarrow> string \<Rightarrow> bool" where
  "is_relative_to a b = (a = b \<or> prefix (b @ ''/'') a)"

definition digit :: "nat \<Rightarrow> char" where
  "digit n = char_of (48 + n)"

fun show_nat :: "nat \<Rightarrow> string" where
  "show_nat n = (if n < 10 then [digit n] else show_nat (n div 10) @ [digit (n mod 10)])"

declare show_nat.simps [simp del]

definition show_int :: "int \<Rightarrow> string" where
  "show_int i = (if i < 0 then ''-'' @ show_nat (nat (- i)) else show_nat (nat i))"

text \<open>
  \<open>str(v)\<close>. The texts of floats and containers (\<open>repr\<close>) are a parameter \<open>rp\<close> of every
  definition that may print one.
\<close>

definition py_str :: "(pyval \<Rightarrow> string) \<Rightarrow> pyval \<Rightarrow> string" where
  "py_str rp v = (case v of
     VStr s \<Rightarrow> s
   | VInt i \<Rightarrow> show_int i
   | VBool b \<Rightarrow> (if b then ''True'' else ''False'')
   | VNone \<Rightarrow> ''None''
   | _ \<Rightarrow> rp v)"

text \<open>\<open>s.split(sep, 1)[-1]\<close> for a one-character separator.\<close>

definition after_first :: "char \<Rightarrow> string \<Rightarrow> string" where
  "after_first c s = (if c \<in> set s then tl (dropWhile (\<lambda>x. x \<noteq> c) s) else s)"

section \<open>Numbers from text\<close>

definition is_digit :: "char \<Rightarrow> bool" where
  "is_digit c = (let n = (of_char c :: nat) in 48 \<le> n \<and> n \<le> 57)"

definition digit_value :: "char \<Rightarrow> nat" where
  "digit_value c = (of_char c :: nat) - 48"

definition digits_value :: "string \<Rightarrow> nat" where
  "digits_value s = foldl (\<lambda>a c. 10 * a + digit_value c) 0 s"

text \<open>Digits with single underscores between them, the underscores removed.\<close>

fun digit_part :: "string \<Rightarrow> string option" where
  "digit_part [] = None"
| "digit_part [c] = (if is_digit c then Some [c] else None)"
| "digit_part (c # d # s) =
     (if \<not> is_digit c then None
      else if d = CHR ''_'' then map_option (Cons c) (digit_part s)
      else map_option (Cons c) (digit_part (d # s)))"

fun split_sign :: "string \<Rightarrow> int \<times> string" where
  "split_sign (c # s) = (if c = CHR ''-'' then (- 1, s) else if c = CHR ''+'' then (1, s) else (1, c # s))"
| "split_sign [] = (1, [])"

text \<open>\<open>int(text)\<close> and \<open>float(text)\<close>; \<open>None\<close> is a \<open>ValueError\<close>.\<close>

definition parse_int :: "string \<Rightarrow> int option" where
  "parse_int text = (case split_sign (strip text) of (sg, ds) \<Rightarrow>
     map_option (\<lambda>d. sg * int (digits_value d)) (digit_part ds))"

definition opt_digits :: "string \<Rightarrow> string option" where
  "opt_digits s = (if s = [] then Some [] else digit_part s)"

definition parse_decimal :: "string \<Rightarrow> rat option" where
  "parse_decimal s =
     (let mantissa = takeWhile (\<lambda>c. c \<noteq> CHR ''e'') s;
          whole = takeWhile (\<lambda>c. c \<noteq> CHR ''.'') mantissa;
          frac = drop (Suc (length whole)) mantissa;
          expo = drop (Suc (length mantissa)) s;
          has_exp = CHR ''e'' \<in> set s
      in if whole = [] \<and> frac = [] then None
      else case (opt_digits whole, opt_digits frac) of
        (Some w, Some f) \<Rightarrow>
          (let m = (of_nat (digits_value (w @ f)) :: rat) / 10 ^ length f in
           if \<not> has_exp then Some m
           else case split_sign expo of (sg, ds) \<Rightarrow>
             (case digit_part ds of None \<Rightarrow> None
              | Some d \<Rightarrow> Some (if sg < 0 then m / 10 ^ digits_value d else m * 10 ^ digits_value d)))
      | _ \<Rightarrow> None)"

definition parse_float :: "string \<Rightarrow> pyfloat option" where
  "parse_float text = (case split_sign (casefold (strip text)) of (sg, body) \<Rightarrow>
     if body = ''nan'' then Some NaN
     else if body = ''inf'' \<or> body = ''infinity'' then Some (if sg < 0 then NegInf else PosInf)
     else map_option (\<lambda>q. Fin (of_int sg * q)) (parse_decimal body))"

text \<open>\<open>float(v)\<close>, \<open>int(v)\<close> and \<open>v[key]\<close> on arbitrary values.\<close>

fun py_float_of :: "pyval \<Rightarrow> pyfloat res" where
  "py_float_of (VStr s) = (case parse_float s of Some f \<Rightarrow> Inr f
     | None \<Rightarrow> Inl (ValueError ''could not convert string to float''))"
| "py_float_of v = (case py_num v of Some f \<Rightarrow> Inr f
     | None \<Rightarrow> Inl (TypeError ''float() argument must be a string or a real number''))"

definition trunc_rat :: "rat \<Rightarrow> int" where
  "trunc_rat q = (if 0 \<le> q then \<lfloor>q\<rfloor> else \<lceil>q\<rceil>)"

fun py_int_of :: "pyval \<Rightarrow> int res" where
  "py_int_of (VInt i) = Inr i"
| "py_int_of (VBool b) = Inr (if b then 1 else 0)"
| "py_int_of (VFloat (Fin q)) = Inr (trunc_rat q)"
| "py_int_of (VFloat NaN) = Inl (ValueError ''cannot convert float NaN to integer'')"
| "py_int_of (VFloat _) = Inl (OverflowError ''cannot convert float infinity to integer'')"
| "py_int_of (VStr s) = (case parse_int s of Some i \<Rightarrow> Inr i
     | None \<Rightarrow> Inl (ValueError ''invalid literal for int() with base 10''))"
| "py_int_of _ = Inl (TypeError ''int() argument must be a string or a real number'')"

definition py_index :: "pyval \<Rightarrow> string \<Rightarrow> pyval res" where
  "py_index v k = (case v of
     VDict d \<Rightarrow> (case map_of d k of Some w \<Rightarrow> Inr w | None \<Rightarrow> Inl (KeyError k))
   | _ \<Rightarrow> Inl (TypeError ''indices must be integers''))"

section \<open>Insertion-ordered dictionaries\<close>

text \<open>
  \<open>d[k] = v\<close> is \<open>AList.update\<close> (a present key keeps its position), \<open>del d[k]\<close> is
  \<open>AList.delete\<close>, \<open>d[k]\<close> and \<open>d.get(k)\<close> are \<open>map_of\<close>.
\<close>

locale dictionary =
  fixes get :: "'d \<Rightarrow> 'k \<Rightarrow> 'v option"
    and put :: "'k \<Rightarrow> 'v \<Rightarrow> 'd \<Rightarrow> 'd"
    and del :: "'k \<Rightarrow> 'd \<Rightarrow> 'd"
    and wf :: "'d \<Rightarrow> bool"
  assumes get_put: "get (put k v d) k' = (if k' = k then Some v else get d k')"
    and get_del: "wf d \<Longrightarrow> get (del k d) k' = (if k' = k then None else get d k')"
    and wf_put: "wf d \<Longrightarrow> wf (put k v d)"
    and wf_del: "wf d \<Longrightarrow> wf (del k d)"
begin

lemma get_put_same: "get (put k v d) k = Some v"
  by (simp add: get_put)

lemma get_put_other: "k' \<noteq> k \<Longrightarrow> get (put k v d) k' = get d k'"
  by (simp add: get_put)

lemma get_del_same: "wf d \<Longrightarrow> get (del k d) k = None"
  by (simp add: get_del)

lemma get_del_other: "wf d \<Longrightarrow> k' \<noteq> k \<Longrightarrow> get (del k d) k' = get d k'"
  by (simp add: get_del)

lemma del_put_get: "wf d \<Longrightarrow> get (del k (put k v d)) = (get d)(k := None)"
  by (auto simp: get_del wf_put get_put)

end

definition wf_dict :: "('k \<times> 'v) list \<Rightarrow> bool" where
  "wf_dict d = distinct (map fst d)"

interpretation alist: dictionary map_of AList.update AList.delete wf_dict
proof
  show "wf_dict d \<Longrightarrow> wf_dict (AList.update k v d)" for d :: "('a \<times> 'b) list" and k v
    unfolding wf_dict_def by (rule distinct_update)
  show "wf_dict d \<Longrightarrow> wf_dict (AList.delete k d)" for d :: "('a \<times> 'b) list" and k
    unfolding wf_dict_def by (rule distinct_delete)
qed (auto simp: update_conv' delete_conv')

section \<open>Bounded buffers\<close>

text \<open>
  \<open>deque(maxlen=n)\<close> drops its oldest element when full; the event queue of the supervisor
  does the same by hand (\<open>get_nowait\<close> before \<open>put_nowait\<close>). Both promise a bound and that
  the newest element is kept.
\<close>

locale bounded_buffer =
  fixes push :: "'a \<Rightarrow> 'a list \<Rightarrow> 'a list"
    and cap :: nat
  assumes push_eq: "push x xs = (if length xs < cap then xs @ [x] else drop (Suc (length xs) - cap) (xs @ [x]))"
    and cap_pos: "0 < cap"
begin

lemma push_length: "length xs \<le> cap \<Longrightarrow> length (push x xs) \<le> cap"
  by (auto simp: push_eq)

lemma push_last: "push x xs \<noteq> [] \<and> last (push x xs) = x"
  using cap_pos by (auto simp: push_eq)

lemma push_all_length: "length xs \<le> cap \<Longrightarrow> length (fold push ys xs) \<le> cap"
  by (induction ys arbitrary: xs) (auto simp: push_length)

lemma push_suffix: "\<exists>pre. xs @ [x] = pre @ push x xs"
proof (cases "length xs < cap")
  case True
  then show ?thesis by (simp add: push_eq)
next
  case False
  have "xs @ [x] = take (Suc (length xs) - cap) (xs @ [x]) @ drop (Suc (length xs) - cap) (xs @ [x])"
    by (rule append_take_drop_id [symmetric])
  with False show ?thesis by (metis push_eq)
qed

lemma push_all_suffix: "\<exists>pre. xs @ ys = pre @ fold push ys xs"
proof (induction ys arbitrary: xs)
  case Nil
  show ?case by simp
next
  case (Cons y ys)
  obtain p where p: "xs @ [y] = p @ push y xs" using push_suffix by blast
  obtain q where q: "push y xs @ ys = q @ fold push ys (push y xs)" using Cons by blast
  have "xs @ y # ys = (xs @ [y]) @ ys" by simp
  also have "\<dots> = (p @ q) @ fold push ys (push y xs)" by (simp only: p append.assoc q)
  finally show ?case by (intro exI [of _ "p @ q"]) simp
qed

end

definition deque_push :: "nat \<Rightarrow> 'a \<Rightarrow> 'a list \<Rightarrow> 'a list" where
  "deque_push n x xs = (let ys = xs @ [x] in drop (length ys - n) ys)"

lemma deque_push_buffer: "0 < n \<Longrightarrow> bounded_buffer (deque_push n) n"
  by unfold_locales (auto simp: deque_push_def Let_def)

section \<open>Event-driven machines and their invariants\<close>

locale invariant_machine =
  fixes step :: "'e \<Rightarrow> 's \<Rightarrow> 's"
    and inv :: "'s \<Rightarrow> bool"
  assumes step_inv: "inv s \<Longrightarrow> inv (step e s)"
begin

lemma run_inv: "inv s \<Longrightarrow> inv (fold step es s)"
  by (induction es arbitrary: s) (auto simp: step_inv)

lemma every_prefix_inv: "inv s \<Longrightarrow> inv (fold step (take n es) s)"
  by (rule run_inv)

end

section \<open>Generic facts\<close>

lemma map_of_update_same [simp]: "map_of (AList.update k v d) k = Some v"
  by (simp add: update_conv')

lemma map_of_update_other [simp]: "k' \<noteq> k \<Longrightarrow> map_of (AList.update k v d) k' = map_of d k'"
  by (simp add: update_conv')

lemma fst_set_update: "fst ` set (AList.update k v d) = insert k (fst ` set d)"
  by (induction d) auto

lemma map_of_None_notin: "map_of d k = None \<longleftrightarrow> k \<notin> fst ` set d"
  by (auto simp: map_of_eq_None_iff)

lemma dhas_iff: "dhas d k \<longleftrightarrow> k \<in> fst ` set d"
  by (simp add: dhas_def map_of_None_notin)

lemma fst_set_delete: "fst ` set (AList.delete k d) = fst ` set d - {k}"
  by (induction d) auto

lemma in_set_delete: "(a, b) \<in> set (AList.delete k d) \<longleftrightarrow> (a, b) \<in> set d \<and> a \<noteq> k"
  by (auto simp: AList.delete_eq)

lemma in_set_update: "(a, b) \<in> set (AList.update k v d) \<Longrightarrow> (a = k \<and> b = v) \<or> (a, b) \<in> set d"
  by (induction d) (auto split: if_splits)

lemma in_set_update_other: "wf_dict d \<Longrightarrow> (a, b) \<in> set (AList.update k v d) \<Longrightarrow> a \<noteq> k \<or> b = v"
  unfolding wf_dict_def by (induction d) (force split: if_splits)+

lemma update_new: "map_of d k = None \<Longrightarrow> AList.update k v d = d @ [(k, v)]"
  by (induction d) (auto split: if_splits)

lemma find_in_append: "List.find P (xs @ ys) = (case List.find P xs of Some x \<Rightarrow> Some x | None \<Rightarrow> List.find P ys)"
  by (induction xs) auto

lemma find_unique:
  assumes "p \<in> set ps" and "\<forall>q\<in>set ps. f q = f p \<longrightarrow> q = p"
  shows "List.find (\<lambda>q. f q = f p) ps = Some p"
proof -
  obtain q where q: "List.find (\<lambda>q. f q = f p) ps = Some q"
    using assms(1) by (cases "List.find (\<lambda>q. f q = f p) ps") (auto simp: find_None_iff)
  then have "q \<in> set ps" "f q = f p" by (auto simp: find_Some_iff)
  then show ?thesis using assms(2) q by simp
qed

text \<open>A comprehension whose elements may raise stops at the first that does.\<close>

fun map_res :: "('a \<Rightarrow> 'b res) \<Rightarrow> 'a list \<Rightarrow> 'b list res" where
  "map_res f [] = Inr []"
| "map_res f (x # xs) = rbind (f x) (\<lambda>y. rbind (map_res f xs) (\<lambda>ys. Inr (y # ys)))"

lemma map_res_member: "map_res f xs = Inr ys \<Longrightarrow> x \<in> set xs \<Longrightarrow> \<exists>y\<in>set ys. f x = Inr y"
  by (induction xs arbitrary: ys) (auto simp: rbind_eq_Inr)

lemma map_res_image: "map_res f xs = Inr ys \<Longrightarrow> y \<in> set ys \<Longrightarrow> \<exists>x\<in>set xs. f x = Inr y"
  by (induction xs arbitrary: ys) (auto simp: rbind_eq_Inr)

lemma map_res_map: "(\<And>x. x \<in> set xs \<Longrightarrow> f x = Inr (g x)) \<Longrightarrow> map_res f xs = Inr (map g xs)"
  by (induction xs) auto

lemma map_res_all2: "map_res f xs = Inr ys \<Longrightarrow> list_all2 (\<lambda>x y. f x = Inr y) xs ys"
  by (induction xs arbitrary: ys) (auto simp: rbind_eq_Inr)

end
