(* ===== verification/Thermal.thy ===== *)
theory Thermal
  imports Prelude
begin

text \<open>
  The thermal policy (\<open>thermal.py\<close>): the critical safety guard, the policy configuration and
  its validation, the hysteresis state machine, the capacity each state allows, and the
  admission controller. Temperatures and intervals are \<open>pyfloat\<close>; readings of the process's
  monotonic clock are rationals. Wall-clock strings are passed in.
\<close>

section \<open>The critical safety guard\<close>

definition GPU_START_LIMIT_C :: pyfloat where "GPU_START_LIMIT_C = Fin 55"
definition CPU_START_LIMIT_C :: pyfloat where "CPU_START_LIMIT_C = Fin 75"
definition GPU_TERMINATE_LIMIT_C :: pyfloat where "GPU_TERMINATE_LIMIT_C = Fin 80"
definition CPU_TERMINATE_LIMIT_C :: pyfloat where "CPU_TERMINATE_LIMIT_C = Fin 95"
definition MIN_CREDIBLE_C :: pyfloat where "MIN_CREDIBLE_C = Fin (- 20)"
definition MAX_CREDIBLE_C :: pyfloat where "MAX_CREDIBLE_C = Fin 125"

lemmas limit_defs [thermal_defs] =
  GPU_START_LIMIT_C_def CPU_START_LIMIT_C_def GPU_TERMINATE_LIMIT_C_def CPU_TERMINATE_LIMIT_C_def
  MIN_CREDIBLE_C_def MAX_CREDIBLE_C_def

record temperature_snapshot =
  gpu_edge_celsius :: pyfloat
  cpu_package_celsius :: pyfloat

datatype thermal_guard_error = ThermalGuardError string string "temperature_snapshot option"

text \<open>What the injected reader did: returned, raised the guard's own error, raised another.\<close>

datatype reader_outcome =
    ReaderReturned temperature_snapshot
  | ReaderGuardError thermal_guard_error
  | ReaderRaised string

definition guard_sample :: "reader_outcome \<Rightarrow> thermal_guard_error + temperature_snapshot" where
  "guard_sample r = (case r of
       ReaderReturned s \<Rightarrow> Inr s
     | ReaderGuardError e \<Rightarrow> Inl e
     | ReaderRaised _ \<Rightarrow> Inl (ThermalGuardError ''thermal_monitor_unavailable''
         ''Required GPU and CPU temperature sensors are unavailable.'' None))"

definition require_start_safe :: "reader_outcome \<Rightarrow> thermal_guard_error + temperature_snapshot" where
  "require_start_safe r = rbind (guard_sample r) (\<lambda>s.
     if GPU_START_LIMIT_C < gpu_edge_celsius s \<or> CPU_START_LIMIT_C < cpu_package_celsius s
     then Inl (ThermalGuardError ''thermal_cooldown_required''
            ''The system must cool before local inference can begin.'' (Some s))
     else Inr s)"

definition termination_reason ::
  "reader_outcome \<Rightarrow> temperature_snapshot option
     \<Rightarrow> thermal_guard_error + (string \<times> temperature_snapshot) option" where
  "termination_reason r snapshot =
     rbind (case snapshot of Some s \<Rightarrow> Inr s | None \<Rightarrow> guard_sample r) (\<lambda>s.
       if GPU_TERMINATE_LIMIT_C \<le> gpu_edge_celsius s then Inr (Some (''gpu_thermal_limit'', s))
       else if CPU_TERMINATE_LIMIT_C \<le> cpu_package_celsius s then Inr (Some (''cpu_thermal_limit'', s))
       else Inr None)"

section \<open>Enumerations\<close>

datatype thermal_state = NORMAL | WARM | HOT | VERY_HOT | CRITICAL | TELEMETRY_DEGRADED

fun thermal_state_value :: "thermal_state \<Rightarrow> string" where
  "thermal_state_value NORMAL = ''normal''"
| "thermal_state_value WARM = ''warm''"
| "thermal_state_value HOT = ''hot''"
| "thermal_state_value VERY_HOT = ''very_hot''"
| "thermal_state_value CRITICAL = ''critical''"
| "thermal_state_value TELEMETRY_DEGRADED = ''telemetry_degraded''"

definition thermal_states :: "thermal_state list" where
  "thermal_states = [NORMAL, WARM, HOT, VERY_HOT, CRITICAL, TELEMETRY_DEGRADED]"

text \<open>\<open>ThermalState(value)\<close>: the member with that value, a \<open>ValueError\<close> otherwise.\<close>

definition parse_thermal_state :: "pyval \<Rightarrow> thermal_state res" where
  "parse_thermal_state v =
     (case find (\<lambda>s. eq_str v (thermal_state_value s)) thermal_states of
        Some s \<Rightarrow> Inr s | None \<Rightarrow> Inl (ValueError ''is not a valid ThermalState''))"

datatype workload_class =
  LIGHT_CONTROL | INTERACTIVE | BACKGROUND | BENCHMARK | MODEL_LOAD | HEAVY_INFERENCE

datatype admission_action = ALLOW | ALLOW_DEGRADED | QUEUE | PAUSE | REJECT_RETRYABLE | CANCEL

fun admission_action_value :: "admission_action \<Rightarrow> string" where
  "admission_action_value ALLOW = ''allow''"
| "admission_action_value ALLOW_DEGRADED = ''allow_degraded''"
| "admission_action_value QUEUE = ''queue''"
| "admission_action_value PAUSE = ''pause''"
| "admission_action_value REJECT_RETRYABLE = ''reject_retryable''"
| "admission_action_value CANCEL = ''cancel''"

section \<open>Policy configuration\<close>

record thermal_config =
  tc_enabled :: bool
  tc_sensor_id :: "string option"
  warm_threshold_c :: pyfloat
  hot_threshold_c :: pyfloat
  very_hot_threshold_c :: pyfloat
  critical_threshold_c :: pyfloat
  warm_recovery_c :: pyfloat
  hot_recovery_c :: pyfloat
  very_hot_recovery_c :: pyfloat
  telemetry_stale_seconds :: pyfloat
  poll_interval_seconds :: pyfloat
  minimum_state_dwell_seconds :: pyfloat
  recovery_step_seconds :: pyfloat
  recovery_reading_count :: int
  configured_heavy_concurrency :: int
  configured_background_concurrency :: int
  warm_scene_interval_seconds :: pyfloat
  hot_scene_interval_seconds :: pyfloat
  stop_automatic_scene_when_very_hot :: bool
  host_policy_status_enabled :: bool
  host_policy_service_name :: string

definition default_thermal_config :: thermal_config where
  "default_thermal_config = \<lparr>
     tc_enabled = True, tc_sensor_id = None,
     warm_threshold_c = Fin 75, hot_threshold_c = Fin 80,
     very_hot_threshold_c = Fin 83, critical_threshold_c = Fin 85,
     warm_recovery_c = Fin 72, hot_recovery_c = Fin 76, very_hot_recovery_c = Fin 79,
     telemetry_stale_seconds = Fin 15, poll_interval_seconds = Fin 5,
     minimum_state_dwell_seconds = Fin 30, recovery_step_seconds = Fin 30,
     recovery_reading_count = 3, configured_heavy_concurrency = 2,
     configured_background_concurrency = 1, warm_scene_interval_seconds = Fin 5,
     hot_scene_interval_seconds = Fin 10, stop_automatic_scene_when_very_hot = True,
     host_policy_status_enabled = True,
     host_policy_service_name = ''framework-thermal-policy.service''\<rparr>"

definition service_name_characters :: string where
  "service_name_characters =
     ''abcdefghijklmnopqrstuvwxyzABCDEFGHIJKLMNOPQRSTUVWXYZ0123456789@_.-''"

text \<open>\<open>ThermalPolicyConfig.__post_init__\<close>.\<close>

definition thermal_config_post_init :: "thermal_config \<Rightarrow> unit res" where
  "thermal_config_post_init c =
     (let w = warm_threshold_c c; h = hot_threshold_c c; v = very_hot_threshold_c c;
          k = critical_threshold_c c; wr = warm_recovery_c c; hr = hot_recovery_c c;
          vr = very_hot_recovery_c c in
      if \<not> list_all isfinite [w, h, v, k, wr, hr, vr]
      then Inl (ValueError ''Thermal thresholds must be finite numbers'')
      else if \<not> (MIN_CREDIBLE_C < w \<and> w < h \<and> h < v \<and> v < k \<and> k \<le> MAX_CREDIBLE_C)
      then Inl (ValueError ''Thermal entry thresholds must be ordered warm < hot < very hot < critical'')
      else if \<not> (MIN_CREDIBLE_C < wr \<and> wr < hr \<and> hr < vr \<and> wr < w \<and> hr < h \<and> vr < v)
      then Inl (ValueError ''Thermal recovery thresholds must be ordered and below their entry thresholds'')
      else if telemetry_stale_seconds c \<le> Fin 0 \<or> poll_interval_seconds c \<le> Fin 0
      then Inl (ValueError ''Thermal telemetry and polling intervals must be greater than zero'')
      else if minimum_state_dwell_seconds c < Fin 0 \<or> recovery_step_seconds c < Fin 0
      then Inl (ValueError ''Thermal dwell and recovery intervals cannot be negative'')
      else if recovery_reading_count c < 1
      then Inl (ValueError ''Thermal recovery requires at least one reading'')
      else if configured_heavy_concurrency c < 1 \<or> configured_background_concurrency c < 1
      then Inl (ValueError ''Configured thermal concurrency must be at least one'')
      else if host_policy_service_name c = [] \<or>
              list_ex (\<lambda>ch. ch \<notin> set service_name_characters) (host_policy_service_name c)
      then Inl (ValueError ''Host policy service name contains unsupported characters'')
      else Inr ())"

definition valid_config :: "thermal_config \<Rightarrow> bool" where
  "valid_config c = is_ok (thermal_config_post_init c)"

section \<open>Workloads\<close>

record workload_request =
  workload_id :: string
  wr_class :: workload_class
  wr_automatic :: bool
  wr_backend :: "string option"
  wr_model :: "string option"

definition classify_workload :: "string \<Rightarrow> bool \<Rightarrow> workload_class" where
  "classify_workload operation automatic =
     (let normalised = casefold (strip operation) in
      if normalised \<in> {''health'', ''status'', ''metrics'', ''cancel'', ''logs''} then LIGHT_CONTROL
      else if normalised \<in> {''benchmark'', ''compatibility_test'', ''stability_test''} then BENCHMARK
      else if normalised \<in> {''worker_start'', ''model_load'', ''preload''} then MODEL_LOAD
      else if automatic then BACKGROUND
      else if normalised \<in> {''chat'', ''completion'', ''scene_analysis'', ''translation'', ''speech'',
                             ''refinement'', ''diffusion''} then INTERACTIVE
      else HEAVY_INFERENCE)"

record thermal_capacity =
  heavy_inference_concurrency :: int
  model_load_concurrency :: int
  background_concurrency :: int

definition capacity_for_state :: "thermal_config \<Rightarrow> thermal_state \<Rightarrow> thermal_capacity" where
  "capacity_for_state c s =
     (if \<not> tc_enabled c \<or> s = NORMAL
      then \<lparr>heavy_inference_concurrency = configured_heavy_concurrency c,
            model_load_concurrency = 1,
            background_concurrency = configured_background_concurrency c\<rparr>
      else if s = WARM
      then \<lparr>heavy_inference_concurrency = configured_heavy_concurrency c,
            model_load_concurrency = 1, background_concurrency = 0\<rparr>
      else if s \<in> {HOT, TELEMETRY_DEGRADED}
      then \<lparr>heavy_inference_concurrency = 1, model_load_concurrency = 0, background_concurrency = 0\<rparr>
      else \<lparr>heavy_inference_concurrency = 0, model_load_concurrency = 0, background_concurrency = 0\<rparr>)"

section \<open>The state machine\<close>

text \<open>
  A reading's \<open>celsius\<close> field is checked with \<open>isinstance\<close> by the code, so it is a Python
  value here; every other use of it comes after that check.
\<close>

record thermal_reading =
  tr_sensor_id :: string
  tr_celsius :: pyval
  tr_observed_monotonic :: rat

fun celsius_of :: "pyval \<Rightarrow> pyfloat" where
  "celsius_of (VInt i) = Fin (of_int i)"
| "celsius_of (VFloat f) = f"
| "celsius_of _ = NaN"

record thermal_transition =
  tt_timestamp :: string
  tt_previous_state :: thermal_state
  tt_new_state :: thermal_state
  tt_temperature_c :: "pyval option"
  tt_sensor_id :: "string option"
  tt_telemetry_age_seconds :: "pyfloat option"
  tt_reason_code :: string

record thermal_machine =
  tm_state :: thermal_state
  tm_state_entered_monotonic :: rat
  tm_last_recovery_monotonic :: rat
  tm_reading :: "thermal_reading option"
  tm_reason_code :: string
  tm_recovery_readings :: int
  tm_transitions :: "thermal_transition list"
  tm_last_observation :: "(string \<times> rat) option"
  tm_selected_sensor_id :: "string option"

text \<open>A poll happens at a monotonic time and stamps transitions with a wall-clock string.\<close>

record clock =
  monotonic :: rat
  wall :: string

definition thermal_init :: "thermal_config \<Rightarrow> rat \<Rightarrow> thermal_machine" where
  "thermal_init c now = \<lparr>
     tm_state = (if tc_enabled c then TELEMETRY_DEGRADED else NORMAL),
     tm_state_entered_monotonic = now,
     tm_last_recovery_monotonic = now,
     tm_reading = None,
     tm_reason_code = (if tc_enabled c then ''awaiting_fresh_telemetry'' else ''thermal_throttling_disabled''),
     tm_recovery_readings = 0,
     tm_transitions = [],
     tm_last_observation = None,
     tm_selected_sensor_id = tc_sensor_id c\<rparr>"

definition telemetry_age :: "thermal_machine \<Rightarrow> rat \<Rightarrow> pyfloat option" where
  "telemetry_age m now = (case tm_reading m of None \<Rightarrow> None
     | Some r \<Rightarrow> Some (pymax (Fin 0) (Fin (now - tr_observed_monotonic r))))"

definition invalid_reason :: "thermal_config \<Rightarrow> thermal_machine \<Rightarrow> thermal_reading option \<Rightarrow> rat \<Rightarrow> string option" where
  "invalid_reason c m rd now = (case rd of
     None \<Rightarrow> Some ''thermal_telemetry_unavailable''
   | Some r \<Rightarrow>
      if tr_sensor_id r = [] then Some ''thermal_sensor_missing''
      else if tm_selected_sensor_id m \<noteq> None \<and> Some (tr_sensor_id r) \<noteq> tm_selected_sensor_id m
      then Some ''thermal_sensor_identity_changed''
      else if (case tr_celsius r of VInt _ \<Rightarrow> False | VFloat _ \<Rightarrow> False | _ \<Rightarrow> True)
              \<or> \<not> isfinite (celsius_of (tr_celsius r))
              \<or> \<not> (MIN_CREDIBLE_C \<le> celsius_of (tr_celsius r) \<and> celsius_of (tr_celsius r) \<le> MAX_CREDIBLE_C)
      then Some ''thermal_reading_invalid''
      else (let age = now - tr_observed_monotonic r in
        if age < 0 then Some ''thermal_clock_invalid''
        else if telemetry_stale_seconds c < Fin age then Some ''thermal_telemetry_stale''
        else None))"

definition entry_state :: "thermal_config \<Rightarrow> pyfloat \<Rightarrow> thermal_state" where
  "entry_state c t =
     (if critical_threshold_c c \<le> t then CRITICAL
      else if very_hot_threshold_c c \<le> t then VERY_HOT
      else if hot_threshold_c c \<le> t then HOT
      else if warm_threshold_c c \<le> t then WARM
      else NORMAL)"

text \<open>\<open>_SEVERITY\<close> has no entry for the degraded state.\<close>

fun severity :: "thermal_state \<Rightarrow> nat option" where
  "severity NORMAL = Some 0"
| "severity WARM = Some 1"
| "severity HOT = Some 2"
| "severity VERY_HOT = Some 3"
| "severity CRITICAL = Some 4"
| "severity TELEMETRY_DEGRADED = None"

definition more_severe :: "thermal_state \<Rightarrow> thermal_state \<Rightarrow> bool" where
  "more_severe t s = (case (severity t, severity s) of (Some a, Some b) \<Rightarrow> b < a | _ \<Rightarrow> False)"

definition transition :: "clock \<Rightarrow> thermal_state \<Rightarrow> string \<Rightarrow> thermal_machine \<Rightarrow> thermal_machine" where
  "transition k s reason m =
     (let m1 = m\<lparr>tm_reason_code := reason\<rparr> in
      if s = tm_state m1 then m1
      else m1\<lparr>tm_state := s,
              tm_state_entered_monotonic := monotonic k,
              tm_last_recovery_monotonic := monotonic k,
              tm_recovery_readings := 0,
              tm_transitions := tm_transitions m1 @ [\<lparr>
                tt_timestamp = wall k,
                tt_previous_state = tm_state m1,
                tt_new_state = s,
                tt_temperature_c = map_option tr_celsius (tm_reading m1),
                tt_sensor_id = (case tm_reading m1 of Some r \<Rightarrow> Some (tr_sensor_id r)
                                | None \<Rightarrow> tm_selected_sensor_id m1),
                tt_telemetry_age_seconds = telemetry_age m1 (monotonic k),
                tt_reason_code = reason\<rparr>]\<rparr>)"

definition recovery_ready :: "thermal_config \<Rightarrow> thermal_machine \<Rightarrow> rat \<Rightarrow> bool" where
  "recovery_ready c m now =
     (recovery_reading_count c \<le> tm_recovery_readings m
      \<and> minimum_state_dwell_seconds c \<le> Fin (now - tm_state_entered_monotonic m)
      \<and> recovery_step_seconds c \<le> Fin (now - tm_last_recovery_monotonic m))"

definition recover_from_degraded :: "thermal_config \<Rightarrow> clock \<Rightarrow> thermal_state \<Rightarrow> thermal_machine \<Rightarrow> thermal_machine" where
  "recover_from_degraded c k target m0 =
     (let m = m0\<lparr>tm_recovery_readings := tm_recovery_readings m0 + 1\<rparr> in
      if target \<in> {VERY_HOT, HOT}
      then transition k target (thermal_state_value target @ ''_threshold_exceeded'') m
      else if recovery_ready c m (monotonic k) then transition k target ''fresh_telemetry_restored'' m
      else m)"

fun recovery_step :: "thermal_config \<Rightarrow> thermal_state \<Rightarrow> (pyfloat \<times> thermal_state) option" where
  "recovery_step c CRITICAL = Some (very_hot_recovery_c c, VERY_HOT)"
| "recovery_step c VERY_HOT = Some (very_hot_recovery_c c, HOT)"
| "recovery_step c HOT = Some (hot_recovery_c c, WARM)"
| "recovery_step c WARM = Some (warm_recovery_c c, NORMAL)"
| "recovery_step c _ = None"

definition recover_one_step :: "thermal_config \<Rightarrow> clock \<Rightarrow> pyfloat \<Rightarrow> thermal_machine \<Rightarrow> thermal_machine" where
  "recover_one_step c k t m0 = (case recovery_step c (tm_state m0) of
     None \<Rightarrow> m0\<lparr>tm_recovery_readings := 0\<rparr>
   | Some (threshold, target) \<Rightarrow>
      if threshold \<le> t then m0\<lparr>tm_recovery_readings := 0\<rparr>
      else (let m = m0\<lparr>tm_recovery_readings := tm_recovery_readings m0 + 1\<rparr> in
        if recovery_ready c m (monotonic k)
        then transition k target (''recovered_below_'' @ thermal_state_value (tm_state m) @ ''_threshold'') m
        else m))"

text \<open>The part of \<open>update\<close> that runs on a valid reading not seen before.\<close>

definition update_on_fresh :: "thermal_config \<Rightarrow> clock \<Rightarrow> thermal_reading \<Rightarrow> thermal_machine \<Rightarrow> thermal_machine" where
  "update_on_fresh c k r m0 =
     (let m = m0\<lparr>tm_last_observation := Some (tr_sensor_id r, tr_observed_monotonic r),
                 tm_reading := Some r,
                 tm_selected_sensor_id := (case tm_selected_sensor_id m0 of
                    None \<Rightarrow> Some (tr_sensor_id r) | Some s \<Rightarrow> Some s)\<rparr>;
          t = celsius_of (tr_celsius r);
          target = entry_state c t in
      if target = CRITICAL
      then transition k target ''critical_threshold_exceeded'' (m\<lparr>tm_recovery_readings := 0\<rparr>)
      else if tm_state m \<noteq> TELEMETRY_DEGRADED \<and> more_severe target (tm_state m)
      then transition k target (thermal_state_value target @ ''_threshold_exceeded'')
             (m\<lparr>tm_recovery_readings := 0\<rparr>)
      else if tm_state m = TELEMETRY_DEGRADED then recover_from_degraded c k target m
      else recover_one_step c k t m)"

definition thermal_update :: "thermal_config \<Rightarrow> clock \<Rightarrow> thermal_reading option \<Rightarrow> thermal_machine \<Rightarrow> thermal_machine" where
  "thermal_update c k rd m =
     (if \<not> tc_enabled c
      then m\<lparr>tm_state := NORMAL, tm_reason_code := ''thermal_throttling_disabled''\<rparr>
      else (case invalid_reason c m rd (monotonic k) of
        Some why \<Rightarrow> transition k TELEMETRY_DEGRADED why
                      (m\<lparr>tm_reading := rd, tm_recovery_readings := 0\<rparr>)
      | None \<Rightarrow> (case rd of
          None \<Rightarrow> m
        | Some r \<Rightarrow>
           if Some (tr_sensor_id r, tr_observed_monotonic r) = tm_last_observation m then m
           else update_on_fresh c k r m)))"

definition thermal_refresh :: "thermal_config \<Rightarrow> clock \<Rightarrow> thermal_machine \<Rightarrow> thermal_machine" where
  "thermal_refresh c k m =
     (if invalid_reason c m (tm_reading m) (monotonic k) \<noteq> None then thermal_update c k None m else m)"

lemmas machine_defs [thermal_defs] =
  thermal_update_def update_on_fresh_def recover_one_step_def recover_from_degraded_def
  transition_def recovery_ready_def thermal_refresh_def

section \<open>Admission\<close>

record admission_decision =
  ad_action :: admission_action
  ad_reason_code :: string
  ad_reason :: string
  ad_thermal_state :: thermal_state
  ad_temperature_c :: pyval
  ad_suggested_retry_seconds :: "pyfloat option"
  ad_degradation :: pydict
  ad_timestamp :: string
  ad_telemetry_age_seconds :: pyval

definition admission_outcome ::
  "thermal_config \<Rightarrow> workload_request \<Rightarrow> thermal_state \<Rightarrow> int option \<Rightarrow> admission_action \<times> string \<times> string" where
  "admission_outcome c req s active =
     (let w = wr_class req in
      if \<not> tc_enabled c
      then (ALLOW, ''thermal_throttling_disabled'', ''Thermal throttling is disabled.'')
      else if w = LIGHT_CONTROL
      then (ALLOW, ''light_control_allowed'', ''Lightweight control work is permitted.'')
      else if s = CRITICAL
      then (CANCEL, ''critical_thermal_limit'', ''The existing critical thermal limit is active.'')
      else if w \<in> {BACKGROUND, BENCHMARK}
      then (if s \<noteq> NORMAL
            then (PAUSE, ''background_paused_for_thermal_state'',
                  ''Background benchmarking is paused while the Framework Desktop cools.'')
            else (ALLOW, ''thermal_capacity_available'', ''Background capacity is available.''))
      else if w = MODEL_LOAD
      then (if s = WARM \<and> (active = None \<or> 0 < the active)
            then (REJECT_RETRYABLE, ''model_load_blocked_by_active_inference'',
                  ''Model loading cannot overlap heavy inference while thermal mitigation is active.'')
            else if s \<in> {HOT, VERY_HOT, TELEMETRY_DEGRADED}
            then (REJECT_RETRYABLE, ''model_load_blocked_for_thermal_state'',
                  ''Model loading is blocked until safe thermal capacity is restored.'')
            else (ALLOW, ''model_load_serialised'', ''The model load may proceed serially.''))
      else if s = TELEMETRY_DEGRADED
      then (if w = INTERACTIVE \<and> \<not> wr_automatic req
            then (ALLOW_DEGRADED, ''telemetry_degraded_interactive_only'',
                  ''Fresh thermal telemetry is unavailable; only reduced interactive work is permitted.'')
            else (REJECT_RETRYABLE, ''thermal_telemetry_degraded'',
                  ''Fresh thermal telemetry is required for this workload.''))
      else if s = VERY_HOT
      then (if w = INTERACTIVE \<and> \<not> wr_automatic req
            then (REJECT_RETRYABLE, ''cooldown_required'',
                  ''ModelDeck is cooling down and cannot admit new heavy work.'')
            else (PAUSE, ''very_hot_work_paused'', ''The workload is paused for cooldown.''))
      else if s = HOT
      then (if w = INTERACTIVE
            then (ALLOW_DEGRADED, ''hot_interactive_degraded'',
                  ''Interactive work is permitted at reduced thermal capacity.'')
            else (QUEUE, ''hot_heavy_concurrency_limited'', ''Heavy work is queued during hot state.''))
      else if s = WARM \<and> w = INTERACTIVE
      then (ALLOW_DEGRADED, ''warm_interactive_degraded'',
            ''Interactive work is permitted while background activity remains paused.'')
      else (ALLOW, ''thermal_capacity_available'', ''Thermal capacity is available.''))"

definition admission_degradation :: "thermal_config \<Rightarrow> workload_request \<Rightarrow> thermal_state \<Rightarrow> admission_action \<Rightarrow> pydict" where
  "admission_degradation c req s action =
     (if action \<noteq> ALLOW_DEGRADED then []
      else (let interval = (if s \<in> {HOT, TELEMETRY_DEGRADED} then hot_scene_interval_seconds c
                            else warm_scene_interval_seconds c) in
        [(''active'', VBool True),
         (''minimum_frame_interval_seconds'', VFloat interval),
         (''prevent_overlapping_analysis'', VBool True),
         (''automatic_capture_allowed'',
            VBool (\<not> (wr_automatic req \<and> s = VERY_HOT \<and> stop_automatic_scene_when_very_hot c)))]))"

definition evaluate ::
  "thermal_config \<Rightarrow> workload_request \<Rightarrow> thermal_state \<Rightarrow> pyval \<Rightarrow> pyval \<Rightarrow> int option \<Rightarrow> string \<Rightarrow> admission_decision" where
  "evaluate c req s temperature age active timestamp =
     (case admission_outcome c req s active of (action, code, message) \<Rightarrow>
       \<lparr>ad_action = action, ad_reason_code = code, ad_reason = message,
        ad_thermal_state = s, ad_temperature_c = temperature,
        ad_suggested_retry_seconds =
          (if action \<in> {QUEUE, PAUSE, REJECT_RETRYABLE} then Some (recovery_step_seconds c) else None),
        ad_degradation = admission_degradation c req s action,
        ad_timestamp = timestamp, ad_telemetry_age_seconds = age\<rparr>)"

definition decision_as_dict :: "admission_decision \<Rightarrow> pydict" where
  "decision_as_dict d =
     [(''action'', VStr (admission_action_value (ad_action d))),
      (''reason_code'', VStr (ad_reason_code d)),
      (''reason'', VStr (ad_reason d)),
      (''thermal_state'', VStr (thermal_state_value (ad_thermal_state d))),
      (''temperature_c'', ad_temperature_c d),
      (''suggested_retry_seconds'',
         (case ad_suggested_retry_seconds d of None \<Rightarrow> VNone | Some f \<Rightarrow> VFloat f)),
      (''degradation'', VDict (ad_degradation d)),
      (''timestamp'', VStr (ad_timestamp d)),
      (''telemetry_age_seconds'', ad_telemetry_age_seconds d)]"

definition admitted :: "admission_decision \<Rightarrow> bool" where
  "admitted d = (ad_action d \<in> {ALLOW, ALLOW_DEGRADED})"

lemmas admission_defs [thermal_defs] =
  admission_outcome_def admission_degradation_def evaluate_def admitted_def capacity_for_state_def

end
