(* ===== verification/Thermal_Safety.thy ===== *)
theory Thermal_Safety
  imports Thermal
begin

text \<open>
  What the thermal policy guarantees: escalation is immediate, recovery is one level at a time
  after enough readings and dwell, the state never understates a fresh reading, a missing or
  invalid reading degrades at once, the transition log is a chain, and admission never grants
  work for which the state leaves no capacity.
\<close>

section \<open>Library lemmas\<close>

lemma transition_state [simp]: "tm_state (transition k s why m) = s"
  by (simp add: transition_def Let_def)

lemma transition_reading [simp]: "tm_reading (transition k s why m) = tm_reading m"
  by (simp add: transition_def Let_def)

lemma transition_reason [simp]: "tm_reason_code (transition k s why m) = why"
  by (simp add: transition_def Let_def)

lemma transition_sensor [simp]: "tm_selected_sensor_id (transition k s why m) = tm_selected_sensor_id m"
  by (simp add: transition_def Let_def)

lemma transition_log:
  "tm_transitions (transition k s why m) =
     (if s = tm_state m then tm_transitions m
      else tm_transitions m @ [\<lparr>tt_timestamp = wall k, tt_previous_state = tm_state m, tt_new_state = s,
        tt_temperature_c = map_option tr_celsius (tm_reading m),
        tt_sensor_id = (case tm_reading m of Some r \<Rightarrow> Some (tr_sensor_id r) | None \<Rightarrow> tm_selected_sensor_id m),
        tt_telemetry_age_seconds = telemetry_age m (monotonic k), tt_reason_code = why\<rparr>])"
  by (simp add: transition_def Let_def telemetry_age_def split: option.split)

lemma entry_state_not_degraded [simp]: "entry_state c t \<noteq> TELEMETRY_DEGRADED"
  by (simp add: entry_state_def)

lemma severity_None [simp]: "severity s = None \<longleftrightarrow> s = TELEMETRY_DEGRADED"
  by (cases s) auto

lemma valid_configD:
  assumes "valid_config c"
  shows "isfinite (warm_threshold_c c)" "isfinite (hot_threshold_c c)"
    "isfinite (very_hot_threshold_c c)" "isfinite (critical_threshold_c c)"
    "warm_threshold_c c < hot_threshold_c c" "hot_threshold_c c < very_hot_threshold_c c"
    "very_hot_threshold_c c < critical_threshold_c c"
    "warm_recovery_c c < warm_threshold_c c" "hot_recovery_c c < hot_threshold_c c"
    "very_hot_recovery_c c < very_hot_threshold_c c"
    "1 \<le> recovery_reading_count c" "1 \<le> configured_heavy_concurrency c"
    "1 \<le> configured_background_concurrency c"
  using assms
  by (auto simp: valid_config_def thermal_config_post_init_def Let_def is_ok_def
      split: if_splits)

text \<open>The two ways a machine can be below a reading's level.\<close>

definition covers :: "thermal_state \<Rightarrow> thermal_state \<Rightarrow> bool" where
  "covers s target = (s = TELEMETRY_DEGRADED \<or> \<not> more_severe target s)"

lemma more_severe_irrefl [simp]: "\<not> more_severe s s"
  by (simp add: more_severe_def split: option.split)

lemma covers_refl [simp]: "covers s s"
  by (cases s) (auto simp: covers_def more_severe_def)

lemma recovery_target_covers:
  assumes "valid_config c" and "recovery_step c s = Some (threshold, target)" and "\<not> threshold \<le> t"
    and "isfinite t"
  shows "covers target (entry_state c t)"
proof -
  note v = valid_configD [OF assms(1)]
  show ?thesis
  proof (cases s)
    case WARM
    with assms v have "\<not> warm_threshold_c c \<le> t"
      by (metis pyfloat_le_trans pyfloat_less_imp_le recovery_step.simps(4) option.inject prod.inject)
    then show ?thesis using WARM assms v
      by (auto simp: covers_def more_severe_def entry_state_def dest: pyfloat_order)
  next
    case HOT
    with assms v have "\<not> hot_threshold_c c \<le> t"
      by (metis pyfloat_le_trans pyfloat_less_imp_le recovery_step.simps(3) option.inject prod.inject)
    then show ?thesis using HOT assms v
      by (auto simp: covers_def more_severe_def entry_state_def dest: pyfloat_order)
  next
    case VERY_HOT
    with assms v have "\<not> very_hot_threshold_c c \<le> t"
      by (metis pyfloat_le_trans pyfloat_less_imp_le recovery_step.simps(2) option.inject prod.inject)
    then show ?thesis using VERY_HOT assms v
      by (auto simp: covers_def more_severe_def entry_state_def dest: pyfloat_order)
  next
    case CRITICAL
    with assms v have "\<not> very_hot_threshold_c c \<le> t"
      by (metis pyfloat_le_trans pyfloat_less_imp_le recovery_step.simps(1) option.inject prod.inject)
    then show ?thesis using CRITICAL assms v
      by (auto simp: covers_def more_severe_def entry_state_def dest: pyfloat_order)
  qed (use assms in auto)
qed

lemma nothing_above_critical [simp]: "\<not> more_severe s CRITICAL"
  by (cases s) (simp_all add: more_severe_def)


text \<open>A valid reading is finite.\<close>

lemma valid_reading_finite:
  "invalid_reason c m (Some r) now = None \<Longrightarrow> isfinite (celsius_of (tr_celsius r))"
  by (auto simp: invalid_reason_def Let_def split: if_splits)

lemma covers_not_degraded:
  "s \<noteq> TELEMETRY_DEGRADED \<Longrightarrow> covers s t \<longleftrightarrow> \<not> more_severe t s"
  by (simp add: covers_def)

lemma recover_from_degraded_covers:
  "tm_state m = TELEMETRY_DEGRADED \<Longrightarrow> covers (tm_state (recover_from_degraded c k target m)) target"
  by (auto simp: recover_from_degraded_def Let_def covers_def)

lemma recover_one_step_covers:
  assumes "valid_config c" and "isfinite t" and "covers (tm_state m) (entry_state c t)"
  shows "covers (tm_state (recover_one_step c k t m)) (entry_state c t)"
  using assms recovery_target_covers [OF assms(1) _ _ assms(2)]
  by (auto simp: recover_one_step_def Let_def split: option.split)

lemma update_on_fresh_covers:
  assumes "valid_config c" and "isfinite (celsius_of (tr_celsius r))"
  shows "covers (tm_state (update_on_fresh c k r m)) (entry_state c (celsius_of (tr_celsius r)))"
  by (auto simp: update_on_fresh_def Let_def assms covers_not_degraded
      intro!: recover_from_degraded_covers recover_one_step_covers)

section \<open>Escalation and recovery\<close>

text \<open>C1: With throttling enabled, a fresh, valid reading at or above the critical threshold that the policy has
  not seen before puts it into the critical state in the same update, whatever the previous state. From then on
  the admission controller lets lightweight control work through and cancels every other request, whatever
  is active, and the capacity of that state is zero for inference, model loads and background work alike.\<close>

theorem critical_reading_stops_all_work:
  assumes "tc_enabled c"
    and "invalid_reason c m (Some r) (monotonic k) = None"
    and "tm_last_observation m \<noteq> Some (tr_sensor_id r, tr_observed_monotonic r)"
    and "critical_threshold_c c \<le> celsius_of (tr_celsius r)"
  shows "tm_state (thermal_update c k (Some r) m) = CRITICAL
    \<and> capacity_for_state c (tm_state (thermal_update c k (Some r) m)) =
        \<lparr>heavy_inference_concurrency = 0, model_load_concurrency = 0, background_concurrency = 0\<rparr>
    \<and> ad_action (evaluate c req (tm_state (thermal_update c k (Some r) m)) temperature age active timestamp) =
        (if wr_class req = LIGHT_CONTROL then ALLOW else CANCEL)"
proof -
  have "entry_state c (celsius_of (tr_celsius r)) = CRITICAL"
    using assms(4) by (simp add: entry_state_def)
  then have "tm_state (update_on_fresh c k r m) = CRITICAL"
    by (simp add: update_on_fresh_def Let_def)
  then show ?thesis using assms
    by (auto simp: thermal_update_def capacity_for_state_def evaluate_def admission_outcome_def Let_def)
qed

definition example_clock :: "rat \<Rightarrow> clock" where
  "example_clock t = \<lparr>monotonic = t, wall = ''2026-01-01T00:00:00+00:00''\<rparr>"

definition example_reading :: "rat \<Rightarrow> rat \<Rightarrow> thermal_reading" where
  "example_reading t celsius = \<lparr>tr_sensor_id = ''k10temp:Tctl'', tr_celsius = VFloat (Fin celsius),
     tr_observed_monotonic = t\<rparr>"

lemmas example_defs = example_clock_def example_reading_def default_thermal_config_def
  thermal_init_def invalid_reason_def limit_defs

theorem critical_reading_stops_all_work_witness:
  "tm_state (thermal_update default_thermal_config (example_clock 5) (Some (example_reading 5 91))
     (thermal_init default_thermal_config 0)) = CRITICAL"
  using critical_reading_stops_all_work [of default_thermal_config "thermal_init default_thermal_config 0"
      "example_reading 5 91" "example_clock 5"]
  by (simp add: example_defs)

text \<open>C5: After a fresh valid reading the policy never understates it: under a validated
  configuration the new state is either the degraded state or at least as severe as the entry
  state of the reading. In particular a recovery never lands below the level its own reading
  would enter, so repeating the temperature cannot bounce the state straight back up.\<close>

theorem state_never_understates_reading:
  assumes "valid_config c" and "tc_enabled c"
    and "invalid_reason c m (Some r) (monotonic k) = None"
    and "tm_last_observation m \<noteq> Some (tr_sensor_id r, tr_observed_monotonic r)"
  shows "tm_state (thermal_update c k (Some r) m) = TELEMETRY_DEGRADED
    \<or> \<not> more_severe (entry_state c (celsius_of (tr_celsius r))) (tm_state (thermal_update c k (Some r) m))"
proof -
  have "covers (tm_state (update_on_fresh c k r m)) (entry_state c (celsius_of (tr_celsius r)))"
    by (rule update_on_fresh_covers [OF assms(1) valid_reading_finite [OF assms(3)]])
  moreover have "thermal_update c k (Some r) m = update_on_fresh c k r m"
    using assms(2-4) by (auto simp: thermal_update_def)
  ultimately show ?thesis by (simp add: covers_def)
qed

lemma default_config_valid: "valid_config default_thermal_config"
  by code_simp

theorem state_never_understates_reading_witness:
  "\<not> more_severe HOT (tm_state (thermal_update default_thermal_config (example_clock 5)
     (Some (example_reading 5 81)) (thermal_init default_thermal_config 0)))"
proof -
  have "entry_state default_thermal_config (Fin 81) = HOT"
    by (simp add: entry_state_def default_thermal_config_def)
  then show ?thesis
    using state_never_understates_reading [OF default_config_valid, of
      "thermal_init default_thermal_config 0" "example_reading 5 81" "example_clock 5"]
    by (auto simp: example_defs more_severe_def)
qed

text \<open>C12: Recovery is gradual: when an update lowers the severity, it lowers it by exactly one
  level, the reading is below the recovery threshold of the level it leaves, the required number
  of consecutive readings has been seen, and both the dwell time and the recovery interval have
  passed since the last transition.\<close>

theorem recovery_is_gradual:
  assumes "tc_enabled c"
    and lower: "more_severe (tm_state m) (tm_state (thermal_update c k rd m))"
  shows "\<exists>r threshold. rd = Some r
    \<and> recovery_step c (tm_state m) = Some (threshold, tm_state (thermal_update c k rd m))
    \<and> severity (tm_state m) = map_option Suc (severity (tm_state (thermal_update c k rd m)))
    \<and> \<not> threshold \<le> celsius_of (tr_celsius r)
    \<and> recovery_reading_count c \<le> tm_recovery_readings m + 1
    \<and> minimum_state_dwell_seconds c \<le> Fin (monotonic k - tm_state_entered_monotonic m)
    \<and> recovery_step_seconds c \<le> Fin (monotonic k - tm_last_recovery_monotonic m)"
proof -
  have asym: "more_severe s t \<Longrightarrow> \<not> more_severe t s" for s t
    by (auto simp: more_severe_def split: option.splits)
  from lower have nd: "tm_state m \<noteq> TELEMETRY_DEGRADED"
    "tm_state (thermal_update c k rd m) \<noteq> TELEMETRY_DEGRADED"
    by (auto simp: more_severe_def split: option.splits)
  with assms obtain r where r: "rd = Some r" and fresh: "thermal_update c k rd m = update_on_fresh c k r m"
    by (auto simp: thermal_update_def split: option.splits if_splits)
  define t where "t = celsius_of (tr_celsius r)"
  have one: "\<exists>m'. update_on_fresh c k r m = recover_one_step c k t m' \<and> tm_state m' = tm_state m
      \<and> tm_recovery_readings m' = tm_recovery_readings m
      \<and> tm_state_entered_monotonic m' = tm_state_entered_monotonic m
      \<and> tm_last_recovery_monotonic m' = tm_last_recovery_monotonic m"
  proof (intro exI conjI)
    have "entry_state c t \<noteq> CRITICAL" and "\<not> more_severe (entry_state c t) (tm_state m)"
      using lower nd fresh asym [OF lower] by (auto simp: update_on_fresh_def Let_def t_def [symmetric] split: if_splits dest: asym)
    then show "update_on_fresh c k r m = recover_one_step c k t
      (m\<lparr>tm_last_observation := Some (tr_sensor_id r, tr_observed_monotonic r), tm_reading := Some r,
         tm_selected_sensor_id := (case tm_selected_sensor_id m of None \<Rightarrow> Some (tr_sensor_id r) | Some s \<Rightarrow> Some s)\<rparr>)"
      using nd by (simp add: update_on_fresh_def Let_def t_def)
  qed simp_all
  then obtain m' where m': "update_on_fresh c k r m = recover_one_step c k t m'" "tm_state m' = tm_state m"
    "tm_recovery_readings m' = tm_recovery_readings m"
    "tm_state_entered_monotonic m' = tm_state_entered_monotonic m"
    "tm_last_recovery_monotonic m' = tm_last_recovery_monotonic m" by blast
  have "\<exists>threshold. recovery_step c (tm_state m) = Some (threshold, tm_state (update_on_fresh c k r m))
      \<and> \<not> threshold \<le> t
      \<and> recovery_ready c (m'\<lparr>tm_recovery_readings := tm_recovery_readings m' + 1\<rparr>) (monotonic k)"
    using lower nd unfolding fresh m'(1)
    by (auto simp: recover_one_step_def Let_def m'(2) split: option.splits if_splits)
  moreover have "recovery_step c s = Some (th, s') \<Longrightarrow> severity s = map_option Suc (severity s')" for s s' th
    by (cases s) auto
  ultimately show ?thesis
    using r m'(2-5) unfolding fresh t_def recovery_ready_def by auto
qed

theorem recovery_is_gradual_witness:
  "\<exists>m k r. tm_state m = VERY_HOT
     \<and> tm_state (thermal_update default_thermal_config k (Some r) m) = HOT
     \<and> severity (tm_state m) = map_option Suc
          (severity (tm_state (thermal_update default_thermal_config k (Some r) m)))"
proof -
  define m where "m = (thermal_init default_thermal_config 0)\<lparr>tm_state := VERY_HOT, tm_recovery_readings := 2\<rparr>"
  define k where "k = example_clock 40"
  define r where "r = example_reading 40 70"
  have u: "tm_state (thermal_update default_thermal_config k (Some r) m) = HOT"
    by (simp add: m_def k_def r_def example_defs thermal_update_def update_on_fresh_def Let_def
        recover_one_step_def recovery_ready_def entry_state_def more_severe_def)
  have "tm_state m = VERY_HOT" by (simp add: m_def)
  moreover have "severity (tm_state m) = map_option Suc
      (severity (tm_state (thermal_update default_thermal_config k (Some r) m)))"
    using recovery_is_gradual [of default_thermal_config m k "Some r"] u \<open>tm_state m = VERY_HOT\<close>
    by (simp add: more_severe_def default_thermal_config_def)
  ultimately show ?thesis using u by blast
qed

section \<open>Missing or invalid telemetry\<close>

text \<open>What makes a reading unusable, apart from the code's own check: there is none, its sensor has no name or is
  not the one selected, its temperature is no number, not finite or outside -20 to 125 degrees, or it was
  taken after the present or longer ago than the staleness limit.\<close>

inductive unusable :: "thermal_config \<Rightarrow> thermal_machine \<Rightarrow> rat \<Rightarrow> thermal_reading option \<Rightarrow> bool"
  for c :: thermal_config and m :: thermal_machine and now :: rat where
  no_reading: "unusable c m now None"
| nameless: "tr_sensor_id r = [] \<Longrightarrow> unusable c m now (Some r)"
| foreign: "tm_selected_sensor_id m = Some i \<Longrightarrow> i \<noteq> tr_sensor_id r \<Longrightarrow> unusable c m now (Some r)"
| no_number: "\<forall>n. tr_celsius r \<noteq> VInt n \<Longrightarrow> \<forall>x. tr_celsius r \<noteq> VFloat x \<Longrightarrow> unusable c m now (Some r)"
| not_finite: "tr_celsius r \<in> {VFloat NaN, VFloat PosInf, VFloat NegInf} \<Longrightarrow> unusable c m now (Some r)"
| incredible: "tr_celsius r = VFloat (Fin t) \<or> tr_celsius r = VInt n \<and> t = of_int n \<Longrightarrow> t < - 20 \<or> 125 < t \<Longrightarrow> unusable c m now (Some r)"
| from_future: "now < tr_observed_monotonic r \<Longrightarrow> unusable c m now (Some r)"
| stale: "telemetry_stale_seconds c = Fin limit \<Longrightarrow> tr_observed_monotonic r + limit < now \<Longrightarrow> unusable c m now (Some r)"

lemma unusable_is_invalid: "unusable c m now rd \<Longrightarrow> \<exists>why. invalid_reason c m rd now = Some why"
  by (induction rule: unusable.induct)
    (auto simp: invalid_reason_def limit_defs Let_def split: pyval.splits option.splits)

text \<open>C30: The policy fails safe: with throttling enabled, every unusable reading (none, without a sensor name or from
  another sensor than the selected one, not a finite number between -20 and 125 degrees, from the future, or
  older than the staleness limit) puts it into the degraded state in the same update, discards the
  recovery progress, and leaves capacity for at most one inference and for no model load and no background work.\<close>

theorem invalid_telemetry_degrades:
  assumes "tc_enabled c" and "unusable c m (monotonic k) rd"
  shows "tm_state (thermal_update c k rd m) = TELEMETRY_DEGRADED
    \<and> tm_recovery_readings (thermal_update c k rd m) = 0
    \<and> capacity_for_state c (tm_state (thermal_update c k rd m)) =
        \<lparr>heavy_inference_concurrency = 1, model_load_concurrency = 0, background_concurrency = 0\<rparr>"
proof -
  obtain why where "invalid_reason c m rd (monotonic k) = Some why" using unusable_is_invalid [OF assms(2)] by blast
  then have u: "thermal_update c k rd m =
      transition k TELEMETRY_DEGRADED why (m\<lparr>tm_reading := rd, tm_recovery_readings := 0\<rparr>)"
    using assms(1) by (simp add: thermal_update_def)
  have "tm_recovery_readings (transition k TELEMETRY_DEGRADED why (m\<lparr>tm_reading := rd, tm_recovery_readings := 0\<rparr>)) = 0"
    by (simp add: transition_def Let_def)
  then show ?thesis using assms(1) by (simp add: u capacity_for_state_def)
qed

theorem invalid_telemetry_degrades_witness:
  "tm_state (thermal_update default_thermal_config (example_clock 30) (Some (example_reading 5 60))
     ((thermal_init default_thermal_config 0)\<lparr>tm_state := NORMAL\<rparr>)) = TELEMETRY_DEGRADED"
proof -
  have "unusable default_thermal_config ((thermal_init default_thermal_config 0)\<lparr>tm_state := NORMAL\<rparr>)
      (monotonic (example_clock 30)) (Some (example_reading 5 60))"
    by (rule unusable.stale [where limit = 15]) (simp_all add: example_defs)
  then show ?thesis using invalid_telemetry_degrades [of default_thermal_config] by (simp add: example_defs)
qed

text \<open>The validation of the policy configuration lets a NaN staleness limit through (every
  comparison with NaN is false), and under such a configuration no reading is ever stale: a valid
  reading stays valid at every later time, so the fail-safe above never triggers on age.\<close>

theorem nan_staleness_limit_disables_staleness:
  assumes "valid_config c"
  shows "valid_config (c\<lparr>telemetry_stale_seconds := NaN\<rparr>)
    \<and> (\<forall>m r now later. invalid_reason (c\<lparr>telemetry_stale_seconds := NaN\<rparr>) m (Some r) now = None
          \<longrightarrow> now \<le> later
          \<longrightarrow> invalid_reason (c\<lparr>telemetry_stale_seconds := NaN\<rparr>) m (Some r) later = None)"
proof
  show "valid_config (c\<lparr>telemetry_stale_seconds := NaN\<rparr>)"
    using assms by (auto simp: valid_config_def thermal_config_post_init_def Let_def is_ok_def split: if_splits)
  show "\<forall>m r now later. invalid_reason (c\<lparr>telemetry_stale_seconds := NaN\<rparr>) m (Some r) now = None
          \<longrightarrow> now \<le> later
          \<longrightarrow> invalid_reason (c\<lparr>telemetry_stale_seconds := NaN\<rparr>) m (Some r) later = None"
    by (auto simp: invalid_reason_def Let_def split: if_splits)
qed

theorem nan_staleness_limit_disables_staleness_witness:
  "invalid_reason (default_thermal_config\<lparr>telemetry_stale_seconds := NaN\<rparr>)
     (thermal_init default_thermal_config 0) (Some (example_reading 5 60)) 1000000 = None"
  using nan_staleness_limit_disables_staleness [OF default_config_valid, THEN conjunct2, rule_format,
      of "thermal_init default_thermal_config 0" "example_reading 5 60" 5 1000000]
  by (simp add: example_defs Let_def)

section \<open>The transition log\<close>

fun log_chain :: "thermal_state \<Rightarrow> thermal_transition list \<Rightarrow> thermal_state \<Rightarrow> bool" where
  "log_chain s [] s' = (s = s')"
| "log_chain s (t # ts) s' =
     (tt_previous_state t = s \<and> tt_new_state t \<noteq> s \<and> log_chain (tt_new_state t) ts s')"

lemma log_chain_snoc:
  "log_chain s ts s' \<Longrightarrow> tt_previous_state t = s' \<Longrightarrow> tt_new_state t \<noteq> s' \<Longrightarrow>
   log_chain s (ts @ [t]) (tt_new_state t)"
  by (induction ts arbitrary: s) auto

definition log_inv :: "thermal_config \<Rightarrow> thermal_machine \<Rightarrow> bool" where
  "log_inv c m = (log_chain (if tc_enabled c then TELEMETRY_DEGRADED else NORMAL)
      (tm_transitions m) (tm_state m) \<and> (\<not> tc_enabled c \<longrightarrow> tm_transitions m = []))"

lemma log_inv_init: "log_inv c (thermal_init c now)"
  by (simp add: log_inv_def thermal_init_def)

lemma log_inv_frame [simp]:
  "log_inv c (m\<lparr>tm_reading := rd\<rparr>) = log_inv c m"
  "log_inv c (m\<lparr>tm_recovery_readings := n\<rparr>) = log_inv c m"
  "log_inv c (m\<lparr>tm_last_observation := ob\<rparr>) = log_inv c m"
  "log_inv c (m\<lparr>tm_selected_sensor_id := sid\<rparr>) = log_inv c m"
  by (simp_all add: log_inv_def)

lemma log_inv_transition: "tc_enabled c \<Longrightarrow> log_inv c m \<Longrightarrow> log_inv c (transition k s why m)"
  by (simp add: log_inv_def transition_log)
     (metis (no_types, lifting) log_chain_snoc thermal_transition.select_convs(2,3))

lemma log_inv_recover:
  assumes "tc_enabled c" and "log_inv c m"
  shows "log_inv c (recover_one_step c k t m)" and "log_inv c (recover_from_degraded c k target m)"
  using assms
  by (simp_all add: recover_one_step_def recover_from_degraded_def Let_def log_inv_transition split: option.split)

lemma log_inv_update: "log_inv c m \<Longrightarrow> log_inv c (thermal_update c k rd m)"
proof (cases "tc_enabled c")
  case True
  assume "log_inv c m"
  with True show ?thesis
    by (simp add: thermal_update_def update_on_fresh_def Let_def log_inv_transition log_inv_recover
        split: option.split)
next
  case False
  assume "log_inv c m"
  with False show ?thesis by (simp add: thermal_update_def log_inv_def)
qed

text \<open>A poll is a monotonic time, a wall-clock string and the selected reading.\<close>

definition thermal_poll :: "thermal_config \<Rightarrow> clock \<times> thermal_reading option \<Rightarrow> thermal_machine \<Rightarrow> thermal_machine" where
  "thermal_poll c e m = thermal_update c (fst e) (snd e) m"

interpretation thermal_log: invariant_machine "thermal_poll c" "log_inv c" for c
  by unfold_locales (simp add: thermal_poll_def log_inv_update)

text \<open>C31: After any sequence of polls from the initial machine, the transition log is a chain
  from the initial state to the current one: each entry starts where the previous one ended, no
  entry leaves the state unchanged, and the last entry's state is the machine's state.\<close>

theorem transition_log_is_a_chain:
  "log_chain (tm_state (thermal_init c now))
     (tm_transitions (fold (thermal_poll c) polls (thermal_init c now)))
     (tm_state (fold (thermal_poll c) polls (thermal_init c now)))"
  using thermal_log.run_inv [OF log_inv_init, of c polls now]
  by (simp add: log_inv_def thermal_init_def split: if_splits)

section \<open>Capacity and admission\<close>

text \<open>Capacity never grows with severity: under a validated configuration a more severe state
  leaves at most the capacity of a less severe one, in each of the three dimensions.\<close>

theorem capacity_antitone:
  assumes "valid_config c" and "more_severe s t"
  shows "heavy_inference_concurrency (capacity_for_state c s) \<le> heavy_inference_concurrency (capacity_for_state c t)
    \<and> model_load_concurrency (capacity_for_state c s) \<le> model_load_concurrency (capacity_for_state c t)
    \<and> background_concurrency (capacity_for_state c s) \<le> background_concurrency (capacity_for_state c t)"
  using assms(2) valid_configD(12,13) [OF assms(1)]
  by (cases s; cases t) (auto simp: capacity_for_state_def more_severe_def)

theorem capacity_antitone_witness:
  "heavy_inference_concurrency (capacity_for_state default_thermal_config CRITICAL)
     \<le> heavy_inference_concurrency (capacity_for_state default_thermal_config WARM)"
  using capacity_antitone [OF default_config_valid, of CRITICAL WARM] by (simp add: more_severe_def)

text \<open>The action alone, without the messages.\<close>

lemma outcome_action:
  "fst (admission_outcome c req s active) =
     (if \<not> tc_enabled c \<or> wr_class req = LIGHT_CONTROL then ALLOW
      else if s = CRITICAL then CANCEL
      else if wr_class req \<in> {BACKGROUND, BENCHMARK} then (if s = NORMAL then ALLOW else PAUSE)
      else if wr_class req = MODEL_LOAD then
        (if s = WARM \<and> (active = None \<or> 0 < the active) \<or> s \<in> {HOT, VERY_HOT, TELEMETRY_DEGRADED}
         then REJECT_RETRYABLE else ALLOW)
      else if s = TELEMETRY_DEGRADED then
        (if wr_class req = INTERACTIVE \<and> \<not> wr_automatic req then ALLOW_DEGRADED else REJECT_RETRYABLE)
      else if s = VERY_HOT then
        (if wr_class req = INTERACTIVE \<and> \<not> wr_automatic req then REJECT_RETRYABLE else PAUSE)
      else if s = HOT then (if wr_class req = INTERACTIVE then ALLOW_DEGRADED else QUEUE)
      else if s = WARM \<and> wr_class req = INTERACTIVE then ALLOW_DEGRADED
      else ALLOW)"
  by (simp add: admission_outcome_def Let_def)

lemma evaluate_fields [simp]:
  "ad_action (evaluate c req s temperature age active ts) = fst (admission_outcome c req s active)"
  "ad_reason_code (evaluate c req s temperature age active ts) = fst (snd (admission_outcome c req s active))"
  "ad_thermal_state (evaluate c req s temperature age active ts) = s"
  "ad_suggested_retry_seconds (evaluate c req s temperature age active ts) =
     (if fst (admission_outcome c req s active) \<in> {QUEUE, PAUSE, REJECT_RETRYABLE}
      then Some (recovery_step_seconds c) else None)"
  "ad_degradation (evaluate c req s temperature age active ts) =
     admission_degradation c req s (fst (admission_outcome c req s active))"
  by (simp_all add: evaluate_def split: prod.split)

lemma degraded_never_very_hot: "fst (admission_outcome c req s active) = ALLOW_DEGRADED \<Longrightarrow> s \<noteq> VERY_HOT"
  by (auto simp: outcome_action split: if_splits)

definition capacity_for_class :: "workload_class \<Rightarrow> thermal_capacity \<Rightarrow> int" where
  "capacity_for_class w cap = (if w \<in> {BACKGROUND, BENCHMARK} then background_concurrency cap
     else if w = MODEL_LOAD then model_load_concurrency cap else heavy_inference_concurrency cap)"

text \<open>C13: Admission and capacity agree: a workload other than light control is admitted (fully or
  degraded) only in a state whose capacity for its class is at least one. In the critical state
  nothing but light control is admitted, and its decision is to cancel.\<close>

theorem admission_respects_capacity:
  assumes "valid_config c" and "wr_class req \<noteq> LIGHT_CONTROL"
    and "admitted (evaluate c req s temperature age active ts)"
  shows "1 \<le> capacity_for_class (wr_class req) (capacity_for_state c s)"
  using assms(2,3) valid_configD(12,13) [OF assms(1)]
  by (auto simp: outcome_action admitted_def capacity_for_class_def capacity_for_state_def split: if_splits)
     (cases "wr_class req"; cases s; simp)+

definition example_request :: "workload_class \<Rightarrow> bool \<Rightarrow> workload_request" where
  "example_request w auto = \<lparr>workload_id = ''w1'', wr_class = w, wr_automatic = auto,
     wr_backend = None, wr_model = None\<rparr>"

theorem admission_respects_capacity_witness:
  "1 \<le> capacity_for_class INTERACTIVE (capacity_for_state default_thermal_config HOT)"
  using admission_respects_capacity [OF default_config_valid, of "example_request INTERACTIVE True" HOT VNone VNone None "[]"]
  by (simp add: example_request_def evaluate_def admission_outcome_def admitted_def default_thermal_config_def)

text \<open>A denied workload is told when to retry: every decision of the admission controller that
  is neither an admission nor a cancellation suggests the recovery interval, and only an admission
  with degradation carries degradation details, which then always permit automatic capture.\<close>

theorem denial_suggests_retry:
  "(ad_action (evaluate c req s temperature age active ts) \<in> {QUEUE, PAUSE, REJECT_RETRYABLE}
      \<longleftrightarrow> ad_suggested_retry_seconds (evaluate c req s temperature age active ts) = Some (recovery_step_seconds c))
   \<and> (ad_degradation (evaluate c req s temperature age active ts) \<noteq> []
      \<longleftrightarrow> ad_action (evaluate c req s temperature age active ts) = ALLOW_DEGRADED)
   \<and> (ad_action (evaluate c req s temperature age active ts) = ALLOW_DEGRADED
      \<longleftrightarrow> dget (ad_degradation (evaluate c req s temperature age active ts))
            ''automatic_capture_allowed'' = VBool True)"
  using degraded_never_very_hot [of c req s active]
  by (auto simp: admission_degradation_def Let_def dget_def)

end
