(* ===== verification/Thermal_Manager.thy ===== *)
theory Thermal_Manager
  imports Thermal_Safety
begin

text \<open>
  The policy manager of \<open>thermal.py\<close>: choosing the control reading, one poll, the published
  status, the two status files shared between the management process and the gateway, the
  read-only host power diagnostics, and the hwmon reader behind the critical guard. What the
  operating system answers (files, child processes, clocks) is an argument of each definition.
\<close>

section \<open>Choosing the control reading\<close>

definition reading_priority :: "string \<Rightarrow> string \<Rightarrow> nat" where
  "reading_priority source label =
     (if casefold source = ''k10temp'' \<and> casefold label \<in> {''tctl'', ''tdie''} then 3
      else if casefold source = ''amdgpu'' \<and> casefold label = ''edge'' then 2
      else if str_in ''amd'' (casefold source) then 1
      else 0)"

text \<open>One telemetry item as the loop reads it: source, label, identifier; the value may be absent.\<close>

definition item_source :: "(pyval \<Rightarrow> string) \<Rightarrow> pydict \<Rightarrow> string" where
  "item_source rp item = strip (py_str rp (py_or (dget item ''source'') (VStr [])))"

definition item_label :: "(pyval \<Rightarrow> string) \<Rightarrow> pydict \<Rightarrow> string" where
  "item_label rp item = strip (py_str rp (py_or (dget item ''label'') (VStr (item_source rp item))))"

definition item_identifier :: "(pyval \<Rightarrow> string) \<Rightarrow> pydict \<Rightarrow> string" where
  "item_identifier rp item = py_str rp (py_or (dget item ''sensor_id'')
     (VStr (item_source rp item @ '':'' @ item_label rp item)))"

definition item_value :: "pydict \<Rightarrow> pyfloat option" where
  "item_value item = (case rbind (py_index (VDict item) ''celsius'') py_float_of of
     Inr v \<Rightarrow> Some v | Inl _ \<Rightarrow> None)"

text \<open>The loop: returns early on the configured sensor, otherwise collects candidates in order.\<close>

fun scan_readings ::
  "(pyval \<Rightarrow> string) \<Rightarrow> string option \<Rightarrow> pydict list \<Rightarrow> (nat \<times> string \<times> pyfloat) list
     \<Rightarrow> (string \<times> pyfloat) + (nat \<times> string \<times> pyfloat) list" where
  "scan_readings rp sensor [] acc = Inr acc"
| "scan_readings rp sensor (item # items) acc =
     (case item_value item of
        None \<Rightarrow> scan_readings rp sensor items acc
      | Some v \<Rightarrow>
         let i = item_identifier rp item; p = reading_priority (item_source rp item) (item_label rp item) in
         if sensor \<noteq> None \<and> Some i = sensor then Inl (i, v)
         else scan_readings rp sensor items
                (if sensor = None \<and> p \<noteq> 0 then acc @ [(p, i, v)] else acc))"

text \<open>\<open>max\<close> by (priority, value): the first candidate that no later one exceeds.\<close>

definition candidate_above :: "nat \<times> string \<times> pyfloat \<Rightarrow> nat \<times> string \<times> pyfloat \<Rightarrow> bool" where
  "candidate_above a b = (fst b < fst a \<or> fst a = fst b \<and> snd (snd b) < snd (snd a))"

fun max_candidate :: "nat \<times> string \<times> pyfloat \<Rightarrow> (nat \<times> string \<times> pyfloat) list \<Rightarrow> nat \<times> string \<times> pyfloat" where
  "max_candidate best [] = best"
| "max_candidate best (x # xs) = max_candidate (if candidate_above x best then x else best) xs"

definition make_reading :: "string \<Rightarrow> pyfloat \<Rightarrow> rat \<Rightarrow> thermal_reading" where
  "make_reading i v observed = \<lparr>tr_sensor_id = i, tr_celsius = VFloat v, tr_observed_monotonic = observed\<rparr>"

definition select_control_reading ::
  "(pyval \<Rightarrow> string) \<Rightarrow> pydict list \<Rightarrow> string option \<Rightarrow> rat \<Rightarrow> thermal_reading option" where
  "select_control_reading rp readings sensor observed =
     (case scan_readings rp sensor readings [] of
        Inl (i, v) \<Rightarrow> Some (make_reading i v observed)
      | Inr candidates \<Rightarrow>
         if sensor \<noteq> None \<or> candidates = [] then None
         else (case max_candidate (hd candidates) (tl candidates) of
                 (p, i, v) \<Rightarrow> Some (make_reading i v observed)))"

section \<open>Files shared between processes\<close>

text \<open>What reading a file and parsing it as JSON gives: the value, text that is not JSON
  (\<open>JSONDecodeError\<close>), or an \<open>OSError\<close>. Writing replaces the file atomically.\<close>

datatype file_content = FileMissing | FileNotJson | FileJson pyval

definition read_json :: "file_content \<Rightarrow> pyval res" where
  "read_json f = (case f of
     FileJson v \<Rightarrow> Inr v
   | FileNotJson \<Rightarrow> Inl (ValueError ''JSONDecodeError'')
   | FileMissing \<Rightarrow> Inl (OSError ''No such file or directory''))"

text \<open>The exceptions both readers catch: \<open>OSError\<close>, \<open>ValueError\<close>, \<open>TypeError\<close>, \<open>KeyError\<close>.\<close>

fun status_error_caught :: "py_error \<Rightarrow> bool" where
  "status_error_caught (OSError _) = True"
| "status_error_caught (ValueError _) = True"
| "status_error_caught (TypeError _) = True"
| "status_error_caught (KeyError _) = True"
| "status_error_caught _ = False"

definition write_thermal_status :: "pydict \<Rightarrow> file_content" where
  "write_thermal_status status = FileJson (VDict status)"

definition write_thermal_workload_activity :: "int \<Rightarrow> rat \<Rightarrow> file_content" where
  "write_thermal_workload_activity active now = write_thermal_status
     [(''active_heavy_concurrency'', VInt (max 0 active)), (''published_monotonic'', VFloat (Fin now))]"

definition read_workload_body :: "thermal_config \<Rightarrow> file_content \<Rightarrow> rat \<Rightarrow> int option res" where
  "read_workload_body c f now =
     rbind (read_json f) (\<lambda>payload.
     rbind (rbind (py_index payload ''published_monotonic'') py_float_of) (\<lambda>published.
     rbind (rbind (py_index payload ''active_heavy_concurrency'') py_int_of) (\<lambda>active.
       let age = Fin now - published in
       if active < 0 \<or> age < Fin 0 \<or> telemetry_stale_seconds c < age then Inr None
       else Inr (Some active))))"

text \<open>\<open>Inr None\<close> is the answer "unknown"; an exception that is not caught propagates as \<open>Inl\<close>.\<close>

definition read_thermal_workload_activity :: "thermal_config \<Rightarrow> file_content \<Rightarrow> rat \<Rightarrow> int option res" where
  "read_thermal_workload_activity c f now =
     (if \<not> tc_enabled c then Inr (Some 0)
      else (case read_workload_body c f now of
        Inr r \<Rightarrow> Inr r
      | Inl e \<Rightarrow> if status_error_caught e then Inr None else Inl e))"

definition disabled_status :: "thermal_config \<Rightarrow> pydict" where
  "disabled_status c =
     (let cap = capacity_for_state c NORMAL in
      [(''enabled'', VBool False),
       (''state'', VStr (thermal_state_value NORMAL)),
       (''temperature_c'', VNone),
       (''sensor_id'', opt_str (tc_sensor_id c)),
       (''telemetry_age_seconds'', VNone),
       (''heavy_concurrency_limit'', VInt (heavy_inference_concurrency cap)),
       (''active_heavy_concurrency'', VInt 0),
       (''model_load_concurrency_limit'', VInt (model_load_concurrency cap)),
       (''background_concurrency_limit'', VInt (background_concurrency cap)),
       (''background_paused'', VBool False),
       (''model_loading_allowed'', VBool True),
       (''scenechat_degradation'', VDict [(''active'', VBool False),
          (''minimum_frame_interval_seconds'', VFloat (Fin 0))]),
       (''reason_code'', VStr ''thermal_throttling_disabled''),
       (''host_power_policy'', VDict [(''available'', VBool False), (''control'', VStr ''external_read_only'')])])"

definition degraded_status :: "thermal_config \<Rightarrow> pydict" where
  "degraded_status c =
     (let cap = capacity_for_state c TELEMETRY_DEGRADED in
      [(''enabled'', VBool True),
       (''state'', VStr (thermal_state_value TELEMETRY_DEGRADED)),
       (''temperature_c'', VNone),
       (''sensor_id'', opt_str (tc_sensor_id c)),
       (''telemetry_age_seconds'', VNone),
       (''heavy_concurrency_limit'', VInt (heavy_inference_concurrency cap)),
       (''active_heavy_concurrency'', VNone),
       (''model_load_concurrency_limit'', VInt (model_load_concurrency cap)),
       (''background_concurrency_limit'', VInt (background_concurrency cap)),
       (''background_paused'', VBool True),
       (''model_loading_allowed'', VBool False),
       (''scenechat_degradation'', VDict [(''active'', VBool True),
          (''minimum_frame_interval_seconds'', VFloat (hot_scene_interval_seconds c)),
          (''automatic_capture_allowed'', VBool False)]),
       (''reason_code'', VStr ''thermal_status_unavailable_or_stale''),
       (''host_power_policy'', VDict [(''available'', VBool False), (''control'', VStr ''external_read_only'')])])"

definition as_dict :: "pyval \<Rightarrow> pydict" where
  "as_dict v = (case v of VDict d \<Rightarrow> d | _ \<Rightarrow> [])"

text \<open>The \<open>try\<close> block of \<open>read_thermal_status\<close>; \<open>payload[...]\<close> has shown \<open>payload\<close> to be a
  dictionary before \<open>.get\<close> and the item assignment use it as one.\<close>

definition read_status_body :: "thermal_config \<Rightarrow> file_content \<Rightarrow> rat \<Rightarrow> pydict res" where
  "read_status_body c f now =
     rbind (read_json f) (\<lambda>payload.
     rbind (rbind (py_index payload ''published_monotonic'') py_float_of) (\<lambda>published.
     let age = Fin now - published in
     rbind (rbind (py_index payload ''state'') parse_thermal_state) (\<lambda>_.
     if age < Fin 0 \<or> telemetry_stale_seconds c < age then Inl (ValueError ''stale status'')
     else rbind (py_float_of (py_or (dget (as_dict payload) ''telemetry_age_seconds'') (VFloat (Fin 0)))) (\<lambda>old.
       let total = old + age in
       Inr (AList.update ''telemetry_age_seconds'' (VFloat (pymax total (Fin 0))) (as_dict payload))))))"

definition read_thermal_status :: "thermal_config \<Rightarrow> file_content \<Rightarrow> rat \<Rightarrow> pydict res" where
  "read_thermal_status c f now =
     (if \<not> tc_enabled c then Inr (disabled_status c)
      else (case read_status_body c f now of
        Inr d \<Rightarrow> Inr d
      | Inl e \<Rightarrow> if status_error_caught e then Inr (degraded_status c) else Inl e))"

section \<open>Host power diagnostics\<close>

text \<open>Running a fixed command: not installed, failed (\<open>OSError\<close> or timeout), or completed.\<close>

datatype run_outcome = NotInstalled | RunFailed | Completed int string

definition installed :: "run_outcome \<Rightarrow> bool" where
  "installed r = (r \<noteq> NotInstalled)"

definition service_active :: "run_outcome \<Rightarrow> pyval" where
  "service_active r = (case r of
     Completed code out \<Rightarrow> VBool (code = 0 \<and> strip out = ''active'')
   | _ \<Rightarrow> VNone)"

definition tuned_profile :: "run_outcome \<Rightarrow> pyval" where
  "tuned_profile r = (case r of
     Completed code out \<Rightarrow>
       if code \<noteq> 0 then VNone
       else (let output = strip out in
             if output \<noteq> [] then VStr (strip (after_first CHR '':'' output)) else VNone)
   | _ \<Rightarrow> VNone)"

definition host_policy_read :: "run_outcome \<Rightarrow> run_outcome \<Rightarrow> pydict" where
  "host_policy_read systemctl tuned =
     [(''available'', VBool (installed systemctl \<or> installed tuned)),
      (''service_active'', service_active systemctl),
      (''tuned_profile'', tuned_profile tuned),
      (''control'', VStr ''external_read_only'')]"

text \<open>\<open>_run_async\<close>: the exit code and the stripped output.\<close>

definition run_async :: "run_outcome \<Rightarrow> (int \<times> string) option" where
  "run_async r = (case r of Completed code out \<Rightarrow> Some (code, strip out) | _ \<Rightarrow> None)"

definition service_active_async :: "run_outcome \<Rightarrow> pyval" where
  "service_active_async r = (case run_async r of
     None \<Rightarrow> VNone | Some (code, out) \<Rightarrow> VBool (code = 0 \<and> out = ''active''))"

definition tuned_profile_async :: "run_outcome \<Rightarrow> pyval" where
  "tuned_profile_async r = (case run_async r of
     None \<Rightarrow> VNone
   | Some (code, out) \<Rightarrow>
      if code \<noteq> 0 then VNone
      else py_or (VStr (strip (after_first CHR '':'' out))) VNone)"

definition host_policy_read_async :: "run_outcome \<Rightarrow> run_outcome \<Rightarrow> pydict" where
  "host_policy_read_async systemctl tuned =
     [(''available'', VBool (installed systemctl \<or> installed tuned)),
      (''service_active'', service_active_async systemctl),
      (''tuned_profile'', tuned_profile_async tuned),
      (''control'', VStr ''external_read_only'')]"

section \<open>The manager\<close>

record thermal_manager =
  mg_machine :: thermal_machine
  mg_host_status :: pydict
  mg_transition_cursor :: nat
  mg_last_poll_monotonic :: "rat option"
  mg_state_seconds :: "(string \<times> rat) list"
  mg_peak_temperature_c :: "pyfloat option"
  mg_threshold_seconds :: "(string \<times> rat) list"

definition manager_init :: "thermal_config \<Rightarrow> rat \<Rightarrow> thermal_manager" where
  "manager_init c now = \<lparr>
     mg_machine = thermal_init c now,
     mg_host_status = [(''available'', VBool False), (''service_active'', VNone),
                       (''tuned_profile'', VNone), (''control'', VStr ''external_read_only'')],
     mg_transition_cursor = 0,
     mg_last_poll_monotonic = None,
     mg_state_seconds = map (\<lambda>s. (thermal_state_value s, 0)) thermal_states,
     mg_peak_temperature_c = None,
     mg_threshold_seconds = [(''75'', 0), (''80'', 0), (''83'', 0), (''85'', 0)]\<rparr>"

definition bump :: "string \<Rightarrow> rat \<Rightarrow> (string \<times> rat) list \<Rightarrow> (string \<times> rat) list" where
  "bump k x d = AList.update k ((case map_of d k of Some y \<Rightarrow> y | None \<Rightarrow> 0) + x) d"

definition opt_float :: "pyfloat option \<Rightarrow> pyval" where
  "opt_float o' = (case o' of None \<Rightarrow> VNone | Some f \<Rightarrow> VFloat f)"

definition opt_int :: "int option \<Rightarrow> pyval" where
  "opt_int o' = (case o' of None \<Rightarrow> VNone | Some i \<Rightarrow> VInt i)"

definition seconds_of :: "string \<Rightarrow> (string \<times> rat) list \<Rightarrow> pyval" where
  "seconds_of k d = (case map_of d k of Some x \<Rightarrow> VFloat (Fin x) | None \<Rightarrow> VNone)"

text \<open>\<open>status\<close>: refreshes the machine, then reports; \<open>workload\<close> is the gateway's file, and \<open>later\<close>
  the clock when that file is judged.\<close>

definition manager_status ::
  "thermal_config \<Rightarrow> clock \<Rightarrow> rat \<Rightarrow> file_content \<Rightarrow> thermal_manager \<Rightarrow> (thermal_manager \<times> pydict) res" where
  "manager_status c k later workload g =
     (let m = thermal_refresh c k (mg_machine g);
          g' = g\<lparr>mg_machine := m\<rparr>;
          s = tm_state m;
          cap = capacity_for_state c s in
      rbind (read_thermal_workload_activity c workload later) (\<lambda>active. Inr (g',
      [(''enabled'', VBool (tc_enabled c)),
       (''state'', VStr (thermal_state_value s)),
       (''temperature_c'', (case tm_reading m of Some r \<Rightarrow> tr_celsius r | None \<Rightarrow> VNone)),
       (''sensor_id'', (case tm_reading m of Some r \<Rightarrow> VStr (tr_sensor_id r)
                        | None \<Rightarrow> opt_str (tm_selected_sensor_id m))),
       (''telemetry_age_seconds'', opt_float (telemetry_age m (monotonic k))),
       (''heavy_concurrency_limit'', VInt (heavy_inference_concurrency cap)),
       (''active_heavy_concurrency'', opt_int active),
       (''model_load_concurrency_limit'', VInt (model_load_concurrency cap)),
       (''background_concurrency_limit'', VInt (background_concurrency cap)),
       (''background_paused'', VBool (background_concurrency cap = 0)),
       (''model_loading_allowed'', VBool (0 < model_load_concurrency cap)),
       (''scenechat_degradation'', VDict [
          (''active'', VBool (s \<in> {WARM, HOT, VERY_HOT, TELEMETRY_DEGRADED})),
          (''minimum_frame_interval_seconds'',
             VFloat (if s \<in> {HOT, VERY_HOT, TELEMETRY_DEGRADED} then hot_scene_interval_seconds c
                     else if s = WARM then warm_scene_interval_seconds c else Fin 0)),
          (''automatic_capture_allowed'',
             VBool (\<not> (s \<in> {VERY_HOT, CRITICAL} \<and> stop_automatic_scene_when_very_hot c)))]),
       (''reason_code'', VStr (tm_reason_code m)),
       (''timestamp'', VStr (wall k)),
       (''published_monotonic'', VFloat (Fin (monotonic k))),
       (''host_power_policy'', VDict (mg_host_status g)),
       (''metrics'', VDict [
          (''state_transition_count'', VInt (int (length (tm_transitions m)))),
          (''state_seconds'', VDict (map (\<lambda>(n, x). (n, VFloat (Fin x))) (mg_state_seconds g))),
          (''peak_temperature_c'', opt_float (mg_peak_temperature_c g)),
          (''time_at_or_above_75_seconds'', seconds_of ''75'' (mg_threshold_seconds g)),
          (''time_at_or_above_80_seconds'', seconds_of ''80'' (mg_threshold_seconds g)),
          (''time_at_or_above_83_seconds'', seconds_of ''83'' (mg_threshold_seconds g)),
          (''time_at_or_above_85_seconds'', seconds_of ''85'' (mg_threshold_seconds g))])])))"

text \<open>What one poll meets outside: the telemetry (\<open>None\<close>: the reader raised), the host
  diagnostics, the gateway's workload file and the clock when that file is judged.\<close>

record poll_world =
  pw_clock :: clock
  pw_readings :: "pydict list option"
  pw_host :: pydict
  pw_workload :: file_content
  pw_later :: rat

text \<open>What one poll does outside: whether it awaited the critical handler, the status it
  published (returned and written), the transitions it logged.\<close>

record poll_result =
  pr_critical_handler :: bool
  pr_status :: pydict
  pr_file :: file_content
  pr_logged :: "thermal_transition list"

text \<open>The accounting at the start of a poll.\<close>

definition account_poll :: "rat \<Rightarrow> thermal_manager \<Rightarrow> thermal_manager" where
  "account_poll now g =
     (let elapsed = (case mg_last_poll_monotonic g of None \<Rightarrow> 0 | Some t \<Rightarrow> max 0 (now - t));
          g1 = g\<lparr>mg_state_seconds := bump (thermal_state_value (tm_state (mg_machine g))) elapsed (mg_state_seconds g)\<rparr>;
          prev = map_option (\<lambda>r. celsius_of (tr_celsius r)) (tm_reading (mg_machine g));
          add = (\<lambda>(key, limit) d. case prev of
                   Some t \<Rightarrow> if Fin limit \<le> t then bump key elapsed d else d | None \<Rightarrow> d)
      in g1\<lparr>mg_threshold_seconds := fold add [(''75'', 75), (''80'', 80), (''83'', 83), (''85'', 85)] (mg_threshold_seconds g1),
            mg_last_poll_monotonic := Some now\<rparr>)"

text \<open>The reading of a poll: none when the policy is disabled or the telemetry raised.\<close>

definition poll_reading ::
  "(pyval \<Rightarrow> string) \<Rightarrow> thermal_config \<Rightarrow> poll_world \<Rightarrow> thermal_machine \<Rightarrow> thermal_reading option" where
  "poll_reading rp c w m =
     (if tc_enabled c
      then (case pw_readings w of
              Some rs \<Rightarrow> select_control_reading rp rs (tm_selected_sensor_id m) (monotonic (pw_clock w))
            | None \<Rightarrow> None)
      else None)"

definition poll_once ::
  "(pyval \<Rightarrow> string) \<Rightarrow> thermal_config \<Rightarrow> bool \<Rightarrow> poll_world \<Rightarrow> thermal_manager
     \<Rightarrow> (thermal_manager \<times> poll_result) res" where
  "poll_once rp c has_handler w g0 =
     (let k = pw_clock w;
          g = account_poll (monotonic k) g0;
          reading = poll_reading rp c w (mg_machine g);
          m = thermal_update c k reading (mg_machine g);
          called = has_handler \<and> length (tm_transitions (mg_machine g)) < length (tm_transitions m)
                   \<and> tm_state m = CRITICAL;
          peak = (case reading of
                    Some r \<Rightarrow> (case mg_peak_temperature_c g of
                        None \<Rightarrow> Some (celsius_of (tr_celsius r))
                      | Some p \<Rightarrow> if p < celsius_of (tr_celsius r) then Some (celsius_of (tr_celsius r)) else Some p)
                  | None \<Rightarrow> mg_peak_temperature_c g);
          host = (if tc_enabled c \<and> host_policy_status_enabled c then pw_host w else mg_host_status g);
          g1 = g\<lparr>mg_machine := m, mg_peak_temperature_c := peak, mg_host_status := host\<rparr>
      in rbind (manager_status c k (pw_later w) (pw_workload w) g1) (\<lambda>(g2, status).
         Inr (g2\<lparr>mg_transition_cursor := length (tm_transitions (mg_machine g2))\<rparr>,
              \<lparr>pr_critical_handler = called,
               pr_status = status,
               pr_file = write_thermal_status status,
               pr_logged = drop (mg_transition_cursor g2) (tm_transitions (mg_machine g2))\<rparr>)))"

section \<open>The hwmon reader of the critical guard\<close>

text \<open>A device: its name file (\<open>None\<close>: unreadable) and its \<open>temp*_input\<close> files, each with the
  label beside it (\<open>LabelAbsent\<close> when there is none) and its own text (\<open>None\<close>: unreadable).\<close>

datatype hwmon_label = LabelAbsent | LabelText string | LabelUnreadable

record hwmon_input =
  hi_label :: hwmon_label
  hi_value :: "string option"

record hwmon_device =
  hd_name :: "string option"
  hd_inputs :: "hwmon_input list"

definition hwmon_input_value :: "hwmon_input \<Rightarrow> (string \<times> pyfloat) option" where
  "hwmon_input_value i =
     (case hi_label i of LabelUnreadable \<Rightarrow> None
      | l \<Rightarrow>
        (let label = (case l of LabelText t \<Rightarrow> strip t | _ \<Rightarrow> []) in
         case hi_value i of None \<Rightarrow> None
         | Some t \<Rightarrow> (case parse_float (strip t) of
              None \<Rightarrow> None
            | Some (Fin q) \<Rightarrow> Some (label, Fin (q / 1000))
            | Some f \<Rightarrow> Some (label, f))))"

definition hwmon_step :: "string \<Rightarrow> hwmon_input \<Rightarrow> pyfloat option \<times> pyfloat option \<Rightarrow> pyfloat option \<times> pyfloat option" where
  "hwmon_step source i gc = (case gc of (gpu, cpu) \<Rightarrow>
     case hwmon_input_value i of
       None \<Rightarrow> (gpu, cpu)
     | Some (label, v) \<Rightarrow>
        if source = ''amdgpu'' \<and> casefold label = ''edge'' then (Some v, cpu)
        else if source = ''k10temp'' \<and> casefold label \<in> {''tctl'', ''tdie''}
        then (gpu, Some (case cpu of None \<Rightarrow> v | Some old \<Rightarrow> pymax old v))
        else (gpu, cpu))"

definition hwmon_device_step :: "hwmon_device \<Rightarrow> pyfloat option \<times> pyfloat option \<Rightarrow> pyfloat option \<times> pyfloat option" where
  "hwmon_device_step d gc = (case hd_name d of
     None \<Rightarrow> gc | Some n \<Rightarrow> fold (hwmon_step (strip n)) (hd_inputs d) gc)"

definition read_temperatures :: "hwmon_device list option \<Rightarrow> thermal_guard_error + temperature_snapshot" where
  "read_temperatures devices = (case devices of
     None \<Rightarrow> Inl (ThermalGuardError ''thermal_monitor_unavailable''
        ''Required GPU and CPU temperature sensors are unavailable.'' None)
   | Some ds \<Rightarrow> (case fold hwmon_device_step ds (None, None) of
        (Some g, Some p) \<Rightarrow> Inr \<lparr>gpu_edge_celsius = g, cpu_package_celsius = p\<rparr>
      | _ \<Rightarrow> Inl (ThermalGuardError ''thermal_monitor_unavailable''
          ''Required GPU edge and CPU package temperature sensors are unavailable.'' None)))"

lemmas manager_defs [thermal_defs] = poll_once_def manager_status_def account_poll_def
  read_thermal_status_def read_status_body_def read_thermal_workload_activity_def read_workload_body_def

end
