(* ===== verification/Thermal_Publishing.thy ===== *)
theory Thermal_Publishing
  imports Thermal_Manager
begin

text \<open>
  What the manager publishes and what the other process reads back: the status file and the
  workload file as round trips with an age limit, the choice of the control reading, when the
  critical handler runs, and the accounting of time per state.
\<close>

section \<open>Library lemmas\<close>

lemma thermal_state_value_inj: "thermal_state_value s = thermal_state_value t \<longleftrightarrow> s = t"
  by (cases s; cases t) simp_all

lemma parse_thermal_state_value [simp]: "parse_thermal_state (VStr (thermal_state_value s)) = Inr s"
  by (cases s) (simp_all add: parse_thermal_state_def thermal_states_def eq_str_def)

lemma dget_cons [simp]: "dget ((k, v) # d) k' = (if k = k' then v else dget d k')"
  by (simp add: dget_def)

lemma py_index_cons: "py_index (VDict ((k, v) # d)) k' = (if k = k' then Inr v else py_index (VDict d) k')"
  by (simp add: py_index_def)

lemma py_index_Nil: "py_index (VDict []) k = Inl (KeyError k)"
  by (simp add: py_index_def)

lemmas py_index_simps = py_index_cons py_index_Nil

text \<open>A writer's file read back: the two readers agree on when a file is too old.\<close>

definition fresh_at :: "thermal_config \<Rightarrow> rat \<Rightarrow> rat \<Rightarrow> bool" where
  "fresh_at c published now = (published \<le> now \<and> \<not> telemetry_stale_seconds c < Fin (now - published))"

section \<open>The workload file\<close>

text \<open>C33: The gateway's activity count survives the file: read back within the staleness limit,
  the management process sees exactly the written count (negative counts clamped to zero); read
  later, or before it was written, it sees "unknown"; it never raises on such a file.\<close>

theorem workload_activity_roundtrip:
  assumes "tc_enabled c"
  shows "read_thermal_workload_activity c (write_thermal_workload_activity active published) now =
     Inr (if fresh_at c published now then Some (max 0 active) else None)"
  using assms
  by (auto simp: read_thermal_workload_activity_def read_workload_body_def read_json_def
      write_thermal_workload_activity_def write_thermal_status_def py_index_simps fresh_at_def Let_def)

theorem workload_activity_roundtrip_witness:
  "read_thermal_workload_activity default_thermal_config (write_thermal_workload_activity 2 100) 110 = Inr (Some 2)
   \<and> read_thermal_workload_activity default_thermal_config (write_thermal_workload_activity 2 100) 116 = Inr None"
  using workload_activity_roundtrip [of default_thermal_config 2 100 110]
    workload_activity_roundtrip [of default_thermal_config 2 100 116]
  by (simp add: default_thermal_config_def fresh_at_def)

section \<open>The status file\<close>

lemma refresh_keeps_reading_valid:
  "thermal_refresh c k m = m \<or> (tc_enabled c \<longrightarrow> tm_state (thermal_refresh c k m) = TELEMETRY_DEGRADED)"
  by (auto simp: thermal_refresh_def thermal_update_def invalid_reason_def)

definition published_state :: "pydict \<Rightarrow> pyval" where
  "published_state d = dget d ''state''"

definition published_limit :: "pydict \<Rightarrow> pyval" where
  "published_limit d = dget d ''heavy_concurrency_limit''"

lemma manager_status_fields:
  assumes "manager_status c k later f g = Inr (g', status)"
  shows "mg_machine g' = thermal_refresh c k (mg_machine g)"
    and "published_state status = VStr (thermal_state_value (tm_state (mg_machine g')))"
    and "published_limit status =
      VInt (heavy_inference_concurrency (capacity_for_state c (tm_state (mg_machine g'))))"
    and "py_index (VDict status) ''published_monotonic'' = Inr (VFloat (Fin (monotonic k)))"
    and "py_index (VDict status) ''state'' = Inr (VStr (thermal_state_value (tm_state (mg_machine g'))))"
    and "dget status ''telemetry_age_seconds'' = opt_float (telemetry_age (mg_machine g') (monotonic k))"
  using assms
  by (auto simp: manager_status_def Let_def rbind_eq_Inr published_state_def published_limit_def py_index_simps)

lemma telemetry_age_number:
  "\<exists>q. py_float_of (py_or (opt_float (telemetry_age m now)) (VFloat (Fin 0))) = Inr (Fin q)"
  by (auto simp: telemetry_age_def opt_float_def py_or_def pymax_def split: option.split)

lemma published_update:
  "published_state (AList.update ''telemetry_age_seconds'' v d) = published_state d"
  "published_limit (AList.update ''telemetry_age_seconds'' v d) = published_limit d"
  by (simp_all add: published_state_def published_limit_def)

text \<open>C32: The status file is a faithful, age-limited channel: what the gateway reads from a status
  the manager published is, within the staleness limit, the manager's own state and the heavy
  concurrency limit of that state, and afterwards (or for a publication from the future) the
  degraded state with its limit of one. Reading a published status never raises.\<close>

theorem published_status_roundtrip:
  assumes "tc_enabled c" and "manager_status c k later f g = Inr (g', status)"
  shows "\<exists>d. read_thermal_status c (write_thermal_status status) now = Inr d
    \<and> (let s = (if fresh_at c (monotonic k) now then tm_state (mg_machine g') else TELEMETRY_DEGRADED) in
        published_state d = VStr (thermal_state_value s)
        \<and> published_limit d = VInt (heavy_inference_concurrency (capacity_for_state c s)))"
proof (cases "fresh_at c (monotonic k) now")
  case True
  note fields = manager_status_fields [OF assms(2)]
  obtain q where q: "py_float_of (py_or (dget status ''telemetry_age_seconds'') (VFloat (Fin 0))) = Inr (Fin q)"
    using telemetry_age_number [of "mg_machine g'" "monotonic k"] fields(6) by auto
  have "\<exists>d. read_status_body c (write_thermal_status status) now = Inr d
      \<and> published_state d = published_state status \<and> published_limit d = published_limit status"
    using True fields(4,5) q
    by (simp add: read_status_body_def write_thermal_status_def read_json_def fresh_at_def Let_def
        as_dict_def published_update)
  with True assms(1) fields(2,3) show ?thesis
    by (auto simp: read_thermal_status_def Let_def)
next
  case False
  note fields = manager_status_fields [OF assms(2)]
  have "read_status_body c (write_thermal_status status) now = Inl (ValueError ''stale status'')"
    using False fields(4,5)
    by (auto simp: read_status_body_def write_thermal_status_def read_json_def fresh_at_def Let_def)
  with False assms(1) show ?thesis
    by (simp add: read_thermal_status_def Let_def published_state_def published_limit_def
        degraded_status_def)
qed

lemma example_manager_status:
  "\<exists>g' status. manager_status default_thermal_config (example_clock 5) 5 FileMissing
     (manager_init default_thermal_config 0) = Inr (g', status) \<and> tm_state (mg_machine g') = TELEMETRY_DEGRADED"
  by (simp add: manager_status_def read_thermal_workload_activity_def read_workload_body_def read_json_def
      Let_def manager_init_def thermal_refresh_def thermal_init_def invalid_reason_def thermal_update_def
      default_thermal_config_def transition_def)

theorem published_status_roundtrip_witness:
  "\<exists>g' status d. manager_status default_thermal_config (example_clock 5) 5 FileMissing
      (manager_init default_thermal_config 0) = Inr (g', status)
    \<and> read_thermal_status default_thermal_config (write_thermal_status status) 10 = Inr d
    \<and> published_limit d = VInt 1"
proof -
  obtain g' status where s: "manager_status default_thermal_config (example_clock 5) 5 FileMissing
     (manager_init default_thermal_config 0) = Inr (g', status)" "tm_state (mg_machine g') = TELEMETRY_DEGRADED"
    using example_manager_status by blast
  have "tc_enabled default_thermal_config" by (simp add: default_thermal_config_def)
  from published_status_roundtrip [OF this s(1), of 10] s show ?thesis
    by (auto simp: Let_def capacity_for_state_def default_thermal_config_def)
qed

section \<open>The critical handler\<close>

lemma update_transition_count:
  "tc_enabled c \<Longrightarrow> length (tm_transitions (thermal_update c k rd m)) =
     length (tm_transitions m) + (if tm_state (thermal_update c k rd m) = tm_state m then 0 else 1)"
  by (auto simp: thermal_update_def update_on_fresh_def Let_def transition_log recover_from_degraded_def
      recover_one_step_def split: option.split)

lemma disabled_update: "\<not> tc_enabled c \<Longrightarrow>
   tm_state (thermal_update c k rd m) = NORMAL \<and> tm_transitions (thermal_update c k rd m) = tm_transitions m"
  by (simp add: thermal_update_def)

lemma account_poll_machine [simp]: "mg_machine (account_poll now g) = mg_machine g"
  by (simp add: account_poll_def Let_def)

text \<open>The machine update that a poll performs.\<close>

definition polled_machine :: "(pyval \<Rightarrow> string) \<Rightarrow> thermal_config \<Rightarrow> poll_world \<Rightarrow> thermal_manager \<Rightarrow> thermal_machine" where
  "polled_machine rp c w g =
     thermal_update c (pw_clock w) (poll_reading rp c w (mg_machine g)) (mg_machine g)"

text \<open>The supervisor is told to isolate every worker exactly when a poll enters the critical
  state: the critical handler of a poll runs if and only if one is installed, the machine was not
  critical before, and the poll's update makes it critical. A poll that stays critical does not
  repeat it.\<close>

theorem critical_handler_on_entry_only:
  assumes "poll_once rp c has_handler w g = Inr (g', r)"
  shows "pr_critical_handler r \<longleftrightarrow>
     has_handler \<and> tm_state (mg_machine g) \<noteq> CRITICAL \<and> tm_state (polled_machine rp c w g) = CRITICAL"
proof -
  have r: "pr_critical_handler r \<longleftrightarrow> has_handler
      \<and> length (tm_transitions (mg_machine g)) < length (tm_transitions (polled_machine rp c w g))
      \<and> tm_state (polled_machine rp c w g) = CRITICAL"
    using assms
    by (auto simp: poll_once_def Let_def rbind_eq_Inr polled_machine_def)
  show ?thesis
  proof (cases "tc_enabled c")
    case True
    have "length (tm_transitions (polled_machine rp c w g)) = length (tm_transitions (mg_machine g))
        + (if tm_state (polled_machine rp c w g) = tm_state (mg_machine g) then 0 else 1)"
      unfolding polled_machine_def by (rule update_transition_count [OF True])
    with r show ?thesis by auto
  next
    case False
    with r show ?thesis using disabled_update [OF False] by (simp add: polled_machine_def)
  qed
qed

definition example_world :: poll_world where
  "example_world = \<lparr>pw_clock = example_clock 5,
     pw_readings = Some [[(''source'', VStr ''k10temp''), (''label'', VStr ''Tctl''), (''celsius'', VFloat (Fin 91))]],
     pw_host = [], pw_workload = FileMissing, pw_later = 5\<rparr>"

lemma example_poll:
  "\<exists>g' r. poll_once (\<lambda>_. []) default_thermal_config True example_world (manager_init default_thermal_config 0) = Inr (g', r)"
  by (simp add: poll_once_def manager_status_def Let_def read_thermal_workload_activity_def
      read_workload_body_def read_json_def example_world_def default_thermal_config_def split: option.split)

lemma example_poll_state:
  "tm_state (polled_machine (\<lambda>_. []) default_thermal_config example_world (manager_init default_thermal_config 0)) = CRITICAL"
  by code_simp

theorem critical_handler_on_entry_only_witness:
  "\<exists>g' r. poll_once (\<lambda>_. []) default_thermal_config True example_world (manager_init default_thermal_config 0) = Inr (g', r)
     \<and> pr_critical_handler r"
proof -
  obtain g' r where p: "poll_once (\<lambda>_. []) default_thermal_config True example_world
      (manager_init default_thermal_config 0) = Inr (g', r)"
    using example_poll by blast
  have "tm_state (mg_machine (manager_init default_thermal_config 0)) \<noteq> CRITICAL"
    by (simp add: manager_init_def thermal_init_def)
  with critical_handler_on_entry_only [OF p] example_poll_state p show ?thesis by blast
qed

section \<open>Time per state\<close>

lemma bump_keys: "dhas d k \<Longrightarrow> fst ` set (bump k x d) = fst ` set d"
  by (auto simp: bump_def fst_set_update dhas_def map_of_eq_None_iff insert_absorb)

lemma bump_distinct: "wf_dict d \<Longrightarrow> wf_dict (bump k x d)"
  by (simp add: bump_def alist.wf_put)

lemma sum_update:
  "wf_dict d \<Longrightarrow> map_of d k = Some y \<Longrightarrow>
     sum_list (map snd (AList.update k z d)) = sum_list (map snd d) + z - (y::rat)"
proof (induction d)
  case Nil
  then show ?case by simp
next
  case (Cons e d)
  then show ?case by (cases e) (auto simp: wf_dict_def algebra_simps split: if_splits)
qed

lemma sum_bump:
  "wf_dict d \<Longrightarrow> dhas d k \<Longrightarrow> sum_list (map snd (bump k x d)) = sum_list (map snd d) + x"
  by (auto simp: bump_def dhas_def sum_update)

definition covers_all_states :: "(string \<times> rat) list \<Rightarrow> bool" where
  "covers_all_states d = (wf_dict d \<and> (\<forall>s. dhas d (thermal_state_value s)))"

lemma covers_all_states_init: "covers_all_states (mg_state_seconds (manager_init c now))"
proof -
  have "dhas (map (\<lambda>s. (thermal_state_value s, 0::rat)) thermal_states) (thermal_state_value s)" for s
    by (cases s) (simp_all add: thermal_states_def dhas_def)
  then show ?thesis
    by (simp add: covers_all_states_def manager_init_def wf_dict_def thermal_states_def)
qed

lemma dhas_bump: "dhas (bump k x d) j \<longleftrightarrow> k = j \<or> dhas d j"
  by (simp add: dhas_def bump_def update_conv')

lemma covers_all_states_bump: "covers_all_states d \<Longrightarrow> covers_all_states (bump k x d)"
  by (simp add: covers_all_states_def bump_distinct dhas_bump)

lemma covers_all_states_sum:
  "covers_all_states d \<Longrightarrow> sum_list (map snd (bump (thermal_state_value s) x d)) = sum_list (map snd d) + x"
  by (simp add: covers_all_states_def sum_bump)

lemma account_poll_seconds:
  "mg_state_seconds (account_poll now g) = bump (thermal_state_value (tm_state (mg_machine g)))
     (case mg_last_poll_monotonic g of None \<Rightarrow> 0 | Some t \<Rightarrow> max 0 (now - t)) (mg_state_seconds g)"
  by (simp add: account_poll_def Let_def)

lemma poll_state_seconds:
  assumes "poll_once rp c h w g = Inr (g', r)"
  shows "mg_state_seconds g' = mg_state_seconds (account_poll (monotonic (pw_clock w)) g)"
    and "mg_last_poll_monotonic g' = Some (monotonic (pw_clock w))"
  using assms
  by (auto simp: poll_once_def Let_def rbind_eq_Inr manager_status_def account_poll_def)

text \<open>A run of polls, stopping at a poll that raises.\<close>

fun run_polls :: "(pyval \<Rightarrow> string) \<Rightarrow> thermal_config \<Rightarrow> bool \<Rightarrow> poll_world list \<Rightarrow> thermal_manager \<Rightarrow> thermal_manager res" where
  "run_polls rp c h [] g = Inr g"
| "run_polls rp c h (w # ws) g = rbind (poll_once rp c h w g) (\<lambda>(g', r). run_polls rp c h ws g')"

lemma poll_accounts:
  assumes "poll_once rp c h w g = Inr (g', r)" and "covers_all_states (mg_state_seconds g)"
    and "mg_last_poll_monotonic g = Some t" and "t \<le> monotonic (pw_clock w)"
  shows "covers_all_states (mg_state_seconds g')"
    and "sum_list (map snd (mg_state_seconds g')) =
           sum_list (map snd (mg_state_seconds g)) + (monotonic (pw_clock w) - t)"
  unfolding poll_state_seconds [OF assms(1)] account_poll_seconds using assms(2-4)
  by (simp_all add: covers_all_states_bump covers_all_states_sum)

lemma run_accounts:
  assumes "run_polls rp c h ws g = Inr g'" and "covers_all_states (mg_state_seconds g)"
    and "mg_last_poll_monotonic g = Some t" and "sorted (t # map (\<lambda>w. monotonic (pw_clock w)) ws)"
  shows "sum_list (map snd (mg_state_seconds g')) =
     sum_list (map snd (mg_state_seconds g)) + (last (t # map (\<lambda>w. monotonic (pw_clock w)) ws) - t)"
  using assms
proof (induction ws arbitrary: g t)
  case Nil
  then show ?case by simp
next
  case (Cons w ws)
  then obtain g1 r where p: "poll_once rp c h w g = Inr (g1, r)" and rest: "run_polls rp c h ws g1 = Inr g'"
    by (auto simp: rbind_eq_Inr)
  note acc = poll_accounts [OF p Cons.prems(2,3)]
  have "sum_list (map snd (mg_state_seconds g')) = sum_list (map snd (mg_state_seconds g1))
      + (last (monotonic (pw_clock w) # map (\<lambda>w. monotonic (pw_clock w)) ws) - monotonic (pw_clock w))"
    using Cons.prems(4) acc poll_state_seconds(2) [OF p] by (intro Cons.IH rest) auto
  with acc Cons.prems(4) show ?case by simp
qed

text \<open>The time-per-state metrics account for every second: after any run of polls with a
  non-decreasing clock, the seconds recorded over all thermal states add up to the time between
  the first and the last poll.\<close>

theorem state_seconds_add_up:
  assumes "run_polls rp c h (w # ws) (manager_init c now) = Inr g"
    and "sorted (map (\<lambda>w. monotonic (pw_clock w)) (w # ws))"
  shows "sum_list (map snd (mg_state_seconds g)) =
     last (map (\<lambda>w. monotonic (pw_clock w)) (w # ws)) - monotonic (pw_clock w)"
proof -
  obtain g1 r where p: "poll_once rp c h w (manager_init c now) = Inr (g1, r)"
    and rest: "run_polls rp c h ws g1 = Inr g"
    using assms(1) by (auto simp: rbind_eq_Inr)
  have "mg_last_poll_monotonic (manager_init c now) = None"
    and "sum_list (map snd (mg_state_seconds (manager_init c now))) = 0"
    by (simp_all add: manager_init_def thermal_states_def)
  then have c0: "covers_all_states (mg_state_seconds g1)" "sum_list (map snd (mg_state_seconds g1)) = 0"
    using covers_all_states_init [of c now] unfolding poll_state_seconds [OF p] account_poll_seconds
    by (simp_all add: covers_all_states_bump covers_all_states_sum)
  show ?thesis
    using run_accounts [OF rest c0(1) poll_state_seconds(2) [OF p]] assms(2) c0(2) by simp
qed

theorem state_seconds_add_up_witness:
  "\<exists>g. run_polls (\<lambda>_. []) default_thermal_config True
      [example_world, example_world\<lparr>pw_clock := example_clock 12\<rparr>] (manager_init default_thermal_config 0) = Inr g
    \<and> sum_list (map snd (mg_state_seconds g)) = 7"
proof -
  let ?ws = "[example_world\<lparr>pw_clock := example_clock 12\<rparr>]"
  have "\<exists>g. run_polls (\<lambda>_. []) default_thermal_config True (example_world # ?ws)
      (manager_init default_thermal_config 0) = Inr g"
    by (simp add: poll_once_def manager_status_def Let_def read_thermal_workload_activity_def
      read_workload_body_def read_json_def example_world_def default_thermal_config_def split: option.split)
  then obtain g where g: "run_polls (\<lambda>_. []) default_thermal_config True (example_world # ?ws)
      (manager_init default_thermal_config 0) = Inr g" by blast
  from state_seconds_add_up [OF g] g show ?thesis
    by (simp add: example_world_def example_clock_def)
qed

end
