(* ===== verification/Protocol.thy ===== *)
theory Protocol
  imports Prelude
begin

text \<open>
  The vocabulary every process shares: worker states, generation families, lifecycle classes and
  the capability set (\<open>protocol.py\<close>); the protocol contracts an operator can publish
  (\<open>protocol_contracts.py\<close>) and the gateway adapters that serve them
  (\<open>gateway/adapters.py\<close>).
\<close>

section \<open>Enumerations\<close>

datatype worker_state =
    DISCOVERED
  | STOPPED
  | VALIDATING
  | STARTING
  | LOADING
  | WARMING
  | READY
  | BUSY
  | DEGRADED
  | STOPPING
  | FAILED
  | ORPHANED
  | INCOMPATIBLE

fun worker_state_value :: "worker_state \<Rightarrow> string" where
  "worker_state_value DISCOVERED = ''discovered''"
| "worker_state_value STOPPED = ''stopped''"
| "worker_state_value VALIDATING = ''validating''"
| "worker_state_value STARTING = ''starting''"
| "worker_state_value LOADING = ''loading''"
| "worker_state_value WARMING = ''warming''"
| "worker_state_value READY = ''ready''"
| "worker_state_value BUSY = ''busy''"
| "worker_state_value DEGRADED = ''degraded''"
| "worker_state_value STOPPING = ''stopping''"
| "worker_state_value FAILED = ''failed''"
| "worker_state_value ORPHANED = ''orphaned''"
| "worker_state_value INCOMPATIBLE = ''incompatible''"

datatype generation_family =
    AUTOREGRESSIVE
  | TEXT_DIFFUSION
  | EMBEDDING
  | VISION_LANGUAGE
  | VISION_DETECTION
  | FEATURE_EXTRACTION
  | SPEECH_CONVERSATION
  | TEXT_TRANSLATION
  | SPEECH_SYNTHESIS
  | SPEECH_RECOGNITION

fun generation_family_value :: "generation_family \<Rightarrow> string" where
  "generation_family_value AUTOREGRESSIVE = ''autoregressive''"
| "generation_family_value TEXT_DIFFUSION = ''text-diffusion''"
| "generation_family_value EMBEDDING = ''embedding''"
| "generation_family_value VISION_LANGUAGE = ''vision-language''"
| "generation_family_value VISION_DETECTION = ''vision-detection''"
| "generation_family_value FEATURE_EXTRACTION = ''feature-extraction''"
| "generation_family_value SPEECH_CONVERSATION = ''speech-conversation''"
| "generation_family_value TEXT_TRANSLATION = ''text-translation''"
| "generation_family_value SPEECH_SYNTHESIS = ''speech-synthesis''"
| "generation_family_value SPEECH_RECOGNITION = ''speech-recognition''"

datatype lifecycle_class =
    RESIDENT
  | ON_DEMAND
  | EXCLUSIVE

fun lifecycle_value :: "lifecycle_class \<Rightarrow> string" where
  "lifecycle_value RESIDENT = ''resident''"
| "lifecycle_value ON_DEMAND = ''on-demand''"
| "lifecycle_value EXCLUSIVE = ''exclusive''"

definition generation_families :: "generation_family list" where
  "generation_families = [AUTOREGRESSIVE, TEXT_DIFFUSION, EMBEDDING, VISION_LANGUAGE, VISION_DETECTION,
     FEATURE_EXTRACTION, SPEECH_CONVERSATION, TEXT_TRANSLATION, SPEECH_SYNTHESIS, SPEECH_RECOGNITION]"

definition parse_generation_family :: "string \<Rightarrow> generation_family res" where
  "parse_generation_family s =
     (case find (\<lambda>f. generation_family_value f = s) generation_families of
        Some f \<Rightarrow> Inr f | None \<Rightarrow> Inl (ValueError ''is not a valid GenerationFamily''))"

definition parse_lifecycle :: "string \<Rightarrow> lifecycle_class res" where
  "parse_lifecycle s =
     (case find (\<lambda>f. lifecycle_value f = s) [RESIDENT, ON_DEMAND, EXCLUSIVE] of
        Some f \<Rightarrow> Inr f | None \<Rightarrow> Inl (ValueError ''is not a valid LifecycleClass''))"

lemma parse_generation_family_value [simp]: "parse_generation_family (generation_family_value f) = Inr f"
  by (cases f) (simp_all add: parse_generation_family_def generation_families_def)

lemma parse_lifecycle_value [simp]: "parse_lifecycle (lifecycle_value l) = Inr l"
  by (cases l) (simp_all add: parse_lifecycle_def)

section \<open>Capability sets\<close>

text \<open>The three capabilities that admit a literal beside \<open>bool\<close> are kept as Python values.\<close>

record capability_set =
  cs_chat :: pyval
  cs_completions :: bool
  cs_streaming :: bool
  cs_cancellation :: bool
  cs_logits :: pyval
  cs_top_k_trace :: bool
  cs_hidden_states :: pyval
  cs_iterative_refinement :: bool
  cs_intermediate_frames :: bool
  cs_seeded_generation :: bool
  cs_image_input :: bool
  cs_structured_output :: bool
  cs_tool_calling :: bool
  cs_reasoning :: bool
  cs_mtp :: bool
  cs_audio_input :: bool
  cs_audio_output :: bool
  cs_full_duplex :: bool
  cs_translation :: bool
  cs_speech_synthesis :: bool
  cs_speech_recognition :: bool
  cs_embeddings :: bool
  cs_prefix_caching :: string
  cs_prefix_cache_enabled :: bool

definition default_capability_set :: capability_set where
  "default_capability_set = \<lparr>cs_chat = VBool False,
     cs_completions = False,
     cs_streaming = True,
     cs_cancellation = True,
     cs_logits = VBool False,
     cs_top_k_trace = False,
     cs_hidden_states = VBool False,
     cs_iterative_refinement = False,
     cs_intermediate_frames = False,
     cs_seeded_generation = False,
     cs_image_input = False,
     cs_structured_output = False,
     cs_tool_calling = False,
     cs_reasoning = False,
     cs_mtp = False,
     cs_audio_input = False,
     cs_audio_output = False,
     cs_full_duplex = False,
     cs_translation = False,
     cs_speech_synthesis = False,
     cs_speech_recognition = False,
     cs_embeddings = False,
     cs_prefix_caching = ''unsupported'',
     cs_prefix_cache_enabled = False\<rparr>"

text \<open>\<open>model_dump(mode="json")\<close>: the fields in declaration order.\<close>

definition capability_dump :: "capability_set \<Rightarrow> pydict" where
  "capability_dump c =
     [(''chat'', cs_chat c),
      (''completions'', VBool (cs_completions c)),
      (''streaming'', VBool (cs_streaming c)),
      (''cancellation'', VBool (cs_cancellation c)),
      (''logits'', cs_logits c),
      (''top_k_trace'', VBool (cs_top_k_trace c)),
      (''hidden_states'', cs_hidden_states c),
      (''iterative_refinement'', VBool (cs_iterative_refinement c)),
      (''intermediate_frames'', VBool (cs_intermediate_frames c)),
      (''seeded_generation'', VBool (cs_seeded_generation c)),
      (''image_input'', VBool (cs_image_input c)),
      (''structured_output'', VBool (cs_structured_output c)),
      (''tool_calling'', VBool (cs_tool_calling c)),
      (''reasoning'', VBool (cs_reasoning c)),
      (''mtp'', VBool (cs_mtp c)),
      (''audio_input'', VBool (cs_audio_input c)),
      (''audio_output'', VBool (cs_audio_output c)),
      (''full_duplex'', VBool (cs_full_duplex c)),
      (''translation'', VBool (cs_translation c)),
      (''speech_synthesis'', VBool (cs_speech_synthesis c)),
      (''speech_recognition'', VBool (cs_speech_recognition c)),
      (''embeddings'', VBool (cs_embeddings c)),
      (''prefix_caching'', VStr (cs_prefix_caching c)),
      (''prefix_cache_enabled'', VBool (cs_prefix_cache_enabled c))]"

text \<open>
  \<open>model_validate\<close> on a dictionary. How the validation library coerces a value to \<open>bool\<close> is
  the parameter \<open>to_bool\<close>; unknown keys are refused, missing keys take the default.
\<close>

definition field_or :: "pydict \<Rightarrow> string \<Rightarrow> 'a \<Rightarrow> (pyval \<Rightarrow> 'a res) \<Rightarrow> 'a res" where
  "field_or d k dflt conv = (case map_of d k of None \<Rightarrow> Inr dflt | Some v \<Rightarrow> conv v)"

definition literal_or_bool :: "(pyval \<Rightarrow> bool res) \<Rightarrow> string \<Rightarrow> pyval \<Rightarrow> pyval res" where
  "literal_or_bool to_bool lit v = (if eq_str v lit then Inr v else rbind (to_bool v) (\<lambda>b. Inr (VBool b)))"

definition prefix_caching_value :: "pyval \<Rightarrow> string res" where
  "prefix_caching_value v =
     (case v of VStr s \<Rightarrow>
        if s \<in> {''unsupported'', ''backend-managed'', ''application-managed''} then Inr s
        else Inl (ValueError ''prefix_caching'')
      | _ \<Rightarrow> Inl (ValueError ''prefix_caching''))"

definition capability_validate :: "(pyval \<Rightarrow> bool res) \<Rightarrow> pydict \<Rightarrow> capability_set res" where
  "capability_validate to_bool d =
     (if \<not> list_all (\<lambda>(k, v). dhas (capability_dump default_capability_set) k) d
      then Inl (ValueError ''extra inputs are not permitted'')
      else
     rbind (field_or d ''chat'' (VBool False) (literal_or_bool to_bool ''compatibility-only'')) (\<lambda>x0.
     rbind (field_or d ''completions'' (False) (to_bool)) (\<lambda>x1.
     rbind (field_or d ''streaming'' (True) (to_bool)) (\<lambda>x2.
     rbind (field_or d ''cancellation'' (True) (to_bool)) (\<lambda>x3.
     rbind (field_or d ''logits'' (VBool False) (literal_or_bool to_bool ''model-specific'')) (\<lambda>x4.
     rbind (field_or d ''top_k_trace'' (False) (to_bool)) (\<lambda>x5.
     rbind (field_or d ''hidden_states'' (VBool False) (literal_or_bool to_bool ''optional'')) (\<lambda>x6.
     rbind (field_or d ''iterative_refinement'' (False) (to_bool)) (\<lambda>x7.
     rbind (field_or d ''intermediate_frames'' (False) (to_bool)) (\<lambda>x8.
     rbind (field_or d ''seeded_generation'' (False) (to_bool)) (\<lambda>x9.
     rbind (field_or d ''image_input'' (False) (to_bool)) (\<lambda>x10.
     rbind (field_or d ''structured_output'' (False) (to_bool)) (\<lambda>x11.
     rbind (field_or d ''tool_calling'' (False) (to_bool)) (\<lambda>x12.
     rbind (field_or d ''reasoning'' (False) (to_bool)) (\<lambda>x13.
     rbind (field_or d ''mtp'' (False) (to_bool)) (\<lambda>x14.
     rbind (field_or d ''audio_input'' (False) (to_bool)) (\<lambda>x15.
     rbind (field_or d ''audio_output'' (False) (to_bool)) (\<lambda>x16.
     rbind (field_or d ''full_duplex'' (False) (to_bool)) (\<lambda>x17.
     rbind (field_or d ''translation'' (False) (to_bool)) (\<lambda>x18.
     rbind (field_or d ''speech_synthesis'' (False) (to_bool)) (\<lambda>x19.
     rbind (field_or d ''speech_recognition'' (False) (to_bool)) (\<lambda>x20.
     rbind (field_or d ''embeddings'' (False) (to_bool)) (\<lambda>x21.
     rbind (field_or d ''prefix_caching'' (''unsupported'') (prefix_caching_value)) (\<lambda>x22.
     rbind (field_or d ''prefix_cache_enabled'' (False) (to_bool)) (\<lambda>x23.
     Inr \<lparr>cs_chat = x0,
       cs_completions = x1,
       cs_streaming = x2,
       cs_cancellation = x3,
       cs_logits = x4,
       cs_top_k_trace = x5,
       cs_hidden_states = x6,
       cs_iterative_refinement = x7,
       cs_intermediate_frames = x8,
       cs_seeded_generation = x9,
       cs_image_input = x10,
       cs_structured_output = x11,
       cs_tool_calling = x12,
       cs_reasoning = x13,
       cs_mtp = x14,
       cs_audio_input = x15,
       cs_audio_output = x16,
       cs_full_duplex = x17,
       cs_translation = x18,
       cs_speech_synthesis = x19,
       cs_speech_recognition = x20,
       cs_embeddings = x21,
       cs_prefix_caching = x22,
       cs_prefix_cache_enabled = x23\<rparr>)))))))))))))))))))))))))"

section \<open>Contracts and adapters\<close>

record protocol_contract =
  pc_id :: string
  pc_display_name :: string
  pc_generation_family :: generation_family
  pc_compatible_generation_families :: "generation_family list"
  pc_required_capabilities :: "string list"
  pc_required_worker_settings :: pydict
  pc_surfaces :: "string list"

definition PROTOCOL_CONTRACTS :: "protocol_contract list" where
  "PROTOCOL_CONTRACTS =
    [\<lparr>pc_id = ''openai-chat-v1'', pc_display_name = ''OpenAI-compatible chat'', pc_generation_family = AUTOREGRESSIVE,
      pc_compatible_generation_families = [AUTOREGRESSIVE, VISION_LANGUAGE],
      pc_required_capabilities = [''chat''],
      pc_required_worker_settings = [],
      pc_surfaces = [''POST /v1/chat/completions'']\<rparr>,
     \<lparr>pc_id = ''openai-image-chat-v1'', pc_display_name = ''OpenAI-compatible image chat'', pc_generation_family = AUTOREGRESSIVE,
      pc_compatible_generation_families = [AUTOREGRESSIVE, VISION_LANGUAGE],
      pc_required_capabilities = [''chat'', ''image_input''],
      pc_required_worker_settings = [],
      pc_surfaces = [''POST /v1/chat/completions'']\<rparr>,
     \<lparr>pc_id = ''openai-completions-v1'', pc_display_name = ''OpenAI-compatible completions'', pc_generation_family = AUTOREGRESSIVE,
      pc_compatible_generation_families = [],
      pc_required_capabilities = [''completions''],
      pc_required_worker_settings = [],
      pc_surfaces = [''POST /v1/completions'']\<rparr>,
     \<lparr>pc_id = ''openai-embeddings-v1'', pc_display_name = ''OpenAI-compatible embeddings'', pc_generation_family = EMBEDDING,
      pc_compatible_generation_families = [],
      pc_required_capabilities = [''embeddings''],
      pc_required_worker_settings = [],
      pc_surfaces = [''POST /v1/embeddings'']\<rparr>,
     \<lparr>pc_id = ''native-ar-trace-v1'', pc_display_name = ''Native autoregressive trace'', pc_generation_family = AUTOREGRESSIVE,
      pc_compatible_generation_families = [],
      pc_required_capabilities = [''top_k_trace''],
      pc_required_worker_settings = [],
      pc_surfaces = [''POST /native/v1/autoregressive/traces'']\<rparr>,
     \<lparr>pc_id = ''scene-analysis-v1'', pc_display_name = ''Scene analysis'', pc_generation_family = VISION_LANGUAGE,
      pc_compatible_generation_families = [],
      pc_required_capabilities = [''image_input'', ''structured_output''],
      pc_required_worker_settings = [],
      pc_surfaces = [''POST /v1/chat/completions'', ''POST /v1/vision/analyse'']\<rparr>,
     \<lparr>pc_id = ''text-diffusion-v1'', pc_display_name = ''Text diffusion'', pc_generation_family = TEXT_DIFFUSION,
      pc_compatible_generation_families = [],
      pc_required_capabilities = [''iterative_refinement'', ''intermediate_frames''],
      pc_required_worker_settings = [],
      pc_surfaces = [''POST /native/v1/text-diffusion/refine'', ''POST /native/v1/text-diffusion/jobs'', ''GET /native/v1/text-diffusion/jobs/{job_id}'', ''GET /native/v1/text-diffusion/jobs/{job_id}/events'', ''POST /native/v1/text-diffusion/jobs/{job_id}/cancel'']\<rparr>,
     \<lparr>pc_id = ''speech-conversation-v1'', pc_display_name = ''Speech conversation'', pc_generation_family = SPEECH_CONVERSATION,
      pc_compatible_generation_families = [],
      pc_required_capabilities = [''audio_input'', ''audio_output'', ''full_duplex''],
      pc_required_worker_settings = [],
      pc_surfaces = [''WS /v1/speech/conversations'']\<rparr>,
     \<lparr>pc_id = ''translation-en-fr-v1'', pc_display_name = ''English to French translation'', pc_generation_family = TEXT_TRANSLATION,
      pc_compatible_generation_families = [],
      pc_required_capabilities = [''translation''],
      pc_required_worker_settings = [(''source_language'', VStr ''en''), (''target_language'', VStr ''fr'')],
      pc_surfaces = [''POST /v1/translations'']\<rparr>,
     \<lparr>pc_id = ''translation-en-de-v1'', pc_display_name = ''English to German translation'', pc_generation_family = TEXT_TRANSLATION,
      pc_compatible_generation_families = [],
      pc_required_capabilities = [''translation''],
      pc_required_worker_settings = [(''source_language'', VStr ''en''), (''target_language'', VStr ''de'')],
      pc_surfaces = [''POST /v1/translations'']\<rparr>,
     \<lparr>pc_id = ''speech-synthesis-v1'', pc_display_name = ''Speech synthesis'', pc_generation_family = SPEECH_SYNTHESIS,
      pc_compatible_generation_families = [],
      pc_required_capabilities = [''speech_synthesis'', ''audio_output'', ''cancellation''],
      pc_required_worker_settings = [(''sample_rate_hz'', VInt 24000)],
      pc_surfaces = [''POST /v1/audio/speech'']\<rparr>,
     \<lparr>pc_id = ''speech-recognition-v1'', pc_display_name = ''Speech recognition'', pc_generation_family = SPEECH_RECOGNITION,
      pc_compatible_generation_families = [],
      pc_required_capabilities = [''speech_recognition'', ''audio_input'', ''cancellation''],
      pc_required_worker_settings = [(''sample_rate_hz'', VInt 16000), (''channels'', VInt 1)],
      pc_surfaces = [''POST /v1/audio/transcriptions'']\<rparr>]"

definition find_contract :: "string \<Rightarrow> protocol_contract option" where
  "find_contract i = find (\<lambda>c. pc_id c = i) PROTOCOL_CONTRACTS"

record protocol_adapter =
  pa_contract_id :: string
  pa_public_surfaces :: "string list"
  pa_upstream_path :: "string option"
  pa_timeout_name :: "string option"
  pa_openai_model :: bool
  pa_native :: bool

definition PROTOCOL_ADAPTERS :: "protocol_adapter list" where
  "PROTOCOL_ADAPTERS =
    [\<lparr>pa_contract_id = ''openai-chat-v1'', pa_public_surfaces = [''POST /v1/chat/completions''],
      pa_upstream_path = Some ''/v1/chat/completions'', pa_timeout_name = Some ''scenechat_timeout_seconds'',
      pa_openai_model = True, pa_native = False\<rparr>,
     \<lparr>pa_contract_id = ''openai-image-chat-v1'', pa_public_surfaces = [''POST /v1/chat/completions''],
      pa_upstream_path = Some ''/v1/chat/completions'', pa_timeout_name = Some ''scenechat_timeout_seconds'',
      pa_openai_model = True, pa_native = False\<rparr>,
     \<lparr>pa_contract_id = ''openai-completions-v1'', pa_public_surfaces = [''POST /v1/completions''],
      pa_upstream_path = Some ''/v1/completions'', pa_timeout_name = None,
      pa_openai_model = True, pa_native = False\<rparr>,
     \<lparr>pa_contract_id = ''openai-embeddings-v1'', pa_public_surfaces = [''POST /v1/embeddings''],
      pa_upstream_path = Some ''/v1/embeddings'', pa_timeout_name = None,
      pa_openai_model = True, pa_native = False\<rparr>,
     \<lparr>pa_contract_id = ''native-ar-trace-v1'', pa_public_surfaces = [''POST /native/v1/autoregressive/traces''],
      pa_upstream_path = Some ''/native/autoregressive/trace'', pa_timeout_name = None,
      pa_openai_model = False, pa_native = True\<rparr>,
     \<lparr>pa_contract_id = ''scene-analysis-v1'', pa_public_surfaces = [''POST /v1/chat/completions'', ''POST /v1/vision/analyse''],
      pa_upstream_path = Some ''/v1/chat/completions'', pa_timeout_name = Some ''scenechat_timeout_seconds'',
      pa_openai_model = False, pa_native = False\<rparr>,
     \<lparr>pa_contract_id = ''text-diffusion-v1'', pa_public_surfaces = [''POST /native/v1/text-diffusion/refine'', ''POST /native/v1/text-diffusion/jobs'', ''GET /native/v1/text-diffusion/jobs/{job_id}'', ''GET /native/v1/text-diffusion/jobs/{job_id}/events'', ''POST /native/v1/text-diffusion/jobs/{job_id}/cancel''],
      pa_upstream_path = Some ''/v1/refine'', pa_timeout_name = Some ''diffusion_timeout_seconds'',
      pa_openai_model = False, pa_native = True\<rparr>,
     \<lparr>pa_contract_id = ''speech-conversation-v1'', pa_public_surfaces = [''WS /v1/speech/conversations''],
      pa_upstream_path = None, pa_timeout_name = None,
      pa_openai_model = False, pa_native = False\<rparr>,
     \<lparr>pa_contract_id = ''translation-en-fr-v1'', pa_public_surfaces = [''POST /v1/translations''],
      pa_upstream_path = Some ''/v1/translations'', pa_timeout_name = Some ''translation_timeout_seconds'',
      pa_openai_model = False, pa_native = False\<rparr>,
     \<lparr>pa_contract_id = ''translation-en-de-v1'', pa_public_surfaces = [''POST /v1/translations''],
      pa_upstream_path = Some ''/v1/translations'', pa_timeout_name = Some ''translation_timeout_seconds'',
      pa_openai_model = False, pa_native = False\<rparr>,
     \<lparr>pa_contract_id = ''speech-synthesis-v1'', pa_public_surfaces = [''POST /v1/audio/speech''],
      pa_upstream_path = Some ''/v1/audio/speech'', pa_timeout_name = Some ''speech_synthesis_timeout_seconds'',
      pa_openai_model = True, pa_native = False\<rparr>,
     \<lparr>pa_contract_id = ''speech-recognition-v1'', pa_public_surfaces = [''POST /v1/audio/transcriptions''],
      pa_upstream_path = Some ''/v1/audio/transcriptions'', pa_timeout_name = Some ''speech_recognition_timeout_seconds'',
      pa_openai_model = True, pa_native = False\<rparr>]"

definition find_adapter :: "string \<Rightarrow> protocol_adapter option" where
  "find_adapter i = find (\<lambda>a. pa_contract_id a = i) PROTOCOL_ADAPTERS"

definition adapter_ids :: "string list \<Rightarrow> string list" where
  "adapter_ids ids = filter (\<lambda>i. find_adapter i \<noteq> None) ids"

lemma find_contract_id: "find_contract i = Some c \<Longrightarrow> pc_id c = i \<and> c \<in> set PROTOCOL_CONTRACTS"
  by (auto simp: find_contract_def find_Some_iff)

lemma find_adapter_id: "find_adapter i = Some a \<Longrightarrow> pa_contract_id a = i \<and> a \<in> set PROTOCOL_ADAPTERS"
  by (auto simp: find_adapter_def find_Some_iff)

end
