(* ===== verification/Runtime_Trust.thy ===== *)
theory Runtime_Trust
  imports Protocol
begin

text \<open>
  The code-owned registry of worker implementations (\<open>runtime_trust.py\<close>). An installed manifest
  may select one of them; it cannot supply an executable, arguments, paths or an environment.
  The sets of the source are lists in the order they are written.
\<close>

record trusted_implementation =
  ti_id :: string
  ti_display_name :: string
  ti_generation_family :: generation_family
  ti_capabilities :: "string list"
  ti_template_settings :: "string list"
  ti_cache_settings :: "string list"
  ti_additional_generation_families :: "generation_family list"

definition impl_transformers_rocm :: trusted_implementation where
  "impl_transformers_rocm = \<lparr>ti_id = ''transformers-rocm'', ti_display_name = ''Transformers ROCm'',
     ti_generation_family = AUTOREGRESSIVE,
     ti_capabilities = [''chat'', ''completions'', ''logits'', ''top_k_trace'', ''hidden_states'',
       ''seeded_generation'', ''streaming'', ''cancellation'', ''embeddings''],
     ti_template_settings = [''top_k'', ''context_length'', ''maximum_new_tokens'', ''startup_timeout_seconds'',
       ''warmup_timeout_seconds'', ''maximum_input_tokens'', ''prefix_cache_enabled''],
     ti_cache_settings = [''cache_root''],
     ti_additional_generation_families = [EMBEDDING]\<rparr>"

definition impl_vision_language_transformers_rocm :: trusted_implementation where
  "impl_vision_language_transformers_rocm = \<lparr>ti_id = ''vision-language-transformers-rocm'',
    ti_display_name = ''Vision-language Transformers ROCm'',
     ti_generation_family = VISION_LANGUAGE,
     ti_capabilities = [''chat'', ''streaming'', ''cancellation'', ''image_input'', ''structured_output''],
     ti_template_settings = [''context_length'', ''maximum_new_tokens'', ''generation_timeout_seconds'',
       ''visual_token_budget'', ''startup_timeout_seconds'', ''warmup_timeout_seconds'',
       ''hardware_verification_required''],
     ti_cache_settings = [''cache_root''],
     ti_additional_generation_families = []\<rparr>"

definition impl_gemma4_general_chat_transformers_rocm :: trusted_implementation where
  "impl_gemma4_general_chat_transformers_rocm = \<lparr>ti_id = ''gemma4-general-chat-transformers-rocm'',
    ti_display_name = ''Gemma 4 general chat Transformers ROCm'',
     ti_generation_family = VISION_LANGUAGE,
     ti_capabilities = [''chat'', ''streaming'', ''cancellation'', ''image_input'', ''tool_calling'', ''reasoning''],
     ti_template_settings = [''context_length'', ''maximum_new_tokens'', ''generation_timeout_seconds'',
       ''visual_token_budget'', ''thinking_mode'', ''startup_timeout_seconds'', ''warmup_timeout_seconds'',
       ''hardware_verification_required''],
     ti_cache_settings = [''cache_root''],
     ti_additional_generation_families = []\<rparr>"

definition impl_qwen35_vision_language_transformers_rocm :: trusted_implementation where
  "impl_qwen35_vision_language_transformers_rocm = \<lparr>ti_id = ''qwen35-vision-language-transformers-rocm'',
    ti_display_name = ''Qwen3.5 vision-language Transformers ROCm'',
     ti_generation_family = VISION_LANGUAGE,
     ti_capabilities = [''chat'', ''streaming'', ''cancellation'', ''image_input'', ''structured_output''],
     ti_template_settings = [''context_length'', ''maximum_new_tokens'', ''generation_timeout_seconds'',
       ''visual_token_budget'', ''startup_timeout_seconds'', ''warmup_timeout_seconds'',
       ''hardware_verification_required''],
     ti_cache_settings = [''cache_root''],
     ti_additional_generation_families = []\<rparr>"

definition impl_qwen35_chat_transformers_rocm :: trusted_implementation where
  "impl_qwen35_chat_transformers_rocm = \<lparr>ti_id = ''qwen35-chat-transformers-rocm'',
    ti_display_name = ''Qwen3.5 text chat Transformers ROCm'',
     ti_generation_family = AUTOREGRESSIVE,
     ti_capabilities = [''chat'', ''completions'', ''streaming'', ''cancellation'', ''tool_calling''],
     ti_template_settings = [''context_length'', ''maximum_new_tokens'', ''thinking_mode'',
       ''startup_timeout_seconds'', ''warmup_timeout_seconds'', ''hardware_verification_required''],
     ti_cache_settings = [''cache_root''],
     ti_additional_generation_families = []\<rparr>"

definition impl_qwen38_fp8_vision_language_transformers_rocm :: trusted_implementation where
  "impl_qwen38_fp8_vision_language_transformers_rocm = \<lparr>ti_id = ''qwen38-fp8-vision-language-transformers-rocm'', ti_display_name = ''Qwen3.8 native FP8 vision-language Transformers ROCm'',
     ti_generation_family = VISION_LANGUAGE,
     ti_capabilities = [''chat'', ''streaming'', ''cancellation'', ''image_input'', ''structured_output''],
     ti_template_settings = [''context_length'', ''maximum_new_tokens'', ''generation_timeout_seconds'',
       ''visual_token_budget'', ''startup_timeout_seconds'', ''warmup_timeout_seconds'',
       ''hardware_verification_required''],
     ti_cache_settings = [''cache_root''],
     ti_additional_generation_families = []\<rparr>"

definition impl_qwen38_fp8_chat_transformers_rocm :: trusted_implementation where
  "impl_qwen38_fp8_chat_transformers_rocm = \<lparr>ti_id = ''qwen38-fp8-chat-transformers-rocm'',
    ti_display_name = ''Qwen3.8 native FP8 text chat Transformers ROCm'',
     ti_generation_family = AUTOREGRESSIVE,
     ti_capabilities = [''chat'', ''completions'', ''streaming'', ''cancellation''],
     ti_template_settings = [''context_length'', ''maximum_new_tokens'', ''thinking_mode'',
       ''startup_timeout_seconds'', ''warmup_timeout_seconds'', ''hardware_verification_required''],
     ti_cache_settings = [''cache_root''],
     ti_additional_generation_families = []\<rparr>"

definition impl_text_diffusion_transformers_rocm :: trusted_implementation where
  "impl_text_diffusion_transformers_rocm = \<lparr>ti_id = ''text-diffusion-transformers-rocm'',
    ti_display_name = ''Text-diffusion Transformers ROCm'',
     ti_generation_family = TEXT_DIFFUSION,
     ti_capabilities = [''iterative_refinement'', ''intermediate_frames'', ''seeded_generation'', ''logits'',
       ''streaming'', ''cancellation''],
     ti_template_settings = [''maximum_new_tokens'', ''maximum_denoising_steps'', ''startup_timeout_seconds'',
       ''warmup_timeout_seconds'', ''hsa_preload_evidence''],
     ti_cache_settings = [''cache_root''],
     ti_additional_generation_families = []\<rparr>"

definition impl_text_diffusion_gptq_rocm :: trusted_implementation where
  "impl_text_diffusion_gptq_rocm = \<lparr>ti_id = ''text-diffusion-gptq-rocm'',
    ti_display_name = ''Text-diffusion GPTQ ROCm'',
     ti_generation_family = TEXT_DIFFUSION,
     ti_capabilities = [''iterative_refinement'', ''intermediate_frames'', ''seeded_generation'', ''logits'',
       ''streaming'', ''cancellation''],
     ti_template_settings = [''maximum_new_tokens'', ''maximum_denoising_steps'', ''startup_timeout_seconds'',
       ''warmup_timeout_seconds'', ''hsa_preload_evidence''],
     ti_cache_settings = [''q4_checkpoint_dir''],
     ti_additional_generation_families = []\<rparr>"

definition impl_llama_vulkan :: trusted_implementation where
  "impl_llama_vulkan = \<lparr>ti_id = ''llama-vulkan'', ti_display_name = ''llama.cpp Vulkan'',
     ti_generation_family = AUTOREGRESSIVE,
     ti_capabilities = [''chat'', ''completions'', ''streaming'', ''cancellation''],
     ti_template_settings = [''context_length'', ''maximum_new_tokens'', ''startup_timeout_seconds'',
       ''warmup_timeout_seconds'', ''execution_preset'', ''hardware_verification_required''],
     ti_cache_settings = [''artifact_path''],
     ti_additional_generation_families = []\<rparr>"

definition impl_qwen35_llamacpp_vulkan :: trusted_implementation where
  "impl_qwen35_llamacpp_vulkan = \<lparr>ti_id = ''qwen35-llamacpp-vulkan'',
    ti_display_name = ''Qwen3.5 llama.cpp Vulkan'',
     ti_generation_family = AUTOREGRESSIVE,
     ti_capabilities = [''chat'', ''completions'', ''streaming'', ''cancellation'', ''reasoning''],
     ti_template_settings = [''context_length'', ''maximum_new_tokens'', ''thinking_mode'',
       ''startup_timeout_seconds'', ''warmup_timeout_seconds'', ''runtime_profile'', ''candidate_manifest_id'',
       ''hardware_verification_required''],
     ti_cache_settings = [''artifact_path''],
     ti_additional_generation_families = []\<rparr>"

definition impl_qwen38_llamacpp_vulkan :: trusted_implementation where
  "impl_qwen38_llamacpp_vulkan = \<lparr>ti_id = ''qwen38-llamacpp-vulkan'',
    ti_display_name = ''Qwen3.8 llama.cpp Vulkan with MTP'',
     ti_generation_family = AUTOREGRESSIVE,
     ti_capabilities = [''chat'', ''completions'', ''streaming'', ''cancellation'', ''image_input'',
       ''structured_output'', ''tool_calling'', ''reasoning'', ''mtp''],
     ti_template_settings = [''context_length'', ''maximum_new_tokens'', ''thinking_mode'',
       ''startup_timeout_seconds'', ''warmup_timeout_seconds'', ''runtime_profile'',
       ''hardware_verification_required''],
     ti_cache_settings = [''artifact_path''],
     ti_additional_generation_families = []\<rparr>"

definition impl_moshiko_rocm :: trusted_implementation where
  "impl_moshiko_rocm = \<lparr>ti_id = ''moshiko-rocm'', ti_display_name = ''Moshiko ROCm'',
     ti_generation_family = SPEECH_CONVERSATION,
     ti_capabilities = [''streaming'', ''cancellation'', ''audio_input'', ''audio_output'', ''full_duplex''],
     ti_template_settings = [''sample_rate_hz'', ''channels'', ''maximum_sessions'', ''maximum_buffer_ms'',
       ''startup_timeout_seconds'', ''warmup_timeout_seconds'', ''hardware_verification_required''],
     ti_cache_settings = [''cache_root''],
     ti_additional_generation_families = []\<rparr>"

definition impl_marian_transformers_cpu :: trusted_implementation where
  "impl_marian_transformers_cpu = \<lparr>ti_id = ''marian-transformers-cpu'',
    ti_display_name = ''Marian Transformers CPU'',
     ti_generation_family = TEXT_TRANSLATION,
     ti_capabilities = [''translation'', ''cancellation''],
     ti_template_settings = [''maximum_input_characters'', ''maximum_input_tokens'', ''maximum_new_tokens'',
       ''generation_timeout_seconds'', ''startup_timeout_seconds'', ''warmup_timeout_seconds''],
     ti_cache_settings = [''cache_root''],
     ti_additional_generation_families = []\<rparr>"

definition impl_qwen3_tts_rocm :: trusted_implementation where
  "impl_qwen3_tts_rocm = \<lparr>ti_id = ''qwen3-tts-rocm'', ti_display_name = ''Qwen3-TTS ROCm'',
     ti_generation_family = SPEECH_SYNTHESIS,
     ti_capabilities = [''speech_synthesis'', ''audio_output'', ''cancellation''],
     ti_template_settings = [''sample_rate_hz'', ''channels'', ''maximum_input_characters'',
       ''maximum_codec_tokens'', ''maximum_audio_seconds'', ''generation_timeout_seconds'',
       ''startup_timeout_seconds'', ''warmup_timeout_seconds'', ''hardware_verification_required''],
     ti_cache_settings = [''cache_root''],
     ti_additional_generation_families = []\<rparr>"

definition impl_whisper_small_en_rocm :: trusted_implementation where
  "impl_whisper_small_en_rocm = \<lparr>ti_id = ''whisper-small-en-rocm'',
    ti_display_name = ''Whisper small.en ROCm'',
     ti_generation_family = SPEECH_RECOGNITION,
     ti_capabilities = [''speech_recognition'', ''audio_input'', ''cancellation''],
     ti_template_settings = [''sample_rate_hz'', ''channels'', ''maximum_audio_seconds'',
       ''recognition_timeout_seconds'', ''startup_timeout_seconds'', ''warmup_timeout_seconds'',
       ''hardware_verification_required''],
     ti_cache_settings = [''cache_root''],
     ti_additional_generation_families = []\<rparr>"

definition TRUSTED_RUNTIME_IMPLEMENTATIONS :: "trusted_implementation list" where
  "TRUSTED_RUNTIME_IMPLEMENTATIONS =
    [impl_transformers_rocm,
     impl_vision_language_transformers_rocm,
     impl_gemma4_general_chat_transformers_rocm,
     impl_qwen35_vision_language_transformers_rocm,
     impl_qwen35_chat_transformers_rocm,
     impl_qwen38_fp8_vision_language_transformers_rocm,
     impl_qwen38_fp8_chat_transformers_rocm,
     impl_text_diffusion_transformers_rocm,
     impl_text_diffusion_gptq_rocm,
     impl_llama_vulkan,
     impl_qwen35_llamacpp_vulkan,
     impl_qwen38_llamacpp_vulkan,
     impl_moshiko_rocm,
     impl_marian_transformers_cpu,
     impl_qwen3_tts_rocm,
     impl_whisper_small_en_rocm]"

definition find_implementation :: "string \<Rightarrow> trusted_implementation option" where
  "find_implementation i = find (\<lambda>t. ti_id t = i) TRUSTED_RUNTIME_IMPLEMENTATIONS"

text \<open>\<open>harness\<close>: the environment variable of the test harness is set to 1.\<close>

definition TEST_ONLY_RUNTIME_IDS :: "bool \<Rightarrow> string list" where
  "TEST_ONLY_RUNTIME_IDS harness = (if harness then [''mock''] else [])"

definition TRUSTED_RUNTIME_IDS :: "bool \<Rightarrow> string list" where
  "TRUSTED_RUNTIME_IDS harness = TEST_ONLY_RUNTIME_IDS harness @ map ti_id TRUSTED_RUNTIME_IMPLEMENTATIONS"

lemmas implementation_defs =
  impl_transformers_rocm_def impl_vision_language_transformers_rocm_def impl_gemma4_general_chat_transformers_rocm_def impl_qwen35_vision_language_transformers_rocm_def impl_qwen35_chat_transformers_rocm_def impl_qwen38_fp8_vision_language_transformers_rocm_def impl_qwen38_fp8_chat_transformers_rocm_def impl_text_diffusion_transformers_rocm_def impl_text_diffusion_gptq_rocm_def impl_llama_vulkan_def impl_qwen35_llamacpp_vulkan_def impl_qwen38_llamacpp_vulkan_def impl_moshiko_rocm_def impl_marian_transformers_cpu_def impl_qwen3_tts_rocm_def impl_whisper_small_en_rocm_def

lemma find_implementation_id:
  "find_implementation i = Some t \<Longrightarrow> ti_id t = i \<and> t \<in> set TRUSTED_RUNTIME_IMPLEMENTATIONS"
  by (auto simp: find_implementation_def find_Some_iff)

lemma mock_is_test_only: "''mock'' \<in> set (TRUSTED_RUNTIME_IDS harness) \<longleftrightarrow> harness"
  by (simp add: TRUSTED_RUNTIME_IDS_def TEST_ONLY_RUNTIME_IDS_def TRUSTED_RUNTIME_IMPLEMENTATIONS_def implementation_defs)

end
