(* ===== verification/Profiles.thy ===== *)
theory Profiles
  imports Runtime_Trust
begin

text \<open>
  The execution profile of a worker (\<open>profiles/models.py\<close>): its identifiers, and the contract
  between its generation family and the capabilities it advertises; and the rule for which models
  may use the application-managed prefix cache (\<open>prefix_cache.py\<close>).
\<close>

section \<open>Identifiers\<close>

definition is_lower :: "char \<Rightarrow> bool" where
  "is_lower c = (let n = (of_char c :: nat) in 97 \<le> n \<and> n \<le> 122)"

definition is_alias_char :: "char \<Rightarrow> bool" where
  "is_alias_char c = (is_lower c \<or> is_digit c \<or> c = CHR ''-'')"

text \<open>\<open>SAFE_ALIAS.fullmatch\<close>: a lower-case letter, then 1 to 62 letters, digits or hyphens.\<close>

fun SAFE_ALIAS :: "string \<Rightarrow> bool" where
  "SAFE_ALIAS [] = False"
| "SAFE_ALIAS (c # s) = (is_lower c \<and> 1 \<le> length s \<and> length s \<le> 62 \<and> list_all is_alias_char s)"

text \<open>\<open>s.replace(p, "")\<close> for a non-empty \<open>p\<close>.\<close>

function remove_all :: "string \<Rightarrow> string \<Rightarrow> string" where
  "remove_all p s = (if p = [] \<or> s = [] then s
     else if prefix p s then remove_all p (drop (length p) s)
     else hd s # remove_all p (tl s))"
  by pat_completeness auto
termination by (relation "measure (\<lambda>(p, s). length s)") auto

declare remove_all.simps [simp del]

definition strip_chars :: "char set \<Rightarrow> string \<Rightarrow> string" where
  "strip_chars cs s = rev (dropWhile (\<lambda>c. c \<in> cs) (rev (dropWhile (\<lambda>c. c \<in> cs) s)))"

definition is_hex_digit :: "char \<Rightarrow> bool" where
  "is_hex_digit c = (is_digit c \<or> (let n = (of_char (lower_char c) :: nat) in 97 \<le> n \<and> n \<le> 102))"

text \<open>The texts \<open>int(text, 16)\<close> accepts: white space around, a sign, an optional \<open>0x\<close>, hexadecimal
  digits with single underscores between them.\<close>

fun hex_part :: "string \<Rightarrow> bool" where
  "hex_part [] = False"
| "hex_part [c] = is_hex_digit c"
| "hex_part (c # d # s) = (is_hex_digit c \<and> (if d = CHR ''_'' then hex_part s else hex_part (d # s)))"

definition hex_body :: "string \<Rightarrow> bool" where
  "hex_body s = (if casefold (take 2 s) = ''0x''
     then (let t = drop 2 s in hex_part (if prefix ''_'' t then tl t else t))
     else hex_part s)"

definition all_zero :: "string \<Rightarrow> bool" where
  "all_zero s = list_all (\<lambda>c. c \<in> {CHR ''0'', CHR ''_'', CHR ''x'', CHR ''X''}) s"

definition hex_int_non_negative :: "string \<Rightarrow> bool" where
  "hex_int_non_negative text = (case split_sign (strip text) of (sg, body) \<Rightarrow>
     hex_body body \<and> (0 < sg \<or> all_zero body))"

text \<open>\<open>UUID(text)\<close> does not raise. Thirty-two characters of base 16 are below \<open>2 ^ 128\<close>.\<close>

definition is_uuid :: "string \<Rightarrow> bool" where
  "is_uuid s = (let hex = remove_all ''-'' (strip_chars {CHR 0x7B, CHR 0x7D} (remove_all ''uuid:'' (remove_all ''urn:'' s)))
     in length hex = 32 \<and> hex_int_non_negative hex)"

section \<open>Prefix caching\<close>

definition APPLICATION_MANAGED_PREFIX_CACHE_MODEL_IDS :: "string list" where
  "APPLICATION_MANAGED_PREFIX_CACHE_MODEL_IDS = [''Qwen/Qwen2.5-0.5B-Instruct'', ''Qwen/Qwen2.5-3B-Instruct'']"

definition supports_application_managed_prefix_cache :: "string \<Rightarrow> bool" where
  "supports_application_managed_prefix_cache m = (m \<in> set APPLICATION_MANAGED_PREFIX_CACHE_MODEL_IDS)"

section \<open>Model profiles\<close>

record model_profile =
  mp_id :: string
  mp_model_id :: string
  mp_revision :: string
  mp_artifact_model_id :: "string option"
  mp_artifact_revision :: "string option"
  mp_alias :: string
  mp_generation_family :: generation_family
  mp_preferred_runtime :: string
  mp_runtime_template_id :: "string option"
  mp_runtime_template_version :: "string option"
  mp_lifecycle :: lifecycle_class
  mp_port :: int
  mp_local_files_only :: bool
  mp_trust_remote_code :: bool
  mp_dtype :: string
  mp_capabilities :: capability_set
  mp_settings :: pydict

definition generation_contract :: "model_profile \<Rightarrow> unit res" where
  "generation_contract p =
     (let f = mp_generation_family p; c = mp_capabilities p in
      if (mp_artifact_model_id p = None) \<noteq> (mp_artifact_revision p = None)
      then Inl (ValueError ''artifact model and revision must be supplied together'')
      else if f = AUTOREGRESSIVE \<and> cs_iterative_refinement c
      then Inl (ValueError ''autoregressive profiles cannot advertise iterative refinement'')
      else if f = TEXT_DIFFUSION \<and> \<not> cs_iterative_refinement c
      then Inl (ValueError ''text-diffusion profiles must advertise iterative refinement'')
      else if f = VISION_LANGUAGE \<and> \<not> cs_image_input c
      then Inl (ValueError ''vision-language profiles must advertise image input'')
      else if f = SPEECH_CONVERSATION \<and> \<not> (cs_audio_input c \<and> cs_audio_output c \<and> cs_full_duplex c)
      then Inl (ValueError ''speech-conversation profiles must advertise full-duplex audio'')
      else if f = TEXT_TRANSLATION \<and> \<not> cs_translation c
      then Inl (ValueError ''text-translation profiles must advertise translation'')
      else if f = SPEECH_SYNTHESIS \<and> \<not> (cs_speech_synthesis c \<and> cs_audio_output c \<and> cs_cancellation c
                \<and> \<not> cs_streaming c \<and> \<not> cs_full_duplex c)
      then Inl (ValueError ''speech-synthesis profiles must advertise cancellable, non-streaming audio output'')
      else if f = SPEECH_RECOGNITION \<and> \<not> (cs_speech_recognition c \<and> cs_audio_input c \<and> cs_cancellation c
                \<and> \<not> cs_streaming c \<and> \<not> cs_audio_output c)
      then Inl (ValueError ''speech-recognition profiles must advertise cancellable, non-streaming audio input'')
      else if f = EMBEDDING \<and> \<not> cs_embeddings c
      then Inl (ValueError ''embedding profiles must advertise embeddings'')
      else Inr ())"

text \<open>Validation of an already typed profile: the port range, the field validators, then the
  whole-model validator. Which of several failing fields is reported is not modelled.\<close>

definition validate_profile :: "bool \<Rightarrow> model_profile \<Rightarrow> model_profile res" where
  "validate_profile harness p =
     (if \<not> (1024 \<le> mp_port p \<and> mp_port p \<le> 65535) then Inl (ValueError ''port'')
      else if \<not> SAFE_ALIAS (mp_alias p)
      then Inl (ValueError ''must use lowercase letters, digits, and hyphens'')
      else if \<not> SAFE_ALIAS (mp_id p) \<and> \<not> is_uuid (mp_id p)
      then Inl (ValueError ''must be a legacy identifier or UUID'')
      else if mp_preferred_runtime p \<notin> set (TRUSTED_RUNTIME_IDS harness)
      then Inl (ValueError ''runtime is not allowlisted'')
      else rbind (generation_contract p) (\<lambda>_. Inr p))"

lemma validate_profile_Inr:
  "validate_profile harness p = Inr q \<longleftrightarrow>
     q = p \<and> 1024 \<le> mp_port p \<and> mp_port p \<le> 65535 \<and> SAFE_ALIAS (mp_alias p)
     \<and> (SAFE_ALIAS (mp_id p) \<or> is_uuid (mp_id p))
     \<and> mp_preferred_runtime p \<in> set (TRUSTED_RUNTIME_IDS harness) \<and> generation_contract p = Inr ()"
  by (auto simp: validate_profile_def rbind_eq_Inr)

lemma validate_profile_error: "validate_profile harness p = Inl e \<Longrightarrow> \<exists>m. e = ValueError m"
  by (auto simp: validate_profile_def generation_contract_def Let_def rbind_eq_Inl split: if_splits)

end
