(* ===== verification/Registry.thy ===== *)
theory Registry
  imports Profiles "HOL-Library.List_Lexorder"
begin

text \<open>
  The runtime template registry (\<open>registry.py\<close>): the validation of a template against the trusted
  implementation it selects, the validation of a manifest, installing a manifest approved by its
  digest, and loading the installed ones. Decoding JSON text into typed fields (\<open>decode\<close>) and
  SHA-256 (\<open>sha256\<close>) are parameters; file contents are strings of bytes.
\<close>

section \<open>Templates\<close>

definition MAXIMUM_NEW_TOKENS_LIMIT :: int where
  "MAXIMUM_NEW_TOKENS_LIMIT = 4096"

definition BOUNDED_INTEGER_SETTINGS :: "(string \<times> int \<times> int) list" where
  "BOUNDED_INTEGER_SETTINGS =
    [(''top_k'', 1, 100),
     (''context_length'', 256, 32768),
     (''maximum_new_tokens'', 1, MAXIMUM_NEW_TOKENS_LIMIT),
     (''maximum_denoising_steps'', 1, 48),
     (''startup_timeout_seconds'', 1, 1800),
     (''warmup_timeout_seconds'', 1, 900),
     (''generation_timeout_seconds'', 1, 900),
     (''sample_rate_hz'', 8000, 48000),
     (''channels'', 1, 2),
     (''maximum_sessions'', 1, 8),
     (''maximum_buffer_ms'', 10, 5000),
     (''maximum_input_characters'', 1, 20000),
     (''maximum_input_tokens'', 1, 4096),
     (''maximum_codec_tokens'', 1, 4096),
     (''maximum_audio_seconds'', 1, 300)]"

definition ALLOWED_VISUAL_TOKEN_BUDGETS :: "int list" where
  "ALLOWED_VISUAL_TOKEN_BUDGETS = [70, 140, 280, 560, 1120]"

record runtime_template =
  rt_id :: string
  rt_display_name :: string
  rt_runtime :: string
  rt_generation_family :: generation_family
  rt_capabilities :: capability_set
  rt_settings :: pydict
  rt_cache_setting :: string
  rt_include_cache_root :: bool
  rt_lifecycle :: "lifecycle_class option"
  rt_dtype :: "string option"
  rt_uses_base_model_identity :: bool
  rt_fixed_context_length :: bool

definition enabled_capabilities :: "capability_set \<Rightarrow> string list" where
  "enabled_capabilities c =
     map fst (filter (\<lambda>(n, v). v \<noteq> VBool False \<and> v \<noteq> VNone \<and> v \<noteq> VStr ''unsupported'') (capability_dump c))"

definition bounded_setting_ok :: "pydict \<Rightarrow> string \<times> int \<times> int \<Rightarrow> bool" where
  "bounded_setting_ok settings = (\<lambda>(n, lo, hi).
     case map_of settings n of None \<Rightarrow> True
     | Some (VInt i) \<Rightarrow> lo \<le> i \<and> i \<le> hi
     | Some _ \<Rightarrow> False)"

definition one_of_or_absent :: "pydict \<Rightarrow> string \<Rightarrow> string list \<Rightarrow> bool" where
  "one_of_or_absent settings n xs = (dget settings n = VNone \<or> list_ex (eq_str (dget settings n)) xs)"

definition bool_or_absent :: "pydict \<Rightarrow> string \<Rightarrow> bool" where
  "bool_or_absent settings n = (case map_of settings n of None \<Rightarrow> True | Some (VBool _) \<Rightarrow> True | Some _ \<Rightarrow> False)"

definition trusted_runtime :: "runtime_template \<Rightarrow> unit res" where
  "trusted_runtime t =
     (case find_implementation (rt_runtime t) of
        None \<Rightarrow> Inl (ValueError ''runtime template does not map to a trusted worker implementation'')
      | Some im \<Rightarrow>
        (let s = rt_settings t;
             unsupported = filter (\<lambda>n. n \<notin> set (ti_capabilities im)) (enabled_capabilities (rt_capabilities t));
             unknown = filter (\<lambda>n. n \<notin> set (ti_template_settings im)) (map fst s) in
         if rt_generation_family t \<notin> insert (ti_generation_family im) (set (ti_additional_generation_families im))
         then Inl (ValueError ''runtime template generation family does not match its trusted implementation'')
         else if rt_cache_setting t \<notin> set (ti_cache_settings im)
         then Inl (ValueError ''runtime template cache binding does not match its trusted implementation'')
         else if unsupported \<noteq> []
         then Inl (ValueError (''runtime template advertises capabilities not provided by its trusted implementation: ''
                @ join '', '' (sort unsupported)))
         else if unknown \<noteq> []
         then Inl (ValueError (''runtime template contains settings not accepted by its trusted implementation: ''
                @ join '', '' (sort unknown)))
         else (case find (\<lambda>b. \<not> bounded_setting_ok s b) BOUNDED_INTEGER_SETTINGS of
            Some (n, lo, hi) \<Rightarrow> Inl (ValueError (''runtime template setting '' @ n @ '' must be an integer from ''
                @ show_int lo @ '' to '' @ show_int hi))
          | None \<Rightarrow>
             if dget s ''visual_token_budget'' \<noteq> VNone
                \<and> \<not> list_ex (eq_int (dget s ''visual_token_budget'')) ALLOWED_VISUAL_TOKEN_BUDGETS
             then Inl (ValueError (''runtime template setting visual_token_budget must be one of ''
                    @ join '', '' (map show_int ALLOWED_VISUAL_TOKEN_BUDGETS)))
             else if \<not> one_of_or_absent s ''execution_preset'' [''vulkan-full'']
             then Inl (ValueError ''runtime template execution preset is not trusted'')
             else if \<not> one_of_or_absent s ''runtime_profile'' [''qwen35-4b-q8-vulkan'',
                    ''qwen35-approved-q8-vulkan'', ''qwen38-q8-mtp-vulkan'', ''qwen38-q4-mtp-vulkan'']
             then Inl (ValueError ''runtime template llama.cpp profile is not trusted'')
             else if \<not> one_of_or_absent s ''thinking_mode'' [''disabled'', ''adaptive'']
             then Inl (ValueError ''runtime template thinking_mode must be disabled or adaptive'')
             else (case find (\<lambda>n. \<not> bool_or_absent s n) [''hardware_verification_required'', ''hsa_preload_evidence''] of
                Some n \<Rightarrow> Inl (ValueError (''runtime template setting '' @ n @ '' must be boolean''))
              | None \<Rightarrow> Inr ()))))"

section \<open>Manifests\<close>

definition digits_then :: "char \<Rightarrow> string \<Rightarrow> string option" where
  "digits_then c s = (if takeWhile is_digit s = [] then None
     else (case dropWhile is_digit s of d # r \<Rightarrow> if d = c then Some r else None | [] \<Rightarrow> None))"

definition is_name_char :: "char \<Rightarrow> bool" where
  "is_name_char c = (is_alias_char c \<or> c = CHR ''.'')"

definition version_pattern :: "string \<Rightarrow> bool" where
  "version_pattern s = (case digits_then CHR ''.'' s of None \<Rightarrow> False
     | Some s1 \<Rightarrow> (case digits_then CHR ''.'' s1 of None \<Rightarrow> False
       | Some s2 \<Rightarrow> takeWhile is_digit s2 \<noteq> [] \<and>
          (case dropWhile is_digit s2 of [] \<Rightarrow> True
           | c # t \<Rightarrow> c = CHR ''-'' \<and> t \<noteq> [] \<and> list_all is_name_char t)))"

definition filename_pattern :: "string \<Rightarrow> bool" where
  "filename_pattern s = (case s of [] \<Rightarrow> False
     | c # t \<Rightarrow> is_lower c \<and> suffix ''.json'' t \<and>
         (let body = take (length t - 5) t in 1 \<le> length body \<and> length body \<le> 126 \<and> list_all is_name_char body))"

definition digest_pattern :: "string \<Rightarrow> bool" where
  "digest_pattern s = (length s = 64 \<and> list_all (\<lambda>c. c \<in> set ''0123456789abcdef'') s)"

definition label_length :: "string \<Rightarrow> bool" where
  "label_length s = (1 \<le> length s \<and> length s \<le> 80)"

record manifest_identity =
  mi_id :: string
  mi_version :: string
  mi_display_name :: string
  mi_publisher :: string

record runtime_manifest =
  rm_format :: string
  rm_version :: int
  rm_package :: manifest_identity
  rm_templates :: "runtime_template list"

definition validate_template :: "runtime_template \<Rightarrow> unit res" where
  "validate_template t =
     (if \<not> SAFE_ALIAS (rt_id t) then Inl (ValueError ''id'')
      else if \<not> label_length (rt_display_name t) then Inl (ValueError ''display_name'')
      else if rt_cache_setting t \<notin> {''cache_root'', ''q4_checkpoint_dir'', ''artifact_path''}
      then Inl (ValueError ''cache_setting'')
      else if rt_dtype t \<notin> {None, Some ''float16'', Some ''bfloat16'', Some ''float32''}
      then Inl (ValueError ''dtype'')
      else trusted_runtime t)"

fun first_error :: "('a \<Rightarrow> unit res) \<Rightarrow> 'a list \<Rightarrow> unit res" where
  "first_error f [] = Inr ()"
| "first_error f (x # xs) = rbind (f x) (\<lambda>_. first_error f xs)"

definition validate_manifest :: "runtime_manifest \<Rightarrow> runtime_manifest res" where
  "validate_manifest m =
     (if rm_format m \<noteq> ''modeldeck-runtime-templates'' then Inl (ValueError ''format'')
      else if rm_version m \<noteq> 1 then Inl (ValueError ''version'')
      else if \<not> (SAFE_ALIAS (mi_id (rm_package m)) \<and> version_pattern (mi_version (rm_package m))
                 \<and> label_length (mi_display_name (rm_package m)) \<and> label_length (mi_publisher (rm_package m)))
      then Inl (ValueError ''package'')
      else if rm_templates m = [] then Inl (ValueError ''templates'')
      else rbind (first_error validate_template (rm_templates m)) (\<lambda>_.
        if \<not> distinct (map rt_id (rm_templates m))
        then Inl (ValueError ''runtime manifest contains duplicate template IDs'')
        else Inr m))"

definition manifest_from_json :: "(string \<Rightarrow> runtime_manifest res) \<Rightarrow> string \<Rightarrow> runtime_manifest res" where
  "manifest_from_json decode content = rbind (decode content) validate_manifest"

lemma first_error_ok: "first_error f xs = Inr u \<longleftrightarrow> (\<forall>x\<in>set xs. f x = Inr ())"
  by (induction xs) (auto simp: rbind_eq_Inr)

section \<open>The trust directory\<close>

record manifest_entry =
  me_filename :: string
  me_sha256 :: string

text \<open>The files under \<open>trusted-runtime-manifests\<close> and the entries of \<open>trust.json\<close>
  (\<open>None\<close>: no such file).\<close>

record trust_dir =
  td_files :: "(string \<times> string) list"
  td_registry :: "manifest_entry list option"

datatype template_source = Packaged | TrustedLocal

record template_registration =
  tr_template :: runtime_template
  tr_package :: manifest_identity
  tr_source :: template_source
  tr_digest :: string

definition read_trust_registry :: "trust_dir \<Rightarrow> manifest_entry list" where
  "read_trust_registry d = (case td_registry d of None \<Rightarrow> [] | Some es \<Rightarrow> es)"

definition manifest_registrations ::
  "(string \<Rightarrow> string) \<Rightarrow> (string \<Rightarrow> runtime_manifest res) \<Rightarrow> template_source \<Rightarrow> string
     \<Rightarrow> template_registration list res" where
  "manifest_registrations sha256 decode source content =
     rbind (manifest_from_json decode content) (\<lambda>m.
       Inr (map (\<lambda>t. \<lparr>tr_template = t, tr_package = rm_package m, tr_source = source,
                      tr_digest = sha256 content\<rparr>) (rm_templates m)))"

definition manifest_filename :: "runtime_manifest \<Rightarrow> string" where
  "manifest_filename m = mi_id (rm_package m) @ ''-'' @ mi_version (rm_package m) @ ''.json''"

text \<open>Installing: the state after, and the file name or the error. The manifest file is written
  before its entry is validated and the registry replaced.\<close>

definition install_runtime_manifest ::
  "(string \<Rightarrow> string) \<Rightarrow> (string \<Rightarrow> runtime_manifest res) \<Rightarrow> string \<Rightarrow> string \<Rightarrow> trust_dir
     \<Rightarrow> trust_dir \<times> string res" where
  "install_runtime_manifest sha256 decode content expected d =
     (if \<not> digest_pattern expected
      then (d, Inl (ValueError ''expected SHA-256 must be 64 lowercase hexadecimal characters''))
      else if sha256 content \<noteq> expected
      then (d, Inl (ValueError ''runtime manifest SHA-256 does not match the operator-approved digest''))
      else (case manifest_from_json decode content of
        Inl e \<Rightarrow> (d, Inl e)
      | Inr m \<Rightarrow>
        if mi_id (rm_package m) = ''modeldeck-core''
        then (d, Inl (ValueError ''the packaged ModelDeck runtime manifest cannot be installed locally''))
        else (let filename = manifest_filename m in
          if (case map_of (td_files d) filename of Some c \<Rightarrow> c \<noteq> content | None \<Rightarrow> False)
          then (d, Inl (ValueError ''that runtime package version is already installed with different content''))
          else (let d1 = d\<lparr>td_files := AList.update filename content (td_files d)\<rparr>;
                    entries = filter (\<lambda>e. me_filename e \<noteq> filename) (read_trust_registry d1)
                              @ [\<lparr>me_filename = filename, me_sha256 = expected\<rparr>] in
            if \<not> filename_pattern filename then (d1, Inl (ValueError ''filename''))
            else (d1\<lparr>td_registry := Some (sort_key me_filename entries)\<rparr>, Inr filename)))))"

fun load_entries ::
  "(string \<Rightarrow> string) \<Rightarrow> (string \<Rightarrow> runtime_manifest res) \<Rightarrow> (string \<times> string) list \<Rightarrow> manifest_entry list
     \<Rightarrow> template_registration list list res" where
  "load_entries sha256 decode fs [] = Inr []"
| "load_entries sha256 decode fs (e # es) =
     (case map_of fs (me_filename e) of
        None \<Rightarrow> Inl (ValueError (''trusted runtime manifest is missing: '' @ me_filename e))
      | Some content \<Rightarrow>
         if sha256 content \<noteq> me_sha256 e
         then Inl (ValueError (''trusted runtime manifest digest changed: '' @ me_filename e))
         else rbind (manifest_registrations sha256 decode TrustedLocal content) (\<lambda>r.
              rbind (load_entries sha256 decode fs es) (\<lambda>rs. Inr (r # rs))))"

definition trusted_local_registrations ::
  "(string \<Rightarrow> string) \<Rightarrow> (string \<Rightarrow> runtime_manifest res) \<Rightarrow> trust_dir \<Rightarrow> template_registration list list res" where
  "trusted_local_registrations sha256 decode d =
     (case td_registry d of None \<Rightarrow> Inr []
      | Some es \<Rightarrow> load_entries sha256 decode (td_files d) es)"

fun collect_registrations ::
  "template_registration list \<Rightarrow> (string \<times> template_registration) list
     \<Rightarrow> (string \<times> template_registration) list res" where
  "collect_registrations [] acc = Inr acc"
| "collect_registrations (r # rs) acc =
     (if dhas acc (rt_id (tr_template r))
      then Inl (ValueError (''duplicate runtime template: '' @ rt_id (tr_template r)))
      else collect_registrations rs (acc @ [(rt_id (tr_template r), r)]))"

text \<open>\<open>None\<close> for the directory: only the packaged manifest is read.\<close>

definition runtime_template_registrations ::
  "(string \<Rightarrow> string) \<Rightarrow> (string \<Rightarrow> runtime_manifest res) \<Rightarrow> string \<Rightarrow> trust_dir option
     \<Rightarrow> (string \<times> template_registration) list res" where
  "runtime_template_registrations sha256 decode packaged d =
     rbind (manifest_registrations sha256 decode Packaged packaged) (\<lambda>p.
     rbind (case d of None \<Rightarrow> Inr [] | Some d' \<Rightarrow> trusted_local_registrations sha256 decode d') (\<lambda>ls.
     rbind (collect_registrations (concat (p # ls)) []) (\<lambda>result.
       if result = [] then Inl (ValueError ''runtime template registry is empty'') else Inr result)))"

definition runtime_templates ::
  "(string \<Rightarrow> string) \<Rightarrow> (string \<Rightarrow> runtime_manifest res) \<Rightarrow> string \<Rightarrow> trust_dir option
     \<Rightarrow> (string \<times> runtime_template) list res" where
  "runtime_templates sha256 decode packaged d =
     rbind (runtime_template_registrations sha256 decode packaged d) (\<lambda>rs.
       Inr (map (\<lambda>(k, r). (k, tr_template r)) rs))"

end
