(* ===== verification/Registry_Trust.thy ===== *)
theory Registry_Trust
  imports Registry
begin

text \<open>
  What the template registry guarantees: a registered template was checked against the trusted
  implementation it selects, an installed manifest is found again by its digest, a changed one is
  refused, and a failed installation registers nothing.
\<close>

section \<open>Library lemmas\<close>

text \<open>Loading is entry by entry.\<close>

definition load_entry ::
  "(string \<Rightarrow> string) \<Rightarrow> (string \<Rightarrow> runtime_manifest res) \<Rightarrow> (string \<times> string) list \<Rightarrow> manifest_entry
     \<Rightarrow> template_registration list \<Rightarrow> bool" where
  "load_entry sha256 decode fs e r = (\<exists>content. map_of fs (me_filename e) = Some content
     \<and> sha256 content = me_sha256 e \<and> manifest_registrations sha256 decode TrustedLocal content = Inr r)"

lemma load_entries_iff:
  "load_entries sha256 decode fs es = Inr rs \<longleftrightarrow> list_all2 (load_entry sha256 decode fs) es rs"
proof (induction es arbitrary: rs)
  case Nil
  show ?case by auto
next
  case (Cons e es)
  show ?case
    by (cases rs) (auto simp: Cons load_entry_def rbind_eq_Inr split: option.splits if_splits)
qed

lemma load_entry_update:
  "load_entry sha256 decode fs e r \<Longrightarrow> map_of fs (me_filename e) = Some c \<or> me_filename e \<noteq> f
     \<Longrightarrow> (me_filename e = f \<Longrightarrow> c = content) \<Longrightarrow> load_entry sha256 decode (AList.update f content fs) e r"
  by (auto simp: load_entry_def update_conv')

lemma load_entry_fun: "load_entry sha256 decode fs e r \<Longrightarrow> load_entry sha256 decode fs e r' \<Longrightarrow> r = r'"
  by (auto simp: load_entry_def)

lemma list_all2_of_all: "(\<forall>x\<in>set xs. \<exists>y. P x y) \<Longrightarrow> \<exists>ys. list_all2 P xs ys"
  by (induction xs) auto

lemma list_all2_member: "list_all2 P xs ys \<Longrightarrow> x \<in> set xs \<Longrightarrow> \<exists>y\<in>set ys. P x y"
  by (induction rule: list_all2_induct) auto

lemma list_all2_member': "list_all2 P xs ys \<Longrightarrow> y \<in> set ys \<Longrightarrow> \<exists>x\<in>set xs. P x y"
  by (induction rule: list_all2_induct) auto

lemma collect_registrations_ok:
  assumes "collect_registrations rs acc = Inr result" and "distinct (map fst acc)"
  shows "distinct (map fst result) \<and> map snd result = map snd acc @ rs
     \<and> (\<forall>(k, r)\<in>set result. (k, r) \<in> set acc \<or> k = rt_id (tr_template r))"
  using assms
proof (induction rs arbitrary: acc)
  case Nil
  then show ?case by auto
next
  case (Cons r rs)
  then have "\<not> dhas acc (rt_id (tr_template r))"
    and rest: "collect_registrations rs (acc @ [(rt_id (tr_template r), r)]) = Inr result"
    by (auto split: if_splits)
  then have "distinct (map fst (acc @ [(rt_id (tr_template r), r)]))"
    using Cons.prems(2) by (auto simp: dhas_def map_of_eq_None_iff)
  from Cons.IH [OF rest this] show ?case by auto
qed

lemma manifest_registrations_ok:
  assumes "manifest_registrations sha256 decode src content = Inr rs" and "r \<in> set rs"
  shows "validate_template (tr_template r) = Inr () \<and> tr_digest r = sha256 content \<and> tr_source r = src"
  using assms
  by (auto simp: manifest_registrations_def manifest_from_json_def validate_manifest_def rbind_eq_Inr
      first_error_ok split: if_splits)

lemma trusted_runtime_ok:
  assumes "trusted_runtime t = Inr u"
  obtains im where "find_implementation (rt_runtime t) = Some im"
    and "rt_generation_family t \<in> insert (ti_generation_family im) (set (ti_additional_generation_families im))"
    and "rt_cache_setting t \<in> set (ti_cache_settings im)"
    and "set (enabled_capabilities (rt_capabilities t)) \<subseteq> set (ti_capabilities im)"
    and "fst ` set (rt_settings t) \<subseteq> set (ti_template_settings im)"
    and "\<forall>b\<in>set BOUNDED_INTEGER_SETTINGS. bounded_setting_ok (rt_settings t) b"
proof (cases "find_implementation (rt_runtime t)")
  case None
  with assms show thesis by (simp add: trusted_runtime_def)
next
  case (Some im)
  with assms have parts: "rt_generation_family t \<in> insert (ti_generation_family im) (set (ti_additional_generation_families im))"
    "rt_cache_setting t \<in> set (ti_cache_settings im)"
    "filter (\<lambda>n. n \<notin> set (ti_capabilities im)) (enabled_capabilities (rt_capabilities t)) = []"
    "filter (\<lambda>n. n \<notin> set (ti_template_settings im)) (map fst (rt_settings t)) = []"
    "find (\<lambda>b. \<not> bounded_setting_ok (rt_settings t) b) BOUNDED_INTEGER_SETTINGS = None"
    by (auto simp: trusted_runtime_def Let_def split: if_splits option.splits)
  from parts(3-5) have "set (enabled_capabilities (rt_capabilities t)) \<subseteq> set (ti_capabilities im)"
    "fst ` set (rt_settings t) \<subseteq> set (ti_template_settings im)"
    "\<forall>b\<in>set BOUNDED_INTEGER_SETTINGS. bounded_setting_ok (rt_settings t) b"
    unfolding filter_empty_conv find_None_iff by auto
  with parts(1,2) Some show thesis by (intro that)
qed

lemma registrations_ok:
  assumes "runtime_template_registrations sha256 decode packaged d = Inr result" and "(k, r) \<in> set result"
  shows "k = rt_id (tr_template r)" and "validate_template (tr_template r) = Inr ()"
    and "distinct (map fst result)"
proof -
  obtain p ls where p: "manifest_registrations sha256 decode Packaged packaged = Inr p"
    and ls: "(case d of None \<Rightarrow> Inr [] | Some d' \<Rightarrow> trusted_local_registrations sha256 decode d') = Inr ls"
    and c: "collect_registrations (concat (p # ls)) [] = Inr result"
    using assms(1) by (auto simp: runtime_template_registrations_def rbind_eq_Inr split: if_splits)
  note col = collect_registrations_ok [OF c, simplified]
  with assms(2) show "k = rt_id (tr_template r)" and "distinct (map fst result)" by auto
  have "r \<in> snd ` set result" using assms(2) by force
  also have "\<dots> = set (map snd result)" by simp
  finally have "r \<in> set p \<or> r \<in> set (concat ls)" using col by simp
  then show "validate_template (tr_template r) = Inr ()"
  proof
    assume "r \<in> set p"
    with p show ?thesis by (blast dest: manifest_registrations_ok)
  next
    assume "r \<in> set (concat ls)"
    then obtain rs where "rs \<in> set ls" "r \<in> set rs" by auto
    moreover obtain es fs where "load_entries sha256 decode fs es = Inr ls"
      using ls \<open>rs \<in> set ls\<close> by (auto simp: trusted_local_registrations_def split: option.splits)
    ultimately obtain e where "load_entry sha256 decode fs e rs"
      unfolding load_entries_iff by (blast dest: list_all2_member')
    then show ?thesis using \<open>r \<in> set rs\<close> by (auto simp: load_entry_def dest: manifest_registrations_ok)
  qed
qed

section \<open>A concrete manifest\<close>

definition example_template :: runtime_template where
  "example_template = \<lparr>rt_id = ''speech-box'', rt_display_name = ''Speech'', rt_runtime = ''moshiko-rocm'',
     rt_generation_family = SPEECH_CONVERSATION,
     rt_capabilities = default_capability_set\<lparr>cs_audio_input := True, cs_audio_output := True, cs_full_duplex := True\<rparr>,
     rt_settings = [(''channels'', VInt 1)], rt_cache_setting = ''cache_root'', rt_include_cache_root = False,
     rt_lifecycle = None, rt_dtype = None, rt_uses_base_model_identity = False, rt_fixed_context_length = False\<rparr>"

definition example_manifest :: runtime_manifest where
  "example_manifest = \<lparr>rm_format = ''modeldeck-runtime-templates'', rm_version = 1,
     rm_package = \<lparr>mi_id = ''box'', mi_version = ''1.0.0'', mi_display_name = ''Box'', mi_publisher = ''Us''\<rparr>,
     rm_templates = [example_template]\<rparr>"

definition example_sha :: "string \<Rightarrow> string" where
  "example_sha content = replicate 64 (if content = ''box'' then CHR ''a'' else CHR ''b'')"

definition example_decode :: "string \<Rightarrow> runtime_manifest res" where
  "example_decode content = (if content = ''box'' then Inr example_manifest else Inl (ValueError ''json''))"

definition empty_trust_dir :: trust_dir where
  "empty_trust_dir = \<lparr>td_files = [], td_registry = None\<rparr>"

definition box_trust_dir :: trust_dir where
  "box_trust_dir = \<lparr>td_files = [(''box-1.0.0.json'', ''box'')],
     td_registry = Some [\<lparr>me_filename = ''box-1.0.0.json'', me_sha256 = replicate 64 CHR ''a''\<rparr>]\<rparr>"

lemma example_install:
  "install_runtime_manifest example_sha example_decode ''box'' (replicate 64 CHR ''a'') empty_trust_dir
     = (box_trust_dir, Inr ''box-1.0.0.json'')"
  by code_simp

section \<open>Properties\<close>

text \<open>C11: A template in the registry cannot reach beyond its trusted implementation: whatever the
  packaged and the locally installed manifests contain, every template the registry returns
  selects a code-owned implementation, and its family, cache binding, enabled capabilities and
  setting names are among those of that implementation, with every bounded integer setting inside
  its bounds.\<close>

theorem registered_template_is_trusted:
  assumes "runtime_template_registrations sha256 decode packaged d = Inr result" and "(k, r) \<in> set result"
  shows "\<exists>im\<in>set TRUSTED_RUNTIME_IMPLEMENTATIONS. let t = tr_template r in
     ti_id im = rt_runtime t \<and> k = rt_id t
     \<and> rt_generation_family t \<in> insert (ti_generation_family im) (set (ti_additional_generation_families im))
     \<and> rt_cache_setting t \<in> set (ti_cache_settings im)
     \<and> set (enabled_capabilities (rt_capabilities t)) \<subseteq> set (ti_capabilities im)
     \<and> fst ` set (rt_settings t) \<subseteq> set (ti_template_settings im)
     \<and> (\<forall>(n, lo, hi)\<in>set BOUNDED_INTEGER_SETTINGS. \<forall>v. map_of (rt_settings t) n = Some v \<longrightarrow>
          (\<exists>i. v = VInt i \<and> lo \<le> i \<and> i \<le> hi))"
proof -
  note ok = registrations_ok [OF assms]
  from ok(2) have "trusted_runtime (tr_template r) = Inr ()"
    by (auto simp: validate_template_def split: if_splits)
  then obtain im where im: "find_implementation (rt_runtime (tr_template r)) = Some im"
    "rt_generation_family (tr_template r) \<in> insert (ti_generation_family im) (set (ti_additional_generation_families im))"
    "rt_cache_setting (tr_template r) \<in> set (ti_cache_settings im)"
    "set (enabled_capabilities (rt_capabilities (tr_template r))) \<subseteq> set (ti_capabilities im)"
    "fst ` set (rt_settings (tr_template r)) \<subseteq> set (ti_template_settings im)"
    "\<forall>b\<in>set BOUNDED_INTEGER_SETTINGS. bounded_setting_ok (rt_settings (tr_template r)) b"
    by (rule trusted_runtime_ok)
  have "\<forall>(n, lo, hi)\<in>set BOUNDED_INTEGER_SETTINGS. \<forall>v. map_of (rt_settings (tr_template r)) n = Some v \<longrightarrow>
          (\<exists>i. v = VInt i \<and> lo \<le> i \<and> i \<le> hi)"
    using im(6) by (fastforce simp: bounded_setting_ok_def split: pyval.splits)
  with im(1-5) ok(1) find_implementation_id [OF im(1)] show ?thesis
    unfolding Let_def by blast
qed

theorem registered_template_is_trusted_witness:
  "\<exists>result. runtime_template_registrations example_sha example_decode ''box'' None = Inr result
     \<and> (\<exists>(k, r)\<in>set result. rt_runtime (tr_template r) = ''moshiko-rocm''
         \<and> (\<exists>im\<in>set TRUSTED_RUNTIME_IMPLEMENTATIONS. ti_id im = rt_runtime (tr_template r)))"
proof -
  let ?r = "\<lparr>tr_template = example_template, tr_package = rm_package example_manifest, tr_source = Packaged,
     tr_digest = replicate 64 CHR ''a''\<rparr>"
  have reg: "runtime_template_registrations example_sha example_decode ''box'' None = Inr [(''speech-box'', ?r)]"
    by code_simp
  have "rt_runtime (tr_template ?r) = ''moshiko-rocm''" by (simp add: example_template_def)
  with registered_template_is_trusted [OF reg, of "''speech-box''" ?r] reg show ?thesis
    unfolding Let_def by auto
qed

lemma collect_iff:
  "distinct (map fst acc) \<Longrightarrow> collect_registrations rs acc = Inr result \<longleftrightarrow>
     distinct (map fst acc @ map (\<lambda>r. rt_id (tr_template r)) rs) \<and> result = acc @ map (\<lambda>r. (rt_id (tr_template r), r)) rs"
proof (induction rs arbitrary: acc)
  case (Cons r rs)
  show ?case
  proof (cases "dhas acc (rt_id (tr_template r))")
    case True
    then have "rt_id (tr_template r) \<in> fst ` set acc" by (auto simp: dhas_def dest!: map_of_SomeD intro: rev_image_eqI)
    then show ?thesis using True by simp
  next
    case False
    then have "rt_id (tr_template r) \<notin> set (map fst acc)"
      by (auto simp: dhas_def map_of_eq_None_iff)
    then show ?thesis using Cons False by auto
  qed
qed auto

text \<open>C35: An approved manifest is found again: when the manifests recorded in the directory all
  load, then after a successful installation of a further one they still all load, the new manifest's
  templates are among the local registrations, under the approved digest, and the registrations of
  every other file are still there. The registry of all templates then lists the packaged templates
  followed by these, and it is produced exactly when no template identifier occurs twice among them
  (installing a manifest does not check this) and there is at least one.\<close>

theorem install_then_load:
  assumes "install_runtime_manifest sha256 decode content expected d = (d', Inr filename)"
    and "trusted_local_registrations sha256 decode d = Inr old"
  shows "\<exists>m new. manifest_from_json decode content = Inr m \<and> filename = manifest_filename m
     \<and> trusted_local_registrations sha256 decode d' = Inr new
     \<and> (\<forall>t\<in>set (rm_templates m). \<lparr>tr_template = t, tr_package = rm_package m, tr_source = TrustedLocal,
          tr_digest = expected\<rparr> \<in> set (concat new))
     \<and> (\<forall>e\<in>set (read_trust_registry d). \<forall>rs. me_filename e \<noteq> filename \<longrightarrow>
          load_entry sha256 decode (td_files d) e rs \<longrightarrow> rs \<in> set new)
     \<and> (\<forall>packaged p result. manifest_registrations sha256 decode Packaged packaged = Inr p \<longrightarrow>
          (runtime_template_registrations sha256 decode packaged (Some d') = Inr result \<longleftrightarrow>
             distinct (map (\<lambda>r. rt_id (tr_template r)) (p @ concat new)) \<and> result \<noteq> []
             \<and> result = map (\<lambda>r. (rt_id (tr_template r), r)) (p @ concat new)))"
proof -
  obtain m where m: "manifest_from_json decode content = Inr m" "sha256 content = expected"
    "filename = manifest_filename m"
    "\<And>c. map_of (td_files d) filename = Some c \<Longrightarrow> c = content"
    and d': "d' = \<lparr>td_files = AList.update filename content (td_files d),
        td_registry = Some (sort_key me_filename (filter (\<lambda>e. me_filename e \<noteq> filename) (read_trust_registry d)
           @ [\<lparr>me_filename = filename, me_sha256 = expected\<rparr>]))\<rparr>"
    using assms(1)
    by (auto simp: install_runtime_manifest_def Let_def read_trust_registry_def split: if_splits sum.splits option.splits)
  define fs where "fs = AList.update filename content (td_files d)"
  define es where "es = sort_key me_filename (filter (\<lambda>e. me_filename e \<noteq> filename) (read_trust_registry d)
           @ [\<lparr>me_filename = filename, me_sha256 = expected\<rparr>])"
  define mine where "mine = map (\<lambda>t. \<lparr>tr_template = t, tr_package = rm_package m, tr_source = TrustedLocal,
          tr_digest = expected\<rparr>) (rm_templates m)"
  have old_load: "\<exists>rs. load_entry sha256 decode (td_files d) e rs" if "e \<in> set (read_trust_registry d)" for e
    using assms(2) that
    by (auto simp: trusted_local_registrations_def read_trust_registry_def load_entries_iff
        split: option.splits dest: list_all2_member)
  have keep: "load_entry sha256 decode fs e rs"
    if "load_entry sha256 decode (td_files d) e rs" "me_filename e \<noteq> filename" for e rs
    using that by (simp add: load_entry_def fs_def)
  have mine_load: "load_entry sha256 decode fs \<lparr>me_filename = filename, me_sha256 = expected\<rparr> mine"
    using m by (simp add: load_entry_def fs_def mine_def manifest_registrations_def)
  have "\<forall>e\<in>set es. \<exists>rs. load_entry sha256 decode fs e rs"
    using old_load keep mine_load by (fastforce simp: es_def)
  then obtain new where new: "list_all2 (load_entry sha256 decode fs) es new"
    by (blast dest: list_all2_of_all)
  have loaded: "trusted_local_registrations sha256 decode d' = Inr new"
    using new unfolding load_entries_iff [symmetric] by (simp add: d' trusted_local_registrations_def fs_def es_def)
  have member: "rs \<in> set new" if "e \<in> set es" "load_entry sha256 decode fs e rs" for e rs
    using list_all2_member [OF new that(1)] that(2) by (blast dest: load_entry_fun)
  have "mine \<in> set new" by (rule member [OF _ mine_load]) (simp add: es_def)
  then have "\<forall>r\<in>set mine. r \<in> set (concat new)" by auto
  then have "\<forall>t\<in>set (rm_templates m). \<lparr>tr_template = t, tr_package = rm_package m, tr_source = TrustedLocal,
          tr_digest = expected\<rparr> \<in> set (concat new)"
    by (simp add: mine_def)
  moreover have "rs \<in> set new" if "e \<in> set (read_trust_registry d)" "me_filename e \<noteq> filename"
    "load_entry sha256 decode (td_files d) e rs" for e rs
    using that by (intro member [OF _ keep]) (auto simp: es_def)
  moreover have "runtime_template_registrations sha256 decode packaged (Some d') = Inr result \<longleftrightarrow>
      distinct (map (\<lambda>r. rt_id (tr_template r)) (p @ concat new)) \<and> result \<noteq> []
      \<and> result = map (\<lambda>r. (rt_id (tr_template r), r)) (p @ concat new)"
    if "manifest_registrations sha256 decode Packaged packaged = Inr p" for packaged p result
  proof -
    have "runtime_template_registrations sha256 decode packaged (Some d') = Inr result \<longleftrightarrow>
        collect_registrations (p @ concat new) [] = Inr result \<and> result \<noteq> []"
      using that loaded by (auto simp: runtime_template_registrations_def rbind_eq_Inr)
    then show ?thesis using collect_iff [of "[]" "p @ concat new" result] by simp blast
  qed
  ultimately show ?thesis using m loaded by blast
qed

theorem install_then_load_witness:
  "\<exists>d' new. install_runtime_manifest example_sha example_decode ''box'' (replicate 64 CHR ''a'') empty_trust_dir
       = (d', Inr ''box-1.0.0.json'')
     \<and> trusted_local_registrations example_sha example_decode d' = Inr new
     \<and> (\<exists>r\<in>set (concat new). tr_template r = example_template)"
proof -
  have none: "trusted_local_registrations example_sha example_decode empty_trust_dir = Inr []"
    by (simp add: trusted_local_registrations_def empty_trust_dir_def)
  have "manifest_from_json example_decode ''box'' = Inr example_manifest" by code_simp
  with install_then_load [OF example_install none] obtain new
    where new: "trusted_local_registrations example_sha example_decode box_trust_dir = Inr new"
    and all: "\<forall>t\<in>set (rm_templates example_manifest). \<exists>r\<in>set (concat new). tr_template r = t"
    by (auto simp del: set_concat) (metis template_registration.select_convs(1))
  have "example_template \<in> set (rm_templates example_manifest)" by (simp add: example_manifest_def)
  with all new example_install show ?thesis by blast
qed

text \<open>A manifest changed after its approval is refused: if the content of any registered file
  no longer has the recorded digest, or the file is gone, no registry is produced at all.\<close>

theorem tampered_manifest_is_refused:
  assumes "td_registry d = Some es" and "e \<in> set es"
    and "\<forall>c. map_of (td_files d) (me_filename e) = Some c \<longrightarrow> sha256 c \<noteq> me_sha256 e"
  shows "\<not> is_ok (runtime_template_registrations sha256 decode packaged (Some d))"
proof
  assume "is_ok (runtime_template_registrations sha256 decode packaged (Some d))"
  then obtain rs where "load_entries sha256 decode (td_files d) es = Inr rs"
    using assms(1) by (auto simp: runtime_template_registrations_def trusted_local_registrations_def)
  then obtain r where "load_entry sha256 decode (td_files d) e r"
    using assms(2) unfolding load_entries_iff by (blast dest: list_all2_member)
  with assms(3) show False by (auto simp: load_entry_def)
qed

theorem tampered_manifest_is_refused_witness:
  "\<not> is_ok (runtime_template_registrations example_sha example_decode ''box''
      (Some (box_trust_dir\<lparr>td_files := [(''box-1.0.0.json'', ''evil'')]\<rparr>)))"
  by (rule tampered_manifest_is_refused
      [where es = "[\<lparr>me_filename = ''box-1.0.0.json'', me_sha256 = replicate 64 CHR ''a''\<rparr>]"])
     (auto simp: box_trust_dir_def example_sha_def numeral_eq_Suc)

text \<open>A failed installation registers nothing: the trust registry is untouched and no file that
  was there has changed (a file whose name is then found too long may be left behind, without an
  entry).\<close>

theorem failed_install_registers_nothing:
  assumes "install_runtime_manifest sha256 decode content expected d = (d', Inl e)"
  shows "td_registry d' = td_registry d
     \<and> (\<forall>f c. map_of (td_files d) f = Some c \<longrightarrow> map_of (td_files d') f = Some c)"
  using assms
  by (auto simp: install_runtime_manifest_def Let_def update_conv' split: if_splits sum.splits option.splits)

theorem failed_install_registers_nothing_witness:
  "\<exists>d' e. install_runtime_manifest example_sha example_decode ''evil'' (replicate 64 CHR ''a'') box_trust_dir
       = (d', Inl e) \<and> td_registry d' = td_registry box_trust_dir"
proof -
  have i: "install_runtime_manifest example_sha example_decode ''evil'' (replicate 64 CHR ''a'') box_trust_dir
     = (box_trust_dir, Inl (ValueError ''runtime manifest SHA-256 does not match the operator-approved digest''))"
    by code_simp
  from failed_install_registers_nothing [OF i] i show ?thesis by blast
qed

end
