(* ===== verification/Capabilities.thy ===== *)
theory Capabilities
  imports Registry
begin

text \<open>
  The published capabilities (\<open>capabilities.py\<close>) and the reviewed models (\<open>reviewed_models.py\<close>):
  which trusted templates can serve a capability of a cached model, which capabilities a model may
  offer and on what evidence, which ones a configured worker has, and what the recorded tests say
  about a worker. A worker here is the dictionary of its definition. The digest of a worker's
  configuration (\<open>digest\<close>) and the texts of floats and containers (\<open>rp\<close>) are parameters.
\<close>

section \<open>Reviewed models\<close>

record reviewed_spec =
  rs_model_id :: string
  rs_display_name :: string
  rs_model_type :: string
  rs_architecture :: string
  rs_processor_class :: string
  rs_configuration_support :: string
  rs_capability_ids :: "string list"
  rs_reviewed_at :: string
  rs_quantization :: "(string \<times> string) list"

definition QWEN_CAPABILITIES :: "string list" where
  "QWEN_CAPABILITIES = [''general-chat'', ''text-completion'', ''general-image-chat'', ''video-understanding'', ''scene-analysis'']"

definition REVIEWED_MODEL_SPECS :: "reviewed_spec list" where
  "REVIEWED_MODEL_SPECS =
    [\<lparr>rs_model_id = ''Qwen/Qwen3.5-0.8B'', rs_display_name = ''Qwen3.5 0.8B'', rs_model_type = ''qwen3_5'',
      rs_architecture = ''Qwen3_5ForConditionalGeneration'', rs_processor_class = ''Qwen3VLProcessor'',
      rs_configuration_support = ''scenechat-qwen35'',
      rs_capability_ids = QWEN_CAPABILITIES, rs_reviewed_at = ''2026-08-12'',
      rs_quantization = []\<rparr>,
     \<lparr>rs_model_id = ''Qwen/Qwen3.5-2B'', rs_display_name = ''Qwen3.5 2B'', rs_model_type = ''qwen3_5'',
      rs_architecture = ''Qwen3_5ForConditionalGeneration'', rs_processor_class = ''Qwen3VLProcessor'',
      rs_configuration_support = ''scenechat-qwen35'',
      rs_capability_ids = QWEN_CAPABILITIES, rs_reviewed_at = ''2026-08-12'',
      rs_quantization = []\<rparr>,
     \<lparr>rs_model_id = ''Qwen/Qwen3.5-4B'', rs_display_name = ''Qwen3.5 4B'', rs_model_type = ''qwen3_5'',
      rs_architecture = ''Qwen3_5ForConditionalGeneration'', rs_processor_class = ''Qwen3VLProcessor'',
      rs_configuration_support = ''scenechat-qwen35'',
      rs_capability_ids = QWEN_CAPABILITIES, rs_reviewed_at = ''2026-08-12'',
      rs_quantization = []\<rparr>,
     \<lparr>rs_model_id = ''Qwen/Qwen3.5-9B'', rs_display_name = ''Qwen3.5 9B'', rs_model_type = ''qwen3_5'',
      rs_architecture = ''Qwen3_5ForConditionalGeneration'', rs_processor_class = ''Qwen3VLProcessor'',
      rs_configuration_support = ''scenechat-qwen35'',
      rs_capability_ids = QWEN_CAPABILITIES, rs_reviewed_at = ''2026-08-12'',
      rs_quantization = []\<rparr>,
     \<lparr>rs_model_id = ''Qwen/Qwen3.8-27B-FP8'', rs_display_name = ''Qwen3.8 27B FP8'',
       rs_model_type = ''qwen3_5'',
      rs_architecture = ''Qwen3_5ForConditionalGeneration'', rs_processor_class = ''Qwen3VLProcessor'',
      rs_configuration_support = ''scenechat-qwen38-fp8'',
      rs_capability_ids = QWEN_CAPABILITIES, rs_reviewed_at = ''2026-08-25'',
      rs_quantization = [(''quant_method'', ''fp8''), (''activation_scheme'', ''dynamic''), (''fmt'',
        ''e4m3'')]\<rparr>]"

definition reviewed_model_spec :: "string \<Rightarrow> reviewed_spec option" where
  "reviewed_model_spec m = find (\<lambda>s. rs_model_id s = m) REVIEWED_MODEL_SPECS"

definition matches_config :: "reviewed_spec \<Rightarrow> pydict \<Rightarrow> bool" where
  "matches_config s config =
     (if \<not> eq_str (dget config ''model_type'') (rs_model_type s)
         \<or> dget config ''architectures'' \<noteq> VList [VStr (rs_architecture s)] then False
      else (let quantization = dget config ''quantization_config'' in
        if rs_quantization s = [] then \<not> py_truthy quantization
        else (case quantization of
            VDict d \<Rightarrow> list_all (\<lambda>(n, v). eq_str (dget d n) v) (rs_quantization s)
          | _ \<Rightarrow> False)))"

section \<open>The capability tables\<close>

record capability_definition =
  cd_id :: string
  cd_display_name :: string
  cd_description :: string
  cd_protocol_contract_id :: "string option"
  cd_traits :: "string list"
  cd_runtime_template_ids :: "string list"

definition CAPABILITY_DEFINITIONS :: "capability_definition list" where
  "CAPABILITY_DEFINITIONS =
    [\<lparr>cd_id = ''general-chat'', cd_display_name = ''General chat'',
      cd_description = ''Conversational text generation through the OpenAI-compatible chat contract.'',
      cd_protocol_contract_id = Some ''openai-chat-v1'',
      cd_traits = [''text-input'', ''text-output'', ''chat''],
      cd_runtime_template_ids = [''autoregressive-transformers'', ''gpt-oss-llama-vulkan'',
        ''qwen35-chat-transformers-rocm'', ''qwen35-llamacpp-q8-vulkan'', ''qwen35-llamacpp-q8-vulkan-adaptive'',
        ''qwen35-local-q8-vulkan'', ''qwen35-local-q8-vulkan-adaptive'', ''qwen38-fp8-chat-transformers-rocm'',
        ''qwen38-llamacpp-q8-mtp-vulkan'', ''qwen38-llamacpp-q8-mtp-vulkan-no-thinking'',
        ''gemma4-general-chat-rocm'', ''gemma4-general-chat-rocm-adaptive'']\<rparr>,
     \<lparr>cd_id = ''text-completion'', cd_display_name = ''Text completion'',
      cd_description = ''Continuation of a supplied text prompt.'',
      cd_protocol_contract_id = Some ''openai-completions-v1'',
      cd_traits = [''text-input'', ''text-output''],
      cd_runtime_template_ids = [''autoregressive-transformers'', ''gpt-oss-llama-vulkan'',
        ''qwen35-chat-transformers-rocm'', ''qwen35-llamacpp-q8-vulkan'', ''qwen35-llamacpp-q8-vulkan-adaptive'',
        ''qwen35-local-q8-vulkan'', ''qwen35-local-q8-vulkan-adaptive'', ''qwen38-fp8-chat-transformers-rocm'',
        ''qwen38-llamacpp-q8-mtp-vulkan'', ''qwen38-llamacpp-q8-mtp-vulkan-no-thinking'']\<rparr>,
     \<lparr>cd_id = ''autoregressive-trace'', cd_display_name = ''Autoregressive trace'',
      cd_description = ''Native token generation with ranked token trace data.'',
      cd_protocol_contract_id = Some ''native-ar-trace-v1'',
      cd_traits = [''text-input'', ''text-output'', ''token-trace''],
      cd_runtime_template_ids = [''autoregressive-transformers'']\<rparr>,
     \<lparr>cd_id = ''embeddings'', cd_display_name = ''Embeddings'',
      cd_description = ''Vector embeddings for supplied text.'',
      cd_protocol_contract_id = Some ''openai-embeddings-v1'',
      cd_traits = [''text-input'', ''vector-output''],
      cd_runtime_template_ids = [''embedding-transformers'']\<rparr>,
     \<lparr>cd_id = ''general-image-chat'', cd_display_name = ''General image chat'',
      cd_description = ''Open-ended conversation grounded in one or more images.'',
      cd_protocol_contract_id = Some ''openai-image-chat-v1'',
      cd_traits = [''text-input'', ''image-input'', ''text-output'', ''chat''],
      cd_runtime_template_ids = [''gemma4-general-chat-rocm'', ''gemma4-general-chat-rocm-adaptive'',
        ''qwen38-llamacpp-q8-mtp-vulkan'', ''qwen38-llamacpp-q8-mtp-vulkan-no-thinking'']\<rparr>,
     \<lparr>cd_id = ''video-understanding'', cd_display_name = ''Video understanding'',
      cd_description = ''Conversation or analysis grounded in video input.'',
      cd_protocol_contract_id = None,
      cd_traits = [''text-input'', ''video-input'', ''text-output''],
      cd_runtime_template_ids = []\<rparr>,
     \<lparr>cd_id = ''scene-analysis'', cd_display_name = ''Scene analysis'',
      cd_description = ''Bounded structured analysis of a supplied scene image.'',
      cd_protocol_contract_id = Some ''scene-analysis-v1'',
      cd_traits = [''text-input'', ''image-input'', ''structured-output''],
      cd_runtime_template_ids = [''scenechat-gemma4'', ''scenechat-qwen35'', ''scenechat-qwen38-fp8'']\<rparr>,
     \<lparr>cd_id = ''text-refinement'', cd_display_name = ''Text refinement'',
      cd_description = ''Iterative text-diffusion refinement with intermediate frames.'',
      cd_protocol_contract_id = Some ''text-diffusion-v1'',
      cd_traits = [''text-input'', ''text-output'', ''iterative-refinement'', ''intermediate-frames''],
      cd_runtime_template_ids = [''diffusiongemma-transformers'', ''diffusiongemma-modeldeck-q4'']\<rparr>,
     \<lparr>cd_id = ''speech-conversation'', cd_display_name = ''Speech conversation'',
      cd_description = ''Full-duplex spoken conversation.'',
      cd_protocol_contract_id = Some ''speech-conversation-v1'',
      cd_traits = [''audio-input'', ''audio-output'', ''streaming''],
      cd_runtime_template_ids = [''moshiko-speech'']\<rparr>,
     \<lparr>cd_id = ''translation-en-fr'', cd_display_name = ''English to French translation'',
      cd_description = ''Translate English text into French.'',
      cd_protocol_contract_id = Some ''translation-en-fr-v1'',
      cd_traits = [''text-input'', ''text-output'', ''translation''],
      cd_runtime_template_ids = [''opus-translation-cpu'']\<rparr>,
     \<lparr>cd_id = ''translation-en-de'', cd_display_name = ''English to German translation'',
      cd_description = ''Translate English text into German.'',
      cd_protocol_contract_id = Some ''translation-en-de-v1'',
      cd_traits = [''text-input'', ''text-output'', ''translation''],
      cd_runtime_template_ids = [''opus-translation-cpu'']\<rparr>,
     \<lparr>cd_id = ''speech-synthesis'', cd_display_name = ''Speech synthesis'',
      cd_description = ''Generate speech audio from text.'',
      cd_protocol_contract_id = Some ''speech-synthesis-v1'',
      cd_traits = [''text-input'', ''audio-output''],
      cd_runtime_template_ids = [''qwen3-tts-rocm'']\<rparr>,
     \<lparr>cd_id = ''speech-recognition'', cd_display_name = ''Speech recognition'',
      cd_description = ''Transcribe speech audio into text.'',
      cd_protocol_contract_id = Some ''speech-recognition-v1'',
      cd_traits = [''audio-input'', ''text-output''],
      cd_runtime_template_ids = [''whisper-small-en-rocm'']\<rparr>]"

definition find_capability :: "string \<Rightarrow> capability_definition option" where
  "find_capability i = find (\<lambda>d. cd_id d = i) CAPABILITY_DEFINITIONS"

definition CAPABILITY_ID_BY_CONTRACT :: "(string \<times> string) list" where
  "CAPABILITY_ID_BY_CONTRACT =
     List.map_filter (\<lambda>d. map_option (\<lambda>c. (c, cd_id d)) (cd_protocol_contract_id d)) CAPABILITY_DEFINITIONS"

definition QWEN_TEXT_CAPABILITY_TEMPLATES :: "(string \<times> (string \<times> string list) list) list" where
  "QWEN_TEXT_CAPABILITY_TEMPLATES =
    [(''qwen35-local-q8-vulkan'',
       [(''general-chat'', [''qwen35-local-q8-vulkan'', ''qwen35-local-q8-vulkan-adaptive'']),
        (''text-completion'', [''qwen35-local-q8-vulkan'', ''qwen35-local-q8-vulkan-adaptive''])]),
     (''qwen35-llamacpp-q8-vulkan'',
       [(''general-chat'', [''qwen35-llamacpp-q8-vulkan'', ''qwen35-llamacpp-q8-vulkan-adaptive'']),
        (''text-completion'', [''qwen35-llamacpp-q8-vulkan'', ''qwen35-llamacpp-q8-vulkan-adaptive''])]),
     (''qwen38-llamacpp-q8-mtp-vulkan'',
       [(''general-chat'', [''qwen38-llamacpp-q8-mtp-vulkan'', ''qwen38-llamacpp-q8-mtp-vulkan-no-thinking'']),
        (''text-completion'', [''qwen38-llamacpp-q8-mtp-vulkan'', ''qwen38-llamacpp-q8-mtp-vulkan-no-thinking'']),
        (''general-image-chat'', [''qwen38-llamacpp-q8-mtp-vulkan'',
          ''qwen38-llamacpp-q8-mtp-vulkan-no-thinking''])]),
     (''scenechat-qwen35'',
       [(''general-chat'', [''qwen35-chat-transformers-rocm'']),
        (''text-completion'', [''qwen35-chat-transformers-rocm'']),
        (''general-image-chat'', [''scenechat-qwen35'']),
        (''scene-analysis'', [''scenechat-qwen35''])]),
     (''scenechat-gemma4'',
       [(''general-chat'', [''gemma4-general-chat-rocm'', ''gemma4-general-chat-rocm-adaptive'']),
        (''general-image-chat'', [''gemma4-general-chat-rocm'', ''gemma4-general-chat-rocm-adaptive'']),
        (''scene-analysis'', [''scenechat-gemma4''])]),
     (''scenechat-qwen38-fp8'',
       [(''general-chat'', [''qwen35-chat-transformers-rocm'', ''qwen38-fp8-chat-transformers-rocm'']),
        (''text-completion'', [''qwen35-chat-transformers-rocm'', ''qwen38-fp8-chat-transformers-rocm'']),
        (''general-image-chat'', [''scenechat-qwen35'', ''scenechat-qwen38-fp8'']),
        (''scene-analysis'', [''scenechat-qwen35'', ''scenechat-qwen38-fp8''])])]"

definition FAMILY_CAPABILITIES :: "(string \<times> string list) list" where
  "FAMILY_CAPABILITIES =
    [(''autoregressive'', [''general-chat'', ''text-completion'', ''autoregressive-trace'']),
     (''embedding'', [''embeddings'']),
     (''vision-language'', [''general-image-chat'']),
     (''text-diffusion'', [''text-refinement'']),
     (''speech-conversation'', [''speech-conversation'']),
     (''text-translation'', []),
     (''speech-synthesis'', [''speech-synthesis'']),
     (''speech-recognition'', [''speech-recognition''])]"

definition CAPABILITY_GENERATION_FAMILIES :: "(string \<times> string) list" where
  "CAPABILITY_GENERATION_FAMILIES =
     fold (\<lambda>(k, v). AList.update k v)
       [(''scene-analysis'', ''vision-language''),
        (''translation-en-fr'', ''text-translation''),
        (''translation-en-de'', ''text-translation'')]
       (concat (map (\<lambda>(f, cs). map (\<lambda>c. (c, f)) cs) FAMILY_CAPABILITIES))"

definition capability_id_for_contract :: "string \<Rightarrow> string option" where
  "capability_id_for_contract c = map_of CAPABILITY_ID_BY_CONTRACT c"

definition lookup_list :: "(string \<times> 'a list) list \<Rightarrow> string \<Rightarrow> 'a list" where
  "lookup_list d k = (case map_of d k of None \<Rightarrow> [] | Some xs \<Rightarrow> xs)"

definition required_worker_traits :: "string \<Rightarrow> string list" where
  "required_worker_traits = lookup_list
     [(''general-chat'', [''chat'']),
      (''text-completion'', [''completions'']),
      (''autoregressive-trace'', [''top_k_trace'']),
      (''embeddings'', [''embeddings'']),
      (''general-image-chat'', [''chat'', ''image_input'']),
      (''scene-analysis'', [''image_input'', ''structured_output'']),
      (''text-refinement'', [''iterative_refinement'', ''intermediate_frames'']),
      (''speech-conversation'', [''audio_input'', ''audio_output'', ''full_duplex'']),
      (''translation-en-fr'', [''translation'']),
      (''translation-en-de'', [''translation'']),
      (''speech-synthesis'', [''speech_synthesis'', ''audio_output'']),
      (''speech-recognition'', [''speech_recognition'', ''audio_input''])]"

section \<open>Templates for a capability\<close>

text \<open>The generic match against the template the model was matched with.\<close>

definition template_matches :: "string option \<Rightarrow> string list \<Rightarrow> runtime_template \<Rightarrow> runtime_template \<Rightarrow> bool" where
  "template_matches expected_family traits baseline t =
     (Some (generation_family_value (rt_generation_family t)) = expected_family
      \<and> rt_generation_family t = rt_generation_family baseline
      \<and> rt_cache_setting t = rt_cache_setting baseline
      \<and> rt_uses_base_model_identity t = rt_uses_base_model_identity baseline
      \<and> list_all (\<lambda>n. dget (capability_dump (rt_capabilities t)) n = VBool True) traits)"

definition support_key :: "string option \<Rightarrow> string" where
  "support_key s = (case s of None \<Rightarrow> [] | Some x \<Rightarrow> x)"

definition compatible_runtime_template_ids ::
  "string \<Rightarrow> string option \<Rightarrow> (string \<times> runtime_template) list \<Rightarrow> string list" where
  "compatible_runtime_template_ids capability_id support registrations =
     (case find_capability capability_id of None \<Rightarrow> []
      | Some d \<Rightarrow>
        if support = Some ''gpt-oss-llama-vulkan'' \<and> capability_id \<in> {''general-chat'', ''text-completion''}
        then (if dhas registrations ''gpt-oss-llama-vulkan'' then [''gpt-oss-llama-vulkan''] else [])
        else (let qwen = lookup_list (lookup_list QWEN_TEXT_CAPABILITY_TEMPLATES (support_key support)) capability_id in
          if qwen \<noteq> [] then filter (dhas registrations) qwen
          else if cd_runtime_template_ids d = [] then []
          else (case (if support_key support = [] then None else map_of registrations (support_key support)) of
             None \<Rightarrow> []
           | Some baseline \<Rightarrow>
              sort (map fst (filter (\<lambda>(i, t). template_matches
                (map_of CAPABILITY_GENERATION_FAMILIES capability_id)
                (required_worker_traits capability_id) baseline t) registrations)))))"

section \<open>Candidates with their evidence\<close>

text \<open>Iterating over a value.\<close>

definition py_iter :: "pyval \<Rightarrow> pyval list res" where
  "py_iter v = (case v of
     VList xs \<Rightarrow> Inr xs
   | VStr s \<Rightarrow> Inr (map (\<lambda>c. VStr [c]) s)
   | VDict d \<Rightarrow> Inr (map (\<lambda>(k, _). VStr k) d)
   | _ \<Rightarrow> Inl (TypeError ''object is not iterable''))"

definition local_detection_detail :: "(pyval \<Rightarrow> string) \<Rightarrow> pydict option \<Rightarrow> string option \<Rightarrow> string res" where
  "local_detection_detail rp config family =
     (let fallback = ''Local cache artefacts identify the ''
            @ (case family of None \<Rightarrow> ''unknown'' | Some f \<Rightarrow> if f = [] then ''unknown'' else f) @ '' model family.''
      in case config of None \<Rightarrow> Inr fallback
      | Some c \<Rightarrow>
        if c = [] then Inr fallback
        else rbind (py_iter (py_or (dget c ''architectures'') (VList []))) (\<lambda>items.
          let model_type = dget c ''model_type'';
              architectures = join '', '' (map (py_str rp) items);
              values = filter (\<lambda>v. v \<noteq> [])
                [if py_truthy model_type then ''model_type='' @ py_str rp model_type else [], architectures]
          in if values \<noteq> [] then Inr (''Local config.json: '' @ join ''; '' values) else Inr fallback))"

definition exact_model_evidence :: "string \<Rightarrow> pydict" where
  "exact_model_evidence m =
     [(''kind'', VStr ''detected''), (''confidence'', VStr ''direct''),
      (''source'', VStr ''exact-model-matcher''),
      (''detail'', VStr (''The cached model identity exactly matches '' @ m @ ''.''))]"

definition inferred_evidence :: "string \<Rightarrow> pydict" where
  "inferred_evidence detail =
     [(''kind'', VStr ''detected''), (''confidence'', VStr ''inferred''),
      (''source'', VStr ''local-cache''), (''detail'', VStr detail)]"

definition matcher_evidence :: "string \<Rightarrow> pydict" where
  "matcher_evidence support =
     [(''kind'', VStr ''detected''), (''confidence'', VStr ''direct''),
      (''source'', VStr ''trusted-runtime-matcher''),
      (''detail'', VStr (''The local snapshot matches '' @ support @ ''.''))]"

definition reviewed_evidence :: "string \<Rightarrow> reviewed_spec \<Rightarrow> pydict" where
  "reviewed_evidence m r =
     [(''kind'', VStr ''asserted''), (''confidence'', VStr ''direct''),
      (''source'', VStr ''reviewed-model-knowledge''),
      (''detail'', VStr (''The official '' @ rs_display_name r @ '' checkpoint supports this capability.'')),
      (''reference'', VStr (''https://huggingface.co/'' @ m)),
      (''reviewed_at'', VStr (rs_reviewed_at r))]"

text \<open>The evidence is gathered as (capability, evidence) pairs in the order it is found;
  \<open>candidates.setdefault(id, []).append(e)\<close> groups it by capability.\<close>

definition gathered_evidence :: "string \<Rightarrow> string option \<Rightarrow> string option \<Rightarrow> string \<Rightarrow> (string \<times> pydict) list" where
  "gathered_evidence m family support detail =
     map (\<lambda>c. (c, inferred_evidence detail))
       (case family of None \<Rightarrow> [] | Some f \<Rightarrow> lookup_list FAMILY_CAPABILITIES f)
     @ (if support_key support = [] then []
        else map (\<lambda>d. (cd_id d, matcher_evidence (support_key support)))
               (filter (\<lambda>d. support_key support \<in> set (cd_runtime_template_ids d)) CAPABILITY_DEFINITIONS)
             @ map (\<lambda>(c, _). (c, matcher_evidence (support_key support)))
                 (lookup_list QWEN_TEXT_CAPABILITY_TEMPLATES (support_key support)))
     @ (case reviewed_model_spec m of None \<Rightarrow> []
        | Some r \<Rightarrow> map (\<lambda>c. (c, reviewed_evidence m r)) (rs_capability_ids r))
     @ (if m = ''Helsinki-NLP/opus-mt-en-fr'' then [(''translation-en-fr'', exact_model_evidence m)] else [])
     @ (if m = ''Helsinki-NLP/opus-mt-en-de'' then [(''translation-en-de'', exact_model_evidence m)] else [])"

definition evidence_for :: "string \<Rightarrow> (string \<times> pydict) list \<Rightarrow> pydict list" where
  "evidence_for c es = map snd (filter (\<lambda>(k, _). k = c) es)"

definition capability_candidates ::
  "(pyval \<Rightarrow> string) \<Rightarrow> string \<Rightarrow> string option \<Rightarrow> string option \<Rightarrow> pydict option \<Rightarrow> pydict list res" where
  "capability_candidates rp m family support config =
     rbind (local_detection_detail rp config family) (\<lambda>detail.
       let es = gathered_evidence m family support detail in
       Inr (map (\<lambda>d.
         [(''id'', VStr (cd_id d)),
          (''display_name'', VStr (cd_display_name d)),
          (''description'', VStr (cd_description d)),
          (''protocol_contract_id'', (case cd_protocol_contract_id d of None \<Rightarrow> VNone | Some c \<Rightarrow> VStr c)),
          (''traits'', VList (map VStr (cd_traits d))),
          (''evidence'', VList (map VDict (evidence_for (cd_id d) es))),
          (''runtime_template_ids'', VList
             (case support of None \<Rightarrow> []
              | Some s \<Rightarrow> if s \<in> set (cd_runtime_template_ids d) then [VStr s] else []))])
         (filter (\<lambda>d. evidence_for (cd_id d) es \<noteq> []) CAPABILITY_DEFINITIONS)))"

section \<open>Capabilities of a worker\<close>

definition worker_matches_capability :: "pydict \<Rightarrow> string \<Rightarrow> bool" where
  "worker_matches_capability worker capability_id =
     (case dget_or worker ''capabilities'' (VDict []) of
        VDict caps \<Rightarrow>
          list_all (\<lambda>n. dget caps n = VBool True) (required_worker_traits capability_id)
          \<and> (case dget_or worker ''settings'' (VDict []) of
               VDict settings \<Rightarrow>
                 list_all (\<lambda>(n, v). eq_str (dget settings n) v)
                   (lookup_list
                     [(''translation-en-fr'', [(''source_language'', ''en''), (''target_language'', ''fr'')]),
                      (''translation-en-de'', [(''source_language'', ''en''), (''target_language'', ''de'')])]
                     capability_id)
             | _ \<Rightarrow> False)
      | _ \<Rightarrow> False)"

text \<open>The result is a set in the source; here a list whose order does not matter.\<close>

definition capabilities_for_worker :: "(pyval \<Rightarrow> string) \<Rightarrow> pydict \<Rightarrow> string list" where
  "capabilities_for_worker rp worker =
     (let template_id = dget worker ''runtime_template_id'';
          result = map cd_id (filter (\<lambda>d. list_ex (eq_str template_id) (cd_runtime_template_ids d)
                      \<and> worker_matches_capability worker (cd_id d)) CAPABILITY_DEFINITIONS)
      in if result \<noteq> [] then result
      else (let family = py_str rp (dget_or worker ''generation_family'' (VStr [])) in
        filter (\<lambda>c. (case find_capability c of None \<Rightarrow> False
                     | Some d \<Rightarrow> cd_protocol_contract_id d \<noteq> None \<and> worker_matches_capability worker c))
          (lookup_list FAMILY_CAPABILITIES family)
        @ filter (\<lambda>c. map_of CAPABILITY_GENERATION_FAMILIES c = Some family \<and> worker_matches_capability worker c)
            (map snd CAPABILITY_ID_BY_CONTRACT)))"

section \<open>Recorded evidence\<close>

definition worker_cache_identity :: "(pyval \<Rightarrow> string) \<Rightarrow> pydict \<Rightarrow> string \<times> string" where
  "worker_cache_identity rp worker =
     (py_str rp (py_or (dget worker ''artifact_model_id'') (dget worker ''model_id'')),
      py_str rp (py_or (dget worker ''artifact_revision'') (dget worker ''revision'')))"

definition fingerprint_fields :: "string list" where
  "fingerprint_fields = [''model_id'', ''revision'', ''artifact_model_id'', ''artifact_revision'',
     ''generation_family'', ''runtime'', ''runtime_template_id'', ''runtime_template_version'',
     ''dtype'', ''capabilities'', ''settings'']"

definition worker_configuration_fingerprint :: "(pydict \<Rightarrow> string) \<Rightarrow> pydict \<Rightarrow> string" where
  "worker_configuration_fingerprint digest worker = digest (map (\<lambda>f. (f, dget worker f)) fingerprint_fields)"

datatype evidence_status = Qualified | Legacy | EvidenceFailed | Stale | NotTested

fun evidence_status_value :: "evidence_status \<Rightarrow> string" where
  "evidence_status_value Qualified = ''qualified''"
| "evidence_status_value Legacy = ''legacy''"
| "evidence_status_value EvidenceFailed = ''failed''"
| "evidence_status_value Stale = ''stale''"
| "evidence_status_value NotTested = ''not-tested''"

text \<open>The loop over the tests, with its two accumulators.\<close>

fun scan_tests ::
  "pyval \<Rightarrow> string \<Rightarrow> string \<Rightarrow> bool \<Rightarrow> pydict list \<Rightarrow> bool \<Rightarrow> int option \<Rightarrow> (evidence_status \<times> int option) res" where
  "scan_tests worker_id capability_id fingerprint requires_v2 [] stale failed =
     Inr (case failed of Some i \<Rightarrow> (EvidenceFailed, Some i)
          | None \<Rightarrow> if stale then (Stale, None) else (NotTested, None))"
| "scan_tests worker_id capability_id fingerprint requires_v2 (test # tests) stale failed =
     (case dget_or test ''evidence'' (VDict []) of
        VDict evidence \<Rightarrow>
          if dget evidence ''capability_id'' = VNone \<or> \<not> py_eq (dget evidence ''worker_id'') worker_id
             \<or> \<not> eq_str (dget evidence ''capability_id'') capability_id
          then scan_tests worker_id capability_id fingerprint requires_v2 tests stale failed
          else if \<not> eq_str (dget evidence ''worker_configuration_fingerprint'') fingerprint
          then scan_tests worker_id capability_id fingerprint requires_v2 tests True failed
          else if eq_str (dget test ''result'') ''tested-working''
          then rbind (py_int_of (py_or (dget evidence ''fingerprint_version'')
                       (py_or (dget test ''fingerprint_version'') (VInt 1)))) (\<lambda>version.
            if version = 2
            then rbind (rbind (py_index (VDict test) ''id'') py_int_of) (\<lambda>i. Inr (Qualified, Some i))
            else if requires_v2
            then scan_tests worker_id capability_id fingerprint requires_v2 tests True failed
            else rbind (rbind (py_index (VDict test) ''id'') py_int_of) (\<lambda>i. Inr (Legacy, Some i)))
          else rbind (rbind (py_index (VDict test) ''id'') py_int_of) (\<lambda>i.
            scan_tests worker_id capability_id fingerprint requires_v2 tests stale (Some i))
      | _ \<Rightarrow> scan_tests worker_id capability_id fingerprint requires_v2 tests stale failed)"

definition capability_evidence_status ::
  "(pydict \<Rightarrow> string) \<Rightarrow> pydict \<Rightarrow> string \<Rightarrow> pydict list \<Rightarrow> (evidence_status \<times> int option) res" where
  "capability_evidence_status digest worker capability_id tests =
     rbind (py_int_of (py_or (dget worker ''capability_policy_version'') (VInt 0))) (\<lambda>policy.
       scan_tests (dget worker ''id'') capability_id (worker_configuration_fingerprint digest worker)
         (5 \<le> policy) tests False None)"

end
