(* ===== verification/Capabilities_Evidence.thy ===== *)
theory Capabilities_Evidence
  imports Capabilities
begin

text \<open>
  What the capability tables and the recorded evidence promise: contracts, adapters and
  capabilities describe the same surface; a worker that meets a contract has the capability;
  templates offered for a capability are installed and able; evidence counts only for the worker,
  the capability and the exact configuration it was recorded for.
\<close>

section \<open>The tables\<close>

definition capability_settings :: "string \<Rightarrow> (string \<times> string) list" where
  "capability_settings = lookup_list
     [(''translation-en-fr'', [(''source_language'', ''en''), (''target_language'', ''fr'')]),
      (''translation-en-de'', [(''source_language'', ''en''), (''target_language'', ''de'')])]"

text \<open>The contract asks for at least what the capability asks for.\<close>

definition contract_covers :: "protocol_contract \<Rightarrow> string \<Rightarrow> bool" where
  "contract_covers p c =
     (list_all (\<lambda>n. n \<in> set (pc_required_capabilities p)) (required_worker_traits c)
      \<and> list_all (\<lambda>(n, v). (n, VStr v) \<in> set (pc_required_worker_settings p)) (capability_settings c))"

lemma contracts_cover_capabilities:
  "list_all (\<lambda>p. case capability_id_for_contract (pc_id p) of None \<Rightarrow> False
      | Some c \<Rightarrow> contract_covers p c \<and> find_capability c \<noteq> None) PROTOCOL_CONTRACTS"
  by code_simp

text \<open>The three tables agree: every protocol contract has a gateway adapter serving exactly
  the surfaces the contract declares, and a capability whose identifier maps back to the contract;
  and there is no adapter without a contract.\<close>

theorem contracts_adapters_capabilities_agree:
  "list_all (\<lambda>p. (case find_adapter (pc_id p) of None \<Rightarrow> False | Some a \<Rightarrow> pa_public_surfaces a = pc_surfaces p)
      \<and> (case capability_id_for_contract (pc_id p) of None \<Rightarrow> False
         | Some c \<Rightarrow> (case find_capability c of None \<Rightarrow> False
             | Some d \<Rightarrow> cd_protocol_contract_id d = Some (pc_id p)))) PROTOCOL_CONTRACTS
   \<and> map pa_contract_id PROTOCOL_ADAPTERS = map pc_id PROTOCOL_CONTRACTS
   \<and> distinct (map pc_id PROTOCOL_CONTRACTS)"
proof (intro conjI)
  show "list_all (\<lambda>p. (case find_adapter (pc_id p) of None \<Rightarrow> False | Some a \<Rightarrow> pa_public_surfaces a = pc_surfaces p)
      \<and> (case capability_id_for_contract (pc_id p) of None \<Rightarrow> False
         | Some c \<Rightarrow> (case find_capability c of None \<Rightarrow> False
             | Some d \<Rightarrow> cd_protocol_contract_id d = Some (pc_id p)))) PROTOCOL_CONTRACTS"
    by code_simp
  show "map pa_contract_id PROTOCOL_ADAPTERS = map pc_id PROTOCOL_CONTRACTS" by code_simp
  show "distinct (map pc_id PROTOCOL_CONTRACTS)" by code_simp
qed

text \<open>What a contract asks of a worker: its required capabilities and settings.\<close>

definition meets_contract :: "protocol_contract \<Rightarrow> pydict \<Rightarrow> pydict \<Rightarrow> bool" where
  "meets_contract p caps settings =
     (list_all (\<lambda>n. dget caps n = VBool True) (pc_required_capabilities p)
      \<and> list_all (\<lambda>(n, v). py_eq (dget settings n) v) (pc_required_worker_settings p))"

text \<open>A worker that meets a contract has the capability the contract stands for: the
  publication check (contract) and the evidence check (capability) never disagree in that
  direction.\<close>

theorem contract_gives_capability:
  assumes "find_contract ct = Some p" and "capability_id_for_contract ct = Some c"
    and "dget_or worker ''capabilities'' (VDict []) = VDict caps"
    and "dget_or worker ''settings'' (VDict []) = VDict settings"
    and "meets_contract p caps settings"
  shows "worker_matches_capability worker c"
proof -
  have "contract_covers p c"
    using contracts_cover_capabilities assms(1,2)
    by (auto simp: list_all_iff dest!: find_contract_id)
  with assms(5) have "list_all (\<lambda>n. dget caps n = VBool True) (required_worker_traits c)"
    and "list_all (\<lambda>(n, v). eq_str (dget settings n) v) (capability_settings c)"
    by (fastforce simp: contract_covers_def meets_contract_def list_all_iff eq_str_def)+
  with assms(3,4) show ?thesis
    by (simp add: worker_matches_capability_def capability_settings_def)
qed

definition french_worker :: pydict where
  "french_worker = [(''capabilities'', VDict [(''translation'', VBool True)]),
     (''settings'', VDict [(''source_language'', VStr ''en''), (''target_language'', VStr ''fr'')])]"

theorem contract_gives_capability_witness:
  "worker_matches_capability french_worker ''translation-en-fr''
   \<and> \<not> worker_matches_capability french_worker ''translation-en-de''"
proof -
  have f: "find_contract ''translation-en-fr-v1'' \<noteq> None" by code_simp
  then obtain p where p: "find_contract ''translation-en-fr-v1'' = Some p" by auto
  have c: "capability_id_for_contract ''translation-en-fr-v1'' = Some ''translation-en-fr''" by code_simp
  have "meets_contract (the (find_contract ''translation-en-fr-v1'')) [(''translation'', VBool True)]
     [(''source_language'', VStr ''en''), (''target_language'', VStr ''fr'')]" by code_simp
  with p have m: "meets_contract p [(''translation'', VBool True)]
     [(''source_language'', VStr ''en''), (''target_language'', VStr ''fr'')]" by simp
  have "worker_matches_capability french_worker ''translation-en-fr''"
    by (rule contract_gives_capability [OF p c _ _ m]) (simp_all add: french_worker_def dget_or_def)
  moreover have "\<not> worker_matches_capability french_worker ''translation-en-de''" by code_simp
  ultimately show ?thesis ..
qed

section \<open>Templates for a capability\<close>

text \<open>A template offered for a capability is installed, and, unless the model has a reviewed
  exception, it has the capability's generation family and every worker trait the capability
  requires.\<close>

theorem offered_templates_are_able:
  assumes "x \<in> set (compatible_runtime_template_ids c support regs)"
    and "lookup_list (lookup_list QWEN_TEXT_CAPABILITY_TEMPLATES (support_key support)) c = []"
    and "support \<noteq> Some ''gpt-oss-llama-vulkan''"
  shows "\<exists>t. (x, t) \<in> set regs
     \<and> Some (generation_family_value (rt_generation_family t)) = map_of CAPABILITY_GENERATION_FAMILIES c
     \<and> (\<forall>n\<in>set (required_worker_traits c). dget (capability_dump (rt_capabilities t)) n = VBool True)"
  using assms
  by (auto simp: compatible_runtime_template_ids_def Let_def template_matches_def list_all_iff
      split: option.splits if_splits)

definition speech_template :: runtime_template where
  "speech_template = \<lparr>rt_id = ''moshiko-speech'', rt_display_name = ''Speech'', rt_runtime = ''moshiko-rocm'',
     rt_generation_family = SPEECH_CONVERSATION,
     rt_capabilities = default_capability_set\<lparr>cs_audio_input := True, cs_audio_output := True, cs_full_duplex := True\<rparr>,
     rt_settings = [], rt_cache_setting = ''cache_root'', rt_include_cache_root = False,
     rt_lifecycle = None, rt_dtype = None, rt_uses_base_model_identity = False, rt_fixed_context_length = False\<rparr>"

theorem offered_templates_are_able_witness:
  "''moshiko-speech'' \<in> set (compatible_runtime_template_ids ''speech-conversation'' (Some ''moshiko-speech'')
      [(''moshiko-speech'', speech_template)])
   \<and> (\<exists>t. (''moshiko-speech'', t) \<in> set [(''moshiko-speech'', speech_template)]
        \<and> dget (capability_dump (rt_capabilities t)) ''full_duplex'' = VBool True)"
proof -
  have m: "''moshiko-speech'' \<in> set (compatible_runtime_template_ids ''speech-conversation'' (Some ''moshiko-speech'')
      [(''moshiko-speech'', speech_template)])"
    by code_simp
  have l: "lookup_list (lookup_list QWEN_TEXT_CAPABILITY_TEMPLATES (support_key (Some ''moshiko-speech'')))
      ''speech-conversation'' = []"
    by code_simp
  have t: "''full_duplex'' \<in> set (required_worker_traits ''speech-conversation'')" by code_simp
  show ?thesis using offered_templates_are_able [OF m l] m t by auto
qed

section \<open>Recorded evidence\<close>

text \<open>The test and the evidence in it that justify an answer.\<close>

definition supports ::
  "pyval \<Rightarrow> string \<Rightarrow> string \<Rightarrow> bool \<Rightarrow> evidence_status \<Rightarrow> int \<Rightarrow> pydict \<Rightarrow> bool" where
  "supports worker_id c fingerprint requires_v2 st i test =
     (\<exists>evidence. dget_or test ''evidence'' (VDict []) = VDict evidence
       \<and> dget evidence ''capability_id'' = VStr c
       \<and> py_eq (dget evidence ''worker_id'') worker_id
       \<and> dget evidence ''worker_configuration_fingerprint'' = VStr fingerprint
       \<and> rbind (py_index (VDict test) ''id'') py_int_of = Inr i
       \<and> (st = EvidenceFailed \<longleftrightarrow> dget test ''result'' \<noteq> VStr ''tested-working'')
       \<and> (st = Qualified \<longrightarrow> py_int_of (py_or (dget evidence ''fingerprint_version'')
             (py_or (dget test ''fingerprint_version'') (VInt 1))) = Inr 2)
       \<and> (st = Legacy \<longrightarrow> \<not> requires_v2) \<and> st \<notin> {Stale, NotTested})"

text \<open>One test either settles the answer, supporting it, or passes the accumulators on.\<close>

lemma scan_tests_head:
  "(\<exists>stale' failed'. scan_tests wid c fp req (test # tests) stale failed = scan_tests wid c fp req tests stale' failed'
       \<and> (failed' = failed \<or> (\<exists>j. failed' = Some j \<and> supports wid c fp req EvidenceFailed j test)))
     \<or> (\<exists>st i. scan_tests wid c fp req (test # tests) stale failed = Inr (st, Some i) \<and> supports wid c fp req st i test)
     \<or> (\<exists>e. scan_tests wid c fp req (test # tests) stale failed = Inl e)"
proof (cases "dget_or test ''evidence'' (VDict [])")
  case (VDict evidence)
  define here where "here = (dget evidence ''capability_id'' = VStr c \<and> py_eq (dget evidence ''worker_id'') wid)"
  define current where "current = (dget evidence ''worker_configuration_fingerprint'' = VStr fp)"
  define works where "works = (dget test ''result'' = VStr ''tested-working'')"
  define version where "version = py_int_of (py_or (dget evidence ''fingerprint_version'')
             (py_or (dget test ''fingerprint_version'') (VInt 1)))"
  define number where "number = rbind (py_index (VDict test) ''id'') py_int_of"
  have r: "scan_tests wid c fp req (test # tests) stale failed =
     (if \<not> here then scan_tests wid c fp req tests stale failed
      else if \<not> current then scan_tests wid c fp req tests True failed
      else if works then rbind version (\<lambda>v. if v = 2 then rbind number (\<lambda>i. Inr (Qualified, Some i))
        else if req then scan_tests wid c fp req tests True failed
        else rbind number (\<lambda>i. Inr (Legacy, Some i)))
      else rbind number (\<lambda>i. scan_tests wid c fp req tests stale (Some i)))"
    unfolding version_def number_def using VDict
    by (auto simp: here_def current_def works_def eq_str_def)
  have sup: "supports wid c fp req st i test"
    if "here" "current" "number = Inr i" "st = EvidenceFailed \<longleftrightarrow> \<not> works" "st = Qualified \<longrightarrow> version = Inr 2"
      "st = Legacy \<longrightarrow> \<not> req" "st \<notin> {Stale, NotTested}" for st i
    using that VDict unfolding supports_def here_def current_def works_def version_def number_def by blast
  show ?thesis
  proof (cases "here \<and> current")
    case False
    then show ?thesis unfolding r by auto
  next
    case True
    show ?thesis
    proof (cases works)
      case True
      with \<open>here \<and> current\<close> show ?thesis unfolding r using sup
        by (cases version; cases number) auto
    next
      case False
      with \<open>here \<and> current\<close> have "number = Inr j \<Longrightarrow> supports wid c fp req EvidenceFailed j test" for j
        by (intro sup) simp_all
      with False \<open>here \<and> current\<close> show ?thesis unfolding r by (cases number) auto
    qed
  qed
qed (simp_all, blast+)

lemma scan_tests_supported:
  "scan_tests wid c fp req tests stale failed = Inr (st, Some i) \<Longrightarrow>
     (\<exists>test\<in>set tests. supports wid c fp req st i test) \<or> (st = EvidenceFailed \<and> failed = Some i)"
proof (induction tests arbitrary: stale failed)
  case Nil
  then show ?case by (auto split: option.splits if_splits)
next
  case (Cons test tests)
  from scan_tests_head [of wid c fp req test tests stale failed] Cons.prems
  consider (pass) stale' failed' where "scan_tests wid c fp req tests stale' failed' = Inr (st, Some i)"
      "failed' = failed \<or> (\<exists>j. failed' = Some j \<and> supports wid c fp req EvidenceFailed j test)"
    | (settled) "supports wid c fp req st i test"
    by (metis Inl_Inr_False Inr_inject option.inject prod.inject)
  then show ?case
  proof cases
    case pass
    from Cons.IH [OF pass(1)] pass(2) show ?thesis by auto
  next
    case settled
    then show ?thesis by simp
  qed
qed

text \<open>C26: Evidence counts only where it was recorded: any answer of the evidence lookup that names
  a test (qualified, legacy or failed) names a test of this worker, for this capability, taken with
  exactly the present configuration fingerprint; "qualified" needs a second-version fingerprint and
  "legacy" is given only to workers from before the fifth capability policy. Changing any
  fingerprinted field of the worker therefore withdraws its qualification.\<close>

theorem evidence_is_for_this_configuration:
  assumes "capability_evidence_status digest worker c tests = Inr (st, Some i)"
  shows "\<exists>test\<in>set tests. \<exists>policy. py_int_of (py_or (dget worker ''capability_policy_version'') (VInt 0)) = Inr policy
     \<and> supports (dget worker ''id'') c (worker_configuration_fingerprint digest worker) (5 \<le> policy) st i test"
  using assms
  by (auto simp: capability_evidence_status_def rbind_eq_Inr dest!: scan_tests_supported)

definition tested_worker :: pydict where
  "tested_worker = [(''id'', VStr ''w1''), (''model_id'', VStr ''m''), (''capability_policy_version'', VInt 5)]"

definition example_test :: "string \<Rightarrow> pydict" where
  "example_test fp = [(''id'', VInt 7), (''result'', VStr ''tested-working''),
     (''evidence'', VDict [(''capability_id'', VStr ''general-chat''), (''worker_id'', VStr ''w1''),
        (''worker_configuration_fingerprint'', VStr fp), (''fingerprint_version'', VInt 2)])]"

theorem evidence_is_for_this_configuration_witness:
  "capability_evidence_status (\<lambda>d. ''fp'') tested_worker ''general-chat'' [example_test ''old'', example_test ''fp'']
     = Inr (Qualified, Some 7)
   \<and> (\<exists>test\<in>set [example_test ''old'', example_test ''fp''].
        supports (VStr ''w1'') ''general-chat'' ''fp'' True Qualified 7 test)"
proof -
  have s: "capability_evidence_status (\<lambda>d. ''fp'') tested_worker ''general-chat''
      [example_test ''old'', example_test ''fp''] = Inr (Qualified, Some 7)"
    by (simp add: capability_evidence_status_def tested_worker_def example_test_def dget_def dget_or_def
        py_or_def py_index_def eq_str_def worker_configuration_fingerprint_def)
  have "py_int_of (py_or (dget tested_worker ''capability_policy_version'') (VInt 0)) = Inr 5"
    by (simp add: tested_worker_def dget_def py_or_def)
  with evidence_is_for_this_configuration [OF s] s show ?thesis
    by (simp add: tested_worker_def worker_configuration_fingerprint_def dget_def)
qed

end
