(* ===== verification/Domain.thy ===== *)
theory Domain
  imports Capabilities_Evidence
begin

text \<open>
  The operator's configuration (\<open>domain.py\<close>): a worker definition and its conversion from and to an
  execution profile, a capability binding, a routing profile and its validation against workers,
  evidence and capability policy, and the published snapshot; and the route a public name resolves
  to (\<open>gateway/resolution.py\<close>). Records hold values the validation library has already typed; the
  field validators written in the source are applied by the \<open>validate_\<close> definitions. \<open>harness\<close>
  says whether the test harness is on, \<open>to_bool\<close> how the library coerces a value to a boolean.
\<close>

section \<open>Worker definitions\<close>

record worker_definition =
  wd_id :: string
  wd_name :: string
  wd_model_id :: string
  wd_revision :: string
  wd_artifact_model_id :: "string option"
  wd_artifact_revision :: "string option"
  wd_generation_family :: string
  wd_runtime :: string
  wd_runtime_template_id :: "string option"
  wd_runtime_template_version :: "string option"
  wd_lifecycle :: string
  wd_port :: int
  wd_dtype :: string
  wd_capabilities :: pydict
  wd_settings :: pydict
  wd_capability_policy_version :: "int option"
  wd_archived :: bool

definition validate_uuid :: "string \<Rightarrow> string res" where
  "validate_uuid value = (if is_uuid value then Inr value else Inl (ValueError ''must be a UUID''))"

definition clean_name :: "string \<Rightarrow> string res" where
  "clean_name value =
     (let cleaned = join '' '' (py_words value) in
      if cleaned = [] then Inl (ValueError ''cannot be blank'') else Inr cleaned)"

definition thinking_defaults :: "((string \<times> string) \<times> string) list" where
  "thinking_defaults =
    [((''qwen35-chat-transformers-rocm'', ''qwen35-chat-transformers-rocm''), ''disabled''),
     ((''qwen38-llamacpp-vulkan'', ''qwen38-llamacpp-q8-mtp-vulkan''), ''adaptive''),
     ((''qwen38-llamacpp-vulkan'', ''qwen38-llamacpp-q8-mtp-vulkan-no-thinking''), ''disabled''),
     ((''qwen35-llamacpp-vulkan'', ''qwen35-llamacpp-q8-vulkan''), ''disabled''),
     ((''qwen35-llamacpp-vulkan'', ''qwen35-llamacpp-q8-vulkan-adaptive''), ''adaptive''),
     ((''qwen35-llamacpp-vulkan'', ''qwen35-local-q8-vulkan''), ''disabled''),
     ((''qwen35-llamacpp-vulkan'', ''qwen35-local-q8-vulkan-adaptive''), ''adaptive''),
     ((''gemma4-general-chat-transformers-rocm'', ''gemma4-general-chat-rocm''), ''disabled''),
     ((''gemma4-general-chat-transformers-rocm'', ''gemma4-general-chat-rocm-adaptive''), ''adaptive'')]"

definition thinking_default :: "worker_definition \<Rightarrow> string option" where
  "thinking_default w = (case wd_runtime_template_id w of None \<Rightarrow> None
     | Some t \<Rightarrow> map_of thinking_defaults (wd_runtime w, t))"

definition with_thinking_mode :: "worker_definition \<Rightarrow> worker_definition" where
  "with_thinking_mode w = (case thinking_default w of
     Some d \<Rightarrow> if dhas (wd_settings w) ''thinking_mode'' then w
               else w\<lparr>wd_settings := AList.update ''thinking_mode'' (VStr d) (wd_settings w)\<rparr>
   | None \<Rightarrow> w)"

definition prefix_cache_eligible :: "worker_definition \<Rightarrow> bool" where
  "prefix_cache_eligible w = (wd_generation_family w = ''autoregressive'' \<and> wd_runtime w = ''transformers-rocm''
     \<and> supports_application_managed_prefix_cache (wd_model_id w))"

definition normalise_legacy_settings :: "worker_definition \<Rightarrow> worker_definition res" where
  "normalise_legacy_settings w0 =
     (let w = with_thinking_mode w0;
          eligible = prefix_cache_eligible w;
          enabled = (dget (wd_settings w) ''prefix_cache_enabled'' = VBool True)
      in if enabled \<and> \<not> eligible
         then Inl (ValueError ''prefix caching is not supported by this Worker'')
         else Inr (w\<lparr>wd_capabilities :=
            AList.update ''prefix_cache_enabled'' (VBool (if eligible then enabled else False))
              (AList.update ''prefix_caching'' (VStr (if eligible then ''application-managed'' else ''unsupported''))
                (wd_capabilities w))\<rparr>))"

definition validate_worker :: "worker_definition \<Rightarrow> worker_definition res" where
  "validate_worker w =
     rbind (validate_uuid (wd_id w)) (\<lambda>_.
     if \<not> label_length (wd_name w) then Inl (ValueError ''name'')
     else rbind (clean_name (wd_name w)) (\<lambda>n.
       if wd_lifecycle w \<notin> {''resident'', ''on-demand'', ''exclusive''} then Inl (ValueError ''lifecycle'')
       else if \<not> (1024 \<le> wd_port w \<and> wd_port w \<le> 65535) then Inl (ValueError ''port'')
       else normalise_legacy_settings (w\<lparr>wd_name := n\<rparr>)))"

definition from_profile :: "model_profile \<Rightarrow> string \<Rightarrow> worker_definition res" where
  "from_profile p name = validate_worker \<lparr>
     wd_id = mp_id p, wd_name = name, wd_model_id = mp_model_id p, wd_revision = mp_revision p,
     wd_artifact_model_id = mp_artifact_model_id p, wd_artifact_revision = mp_artifact_revision p,
     wd_generation_family = generation_family_value (mp_generation_family p),
     wd_runtime = mp_preferred_runtime p,
     wd_runtime_template_id = mp_runtime_template_id p,
     wd_runtime_template_version = mp_runtime_template_version p,
     wd_lifecycle = lifecycle_value (mp_lifecycle p), wd_port = mp_port p, wd_dtype = mp_dtype p,
     wd_capabilities = capability_dump (mp_capabilities p), wd_settings = mp_settings p,
     wd_capability_policy_version = Some 5, wd_archived = False\<rparr>"

definition worker_alias :: "string \<Rightarrow> string" where
  "worker_alias i = ''worker-'' @ take 8 i"

definition to_profile :: "bool \<Rightarrow> (pyval \<Rightarrow> bool res) \<Rightarrow> worker_definition \<Rightarrow> model_profile res" where
  "to_profile harness to_bool w =
     rbind (parse_generation_family (wd_generation_family w)) (\<lambda>family.
     rbind (parse_lifecycle (wd_lifecycle w)) (\<lambda>lifecycle.
     rbind (capability_validate to_bool (wd_capabilities w)) (\<lambda>caps.
       validate_profile harness \<lparr>
         mp_id = wd_id w, mp_model_id = wd_model_id w, mp_revision = wd_revision w,
         mp_artifact_model_id = wd_artifact_model_id w, mp_artifact_revision = wd_artifact_revision w,
         mp_alias = worker_alias (wd_id w),
         mp_generation_family = family, mp_preferred_runtime = wd_runtime w,
         mp_runtime_template_id = wd_runtime_template_id w,
         mp_runtime_template_version = wd_runtime_template_version w,
         mp_lifecycle = lifecycle, mp_port = wd_port w,
         mp_local_files_only = True, mp_trust_remote_code = False,
         mp_dtype = wd_dtype w, mp_capabilities = caps, mp_settings = wd_settings w\<rparr>)))"

text \<open>\<open>model_dump(mode="json")\<close>.\<close>

definition worker_dump :: "worker_definition \<Rightarrow> pydict" where
  "worker_dump w =
     [(''id'', VStr (wd_id w)), (''name'', VStr (wd_name w)), (''model_id'', VStr (wd_model_id w)),
      (''revision'', VStr (wd_revision w)),
      (''artifact_model_id'', opt_str (wd_artifact_model_id w)),
      (''artifact_revision'', opt_str (wd_artifact_revision w)),
      (''generation_family'', VStr (wd_generation_family w)), (''runtime'', VStr (wd_runtime w)),
      (''runtime_template_id'', opt_str (wd_runtime_template_id w)),
      (''runtime_template_version'', opt_str (wd_runtime_template_version w)),
      (''lifecycle'', VStr (wd_lifecycle w)), (''port'', VInt (wd_port w)), (''dtype'', VStr (wd_dtype w)),
      (''capabilities'', VDict (wd_capabilities w)), (''settings'', VDict (wd_settings w)),
      (''capability_policy_version'',
         (case wd_capability_policy_version w of None \<Rightarrow> VNone | Some v \<Rightarrow> VInt v)),
      (''archived'', VBool (wd_archived w))]"

section \<open>Routing profiles\<close>

record capability_binding =
  cb_id :: string
  cb_display_name :: string
  cb_public_name :: string
  cb_protocol_contract :: string
  cb_tool_calling_enabled :: bool
  cb_worker_ids :: "string list"

fun public_name_pattern :: "string \<Rightarrow> bool" where
  "public_name_pattern [] = False"
| "public_name_pattern (c # s) = (is_lower c \<and> 1 \<le> length s \<and> length s \<le> 127
     \<and> list_all (\<lambda>x. is_alias_char x \<or> x = CHR ''.'' \<or> x = CHR ''_'') s)"

definition validate_binding :: "capability_binding \<Rightarrow> unit res" where
  "validate_binding b =
     (if \<not> is_uuid (cb_id b) then Inl (ValueError ''must be a UUID'')
      else if \<not> label_length (cb_display_name b) then Inl (ValueError ''display_name'')
      else if \<not> public_name_pattern (cb_public_name b) then Inl (ValueError ''public_name'')
      else if cb_worker_ids b = [] then Inl (ValueError ''worker_ids'')
      else if find_contract (cb_protocol_contract b) = None
      then Inl (ValueError ''capability protocol contract is not trusted'')
      else if cb_tool_calling_enabled b \<and> cb_protocol_contract b \<noteq> ''openai-chat-v1''
      then Inl (ValueError ''tool calling is supported only by the OpenAI-compatible chat contract'')
      else if \<not> distinct (cb_worker_ids b)
      then Inl (ValueError ''capability workers must be unique'')
      else if \<not> list_all is_uuid (cb_worker_ids b) then Inl (ValueError ''must be a UUID'')
      else Inr ())"

datatype event_qualification = Compatible | TestedWorking

record routing_profile =
  rpf_id :: string
  rpf_name :: string
  rpf_description :: string
  rpf_qualification :: event_qualification
  rpf_capabilities :: "capability_binding list"

definition unique_capabilities :: "routing_profile \<Rightarrow> unit res" where
  "unique_capabilities p =
     (let names = map (\<lambda>b. casefold (cb_public_name b)) (rpf_capabilities p) in
      if \<not> distinct (map cb_id (rpf_capabilities p))
      then Inl (ValueError ''capability identifiers must be unique'')
      else if \<not> distinct names
      then (let duplicates = filter (\<lambda>n. 1 < count_list names n) names;
                conflicting = map (\<lambda>b. [CHR 0x27] @ cb_display_name b @ [CHR 0x27] @ '' ('' @ cb_public_name b @ '')'')
                  (filter (\<lambda>b. casefold (cb_public_name b) \<in> set duplicates) (rpf_capabilities p))
            in Inl (ValueError (''API Model IDs must be unique within a Routing Profile; conflicting capabilities: ''
                 @ join '', '' conflicting)))
      else Inr ())"

definition validate_routing_model :: "routing_profile \<Rightarrow> unit res" where
  "validate_routing_model p =
     rbind (validate_uuid (rpf_id p)) (\<lambda>_.
     if \<not> label_length (rpf_name p) then Inl (ValueError ''name'')
     else if 500 < length (rpf_description p) then Inl (ValueError ''description'')
     else rbind (first_error validate_binding (rpf_capabilities p)) (\<lambda>_. unique_capabilities p))"

section \<open>Validation against workers and evidence\<close>

record routing_error =
  re_capability_id :: string
  re_worker_id :: string
  re_message :: string

record resolved_worker =
  rw_worker_id :: string
  rw_role :: string
  rw_valid :: bool

record routing_validation =
  rv_valid :: bool
  rv_errors :: "routing_error list"
  rv_warnings :: "string list"
  rv_capabilities :: "(string \<times> string \<times> resolved_worker list) list"

definition contract_families :: "protocol_contract \<Rightarrow> generation_family list" where
  "contract_families p = (if pc_compatible_generation_families p \<noteq> [] then pc_compatible_generation_families p
     else [pc_generation_family p])"

definition has_matching_success :: "(pydict \<Rightarrow> string) \<Rightarrow> worker_definition \<Rightarrow> string \<Rightarrow> pydict list \<Rightarrow> bool res" where
  "has_matching_success digest w c tests =
     rbind (capability_evidence_status digest (worker_dump w) c tests) (\<lambda>(st, _). Inr (st \<in> {Qualified, Legacy}))"

type_synonym capability_policy = "((string \<times> string \<times> string) \<times> bool) list"

definition policy_allows :: "(pyval \<Rightarrow> string) \<Rightarrow> capability_policy \<Rightarrow> worker_definition \<Rightarrow> string \<Rightarrow> bool" where
  "policy_allows rp policy w c =
     (case worker_cache_identity rp (worker_dump w) of (m, r) \<Rightarrow> map_of policy (m, r, c) = Some True)"

text \<open>The messages about one known worker, in the order the source appends them.\<close>

definition family_messages :: "protocol_contract \<Rightarrow> worker_definition \<Rightarrow> string list" where
  "family_messages p w =
     (if wd_generation_family w \<in> set (map generation_family_value (contract_families p)) then []
      else [''Requires one of: '' @ join '', '' (map generation_family_value (contract_families p))
            @ ''; got '' @ wd_generation_family w])"

definition trait_messages :: "protocol_contract \<Rightarrow> worker_definition \<Rightarrow> string list" where
  "trait_messages p w =
     (let missing = filter (\<lambda>c. dget (wd_capabilities w) c \<noteq> VBool True) (pc_required_capabilities p) in
      if missing = [] then [] else [''Missing capabilities: '' @ join '', '' missing])"

definition tool_messages :: "capability_binding \<Rightarrow> worker_definition \<Rightarrow> string list" where
  "tool_messages b w =
     (if cb_tool_calling_enabled b \<and> dget (wd_capabilities w) ''tool_calling'' \<noteq> VBool True
      then [''Tool calling is enabled, but this Worker does not support it''] else [])"

definition settings_messages :: "(pyval \<Rightarrow> string) \<Rightarrow> protocol_contract \<Rightarrow> worker_definition \<Rightarrow> string list" where
  "settings_messages rp p w =
     (let mismatched = map (\<lambda>(n, v). n @ ''='' @ py_str rp v)
            (filter (\<lambda>(n, v). \<not> py_eq (dget (wd_settings w) n) v) (pc_required_worker_settings p)) in
      if mismatched = [] then [] else [''Requires Worker settings: '' @ join '', '' mismatched])"

definition policy_messages ::
  "(pyval \<Rightarrow> string) \<Rightarrow> capability_policy option \<Rightarrow> string option \<Rightarrow> worker_definition \<Rightarrow> string list" where
  "policy_messages rp policy c w =
     (case (policy, c) of
        (Some pol, Some cap) \<Rightarrow> if policy_allows rp pol w cap then []
          else [''Allow the '' @ cap @ '' capability for this cached Model revision'']
      | _ \<Rightarrow> [])"

definition evidence_messages ::
  "(pydict \<Rightarrow> string) \<Rightarrow> event_qualification \<Rightarrow> string option \<Rightarrow> pydict list \<Rightarrow> worker_definition \<Rightarrow> string list res" where
  "evidence_messages digest q c tests w =
     (if q = TestedWorking
      then (case c of None \<Rightarrow> Inr []
        | Some cap \<Rightarrow> rbind (has_matching_success digest w cap tests) (\<lambda>ok.
            Inr (if ok then [] else [''No matching tested-working evidence is recorded''])))
      else Inr [])"

definition worker_messages ::
  "(pyval \<Rightarrow> string) \<Rightarrow> (pydict \<Rightarrow> string) \<Rightarrow> event_qualification \<Rightarrow> capability_policy option \<Rightarrow> pydict list
     \<Rightarrow> capability_binding \<Rightarrow> protocol_contract \<Rightarrow> worker_definition option \<Rightarrow> string list res" where
  "worker_messages rp digest q policy tests b p w0 =
     (case w0 of None \<Rightarrow> Inr [''Unknown or archived Worker'']
      | Some w \<Rightarrow>
         let c = capability_id_for_contract (cb_protocol_contract b) in
         rbind (evidence_messages digest q c tests w) (\<lambda>ev.
           Inr (family_messages p w @ trait_messages p w @ tool_messages b w @ settings_messages rp p w
                @ policy_messages rp policy c w @ ev)))"

text \<open>The inner loop over the workers of one capability: errors and resolved workers.\<close>

fun resolve_workers ::
  "(string \<Rightarrow> string list res) \<Rightarrow> string \<Rightarrow> nat \<Rightarrow> string list \<Rightarrow> (routing_error list \<times> resolved_worker list) res" where
  "resolve_workers msgs cap i [] = Inr ([], [])"
| "resolve_workers msgs cap i (wid # wids) =
     rbind (msgs wid) (\<lambda>ms.
     rbind (resolve_workers msgs cap (Suc i) wids) (\<lambda>(errs, ws).
       Inr (map (\<lambda>m. \<lparr>re_capability_id = cap, re_worker_id = wid, re_message = m\<rparr>) ms @ errs,
            \<lparr>rw_worker_id = wid, rw_role = (if i = 0 then ''primary'' else ''backup''), rw_valid = (ms = [])\<rparr> # ws)))"

fun resolve_capabilities ::
  "(capability_binding \<Rightarrow> protocol_contract \<Rightarrow> string \<Rightarrow> string list res) \<Rightarrow> capability_binding list
     \<Rightarrow> (routing_error list \<times> (string \<times> string \<times> resolved_worker list) list) res" where
  "resolve_capabilities msgs [] = Inr ([], [])"
| "resolve_capabilities msgs (b # bs) =
     (case find_contract (cb_protocol_contract b) of
        None \<Rightarrow> Inl (KeyError (cb_protocol_contract b))
      | Some p \<Rightarrow>
        rbind (resolve_workers (msgs b p) (cb_id b) 0 (cb_worker_ids b)) (\<lambda>(errs, ws).
        rbind (resolve_capabilities msgs bs) (\<lambda>(errs', caps).
          Inr (errs @ errs', (cb_id b, cb_public_name b, ws) # caps))))"

text \<open>\<open>{worker.id: worker ...}\<close>: of two workers with one id the later wins.\<close>

definition active_workers :: "worker_definition list \<Rightarrow> string \<Rightarrow> worker_definition option" where
  "active_workers ws i = map_of (rev (map (\<lambda>w. (wd_id w, w)) (filter (\<lambda>w. \<not> wd_archived w) ws))) i"

definition validate_routing_profile ::
  "(pyval \<Rightarrow> string) \<Rightarrow> (pydict \<Rightarrow> string) \<Rightarrow> routing_profile \<Rightarrow> worker_definition list \<Rightarrow> pydict list
     \<Rightarrow> capability_policy option \<Rightarrow> routing_validation res" where
  "validate_routing_profile rp digest d ws tests policy =
     rbind (resolve_capabilities
        (\<lambda>b p wid. worker_messages rp digest (rpf_qualification d) policy tests b p (active_workers ws wid))
        (rpf_capabilities d)) (\<lambda>(errs, caps).
       Inr \<lparr>rv_valid = (errs = []), rv_errors = errs,
            rv_warnings = (if rpf_capabilities d = [] then [''This Routing Profile publishes no capabilities''] else []),
            rv_capabilities = caps\<rparr>)"

definition routing_snapshot :: "routing_profile \<Rightarrow> int \<Rightarrow> pydict" where
  "routing_snapshot d revision =
     [(''format'', VStr ''modeldeck-routing-profile''),
      (''version'', VInt 3),
      (''profile_id'', VStr (rpf_id d)),
      (''profile_name'', VStr (rpf_name d)),
      (''revision'', VInt revision),
      (''capabilities'', VList (map (\<lambda>b. VDict
         [(''capability_id'', VStr (cb_id b)),
          (''display_name'', VStr (cb_display_name b)),
          (''public_name'', VStr (cb_public_name b)),
          (''protocol_contract'', VStr (cb_protocol_contract b)),
          (''tool_calling_enabled'', VBool (cb_tool_calling_enabled b)),
          (''worker_ids'', VList (map VStr (cb_worker_ids b)))]) (rpf_capabilities d)))]"

section \<open>Resolved routes\<close>

definition as_mapping :: "pyval \<Rightarrow> pydict" where
  "as_mapping v = (case v of VDict d \<Rightarrow> d | _ \<Rightarrow> [])"

definition execution_identity :: "pydict \<Rightarrow> pydict" where
  "execution_identity document =
     (let settings = as_mapping (py_or (dget document ''settings'') (VDict []));
          capabilities = as_mapping (dget document ''capabilities'');
          merged = fold (\<lambda>(k, v). AList.update k v) settings capabilities in
      [(''model_id'', dget document ''model_id''),
       (''model_revision'', dget document ''revision''),
       (''artifact_model_id'', dget document ''artifact_model_id''),
       (''artifact_revision'', dget document ''artifact_revision''),
       (''artifact_id'', dget settings ''artifact_id''),
       (''artifact_format'', dget settings ''artifact_format''),
       (''artifact_sha256'', dget settings ''artifact_sha256''),
       (''quantisation'', dget settings ''quantisation''),
       (''runtime'', py_or (dget document ''runtime'') (dget document ''preferred_runtime'')),
       (''runtime_template_id'', dget document ''runtime_template_id''),
       (''runtime_template_version'', dget document ''runtime_template_version''),
       (''backend'', dget settings ''backend''),
       (''device'', dget settings ''device''),
       (''precision'', dget document ''dtype''),
       (''context_length'', dget settings ''context_length''),
       (''kv_cache'', VDict (filter (\<lambda>(k, v). str_in ''cache'' k \<and> \<not> str_in ''path'' k \<and> \<not> str_in ''root'' k) merged))])"

text \<open>A stored row: its id (when the row has one), the document, the archival time.\<close>

record worker_row =
  row_id :: "pyval option"
  row_definition :: pydict
  row_archived_at :: pyval

definition row_key :: "worker_row \<Rightarrow> pyval" where
  "row_key r = (case row_id r of Some i \<Rightarrow> i | None \<Rightarrow> dget (row_definition r) ''id'')"

record configured_worker =
  cw_worker_id :: string
  cw_status :: string
  cw_requested :: pydict

record resolved_route =
  rr_public_name :: string
  rr_configured_worker_ids :: "string list"
  rr_candidates :: "model_profile list"
  rr_configured_workers :: "configured_worker list"

text \<open>The \<open>try\<close> block: the status and, for a usable worker, its profile. \<open>parse_fields\<close> is the
  validation library's typing of the document.\<close>

definition resolve_row ::
  "bool \<Rightarrow> (pyval \<Rightarrow> bool res) \<Rightarrow> (pydict \<Rightarrow> worker_definition res) \<Rightarrow> string \<Rightarrow> worker_row
     \<Rightarrow> (string \<times> model_profile option) res" where
  "resolve_row harness to_bool parse_fields worker_id r =
     (case rbind (parse_fields (row_definition r)) (\<lambda>raw.
            rbind (validate_worker raw) (\<lambda>w.
            if wd_id w \<noteq> worker_id
            then Inl (ValueError ''Persisted Worker ID differs from its row identity'')
            else rbind (to_profile harness to_bool w) (\<lambda>p.
              if py_truthy (row_archived_at r) \<or> wd_archived w then Inr (''archived'', None)
              else Inr (''configured'', Some p)))) of
        Inr x \<Rightarrow> Inr x
      | Inl (ValueError _) \<Rightarrow> Inr (''invalid_or_retired'', None)
      | Inl e \<Rightarrow> Inl e)"

fun resolve_ids ::
  "(string \<Rightarrow> (string \<times> model_profile option \<times> pydict) res) \<Rightarrow> string list
     \<Rightarrow> (configured_worker list \<times> model_profile list) res" where
  "resolve_ids f [] = Inr ([], [])"
| "resolve_ids f (wid # wids) =
     rbind (f wid) (\<lambda>(status, profile, document).
     rbind (resolve_ids f wids) (\<lambda>(cs, ps).
       Inr (\<lparr>cw_worker_id = wid, cw_status = status, cw_requested = execution_identity document\<rparr> # cs,
            (case profile of None \<Rightarrow> ps | Some p \<Rightarrow> p # ps))))"

definition resolve_route ::
  "bool \<Rightarrow> (pyval \<Rightarrow> bool res) \<Rightarrow> (pydict \<Rightarrow> worker_definition res) \<Rightarrow> string \<Rightarrow> string list \<Rightarrow> worker_row list
     \<Rightarrow> resolved_route res" where
  "resolve_route harness to_bool parse_fields name worker_ids rows =
     rbind (resolve_ids (\<lambda>wid.
         case map_of (rev (map (\<lambda>r. (row_key r, r)) rows)) (VStr wid) of
           None \<Rightarrow> Inr (''missing'', None, [])
         | Some r \<Rightarrow> rbind (resolve_row harness to_bool parse_fields wid r) (\<lambda>(status, profile).
             Inr (status, profile, row_definition r))) worker_ids) (\<lambda>(cs, ps).
       Inr \<lparr>rr_public_name = name, rr_configured_worker_ids = worker_ids, rr_candidates = ps,
            rr_configured_workers = cs\<rparr>)"

definition configured_dict :: "configured_worker \<Rightarrow> pyval" where
  "configured_dict c = VDict [(''worker_id'', VStr (cw_worker_id c)), (''status'', VStr (cw_status c)),
     (''requested'', VDict (cw_requested c))]"

definition route_metadata :: "resolved_route \<Rightarrow> pydict" where
  "route_metadata r =
     [(''configured_worker_ids'', VList (map VStr (rr_configured_worker_ids r))),
      (''configured_workers'', VList (map configured_dict (rr_configured_workers r))),
      (''candidate_worker_ids'', VList (map (\<lambda>p. VStr (mp_id p)) (rr_candidates r)))]"

end
