(* ===== verification/Domain_Routing.thy ===== *)
theory Domain_Routing
  imports Domain
begin

text \<open>
  What the operator's configuration guarantees: a routing profile is valid exactly when every listed
  worker serves its capability, a worker definition and its execution profile convert into each
  other, legacy settings are normalised once and for all, and a resolved route offers only workers
  that are configured, current and named by it.
\<close>

section \<open>Library lemmas\<close>

lemma safe_worker_alias: "SAFE_ALIAS (worker_alias i) \<longleftrightarrow> list_all is_alias_char (take 8 i)"
  by (auto simp: worker_alias_def is_alias_char_def is_lower_def)

definition bool_only :: "pyval \<Rightarrow> bool res" where
  "bool_only v = (case v of VBool b \<Rightarrow> Inr b | _ \<Rightarrow> Inl (ValueError ''bool''))"

definition well_formed_caps :: "capability_set \<Rightarrow> bool" where
  "well_formed_caps c =
     ((cs_chat c = VStr ''compatibility-only'' \<or> cs_chat c \<in> {VBool True, VBool False})
      \<and> (cs_logits c = VStr ''model-specific'' \<or> cs_logits c \<in> {VBool True, VBool False})
      \<and> (cs_hidden_states c = VStr ''optional'' \<or> cs_hidden_states c \<in> {VBool True, VBool False})
      \<and> cs_prefix_caching c \<in> {''unsupported'', ''backend-managed'', ''application-managed''})"

lemma literal_or_bool_keeps:
  "\<forall>b. to_bool (VBool b) = Inr b \<Longrightarrow> v = VStr lit \<or> v \<in> {VBool True, VBool False} \<Longrightarrow>
     literal_or_bool to_bool lit v = Inr v"
  by (auto simp: literal_or_bool_def eq_str_def)

lemma capability_roundtrip:
  assumes "\<forall>b. to_bool (VBool b) = Inr b" and "well_formed_caps c"
  shows "capability_validate to_bool (capability_dump c) = Inr c"
proof -
  note wf = assms(2) [unfolded well_formed_caps_def]
  have lits: "literal_or_bool to_bool ''compatibility-only'' (cs_chat c) = Inr (cs_chat c)"
    "literal_or_bool to_bool ''model-specific'' (cs_logits c) = Inr (cs_logits c)"
    "literal_or_bool to_bool ''optional'' (cs_hidden_states c) = Inr (cs_hidden_states c)"
    using wf by (auto intro!: literal_or_bool_keeps [OF assms(1)])
  have "prefix_caching_value (VStr (cs_prefix_caching c)) = Inr (cs_prefix_caching c)"
    using wf unfolding prefix_caching_value_def by (simp only: pyval.case if_True)
  note lits = lits this
  show ?thesis
    using assms(1) lits
    by (simp add: capability_validate_def capability_dump_def default_capability_set_def dhas_def field_or_def)
qed

lemma capability_dump_update:
  "AList.update ''prefix_cache_enabled'' (VBool b) (AList.update ''prefix_caching'' (VStr s) (capability_dump c))
     = capability_dump (c\<lparr>cs_prefix_caching := s, cs_prefix_cache_enabled := b\<rparr>)"
  by (simp add: capability_dump_def)

section \<open>Normalisation of worker settings\<close>

lemma with_thinking_mode_fields [simp]:
  "wd_runtime (with_thinking_mode w) = wd_runtime w"
  "wd_runtime_template_id (with_thinking_mode w) = wd_runtime_template_id w"
  "wd_generation_family (with_thinking_mode w) = wd_generation_family w"
  "wd_model_id (with_thinking_mode w) = wd_model_id w"
  "wd_capabilities (with_thinking_mode w) = wd_capabilities w"
  "wd_id (with_thinking_mode w) = wd_id w"
  by (simp_all add: with_thinking_mode_def split: option.split)

lemma with_thinking_mode_has: "thinking_default w = Some d \<Longrightarrow> dhas (wd_settings (with_thinking_mode w)) ''thinking_mode''"
  by (simp add: with_thinking_mode_def dhas_def)

lemma thinking_default_cong:
  "wd_runtime v = wd_runtime w \<Longrightarrow> wd_runtime_template_id v = wd_runtime_template_id w \<Longrightarrow>
     thinking_default v = thinking_default w"
  by (cases "wd_runtime_template_id w") (simp_all add: thinking_default_def)

lemma with_thinking_mode_id:
  "thinking_default w = None \<or> dhas (wd_settings w) ''thinking_mode'' \<Longrightarrow> with_thinking_mode w = w"
  by (auto simp: with_thinking_mode_def split: option.split)

lemma update_same: "map_of d k = Some v \<Longrightarrow> AList.update k v d = d"
  by (induction d) auto

text \<open>What a successful normalisation is.\<close>

definition prefix_cache_on :: "worker_definition \<Rightarrow> bool" where
  "prefix_cache_on w = (dget (wd_settings w) ''prefix_cache_enabled'' = VBool True)"

definition caching_mode :: "bool \<Rightarrow> string" where
  "caching_mode eligible = (if eligible then ''application-managed'' else ''unsupported'')"

definition with_cache_fields :: "bool \<Rightarrow> bool \<Rightarrow> pydict \<Rightarrow> pydict" where
  "with_cache_fields eligible on d =
     AList.update ''prefix_cache_enabled'' (VBool on) (AList.update ''prefix_caching'' (VStr (caching_mode eligible)) d)"

lemma eligible_with_thinking_mode [simp]: "prefix_cache_eligible (with_thinking_mode w) = prefix_cache_eligible w"
  by (simp add: prefix_cache_eligible_def)

lemma normalise_iff:
  "normalise_legacy_settings w = Inr v \<longleftrightarrow>
     (prefix_cache_on (with_thinking_mode w) \<longrightarrow> prefix_cache_eligible w)
     \<and> v = (with_thinking_mode w)\<lparr>wd_capabilities :=
          with_cache_fields (prefix_cache_eligible w) (prefix_cache_on (with_thinking_mode w)) (wd_capabilities w)\<rparr>"
  by (auto simp: normalise_legacy_settings_def Let_def prefix_cache_on_def with_cache_fields_def caching_mode_def)

lemma normalise_keeps:
  assumes "normalise_legacy_settings w = Inr v"
  shows "prefix_cache_eligible v = prefix_cache_eligible w" and "wd_settings v = wd_settings (with_thinking_mode w)"
    and "prefix_cache_on v = prefix_cache_on (with_thinking_mode w)"
  using assms by (simp_all add: normalise_iff prefix_cache_on_def prefix_cache_eligible_def)

lemma with_cache_fields_again: "with_cache_fields e b (with_cache_fields e b d) = with_cache_fields e b d"
  by (simp add: with_cache_fields_def update_same)

text \<open>Normalising a worker's legacy settings is stable: the result is its own normal form, an
  explicit thinking mode is never replaced, and the prefix cache is enabled only where the model is
  eligible for it.\<close>

theorem normalisation_is_stable:
  assumes "normalise_legacy_settings w = Inr v"
  shows "normalise_legacy_settings v = Inr v
     \<and> (\<forall>m. map_of (wd_settings w) ''thinking_mode'' = Some m \<longrightarrow> wd_settings v = wd_settings w)
     \<and> (dget (wd_capabilities v) ''prefix_cache_enabled'' = VBool True \<longrightarrow> prefix_cache_eligible w)"
proof -
  note keeps = normalise_keeps [OF assms]
  have on: "prefix_cache_on v \<longrightarrow> prefix_cache_eligible w"
    and caps: "wd_capabilities v = with_cache_fields (prefix_cache_eligible w) (prefix_cache_on v) (wd_capabilities w)"
    and same: "wd_runtime v = wd_runtime w" "wd_runtime_template_id v = wd_runtime_template_id w"
    unfolding keeps(3) using assms by (simp_all add: normalise_iff)
  have "thinking_default v = thinking_default w"
    by (rule thinking_default_cong) (fact same)+
  then have fixed: "with_thinking_mode v = v"
    using with_thinking_mode_has [of w] keeps(2) by (intro with_thinking_mode_id) (cases "thinking_default w"; simp)
  have "with_cache_fields (prefix_cache_eligible w) (prefix_cache_on v) (wd_capabilities v) = wd_capabilities v"
    unfolding caps by (rule with_cache_fields_again)
  then have "normalise_legacy_settings v = Inr v"
    using on by (simp add: normalise_iff fixed keeps(1))
  moreover have "wd_settings v = wd_settings w" if "map_of (wd_settings w) ''thinking_mode'' = Some m" for m
    using that by (simp add: keeps(2) with_thinking_mode_id dhas_def)
  moreover have "prefix_cache_eligible w" if "dget (wd_capabilities v) ''prefix_cache_enabled'' = VBool True"
    using that on by (simp add: caps with_cache_fields_def)
  ultimately show ?thesis by blast
qed

definition example_worker :: worker_definition where
  "example_worker = \<lparr>wd_id = ''0f8fad5b-d9cb-469f-a165-70867728950e'', wd_name = ''Chat'',
     wd_model_id = ''Qwen/Qwen2.5-3B-Instruct'', wd_revision = ''r1'', wd_artifact_model_id = None,
     wd_artifact_revision = None, wd_generation_family = ''autoregressive'', wd_runtime = ''transformers-rocm'',
     wd_runtime_template_id = Some ''autoregressive-transformers'', wd_runtime_template_version = Some ''1'',
     wd_lifecycle = ''on-demand'', wd_port = 8101, wd_dtype = ''auto'',
     wd_capabilities = [(''chat'', VBool True)], wd_settings = [(''prefix_cache_enabled'', VBool True)],
     wd_capability_policy_version = Some 5, wd_archived = False\<rparr>"

theorem normalisation_is_stable_witness:
  "\<exists>v. normalise_legacy_settings example_worker = Inr v \<and> normalise_legacy_settings v = Inr v
     \<and> dget (wd_capabilities v) ''prefix_caching'' = VStr ''application-managed''"
proof -
  have n: "normalise_legacy_settings example_worker = Inr (example_worker\<lparr>wd_capabilities :=
     [(''chat'', VBool True), (''prefix_caching'', VStr ''application-managed''), (''prefix_cache_enabled'', VBool True)]\<rparr>)"
    by code_simp
  from normalisation_is_stable [OF n] n show ?thesis by (auto simp: dget_def)
qed

section \<open>Definitions and profiles\<close>

lemma validate_worker_Inr:
  "validate_worker w = Inr v \<Longrightarrow> \<exists>n. normalise_legacy_settings (w\<lparr>wd_name := n\<rparr>) = Inr v \<and> is_uuid (wd_id w)"
  by (auto simp: validate_worker_def validate_uuid_def rbind_eq_Inr split: if_splits)

lemma generation_contract_prefix:
  "generation_contract (p\<lparr>mp_alias := a, mp_local_files_only := l, mp_trust_remote_code := t, mp_settings := s,
      mp_capabilities := (mp_capabilities p)\<lparr>cs_prefix_caching := x, cs_prefix_cache_enabled := y\<rparr>\<rparr>)
   = generation_contract p"
  by (simp add: generation_contract_def Let_def cong: if_cong split del: if_split)


definition example_profile :: model_profile where
  "example_profile = \<lparr>mp_id = ''0f8fad5b-d9cb-469f-a165-70867728950e'', mp_model_id = ''Qwen/Qwen2.5-3B-Instruct'',
     mp_revision = ''r1'', mp_artifact_model_id = None, mp_artifact_revision = None, mp_alias = ''chat'',
     mp_generation_family = AUTOREGRESSIVE, mp_preferred_runtime = ''transformers-rocm'',
     mp_runtime_template_id = None, mp_runtime_template_version = None, mp_lifecycle = ON_DEMAND,
     mp_port = 8101, mp_local_files_only = True, mp_trust_remote_code = False, mp_dtype = ''auto'',
     mp_capabilities = default_capability_set, mp_settings = []\<rparr>"


text \<open>A worker definition may be accepted and yet never become a profile: the definition
  accepts every spelling of a UUID, while the alias derived from its first eight characters must be
  lower case, so a definition with, for example, an upper-case identifier validates and its
  conversion always fails.\<close>

theorem uppercase_identifier_never_becomes_a_profile:
  assumes "c \<in> set (take 8 (wd_id w))" and "\<not> is_alias_char c"
  shows "\<not> is_ok (to_profile harness to_bool w)"
  using assms
  by (auto simp: to_profile_def is_ok_iff validate_profile_Inr safe_worker_alias list_all_iff rbind_eq_Inr)

theorem uppercase_identifier_never_becomes_a_profile_witness:
  "is_ok (validate_worker (example_worker\<lparr>wd_id := ''0F8FAD5B-D9CB-469F-A165-70867728950E''\<rparr>))
   \<and> \<not> is_ok (to_profile False bool_only (example_worker\<lparr>wd_id := ''0F8FAD5B-D9CB-469F-A165-70867728950E''\<rparr>))"
proof
  show "is_ok (validate_worker (example_worker\<lparr>wd_id := ''0F8FAD5B-D9CB-469F-A165-70867728950E''\<rparr>))"
    by code_simp
  show "\<not> is_ok (to_profile False bool_only (example_worker\<lparr>wd_id := ''0F8FAD5B-D9CB-469F-A165-70867728950E''\<rparr>))"
    by (rule uppercase_identifier_never_becomes_a_profile [of "CHR ''F''"])
       (simp_all add: is_alias_char_def is_lower_def is_digit_def)
qed

section \<open>Routing profiles\<close>

text \<open>The specification of a worker that serves a capability.\<close>

definition worker_serves ::
  "(pyval \<Rightarrow> string) \<Rightarrow> (pydict \<Rightarrow> string) \<Rightarrow> event_qualification \<Rightarrow> capability_policy option \<Rightarrow> pydict list
     \<Rightarrow> capability_binding \<Rightarrow> worker_definition \<Rightarrow> bool" where
  "worker_serves rp digest q policy tests b w =
     (\<exists>p. find_contract (cb_protocol_contract b) = Some p
      \<and> wd_generation_family w \<in> set (map generation_family_value (contract_families p))
      \<and> meets_contract p (wd_capabilities w) (wd_settings w)
      \<and> (cb_tool_calling_enabled b \<longrightarrow> dget (wd_capabilities w) ''tool_calling'' = VBool True)
      \<and> (\<forall>pol c. policy = Some pol \<longrightarrow> capability_id_for_contract (cb_protocol_contract b) = Some c \<longrightarrow>
           policy_allows rp pol w c)
      \<and> (\<forall>c. q = TestedWorking \<longrightarrow> capability_id_for_contract (cb_protocol_contract b) = Some c \<longrightarrow>
           has_matching_success digest w c tests = Inr True))"

lemma worker_messages_empty:
  assumes "find_contract (cb_protocol_contract b) = Some p"
  shows "worker_messages rp digest q policy tests b p w0 = Inr [] \<longleftrightarrow>
     (\<exists>w. w0 = Some w \<and> worker_serves rp digest q policy tests b w)"
proof (cases w0)
  case None
  then show ?thesis by (simp add: worker_messages_def)
next
  case (Some w)
  have traits: "trait_messages p w = [] \<longleftrightarrow> list_all (\<lambda>n. dget (wd_capabilities w) n = VBool True) (pc_required_capabilities p)"
    by (auto simp: trait_messages_def Let_def filter_empty_conv list_all_iff)
  have sets: "settings_messages rp p w = [] \<longleftrightarrow> list_all (\<lambda>(n, v). py_eq (dget (wd_settings w) n) v) (pc_required_worker_settings p)"
    by (auto simp: settings_messages_def Let_def filter_empty_conv list_all_iff)
  have pol: "policy_messages rp policy c w = [] \<longleftrightarrow>
      (\<forall>pol c'. policy = Some pol \<longrightarrow> c = Some c' \<longrightarrow> policy_allows rp pol w c')" for c
    by (auto simp: policy_messages_def split: option.splits if_splits)
  have ev: "evidence_messages digest q c tests w = Inr [] \<longleftrightarrow>
      (\<forall>c'. q = TestedWorking \<longrightarrow> c = Some c' \<longrightarrow> has_matching_success digest w c' tests = Inr True)" for c
    by (auto simp: evidence_messages_def rbind_eq_Inr split: option.splits if_splits)
  show ?thesis
    using assms Some
    by (auto simp: worker_messages_def Let_def rbind_eq_Inr worker_serves_def meets_contract_def
        traits sets pol ev family_messages_def tool_messages_def split: if_splits)
qed

lemma resolve_workers_ok:
  "resolve_workers msgs cap i wids = Inr (errs, ws) \<Longrightarrow> errs = [] \<longleftrightarrow> (\<forall>wid\<in>set wids. msgs wid = Inr [])"
  by (induction wids arbitrary: i errs ws) (auto simp: rbind_eq_Inr)

lemma resolve_capabilities_ok:
  assumes "resolve_capabilities msgs bs = Inr (errs, caps)"
  shows "errs = [] \<longleftrightarrow> (\<forall>b\<in>set bs. \<exists>p. find_contract (cb_protocol_contract b) = Some p
     \<and> (\<forall>wid\<in>set (cb_worker_ids b). msgs b p wid = Inr []))"
  using assms
proof (induction bs arbitrary: errs caps)
  case Nil
  then show ?case by simp
next
  case (Cons b bs)
  from Cons.prems obtain p e1 ws e2 caps2 where p: "find_contract (cb_protocol_contract b) = Some p"
    and w: "resolve_workers (msgs b p) (cb_id b) 0 (cb_worker_ids b) = Inr (e1, ws)"
    and r: "resolve_capabilities msgs bs = Inr (e2, caps2)" and e: "errs = e1 @ e2"
    by (auto simp: rbind_eq_Inr split: option.splits)
  from resolve_workers_ok [OF w] Cons.IH [OF r] p e show ?case by auto
qed

lemma validation_iff:
  assumes "validate_routing_profile rp digest d ws tests policy = Inr v"
  shows "rv_valid v \<longleftrightarrow> (\<forall>b\<in>set (rpf_capabilities d). find_contract (cb_protocol_contract b) \<noteq> None
     \<and> (\<forall>wid\<in>set (cb_worker_ids b). \<exists>w. active_workers ws wid = Some w
          \<and> worker_serves rp digest (rpf_qualification d) policy tests b w))"
proof -
  let ?msgs = "\<lambda>b p wid. worker_messages rp digest (rpf_qualification d) policy tests b p (active_workers ws wid)"
  obtain errs caps where r: "resolve_capabilities ?msgs (rpf_capabilities d) = Inr (errs, caps)"
    and v: "rv_valid v \<longleftrightarrow> errs = []"
    using assms by (auto simp: validate_routing_profile_def rbind_eq_Inr)
  show ?thesis unfolding v resolve_capabilities_ok [OF r]
    by (intro ball_cong refl) (auto simp: worker_messages_empty)
qed

text \<open>C16: A routing profile is valid exactly when every worker it lists, for every capability,
  exists unarchived and serves that capability: family, required capabilities and settings of the
  contract, tool calling where enabled, the capability policy of the cached model, and recorded
  evidence where the profile asks for it.\<close>

theorem valid_profile_iff_workers_serve:
  assumes "validate_routing_profile rp digest d ws tests policy = Inr v"
  shows "rv_valid v \<longleftrightarrow> (\<forall>b\<in>set (rpf_capabilities d). find_contract (cb_protocol_contract b) \<noteq> None
     \<and> (\<forall>wid\<in>set (cb_worker_ids b). \<exists>w. active_workers ws wid = Some w
          \<and> worker_serves rp digest (rpf_qualification d) policy tests b w))"
  by (rule validation_iff [OF assms])

definition example_binding :: capability_binding where
  "example_binding = \<lparr>cb_id = ''7c9e6679-7425-40de-944b-e07fc1f90ae7'', cb_display_name = ''Chat'', cb_public_name = ''chat-1'',
     cb_protocol_contract = ''openai-chat-v1'', cb_tool_calling_enabled = False,
     cb_worker_ids = [''0f8fad5b-d9cb-469f-a165-70867728950e'']\<rparr>"

definition example_routing :: routing_profile where
  "example_routing = \<lparr>rpf_id = ''7c9e6679-7425-40de-944b-e07fc1f90ae8'', rpf_name = ''Booth'', rpf_description = [],
     rpf_qualification = Compatible, rpf_capabilities = [example_binding]\<rparr>"

theorem valid_profile_iff_workers_serve_witness:
  "\<exists>v. validate_routing_profile (\<lambda>_. []) (\<lambda>_. []) example_routing [example_worker] [] None = Inr v \<and> rv_valid v
     \<and> worker_serves (\<lambda>_. []) (\<lambda>_. []) Compatible None [] example_binding example_worker"
proof -
  have ok: "(case validate_routing_profile (\<lambda>_. []) (\<lambda>_. []) example_routing [example_worker] [] None of
      Inr v \<Rightarrow> rv_valid v | Inl _ \<Rightarrow> False)" by code_simp
  then obtain v where v: "validate_routing_profile (\<lambda>_. []) (\<lambda>_. []) example_routing [example_worker] [] None = Inr v"
    and valid: "rv_valid v" by (auto split: sum.splits)
  have a: "active_workers [example_worker] ''0f8fad5b-d9cb-469f-a165-70867728950e'' = Some example_worker"
    by (simp add: active_workers_def example_worker_def)
  from valid_profile_iff_workers_serve [OF v] valid a v show ?thesis
    by (auto simp: example_routing_def example_binding_def)
qed

section \<open>Resolved routes\<close>

lemma to_profile_id: "to_profile harness to_bool w = Inr p \<Longrightarrow> mp_id p = wd_id w"
  by (auto simp: to_profile_def rbind_eq_Inr validate_profile_Inr)

lemma normalise_archived: "normalise_legacy_settings w = Inr v \<Longrightarrow> wd_archived v = wd_archived w"
  by (auto simp: normalise_legacy_settings_def Let_def with_thinking_mode_def split: if_splits option.splits)

lemma resolve_row_profile:
  assumes "resolve_row harness to_bool parse_fields wid r = Inr (status, profile)"
  shows "(status = ''configured'') = (profile \<noteq> None)"
    and "profile = Some p \<Longrightarrow> mp_id p = wid \<and> \<not> py_truthy (row_archived_at r) \<and>
       (\<exists>w. rbind (parse_fields (row_definition r)) validate_worker = Inr w \<and> \<not> wd_archived w
          \<and> to_profile harness to_bool w = Inr p)"
  using assms
  by (auto simp: resolve_row_def rbind_eq_Inr rbind_eq_Inl to_profile_id split: sum.splits py_error.splits if_splits)

lemma resolve_ids_ok:
  assumes "resolve_ids f wids = Inr (cs, ps)"
    and "\<And>wid status p d. f wid = Inr (status, p, d) \<Longrightarrow> (status = ''configured'') = (p \<noteq> None)"
    and "\<And>wid status p d. f wid = Inr (status, Some p, d) \<Longrightarrow> mp_id p = wid"
  shows "map cw_worker_id cs = wids
     \<and> map mp_id ps = map cw_worker_id (filter (\<lambda>c. cw_status c = ''configured'') cs)
     \<and> (\<forall>p. p \<in> set ps \<longleftrightarrow> (\<exists>wid\<in>set wids. \<exists>d. f wid = Inr (''configured'', Some p, d)))"
  using assms(1)
proof (induction wids arbitrary: cs ps)
  case Nil
  then show ?case by simp
next
  case (Cons wid wids)
  then obtain status prof d cs2 ps2 where h: "f wid = Inr (status, prof, d)"
    and t: "resolve_ids f wids = Inr (cs2, ps2)"
    and c: "cs = \<lparr>cw_worker_id = wid, cw_status = status, cw_requested = execution_identity d\<rparr> # cs2"
    and p: "ps = (case prof of None \<Rightarrow> ps2 | Some x \<Rightarrow> x # ps2)"
    by (auto simp: rbind_eq_Inr)
  from Cons.IH [OF t] assms(2) [OF h] show ?case
    by (cases prof) (use c p h assms(3) [of wid] in \<open>auto 0 4\<close>)
qed

text \<open>When a worker is usable: the last stored row with its identifier holds a document that parses and
  validates as a worker of that identifier, neither the row nor the document is archived, and the
  worker has a profile.\<close>

definition usable_worker ::
  "bool \<Rightarrow> (pyval \<Rightarrow> bool res) \<Rightarrow> (pydict \<Rightarrow> worker_definition res) \<Rightarrow> worker_row list \<Rightarrow> string \<Rightarrow> model_profile \<Rightarrow> bool" where
  "usable_worker harness to_bool parse_fields rows wid p \<longleftrightarrow>
     (\<exists>before row after w. rows = before @ row # after \<and> row_key row = VStr wid \<and> (\<forall>q\<in>set after. row_key q \<noteq> VStr wid)
        \<and> \<not> py_truthy (row_archived_at row)
        \<and> rbind (parse_fields (row_definition row)) validate_worker = Inr w \<and> wd_id w = wid \<and> \<not> wd_archived w
        \<and> to_profile harness to_bool w = Inr p)"

lemma last_row: "map_of (rev (map (\<lambda>r. (g r, r)) rows)) k = Some row \<longleftrightarrow>
    (\<exists>before after. rows = before @ row # after \<and> g row = k \<and> (\<forall>q\<in>set after. g q \<noteq> k))"
proof (induction rows rule: rev_induct)
  case (snoc x rows)
  show ?case
  proof (cases "g x = k")
    case True
    have "(\<exists>before after. rows @ [x] = before @ row # after \<and> g row = k \<and> (\<forall>q\<in>set after. g q \<noteq> k)) \<longleftrightarrow> row = x"
    proof
      assume "\<exists>before after. rows @ [x] = before @ row # after \<and> g row = k \<and> (\<forall>q\<in>set after. g q \<noteq> k)"
      then obtain before after where r: "rows @ [x] = before @ row # after" "\<forall>q\<in>set after. g q \<noteq> k" by blast
      then show "row = x" using True by (cases after rule: rev_cases) auto
    qed (use True in \<open>auto intro: exI [of _ rows] exI [of _ "[]"]\<close>)
    then show ?thesis using True by auto
  next
    case False
    have "(\<exists>before after. rows @ [x] = before @ row # after \<and> g row = k \<and> (\<forall>q\<in>set after. g q \<noteq> k)) \<longleftrightarrow>
        (\<exists>before after. rows = before @ row # after \<and> g row = k \<and> (\<forall>q\<in>set after. g q \<noteq> k))" (is "?l = ?r")
    proof
      assume ?l
      then obtain before after where r: "rows @ [x] = before @ row # after" "g row = k" "\<forall>q\<in>set after. g q \<noteq> k" by blast
      then show ?r using False by (cases after rule: rev_cases) auto
    next
      assume ?r
      then obtain before after where r: "rows = before @ row # after" "g row = k" "\<forall>q\<in>set after. g q \<noteq> k" by blast
      then have "rows @ [x] = before @ row # (after @ [x])" "\<forall>q\<in>set (after @ [x]). g q \<noteq> k" using False by auto
      then show ?l using r(2) by blast
    qed
    then show ?thesis using False snoc.IH by simp
  qed
qed simp

text \<open>The row of a worker resolves to a profile exactly when it is the row of a usable worker.\<close>

lemma resolve_row_iff:
  "(\<exists>s. resolve_row harness to_bool parse_fields wid r = Inr (s, Some p)) \<longleftrightarrow>
     (\<exists>w. \<not> py_truthy (row_archived_at r) \<and> rbind (parse_fields (row_definition r)) validate_worker = Inr w
        \<and> wd_id w = wid \<and> \<not> wd_archived w \<and> to_profile harness to_bool w = Inr p)"
proof -
  define x where "x = rbind (parse_fields (row_definition r)) validate_worker"
  have row: "resolve_row harness to_bool parse_fields wid r = (case rbind x (\<lambda>w. if wd_id w \<noteq> wid
            then Inl (ValueError ''Persisted Worker ID differs from its row identity'')
            else rbind (to_profile harness to_bool w) (\<lambda>p.
              if py_truthy (row_archived_at r) \<or> wd_archived w then Inr (''archived'', None)
              else Inr (''configured'', Some p))) of
        Inr x \<Rightarrow> Inr x | Inl (ValueError _) \<Rightarrow> Inr (''invalid_or_retired'', None) | Inl e \<Rightarrow> Inl e)"
    unfolding resolve_row_def x_def by (cases "parse_fields (row_definition r)") simp_all
  show ?thesis
  proof (cases x)
    case (Inl e)
    then show ?thesis unfolding x_def [symmetric] row by (cases e) simp_all
  next
    case (Inr w)
    show ?thesis
    proof (cases "to_profile harness to_bool w")
      case (Inl e)
      then show ?thesis using Inr unfolding x_def [symmetric] row by (cases e) simp_all
    next
      case (Inr q)
      then show ?thesis using \<open>x = Inr w\<close> unfolding x_def [symmetric] row by auto
    qed
  qed
qed

lemma usable_identifier: "usable_worker harness to_bool parse_fields rows wid p \<Longrightarrow> mp_id p = wid"
  by (auto simp: usable_worker_def to_profile_id)

text \<open>C15: A resolved route reports every configured worker in the configured order, and its candidates
  are exactly the usable workers among them: a profile is a candidate if and only if it is the profile
  of a configured worker whose stored row is unarchived and valid, and the candidates keep the
  configured order, which is the order of the entries the route reports as configured.\<close>

theorem candidates_are_configured_workers:
  assumes "resolve_route harness to_bool parse_fields name wids rows = Inr r"
  shows "map cw_worker_id (rr_configured_workers r) = wids
     \<and> map mp_id (rr_candidates r)
         = map cw_worker_id (filter (\<lambda>c. cw_status c = ''configured'') (rr_configured_workers r))
     \<and> (\<forall>p. p \<in> set (rr_candidates r) \<longleftrightarrow>
          (\<exists>wid\<in>set wids. usable_worker harness to_bool parse_fields rows wid p \<and> mp_id p = wid))"
proof -
  define f where "f = (\<lambda>wid. case map_of (rev (map (\<lambda>r. (row_key r, r)) rows)) (VStr wid) of
           None \<Rightarrow> Inr (''missing'', None, [])
         | Some r \<Rightarrow> rbind (resolve_row harness to_bool parse_fields wid r) (\<lambda>(status, profile).
             Inr (status, profile, row_definition r)))"
  have st: "(status = ''configured'') = (p \<noteq> None)" if "f wid = Inr (status, p, d)" for wid status p d
    using that by (auto simp: f_def rbind_eq_Inr split: option.splits dest: resolve_row_profile(1))
  have ident: "mp_id p = wid" if "f wid = Inr (status, Some p, d)" for wid status p d
    using that by (auto simp: f_def rbind_eq_Inr split: option.splits dest: resolve_row_profile(2))
  have usable: "(\<exists>d. f wid = Inr (''configured'', Some p, d)) \<longleftrightarrow> usable_worker harness to_bool parse_fields rows wid p" for wid p
  proof -
    have "(\<exists>d. f wid = Inr (''configured'', Some p, d)) \<longleftrightarrow> (\<exists>s d. f wid = Inr (s, Some p, d))" using st by blast
    also have "\<dots> \<longleftrightarrow> (\<exists>row s. map_of (rev (map (\<lambda>r. (row_key r, r)) rows)) (VStr wid) = Some row
        \<and> resolve_row harness to_bool parse_fields wid row = Inr (s, Some p))"
      by (cases "map_of (rev (map (\<lambda>r. (row_key r, r)) rows)) (VStr wid)") (auto simp: f_def rbind_eq_Inr)
    also have "\<dots> \<longleftrightarrow> usable_worker harness to_bool parse_fields rows wid p"
      unfolding last_row usable_worker_def using resolve_row_iff by fast
    finally show ?thesis .
  qed
  obtain cs ps where ids: "resolve_ids f wids = Inr (cs, ps)"
    and r: "r = \<lparr>rr_public_name = name, rr_configured_worker_ids = wids, rr_candidates = ps, rr_configured_workers = cs\<rparr>"
    using assms by (auto simp: resolve_route_def f_def rbind_eq_Inr)
  have "map cw_worker_id cs = wids \<and> map mp_id ps = map cw_worker_id (filter (\<lambda>c. cw_status c = ''configured'') cs)
     \<and> (\<forall>p. p \<in> set ps \<longleftrightarrow> (\<exists>wid\<in>set wids. \<exists>d. f wid = Inr (''configured'', Some p, d)))"
    by (rule resolve_ids_ok [OF ids]) (fact st, fact ident)
  then show ?thesis using usable_identifier unfolding usable by (auto simp: r)
qed

definition example_row :: worker_row where
  "example_row = \<lparr>row_id = Some (VStr (wd_id example_worker)), row_definition = worker_dump example_worker,
     row_archived_at = VNone\<rparr>"

theorem candidates_are_configured_workers_witness:
  "\<exists>r. resolve_route False bool_only (\<lambda>_. Inr example_worker) ''chat-1''
       [wd_id example_worker, ''7c9e6679-7425-40de-944b-e07fc1f90ae7''] [example_row] = Inr r
     \<and> map mp_id (rr_candidates r) = [wd_id example_worker]
     \<and> length (rr_configured_workers r) = 2"
proof -
  let ?ids = "[wd_id example_worker, ''7c9e6679-7425-40de-944b-e07fc1f90ae7'']"
  have c: "(case resolve_route False bool_only (\<lambda>_. Inr example_worker) ''chat-1'' ?ids [example_row] of
      Inr r \<Rightarrow> map cw_status (rr_configured_workers r) = [''configured'', ''missing''] | Inl _ \<Rightarrow> False)"
    by code_simp
  then obtain r where r: "resolve_route False bool_only (\<lambda>_. Inr example_worker) ''chat-1'' ?ids [example_row] = Inr r"
    and st: "map cw_status (rr_configured_workers r) = [''configured'', ''missing'']"
    by (auto split: sum.splits)
  then obtain a b where ab: "rr_configured_workers r = [a, b]" "cw_status a = ''configured''" "cw_status b = ''missing''"
    by (auto simp: map_eq_Cons_conv)
  from candidates_are_configured_workers [OF r] r ab show ?thesis by auto
qed

end
