(* ===== verification/Launch.thy ===== *)
theory Launch
  imports Domain_Routing
begin

text \<open>
  Building the command and the environment of a worker process (\<open>supervisor/service.py\<close>, from
  \<open>WorkerLaunch\<close> on), with the frozen benchmark installations (\<open>scenechat_evidence.py\<close>) and the
  locally approved Qwen candidates (\<open>qwen_candidates.py\<close>) it consults. What the operating system
  answers is the record \<open>host\<close>; a path is its text, normalised as \<open>pathlib\<close> does.
\<close>

section \<open>The host\<close>

text \<open>An approved Qwen manifest: the fields \<open>load_candidate\<close> checks.\<close>

record qwen_manifest =
  qm_id :: string
  qm_status :: string
  qm_original_model_id :: string
  qm_original_model_revision :: "string option"
  qm_artefact_model_id :: string
  qm_artefact_revision :: string
  qm_quantisation :: string
  qm_filename :: string
  qm_sha256 :: string
  qm_dtype :: string
  qm_llama_cpp_commit :: string
  qm_context_length :: int
  qm_projector :: bool
  qm_mtp_model :: bool
  qm_mtp_draft_tokens :: "int option"

record host =
  h_environ :: "(string \<times> string) list"
  h_executable :: string
  h_is_file :: "string \<Rightarrow> bool"
  h_expanduser :: "string \<Rightarrow> string"
  h_absolute :: "string \<Rightarrow> string"
  h_resolve :: "string \<Rightarrow> string"
  h_cwd :: string
  h_mkdir :: "string \<Rightarrow> unit res"
  h_json :: "string \<Rightarrow> pyval option res"
  h_digest :: "pyval \<Rightarrow> string"
  h_file_digest :: "string \<Rightarrow> string res"
  h_inventory :: "string \<Rightarrow> string list"
  h_manifest :: "string \<Rightarrow> qwen_manifest res"
  h_repr :: "pyval \<Rightarrow> string"

text \<open>\<open>h_json path\<close>: no such file, the parsed content, or the error of reading it.\<close>

type_synonym environment = "(string \<times> string) list"

record worker_launch =
  wl_command :: "string list"
  wl_environment :: environment

definition env_get :: "environment \<Rightarrow> string \<Rightarrow> string \<Rightarrow> string" where
  "env_get e k d = (case map_of e k of None \<Rightarrow> d | Some v \<Rightarrow> v)"

definition require :: "bool \<Rightarrow> string \<Rightarrow> unit res" where
  "require b m = guard b (ValueError m)"

definition setting :: "model_profile \<Rightarrow> string \<Rightarrow> pyval" where
  "setting p k = dget (mp_settings p) k"

text \<open>\<open>str(profile.settings.get(k, default))\<close>.\<close>

definition setting_text :: "host \<Rightarrow> model_profile \<Rightarrow> string \<Rightarrow> pyval \<Rightarrow> string" where
  "setting_text h p k d = py_str (h_repr h) (dget_or (mp_settings p) k d)"

section \<open>Frozen benchmark installations\<close>

definition experiments_root :: "host \<Rightarrow> string" where
  "experiments_root h = path_join (h_cwd h) ''.modeldeck/scenechat-experiments''"

definition registration_keys :: "string list" where
  "registration_keys = [''version'', ''worker_id'', ''bundle_sha256'', ''image_hashes'', ''diagnostic_timing'']"

definition sha_text :: "pyval \<Rightarrow> bool" where
  "sha_text v = (case v of VStr s \<Rightarrow> digest_pattern s | _ \<Rightarrow> False)"

definition registration :: "host \<Rightarrow> string \<Rightarrow> pydict option res" where
  "registration h worker_id =
     (if \<not> is_uuid worker_id then Inr None
      else rbind (h_json h (path_join (experiments_root h) (''workers/'' @ worker_id @ ''.json''))) (\<lambda>content.
        case content of None \<Rightarrow> Inr None
        | Some (VDict d) \<Rightarrow>
           if set (map fst d) \<noteq> set registration_keys \<or> \<not> eq_int (dget d ''version'') 1
              \<or> \<not> eq_str (dget d ''worker_id'') worker_id
           then Inl (ValueError ''Invalid benchmark Worker registration'')
           else rbind (py_iter (dget d ''image_hashes'')) (\<lambda>images.
             if \<not> list_all sha_text (dget d ''bundle_sha256'' # images)
             then Inl (ValueError ''Invalid benchmark evidence digest'')
             else (case dget d ''diagnostic_timing'' of
                 VBool _ \<Rightarrow> Inr (Some d)
               | _ \<Rightarrow> Inl (ValueError ''Invalid diagnostic timing policy'')))
        | Some (VList _) \<Rightarrow> Inl (ValueError ''Invalid benchmark Worker registration'')
        | Some (VStr _) \<Rightarrow> Inl (ValueError ''Invalid benchmark Worker registration'')
        | Some _ \<Rightarrow> Inl (TypeError ''object is not iterable'')))"

text \<open>The loops over the receipt's files and dependencies.\<close>

fun all_match :: "('a \<Rightarrow> bool res) \<Rightarrow> string \<Rightarrow> 'a list \<Rightarrow> unit res" where
  "all_match f m [] = Inr ()"
| "all_match f m (x # xs) = rbind (f x) (\<lambda>ok. if ok then all_match f m xs else Inl (ValueError m))"

definition verify_bundle :: "host \<Rightarrow> string \<Rightarrow> string \<Rightarrow> string res" where
  "verify_bundle h sha python =
     (let bundle = path_join (experiments_root h) (''bundles/'' @ sha) in
      rbind (h_json h (path_join bundle ''receipt.json'')) (\<lambda>content.
      case content of None \<Rightarrow> Inl (OSError ''No such file or directory'')
      | Some receipt \<Rightarrow>
        if h_digest h receipt \<noteq> sha then Inl (ValueError ''Frozen SceneChat receipt changed'')
        else rbind (py_index receipt ''python'') (\<lambda>recorded.
          rbind (if eq_str recorded (h_absolute h python)
                 then rbind (h_file_digest h python) (\<lambda>d. rbind (py_index receipt ''python_sha256'') (\<lambda>r. Inr (eq_str r d)))
                 else Inr False) (\<lambda>same.
          if \<not> same then Inl (ValueError ''Frozen SceneChat interpreter changed'')
          else rbind (py_index receipt ''files'') (\<lambda>files.
            if set (h_inventory h bundle) \<noteq> set (map fst (as_mapping files))
            then Inl (ValueError ''Frozen SceneChat source inventory changed'')
            else rbind (all_match (\<lambda>(name, expected).
                  let path = h_resolve h (path_join bundle name) in
                  if \<not> is_relative_to path (h_resolve h bundle) then Inr False
                  else rbind (h_file_digest h path) (\<lambda>d. Inr (eq_str expected d)))
                ''Frozen SceneChat implementation changed'' (as_mapping files)) (\<lambda>_.
              rbind (py_index receipt ''dependencies'') (\<lambda>deps.
              rbind (all_match (\<lambda>(name, expected). rbind (h_file_digest h name) (\<lambda>d. Inr (eq_str expected d)))
                ''Frozen SceneChat dependency changed'' (as_mapping deps)) (\<lambda>_. Inr bundle))))))))"

definition scenechat_launch_environment :: "host \<Rightarrow> string \<Rightarrow> string \<Rightarrow> environment \<Rightarrow> environment res" where
  "scenechat_launch_environment h worker_id python env =
     rbind (registration h worker_id) (\<lambda>value.
       case value of None \<Rightarrow> Inr env
       | Some d \<Rightarrow>
          rbind (verify_bundle h (py_str (h_repr h) (dget d ''bundle_sha256'')) python) (\<lambda>bundle.
            Inr (AList.update ''PYTHONDONTWRITEBYTECODE'' ''1'' (AList.update ''PYTHONPATH'' bundle env))))"

section \<open>Approved Qwen candidates\<close>

definition LLAMA_CPP_COMMIT :: string where
  "LLAMA_CPP_COMMIT = ''9d77fa17254e1dee4b9e92504c91611a60b1359f''"

definition lower_hex :: "string \<Rightarrow> bool" where
  "lower_hex s = list_all (\<lambda>c. c \<in> set ''0123456789abcdef'') s"

definition qwen_sizes :: "string list" where
  "qwen_sizes = [''0.8B'', ''2B'', ''4B'', ''9B'']"

definition candidate_id_pattern :: "string \<Rightarrow> bool" where
  "candidate_id_pattern s = list_ex (\<lambda>size. let p = ''qwen35-'' @ casefold size @ ''-q8-'' in
     prefix p s \<and> length s = length p + 12 \<and> lower_hex (drop (length p) s)) qwen_sizes"

text \<open>\<open>QWEN35_REPOSITORY.fullmatch\<close>: the size label in the repository name.\<close>

definition repository_size :: "string \<Rightarrow> string option" where
  "repository_size s = find (\<lambda>size. s = ''bartowski/Qwen_Qwen3.5-'' @ size @ ''-GGUF'') qwen_sizes"

definition candidate_path :: "string \<Rightarrow> string \<Rightarrow> string res" where
  "candidate_path data_dir cid =
     (if candidate_id_pattern cid
      then Inr (path_join data_dir (''trusted-qwen-candidates/'' @ cid @ ''.json''))
      else Inl (ValueError ''Invalid trusted Qwen candidate identifier''))"

definition load_candidate :: "host \<Rightarrow> string \<Rightarrow> string \<Rightarrow> qwen_manifest res" where
  "load_candidate h data_dir cid =
     rbind (candidate_path data_dir cid) (\<lambda>path.
     rbind (h_manifest h path) (\<lambda>m.
       if (case repository_size (qm_artefact_model_id m) of None \<Rightarrow> True
           | Some label \<Rightarrow>
              qm_id m \<noteq> cid \<or> qm_status m \<noteq> ''approved-local''
              \<or> qm_original_model_id m \<noteq> ''Qwen/Qwen3.5-'' @ label
              \<or> qm_original_model_revision m \<noteq> None
              \<or> qm_quantisation m \<noteq> ''Q8_0''
              \<or> qm_filename m \<noteq> ''Qwen_Qwen3.5-'' @ label @ ''-Q8_0.gguf''
              \<or> qm_dtype m \<noteq> ''Q8_0''
              \<or> \<not> suffix (take 12 (qm_sha256 m)) (qm_id m)
              \<or> qm_llama_cpp_commit m \<noteq> LLAMA_CPP_COMMIT
              \<or> qm_context_length m \<noteq> 8192
              \<or> qm_projector m \<or> qm_mtp_model m \<or> qm_mtp_draft_tokens m \<noteq> None)
       then Inl (ValueError ''The local Qwen candidate manifest is not approved'')
       else Inr m))"

section \<open>Launch builders\<close>

type_synonym launch_builder = "host \<Rightarrow> model_profile \<Rightarrow> environment \<Rightarrow> string list \<Rightarrow> worker_launch res"

definition legacy_mock_contract :: "string \<Rightarrow> generation_family \<Rightarrow> string option" where
  "legacy_mock_contract m f =
     (if m = ''modeldeck/mock-scenechat-vision'' then Some ''scene-analysis-v1''
      else (case f of
        TEXT_DIFFUSION \<Rightarrow> Some ''text-diffusion-v1''
      | VISION_LANGUAGE \<Rightarrow> Some ''scene-analysis-v1''
      | SPEECH_CONVERSATION \<Rightarrow> Some ''speech-conversation-v1''
      | SPEECH_SYNTHESIS \<Rightarrow> Some ''speech-synthesis-v1''
      | SPEECH_RECOGNITION \<Rightarrow> Some ''speech-recognition-v1''
      | EMBEDDING \<Rightarrow> Some ''openai-embeddings-v1''
      | _ \<Rightarrow> None))"

definition mock_launch :: launch_builder where
  "mock_launch h p env common =
     (let contract = py_or (setting p ''mock_contract_id'')
            (opt_str (legacy_mock_contract (mp_model_id p) (mp_generation_family p)));
          delay = setting p ''mock_delay_ms'';
          options = [''--scenario'', setting_text h p ''mock_scenario'' (VStr ''success'')]
            @ (if py_truthy contract then [''--contract'', py_str (h_repr h) contract] else [])
            @ (if py_truthy delay then [''--delay-ms'', py_str (h_repr h) delay] else [])
      in Inr \<lparr>wl_command = [h_executable h, ''-m'', ''modeldeck.workers.mock_worker''] @ common
                @ [''--family'', generation_family_value (mp_generation_family p)] @ options,
              wl_environment = env\<rparr>)"

text \<open>\<open>Path(os.environ.get(variable, default)).expanduser()\<close>, refused when it is not a file.\<close>

definition python_of :: "host \<Rightarrow> string \<Rightarrow> string \<Rightarrow> string" where
  "python_of h variable dflt = h_expanduser h (path_str (env_get (h_environ h) variable dflt))"

definition rocm_python :: "host \<Rightarrow> string res" where
  "rocm_python h =
     (let python = python_of h ''MODELDECK_ROCM72_PYTHON'' ''.venv-rocm72/bin/python'' in
      rbind (require (h_is_file h python)
        ''ROCm 7.2 runtime is missing; run pwsh -NoProfile -File scripts/setup.ps1'') (\<lambda>_. Inr python))"

definition cache_root_text :: "host \<Rightarrow> model_profile \<Rightarrow> string" where
  "cache_root_text h p = py_str (h_repr h) (setting p ''cache_root'')"

definition autoregressive_launch :: launch_builder where
  "autoregressive_launch h p env common =
     rbind (rocm_python h) (\<lambda>python.
       let env1 = (if py_truthy (setting p ''cache_root'')
                   then AList.update ''HF_HUB_CACHE'' (cache_root_text h p) env else env);
           command = [h_absolute h python, ''-m'', ''modeldeck.workers.autoregressive_worker''] @ common
             @ [''--dtype'', mp_dtype p,
                ''--context-length'', setting_text h p ''context_length'' (VInt 2048),
                ''--maximum-new-tokens'', setting_text h p ''maximum_new_tokens'' (VInt 128)]
       in Inr \<lparr>wl_command = command
                 @ (if setting p ''prefix_cache_enabled'' = VBool True then [''--prefix-cache-enabled''] else []),
               wl_environment = env1\<rparr>)"

definition embedding_launch :: launch_builder where
  "embedding_launch h p env common =
     rbind (rocm_python h) (\<lambda>python.
     rbind (require (py_truthy (setting p ''cache_root''))
       ''Embeddings Worker requires an allowlisted Hugging Face cache root'') (\<lambda>_.
       Inr \<lparr>wl_command = [h_absolute h python, ''-m'', ''modeldeck.workers.embedding_worker''] @ common
              @ [''--dtype'', mp_dtype p,
                 ''--maximum-input-tokens'', setting_text h p ''maximum_input_tokens'' (VInt 8192)],
            wl_environment = AList.update ''HF_HUB_CACHE'' (cache_root_text h p) env\<rparr>))"

definition transformers_rocm_launch :: launch_builder where
  "transformers_rocm_launch h p env common =
     (if mp_generation_family p = AUTOREGRESSIVE then autoregressive_launch h p env common
      else if mp_generation_family p = EMBEDDING then embedding_launch h p env common
      else Inl (ValueError ''transformers-rocm supports only autoregressive or embedding Workers''))"

definition scenechat_environment :: "host \<Rightarrow> model_profile \<Rightarrow> environment \<Rightarrow> environment" where
  "scenechat_environment h p env =
     AList.update ''MODELDECK_SCENECHAT_API_KEY'' (env_get (h_environ h) ''MODELDECK_SCENECHAT_API_KEY'' ''local'')
       (AList.update ''HF_HUB_CACHE'' (cache_root_text h p) env)"

definition vision_arguments :: "host \<Rightarrow> model_profile \<Rightarrow> string list" where
  "vision_arguments h p =
     [''--cache-root'', cache_root_text h p, ''--dtype'', mp_dtype p,
      ''--context-length'', setting_text h p ''context_length'' (VInt 8192),
      ''--maximum-new-tokens'', setting_text h p ''maximum_new_tokens'' (VInt 512),
      ''--generation-timeout-seconds'', setting_text h p ''generation_timeout_seconds'' (VInt 60),
      ''--visual-token-budget'', setting_text h p ''visual_token_budget'' (VInt 280)]"

definition vision_language_launch :: launch_builder where
  "vision_language_launch h p env common =
     rbind (rocm_python h) (\<lambda>python.
     rbind (if mp_preferred_runtime p = ''vision-language-transformers-rocm''
            then scenechat_launch_environment h (mp_id p) python env else Inr env) (\<lambda>env1.
     rbind (require (py_truthy (setting p ''cache_root''))
       ''SceneChat worker requires an allowlisted Hugging Face cache root'') (\<lambda>_.
       Inr \<lparr>wl_command = [h_absolute h python, ''-m'', ''modeldeck.workers.scenechat_worker''] @ common
              @ vision_arguments h p,
            wl_environment = scenechat_environment h p env1\<rparr>)))"

text \<open>\<open>command[command.index(x)] = y\<close>; the \<open>ValueError\<close> of a missing element.\<close>

fun replace_first :: "string \<Rightarrow> string \<Rightarrow> string list \<Rightarrow> string list res" where
  "replace_first x y [] = Inl (ValueError ''is not in list'')"
| "replace_first x y (z # zs) = (if z = x then Inr (y # zs) else rbind (replace_first x y zs) (\<lambda>r. Inr (z # r)))"

definition policy_for :: "(string \<times> string) list \<Rightarrow> model_profile \<Rightarrow> string option" where
  "policy_for table p = (case mp_runtime_template_id p of None \<Rightarrow> None | Some t \<Rightarrow> map_of table t)"

definition gemma4_general_chat_launch :: launch_builder where
  "gemma4_general_chat_launch h p env common =
     (case policy_for [(''gemma4-general-chat-rocm'', ''disabled''),
                       (''gemma4-general-chat-rocm-adaptive'', ''adaptive'')] p of
        None \<Rightarrow> Inl (ValueError ''Gemma 4 general chat requires an allowlisted thinking policy'')
      | Some mode \<Rightarrow>
        rbind (require (eq_str (setting p ''thinking_mode'') mode)
          (''Gemma 4 general chat requires thinking_mode='' @ mode)) (\<lambda>_.
        rbind (vision_language_launch h p env common) (\<lambda>l.
        rbind (replace_first ''modeldeck.workers.scenechat_worker'' ''modeldeck.workers.gemma4_chat_worker''
                 (wl_command l)) (\<lambda>command.
          Inr (l\<lparr>wl_command := command @ [''--thinking-mode'', mode]\<rparr>)))))"

definition qwen35_vision_language_launch :: launch_builder where
  "qwen35_vision_language_launch h p env common =
     rbind (rocm_python h) (\<lambda>python.
     rbind (scenechat_launch_environment h (mp_id p) python env) (\<lambda>env1.
     rbind (require (py_truthy (setting p ''cache_root''))
       ''Qwen3.5 vision-language worker requires an allowlisted Hugging Face cache root'') (\<lambda>_.
       Inr \<lparr>wl_command = [h_absolute h python, ''-m'', ''modeldeck.workers.qwen35_worker''] @ common
              @ vision_arguments h p,
            wl_environment = scenechat_environment h p env1\<rparr>)))"

definition qwen35_chat_launch :: launch_builder where
  "qwen35_chat_launch h p env common =
     rbind (rocm_python h) (\<lambda>python.
     rbind (require (py_truthy (setting p ''cache_root''))
       ''Qwen3.5 chat worker requires an allowlisted Hugging Face cache root'') (\<lambda>_.
     rbind (require (eq_str (setting p ''thinking_mode'') ''disabled'')
       ''Qwen3.5 chat worker requires thinking_mode=disabled'') (\<lambda>_.
       Inr \<lparr>wl_command = [h_absolute h python, ''-m'', ''modeldeck.workers.qwen35_chat_worker''] @ common
              @ [''--dtype'', mp_dtype p,
                 ''--context-length'', setting_text h p ''context_length'' (VInt 8192),
                 ''--maximum-new-tokens'', setting_text h p ''maximum_new_tokens'' (VInt 512),
                 ''--thinking-mode'', ''disabled''],
            wl_environment = AList.update ''HF_HUB_CACHE'' (cache_root_text h p) env\<rparr>)))"

definition fp8_environment :: "environment \<Rightarrow> environment" where
  "fp8_environment env = AList.update ''TRITON_CACHE_AUTOTUNING'' ''1'' (AList.update ''PYTHONDONTWRITEBYTECODE'' ''1'' env)"

definition data_dir_text :: "environment \<Rightarrow> string" where
  "data_dir_text env = path_str (env_get env ''MODELDECK_DATA_DIR'' ''.modeldeck'')"

definition qwen38_fp8_vision_language_launch :: launch_builder where
  "qwen38_fp8_vision_language_launch h p env common =
     rbind (require (mp_model_id p = ''Qwen/Qwen3.8-27B-FP8'')
       ''The native FP8 runtime is allowlisted only for Qwen/Qwen3.8-27B-FP8'') (\<lambda>_.
     rbind (qwen35_vision_language_launch h p env common) (\<lambda>l.
       Inr \<lparr>wl_command = wl_command l @ [''--execution-mode'', ''native_fp8'',
              ''--data-dir'', data_dir_text (wl_environment l)],
            wl_environment = fp8_environment (wl_environment l)\<rparr>))"

definition qwen38_fp8_chat_launch :: launch_builder where
  "qwen38_fp8_chat_launch h p env common =
     rbind (require (mp_model_id p = ''Qwen/Qwen3.8-27B-FP8'')
       ''The native FP8 runtime is allowlisted only for Qwen/Qwen3.8-27B-FP8'') (\<lambda>_.
     rbind (qwen35_chat_launch h p env common) (\<lambda>l.
     rbind (require (py_truthy (setting p ''cache_root''))
       ''Qwen3.8 native FP8 chat worker requires an allowlisted cache root'') (\<lambda>_.
       Inr \<lparr>wl_command = wl_command l @ [''--execution-mode'', ''native_fp8'',
              ''--cache-root'', cache_root_text h p,
              ''--data-dir'', data_dir_text (wl_environment l)],
            wl_environment = fp8_environment (wl_environment l)\<rparr>)))"

definition llama_vulkan_launch :: launch_builder where
  "llama_vulkan_launch h p env common =
     rbind (require (py_truthy (setting p ''artifact_path''))
       ''GPT-OSS Vulkan worker requires an allowlisted GGUF artefact'') (\<lambda>_.
       Inr \<lparr>wl_command = [h_executable h, ''-m'', ''modeldeck.workers.llama_vulkan_worker''] @ common
              @ [''--artifact-path'', py_str (h_repr h) (setting p ''artifact_path''),
                 ''--context-length'', setting_text h p ''context_length'' (VInt 8192),
                 ''--maximum-new-tokens'', setting_text h p ''maximum_new_tokens'' (VInt 256),
                 ''--execution-preset'', setting_text h p ''execution_preset'' (VStr ''vulkan-full'')],
            wl_environment = env\<rparr>)"

text \<open>\<open>if not given or value not in {...}: raise ValueError(m)\<close>: a value that cannot be hashed raises
  a \<open>TypeError\<close> of its own, unless \<open>given\<close> already fails.\<close>

definition hashable :: "pyval \<Rightarrow> bool" where
  "hashable v = (case v of VList _ \<Rightarrow> False | VDict _ \<Rightarrow> False | _ \<Rightarrow> True)"

definition require_member :: "bool \<Rightarrow> pyval list \<Rightarrow> bool \<Rightarrow> string \<Rightarrow> unit res" where
  "require_member given vs member m =
     (if \<not> given then Inl (ValueError m)
      else if \<not> list_all hashable vs then Inl (TypeError ''unhashable type'')
      else require member m)"

definition setting_in :: "model_profile \<Rightarrow> string \<Rightarrow> string list \<Rightarrow> bool" where
  "setting_in p k xs = list_ex (eq_str (setting p k)) xs"

definition context_is_8192 :: "model_profile \<Rightarrow> string \<Rightarrow> unit res" where
  "context_is_8192 p m = rbind (py_int_of (dget_or (mp_settings p) ''context_length'' (VInt 8192))) (\<lambda>n.
     require (n = 8192) m)"

definition qwen38_llamacpp_launch :: launch_builder where
  "qwen38_llamacpp_launch h p env common =
     rbind (require (mp_model_id p = ''ggml-org/Qwen3.8-27B-GGUF'')
       ''The Qwen3.8 llama.cpp runtime is allowlisted only for its pinned GGUF repository'') (\<lambda>_.
     rbind (require_member (py_truthy (setting p ''artifact_path'')) [setting p ''runtime_profile'']
         (setting_in p ''runtime_profile'' [''qwen38-q8-mtp-vulkan'', ''qwen38-q4-mtp-vulkan''])
       ''Qwen3.8 llama.cpp requires an allowlisted GGUF profile and artefact'') (\<lambda>_.
     rbind (context_is_8192 p ''The reviewed Qwen3.8 llama.cpp candidate is limited to an 8,192-token context'') (\<lambda>_.
     case policy_for [(''qwen38-llamacpp-q8-mtp-vulkan'', ''adaptive''),
                      (''qwen38-llamacpp-q8-mtp-vulkan-no-thinking'', ''disabled'')] p of
       None \<Rightarrow> Inl (ValueError ''Qwen3.8 llama.cpp requires an allowlisted thinking policy'')
     | Some mode \<Rightarrow>
       rbind (require (eq_str (setting p ''thinking_mode'') mode)
         (''Qwen3.8 llama.cpp requires thinking_mode='' @ mode)) (\<lambda>_.
         Inr \<lparr>wl_command = [h_executable h, ''-m'', ''modeldeck.workers.llama_vulkan_worker''] @ common
                @ [''--artifact-path'', py_str (h_repr h) (setting p ''artifact_path''),
                   ''--context-length'', setting_text h p ''context_length'' (VInt 8192),
                   ''--maximum-new-tokens'', setting_text h p ''maximum_new_tokens'' (VInt 512),
                   ''--runtime-profile'', py_str (h_repr h) (setting p ''runtime_profile''),
                   ''--thinking-mode'', mode],
              wl_environment = env\<rparr>))))"

text \<open>The identity check of the Qwen3.5 llama.cpp builder.\<close>

definition qwen35_identity :: "host \<Rightarrow> model_profile \<Rightarrow> environment \<Rightarrow> unit res" where
  "qwen35_identity h p env =
     (let candidate = setting p ''candidate_manifest_id'' in
      if eq_str (setting p ''runtime_profile'') ''qwen35-4b-q8-vulkan''
      then require (mp_model_id p = ''bartowski/Qwen_Qwen3.5-4B-GGUF'' \<and> candidate = VNone)
        ''The reviewed Qwen3.5 profile is pinned to its exact 4B repository''
      else (case candidate of
        VStr cid \<Rightarrow>
          rbind (load_candidate h (data_dir_text env) cid) (\<lambda>m.
            require (qm_artefact_model_id m = mp_model_id p \<and> qm_artefact_revision m = mp_revision p
                \<and> path_name (py_str (h_repr h) (setting p ''artifact_path'')) = qm_filename m)
              ''The Worker does not match its locally approved Qwen3.5 manifest'')
      | _ \<Rightarrow> Inl (ValueError ''The locally approved Qwen3.5 candidate identity is missing'')))"

definition qwen35_llamacpp_launch :: launch_builder where
  "qwen35_llamacpp_launch h p env common =
     rbind (require_member (py_truthy (setting p ''artifact_path'')) [setting p ''runtime_profile'']
         (setting_in p ''runtime_profile'' [''qwen35-4b-q8-vulkan'', ''qwen35-approved-q8-vulkan''])
       ''Qwen3.5 llama.cpp requires its allowlisted Q8 GGUF profile and artefact'') (\<lambda>_.
     rbind (qwen35_identity h p env) (\<lambda>_.
     rbind (context_is_8192 p ''The reviewed Qwen3.5 llama.cpp candidate is limited to an 8,192-token context'') (\<lambda>_.
     case policy_for [(''qwen35-llamacpp-q8-vulkan'', ''disabled''),
                      (''qwen35-llamacpp-q8-vulkan-adaptive'', ''adaptive''),
                      (''qwen35-local-q8-vulkan'', ''disabled''),
                      (''qwen35-local-q8-vulkan-adaptive'', ''adaptive'')] p of
       None \<Rightarrow> Inl (ValueError ''Qwen3.5 llama.cpp requires an allowlisted thinking policy'')
     | Some mode \<Rightarrow>
       rbind (require (eq_str (setting p ''thinking_mode'') mode)
         (''Qwen3.5 llama.cpp requires thinking_mode='' @ mode)) (\<lambda>_.
         Inr \<lparr>wl_command = [h_executable h, ''-m'', ''modeldeck.workers.llama_vulkan_worker''] @ common
                @ [''--artifact-path'', py_str (h_repr h) (setting p ''artifact_path''),
                   ''--context-length'', ''8192'',
                   ''--maximum-new-tokens'', setting_text h p ''maximum_new_tokens'' (VInt 256),
                   ''--runtime-profile'', py_str (h_repr h) (setting p ''runtime_profile''),
                   ''--thinking-mode'', mode]
                @ (if setting p ''candidate_manifest_id'' = VNone then []
                   else [''--candidate-manifest-id'', py_str (h_repr h) (setting p ''candidate_manifest_id''),
                         ''--data-dir'', env_get env ''MODELDECK_DATA_DIR'' ''.modeldeck'']),
              wl_environment = env\<rparr>))))"

definition moshiko_launch :: launch_builder where
  "moshiko_launch h p env common =
     (let python = python_of h ''MODELDECK_MOSHIKO_PYTHON'' ''.venv-moshi-rocm72/bin/python'' in
      rbind (require (h_is_file h python)
        ''Moshiko ROCm runtime is missing; run pwsh -NoProfile -File scripts/setup_moshiko_rocm72.ps1'') (\<lambda>_.
      rbind (require (py_truthy (setting p ''cache_root''))
        ''Moshiko worker requires an allowlisted Hugging Face cache root'') (\<lambda>_.
        Inr \<lparr>wl_command = [h_absolute h python, ''-m'', ''modeldeck.workers.moshiko_worker''] @ common
               @ [''--alias'', mp_alias p, ''--cache-root'', cache_root_text h p],
             wl_environment = AList.update ''HF_HUB_CACHE'' (cache_root_text h p) env\<rparr>)))"

definition translation_launch :: launch_builder where
  "translation_launch h p env common =
     (let python = python_of h ''MODELDECK_MARIAN_PYTHON'' ''.venv-marian-cpu/bin/python'' in
      rbind (require (h_is_file h python)
        ''Marian CPU runtime is missing; run pwsh -NoProfile -File scripts/setup_marian_cpu.ps1'') (\<lambda>_.
      rbind (require_member (py_truthy (setting p ''cache_root''))
          [setting p ''source_language'', setting p ''target_language'']
          (eq_str (setting p ''source_language'') ''en'' \<and> setting_in p ''target_language'' [''fr'', ''de''])
        ''Translation Worker requires an allowlisted cache root and language direction'') (\<lambda>_.
        Inr \<lparr>wl_command = [h_absolute h python, ''-m'', ''modeldeck.workers.translation_worker''] @ common
               @ [''--alias'', mp_alias p, ''--cache-root'', cache_root_text h p,
                  ''--source-language'', py_str (h_repr h) (setting p ''source_language''),
                  ''--target-language'', py_str (h_repr h) (setting p ''target_language''),
                  ''--maximum-input-characters'', setting_text h p ''maximum_input_characters'' (VInt 4000),
                  ''--maximum-input-tokens'', setting_text h p ''maximum_input_tokens'' (VInt 512),
                  ''--maximum-new-tokens'', setting_text h p ''maximum_new_tokens'' (VInt 512),
                  ''--generation-timeout-seconds'', setting_text h p ''generation_timeout_seconds'' (VInt 60)],
             wl_environment = AList.update ''HF_HUB_CACHE'' (cache_root_text h p) env\<rparr>)))"

definition QWEN_TTS_MAXIMUM_CODEC_TOKENS :: int where
  "QWEN_TTS_MAXIMUM_CODEC_TOKENS = 256"

definition QWEN_TTS_GENERATION_TIMEOUT_SECONDS :: int where
  "QWEN_TTS_GENERATION_TIMEOUT_SECONDS = 75"

definition qwen_tts_launch :: launch_builder where
  "qwen_tts_launch h p env common =
     (let python = python_of h ''MODELDECK_QWEN_TTS_PYTHON'' ''.venv-qwen3-tts-rocm72/bin/python'' in
      rbind (require (h_is_file h python)
        ''Qwen3-TTS ROCm runtime is missing; run pwsh -NoProfile -File scripts/setup_qwen3_tts_rocm72.ps1'') (\<lambda>_.
      rbind (require (py_truthy (setting p ''cache_root''))
        ''Qwen3-TTS Worker requires an allowlisted Hugging Face cache root'') (\<lambda>_.
        Inr \<lparr>wl_command = [h_absolute h python, ''-m'', ''modeldeck.workers.tts_worker''] @ common
               @ [''--alias'', mp_alias p, ''--cache-root'', cache_root_text h p,
                  ''--maximum-input-characters'', setting_text h p ''maximum_input_characters'' (VInt 2000),
                  ''--maximum-codec-tokens'',
                    setting_text h p ''maximum_codec_tokens'' (VInt QWEN_TTS_MAXIMUM_CODEC_TOKENS),
                  ''--maximum-audio-seconds'', setting_text h p ''maximum_audio_seconds'' (VInt 90),
                  ''--generation-timeout-seconds'',
                    setting_text h p ''generation_timeout_seconds'' (VInt QWEN_TTS_GENERATION_TIMEOUT_SECONDS)],
             wl_environment = AList.delete ''TORCH_ROCM_AOTRITON_ENABLE_EXPERIMENTAL''
               (AList.delete ''HSA_OVERRIDE_GFX_VERSION'' (AList.update ''HF_HUB_CACHE'' (cache_root_text h p) env))\<rparr>)))"

definition speech_recognition_launch :: launch_builder where
  "speech_recognition_launch h p env common =
     (let python = python_of h ''MODELDECK_WHISPER_PYTHON'' ''.venv-whisper-rocm72/bin/python'' in
      rbind (require (h_is_file h python)
        ''Whisper ROCm runtime is missing; run pwsh -NoProfile -File scripts/setup_whisper_rocm72.ps1'') (\<lambda>_.
      rbind (require (py_truthy (setting p ''cache_root''))
        ''Whisper Worker requires an allowlisted Hugging Face cache root'') (\<lambda>_.
        Inr \<lparr>wl_command = [h_absolute h python, ''-m'', ''modeldeck.workers.speech_recognition_worker''] @ common
               @ [''--alias'', mp_alias p, ''--cache-root'', cache_root_text h p,
                  ''--recognition-timeout-seconds'', setting_text h p ''recognition_timeout_seconds'' (VInt 30)],
             wl_environment = AList.delete ''HSA_OVERRIDE_GFX_VERSION''
               (AList.update ''HF_HUB_CACHE'' (cache_root_text h p) env)\<rparr>)))"

definition diffusion_python :: "host \<Rightarrow> bool \<Rightarrow> string" where
  "diffusion_python h is_q4 =
     (if is_q4
      then (let configured = env_get (h_environ h) ''MODELDECK_ROCM72_Q4_PYTHON'' [];
                dflt = ''.venv-rocm72-q4/bin/python'' in
        if configured \<noteq> [] then h_expanduser h (path_str configured)
        else if h_is_file h dflt then dflt
        else python_of h ''MODELDECK_ROCM72_PYTHON'' dflt)
      else python_of h ''MODELDECK_ROCM72_PYTHON'' ''.venv-rocm72/bin/python'')"

definition text_diffusion_launch :: launch_builder where
  "text_diffusion_launch h p env0 common =
     (let is_q4 = (mp_preferred_runtime p = ''text-diffusion-gptq-rocm'');
          python = diffusion_python h is_q4;
          cache = py_truthy (setting p ''cache_root'');
          env1 = AList.delete ''LD_PRELOAD'' env0;
          env2 = (if cache then AList.update ''HF_HUB_CACHE'' (cache_root_text h p) env1
                  else if is_q4 then AList.delete ''HF_HUB_CACHE'' env1 else env1);
          hsa = ''/usr/lib64/libhsa-runtime64.so.1'' in
      rbind (require (h_is_file h python)
        (if is_q4 then ''Q4 ROCm runtime is missing; create .venv-rocm72-q4 and install requirements-rocm72-q4-gptqmodel.txt''
         else ''ROCm 7.2 runtime is missing; run pwsh -NoProfile -File scripts/setup.ps1'')) (\<lambda>_.
      rbind (if py_truthy (setting p ''hsa_preload_evidence'')
             then rbind (require (h_is_file h hsa) ''Evidence-gated HSA runtime preload library is missing'') (\<lambda>_.
               Inr (AList.update ''LD_PRELOAD'' hsa env2))
             else Inr env2) (\<lambda>env3.
      rbind (if is_q4 then rbind (py_index (VDict (mp_settings p)) ''q4_checkpoint_dir'') (\<lambda>d.
               Inr ((if cache then [''--cache-root'', cache_root_text h p] else [])
                    @ [''--q4-checkpoint-dir'', py_str (h_repr h) d]))
             else Inr []) (\<lambda>q4_arguments.
        Inr \<lparr>wl_command = [h_absolute h python, ''-m'', ''modeldeck.workers.text_diffusion_worker''] @ common
               @ [''--dtype'', mp_dtype p,
                  ''--maximum-new-tokens'', setting_text h p ''maximum_new_tokens'' (VInt 256),
                  ''--maximum-denoising-steps'', setting_text h p ''maximum_denoising_steps'' (VInt 48)]
               @ q4_arguments,
             wl_environment = env3\<rparr>))))"

definition TRUSTED_LAUNCH_BUILDERS :: "bool \<Rightarrow> (string \<times> launch_builder) list" where
  "TRUSTED_LAUNCH_BUILDERS harness =
    [(''transformers-rocm'', transformers_rocm_launch),
     (''vision-language-transformers-rocm'', vision_language_launch),
     (''gemma4-general-chat-transformers-rocm'', gemma4_general_chat_launch),
     (''qwen35-vision-language-transformers-rocm'', qwen35_vision_language_launch),
     (''qwen35-chat-transformers-rocm'', qwen35_chat_launch),
     (''qwen38-fp8-vision-language-transformers-rocm'', qwen38_fp8_vision_language_launch),
     (''qwen38-fp8-chat-transformers-rocm'', qwen38_fp8_chat_launch),
     (''text-diffusion-transformers-rocm'', text_diffusion_launch),
     (''text-diffusion-gptq-rocm'', text_diffusion_launch),
     (''llama-vulkan'', llama_vulkan_launch),
     (''qwen35-llamacpp-vulkan'', qwen35_llamacpp_launch),
     (''qwen38-llamacpp-vulkan'', qwen38_llamacpp_launch),
     (''moshiko-rocm'', moshiko_launch),
     (''marian-transformers-cpu'', translation_launch),
     (''qwen3-tts-rocm'', qwen_tts_launch),
     (''whisper-small-en-rocm'', speech_recognition_launch)]
    @ (if ''mock'' \<in> set (TRUSTED_RUNTIME_IDS harness) then [(''mock'', mock_launch)] else [])"

section \<open>The launch\<close>

definition INHERITED_KEYS :: "string list" where
  "INHERITED_KEYS = [''PATH'', ''LANG'', ''LC_ALL'', ''LC_CTYPE'', ''TZ'', ''SSL_CERT_FILE'', ''SSL_CERT_DIR'']"

definition base_environment :: "host \<Rightarrow> string \<Rightarrow> environment" where
  "base_environment h data_dir =
     (let miopen = path_join data_dir ''runtime/miopen'' in
      AList.update ''MIOPEN_CUSTOM_CACHE_DIR'' (path_join miopen ''kernel-cache'')
      (AList.update ''MIOPEN_USER_DB_PATH'' (path_join miopen ''user-db'')
      (AList.update ''MODELDECK_DATA_DIR'' data_dir
      (fold (\<lambda>(k, v). AList.update k v)
        [(''PYTHONUNBUFFERED'', ''1''), (''HF_HUB_OFFLINE'', ''1''), (''TRANSFORMERS_OFFLINE'', ''1'')]
        (filter (\<lambda>(k, v). k \<in> set INHERITED_KEYS) (h_environ h))))))"

definition common_arguments :: "model_profile \<Rightarrow> string list" where
  "common_arguments p =
     [''--worker-id'', mp_id p, ''--model-id'', mp_model_id p, ''--revision'', mp_revision p,
      ''--port'', show_int (mp_port p)]"

definition build_worker_launch :: "bool \<Rightarrow> host \<Rightarrow> string option \<Rightarrow> model_profile \<Rightarrow> worker_launch res" where
  "build_worker_launch harness h data_dir p =
     (let dir = path_str (case data_dir of Some d \<Rightarrow> d
            | None \<Rightarrow> env_get (h_environ h) ''MODELDECK_DATA_DIR'' ''.modeldeck'');
          miopen = path_join dir ''runtime/miopen'' in
      rbind (h_mkdir h (path_join miopen ''user-db'')) (\<lambda>_.
      rbind (h_mkdir h (path_join miopen ''kernel-cache'')) (\<lambda>_.
      case map_of (TRUSTED_LAUNCH_BUILDERS harness) (mp_preferred_runtime p) of
        None \<Rightarrow> Inl (ValueError (''Runtime launch is not implemented: '' @ mp_preferred_runtime p))
      | Some builder \<Rightarrow> builder h p (base_environment h dir) (common_arguments p))))"

definition build_mock_worker_command :: "bool \<Rightarrow> host \<Rightarrow> model_profile \<Rightarrow> string list res" where
  "build_mock_worker_command harness h p =
     rbind (require (mp_preferred_runtime p = ''mock'') ''Profile is not a mock runtime'') (\<lambda>_.
     rbind (build_worker_launch harness h None p) (\<lambda>l. Inr (wl_command l)))"

end
