(* ===== verification/Launch_Safety.thy ===== *)
theory Launch_Safety
  imports Launch
begin

text \<open>
  The worker process as a security boundary: every launch runs a code-owned module with the
  profile's identity first, sees only an allowlisted environment, stays offline, and runs pinned
  models only under the runtime and the policy they are pinned to.
\<close>

section \<open>Library lemmas\<close>

definition WORKER_MODULES :: "string list" where
  "WORKER_MODULES =
    [''modeldeck.workers.mock_worker'', ''modeldeck.workers.autoregressive_worker'',
     ''modeldeck.workers.embedding_worker'', ''modeldeck.workers.scenechat_worker'',
     ''modeldeck.workers.gemma4_chat_worker'', ''modeldeck.workers.qwen35_worker'',
     ''modeldeck.workers.qwen35_chat_worker'', ''modeldeck.workers.llama_vulkan_worker'',
     ''modeldeck.workers.moshiko_worker'', ''modeldeck.workers.translation_worker'',
     ''modeldeck.workers.tts_worker'', ''modeldeck.workers.speech_recognition_worker'',
     ''modeldeck.workers.text_diffusion_worker'']"

definition ADDED_KEYS :: "string list" where
  "ADDED_KEYS =
    [''PYTHONUNBUFFERED'', ''HF_HUB_OFFLINE'', ''TRANSFORMERS_OFFLINE'', ''MODELDECK_DATA_DIR'',
     ''MIOPEN_USER_DB_PATH'', ''MIOPEN_CUSTOM_CACHE_DIR'', ''HF_HUB_CACHE'',
     ''MODELDECK_SCENECHAT_API_KEY'', ''PYTHONPATH'', ''PYTHONDONTWRITEBYTECODE'',
     ''TRITON_CACHE_AUTOTUNING'', ''LD_PRELOAD'']"

definition HSA_RUNTIME :: string where
  "HSA_RUNTIME = ''/usr/lib64/libhsa-runtime64.so.1''"

text \<open>How a builder may change the environment it is given.\<close>

definition environment_step :: "environment \<Rightarrow> environment \<Rightarrow> bool" where
  "environment_step e e' =
     (fst ` set e' \<subseteq> fst ` set e \<union> set ADDED_KEYS
      \<and> map_of e' ''HF_HUB_OFFLINE'' = map_of e ''HF_HUB_OFFLINE''
      \<and> map_of e' ''TRANSFORMERS_OFFLINE'' = map_of e ''TRANSFORMERS_OFFLINE''
      \<and> map_of e' ''LD_PRELOAD'' \<in> {map_of e ''LD_PRELOAD'', None, Some HSA_RUNTIME})"

lemma environment_step_refl [simp]: "environment_step e e"
  by (simp add: environment_step_def)

lemma environment_step_update:
  "k \<in> set ADDED_KEYS \<Longrightarrow> k \<notin> {''HF_HUB_OFFLINE'', ''TRANSFORMERS_OFFLINE'', ''LD_PRELOAD''} \<Longrightarrow>
     environment_step e e' \<Longrightarrow> environment_step e (AList.update k v e')"
  by (auto simp: environment_step_def fst_set_update)

lemma environment_step_preload:
  "environment_step e e' \<Longrightarrow> environment_step e (AList.update ''LD_PRELOAD'' HSA_RUNTIME e')"
  by (auto simp: environment_step_def fst_set_update ADDED_KEYS_def)

lemma environment_step_delete:
  "k \<notin> {''HF_HUB_OFFLINE'', ''TRANSFORMERS_OFFLINE''} \<Longrightarrow>
     environment_step e e' \<Longrightarrow> environment_step e (AList.delete k e')"
  by (cases "k = ''LD_PRELOAD''") (auto simp: environment_step_def fst_set_delete delete_conv')

lemma added_keys [simp]:
  "''HF_HUB_CACHE'' \<in> set ADDED_KEYS" "''MODELDECK_SCENECHAT_API_KEY'' \<in> set ADDED_KEYS"
  "''PYTHONPATH'' \<in> set ADDED_KEYS" "''PYTHONDONTWRITEBYTECODE'' \<in> set ADDED_KEYS"
  "''TRITON_CACHE_AUTOTUNING'' \<in> set ADDED_KEYS"
  by (simp_all add: ADDED_KEYS_def)

text \<open>The code-owned module runs first, then the worker's identity, then the builder's options.\<close>

definition command_shape :: "string list \<Rightarrow> string list \<Rightarrow> bool" where
  "command_shape common command = (\<exists>interpreter module options.
     command = [interpreter, ''-m'', module] @ common @ options \<and> module \<in> set WORKER_MODULES)"

lemma command_shapeI [intro!]:
  "m \<in> set WORKER_MODULES \<Longrightarrow> command_shape common (i # ''-m'' # m # common @ options)"
  "m \<in> set WORKER_MODULES \<Longrightarrow> command_shape common (i # ''-m'' # m # common)"
  unfolding command_shape_def by force+

lemma command_shape_append: "command_shape common c \<Longrightarrow> command_shape common (c @ rest)"
  by (auto simp: command_shape_def)

lemma worker_modules [simp]:
  "''modeldeck.workers.mock_worker'' \<in> set WORKER_MODULES" "''modeldeck.workers.autoregressive_worker'' \<in> set WORKER_MODULES"
  "''modeldeck.workers.embedding_worker'' \<in> set WORKER_MODULES" "''modeldeck.workers.scenechat_worker'' \<in> set WORKER_MODULES"
  "''modeldeck.workers.gemma4_chat_worker'' \<in> set WORKER_MODULES" "''modeldeck.workers.qwen35_worker'' \<in> set WORKER_MODULES"
  "''modeldeck.workers.qwen35_chat_worker'' \<in> set WORKER_MODULES" "''modeldeck.workers.llama_vulkan_worker'' \<in> set WORKER_MODULES"
  "''modeldeck.workers.moshiko_worker'' \<in> set WORKER_MODULES" "''modeldeck.workers.translation_worker'' \<in> set WORKER_MODULES"
  "''modeldeck.workers.tts_worker'' \<in> set WORKER_MODULES" "''modeldeck.workers.speech_recognition_worker'' \<in> set WORKER_MODULES"
  "''modeldeck.workers.text_diffusion_worker'' \<in> set WORKER_MODULES"
  by (simp_all add: WORKER_MODULES_def)

definition launch_ok :: "environment \<Rightarrow> string list \<Rightarrow> worker_launch \<Rightarrow> bool" where
  "launch_ok env common l = (environment_step env (wl_environment l) \<and> command_shape common (wl_command l))"

lemma require_Inr [simp]: "require b m = Inr u \<longleftrightarrow> b"
  by (simp add: require_def)

lemma require_member_Inr [simp]: "require_member given vs member m = Inr u \<longleftrightarrow> given \<and> list_all hashable vs \<and> member"
  by (simp add: require_member_def)

named_theorems builder_ok \<open>each launch builder keeps the boundary\<close>

lemma scenechat_environment_step:
  assumes "scenechat_launch_environment h i python env = Inr env'"
  shows "environment_step env env'"
  using assms
  by (auto simp: scenechat_launch_environment_def rbind_eq_Inr split: option.splits intro!: environment_step_update)

lemma mock_ok [builder_ok]: "mock_launch h p env common = Inr l \<Longrightarrow> launch_ok env common l"
  by (auto simp: mock_launch_def Let_def launch_ok_def)

lemma transformers_ok [builder_ok]: "transformers_rocm_launch h p env common = Inr l \<Longrightarrow> launch_ok env common l"
  by (auto simp: transformers_rocm_launch_def autoregressive_launch_def embedding_launch_def Let_def
      launch_ok_def rbind_eq_Inr split: if_splits intro!: environment_step_update)

lemma vision_command:
  assumes "vision_language_launch h p env common = Inr l"
  shows "environment_step env (wl_environment l)
     \<and> (\<exists>python. wl_command l = [python, ''-m'', ''modeldeck.workers.scenechat_worker''] @ common @ vision_arguments h p)"
  using assms
  by (auto simp: vision_language_launch_def rbind_eq_Inr scenechat_environment_def split: if_splits
      intro!: environment_step_update dest: scenechat_environment_step)

lemma vision_ok [builder_ok]: "vision_language_launch h p env common = Inr l \<Longrightarrow> launch_ok env common l"
  by (auto simp: launch_ok_def dest!: vision_command)

lemma gemma_ok [builder_ok]: "gemma4_general_chat_launch h p env common = Inr l \<Longrightarrow> launch_ok env common l"
  by (auto simp: gemma4_general_chat_launch_def rbind_eq_Inr launch_ok_def split: option.splits if_splits
      dest!: vision_command)

lemma qwen35_vision_ok [builder_ok]: "qwen35_vision_language_launch h p env common = Inr l \<Longrightarrow> launch_ok env common l"
  by (auto simp: qwen35_vision_language_launch_def rbind_eq_Inr launch_ok_def scenechat_environment_def
      intro!: environment_step_update dest: scenechat_environment_step)

lemma qwen35_chat_ok [builder_ok]: "qwen35_chat_launch h p env common = Inr l \<Longrightarrow> launch_ok env common l"
  by (auto simp: qwen35_chat_launch_def rbind_eq_Inr launch_ok_def intro!: environment_step_update)

lemma fp8_ok: "launch_ok env common l \<Longrightarrow>
     launch_ok env common \<lparr>wl_command = wl_command l @ rest, wl_environment = fp8_environment (wl_environment l)\<rparr>"
  by (auto simp: launch_ok_def fp8_environment_def intro!: environment_step_update command_shape_append)

lemma fp8_vision_ok [builder_ok]: "qwen38_fp8_vision_language_launch h p env common = Inr l \<Longrightarrow> launch_ok env common l"
  by (auto simp: qwen38_fp8_vision_language_launch_def rbind_eq_Inr dest!: qwen35_vision_ok intro: fp8_ok)

lemma fp8_chat_ok [builder_ok]: "qwen38_fp8_chat_launch h p env common = Inr l \<Longrightarrow> launch_ok env common l"
  by (auto simp: qwen38_fp8_chat_launch_def rbind_eq_Inr dest!: qwen35_chat_ok intro: fp8_ok)

lemma llama_ok [builder_ok]: "llama_vulkan_launch h p env common = Inr l \<Longrightarrow> launch_ok env common l"
  by (auto simp: llama_vulkan_launch_def rbind_eq_Inr launch_ok_def)

lemma qwen38_llama_ok [builder_ok]: "qwen38_llamacpp_launch h p env common = Inr l \<Longrightarrow> launch_ok env common l"
  by (auto simp: qwen38_llamacpp_launch_def rbind_eq_Inr launch_ok_def split: option.splits)

lemma qwen35_llama_ok [builder_ok]: "qwen35_llamacpp_launch h p env common = Inr l \<Longrightarrow> launch_ok env common l"
  by (auto simp: qwen35_llamacpp_launch_def rbind_eq_Inr launch_ok_def split: option.splits)

lemma moshiko_ok [builder_ok]: "moshiko_launch h p env common = Inr l \<Longrightarrow> launch_ok env common l"
  by (auto simp: moshiko_launch_def Let_def rbind_eq_Inr launch_ok_def intro!: environment_step_update)

lemma translation_ok [builder_ok]: "translation_launch h p env common = Inr l \<Longrightarrow> launch_ok env common l"
  by (auto simp: translation_launch_def Let_def rbind_eq_Inr launch_ok_def intro!: environment_step_update)

lemma tts_ok [builder_ok]: "qwen_tts_launch h p env common = Inr l \<Longrightarrow> launch_ok env common l"
  by (auto simp: qwen_tts_launch_def Let_def rbind_eq_Inr launch_ok_def
      intro!: environment_step_update environment_step_delete)

lemma speech_ok [builder_ok]: "speech_recognition_launch h p env common = Inr l \<Longrightarrow> launch_ok env common l"
  by (auto simp: speech_recognition_launch_def Let_def rbind_eq_Inr launch_ok_def
      intro!: environment_step_update environment_step_delete)

lemma diffusion_ok [builder_ok]: "text_diffusion_launch h p env common = Inr l \<Longrightarrow> launch_ok env common l"
  by (auto simp: text_diffusion_launch_def Let_def rbind_eq_Inr launch_ok_def HSA_RUNTIME_def [symmetric]
      split: if_splits intro!: environment_step_update environment_step_delete environment_step_preload)

lemma trusted_builder_ok:
  assumes "map_of (TRUSTED_LAUNCH_BUILDERS harness) r = Some b" and "b h p env common = Inr l"
  shows "launch_ok env common l"
proof -
  have "b \<in> snd ` set (TRUSTED_LAUNCH_BUILDERS harness)"
    using assms(1) by (force dest: map_of_SomeD)
  then have "b \<in> {transformers_rocm_launch, vision_language_launch, gemma4_general_chat_launch,
     qwen35_vision_language_launch, qwen35_chat_launch, qwen38_fp8_vision_language_launch, qwen38_fp8_chat_launch,
     text_diffusion_launch, llama_vulkan_launch, qwen35_llamacpp_launch, qwen38_llamacpp_launch, moshiko_launch,
     translation_launch, qwen_tts_launch, speech_recognition_launch, mock_launch}"
    by (auto simp: TRUSTED_LAUNCH_BUILDERS_def split: if_splits)
  then show ?thesis
    using assms(2) by (elim insertE emptyE) (simp_all add: builder_ok)
qed

lemma base_environment_keys:
  "fst ` set (base_environment h d) \<subseteq> set INHERITED_KEYS \<union> set ADDED_KEYS"
  by (auto simp: base_environment_def Let_def fst_set_update ADDED_KEYS_def)

lemma base_environment_values:
  "map_of (base_environment h d) ''HF_HUB_OFFLINE'' = Some ''1''"
  "map_of (base_environment h d) ''TRANSFORMERS_OFFLINE'' = Some ''1''"
  "map_of (base_environment h d) ''LD_PRELOAD'' = None"
proof -
  have "map_of (filter (\<lambda>(k, v). k \<in> set INHERITED_KEYS) e) ''LD_PRELOAD'' = None" for e :: environment
    by (auto simp: map_of_eq_None_iff INHERITED_KEYS_def)
  then show "map_of (base_environment h d) ''LD_PRELOAD'' = None"
    by (simp add: base_environment_def Let_def)
qed (simp_all add: base_environment_def Let_def)

lemma build_launch_ok:
  assumes "build_worker_launch harness h data_dir p = Inr l"
  shows "\<exists>d. launch_ok (base_environment h d) (common_arguments p) l
     \<and> mp_preferred_runtime p \<in> fst ` set (TRUSTED_LAUNCH_BUILDERS harness)"
  using assms
  by (force simp: build_worker_launch_def Let_def rbind_eq_Inr split: option.splits dest: trusted_builder_ok map_of_SomeD)

section \<open>Properties\<close>

text \<open>C4: The environment of a worker is an allowlist: whatever the environment of the management
  process and the profile contain, a launched worker sees only the seven inherited process
  variables and the variables the launcher sets, always with both offline switches on, and
  LD_PRELOAD is either absent or the one system library the evidence-gated setting names.\<close>

theorem worker_environment_is_allowlisted:
  assumes "build_worker_launch harness h data_dir p = Inr l"
  shows "fst ` set (wl_environment l) \<subseteq> set INHERITED_KEYS \<union> set ADDED_KEYS
     \<and> map_of (wl_environment l) ''HF_HUB_OFFLINE'' = Some ''1''
     \<and> map_of (wl_environment l) ''TRANSFORMERS_OFFLINE'' = Some ''1''
     \<and> map_of (wl_environment l) ''LD_PRELOAD'' \<in> {None, Some HSA_RUNTIME}"
  using build_launch_ok [OF assms] base_environment_keys
  by (fastforce simp: launch_ok_def environment_step_def base_environment_values)

definition example_host :: host where
  "example_host = \<lparr>h_environ = [(''PATH'', ''/usr/bin''), (''LD_PRELOAD'', ''/tmp/evil.so''), (''HF_TOKEN'', ''x'')],
     h_executable = ''/usr/bin/python3'', h_is_file = (\<lambda>_. True), h_expanduser = (\<lambda>p. p),
     h_absolute = (\<lambda>p. ''/srv/'' @ p), h_resolve = (\<lambda>p. p), h_cwd = ''/srv'', h_mkdir = (\<lambda>_. Inr ()),
     h_json = (\<lambda>_. Inr None), h_digest = (\<lambda>_. []), h_file_digest = (\<lambda>_. Inr []), h_inventory = (\<lambda>_. []),
     h_manifest = (\<lambda>_. Inl (OSError ''missing'')), h_repr = (\<lambda>_. [])\<rparr>"

lemma example_launch: "is_ok (build_worker_launch False example_host None example_profile)"
  by (simp add: build_worker_launch_def Let_def TRUSTED_LAUNCH_BUILDERS_def example_host_def example_profile_def
      transformers_rocm_launch_def autoregressive_launch_def rocm_python_def require_def)

theorem worker_environment_is_allowlisted_witness:
  "\<exists>l. build_worker_launch False example_host None example_profile = Inr l
     \<and> map_of (wl_environment l) ''HF_HUB_OFFLINE'' = Some ''1''
     \<and> map_of (wl_environment l) ''LD_PRELOAD'' \<noteq> Some ''/tmp/evil.so''"
proof -
  from example_launch obtain l where l: "build_worker_launch False example_host None example_profile = Inr l"
    by (auto simp: is_ok_iff)
  have "HSA_RUNTIME \<noteq> ''/tmp/evil.so''" by (simp add: HSA_RUNTIME_def)
  with worker_environment_is_allowlisted [OF l] l show ?thesis by auto
qed

text \<open>C28: A worker process always runs a code-owned module: the command of a launch is an
  interpreter, -m, one of the thirteen worker modules, then exactly the identity of the profile
  (worker id, model id, revision, port), and only then options; the runtime of the profile is a
  trusted one.\<close>

theorem worker_runs_code_owned_module:
  assumes "build_worker_launch harness h data_dir p = Inr l"
  shows "\<exists>interpreter module options. wl_command l = [interpreter, ''-m'', module]
       @ [''--worker-id'', mp_id p, ''--model-id'', mp_model_id p, ''--revision'', mp_revision p,
          ''--port'', show_int (mp_port p)] @ options
     \<and> module \<in> set WORKER_MODULES
     \<and> mp_preferred_runtime p \<in> fst ` set (TRUSTED_LAUNCH_BUILDERS harness)"
  using build_launch_ok [OF assms] unfolding launch_ok_def command_shape_def common_arguments_def by blast

theorem worker_runs_code_owned_module_witness:
  "\<exists>l module. build_worker_launch False example_host None example_profile = Inr l
     \<and> wl_command l ! 2 = module \<and> module \<in> set WORKER_MODULES \<and> wl_command l ! 4 = mp_id example_profile"
proof -
  from example_launch obtain l where l: "build_worker_launch False example_host None example_profile = Inr l"
    by (auto simp: is_ok_iff)
  from worker_runs_code_owned_module [OF l] obtain i m os where
    "wl_command l = [i, ''-m'', m] @ [''--worker-id'', mp_id example_profile, ''--model-id'', mp_model_id example_profile,
        ''--revision'', mp_revision example_profile, ''--port'', show_int (mp_port example_profile)] @ os"
    "m \<in> set WORKER_MODULES" by blast
  with l show ?thesis by (intro exI [of _ l] exI [of _ m]) simp
qed

text \<open>The allowlist of profiles and the launcher agree: a runtime has a launch builder exactly
  when profiles may name it, in the test harness and outside it; the mock worker can only ever be
  launched by the harness.\<close>

theorem launchable_runtimes_are_the_trusted_ones:
  "map fst (TRUSTED_LAUNCH_BUILDERS False) = [''transformers-rocm'', ''vision-language-transformers-rocm'',
      ''gemma4-general-chat-transformers-rocm'', ''qwen35-vision-language-transformers-rocm'',
      ''qwen35-chat-transformers-rocm'', ''qwen38-fp8-vision-language-transformers-rocm'',
      ''qwen38-fp8-chat-transformers-rocm'', ''text-diffusion-transformers-rocm'', ''text-diffusion-gptq-rocm'',
      ''llama-vulkan'', ''qwen35-llamacpp-vulkan'', ''qwen38-llamacpp-vulkan'', ''moshiko-rocm'',
      ''marian-transformers-cpu'', ''qwen3-tts-rocm'', ''whisper-small-en-rocm'']
   \<and> fst ` set (TRUSTED_LAUNCH_BUILDERS harness) = set (TRUSTED_RUNTIME_IDS harness)
   \<and> (''mock'' \<in> fst ` set (TRUSTED_LAUNCH_BUILDERS harness)) = harness"
proof -
  have ids: "map fst (TRUSTED_LAUNCH_BUILDERS False) = map ti_id TRUSTED_RUNTIME_IMPLEMENTATIONS"
    by (simp add: TRUSTED_LAUNCH_BUILDERS_def mock_is_test_only TRUSTED_RUNTIME_IMPLEMENTATIONS_def implementation_defs)
  have split: "TRUSTED_LAUNCH_BUILDERS harness =
      TRUSTED_LAUNCH_BUILDERS False @ (if harness then [(''mock'', mock_launch)] else [])"
    by (simp add: TRUSTED_LAUNCH_BUILDERS_def mock_is_test_only)
  have keys: "fst ` set (TRUSTED_LAUNCH_BUILDERS harness) = set (TRUSTED_RUNTIME_IDS harness)"
    unfolding split TRUSTED_RUNTIME_IDS_def TEST_ONLY_RUNTIME_IDS_def
    using arg_cong [OF ids, of set] by auto
  then show ?thesis
    by (auto simp: mock_is_test_only TRUSTED_LAUNCH_BUILDERS_def)
qed

text \<open>C29: Pinned runtimes launch only what they are pinned to: the native FP8 runtimes only the one
  FP8 checkpoint, the Qwen3.8 llama.cpp runtime only its repository with an 8192-token context and
  the thinking mode of its template, and the Qwen3.5 llama.cpp runtime either the reviewed 4B
  repository or exactly the artefact, revision and file of an approved candidate manifest.\<close>

theorem pinned_runtimes_launch_pinned_models:
  assumes "build_worker_launch harness h data_dir p = Inr l"
  shows "(mp_preferred_runtime p \<in> {''qwen38-fp8-vision-language-transformers-rocm'', ''qwen38-fp8-chat-transformers-rocm''}
       \<longrightarrow> mp_model_id p = ''Qwen/Qwen3.8-27B-FP8'')
     \<and> (mp_preferred_runtime p = ''qwen38-llamacpp-vulkan''
       \<longrightarrow> mp_model_id p = ''ggml-org/Qwen3.8-27B-GGUF''
           \<and> py_int_of (dget_or (mp_settings p) ''context_length'' (VInt 8192)) = Inr 8192
           \<and> (mp_runtime_template_id p = Some ''qwen38-llamacpp-q8-mtp-vulkan-no-thinking''
                \<longrightarrow> setting p ''thinking_mode'' = VStr ''disabled''))
     \<and> (mp_preferred_runtime p = ''qwen35-llamacpp-vulkan''
       \<longrightarrow> mp_model_id p = ''bartowski/Qwen_Qwen3.5-4B-GGUF''
           \<or> (\<exists>d cid m. setting p ''candidate_manifest_id'' = VStr cid \<and> load_candidate h d cid = Inr m
                \<and> qm_artefact_model_id m = mp_model_id p \<and> qm_artefact_revision m = mp_revision p
                \<and> qm_filename m = path_name (py_str (h_repr h) (setting p ''artifact_path''))))"
proof -
  obtain b env where b: "map_of (TRUSTED_LAUNCH_BUILDERS harness) (mp_preferred_runtime p) = Some b"
    and l: "b h p env (common_arguments p) = Inr l"
    using assms by (auto simp: build_worker_launch_def Let_def rbind_eq_Inr split: option.splits)
  have "mp_model_id p = ''Qwen/Qwen3.8-27B-FP8''"
    if "mp_preferred_runtime p \<in> {''qwen38-fp8-vision-language-transformers-rocm'', ''qwen38-fp8-chat-transformers-rocm''}"
    using that b l
    by (auto simp: TRUSTED_LAUNCH_BUILDERS_def qwen38_fp8_vision_language_launch_def qwen38_fp8_chat_launch_def rbind_eq_Inr)
  moreover have "mp_model_id p = ''ggml-org/Qwen3.8-27B-GGUF''
           \<and> py_int_of (dget_or (mp_settings p) ''context_length'' (VInt 8192)) = Inr 8192
           \<and> (mp_runtime_template_id p = Some ''qwen38-llamacpp-q8-mtp-vulkan-no-thinking''
                \<longrightarrow> setting p ''thinking_mode'' = VStr ''disabled'')"
    if "mp_preferred_runtime p = ''qwen38-llamacpp-vulkan''"
    using that b l
    by (auto simp: TRUSTED_LAUNCH_BUILDERS_def qwen38_llamacpp_launch_def rbind_eq_Inr context_is_8192_def
        policy_for_def eq_str_def split: option.splits)
  moreover have "mp_model_id p = ''bartowski/Qwen_Qwen3.5-4B-GGUF''
           \<or> (\<exists>d cid m. setting p ''candidate_manifest_id'' = VStr cid \<and> load_candidate h d cid = Inr m
                \<and> qm_artefact_model_id m = mp_model_id p \<and> qm_artefact_revision m = mp_revision p
                \<and> qm_filename m = path_name (py_str (h_repr h) (setting p ''artifact_path'')))"
    if "mp_preferred_runtime p = ''qwen35-llamacpp-vulkan''"
  proof -
    have "qwen35_identity h p env = Inr ()"
      using that b l by (auto simp: TRUSTED_LAUNCH_BUILDERS_def qwen35_llamacpp_launch_def rbind_eq_Inr)
    then show ?thesis
      by (fastforce simp: qwen35_identity_def Let_def rbind_eq_Inr split: if_splits pyval.splits)
  qed
  ultimately show ?thesis by blast
qed

definition fp8_profile :: model_profile where
  "fp8_profile = example_profile\<lparr>mp_model_id := ''Qwen/Qwen3.8-27B-FP8'',
     mp_preferred_runtime := ''qwen38-fp8-chat-transformers-rocm'',
     mp_settings := [(''cache_root'', VStr ''/c''), (''thinking_mode'', VStr ''disabled'')]\<rparr>"

theorem pinned_runtimes_launch_pinned_models_witness:
  "\<exists>l. build_worker_launch False example_host None fp8_profile = Inr l
     \<and> mp_model_id fp8_profile = ''Qwen/Qwen3.8-27B-FP8''"
proof -
  have "is_ok (build_worker_launch False example_host None fp8_profile)"
    by (simp add: build_worker_launch_def Let_def TRUSTED_LAUNCH_BUILDERS_def example_host_def example_profile_def
      fp8_profile_def qwen38_fp8_chat_launch_def qwen35_chat_launch_def rocm_python_def require_def setting_def
      dget_def eq_str_def)
  then obtain l where l: "build_worker_launch False example_host None fp8_profile = Inr l"
    by (auto simp: is_ok_iff)
  have "mp_preferred_runtime fp8_profile = ''qwen38-fp8-chat-transformers-rocm''" by (simp add: fp8_profile_def)
  with pinned_runtimes_launch_pinned_models [OF l] l show ?thesis by simp
qed

end
