(* ===== verification/Logs.thy ===== *)
theory Logs
  imports Protocol
begin

text \<open>
  The worker logs of the supervisor (\<open>supervisor/service.py\<close>): the level of a line, its
  redaction, the bounded record of each worker and the file that persists it. Parsing and printing
  JSON (\<open>loads\<close>, \<open>dumps\<close>) are parameters. Redaction recurses into JSON texts found inside
  JSON strings; its nesting is bounded by the first argument, and running out is the
  \<open>RecursionError\<close> the source catches.
\<close>

section \<open>Levels\<close>

definition error_markers :: "string list" where
  "error_markers = [''error'', ''exception'', ''traceback'', ''critical'', ''out of memory'', ''oom'']"

definition classify_log_level :: "string \<Rightarrow> string" where
  "classify_log_level message =
     (let lowered = casefold message in
      if str_in ([CHR 0x7B, CHR 0x7B] @ ''- raise_exception('') lowered then ''info''
      else if list_ex (\<lambda>m. str_in m lowered) error_markers then ''error''
      else if str_in ''warning'' lowered \<or> prefix ''warn'' (lstrip lowered) \<or> str_in ''skipping import'' lowered
      then ''warning''
      else ''info'')"

section \<open>Token values\<close>

text \<open>The character classes of \<open>_TOKEN_VALUE\<close>, for code points up to 255.\<close>

definition word_char :: "char \<Rightarrow> bool" where
  "word_char c = (let n = (of_char c :: nat) in
     is_digit c \<or> is_digit c \<or> 65 \<le> n \<and> n \<le> 90 \<or> 97 \<le> n \<and> n \<le> 122 \<or> n = 95
     \<or> n \<in> {170, 178, 179, 181, 185, 186, 188, 189, 190} \<or> 192 \<le> n \<and> n \<noteq> 215 \<and> n \<noteq> 247)"

definition token_char :: "char \<Rightarrow> bool" where
  "token_char c = (word_char c \<or> c = CHR ''-'')"

definition base64_char :: "char \<Rightarrow> bool" where
  "base64_char c = (let n = (of_char c :: nat) in
     is_digit c \<or> 65 \<le> n \<and> n \<le> 90 \<or> 97 \<le> n \<and> n \<le> 122
     \<or> c \<in> {CHR ''_'', CHR ''+'', CHR 0x2F, CHR ''='', CHR ''-''})"

definition run_length :: "(char \<Rightarrow> bool) \<Rightarrow> string \<Rightarrow> nat" where
  "run_length P s = length (takeWhile P s)"

text \<open>A word boundary between the character before (if any) and the rest of the text.\<close>

definition boundary :: "char option \<Rightarrow> string \<Rightarrow> bool" where
  "boundary prev s =
     ((case prev of None \<Rightarrow> False | Some c \<Rightarrow> word_char c) \<noteq> (case s of [] \<Rightarrow> False | c # _ \<Rightarrow> word_char c))"

definition last_opt :: "char option \<Rightarrow> string \<Rightarrow> char option" where
  "last_opt prev s = (if s = [] then prev else Some (last s))"

text \<open>The three alternatives: the length of the match at this position, if there is one.\<close>

definition match_bearer :: "string \<Rightarrow> nat option" where
  "match_bearer s =
     (if casefold (take 6 s) \<noteq> ''bearer'' then None
      else (let spaces = run_length is_space (drop 6 s);
                value = run_length (\<lambda>c. \<not> is_space c \<and> c \<noteq> CHR '','' \<and> c \<noteq> CHR '';'') (drop (6 + spaces) s) in
        if spaces = 0 \<or> value = 0 then None else Some (6 + spaces + value)))"

definition match_prefixed :: "string \<Rightarrow> string \<Rightarrow> nat option" where
  "match_prefixed p s =
     (if casefold (take 3 s) \<noteq> p then None
      else (let n = run_length token_char (drop 3 s) in if n = 0 then None else Some (3 + n)))"

definition match_jwt :: "string \<Rightarrow> nat option" where
  "match_jwt s =
     (if casefold (take 3 s) \<noteq> ''eyj'' then None
      else (let a = run_length token_char (drop 3 s); s1 = drop (3 + a) s;
                b = run_length token_char (tl s1); s2 = drop b (tl s1);
                c = run_length token_char (tl s2) in
        if a \<noteq> 0 \<and> prefix ''.'' s1 \<and> b \<noteq> 0 \<and> prefix ''.'' s2 \<and> c \<noteq> 0
        then Some (3 + a + 1 + b + 1 + c) else None))"

text \<open>At least 48 characters, the longest run that ends at a word boundary.\<close>

definition match_blob :: "string \<Rightarrow> nat option" where
  "match_blob s =
     (let n = run_length base64_char s in
      find (\<lambda>k. boundary (last_opt None (take k s)) (drop k s)) (rev [48..<Suc n]))"

definition match_token :: "char option \<Rightarrow> string \<Rightarrow> nat option" where
  "match_token prev s =
     (case match_bearer s of Some n \<Rightarrow> Some n
      | None \<Rightarrow>
        if \<not> boundary prev s then None
        else (case match_prefixed ''sk-'' s of Some n \<Rightarrow> Some n
          | None \<Rightarrow> (case match_prefixed ''hf_'' s of Some n \<Rightarrow> Some n
            | None \<Rightarrow> (case match_jwt s of Some n \<Rightarrow> Some n
              | None \<Rightarrow> match_blob s))))"

definition REDACTED :: string where
  "REDACTED = ''[redacted]''"

text \<open>\<open>_TOKEN_VALUE.sub("[redacted]", s)\<close>: left to right, matches do not overlap. The first
  argument is the number of characters left of the current match, the second the one before.\<close>

fun sub_tokens_from :: "nat \<Rightarrow> char option \<Rightarrow> string \<Rightarrow> string" where
  "sub_tokens_from skip prev [] = []"
| "sub_tokens_from (Suc n) prev (c # s) = sub_tokens_from n (Some c) s"
| "sub_tokens_from 0 prev (c # s) =
     (case match_token prev (c # s) of
        Some n \<Rightarrow> REDACTED @ sub_tokens_from (n - 1) (Some c) s
      | None \<Rightarrow> c # sub_tokens_from 0 (Some c) s)"

definition sub_tokens :: "string \<Rightarrow> string" where
  "sub_tokens s = sub_tokens_from 0 None s"

section \<open>Redaction\<close>

definition SENSITIVE_LOG_KEYS :: "string list" where
  "SENSITIVE_LOG_KEYS = [''authorization'', ''api_key'', ''apikey'', ''token'', ''access_token'', ''bearer'',
     ''prompt'', ''messages'', ''content'', ''output'', ''generated_text'', ''image_url'', ''headers'']"

definition MAX_REDACTION_DEPTH :: nat where "MAX_REDACTION_DEPTH = 8"
definition MAX_REDACTION_ITEMS :: nat where "MAX_REDACTION_ITEMS = 100"

definition sensitive_key :: "string \<Rightarrow> bool" where
  "sensitive_key key =
     (let k = map (\<lambda>c. if c = CHR ''-'' then CHR ''_'' else c) (casefold key) in
      k \<in> set SENSITIVE_LOG_KEYS
      \<or> list_ex (\<lambda>m. str_in m k) [''token'', ''secret'', ''password'', ''credential'', ''prompt'', ''output''])"

text \<open>Redaction of a parsed value; \<open>red\<close> redacts a text, \<open>key\<close> is the key it was found under.\<close>

function redact_log_value :: "(string \<Rightarrow> string) \<Rightarrow> string option \<Rightarrow> nat \<Rightarrow> pyval \<Rightarrow> pyval" where
  "redact_log_value red key depth v =
     (if (case key of None \<Rightarrow> False | Some k \<Rightarrow> sensitive_key k) then VStr REDACTED
      else (case v of
        VStr s \<Rightarrow>
          (let l = casefold s in
           if str_in ''bearer '' l \<or> str_in ''api_key='' l \<or> str_in ''hf_'' l then VStr REDACTED
           else VStr (take 4096 (red s)))
      | VDict d \<Rightarrow>
          if MAX_REDACTION_DEPTH \<le> depth then VStr ''[truncated]''
          else VDict (fold (\<lambda>(k, x). AList.update k x)
                 (map (\<lambda>(k, x). (take 256 (sub_tokens k), redact_log_value red (Some k) (Suc depth) x))
                   (take MAX_REDACTION_ITEMS d)) [])
      | VList xs \<Rightarrow>
          if MAX_REDACTION_DEPTH \<le> depth then VStr ''[truncated]''
          else VList (map (redact_log_value red None (Suc depth)) (take MAX_REDACTION_ITEMS xs))
      | _ \<Rightarrow> if MAX_REDACTION_DEPTH \<le> depth then VStr ''[truncated]'' else v))"
  by pat_completeness auto
termination
  by (relation "measure (\<lambda>(red, key, depth, v). MAX_REDACTION_DEPTH - depth)") auto

declare redact_log_value.simps [simp del]

definition redaction_markers :: "string list" where
  "redaction_markers = [''authorization:'', ''hf_token='', ''api_key='', ''prompt='', ''generated_text='',
     ''image_url='', ''output='', ''output_text='', ''password='', ''secret='', '';base64,'']"

text \<open>The loop over the markers: the first marker of the list that occurs, and where.\<close>

fun first_marker :: "string list \<Rightarrow> string \<Rightarrow> (nat \<times> string) option" where
  "first_marker [] s = None"
| "first_marker (m # ms) s = (case str_find m s of Some i \<Rightarrow> Some (i, m) | None \<Rightarrow> first_marker ms s)"

fun redact_log :: "nat \<Rightarrow> (string \<Rightarrow> pyval option) \<Rightarrow> (pyval \<Rightarrow> string) \<Rightarrow> string \<Rightarrow> string" where
  "redact_log fuel loads dumps message =
     (if 8192 < length message then ''[redacted: oversized diagnostic]''
      else if prefix [CHR 0x7B] (lstrip message) \<or> prefix ''['' (lstrip message)
      then (case fuel of 0 \<Rightarrow> ''[redacted: malformed structured diagnostic]''
        | Suc n \<Rightarrow> (case loads message of
            None \<Rightarrow> ''[redacted: malformed structured diagnostic]''
          | Some v \<Rightarrow> (let result = dumps (redact_log_value (redact_log n loads dumps) None 0 v) in
              if length result \<le> 8192 then result else ''[redacted: oversized diagnostic]'')))
      else (case first_marker redaction_markers (casefold message) of
          Some (i, m) \<Rightarrow> take i message @ m @ REDACTED
        | None \<Rightarrow> sub_tokens message))"

declare redact_log.simps [simp del]

section \<open>The log of a worker\<close>

definition MAX_LOG_RECORDS :: nat where "MAX_LOG_RECORDS = 500"

text \<open>The in-memory ring and the lines of the file (\<open>None\<close>: no file). \<open>lc_persist\<close>: a log
  directory is configured; \<open>lc_started\<close>: the log service has been started.\<close>

record worker_log =
  wlg_ring :: "pydict list"
  wlg_file :: "string list option"

record log_context =
  lc_persist :: bool
  lc_started :: bool
  lc_redact :: "string \<Rightarrow> string"
  lc_dumps :: "pyval \<Rightarrow> string"

definition log_record :: "log_context \<Rightarrow> string \<Rightarrow> string option \<Rightarrow> string \<Rightarrow> string \<Rightarrow> pydict" where
  "log_record c timestamp session source message =
     [(''timestamp'', VStr timestamp), (''source'', VStr source),
      (''level'', VStr (classify_log_level message)), (''message'', VStr (lc_redact c message))]
     @ (case session of None \<Rightarrow> [] | Some s \<Rightarrow> [(''session_id'', VStr s)])"

definition log_lines :: "log_context \<Rightarrow> pydict list \<Rightarrow> string list" where
  "log_lines c ring = map (\<lambda>r. lc_dumps c (VDict r)) ring"

definition append_log ::
  "log_context \<Rightarrow> string \<Rightarrow> string option \<Rightarrow> string \<Rightarrow> string \<Rightarrow> worker_log \<Rightarrow> worker_log \<times> unit res" where
  "append_log c timestamp session source message w =
     (let rec = log_record c timestamp session source message;
          was_full = (length (wlg_ring w) = MAX_LOG_RECORDS);
          ring = deque_push MAX_LOG_RECORDS rec (wlg_ring w);
          w1 = w\<lparr>wlg_ring := ring\<rparr> in
      if \<not> lc_persist c then (w1, Inr ())
      else if \<not> lc_started c
      then (w1, Inl (RuntimeError ''Start the Worker log service before writing persisted logs''))
      else if was_full then (w1\<lparr>wlg_file := Some (log_lines c ring)\<rparr>, Inr ())
      else (w1\<lparr>wlg_file := Some ((case wlg_file w of None \<Rightarrow> [] | Some ls \<Rightarrow> ls) @ [lc_dumps c (VDict rec)])\<rparr>, Inr ()))"

text \<open>\<open>_capture\<close>: one line of a worker's output.\<close>

definition capture_line ::
  "log_context \<Rightarrow> string \<Rightarrow> string option \<Rightarrow> string \<Rightarrow> string \<Rightarrow> worker_log \<Rightarrow> worker_log \<times> unit res" where
  "capture_line c timestamp session source line w =
     (let message = lc_redact c (rev (dropWhile is_space (rev line))) in
      if message = [] then (w, Inr ()) else append_log c timestamp session source message w)"

definition persisted_record :: "log_context \<Rightarrow> (pyval \<Rightarrow> string) \<Rightarrow> pyval \<Rightarrow> pydict option" where
  "persisted_record c rp v = (case v of
     VDict d \<Rightarrow>
       if dhas d ''timestamp'' \<and> dhas d ''source'' \<and> dhas d ''message''
       then Some (map (\<lambda>(k, x). (k, VStr (lc_redact c (py_str rp x))))
              (filter (\<lambda>(k, _). k \<in> {''timestamp'', ''source'', ''message'', ''level'', ''session_id''}) d))
       else None
   | _ \<Rightarrow> None)"

definition load_persisted_log ::
  "log_context \<Rightarrow> (pyval \<Rightarrow> string) \<Rightarrow> (string \<Rightarrow> pyval option) \<Rightarrow> worker_log \<Rightarrow> worker_log" where
  "load_persisted_log c rp loads w =
     (case wlg_file w of None \<Rightarrow> w
      | Some lines \<Rightarrow>
         let records = List.map_filter (\<lambda>line. case loads line of None \<Rightarrow> None | Some v \<Rightarrow> persisted_record c rp v) lines;
             ring = fold (deque_push MAX_LOG_RECORDS) records (wlg_ring w)
         in \<lparr>wlg_ring = ring, wlg_file = Some (log_lines c ring)\<rparr>)"

definition session_logs :: "string option \<Rightarrow> worker_log \<Rightarrow> pydict list" where
  "session_logs session w = (case session of None \<Rightarrow> wlg_ring w
     | Some s \<Rightarrow> filter (\<lambda>r. eq_str (dget r ''session_id'') s) (wlg_ring w))"

end
