(* ===== verification/Log_Redaction.thy ===== *)
theory Log_Redaction
  imports Logs
begin

text \<open>
  What the worker logs guarantee: structured diagnostics do not depend on the values under
  sensitive keys, the nesting bound of the redaction is never what stops it, and the persisted log
  is the bounded in-memory record. And what they do not: in a plain line only one marker is cut.
\<close>

section \<open>Structured diagnostics\<close>

text \<open>Two parsed values that differ only under sensitive keys.\<close>

inductive same_public :: "pyval \<Rightarrow> pyval \<Rightarrow> bool" where
  refl: "same_public v v"
| lists: "length xs = length ys \<Longrightarrow> (\<And>i. i < length xs \<Longrightarrow> same_public (xs ! i) (ys ! i))
    \<Longrightarrow> same_public (VList xs) (VList ys)"
| dicts: "map fst d = map fst e
    \<Longrightarrow> (\<And>i. i < length d \<Longrightarrow> sensitive_key (fst (d ! i)) \<or> same_public (snd (d ! i)) (snd (e ! i)))
    \<Longrightarrow> same_public (VDict d) (VDict e)"

lemma redact_sensitive: "sensitive_key k \<Longrightarrow> redact_log_value red (Some k) depth v = VStr REDACTED"
  by (subst redact_log_value.simps) simp

lemma redact_same_public:
  "same_public v w \<Longrightarrow> redact_log_value red key depth v = redact_log_value red key depth w"
proof (induction arbitrary: key depth rule: same_public.induct)
  case (refl v)
  show ?case ..
next
  case (lists xs ys)
  have "map (redact_log_value red None (Suc depth)) (take n xs) = map (redact_log_value red None (Suc depth)) (take n ys)" for n
    using lists by (intro nth_equalityI) auto
  then show ?case by (subst (1 2) redact_log_value.simps) simp
next
  case (dicts d e)
  have len: "length d = length e" using dicts.hyps(1) by (metis length_map)
  have keys: "fst (d ! i) = fst (e ! i)" if "i < length d" for i
    using arg_cong [OF dicts.hyps(1), of "\<lambda>xs. xs ! i"] that len by simp
  let ?f = "\<lambda>(k, x). (take 256 (sub_tokens k), redact_log_value red (Some k) (Suc depth) x)"
  have "?f (d ! i) = ?f (e ! i)" if "i < length d" for i
  proof (cases "sensitive_key (fst (d ! i))")
    case True
    with keys [OF that] show ?thesis by (simp add: case_prod_beta redact_sensitive)
  next
    case False
    with dicts.IH [OF that] keys [OF that] show ?thesis by (simp add: case_prod_beta)
  qed
  then have "map ?f (take n d) = map ?f (take n e)" for n
    using len by (intro nth_equalityI) auto
  then show ?case by (subst (1 2) redact_log_value.simps) simp
qed

definition structured :: "string \<Rightarrow> bool" where
  "structured m = (prefix [CHR 0x7B] (lstrip m) \<or> prefix ''['' (lstrip m))"

text \<open>C27: A structured diagnostic of at most 8192 characters reveals nothing stored under a sensitive
  key: two JSON lines, both of at most 8192 characters, whose contents differ only under such keys (at
  any depth) are logged as the same text. (A longer line is replaced as a whole, so its length shows.)\<close>

theorem structured_redaction_noninterference:
  assumes "structured m" and "structured m'" and "length m \<le> 8192" and "length m' \<le> 8192"
    and "loads m = Some v" and "loads m' = Some v'" and "same_public v v'"
  shows "redact_log fuel loads dumps m = redact_log fuel loads dumps m'"
  using assms(1-6) redact_same_public [OF assms(7)]
  by (simp add: redact_log.simps [of fuel loads dumps m] redact_log.simps [of fuel loads dumps m'] structured_def
      split: nat.split)

definition parse_example :: "string \<Rightarrow> pyval option" where
  "parse_example m = Some (VDict [(''user'', VStr ''ann''), (''Api-Token'', VStr m)])"

theorem structured_redaction_noninterference_witness:
  "redact_log 1 parse_example (\<lambda>_. ''x'') ([CHR 0x7B] @ ''1'') = redact_log 1 parse_example (\<lambda>_. ''x'') ([CHR 0x7B] @ ''2'')"
proof -
  have s: "sensitive_key ''Api-Token''" by code_simp
  have st: "structured ([CHR 0x7B] @ ''1'')" "structured ([CHR 0x7B] @ ''2'')" by code_simp+
  have "same_public (VDict [(''user'', VStr ''ann''), (''Api-Token'', VStr ([CHR 0x7B] @ ''1''))])
     (VDict [(''user'', VStr ''ann''), (''Api-Token'', VStr ([CHR 0x7B] @ ''2''))])"
    using s by (intro same_public.dicts) (auto simp: less_Suc_eq intro: same_public.refl)
  then show ?thesis
    by (intro structured_redaction_noninterference [OF st]) (auto simp: parse_example_def)
qed

section \<open>The nesting bound\<close>

fun val_strings :: "pyval \<Rightarrow> string list" where
  "val_strings (VStr s) = [s]"
| "val_strings (VList xs) = concat (map val_strings xs)"
| "val_strings (VDict d) = concat (map (\<lambda>(k, x). val_strings x) d)"
| "val_strings _ = []"

lemma redact_log_value_cong:
  "(\<And>s. s \<in> set (val_strings v) \<Longrightarrow> red s = red' s) \<Longrightarrow>
     redact_log_value red key depth v = redact_log_value red' key depth v"
proof (induction red key depth v rule: redact_log_value.induct)
  case (1 red key depth v)
  show ?case
  proof (cases "case key of None \<Rightarrow> False | Some k \<Rightarrow> sensitive_key k")
    case True
    then show ?thesis by (subst (1 2) redact_log_value.simps) simp
  next
    case False
    show ?thesis
    proof (cases v)
      case (VDict d)
      have maps: "map (\<lambda>(k, x). (take 256 (sub_tokens k), redact_log_value red (Some k) (Suc depth) x)) (take MAX_REDACTION_ITEMS d)
          = map (\<lambda>(k, x). (take 256 (sub_tokens k), redact_log_value red' (Some k) (Suc depth) x)) (take MAX_REDACTION_ITEMS d)"
        if "\<not> MAX_REDACTION_DEPTH \<le> depth"
      proof (rule map_cong [OF HOL.refl])
        fix kx assume kx: "kx \<in> set (take MAX_REDACTION_ITEMS d)"
        obtain k x where e: "kx = (k, x)" by (cases kx)
        have "redact_log_value red (Some k) (Suc depth) x = redact_log_value red' (Some k) (Suc depth) x"
          using kx e VDict by (intro 1(2) [OF False VDict that kx e [symmetric]] 1(3)) (force dest!: in_set_takeD)
        then show "(case kx of (k, x) \<Rightarrow> (take 256 (sub_tokens k), redact_log_value red (Some k) (Suc depth) x))
            = (case kx of (k, x) \<Rightarrow> (take 256 (sub_tokens k), redact_log_value red' (Some k) (Suc depth) x))"
          by (simp add: e)
      qed
      show ?thesis
      proof (cases "MAX_REDACTION_DEPTH \<le> depth")
        case True
        then show ?thesis using False VDict by (subst (1 2) redact_log_value.simps) simp
      next
        case nd: False
        show ?thesis using False nd
          by (subst (1 2) redact_log_value.simps) (simp only: maps [OF nd] VDict pyval.case if_False)
      qed
    next
      case (VList xs)
      have "map (redact_log_value red None (Suc depth)) (take MAX_REDACTION_ITEMS xs)
          = map (redact_log_value red' None (Suc depth)) (take MAX_REDACTION_ITEMS xs)"
        if "\<not> MAX_REDACTION_DEPTH \<le> depth"
        using VList by (intro map_cong [OF HOL.refl] 1(1) [OF False VList that] 1(3)) (auto dest!: in_set_takeD)
      then show ?thesis using False VList by (subst (1 2) redact_log_value.simps) simp
    next
      case (VStr s)
      then show ?thesis using 1(3) [of s] False by (subst (1 2) redact_log_value.simps) (simp cong: if_cong)
    qed (subst (1 2) redact_log_value.simps; simp)+
  qed
qed

text \<open>C39: The redaction always ends on its own: given a JSON parser whose strings are shorter than
  the text they come from, a nesting bound of the length of the message is never exhausted, so
  every larger bound gives the same text.\<close>

theorem redaction_nesting_suffices:
  assumes "\<forall>t v s. loads t = Some v \<longrightarrow> s \<in> set (val_strings v) \<longrightarrow> length s < length t"
    and "length message \<le> n"
  shows "redact_log (n + k) loads dumps message = redact_log n loads dumps message"
  using assms(2)
proof (induction n arbitrary: message)
  case 0
  then show ?case by (simp add: redact_log.simps [of k] redact_log.simps [of 0] lstrip_def)
next
  case (Suc n)
  show ?case
  proof (cases "loads message")
    case None
    then show ?thesis by (simp add: redact_log.simps [of "Suc (n + k)"] redact_log.simps [of "Suc n"])
  next
    case (Some v)
    have "redact_log_value (redact_log (n + k) loads dumps) None 0 v = redact_log_value (redact_log n loads dumps) None 0 v"
      using assms(1) Some Suc.prems by (intro redact_log_value_cong Suc.IH) fastforce
    with Some show ?thesis
      by (simp add: redact_log.simps [of "Suc (n + k)"] redact_log.simps [of "Suc n"])
  qed
qed

definition parse_string_body :: "string \<Rightarrow> pyval option" where
  "parse_string_body t = (case t of c # s \<Rightarrow> Some (VList [VStr s]) | [] \<Rightarrow> None)"

theorem redaction_nesting_suffices_witness:
  "redact_log (5 + 100) parse_string_body (\<lambda>v. ''ok'') ''[[[ab'' = redact_log 5 parse_string_body (\<lambda>v. ''ok'') ''[[[ab''"
  by (rule redaction_nesting_suffices) (auto simp: parse_string_body_def split: list.splits)

section \<open>Plain lines\<close>

lemma first_marker_at:
  "first_marker ms s = Some (i, m) \<Longrightarrow> m \<in> set ms \<and> str_find m s = Some i"
  by (induction ms) (auto split: option.splits)

text \<open>In a plain line only one marker is cut: the first marker of the code's list that occurs,
  wherever it is, so whatever stands before it is logged as it is. A password, or a bearer token,
  to the left of an api_key= is not redacted.\<close>

theorem secret_before_listed_marker_survives:
  assumes "length message \<le> 8192" and "\<not> structured message"
    and "first_marker redaction_markers (casefold message) = Some (i, m)"
    and "str_in secret (take i message)"
  shows "str_in secret (redact_log fuel loads dumps message)"
proof -
  have "redact_log fuel loads dumps message = take i message @ m @ REDACTED"
    using assms(1-3) by (subst redact_log.simps) (auto simp: structured_def)
  then show ?thesis
    using assms(4) unfolding str_in_sublist by (simp add: sublist_appendI sublist_order.order.trans [OF _ sublist_append_rightI])
qed

theorem secret_before_listed_marker_survives_witness:
  "str_in ''hunter2'' (redact_log 0 (\<lambda>_. None) (\<lambda>_. []) ''password=hunter2 api_key=abc'')"
proof (rule secret_before_listed_marker_survives)
  show "first_marker redaction_markers (casefold ''password=hunter2 api_key=abc'') = Some (17, ''api_key='')"
    by code_simp
  show "str_in ''hunter2'' (take 17 ''password=hunter2 api_key=abc'')" by code_simp
  show "\<not> structured ''password=hunter2 api_key=abc''" by code_simp
qed simp

section \<open>The persisted log\<close>

interpretation log_ring: bounded_buffer "deque_push MAX_LOG_RECORDS" MAX_LOG_RECORDS
  by (rule deque_push_buffer) (simp add: MAX_LOG_RECORDS_def)

definition persisted_inv :: "log_context \<Rightarrow> worker_log \<Rightarrow> bool" where
  "persisted_inv c w = (length (wlg_ring w) \<le> MAX_LOG_RECORDS
     \<and> (wlg_file w = Some (log_lines c (wlg_ring w)) \<or> wlg_file w = None \<and> wlg_ring w = []))"

text \<open>A line to append: time stamp, session, source, message.\<close>

type_synonym log_entry = "string \<times> string option \<times> string \<times> string"

definition log_step :: "log_context \<Rightarrow> log_entry \<Rightarrow> worker_log \<Rightarrow> worker_log" where
  "log_step c e w = (case e of (t, session, source, message) \<Rightarrow> fst (append_log c t session source message w))"

lemma deque_push_room: "length xs < n \<Longrightarrow> deque_push n x xs = xs @ [x]"
  by (simp add: deque_push_def Let_def)

lemma append_log_inv:
  assumes "lc_persist c" and "lc_started c" and "persisted_inv c w"
  shows "persisted_inv c (log_step c e w)"
proof -
  obtain t session source message where e: "e = (t, session, source, message)" by (cases e) auto
  show ?thesis
  proof (cases "length (wlg_ring w) = MAX_LOG_RECORDS")
    case True
    with assms show ?thesis
      by (simp add: log_step_def e append_log_def Let_def persisted_inv_def log_ring.push_length)
  next
    case False
    with assms(3) have room: "length (wlg_ring w) < MAX_LOG_RECORDS" by (simp add: persisted_inv_def)
    with assms show ?thesis
      by (auto simp: log_step_def e append_log_def Let_def persisted_inv_def deque_push_room log_lines_def)
  qed
qed

text \<open>The log context of a running service, as a machine driven by log lines.\<close>

definition service_step :: "log_entry \<Rightarrow> log_context \<times> worker_log \<Rightarrow> log_context \<times> worker_log" where
  "service_step e cw = (fst cw, log_step (fst cw) e (snd cw))"

interpretation service_log: invariant_machine service_step
  "\<lambda>(c, w). lc_persist c \<and> lc_started c \<and> persisted_inv c w"
  by unfold_locales (auto simp: service_step_def append_log_inv)

lemma service_fold: "fold service_step es (c, w) = (c, fold (log_step c) es w)"
  by (induction es arbitrary: w) (simp_all add: service_step_def)

lemma load_persisted_inv:
  assumes "persisted_inv c w \<or> wlg_ring w = []"
  shows "persisted_inv c (load_persisted_log c rp loads w)"
proof (cases "wlg_file w")
  case None
  with assms show ?thesis by (auto simp: load_persisted_log_def persisted_inv_def)
next
  case (Some ls)
  with assms show ?thesis
    by (auto simp: load_persisted_log_def persisted_inv_def Let_def intro!: log_ring.push_all_length)
qed

text \<open>The persisted log is the in-memory log: after the service has loaded whatever file was
  there, and after any sequence of appended lines, the file holds exactly the records in memory,
  oldest first, at most five hundred of them.\<close>

theorem persisted_log_is_the_ring:
  assumes "lc_persist c" and "lc_started c" and "wlg_ring w = []"
  shows "let w' = fold (log_step c) es (load_persisted_log c rp loads w) in
     length (wlg_ring w') \<le> 500
     \<and> (wlg_file w' = Some (log_lines c (wlg_ring w')) \<or> wlg_file w' = None \<and> wlg_ring w' = [])"
proof -
  have "persisted_inv c (load_persisted_log c rp loads w)"
    using assms(3) by (intro load_persisted_inv) simp
  with assms(1,2) service_log.run_inv [of "(c, load_persisted_log c rp loads w)" es]
  show ?thesis by (simp add: service_fold persisted_inv_def Let_def MAX_LOG_RECORDS_def)
qed

definition example_log_context :: log_context where
  "example_log_context = \<lparr>lc_persist = True, lc_started = True, lc_redact = (\<lambda>s. s), lc_dumps = (\<lambda>v. ''record'')\<rparr>"

theorem persisted_log_is_the_ring_witness:
  "wlg_file (fold (log_step example_log_context) [(''t'', None, ''stdout'', ''a''), (''t'', None, ''stdout'', ''b'')]
     (load_persisted_log example_log_context (\<lambda>_. []) (\<lambda>_. None) \<lparr>wlg_ring = [], wlg_file = Some [''junk'']\<rparr>))
   = Some [''record'', ''record'']"
proof -
  let ?w = "fold (log_step example_log_context) [(''t'', None, ''stdout'', ''a''), (''t'', None, ''stdout'', ''b'')]
     (load_persisted_log example_log_context (\<lambda>_. []) (\<lambda>_. None) \<lparr>wlg_ring = [], wlg_file = Some [''junk'']\<rparr>)"
  have two: "length (wlg_ring ?w) = 2" by code_simp
  have ctx: "lc_persist example_log_context" "lc_started example_log_context"
    "wlg_ring \<lparr>wlg_ring = [], wlg_file = Some [''junk'']\<rparr> = []"
    by (simp_all add: example_log_context_def)
  from two have "wlg_ring ?w \<noteq> []" by (metis list.size(3) zero_neq_numeral)
  with persisted_log_is_the_ring [OF ctx, of "[(''t'', None, ''stdout'', ''a''), (''t'', None, ''stdout'', ''b'')]"
      "\<lambda>_. []" "\<lambda>_. None"]
  have "wlg_file ?w = Some (log_lines example_log_context (wlg_ring ?w))" unfolding Let_def by blast
  moreover have "log_lines example_log_context r = replicate (length r) ''record''" for r
    by (induction r) (simp_all add: log_lines_def example_log_context_def)
  ultimately show ?thesis using two by (simp only: numeral_2_eq_2 replicate.simps)
qed

end
