(* ===== verification/Supervisor.thy ===== *)
theory Supervisor
  imports Launch Thermal
begin

text \<open>
  The worker supervisor (\<open>supervisor/service.py\<close>, \<open>ManagedWorker\<close> and \<open>WorkerSupervisor\<close>) as a
  transition system. The event loop runs one coroutine at a time, from one \<open>await\<close> to the next;
  \<open>step\<close> is one such stretch, named by an \<open>event\<close> that also carries what the operating system, the
  worker or the clock answered. Coroutines that are suspended are data: the start that holds the
  load lock (at most one, so an option), the stops, the removals waiting for a lock, the critical
  stops and the tasks that watch for a process exit. A coroutine that finds a lock free is resumed
  in a step of its own, which only adds interleavings. Worker objects live in a store addressed by
  reference, because a coroutine keeps the object it looked up even when the dictionary no longer
  holds it. Process handles are numbered in the order of creation. The log records that accompany
  a transition belong to theory Logs; cancellation of a coroutine is not modelled.
\<close>

section \<open>State\<close>

record managed_worker =
  mw_profile :: model_profile
  mw_state :: worker_state
  mw_process :: "nat option"
  mw_started_at :: "int option"
  mw_last_error :: "string option"
  mw_log_session_id :: "string option"
  mw_launch_environment :: environment
  mw_resolved_identity :: "pydict option"

definition new_worker :: "model_profile \<Rightarrow> managed_worker" where
  "new_worker p = \<lparr>mw_profile = p, mw_state = STOPPED, mw_process = None, mw_started_at = None,
     mw_last_error = None, mw_log_session_id = None, mw_launch_environment = [], mw_resolved_identity = None\<rparr>"

record worker_event =
  we_worker_id :: string
  we_state :: worker_state
  we_message :: string

text \<open>An exception: the name of its type and its text.\<close>

type_synonym exn = "string \<times> string"

fun exn_of :: "py_error \<Rightarrow> exn" where
  "exn_of (ValueError m) = (''ValueError'', m)"
| "exn_of (RuntimeError m) = (''RuntimeError'', m)"
| "exn_of (KeyError m) = (''KeyError'', CHR 0x27 # m @ [CHR 0x27])"
| "exn_of (TypeError m) = (''TypeError'', m)"
| "exn_of (IndexError m) = (''IndexError'', m)"
| "exn_of (OSError m) = (''OSError'', m)"
| "exn_of (OverflowError m) = (''OverflowError'', m)"
| "exn_of (AttributeError m) = (''AttributeError'', m)"

datatype sig = SIGTERM | SIGKILL

text \<open>Where \<open>_terminate\<close> is suspended: for the process, for its group, for the killed process.\<close>

datatype kill_phase = KillWait nat | KillGroup nat | KillForce nat

text \<open>Where \<open>stop\<close> is suspended: at its lock, in the shutdown request, for the exit, terminating.\<close>

datatype stop_phase = StopLock | StopRequest | StopWait nat | StopKill kill_phase

text \<open>A loop over the dictionary of workers that suspends in its body remembers the length the
  dictionary had and the entries it has visited.\<close>

type_synonym iteration = "nat \<times> (string \<times> nat) list"

datatype start_phase =
    StartLock
  | StartStops iteration nat nat stop_phase
  | ReclaimHealth
  | ReclaimShutdown
  | ReclaimWait
  | StartChecks
  | StartSpawn worker_launch
  | LoadingGet
  | LoadingSleep
  | StartVerify
  | StartWarm
  | StartKill kill_phase

record start_task =
  st_id :: string
  st_ref :: nat
  st_lock :: nat
  st_phase :: start_phase

datatype stop_caller = PlainStop | RestartStop string | StopAll iteration

record stop_task =
  sp_ref :: nat
  sp_lock :: nat
  sp_phase :: stop_phase
  sp_caller :: stop_caller

record supervisor =
  sv_workers :: "(string \<times> nat) list"
  sv_obj :: "nat \<Rightarrow> managed_worker"
  sv_refs :: nat
  sv_code :: "nat \<Rightarrow> int option"
  sv_pids :: nat
  sv_signals :: "(nat \<times> sig) list"
  sv_events :: "worker_event list"
  sv_history :: "worker_event list"
  sv_locks :: "(string \<times> nat) list"
  sv_next_lock :: nat
  sv_held :: "nat list"
  sv_start :: "start_task option"
  sv_waiting :: "(string \<times> nat) list"
  sv_stops :: "stop_task list"
  sv_removes :: "(string \<times> nat \<times> nat) list"
  sv_criticals :: "(iteration \<times> nat \<times> kill_phase) list"
  sv_watches :: "(nat \<times> nat option) list"
  sv_startup_timeout :: pyfloat
  sv_data_dir :: string

definition MAX_EVENTS :: nat where "MAX_EVENTS = 256"

text \<open>\<open>workers = {profile.id: ManagedWorker(profile) for profile in profiles}\<close>: a later profile with
  the same identifier replaces the object and keeps the place.\<close>

definition supervisor_init :: "model_profile list \<Rightarrow> pyfloat \<Rightarrow> string \<Rightarrow> supervisor" where
  "supervisor_init ps timeout dir =
     \<lparr>sv_workers = fold (\<lambda>(r, p) d. AList.update (mp_id p) r d) (zip [0..<length ps] ps) [],
      sv_obj = (\<lambda>r. new_worker (ps ! r)), sv_refs = length ps,
      sv_code = (\<lambda>_. None), sv_pids = 0, sv_signals = [], sv_events = [], sv_history = [],
      sv_locks = [], sv_next_lock = 0, sv_held = [], sv_start = None, sv_waiting = [], sv_stops = [],
      sv_removes = [], sv_criticals = [], sv_watches = [], sv_startup_timeout = timeout, sv_data_dir = dir\<rparr>"

definition update_worker :: "nat \<Rightarrow> (managed_worker \<Rightarrow> managed_worker) \<Rightarrow> supervisor \<Rightarrow> supervisor" where
  "update_worker r f s = s\<lparr>sv_obj := (sv_obj s)(r := f (sv_obj s r))\<rparr>"

definition profile_of :: "supervisor \<Rightarrow> nat \<Rightarrow> model_profile" where
  "profile_of s r = mw_profile (sv_obj s r)"

text \<open>\<open>worker.process and worker.process.returncode is None\<close>.\<close>

definition running :: "supervisor \<Rightarrow> nat \<Rightarrow> bool" where
  "running s r = (case mw_process (sv_obj s r) of None \<Rightarrow> False | Some p \<Rightarrow> sv_code s p = None)"

definition exclusive :: "supervisor \<Rightarrow> nat \<Rightarrow> bool" where
  "exclusive s r = (mp_lifecycle (profile_of s r) = EXCLUSIVE)"

section \<open>Events, views and exits\<close>

definition queue_put :: "'a \<Rightarrow> 'a list \<Rightarrow> 'a list" where
  "queue_put e q = (if MAX_EVENTS \<le> length q then tl q else q) @ [e]"

definition transition_to :: "nat \<Rightarrow> worker_state \<Rightarrow> string \<Rightarrow> supervisor \<Rightarrow> supervisor" where
  "transition_to r st message s =
     (let s1 = update_worker r (\<lambda>w. w\<lparr>mw_state := st\<rparr>) s;
          e = \<lparr>we_worker_id = mp_id (profile_of s r), we_state = st, we_message = message\<rparr>
      in s1\<lparr>sv_history := deque_push MAX_EVENTS e (sv_history s), sv_events := queue_put e (sv_events s)\<rparr>)"

record worker_view =
  wv_id :: string
  wv_state :: worker_state
  wv_model_id :: string
  wv_generation_family :: generation_family
  wv_runtime :: string
  wv_lifecycle :: lifecycle_class
  wv_alias :: string
  wv_endpoint :: string
  wv_port :: int
  wv_pid :: "nat option"
  wv_started_at :: "int option"
  wv_last_error :: "string option"
  wv_log_session_id :: "string option"
  wv_capabilities :: pydict
  wv_resolved_identity :: "pydict option"

definition snapshot :: "supervisor \<Rightarrow> nat \<Rightarrow> worker_view" where
  "snapshot s r = (let w = sv_obj s r; p = mw_profile w in
     \<lparr>wv_id = mp_id p, wv_state = mw_state w, wv_model_id = mp_model_id p,
      wv_generation_family = mp_generation_family p, wv_runtime = mp_preferred_runtime p,
      wv_lifecycle = mp_lifecycle p, wv_alias = mp_alias p,
      wv_endpoint = ''http://127.0.0.1:'' @ show_int (mp_port p), wv_port = mp_port p,
      wv_pid = (if running s r then mw_process w else None), wv_started_at = mw_started_at w,
      wv_last_error = mw_last_error w, wv_log_session_id = mw_log_session_id w,
      wv_capabilities = capability_dump (mp_capabilities p), wv_resolved_identity = mw_resolved_identity w\<rparr>)"

definition refresh_worker :: "nat \<Rightarrow> supervisor \<Rightarrow> supervisor" where
  "refresh_worker r s = (case mw_process (sv_obj s r) of
       None \<Rightarrow> s
     | Some p \<Rightarrow> (case sv_code s p of
         None \<Rightarrow> s
       | Some c \<Rightarrow> if mw_state (sv_obj s r) \<in> {STOPPED, FAILED} then s
           else update_worker r (\<lambda>w. w\<lparr>mw_state := FAILED,
                  mw_last_error := Some (''Worker process exited with code '' @ show_int c)\<rparr>) s))"

definition refresh_exits :: "supervisor \<Rightarrow> supervisor" where
  "refresh_exits s = fold refresh_worker (map snd (sv_workers s)) s"

definition list_workers :: "supervisor \<Rightarrow> worker_view list \<times> supervisor" where
  "list_workers s = (let s1 = refresh_exits s in (map (snapshot s1 \<circ> snd) (sv_workers s1), s1))"

definition require_worker :: "supervisor \<Rightarrow> string \<Rightarrow> nat res" where
  "require_worker s wid = (case map_of (sv_workers s) wid of
     None \<Rightarrow> Inl (KeyError (''Unknown worker: '' @ wid)) | Some r \<Rightarrow> Inr r)"

definition get_worker :: "string \<Rightarrow> supervisor \<Rightarrow> worker_view res \<times> supervisor" where
  "get_worker wid s = (let s1 = refresh_exits s in
     (rbind (require_worker s1 wid) (\<lambda>r. Inr (snapshot s1 r)), s1))"

definition worker_environment :: "supervisor \<Rightarrow> string \<Rightarrow> (string \<times> string option) list res" where
  "worker_environment s wid = rbind (require_worker s wid) (\<lambda>r.
     Inr (map (\<lambda>k. (k, map_of (mw_launch_environment (sv_obj s r)) k))
            [''HF_HUB_OFFLINE'', ''TRANSFORMERS_OFFLINE'', ''LD_PRELOAD'']))"

definition register_profile :: "model_profile \<Rightarrow> supervisor \<Rightarrow> unit res \<times> supervisor" where
  "register_profile p s =
     (if dhas (sv_workers s) (mp_id p)
      then (Inl (ValueError (''Worker profile already exists: '' @ mp_id p)), s)
      else if list_ex (\<lambda>(_, r). mp_port (profile_of s r) = mp_port p) (sv_workers s)
      then (Inl (ValueError (''Worker port is already assigned: '' @ show_int (mp_port p))), s)
      else (Inr (), s\<lparr>sv_workers := sv_workers s @ [(mp_id p, sv_refs s)],
                     sv_obj := (sv_obj s)(sv_refs s := new_worker p), sv_refs := Suc (sv_refs s)\<rparr>))"

section \<open>Locks\<close>

text \<open>\<open>self._worker_locks[worker_id]\<close> of a \<open>defaultdict\<close>.\<close>

definition lock_of :: "string \<Rightarrow> supervisor \<Rightarrow> nat \<times> supervisor" where
  "lock_of wid s = (case map_of (sv_locks s) wid of
     Some l \<Rightarrow> (l, s)
   | None \<Rightarrow> (sv_next_lock s, s\<lparr>sv_locks := sv_locks s @ [(wid, sv_next_lock s)],
                                 sv_next_lock := Suc (sv_next_lock s)\<rparr>))"

definition lock_free :: "nat \<Rightarrow> supervisor \<Rightarrow> bool" where
  "lock_free l s = (l \<notin> set (sv_held s))"

definition hold :: "nat \<Rightarrow> supervisor \<Rightarrow> supervisor" where
  "hold l s = s\<lparr>sv_held := l # sv_held s\<rparr>"

definition release :: "nat \<Rightarrow> supervisor \<Rightarrow> supervisor" where
  "release l s = s\<lparr>sv_held := removeAll l (sv_held s)\<rparr>"

section \<open>Terminating a process\<close>

text \<open>What the surroundings answer while one stretch of code runs.\<close>

record thermal_view =
  tv_config :: thermal_config
  tv_state :: thermal_state
  tv_temperature :: pyval
  tv_age :: pyval
  tv_active :: "int option"
  tv_timestamp :: string

record world =
  w_now :: int
  w_session :: string
  w_port_free :: bool
  w_group_gone :: bool
  w_thermal :: "thermal_view option"
  w_harness :: bool
  w_host :: host

definition send_signal :: "nat \<Rightarrow> sig \<Rightarrow> supervisor \<Rightarrow> supervisor" where
  "send_signal p g s = s\<lparr>sv_signals := sv_signals s @ [(p, g)]\<rparr>"

definition group_check :: "world \<Rightarrow> nat \<Rightarrow> kill_phase option" where
  "group_check w p = (if w_group_gone w then None else Some (KillGroup p))"

text \<open>\<open>None\<close> for the phase: \<open>_terminate\<close> has returned.\<close>

definition terminate_begin :: "world \<Rightarrow> nat \<Rightarrow> supervisor \<Rightarrow> kill_phase option \<times> supervisor" where
  "terminate_begin w r s = (case mw_process (sv_obj s r) of
     None \<Rightarrow> (None, s)
   | Some p \<Rightarrow> (if sv_code s p = None then Some (KillWait p) else group_check w p, send_signal p SIGTERM s))"

definition force_kill :: "nat \<Rightarrow> supervisor \<Rightarrow> kill_phase option \<times> supervisor" where
  "force_kill p s = (if sv_code s p = None then Some (KillForce p) else None, send_signal p SIGKILL s)"

datatype kill_input = KillExit | KillGone | KillTimeout

fun kill_step :: "world \<Rightarrow> kill_input \<Rightarrow> kill_phase \<Rightarrow> supervisor \<Rightarrow> (kill_phase option \<times> supervisor) option" where
  "kill_step w KillExit (KillWait p) s = (if sv_code s p \<noteq> None then Some (group_check w p, s) else None)"
| "kill_step w KillTimeout (KillWait p) s = Some (force_kill p s)"
| "kill_step w KillGone (KillGroup p) s = Some (None, s)"
| "kill_step w KillTimeout (KillGroup p) s = Some (force_kill p s)"
| "kill_step w KillExit (KillForce p) s = (if sv_code s p \<noteq> None then Some (None, s) else None)"
| "kill_step w _ _ s = None"

section \<open>Stopping a worker\<close>

datatype stop_input = StopGo | StopExit | StopTimeout | StopKills kill_input

datatype stop_result = StopContinues stop_phase | StopReturns | StopRaises exn

definition stop_finish :: "nat \<Rightarrow> nat \<Rightarrow> supervisor \<Rightarrow> stop_result \<times> supervisor" where
  "stop_finish r l s = (StopReturns, release l
     (transition_to r STOPPED ''Worker stopped and process exited''
       (update_worker r (\<lambda>w. w\<lparr>mw_process := None, mw_started_at := None\<rparr>) s)))"

definition stop_killing :: "nat \<Rightarrow> nat \<Rightarrow> kill_phase option \<times> supervisor \<Rightarrow> stop_result \<times> supervisor" where
  "stop_killing r l k = (case k of
     (None, s) \<Rightarrow> stop_finish r l s | (Some ph, s) \<Rightarrow> (StopContinues (StopKill ph), s))"

fun stop_step :: "world \<Rightarrow> stop_input \<Rightarrow> nat \<Rightarrow> nat \<Rightarrow> stop_phase \<Rightarrow> supervisor \<Rightarrow> (stop_result \<times> supervisor) option" where
  "stop_step w StopGo r l StopLock s =
     (if \<not> lock_free l s then None
      else if running s r
      then Some (StopContinues StopRequest, transition_to r STOPPING ''Requesting graceful worker shutdown'' (hold l s))
      else Some (StopReturns, transition_to r STOPPED ''Worker is stopped''
                   (update_worker r (\<lambda>w. w\<lparr>mw_process := None\<rparr>) s)))"
| "stop_step w StopGo r l StopRequest s =
     (case mw_process (sv_obj s r) of
        None \<Rightarrow> Some (StopRaises (''AttributeError'', ''NoneType object has no attribute wait''), release l s)
      | Some p \<Rightarrow> if sv_code s p = None then Some (StopContinues (StopWait p), s) else Some (stop_finish r l s))"
| "stop_step w StopExit r l (StopWait p) s = (if sv_code s p \<noteq> None then Some (stop_finish r l s) else None)"
| "stop_step w StopTimeout r l (StopWait p) s = Some (stop_killing r l (terminate_begin w r s))"
| "stop_step w (StopKills i) r l (StopKill k) s = map_option (stop_killing r l) (kill_step w i k s)"
| "stop_step w _ r l _ s = None"

section \<open>Starting a worker\<close>

text \<open>The pure decisions: what counts as a stale endpoint of this very worker, what a health answer
  means while loading, and whether the worker reports the identity of its profile.\<close>

definition reclaim_accepts :: "model_profile \<Rightarrow> pyval \<Rightarrow> bool" where
  "reclaim_accepts p v = (case v of
     VDict d \<Rightarrow> dget d ''ready'' \<noteq> VBool True
       \<and> (eq_str (dget d ''state'') ''loading'' \<or> eq_str (dget d ''state'') ''failed'')
       \<and> list_all (\<lambda>(k, x). eq_str (dget d k) x)
           [(''worker_id'', mp_id p), (''model_id'', mp_model_id p), (''model_revision'', mp_revision p),
            (''generation_family'', generation_family_value (mp_generation_family p)),
            (''runtime'', mp_preferred_runtime p)]
   | _ \<Rightarrow> False)"

definition no_attribute :: "exn" where
  "no_attribute = (''AttributeError'', ''object has no attribute get'')"

definition mget :: "pyval \<Rightarrow> string \<Rightarrow> exn + pyval" where
  "mget v k = (case v of VDict d \<Rightarrow> Inr (dget d k) | _ \<Rightarrow> Inl no_attribute)"

definition mindex :: "pyval \<Rightarrow> string \<Rightarrow> exn + pyval" where
  "mindex v k = map_sum exn_of id (py_index v k)"

datatype poll_result = Loaded | PollAgain

definition poll_health :: "(pyval \<Rightarrow> string) \<Rightarrow> bool \<Rightarrow> pyval \<Rightarrow> exn + poll_result" where
  "poll_health rp success v =
     rbind (mget v ''state'') (\<lambda>st.
     if eq_str st (worker_state_value FAILED)
     then rbind (mget v ''error'') (\<lambda>e.
       Inl (''RuntimeError'', py_str rp (py_or e (VStr ''worker model load failed''))))
     else rbind (mget v ''ready'') (\<lambda>ready.
       Inr (if success \<and> (ready = VBool True \<or> eq_str st (worker_state_value WARMING)) then Loaded else PollAgain)))"

text \<open>\<open>a or b\<close> with \<open>b\<close> evaluated only when \<open>a\<close> is false.\<close>

definition or_else :: "exn + pyval \<Rightarrow> (unit \<Rightarrow> exn + pyval) \<Rightarrow> exn + pyval" where
  "or_else a b = rbind a (\<lambda>v. if py_truthy v then Inr v else b ())"

definition mismatch_text :: "(pyval \<Rightarrow> string) \<Rightarrow> string \<Rightarrow> string \<times> string \<Rightarrow> pyval \<Rightarrow> string" where
  "mismatch_text rp pre kx v = pre @ fst kx @ '' expected '' @ rp (VStr (snd kx)) @ '', reported '' @ rp v"

fun mismatches :: "(pyval \<Rightarrow> string) \<Rightarrow> string \<Rightarrow> pyval \<Rightarrow> (string \<times> string) list \<Rightarrow> exn + string list" where
  "mismatches rp pre v [] = Inr []"
| "mismatches rp pre v (kx # rest) =
     rbind (mget v (fst kx)) (\<lambda>x. rbind (mismatches rp pre v rest) (\<lambda>ms.
       Inr (if eq_str x (snd kx) then ms else mismatch_text rp pre kx x # ms)))"

definition backend_of :: "bool \<Rightarrow> string \<Rightarrow> string" where
  "backend_of rocm runtime =
     (if rocm \<or> suffix ''-rocm'' runtime then ''rocm''
      else if str_in ''vulkan'' runtime then ''vulkan''
      else if suffix ''-cpu'' runtime then ''cpu''
      else if runtime = ''mock'' then ''mock'' else ''unknown'')"

datatype identity = Verified pydict | Mismatch string

definition verify_identity :: "(pyval \<Rightarrow> string) \<Rightarrow> model_profile \<Rightarrow> pyval \<Rightarrow> pyval \<Rightarrow> pyval \<Rightarrow> exn + identity" where
  "verify_identity rp p health model metrics =
     rbind (mismatches rp [] model [(''model_id'', mp_model_id p), (''revision'', mp_revision p)]) (\<lambda>ms.
     rbind (mismatches rp ''health '' health
        [(''worker_id'', mp_id p), (''model_id'', mp_model_id p), (''model_revision'', mp_revision p),
         (''generation_family'', generation_family_value (mp_generation_family p))]) (\<lambda>hs.
     if ms @ hs \<noteq> [] then Inr (Mismatch (''Worker identity mismatch: '' @ join ''; '' (ms @ hs)))
     else rbind (or_else (mget health ''runtime'') (\<lambda>_. or_else (mget metrics ''runtime'')
            (\<lambda>_. Inr (VStr (mp_preferred_runtime p))))) (\<lambda>rt.
     rbind (mget health ''rocm_version'') (\<lambda>rocm.
     rbind (mindex model ''model_id'') (\<lambda>mid. rbind (mindex model ''revision'') (\<lambda>rev.
     rbind (or_else (mget health ''device'') (\<lambda>_. or_else (mget health ''device_name'')
            (\<lambda>_. or_else (mget metrics ''device'') (\<lambda>_. Inr (VStr ''unknown''))))) (\<lambda>device.
     rbind (or_else (mget health ''configuration_fingerprint'') (\<lambda>_. mget metrics ''configuration_fingerprint'')) (\<lambda>fp.
       Inr (Verified
         [(''model_id'', mid), (''revision'', rev), (''runtime'', VStr (py_str rp rt)),
          (''backend'', VStr (backend_of (py_truthy rocm) (py_str rp rt))),
          (''device'', device), (''configuration_fingerprint'', fp)])))))))))"

text \<open>The thermal admission: the reason of the refusal, if it refuses.\<close>

definition start_refusal :: "world \<Rightarrow> string \<Rightarrow> model_profile \<Rightarrow> string option" where
  "start_refusal w wid p = (case w_thermal w of None \<Rightarrow> None
     | Some v \<Rightarrow>
        let d = evaluate (tv_config v)
         \<lparr>workload_id = wid, wr_class = MODEL_LOAD, wr_automatic = False,
          wr_backend = Some (mp_preferred_runtime p), wr_model = None\<rparr>
         (tv_state v) (tv_temperature v) (tv_age v) (tv_active v) (tv_timestamp v)
        in if admitted d then None else Some (ad_reason d))"

datatype reply = Pending | Replies worker_view | Done | Raises exn

text \<open>Leaving \<open>start\<close>: both locks are released.\<close>

definition start_leaves :: "start_task \<Rightarrow> supervisor \<Rightarrow> supervisor" where
  "start_leaves t s = (release (st_lock t) s)\<lparr>sv_start := None\<rparr>"

definition start_at :: "start_task \<Rightarrow> start_phase \<Rightarrow> supervisor \<Rightarrow> reply \<times> supervisor" where
  "start_at t ph s = (Pending, s\<lparr>sv_start := Some (t\<lparr>st_phase := ph\<rparr>)\<rparr>)"

definition start_raises :: "start_task \<Rightarrow> exn \<Rightarrow> supervisor \<Rightarrow> reply \<times> supervisor" where
  "start_raises t e s = (Raises e, start_leaves t s)"

text \<open>\<open>worker.last_error = m; transition to FAILED; raise RuntimeError(worker.last_error)\<close>.\<close>

definition start_rejects :: "start_task \<Rightarrow> string \<Rightarrow> string \<Rightarrow> supervisor \<Rightarrow> reply \<times> supervisor" where
  "start_rejects t m message s =
     start_raises t (''RuntimeError'', m)
       (transition_to (st_ref t) FAILED message (update_worker (st_ref t) (\<lambda>w. w\<lparr>mw_last_error := Some m\<rparr>) s))"

text \<open>After the termination: \<open>raise RuntimeError(worker.last_error)\<close> reads the field again.\<close>

definition start_killing :: "start_task \<Rightarrow> kill_phase option \<times> supervisor \<Rightarrow> reply \<times> supervisor" where
  "start_killing t k = (case k of
     (None, s) \<Rightarrow> start_raises t (''RuntimeError'',
        (case mw_last_error (sv_obj s (st_ref t)) of None \<Rightarrow> ''None'' | Some m \<Rightarrow> m)) s
   | (Some ph, s) \<Rightarrow> start_at t (StartKill ph) s)"

definition start_aborts :: "world \<Rightarrow> start_task \<Rightarrow> worker_state \<Rightarrow> string \<Rightarrow> supervisor \<Rightarrow> reply \<times> supervisor" where
  "start_aborts w t st m s =
     start_killing t (terminate_begin w (st_ref t)
       (transition_to (st_ref t) st m (update_worker (st_ref t) (\<lambda>x. x\<lparr>mw_last_error := Some m\<rparr>) s)))"

definition start_crashes :: "world \<Rightarrow> start_task \<Rightarrow> exn \<Rightarrow> supervisor \<Rightarrow> reply \<times> supervisor" where
  "start_crashes w t e s = start_aborts w t FAILED (''Startup failed: '' @ fst e @ '': '' @ snd e) s"

definition LLAMA_RUNTIMES :: "string list" where
  "LLAMA_RUNTIMES = [''llama-vulkan'', ''qwen35-llamacpp-vulkan'', ''qwen38-llamacpp-vulkan'']"

definition start_builds :: "world \<Rightarrow> start_task \<Rightarrow> supervisor \<Rightarrow> reply \<times> supervisor" where
  "start_builds w t s =
     (case build_worker_launch (w_harness w) (w_host w) (Some (sv_data_dir s)) (profile_of s (st_ref t)) of
        Inl (ValueError m) \<Rightarrow> start_rejects t m m s
      | Inl e \<Rightarrow> start_raises t (exn_of e) s
      | Inr l \<Rightarrow> start_at t (StartSpawn l)
          (transition_to (st_ref t) STARTING ''Starting isolated worker process''
            (update_worker (st_ref t) (\<lambda>x. x\<lparr>mw_launch_environment := wl_environment l\<rparr>) s)))"

definition start_checks :: "world \<Rightarrow> start_task \<Rightarrow> supervisor \<Rightarrow> reply \<times> supervisor" where
  "start_checks w t s =
     (if mp_preferred_runtime (profile_of s (st_ref t)) \<in> set LLAMA_RUNTIMES
      then start_at t StartChecks s else start_builds w t s)"

definition port_in_use :: "start_task \<Rightarrow> supervisor \<Rightarrow> reply \<times> supervisor" where
  "port_in_use t s =
     (let m = ''Port '' @ show_int (mp_port (profile_of s (st_ref t))) @ '' is already in use''
      in start_rejects t m m s)"

definition start_validates :: "world \<Rightarrow> start_task \<Rightarrow> supervisor \<Rightarrow> reply \<times> supervisor" where
  "start_validates w t s =
     (let s1 = transition_to (st_ref t) VALIDATING ''Validating allowlisted worker manifest''
            (update_worker (st_ref t) (\<lambda>x. x\<lparr>mw_log_session_id := Some (w_session w)\<rparr>) s)
      in if w_port_free w then start_checks w t s1 else start_at t ReclaimHealth s1)"

text \<open>The loop that stops the other exclusive workers. Python refuses to go on when the dictionary
  has changed its length; an entry is visited once, in the order of the dictionary.\<close>

definition iteration_error :: exn where
  "iteration_error = (''RuntimeError'', ''dictionary changed size during iteration'')"

definition unvisited :: "iteration \<Rightarrow> supervisor \<Rightarrow> (string \<times> nat) list" where
  "unvisited it s = filter (\<lambda>e. e \<notin> set (snd it)) (sv_workers s)"

definition must_stop :: "string \<Rightarrow> supervisor \<Rightarrow> string \<times> nat \<Rightarrow> bool" where
  "must_stop wid s e = (fst e \<noteq> wid \<and> exclusive s (snd e) \<and> running s (snd e))"

definition start_loops :: "world \<Rightarrow> start_task \<Rightarrow> iteration \<Rightarrow> supervisor \<Rightarrow> reply \<times> supervisor" where
  "start_loops w t it s =
     (if length (sv_workers s) \<noteq> fst it then start_raises t iteration_error s
      else (let ws = unvisited it s; keep = (\<lambda>e. \<not> must_stop (st_id t) s e) in
        case dropWhile keep ws of
          [] \<Rightarrow> start_validates w t s
        | e # _ \<Rightarrow> (case lock_of (fst e) s of (l, s1) \<Rightarrow>
            start_at t (StartStops (fst it, snd it @ takeWhile keep ws @ [e]) (snd e) l StopLock) s1)))"

definition start_enters :: "world \<Rightarrow> start_task \<Rightarrow> supervisor \<Rightarrow> reply \<times> supervisor" where
  "start_enters w t s =
     (if running s (st_ref t) then (Replies (snapshot s (st_ref t)), start_leaves t s)
      else (case start_refusal w (st_id t) (profile_of s (st_ref t)) of
          Some reason \<Rightarrow> start_raises t (''ThermalAdmissionError'', reason) s
        | None \<Rightarrow>
           if exclusive s (st_ref t) then start_loops w t (length (sv_workers s), []) s
           else start_validates w t s))"

text \<open>The new process, its watcher, and the first suspended health request.\<close>

definition start_spawns :: "world \<Rightarrow> start_task \<Rightarrow> supervisor \<Rightarrow> reply \<times> supervisor" where
  "start_spawns w t s =
     (let r = st_ref t; p = sv_pids s;
          s1 = update_worker r (\<lambda>x. x\<lparr>mw_process := Some p, mw_started_at := Some (w_now w), mw_last_error := None\<rparr>)
                 (s\<lparr>sv_pids := Suc p, sv_code := (sv_code s)(p := None), sv_watches := sv_watches s @ [(r, None)]\<rparr>);
          s2 = transition_to r LOADING ''Waiting for worker health and model load'' s1
      in case py_float_of (dget_or (mp_settings (profile_of s r)) ''startup_timeout_seconds''
                (VFloat (sv_startup_timeout s))) of
           Inl e \<Rightarrow> start_crashes w t (exn_of e) s2
         | Inr _ \<Rightarrow> start_at t LoadingGet s2)"

definition start_warms :: "world \<Rightarrow> start_task \<Rightarrow> pydict \<Rightarrow> supervisor \<Rightarrow> reply \<times> supervisor" where
  "start_warms w t identity s =
     (let r = st_ref t;
          s1 = transition_to r WARMING ''Running configured warmup''
                 (update_worker r (\<lambda>x. x\<lparr>mw_resolved_identity := Some identity\<rparr>) s)
      in case py_float_of (dget_or (mp_settings (profile_of s r)) ''warmup_timeout_seconds'' (VFloat (Fin 10))) of
           Inl e \<Rightarrow> start_crashes w t (exn_of e) s1
         | Inr _ \<Rightarrow> start_at t StartWarm s1)"

definition start_ready :: "start_task \<Rightarrow> supervisor \<Rightarrow> reply \<times> supervisor" where
  "start_ready t s =
     (let s1 = transition_to (st_ref t) READY ''Worker passed health and warmup checks'' s
      in (Replies (snapshot s1 (st_ref t)), start_leaves t s1))"

text \<open>What resumes the suspended start.\<close>

datatype start_input =
    StartGo
  | OtherStop stop_input
  | HealthAnswer "pyval option"
  | ShutdownAnswer bool
  | PortPoll bool
  | LlamaAnswer "unit res"
  | SpawnAnswer "string option"
  | LoadTimeout
  | LoadAnswer "(bool \<times> pyval) option"
  | VerifyAnswer "string + (pyval \<times> pyval \<times> pyval)"
  | WarmAnswer "exn + pyval"
  | StartKills kill_input

fun start_step :: "world \<Rightarrow> start_input \<Rightarrow> start_task \<Rightarrow> start_phase \<Rightarrow> supervisor \<Rightarrow> (reply \<times> supervisor) option" where
  "start_step w i t StartLock s =
     (if i = StartGo \<and> lock_free (st_lock t) s then Some (start_enters w t (hold (st_lock t) s)) else None)"
| "start_step w i t (StartStops it r l ph) s = (case i of
     OtherStop j \<Rightarrow> map_option (\<lambda>(res, s1). case res of
         StopContinues ph1 \<Rightarrow> start_at t (StartStops it r l ph1) s1
       | StopReturns \<Rightarrow> start_loops w t it s1
       | StopRaises e \<Rightarrow> start_raises t e s1) (stop_step w j r l ph s)
   | _ \<Rightarrow> None)"
| "start_step w i t ReclaimHealth s = (case i of
     HealthAnswer a \<Rightarrow> Some (case a of
         Some v \<Rightarrow> if reclaim_accepts (profile_of s (st_ref t)) v then start_at t ReclaimShutdown s else port_in_use t s
       | None \<Rightarrow> port_in_use t s)
   | _ \<Rightarrow> None)"
| "start_step w i t ReclaimShutdown s = (case i of
     ShutdownAnswer ok \<Rightarrow> Some (if \<not> ok then port_in_use t s
       else if w_port_free w then start_checks w t s else start_at t ReclaimWait s)
   | _ \<Rightarrow> None)"
| "start_step w i t ReclaimWait s = (case i of
     PortPoll late \<Rightarrow> Some (if w_port_free w then start_checks w t s
       else if late then port_in_use t s else start_at t ReclaimWait s)
   | _ \<Rightarrow> None)"
| "start_step w i t StartChecks s = (case i of
     LlamaAnswer a \<Rightarrow> Some (case a of
         Inl (ValueError m) \<Rightarrow> start_rejects t m m s
       | Inl e \<Rightarrow> start_raises t (exn_of e) s
       | Inr _ \<Rightarrow> start_builds w t s)
   | _ \<Rightarrow> None)"
| "start_step w i t (StartSpawn l) s = (case i of
     SpawnAnswer a \<Rightarrow> Some (case a of
         Some m \<Rightarrow> start_rejects t m (''Worker launch failed: '' @ m) s
       | None \<Rightarrow> start_spawns w t s)
   | _ \<Rightarrow> None)"
| "start_step w i t LoadingGet s = (case i of
     LoadTimeout \<Rightarrow> Some (start_crashes w t (''TimeoutError'', []) s)
   | LoadAnswer a \<Rightarrow> Some (case a of
         None \<Rightarrow> start_at t LoadingSleep s
       | Some (success, v) \<Rightarrow> (case poll_health (h_repr (w_host w)) success v of
           Inl e \<Rightarrow> start_crashes w t e s
         | Inr PollAgain \<Rightarrow> start_at t LoadingSleep s
         | Inr Loaded \<Rightarrow> start_at t StartVerify s))
   | _ \<Rightarrow> None)"
| "start_step w i t LoadingSleep s = (case i of
     LoadTimeout \<Rightarrow> Some (start_crashes w t (''TimeoutError'', []) s)
   | StartGo \<Rightarrow> Some (if running s (st_ref t) then start_at t LoadingGet s
       else start_crashes w t (''RuntimeError'', ''worker exited before readiness'') s)
   | _ \<Rightarrow> None)"
| "start_step w i t StartVerify s = (case i of
     VerifyAnswer a \<Rightarrow> Some (case a of
         Inl m \<Rightarrow> start_aborts w t INCOMPATIBLE (''Worker identity could not be verified: '' @ m) s
       | Inr (health, model, metrics) \<Rightarrow>
          (case verify_identity (h_repr (w_host w)) (profile_of s (st_ref t)) health model metrics of
             Inl e \<Rightarrow> start_crashes w t e s
           | Inr (Mismatch m) \<Rightarrow> start_aborts w t INCOMPATIBLE m s
           | Inr (Verified d) \<Rightarrow> start_warms w t d s))
   | _ \<Rightarrow> None)"
| "start_step w i t StartWarm s = (case i of
     WarmAnswer a \<Rightarrow> Some (case rbind a (\<lambda>v. mget v ''ready'') of
         Inl e \<Rightarrow> start_crashes w t e s
       | Inr v \<Rightarrow> if v = VBool True then start_ready t s
           else start_crashes w t (''RuntimeError'', ''worker warmup did not report readiness'') s)
   | _ \<Rightarrow> None)"
| "start_step w i t (StartKill k) s = (case i of
     StartKills j \<Rightarrow> map_option (start_killing t) (kill_step w j k s)
   | _ \<Rightarrow> None)"

section \<open>Stop, restart, removal, critical stop\<close>

definition stop_call :: "string \<Rightarrow> stop_caller \<Rightarrow> supervisor \<Rightarrow> reply \<times> supervisor" where
  "stop_call wid caller s = (case require_worker s wid of
     Inl e \<Rightarrow> (Raises (exn_of e), s)
   | Inr r \<Rightarrow> (case lock_of wid s of (l, s1) \<Rightarrow>
       (Pending, s1\<lparr>sv_stops := sv_stops s1 @
          [\<lparr>sp_ref = r, sp_lock = l, sp_phase = StopLock, sp_caller = caller\<rparr>]\<rparr>)))"

text \<open>\<open>start\<close> up to the load lock.\<close>

definition start_call :: "string \<Rightarrow> supervisor \<Rightarrow> reply \<times> supervisor" where
  "start_call wid s = (case require_worker s wid of
     Inl e \<Rightarrow> (Raises (exn_of e), s)
   | Inr r \<Rightarrow> (Pending, s\<lparr>sv_waiting := sv_waiting s @ [(wid, r)]\<rparr>))"

definition load_lock_taken :: "nat \<Rightarrow> supervisor \<Rightarrow> (reply \<times> supervisor) option" where
  "load_lock_taken n s =
     (if sv_start s = None \<and> n < length (sv_waiting s)
      then (case sv_waiting s ! n of (wid, r) \<Rightarrow> case lock_of wid s of (l, s1) \<Rightarrow>
        Some (Pending, s1\<lparr>sv_waiting := take n (sv_waiting s) @ drop (Suc n) (sv_waiting s),
          sv_start := Some \<lparr>st_id = wid, st_ref = r, st_lock = l, st_phase = StartLock\<rparr>\<rparr>))
      else None)"

definition stop_all_loops :: "iteration \<Rightarrow> supervisor \<Rightarrow> reply \<times> supervisor" where
  "stop_all_loops it s =
     (if length (sv_workers s) \<noteq> fst it then (Raises iteration_error, s)
      else (case unvisited it s of
        [] \<Rightarrow> (Done, s)
      | e # _ \<Rightarrow> stop_call (fst e) (StopAll (fst it, snd it @ [e])) s))"

definition stop_returns :: "nat \<Rightarrow> stop_caller \<Rightarrow> supervisor \<Rightarrow> reply \<times> supervisor" where
  "stop_returns r caller s = (case caller of
     PlainStop \<Rightarrow> (Replies (snapshot s r), s)
   | RestartStop wid \<Rightarrow> start_call wid s
   | StopAll it \<Rightarrow> stop_all_loops it s)"

definition stops_without :: "nat \<Rightarrow> supervisor \<Rightarrow> supervisor" where
  "stops_without n s = s\<lparr>sv_stops := take n (sv_stops s) @ drop (Suc n) (sv_stops s)\<rparr>"

definition stop_resumes :: "world \<Rightarrow> nat \<Rightarrow> stop_input \<Rightarrow> supervisor \<Rightarrow> (reply \<times> supervisor) option" where
  "stop_resumes w n i s =
     (if n < length (sv_stops s)
      then (let t = sv_stops s ! n in
        map_option (\<lambda>(res, s1). case res of
            StopContinues ph \<Rightarrow> (Pending, s1\<lparr>sv_stops := (sv_stops s1)[n := t\<lparr>sp_phase := ph\<rparr>]\<rparr>)
          | StopReturns \<Rightarrow> stop_returns (sp_ref t) (sp_caller t) (stops_without n s1)
          | StopRaises e \<Rightarrow> (Raises e, stops_without n s1))
          (stop_step w i (sp_ref t) (sp_lock t) (sp_phase t) s))
      else None)"

definition remove_call :: "string \<Rightarrow> supervisor \<Rightarrow> reply \<times> supervisor" where
  "remove_call wid s = (case require_worker s wid of
     Inl e \<Rightarrow> (Raises (exn_of e), s)
   | Inr r \<Rightarrow> (case lock_of wid s of (l, s1) \<Rightarrow> (Pending, s1\<lparr>sv_removes := sv_removes s1 @ [(wid, r, l)]\<rparr>)))"

definition remove_runs :: "nat \<Rightarrow> supervisor \<Rightarrow> (reply \<times> supervisor) option" where
  "remove_runs n s =
     (if n < length (sv_removes s) then (case sv_removes s ! n of (wid, r, l) \<Rightarrow>
        if \<not> lock_free l s then None
        else (let s1 = refresh_exits (s\<lparr>sv_removes := take n (sv_removes s) @ drop (Suc n) (sv_removes s)\<rparr>) in Some
          (if running s1 r
           then (Raises (''RuntimeError'', ''Stop the worker before removing its runtime configuration''), s1)
           else if mw_state (sv_obj s1 r) \<notin> {STOPPED, FAILED}
           then (Raises (''RuntimeError'', ''Wait for the worker lifecycle transition to finish''), s1)
           else if \<not> dhas (sv_workers s1) wid then (Raises (exn_of (KeyError wid)), s1)
           else (Done, s1\<lparr>sv_workers := AList.delete wid (sv_workers s1),
                          sv_locks := AList.delete wid (sv_locks s1)\<rparr>))))
      else None)"

definition critical_loops :: "world \<Rightarrow> iteration \<Rightarrow> supervisor \<Rightarrow> reply \<times> supervisor" where
  "critical_loops w it s =
     (if length (sv_workers s) \<noteq> fst it then (Raises iteration_error, s)
      else (let ws = unvisited it s; keep = (\<lambda>e. \<not> running s (snd e)) in
        case dropWhile keep ws of
          [] \<Rightarrow> (Done, s)
        | e # _ \<Rightarrow>
           (case mw_process (sv_obj s (snd e)) of
              None \<Rightarrow> (Done, s)
            | Some p \<Rightarrow> (Pending,
                (send_signal p SIGTERM (transition_to (snd e) STOPPING ''Critical thermal safety stop'' s))
                  \<lparr>sv_criticals := sv_criticals s @ [((fst it, snd it @ takeWhile keep ws @ [e]), snd e, KillWait p)]\<rparr>))))"

text \<open>In \<open>critical_loops\<close> the worker that is stopped is running, so it has a process and
  \<open>_terminate\<close> suspends in its first wait.\<close>

definition critical_call :: "world \<Rightarrow> supervisor \<Rightarrow> reply \<times> supervisor" where
  "critical_call w s = critical_loops w (length (sv_workers s), []) s"

definition critical_isolates :: "nat \<Rightarrow> supervisor \<Rightarrow> supervisor" where
  "critical_isolates r s =
     transition_to r STOPPED ''Worker isolated at critical temperature''
       (update_worker r (\<lambda>w. w\<lparr>mw_process := None, mw_started_at := None\<rparr>) s)"

definition critical_resumes :: "world \<Rightarrow> nat \<Rightarrow> kill_input \<Rightarrow> supervisor \<Rightarrow> (reply \<times> supervisor) option" where
  "critical_resumes w n i s =
     (if n < length (sv_criticals s) then (case sv_criticals s ! n of (it, r, k) \<Rightarrow>
        map_option (\<lambda>(res, s1). case res of
            Some k1 \<Rightarrow> (Pending, s1\<lparr>sv_criticals := (sv_criticals s1)[n := (it, r, k1)]\<rparr>)
          | None \<Rightarrow> critical_loops w it (critical_isolates r
              (s1\<lparr>sv_criticals := take n (sv_criticals s1) @ drop (Suc n) (sv_criticals s1)\<rparr>)))
          (kill_step w i k s))
      else None)"

section \<open>Watching a process\<close>

definition watch_runs :: "nat \<Rightarrow> supervisor \<Rightarrow> (reply \<times> supervisor) option" where
  "watch_runs r s =
     (if (r, None) \<notin> set (sv_watches s) then None
      else (let rest = remove1 (r, None) (sv_watches s) in Some (Done, s\<lparr>sv_watches :=
        (case mw_process (sv_obj s r) of None \<Rightarrow> rest | Some p \<Rightarrow> rest @ [(r, Some p)])\<rparr>)))"

definition watch_sees :: "nat \<Rightarrow> nat \<Rightarrow> supervisor \<Rightarrow> (reply \<times> supervisor) option" where
  "watch_sees r p s = (case sv_code s p of
     None \<Rightarrow> None
   | Some c \<Rightarrow>
      if (r, Some p) \<notin> set (sv_watches s) then None
      else (let s1 = s\<lparr>sv_watches := remove1 (r, Some p) (sv_watches s)\<rparr>;
                m = ''Worker process exited unexpectedly with code '' @ show_int c in
        Some (Done, if mw_state (sv_obj s r) \<in> {STOPPING, STOPPED, FAILED} then s1
              else transition_to r FAILED m (update_worker r (\<lambda>w. w\<lparr>mw_last_error := Some m\<rparr>) s1))))"

section \<open>One stretch of code\<close>

datatype event =
    ProcessExits nat int
  | WatchRuns nat
  | WatchSees nat nat
  | Registers model_profile
  | CallsRemove string
  | RemoveRuns nat
  | CallsStart string
  | TakesLoadLock nat
  | StartResumes world start_input
  | CallsStop string
  | CallsRestart string
  | CallsStopAll
  | StopResumes world nat stop_input
  | CallsCritical world
  | CriticalResumes world nat kill_input
  | RefreshesExits
  | TakesEvent

fun step :: "event \<Rightarrow> supervisor \<Rightarrow> (reply \<times> supervisor) option" where
  "step (ProcessExits p c) s =
     (if p < sv_pids s \<and> sv_code s p = None then Some (Done, s\<lparr>sv_code := (sv_code s)(p := Some c)\<rparr>) else None)"
| "step (WatchRuns r) s = watch_runs r s"
| "step (WatchSees r p) s = watch_sees r p s"
| "step (Registers p) s = Some (case register_profile p s of (Inl e, s1) \<Rightarrow> (Raises (exn_of e), s1) | (Inr _, s1) \<Rightarrow> (Done, s1))"
| "step (CallsRemove wid) s = Some (remove_call wid s)"
| "step (RemoveRuns n) s = remove_runs n s"
| "step (CallsStart wid) s = Some (start_call wid s)"
| "step (TakesLoadLock n) s = load_lock_taken n s"
| "step (StartResumes w i) s = (case sv_start s of None \<Rightarrow> None | Some t \<Rightarrow> start_step w i t (st_phase t) s)"
| "step (CallsStop wid) s = Some (stop_call wid PlainStop s)"
| "step (CallsRestart wid) s = Some (stop_call wid (RestartStop wid) s)"
| "step CallsStopAll s = Some (stop_all_loops (length (sv_workers s), []) s)"
| "step (StopResumes w n i) s = stop_resumes w n i s"
| "step (CallsCritical w) s = Some (critical_call w s)"
| "step (CriticalResumes w n i) s = critical_resumes w n i s"
| "step RefreshesExits s = Some (Done, refresh_exits s)"
| "step TakesEvent s = (case sv_events s of [] \<Rightarrow> None | _ # q \<Rightarrow> Some (Done, s\<lparr>sv_events := q\<rparr>))"

text \<open>The transition relation, the runs and the states a supervisor of these profiles can reach.\<close>

inductive steps_to :: "supervisor \<Rightarrow> event \<Rightarrow> reply \<Rightarrow> supervisor \<Rightarrow> bool" where
  steps_to: "step e s = Some (r, s') \<Longrightarrow> steps_to s e r s'"

inductive runs_to :: "supervisor \<Rightarrow> event list \<Rightarrow> supervisor \<Rightarrow> bool" where
  runs_Nil: "runs_to s [] s"
| runs_snoc: "runs_to s es s1 \<Longrightarrow> steps_to s1 e r s2 \<Longrightarrow> runs_to s (es @ [e]) s2"

inductive_cases steps_toE: "steps_to s e r s'"
inductive_cases runs_NilE: "runs_to s [] s'"
inductive_simps steps_to_iff: "steps_to s e r s'"

definition reachable :: "model_profile list \<Rightarrow> supervisor \<Rightarrow> bool" where
  "reachable ps s = (\<exists>timeout dir es. runs_to (supervisor_init ps timeout dir) es s)"

end
