(* ===== verification/Supervisor_Safety.thy ===== *)
theory Supervisor_Safety
  imports Supervisor
begin

text \<open>
  What the supervisor guarantees over every interleaving of its coroutines: at most one exclusive
  worker of the dictionary runs, the event queue is the recent end of the history, a ready worker
  has the identity of its profile, and a critical stop leaves nothing running unless a start slips
  in between. The stretches of code are built from a few kinds of changes; the \<open>calm\<close> ones neither
  start a process nor make a worker ready, and the invariants are proved once over them.
\<close>

section \<open>Calm changes\<close>

definition keeps_process :: "(managed_worker \<Rightarrow> managed_worker) \<Rightarrow> bool" where
  "keeps_process f = (\<forall>w. mw_profile (f w) = mw_profile w \<and> mw_process (f w) = mw_process w
     \<and> mw_resolved_identity (f w) = mw_resolved_identity w \<and> mw_state (f w) \<in> {mw_state w, FAILED})"

definition drops_process :: "(managed_worker \<Rightarrow> managed_worker) \<Rightarrow> bool" where
  "drops_process f = (\<forall>w. mw_profile (f w) = mw_profile w \<and> mw_process (f w) = None
     \<and> mw_resolved_identity (f w) = mw_resolved_identity w \<and> mw_state (f w) = mw_state w)"

definition same_core :: "supervisor \<Rightarrow> supervisor \<Rightarrow> bool" where
  "same_core s s' \<longleftrightarrow> sv_workers s' = sv_workers s \<and> sv_obj s' = sv_obj s \<and> sv_refs s' = sv_refs s
     \<and> sv_code s' = sv_code s \<and> sv_pids s' = sv_pids s \<and> sv_events s' = sv_events s \<and> sv_history s' = sv_history s"

inductive calm :: "supervisor \<Rightarrow> supervisor \<Rightarrow> bool" where
  calm_refl [intro!]: "calm s s"
| calm_update: "calm s s1 \<Longrightarrow> keeps_process f \<Longrightarrow> calm s (update_worker r f s1)"
| calm_drop: "calm s s1 \<Longrightarrow> drops_process f \<Longrightarrow> calm s (update_worker r f s1)"
| calm_transition: "calm s s1 \<Longrightarrow> st \<noteq> READY \<Longrightarrow> calm s (transition_to r st m s1)"
| calm_core: "calm s s1 \<Longrightarrow> same_core s1 s2 \<Longrightarrow> calm s s2"
| calm_exit: "calm s s1 \<Longrightarrow> sv_code s1 p = None \<Longrightarrow> calm s (s1\<lparr>sv_code := (sv_code s1)(p := Some c)\<rparr>)"
| calm_take: "calm s s1 \<Longrightarrow> calm s (s1\<lparr>sv_events := tl (sv_events s1)\<rparr>)"
| calm_delete: "calm s s1 \<Longrightarrow> calm s (s1\<lparr>sv_workers := AList.delete wid (sv_workers s1), sv_locks := ls\<rparr>)"

lemma calm_trans: "calm s2 s3 \<Longrightarrow> calm s1 s2 \<Longrightarrow> calm s1 s3"
  by (induction rule: calm.induct) (auto intro: calm.intros)

lemma same_core_refl [simp]: "same_core s s"
  by (simp add: same_core_def)

text \<open>Bookkeeping fields.\<close>

lemma same_core_fields [simp]:
  "same_core s (hold l s)" "same_core s (release l s)" "same_core s (send_signal p g s)"
  "same_core s (s\<lparr>sv_start := a\<rparr>)" "same_core s (s\<lparr>sv_waiting := b\<rparr>)" "same_core s (s\<lparr>sv_stops := c\<rparr>)"
  "same_core s (s\<lparr>sv_removes := d\<rparr>)" "same_core s (s\<lparr>sv_criticals := e\<rparr>)" "same_core s (s\<lparr>sv_watches := f\<rparr>)"
  "same_core s (snd (lock_of wid s))" "same_core s (stops_without n s)"
  by (auto simp: same_core_def hold_def release_def send_signal_def lock_of_def stops_without_def split: option.splits)

lemma same_core_trans: "same_core s1 s2 \<Longrightarrow> same_core s2 s3 \<Longrightarrow> same_core s1 s3"
  by (simp add: same_core_def)

text \<open>The fields a stretch of code reads of a state with one field updated.\<close>

lemma core_selectors [simp]:
  "sv_workers (update_worker r f s) = sv_workers s" "sv_refs (update_worker r f s) = sv_refs s"
  "sv_code (update_worker r f s) = sv_code s" "sv_pids (update_worker r f s) = sv_pids s"
  "sv_events (update_worker r f s) = sv_events s" "sv_history (update_worker r f s) = sv_history s"
  "sv_start (update_worker r f s) = sv_start s" "sv_waiting (update_worker r f s) = sv_waiting s"
  "sv_criticals (update_worker r f s) = sv_criticals s"
  "sv_workers (transition_to r st m s) = sv_workers s" "sv_refs (transition_to r st m s) = sv_refs s"
  "sv_code (transition_to r st m s) = sv_code s" "sv_pids (transition_to r st m s) = sv_pids s"
  "sv_start (transition_to r st m s) = sv_start s" "sv_waiting (transition_to r st m s) = sv_waiting s"
  "sv_criticals (transition_to r st m s) = sv_criticals s"
  by (simp_all add: update_worker_def transition_to_def Let_def)

lemma obj_transition [simp]:
  "sv_obj (transition_to r st m s) = (sv_obj s)(r := sv_obj s r\<lparr>mw_state := st\<rparr>)"
  by (simp add: transition_to_def Let_def update_worker_def)

lemma obj_update [simp]: "sv_obj (update_worker r f s) = (sv_obj s)(r := f (sv_obj s r))"
  by (simp add: update_worker_def)

text \<open>What each calm change does to one worker.\<close>

lemma keeps_processD:
  assumes "keeps_process f"
  shows "mw_profile (f w) = mw_profile w" "mw_process (f w) = mw_process w"
    "mw_resolved_identity (f w) = mw_resolved_identity w" "mw_state (f w) \<noteq> mw_state w \<Longrightarrow> mw_state (f w) = FAILED"
  using assms unfolding keeps_process_def by auto

lemma drops_processD:
  assumes "drops_process f"
  shows "mw_profile (f w) = mw_profile w" "mw_process (f w) = None"
    "mw_resolved_identity (f w) = mw_resolved_identity w" "mw_state (f w) = mw_state w"
  using assms unfolding drops_process_def by auto

definition calm_object :: "managed_worker \<Rightarrow> managed_worker \<Rightarrow> bool" where
  "calm_object w w' \<longleftrightarrow> mw_profile w' = mw_profile w \<and> (mw_process w' = mw_process w \<or> mw_process w' = None)
     \<and> mw_resolved_identity w' = mw_resolved_identity w \<and> (mw_state w' = READY \<longrightarrow> mw_state w = READY)"

lemma calm_object_refl [simp]: "calm_object w w"
  by (simp add: calm_object_def)

lemma calm_object_trans: "calm_object w w' \<Longrightarrow> calm_object w' w'' \<Longrightarrow> calm_object w w''"
  by (auto simp: calm_object_def)

lemma calm_objects:
  "keeps_process f \<Longrightarrow> calm_object w (f w)" "drops_process f \<Longrightarrow> calm_object w (f w)"
  "st \<noteq> READY \<Longrightarrow> calm_object w (w\<lparr>mw_state := st\<rparr>)"
proof -
  show "keeps_process f \<Longrightarrow> calm_object w (f w)"
    using keeps_processD [of f w] by (cases "mw_state (f w) = mw_state w") (simp_all add: calm_object_def)
  show "drops_process f \<Longrightarrow> calm_object w (f w)"
    using drops_processD [of f w] by (simp add: calm_object_def)
qed (simp add: calm_object_def)

lemma object_calm: "calm s s' \<Longrightarrow> calm_object (sv_obj s r) (sv_obj s' r)"
proof (induction rule: calm.induct)
  case (calm_update s s1 f r')
  then show ?case by (auto intro: calm_object_trans calm_objects)
next
  case (calm_drop s s1 f r')
  then show ?case by (auto intro: calm_object_trans calm_objects)
next
  case (calm_transition s s1 st r' m)
  then show ?case by (auto intro: calm_object_trans calm_objects)
qed (auto simp: same_core_def)

lemma core_calm: "calm s s' \<Longrightarrow> set (sv_workers s') \<subseteq> set (sv_workers s)
    \<and> (distinct (map fst (sv_workers s)) \<longrightarrow> distinct (map fst (sv_workers s')))
    \<and> sv_refs s' = sv_refs s \<and> sv_pids s' = sv_pids s
    \<and> (\<forall>p. sv_code s p \<noteq> None \<longrightarrow> sv_code s' p = sv_code s p)"
proof (induction rule: calm.induct)
  case (calm_delete s s1 wid ls)
  then show ?case by (auto simp: AList.delete_eq intro: distinct_map_filter)
qed (auto simp: same_core_def)

lemma profile_of_calm: "calm s s' \<Longrightarrow> profile_of s' r = profile_of s r"
  using object_calm by (auto simp: profile_of_def calm_object_def)

lemma running_iff: "running s r \<longleftrightarrow> (\<exists>p. mw_process (sv_obj s r) = Some p \<and> sv_code s p = None)"
  by (simp add: running_def split: option.splits)

lemma running_calm: "calm s s' \<Longrightarrow> running s' r \<Longrightarrow> running s r"
  using object_calm [of s s' r] core_calm [of s s'] by (force simp: running_iff calm_object_def)

lemma identity_calm: "calm s s' \<Longrightarrow> mw_resolved_identity (sv_obj s' r) = mw_resolved_identity (sv_obj s r)"
  using object_calm by (auto simp: calm_object_def)

lemma ready_calm: "calm s s' \<Longrightarrow> mw_state (sv_obj s' r) = READY \<Longrightarrow> mw_state (sv_obj s r) = READY"
  using object_calm by (auto simp: calm_object_def)

section \<open>The stretches that are calm\<close>

text \<open>Nothing but the worker objects and the events changes.\<close>

definition same_tasks :: "supervisor \<Rightarrow> supervisor \<Rightarrow> bool" where
  "same_tasks s s' \<longleftrightarrow> sv_start s' = sv_start s \<and> sv_waiting s' = sv_waiting s \<and> sv_criticals s' = sv_criticals s"

definition quiet :: "supervisor \<Rightarrow> supervisor \<Rightarrow> bool" where
  "quiet s s' \<longleftrightarrow> calm s s' \<and> same_tasks s s'"

lemma same_tasks_simps [simp]:
  "same_tasks s s" "same_tasks s (update_worker r f s)" "same_tasks s (transition_to r st m s)"
  "same_tasks s (hold l s)" "same_tasks s (release l s)" "same_tasks s (send_signal p g s)"
  "same_tasks s (snd (lock_of wid s))" "same_tasks s (stops_without n s)" "same_tasks s (s\<lparr>sv_stops := a\<rparr>)"
  "same_tasks s (s\<lparr>sv_removes := b\<rparr>)" "same_tasks s (s\<lparr>sv_watches := c\<rparr>)"
  by (auto simp: same_tasks_def hold_def release_def send_signal_def lock_of_def stops_without_def split: option.splits)

lemma quiet_trans: "quiet s1 s2 \<Longrightarrow> quiet s2 s3 \<Longrightarrow> quiet s1 s3"
  by (auto simp: quiet_def same_tasks_def intro: calm_trans)

lemma quiet_simps [simp]:
  "quiet s s" "quiet s (hold l s)" "quiet s (release l s)" "quiet s (send_signal p g s)"
  "quiet s (snd (lock_of wid s))" "quiet s (stops_without n s)" "quiet s (s\<lparr>sv_stops := a\<rparr>)"
  "quiet s (s\<lparr>sv_removes := b\<rparr>)" "quiet s (s\<lparr>sv_watches := c\<rparr>)"
  by (auto simp: quiet_def intro: calm_core)

lemma quiet_transition [simp]: "st \<noteq> READY \<Longrightarrow> quiet s (transition_to r st m s)"
  by (auto simp: quiet_def intro: calm_transition)

lemma quiet_update: "keeps_process f \<Longrightarrow> quiet s (update_worker r f s)"
  and quiet_drop: "drops_process f \<Longrightarrow> quiet s (update_worker r f s)"
  by (auto simp: quiet_def intro: calm_update calm_drop)

lemma quiet_fields [simp]:
  "quiet s (update_worker r (\<lambda>w. w\<lparr>mw_last_error := a\<rparr>) s)"
  "quiet s (update_worker r (\<lambda>w. w\<lparr>mw_log_session_id := b\<rparr>) s)"
  "quiet s (update_worker r (\<lambda>w. w\<lparr>mw_launch_environment := c\<rparr>) s)"
  "quiet s (update_worker r (\<lambda>w. w\<lparr>mw_state := FAILED, mw_last_error := d\<rparr>) s)"
  by (auto intro!: quiet_update simp: keeps_process_def)

lemma quiet_drops [simp]:
  "quiet s (update_worker r (\<lambda>w. w\<lparr>mw_process := None\<rparr>) s)"
  "quiet s (update_worker r (\<lambda>w. w\<lparr>mw_process := None, mw_started_at := None\<rparr>) s)"
  by (auto intro!: quiet_drop simp: drops_process_def)

text \<open>\<open>quiet\<close> through nested changes, innermost first.\<close>

lemma quiet_steps:
  "quiet s s1 \<Longrightarrow> st \<noteq> READY \<Longrightarrow> quiet s (transition_to r st m s1)"
  "quiet s s1 \<Longrightarrow> quiet s (hold l s1)" "quiet s s1 \<Longrightarrow> quiet s (release l s1)"
  "quiet s s1 \<Longrightarrow> quiet s (send_signal p g s1)"
  "quiet s s1 \<Longrightarrow> quiet s (update_worker r (\<lambda>w. w\<lparr>mw_last_error := a\<rparr>) s1)"
  "quiet s s1 \<Longrightarrow> quiet s (update_worker r (\<lambda>w. w\<lparr>mw_process := None, mw_started_at := None\<rparr>) s1)"
  by (auto intro: quiet_trans)

lemma quiet_terminate [simp]: "terminate_begin w r s = (k, s') \<Longrightarrow> quiet s s'"
  by (auto simp: terminate_begin_def split: option.splits if_splits)

lemma quiet_kill: "kill_step w i k s = Some (k', s') \<Longrightarrow> quiet s s'"
  by (cases "(w, i, k, s)" rule: kill_step.cases) (auto simp: force_kill_def split: if_splits)

lemma quiet_kill_snd: "kill_step w i k s = Some ks \<Longrightarrow> quiet s (snd ks)"
  by (cases ks) (simp add: quiet_kill)

lemma quiet_stop_finish: "stop_finish r l s = (res, s') \<Longrightarrow> quiet s s'"
  by (auto simp: stop_finish_def intro!: quiet_steps)

lemma quiet_stop_killing: "stop_killing r l ks = (res, s') \<Longrightarrow> quiet s (snd ks) \<Longrightarrow> quiet s s'"
  by (cases ks) (auto simp: stop_killing_def split: option.splits intro: quiet_trans dest: quiet_stop_finish)

lemma quiet_stop_step: "stop_step w i r l ph s = Some (res, s') \<Longrightarrow> quiet s s'"
  by (cases "(w, i, r, l, ph, s)" rule: stop_step.cases)
     (auto split: if_splits option.splits intro!: quiet_steps intro: quiet_trans
        dest: quiet_kill_snd quiet_stop_finish quiet_stop_killing
        simp: quiet_terminate [OF prod.collapse [symmetric]] elim!: quiet_stop_killing)

text \<open>When a stop returns, its worker has no process.\<close>

lemma stop_returns_without_process:
  "stop_step w i r l ph s = Some (StopReturns, s') \<Longrightarrow> mw_process (sv_obj s' r) = None"
  by (cases "(w, i, r, l, ph, s)" rule: stop_step.cases)
     (auto split: if_splits option.splits prod.splits simp: stop_finish_def stop_killing_def release_def)

section \<open>What a stretch of a start leaves behind\<close>

definition plain_phase :: "start_phase \<Rightarrow> bool" where
  "plain_phase ph = (case ph of StartLock \<Rightarrow> False | StartStops it r l sp \<Rightarrow> False | StartWarm \<Rightarrow> False | _ \<Rightarrow> True)"

lemma plain_phase_simps [simp]:
  "\<not> plain_phase StartLock" "\<not> plain_phase (StartStops it r l sp)" "\<not> plain_phase StartWarm"
  "plain_phase ReclaimHealth" "plain_phase ReclaimShutdown" "plain_phase ReclaimWait" "plain_phase StartChecks"
  "plain_phase (StartSpawn a)" "plain_phase LoadingGet" "plain_phase LoadingSleep" "plain_phase StartVerify"
  "plain_phase (StartKill k)"
  by (simp_all add: plain_phase_def)

definition settles :: "start_task \<Rightarrow> supervisor \<Rightarrow> supervisor \<Rightarrow> bool" where
  "settles t s s' \<longleftrightarrow> calm s s' \<and> sv_waiting s' = sv_waiting s \<and> sv_criticals s' = sv_criticals s
     \<and> (sv_start s' = None \<or> (\<exists>ph. sv_start s' = Some (t\<lparr>st_phase := ph\<rparr>) \<and> plain_phase ph))"

lemma settles_after: "quiet s s1 \<Longrightarrow> settles t s1 s2 \<Longrightarrow> settles t s s2"
  by (auto simp: quiet_def same_tasks_def settles_def intro: calm_trans)

lemma settles_raises: "quiet s s1 \<Longrightarrow> settles t s (snd (start_raises t e s1))"
  by (auto simp: start_raises_def start_leaves_def settles_def quiet_def same_tasks_def release_def
      intro: calm_core [of s s1] simp: same_core_def)

lemma settles_at: "quiet s s1 \<Longrightarrow> plain_phase ph \<Longrightarrow> settles t s (snd (start_at t ph s1))"
  by (auto simp: start_at_def settles_def quiet_def same_tasks_def intro: calm_core)

lemma settles_rejects: "quiet s s1 \<Longrightarrow> settles t s (snd (start_rejects t m msg s1))"
  unfolding start_rejects_def by (intro settles_raises quiet_steps) (auto intro: quiet_trans)

lemma settles_killing: "quiet s (snd ks) \<Longrightarrow> settles t s (snd (start_killing t ks))"
  by (cases ks) (auto simp: start_killing_def intro: settles_raises settles_at split: option.splits)

lemma settles_aborts: "quiet s s1 \<Longrightarrow> st \<noteq> READY \<Longrightarrow> settles t s (snd (start_aborts w t st m s1))"
  unfolding start_aborts_def
  by (intro settles_killing quiet_trans [OF _ quiet_terminate [OF prod.collapse [symmetric]]] quiet_steps)
     (auto intro: quiet_trans)

lemma settles_crashes: "quiet s s1 \<Longrightarrow> settles t s (snd (start_crashes w t e s1))"
  unfolding start_crashes_def by (rule settles_aborts) auto

lemmas settles_intros = settles_raises settles_at settles_rejects settles_crashes settles_aborts

lemma settles_builds: "quiet s s1 \<Longrightarrow> settles t s (snd (start_builds w t s1))"
  unfolding start_builds_def
  by (auto split: sum.splits py_error.splits intro!: settles_intros quiet_steps intro: quiet_trans)

lemma settles_checks: "quiet s s1 \<Longrightarrow> settles t s (snd (start_checks w t s1))"
  by (auto simp: start_checks_def intro: settles_builds settles_at)

lemma settles_port_in_use: "quiet s s1 \<Longrightarrow> settles t s (snd (port_in_use t s1))"
  by (auto simp: port_in_use_def Let_def intro: settles_rejects)

lemma settles_validates: "quiet s s1 \<Longrightarrow> settles t s (snd (start_validates w t s1))"
  unfolding start_validates_def Let_def
  by (auto intro!: settles_checks settles_at quiet_steps intro: quiet_trans)

lemma settles_kill: "kill_step w j k s = Some ks \<Longrightarrow> settles t s (snd (start_killing t ks))"
  by (rule settles_killing) (rule quiet_kill_snd)

lemmas settles_all = settles_intros settles_builds settles_checks settles_port_in_use settles_validates settles_kill

section \<open>The stretches of code, by kind\<close>

text \<open>Only the successful answer to the creation of a process starts one; the others settle, or
  stop another exclusive worker, or warm up, or make the worker ready.\<close>

lemma start_loops_cases:
  assumes "start_loops w t it s = (res, s')"
  shows "settles t s s' \<and> (sv_start s' = None
            \<or> length (sv_workers s) = fst it \<and> (\<forall>e\<in>set (unvisited it s). \<not> must_stop (st_id t) s e))
     \<or> (\<exists>ws e l. quiet s (s'\<lparr>sv_start := sv_start s\<rparr>)
          \<and> sv_start s' = Some (t\<lparr>st_phase := StartStops (fst it, snd it @ ws @ [e]) (snd e) l StopLock\<rparr>)
          \<and> (\<forall>e'\<in>set ws. \<not> must_stop (st_id t) s e'))"
proof (cases "length (sv_workers s) \<noteq> fst it")
  case True
  then have "s' = snd (start_raises t iteration_error s)"
    using assms by (simp add: start_loops_def)
  moreover from this have "sv_start s' = None" by (simp add: start_raises_def start_leaves_def)
  ultimately show ?thesis by (auto intro: settles_raises)
next
  case len: False
  let ?keep = "\<lambda>e. \<not> must_stop (st_id t) s e"
  show ?thesis
  proof (cases "dropWhile ?keep (unvisited it s)")
    case Nil
    have "s' = snd (start_validates w t s)" using assms len unfolding start_loops_def Let_def Nil by simp
    then show ?thesis using Nil len by (auto simp: dropWhile_eq_Nil_conv intro: settles_validates)
  next
    case (Cons e es)
    obtain l s1 where l: "lock_of (fst e) s = (l, s1)" by fastforce
    have q: "quiet s s1" using quiet_simps(5) [of s "fst e"] by (simp add: l)
    have s': "s' = s1\<lparr>sv_start := Some (t\<lparr>st_phase :=
        StartStops (fst it, snd it @ takeWhile ?keep (unvisited it s) @ [e]) (snd e) l StopLock\<rparr>)\<rparr>"
      using assms len l unfolding start_loops_def Let_def Cons by (simp add: start_at_def)
    have "s'\<lparr>sv_start := sv_start s\<rparr> = s1"
      using q by (simp add: s' quiet_def same_tasks_def)
    then have "quiet s (s'\<lparr>sv_start := sv_start s\<rparr>)" using q by simp
    moreover have "\<forall>e'\<in>set (takeWhile ?keep (unvisited it s)). \<not> must_stop (st_id t) s e'"
      by (auto dest: set_takeWhileD)
    ultimately show ?thesis by (intro disjI2 exI conjI) (auto simp: s')
  qed
qed

text \<open>All other events.\<close>

definition task_frame :: "supervisor \<Rightarrow> supervisor \<Rightarrow> bool" where
  "task_frame s s' \<longleftrightarrow> sv_criticals s' = sv_criticals s \<and> set (sv_waiting s') \<subseteq> set (sv_waiting s) \<union> set (sv_workers s)
     \<and> (sv_start s' = sv_start s \<or> (\<exists>wid r l. (wid, r) \<in> set (sv_waiting s) \<union> set (sv_workers s)
           \<and> sv_start s' = Some \<lparr>st_id = wid, st_ref = r, st_lock = l, st_phase = StartLock\<rparr>))"

definition frames :: "supervisor \<Rightarrow> supervisor \<Rightarrow> bool" where
  "frames s s' \<longleftrightarrow> calm s s' \<and> task_frame s s'"

lemma frames_trans: "frames s s1 \<Longrightarrow> frames s1 s2 \<Longrightarrow> frames s s2"
  using core_calm [of s s1] unfolding frames_def task_frame_def by (auto intro: calm_trans)

lemma frames_quiet: "quiet s s' \<Longrightarrow> frames s s'"
  by (auto simp: quiet_def frames_def task_frame_def same_tasks_def)

lemma frames_after_quiet: "quiet s s1 \<Longrightarrow> frames s1 s2 \<Longrightarrow> frames s s2"
  using core_calm [of s s1] by (auto simp: quiet_def frames_def task_frame_def same_tasks_def intro: calm_trans)

lemma quiet_refresh: "quiet s (refresh_exits s)"
proof -
  have "quiet s0 (fold refresh_worker rs s0)" for rs s0
  proof (induction rs arbitrary: s0)
    case (Cons r rs)
    have "quiet s0 (refresh_worker r s0)"
      by (auto simp: refresh_worker_def split: option.splits)
    then show ?case using Cons quiet_trans by fastforce
  qed simp
  then show ?thesis by (simp add: refresh_exits_def)
qed

lemma quiet_lock_of: "lock_of wid s = (l, s1) \<Longrightarrow> quiet s s1"
  using quiet_simps(5) [of s wid] by simp

lemma frames_stop_call: "frames s (snd (stop_call wid c s))"
  by (auto simp: stop_call_def split: sum.splits prod.splits intro!: frames_quiet
      intro: quiet_trans [OF quiet_lock_of])

lemma frames_start_call: "frames s (snd (start_call wid s))"
  by (auto simp: start_call_def require_worker_def frames_def task_frame_def
      split: sum.splits option.splits intro: calm_core dest: map_of_SomeD)

lemma frames_stop_all: "frames s (snd (stop_all_loops it s))"
  by (auto simp: stop_all_loops_def split: list.splits intro: frames_stop_call frames_quiet)

lemma frames_stop_returns: "frames s (snd (stop_returns r c s))"
  by (cases c) (auto simp: stop_returns_def intro: frames_start_call frames_stop_all frames_quiet)

lemma frames_stop_resumes: "stop_resumes w n i s = Some (rep, s') \<Longrightarrow> frames s s'"
proof -
  assume a: "stop_resumes w n i s = Some (rep, s')"
  define t where "t = sv_stops s ! n"
  from a obtain res s1 where st: "stop_step w i (sp_ref t) (sp_lock t) (sp_phase t) s = Some (res, s1)"
    and r: "(case res of
            StopContinues ph \<Rightarrow> (Pending, s1\<lparr>sv_stops := (sv_stops s1)[n := t\<lparr>sp_phase := ph\<rparr>]\<rparr>)
          | StopReturns \<Rightarrow> stop_returns (sp_ref t) (sp_caller t) (stops_without n s1)
          | StopRaises e \<Rightarrow> (Raises e, stops_without n s1)) = (rep, s')"
    by (auto simp: stop_resumes_def t_def [symmetric] Let_def split: if_splits)
  have q: "quiet s s1" by (rule quiet_stop_step [OF st])
  have q2: "quiet s (stops_without n s1)" by (rule quiet_trans [OF q]) simp
  show ?thesis
  proof (cases res)
    case (StopContinues ph)
    then show ?thesis using r q by (auto intro!: frames_quiet intro: quiet_trans)
  next
    case StopReturns
    then show ?thesis using r frames_after_quiet [OF q2 frames_stop_returns, of "sp_ref t" "sp_caller t"] by simp
  next
    case (StopRaises e)
    then show ?thesis using r q2 by (auto intro: frames_quiet)
  qed
qed

lemma frames_update: "frames s s1 \<Longrightarrow> quiet s1 s2 \<Longrightarrow> frames s s2"
  by (auto simp: quiet_def frames_def task_frame_def same_tasks_def intro: calm_trans)

text \<open>A critical stop, up to the list of critical stops itself.\<close>

lemma frames_critical_loops: "frames s ((snd (critical_loops w it s))\<lparr>sv_criticals := sv_criticals s\<rparr>)"
proof -
  have q: "frames s (s'\<lparr>sv_criticals := sv_criticals s\<rparr>)" if "quiet s s'" for s'
    using that by (auto simp: quiet_def frames_def task_frame_def same_tasks_def intro: calm_core)
  show ?thesis
    by (auto simp: critical_loops_def Let_def frames_quiet q [OF quiet_steps(4) [OF quiet_steps(1)]]
        split: list.splits option.splits)
qed

lemma quiet_isolates: "quiet s (critical_isolates r s)"
  unfolding critical_isolates_def by (intro quiet_steps) simp_all

lemma frames_criticals_fields: "frames s (s'\<lparr>sv_criticals := sv_criticals s\<rparr>) \<longleftrightarrow>
    calm s (s'\<lparr>sv_criticals := sv_criticals s\<rparr>) \<and> set (sv_waiting s') \<subseteq> set (sv_waiting s) \<union> set (sv_workers s)
     \<and> (sv_start s' = sv_start s \<or> (\<exists>wid r l. (wid, r) \<in> set (sv_waiting s) \<union> set (sv_workers s)
           \<and> sv_start s' = Some \<lparr>st_id = wid, st_ref = r, st_lock = l, st_phase = StartLock\<rparr>))"
  by (simp add: frames_def task_frame_def)

lemma calm_criticals: "calm s s' \<Longrightarrow> calm s (s'\<lparr>sv_criticals := cs\<rparr>)"
  "calm s (s'\<lparr>sv_criticals := cs\<rparr>) \<Longrightarrow> calm s s'"
  by (auto intro: calm_core simp: same_core_def)

lemma critical_resumes_cases:
  assumes "critical_resumes w n i s = Some (rep, s')"
  obtains it r k k1 s1 where "n < length (sv_criticals s)" "sv_criticals s ! n = (it, r, k)"
      "kill_step w i k s = Some (Some k1, s1)" "s' = s1\<lparr>sv_criticals := (sv_criticals s1)[n := (it, r, k1)]\<rparr>" "rep = Pending"
  | it r k s1 where "n < length (sv_criticals s)" "sv_criticals s ! n = (it, r, k)" "kill_step w i k s = Some (None, s1)"
      "critical_loops w it (critical_isolates r
         (s1\<lparr>sv_criticals := take n (sv_criticals s1) @ drop (Suc n) (sv_criticals s1)\<rparr>)) = (rep, s')"
proof -
  obtain it r k where c: "sv_criticals s ! n = (it, r, k)" by (metis prod_cases3)
  obtain res s1 where k: "kill_step w i k s = Some (res, s1)" "n < length (sv_criticals s)"
    and s': "(case res of
            Some k1 \<Rightarrow> (Pending, s1\<lparr>sv_criticals := (sv_criticals s1)[n := (it, r, k1)]\<rparr>)
          | None \<Rightarrow> critical_loops w it (critical_isolates r
              (s1\<lparr>sv_criticals := take n (sv_criticals s1) @ drop (Suc n) (sv_criticals s1)\<rparr>))) = (rep, s')"
    using assms by (auto simp: critical_resumes_def c split: if_splits)
  then show ?thesis using that c by (cases res) auto
qed

lemma frames_critical_resumes:
  assumes "critical_resumes w n i s = Some (rep, s')"
  shows "frames s (s'\<lparr>sv_criticals := sv_criticals s\<rparr>)"
  using assms
proof (cases rule: critical_resumes_cases)
  case (1 it r k k1 s1)
  then show ?thesis
    using quiet_kill [of w i k s] by (auto simp: frames_criticals_fields quiet_def same_tasks_def intro: calm_criticals)
next
  case (2 it r k s1)
  let ?s2 = "s1\<lparr>sv_criticals := take n (sv_criticals s1) @ drop (Suc n) (sv_criticals s1)\<rparr>"
  have q: "quiet s s1" by (rule quiet_kill [OF 2(3)])
  have "calm s ?s2" using q by (auto simp: quiet_def intro: calm_criticals)
  then have c: "calm s (critical_isolates r ?s2)"
    using quiet_isolates [of ?s2 r] by (auto simp: quiet_def intro: calm_trans)
  have same: "sv_start (critical_isolates r ?s2) = sv_start s" "sv_waiting (critical_isolates r ?s2) = sv_waiting s"
    using quiet_isolates [of ?s2 r] q by (auto simp: quiet_def same_tasks_def)
  have fr: "frames (critical_isolates r ?s2) (s'\<lparr>sv_criticals := sv_criticals (critical_isolates r ?s2)\<rparr>)"
    using frames_critical_loops [of "critical_isolates r ?s2" w it] 2(4) by simp
  then have "calm (critical_isolates r ?s2) s'" by (auto simp: frames_criticals_fields intro: calm_criticals)
  then have "calm s s'" using c calm_trans by blast
  then show ?thesis
    using fr core_calm [OF c] same unfolding frames_criticals_fields
    by (auto intro: calm_criticals)
qed

lemma frames_load_lock: "load_lock_taken n s = Some (rep, s') \<Longrightarrow> frames s s'"
proof -
  assume a: "load_lock_taken n s = Some (rep, s')"
  obtain wid r where w: "sv_waiting s ! n = (wid, r)" by fastforce
  obtain l s1 where l: "lock_of wid s = (l, s1)" by fastforce
  have q: "quiet s s1" by (rule quiet_lock_of [OF l])
  from a w l have n: "n < length (sv_waiting s)" and s': "s' = s1\<lparr>sv_waiting := take n (sv_waiting s) @ drop (Suc n) (sv_waiting s),
          sv_start := Some \<lparr>st_id = wid, st_ref = r, st_lock = l, st_phase = StartLock\<rparr>\<rparr>"
    by (auto simp: load_lock_taken_def split: if_splits)
  have "(wid, r) \<in> set (sv_waiting s)" using w n by (metis nth_mem)
  moreover have "calm s s'" using q by (auto simp: s' quiet_def same_core_def intro: calm_core)
  ultimately show ?thesis
    using q by (auto simp: frames_def task_frame_def s' quiet_def same_tasks_def dest: in_set_takeD in_set_dropD)
qed

lemma frames_watch: "watch_runs r s = Some (rep, s') \<Longrightarrow> frames s s'"
  "watch_sees r p s = Some (rep, s') \<Longrightarrow> frames s s'"
  by (auto simp: watch_runs_def watch_sees_def Let_def split: if_splits option.splits
      intro!: frames_quiet quiet_steps intro: quiet_trans)

lemma frames_remove_call: "frames s (snd (remove_call wid s))"
  by (auto simp: remove_call_def split: sum.splits prod.splits intro!: frames_quiet intro: quiet_trans [OF quiet_lock_of])

lemma frames_remove: "remove_runs n s = Some (rep, s') \<Longrightarrow> frames s s'"
proof -
  assume a: "remove_runs n s = Some (rep, s')"
  obtain wid r l where w: "sv_removes s ! n = (wid, r, l)" by (metis prod_cases3)
  let ?s1 = "refresh_exits (s\<lparr>sv_removes := take n (sv_removes s) @ drop (Suc n) (sv_removes s)\<rparr>)"
  have q: "quiet s ?s1" by (rule quiet_trans [OF _ quiet_refresh]) simp
  have "frames s (?s1\<lparr>sv_workers := AList.delete wid (sv_workers ?s1), sv_locks := AList.delete wid (sv_locks ?s1)\<rparr>)"
    using q by (auto simp: quiet_def frames_def task_frame_def same_tasks_def intro: calm_delete)
  moreover have "frames s ?s1" by (rule frames_quiet [OF q])
  ultimately show ?thesis using a by (auto simp: remove_runs_def w Let_def split: if_splits)
qed

text \<open>Every event but a stretch of a start, a registration and a critical stop.\<close>

lemma frames_step:
  assumes "step e s = Some (rep, s')" and "\<And>w i. e \<noteq> StartResumes w i" and "\<And>p. e \<noteq> Registers p"
    and "\<And>w. e \<noteq> CallsCritical w" and "\<And>w n i. e \<noteq> CriticalResumes w n i"
  shows "frames s s'"
proof (cases e)
  case (ProcessExits p c)
  then show ?thesis using assms
    by (auto simp: frames_def task_frame_def split: if_splits intro: calm_exit)
next
  case TakesEvent
  then have "s' = s\<lparr>sv_events := tl (sv_events s)\<rparr>" using assms by (auto split: list.splits)
  then show ?thesis by (auto simp: frames_def task_frame_def intro: calm_take)
next
  case RefreshesExits
  then show ?thesis using assms quiet_refresh by (auto intro: frames_quiet)
next
  case CallsStopAll
  then show ?thesis using assms frames_stop_all [of s "(length (sv_workers s), [])"] by auto
next
  case (CallsStart wid)
  then show ?thesis using assms frames_start_call [of s wid] by auto
next
  case (CallsRemove wid)
  then show ?thesis using assms frames_remove_call [of s wid] by auto
next
  case (CallsStop wid)
  then show ?thesis using assms frames_stop_call [of s wid PlainStop] by auto
next
  case (CallsRestart wid)
  then show ?thesis using assms frames_stop_call [of s wid "RestartStop wid"] by auto
qed (use assms in
      \<open>auto intro: frames_watch frames_stop_resumes frames_load_lock frames_remove\<close>)

section \<open>The invariant\<close>

text \<open>The running exclusive workers of the dictionary.\<close>

definition hot :: "supervisor \<Rightarrow> (string \<times> nat) set" where
  "hot s = {e \<in> set (sv_workers s). exclusive s (snd e) \<and> running s (snd e)}"

definition keys_ok :: "supervisor \<Rightarrow> bool" where
  "keys_ok s \<longleftrightarrow> distinct (map fst (sv_workers s))
     \<and> (\<forall>e\<in>set (sv_workers s) \<union> set (sv_waiting s). snd e < sv_refs s \<and> mp_id (profile_of s (snd e)) = fst e)
     \<and> (\<forall>r p. mw_process (sv_obj s r) = Some p \<longrightarrow> p < sv_pids s)"

definition has_identity :: "managed_worker \<Rightarrow> bool" where
  "has_identity w \<longleftrightarrow> (\<exists>d. mw_resolved_identity w = Some d
     \<and> dget d ''model_id'' = VStr (mp_model_id (mw_profile w)) \<and> dget d ''revision'' = VStr (mp_revision (mw_profile w)))"

definition identity_ok :: "supervisor \<Rightarrow> bool" where
  "identity_ok s \<longleftrightarrow> (\<forall>r. (mw_resolved_identity (sv_obj s r) = None \<or> has_identity (sv_obj s r))
     \<and> (mw_state (sv_obj s r) = READY \<longrightarrow> has_identity (sv_obj s r)))"

definition visited_ok :: "supervisor \<Rightarrow> start_task \<Rightarrow> bool" where
  "visited_ok s t \<longleftrightarrow> exclusive s (st_ref t) \<longrightarrow> (\<forall>e\<in>hot s. case st_phase t of
       StartLock \<Rightarrow> True
     | StartStops it r l ph \<Rightarrow> e \<in> set (snd it) \<longrightarrow> fst e = st_id t \<or> snd e = r
     | _ \<Rightarrow> fst e = st_id t)"

definition task_ok :: "supervisor \<Rightarrow> bool" where
  "task_ok s \<longleftrightarrow> (\<forall>t. sv_start s = Some t \<longrightarrow> st_ref t < sv_refs s \<and> mp_id (profile_of s (st_ref t)) = st_id t
     \<and> (st_phase t = StartWarm \<longrightarrow> has_identity (sv_obj s (st_ref t))) \<and> visited_ok s t)"

definition sup_inv :: "supervisor \<Rightarrow> bool" where
  "sup_inv s \<longleftrightarrow> keys_ok s \<and> identity_ok s \<and> task_ok s \<and> (\<forall>e\<in>hot s. \<forall>e'\<in>hot s. e = e')"

lemma exclusive_calm: "calm s s' \<Longrightarrow> exclusive s' r = exclusive s r"
  by (simp add: exclusive_def profile_of_calm)

lemma hot_calm: "calm s s' \<Longrightarrow> hot s' \<subseteq> hot s"
  using core_calm [of s s'] by (auto simp: hot_def exclusive_calm intro: running_calm)

lemma keys_calm:
  assumes "calm s s'" and "keys_ok s" and "set (sv_waiting s') \<subseteq> set (sv_waiting s) \<union> set (sv_workers s)"
  shows "keys_ok s'"
proof -
  have "p < sv_pids s" if "mw_process (sv_obj s' r) = Some p" for r p
    using that object_calm [OF assms(1), of r] assms(2) by (auto simp: calm_object_def keys_ok_def)
  then show ?thesis
    using assms core_calm [OF assms(1)] unfolding keys_ok_def by (auto simp: profile_of_calm [OF assms(1)])
qed

lemma has_identity_calm: "calm s s' \<Longrightarrow> has_identity (sv_obj s' r) = has_identity (sv_obj s r)"
  using object_calm [of s s' r] by (simp add: has_identity_def calm_object_def)

lemma identity_ok_calm: "calm s s' \<Longrightarrow> identity_ok s \<Longrightarrow> identity_ok s'"
  unfolding identity_ok_def using ready_calm [of s s'] identity_calm [of s s'] has_identity_calm [of s s'] by auto

lemma visited_ok_mono: "visited_ok s t \<Longrightarrow> hot s' \<subseteq> hot s \<Longrightarrow> exclusive s' (st_ref t) = exclusive s (st_ref t)
    \<Longrightarrow> visited_ok s' t"
  by (auto simp: visited_ok_def)

text \<open>Calm changes keep everything but the condition on a start that has moved.\<close>

lemma inv_calm:
  assumes "sup_inv s" and "calm s s'" and "set (sv_waiting s') \<subseteq> set (sv_waiting s) \<union> set (sv_workers s)"
    and "task_ok s'"
  shows "sup_inv s'"
proof -
  have "\<forall>e\<in>hot s'. \<forall>e'\<in>hot s'. e = e'"
    using assms(1) hot_calm [OF assms(2)] unfolding sup_inv_def by blast
  then show ?thesis
    using assms keys_calm [OF assms(2) _ assms(3)] identity_ok_calm [OF assms(2)] by (simp add: sup_inv_def)
qed

lemma inv_frames: "sup_inv s \<Longrightarrow> frames s s' \<Longrightarrow> sup_inv s'"
proof -
  assume inv: "sup_inv s" and fr: "frames s s'"
  then have c: "calm s s'" and w: "set (sv_waiting s') \<subseteq> set (sv_waiting s) \<union> set (sv_workers s)"
    by (auto simp: frames_def task_frame_def)
  have "task_ok s'"
  proof (cases "sv_start s' = sv_start s")
    case True
    then show ?thesis
      using inv core_calm [OF c] visited_ok_mono [OF _ hot_calm [OF c]]
      by (auto simp: sup_inv_def task_ok_def profile_of_calm [OF c] exclusive_calm [OF c] has_identity_calm [OF c])
  next
    case False
    then obtain wid r l where e: "(wid, r) \<in> set (sv_waiting s) \<union> set (sv_workers s)"
      and st: "sv_start s' = Some \<lparr>st_id = wid, st_ref = r, st_lock = l, st_phase = StartLock\<rparr>"
      using fr by (auto simp: frames_def task_frame_def)
    have "r < sv_refs s" "mp_id (profile_of s r) = wid"
      using inv e unfolding sup_inv_def keys_ok_def by (metis Un_commute fst_conv snd_conv)+
    then show ?thesis
      using st core_calm [OF c] by (simp add: task_ok_def profile_of_calm [OF c] visited_ok_def)
  qed
  then show ?thesis using inv c w by (rule inv_calm [rotated -1])
qed

lemma inv_quiet: "sup_inv s \<Longrightarrow> quiet s s' \<Longrightarrow> sup_inv s'"
  using frames_quiet inv_frames by blast

lemma plain_visited: "plain_phase ph \<Longrightarrow>
    visited_ok s (t\<lparr>st_phase := ph\<rparr>) \<longleftrightarrow> (exclusive s (st_ref t) \<longrightarrow> (\<forall>e\<in>hot s. fst e = st_id t))"
  by (cases ph) (auto simp: visited_ok_def)

lemma task_ok_at:
  assumes "sup_inv s" and "sv_start s = Some t" and "calm s s'" and "plain_phase ph"
    and "sv_start s' = Some (t\<lparr>st_phase := ph\<rparr>)"
    and "exclusive s (st_ref t) \<Longrightarrow> \<forall>e\<in>hot s'. fst e = st_id t"
  shows "task_ok s'"
  using assms core_calm [OF assms(3)]
  by (auto simp: task_ok_def sup_inv_def plain_visited exclusive_calm [OF assms(3)] profile_of_calm [OF assms(3)])

lemma inv_settles:
  assumes "sup_inv s" and "sv_start s = Some t" and "settles t s s'"
    and "sv_start s' \<noteq> None \<Longrightarrow> exclusive s (st_ref t) \<Longrightarrow> \<forall>e\<in>hot s. fst e = st_id t"
  shows "sup_inv s'"
proof -
  have c: "calm s s'" and w: "sv_waiting s' = sv_waiting s" using assms(3) by (auto simp: settles_def)
  have "task_ok s'"
  proof (cases "sv_start s'")
    case None
    then show ?thesis by (simp add: task_ok_def)
  next
    case (Some t')
    then obtain ph where ph: "sv_start s' = Some (t\<lparr>st_phase := ph\<rparr>)" "plain_phase ph"
      using assms(3) by (auto simp: settles_def)
    show ?thesis
      by (rule task_ok_at [OF assms(1,2) c ph(2,1)]) (use assms(4) ph hot_calm [OF c] in auto)
  qed
  then show ?thesis using inv_calm [OF assms(1) c] w by simp
qed

section \<open>The stretches of a start keep the invariant\<close>

lemma start_state_quiet: "quiet s s' \<Longrightarrow> sv_start s' = sv_start s"
  by (simp add: quiet_def same_tasks_def)

lemma not_hot: "mw_process (sv_obj s r) = None \<Longrightarrow> e \<in> hot s \<Longrightarrow> snd e \<noteq> r"
  by (auto simp: hot_def running_iff)

lemma inv_loops:
  assumes "sup_inv s" and "sv_start s = Some t" and "start_loops w t it s = (res, s')"
    and "exclusive s (st_ref t) \<Longrightarrow> \<forall>e\<in>hot s. e \<in> set (snd it) \<longrightarrow> fst e = st_id t"
  shows "sup_inv s'"
  using start_loops_cases [OF assms(3)]
proof (elim disjE conjE exE)
  assume a: "settles t s s'" "sv_start s' = None"
  show ?thesis by (rule inv_settles [OF assms(1,2) a(1)]) (simp add: a(2))
next
  assume a: "settles t s s'" "length (sv_workers s) = fst it"
    "\<forall>e\<in>set (unvisited it s). \<not> must_stop (st_id t) s e"
  show ?thesis
    by (rule inv_settles [OF assms(1,2) a(1)])
       (use a(3) assms(4) in \<open>auto simp: hot_def unvisited_def must_stop_def\<close>)
next
  fix ws e l
  let ?ph = "StartStops (fst it, snd it @ ws @ [e]) (snd e) l StopLock"
  assume q: "quiet s (s'\<lparr>sv_start := sv_start s\<rparr>)" and st: "sv_start s' = Some (t\<lparr>st_phase := ?ph\<rparr>)"
    and ws: "\<forall>e'\<in>set ws. \<not> must_stop (st_id t) s e'"
  have c: "calm s s'"
    using q by (auto simp: quiet_def intro: calm_core simp: same_core_def)
  have "sv_waiting s' = sv_waiting s" using q by (simp add: quiet_def same_tasks_def)
  moreover have "visited_ok s' (t\<lparr>st_phase := ?ph\<rparr>)"
  proof (rule visited_ok_mono [OF _ hot_calm [OF c]])
    show "visited_ok s (t\<lparr>st_phase := ?ph\<rparr>)"
      using ws assms(4) by (auto simp: visited_ok_def hot_def must_stop_def)
  qed (simp add: exclusive_calm [OF c])
  then have "task_ok s'"
    using assms(1,2) core_calm [OF c] by (simp add: st task_ok_def sup_inv_def profile_of_calm [OF c])
  ultimately show ?thesis using inv_calm [OF assms(1) c] by simp
qed

lemma inv_enters:
  assumes "sup_inv s" and "sv_start s = Some t" and "start_enters w t s = (res, s')"
  shows "sup_inv s'"
proof -
  consider (leaves) "settles t s s'" "sv_start s' = None" | (loops) "start_loops w t (length (sv_workers s), []) s = (res, s')"
    | (shared) "settles t s s'" "\<not> exclusive s (st_ref t)"
    using assms(3) settles_raises [of s s t] settles_validates [of s s t w]
    by (auto simp: start_enters_def start_raises_def start_leaves_def split: if_splits option.splits)
  then show ?thesis
  proof cases
    case leaves
    then show ?thesis by (intro inv_settles [OF assms(1,2)]) simp_all
  next
    case loops
    then show ?thesis using inv_loops [OF assms(1,2)] by auto
  next
    case shared
    then show ?thesis by (intro inv_settles [OF assms(1,2)]) simp_all
  qed
qed

text \<open>A new process: the worker it belongs to is the only one that may become hot.\<close>

lemma inv_spawns:
  assumes inv: "sup_inv s" and st: "sv_start s = Some t"
    and alone: "exclusive s (st_ref t) \<Longrightarrow> \<forall>e\<in>hot s. fst e = st_id t" and ph: "plain_phase (st_phase t)"
    and sp: "start_spawns w t s = (res, s')"
  shows "sup_inv s'"
proof -
  let ?r = "st_ref t" let ?p = "sv_pids s"
  define s2 where "s2 = transition_to ?r LOADING ''Waiting for worker health and model load''
    (update_worker ?r (\<lambda>x. x\<lparr>mw_process := Some ?p, mw_started_at := Some (w_now w), mw_last_error := None\<rparr>)
      (s\<lparr>sv_pids := Suc ?p, sv_code := (sv_code s)(?p := None), sv_watches := sv_watches s @ [(?r, None)]\<rparr>))"
  have obj: "sv_obj s2 = (sv_obj s)(?r := sv_obj s ?r\<lparr>mw_process := Some ?p, mw_started_at := Some (w_now w),
      mw_last_error := None, mw_state := LOADING\<rparr>)"
    and fields: "sv_workers s2 = sv_workers s" "sv_waiting s2 = sv_waiting s" "sv_start s2 = sv_start s"
      "sv_refs s2 = sv_refs s" "sv_pids s2 = Suc ?p" "sv_code s2 = (sv_code s)(?p := None)"
    by (simp_all add: s2_def)
  have prof: "profile_of s2 r = profile_of s r" for r by (simp add: profile_of_def obj)
  have fresh: "mw_process (sv_obj s r) = Some p \<Longrightarrow> p < ?p" for r p
    using inv by (simp add: sup_inv_def keys_ok_def)
  have run: "running s2 r \<Longrightarrow> r = ?r \<or> running s r" for r
    using fresh [of r] by (auto simp: running_iff obj fields split: if_splits)
  have keys: "keys_ok s2"
    using inv less_SucI [OF fresh]
    by (auto simp: sup_inv_def keys_ok_def fields prof obj split: if_splits)
  have task: "mp_id (profile_of s ?r) = st_id t" "?r < sv_refs s"
    using inv st by (simp_all add: sup_inv_def task_ok_def)
  have key: "e \<in> hot s2 \<Longrightarrow> mp_id (profile_of s (snd e)) = fst e" for e
    using keys by (simp add: hot_def keys_ok_def prof)
  have own: "e \<in> hot s2 \<Longrightarrow> snd e = ?r \<Longrightarrow> e = (st_id t, ?r)" for e
    using key [of e] task by (cases e) auto
  have other: "e \<in> hot s2 \<Longrightarrow> snd e \<noteq> ?r \<Longrightarrow> e \<in> hot s" for e
    using run by (auto simp: hot_def fields exclusive_def prof)
  have excl: "e \<in> hot s2 \<Longrightarrow> exclusive s (snd e)" for e by (simp add: hot_def exclusive_def prof)
  have alone2: "\<forall>e\<in>hot s2. fst e = st_id t" if "exclusive s ?r"
    using alone [OF that] own other by (metis fst_conv)
  have "\<forall>e\<in>hot s2. \<forall>e'\<in>hot s2. e = e'"
  proof (cases "exclusive s ?r")
    case True
    have "distinct (map fst (sv_workers s2))" using keys by (simp add: keys_ok_def)
    then have inj: "inj_on fst (set (sv_workers s2))" by (simp add: distinct_map)
    have "e = e'" if "e \<in> hot s2" "e' \<in> hot s2" for e e'
    proof (rule inj_onD [OF inj])
      show "fst e = fst e'" using bspec [OF alone2 [OF True]] that by simp
    qed (use that in \<open>simp_all add: hot_def\<close>)
    then show ?thesis by blast
  next
    case False
    have sub: "e \<in> hot s" if "e \<in> hot s2" for e
    proof (rule other [OF that])
      show "snd e \<noteq> ?r" using excl [OF that] False by (intro notI) simp
    qed
    have "\<forall>e\<in>hot s. \<forall>e'\<in>hot s. e = e'" using inv by (simp add: sup_inv_def)
    then show ?thesis by (metis sub)
  qed
  moreover have "identity_ok s2"
    using inv by (auto simp: sup_inv_def identity_ok_def obj has_identity_def)
  moreover have "visited_ok s2 t"
    using alone2 ph plain_visited [of "st_phase t" s2 t] by (simp add: exclusive_def prof)
  then have "task_ok s2"
    using inv st ph by (auto simp: sup_inv_def task_ok_def fields prof)
  ultimately have inv2: "sup_inv s2" using keys by (simp add: sup_inv_def)
  have "settles t s2 s'"
  proof (cases "py_float_of (dget_or (mp_settings (profile_of s ?r)) ''startup_timeout_seconds''
                (VFloat (sv_startup_timeout s)))")
    case (Inl e)
    then have "start_crashes w t (exn_of e) s2 = (res, s')"
      using sp unfolding start_spawns_def Let_def s2_def by simp
    then show ?thesis using settles_crashes [of s2 s2 t w "exn_of e"] by simp
  next
    case (Inr x)
    then have "start_at t LoadingGet s2 = (res, s')"
      using sp unfolding start_spawns_def Let_def s2_def by simp
    then show ?thesis using settles_at [of s2 s2 LoadingGet t] by simp
  qed
  moreover have "sv_start s2 = Some t" using st fields by simp
  ultimately show ?thesis using inv_settles [OF inv2] alone2 by (simp add: exclusive_def prof)
qed

lemma inv_warms:
  assumes inv: "sup_inv s" and st: "sv_start s = Some t"
    and alone: "exclusive s (st_ref t) \<Longrightarrow> \<forall>e\<in>hot s. fst e = st_id t" and ph: "plain_phase (st_phase t)"
    and d: "dget d ''model_id'' = VStr (mp_model_id (profile_of s (st_ref t)))"
      "dget d ''revision'' = VStr (mp_revision (profile_of s (st_ref t)))"
    and sp: "start_warms w t d s = (res, s')"
  shows "sup_inv s'"
proof -
  let ?r = "st_ref t"
  define s2 where "s2 = transition_to ?r WARMING ''Running configured warmup''
    (update_worker ?r (\<lambda>x. x\<lparr>mw_resolved_identity := Some d\<rparr>) s)"
  have obj: "sv_obj s2 = (sv_obj s)(?r := sv_obj s ?r\<lparr>mw_resolved_identity := Some d, mw_state := WARMING\<rparr>)"
    and fields: "sv_workers s2 = sv_workers s" "sv_waiting s2 = sv_waiting s" "sv_start s2 = sv_start s"
      "sv_refs s2 = sv_refs s" "sv_pids s2 = sv_pids s" "sv_code s2 = sv_code s"
    by (simp_all add: s2_def)
  have prof: "profile_of s2 r = profile_of s r" for r by (simp add: profile_of_def obj)
  have run: "running s2 r = running s r" for r by (simp add: running_iff obj fields)
  have hot: "hot s2 = hot s" by (simp add: hot_def fields exclusive_def prof run)
  have id: "has_identity (sv_obj s2 ?r)" using d by (simp add: has_identity_def obj profile_of_def)
  have "identity_ok s2"
    using inv id by (auto simp: sup_inv_def identity_ok_def obj)
  moreover have "keys_ok s2"
    using inv by (auto simp: sup_inv_def keys_ok_def fields prof obj)
  moreover have "task_ok s2"
    using inv st ph by (auto simp: sup_inv_def task_ok_def fields prof visited_ok_def hot exclusive_def)
  ultimately have inv2: "sup_inv s2" using inv by (simp add: sup_inv_def hot)
  have st2: "sv_start s2 = Some t" using st fields by simp
  show ?thesis
  proof (cases "py_float_of (dget_or (mp_settings (profile_of s ?r)) ''warmup_timeout_seconds'' (VFloat (Fin 10)))")
    case (Inl e)
    then have "settles t s2 s'"
      using sp settles_crashes [of s2 s2 t w "exn_of e"] by (simp add: start_warms_def s2_def [symmetric])
    then show ?thesis using inv_settles [OF inv2 st2] alone by (simp add: exclusive_def prof hot)
  next
    case (Inr x)
    then have s': "s' = s2\<lparr>sv_start := Some (t\<lparr>st_phase := StartWarm\<rparr>)\<rparr>"
      using sp by (simp add: start_warms_def s2_def [symmetric] start_at_def)
    have c: "calm s2 s'" by (auto simp: s' intro: calm_core)
    have "visited_ok s2 (t\<lparr>st_phase := StartWarm\<rparr>)"
      using alone by (simp add: visited_ok_def hot exclusive_def prof)
    then have "visited_ok s' (t\<lparr>st_phase := StartWarm\<rparr>)"
      by (rule visited_ok_mono) (simp_all add: hot_calm [OF c] exclusive_calm [OF c])
    moreover have "st_ref t < sv_refs s2" "mp_id (profile_of s2 ?r) = st_id t"
      using inv2 st2 by (simp_all add: sup_inv_def task_ok_def)
    moreover have "sv_obj s' = sv_obj s2" "sv_refs s' = sv_refs s2" "profile_of s' ?r = profile_of s2 ?r"
      by (simp_all add: s' profile_of_def)
    ultimately have "task_ok s'" using id by (simp add: task_ok_def) (simp add: s')
    then show ?thesis using inv_calm [OF inv2 c] by (simp add: s')
  qed
qed

lemma inv_ready:
  assumes inv: "sup_inv s" and st: "sv_start s = Some t" and id: "has_identity (sv_obj s (st_ref t))"
    and sp: "start_ready t s = (res, s')"
  shows "sup_inv s'"
proof -
  let ?r = "st_ref t"
  define s2 where "s2 = transition_to ?r READY ''Worker passed health and warmup checks'' s"
  have s': "s' = start_leaves t s2" using sp by (simp add: start_ready_def s2_def Let_def)
  have obj: "sv_obj s' = (sv_obj s)(?r := sv_obj s ?r\<lparr>mw_state := READY\<rparr>)"
    and fields: "sv_workers s' = sv_workers s" "sv_waiting s' = sv_waiting s" "sv_start s' = None"
      "sv_refs s' = sv_refs s" "sv_pids s' = sv_pids s" "sv_code s' = sv_code s"
    by (simp_all add: s' s2_def start_leaves_def release_def)
  have prof: "profile_of s' r = profile_of s r" for r by (simp add: profile_of_def obj)
  have run: "running s' r = running s r" for r by (simp add: running_iff obj fields)
  have hot: "hot s' = hot s" by (simp add: hot_def fields exclusive_def prof run)
  have "has_identity (sv_obj s' r) = has_identity (sv_obj s r)" for r by (simp add: has_identity_def obj)
  then have "identity_ok s'" using inv id by (auto simp: sup_inv_def identity_ok_def obj)
  moreover have "keys_ok s'"
    using inv by (auto simp: sup_inv_def keys_ok_def fields prof obj)
  ultimately show ?thesis using inv by (simp add: sup_inv_def hot task_ok_def fields)
qed

text \<open>A verified identity has the model and the revision of the profile.\<close>

lemma mindex_mget: "mindex v k = Inr y \<Longrightarrow> mget v k = Inr y"
  by (auto simp: mindex_def mget_def py_index_def dget_def split: pyval.splits option.splits)

lemma no_mismatch: "mismatches rp pre v kxs = Inr [] \<Longrightarrow> (k, x) \<in> set kxs \<Longrightarrow> mget v k = Inr (VStr x)"
  by (induction kxs) (auto simp: rbind_eq_Inr eq_str_def split: if_splits)

lemma verified_identity:
  assumes "verify_identity rp p health model metrics = Inr (Verified d)"
  shows "dget d ''model_id'' = VStr (mp_model_id p) \<and> dget d ''revision'' = VStr (mp_revision p)"
proof -
  obtain mid rev where i: "mindex model ''model_id'' = Inr mid" "mindex model ''revision'' = Inr rev"
    and m: "mismatches rp [] model [(''model_id'', mp_model_id p), (''revision'', mp_revision p)] = Inr []"
    and d: "dget d ''model_id'' = mid" "dget d ''revision'' = rev"
    using assms unfolding verify_identity_def by (auto simp: rbind_eq_Inr dget_def split: if_splits)
  have "mget model ''model_id'' = Inr (VStr (mp_model_id p))" "mget model ''revision'' = Inr (VStr (mp_revision p))"
    by (rule no_mismatch [OF m], simp)+
  then show ?thesis using i [THEN mindex_mget] d by simp
qed

lemma inv_start_step:
  assumes inv: "sup_inv s" and st: "sv_start s = Some t" and step: "start_step w i t (st_phase t) s = Some (res, s')"
  shows "sup_inv s'"
proof -
  have vis: "visited_ok s t" and tok: "st_phase t = StartWarm \<Longrightarrow> has_identity (sv_obj s (st_ref t))"
    using inv st by (simp_all add: sup_inv_def task_ok_def)
  have settled: "sup_inv s'" if "settles t s s'" "plain_phase (st_phase t) \<or> st_phase t = StartWarm"
    using that vis inv_settles [OF inv st that(1)] by (cases "st_phase t") (auto simp: visited_ok_def)
  have fin: "x = (res, s') \<Longrightarrow> settles t s (snd x) \<Longrightarrow> plain_phase (st_phase t) \<or> st_phase t = StartWarm
      \<Longrightarrow> sup_inv s'" for x
    using settled by simp
  have alone: "plain_phase (st_phase t) \<Longrightarrow> exclusive s (st_ref t) \<Longrightarrow> \<forall>e\<in>hot s. fst e = st_id t"
    using vis plain_visited [of "st_phase t" s t] by simp
  show ?thesis
  proof (cases "st_phase t")
    case StartLock
    then have "start_enters w t (hold (st_lock t) s) = (res, s')"
      using step by (auto split: if_splits)
    then show ?thesis
      using inv_enters [OF inv_quiet [OF inv]] st by (metis quiet_simps(2) start_state_quiet)
  next
    case (StartStops it r l ph)
    then obtain j res1 s1 where j: "stop_step w j r l ph s = Some (res1, s1)"
      and s': "(case res1 of StopContinues ph1 \<Rightarrow> start_at t (StartStops it r l ph1) s1
           | StopReturns \<Rightarrow> start_loops w t it s1 | StopRaises e \<Rightarrow> start_raises t e s1) = (res, s')"
      using step by (auto split: start_input.splits)
    have q: "quiet s s1" by (rule quiet_stop_step [OF j])
    have inv1: "sup_inv s1" by (rule inv_quiet [OF inv q])
    have st1: "sv_start s1 = Some t" using st start_state_quiet [OF q] by simp
    show ?thesis
    proof (cases res1)
      case (StopContinues ph1)
      then have s1: "s' = s1\<lparr>sv_start := Some (t\<lparr>st_phase := StartStops it r l ph1\<rparr>)\<rparr>"
        using s' by (simp add: start_at_def)
      have c: "calm s1 s'" by (auto simp: s1 intro: calm_core)
      have "visited_ok s1 t" using inv1 st1 by (simp add: sup_inv_def task_ok_def)
      then have "visited_ok s' (t\<lparr>st_phase := StartStops it r l ph1\<rparr>)"
        by (simp add: s1 visited_ok_def StartStops hot_def exclusive_def profile_of_def running_iff)
      then have "task_ok s'"
        using inv1 st1 core_calm [OF c] by (simp add: s1 task_ok_def sup_inv_def profile_of_def)
      then show ?thesis using inv_calm [OF inv1 c] by (simp add: s1)
    next
      case StopReturns
      have "mw_process (sv_obj s1 r) = None"
        using j StopReturns stop_returns_without_process by blast
      then have "e \<in> hot s1 \<Longrightarrow> snd e \<noteq> r" for e using not_hot by blast
      moreover have "visited_ok s1 t" using inv1 st1 by (simp add: sup_inv_def task_ok_def)
      ultimately have "\<forall>e\<in>hot s1. e \<in> set (snd it) \<longrightarrow> fst e = st_id t" if "exclusive s1 (st_ref t)"
        using that by (auto simp: visited_ok_def StartStops)
      then show ?thesis using inv_loops [OF inv1 st1] s' StopReturns by simp
    next
      case (StopRaises e)
      then have "settles t s1 s'" "sv_start s' = None"
        using s' settles_raises [of s1 s1 t e] by (auto simp: start_raises_def start_leaves_def)
      then show ?thesis by (intro inv_settles [OF inv1 st1]) simp_all
    qed
  next
  case spawn: (StartSpawn l)
    then obtain a where a: "(case a of Some m \<Rightarrow> start_rejects t m (''Worker launch failed: '' @ m) s
        | None \<Rightarrow> start_spawns w t s) = (res, s')"
      using step by (auto split: start_input.splits)
    show ?thesis
    proof (cases a)
      case None
      then show ?thesis using a inv_spawns [OF inv st] alone spawn by simp
    next
      case (Some m)
      then show ?thesis using a fin [OF _ settles_rejects [of s s]] spawn by simp
    qed
  next
    case verify: StartVerify
    then obtain a where a: "(case a of
         Inl m \<Rightarrow> start_aborts w t INCOMPATIBLE (''Worker identity could not be verified: '' @ m) s
       | Inr (health, model, metrics) \<Rightarrow>
          (case verify_identity (h_repr (w_host w)) (profile_of s (st_ref t)) health model metrics of
             Inl e \<Rightarrow> start_crashes w t e s
           | Inr (Mismatch m) \<Rightarrow> start_aborts w t INCOMPATIBLE m s
           | Inr (Verified d) \<Rightarrow> start_warms w t d s)) = (res, s')"
      using step by (auto split: start_input.splits)
    have ph: "plain_phase (st_phase t)" by (simp add: verify)
    have warms: "sup_inv s'" if "verify_identity (h_repr (w_host w)) (profile_of s (st_ref t)) x y z = Inr (Verified d)"
      "start_warms w t d s = (res, s')" for x y z d
      using inv_warms [OF inv st alone [OF ph] ph] verified_identity [OF that(1)] that(2) by blast
    show ?thesis
      using a by (auto split: sum.splits prod.splits identity.splits simp: verify intro: warms
          elim: fin intro!: settles_all)
  next
    case warm: StartWarm
    then obtain a where a: "(case rbind a (\<lambda>v. mget v ''ready'') of
         Inl e \<Rightarrow> start_crashes w t e s
       | Inr v \<Rightarrow> if v = VBool True then start_ready t s
           else start_crashes w t (''RuntimeError'', ''worker warmup did not report readiness'') s) = (res, s')"
      using step by (auto split: start_input.splits)
    then show ?thesis
      using inv_ready [OF inv st tok [OF warm]]
      by (auto split: sum.splits if_splits simp: warm elim!: fin intro!: settles_all)
  qed (use step in \<open>auto split: start_input.splits option.splits if_splits sum.splits py_error.splits poll_result.splits
        elim!: fin intro!: settles_all\<close>)
qed

lemma inv_registers: "sup_inv s \<Longrightarrow> register_profile p s = (res, s') \<Longrightarrow> sup_inv s'"
proof (cases "dhas (sv_workers s) (mp_id p) \<or> list_ex (\<lambda>(_, r). mp_port (profile_of s r) = mp_port p) (sv_workers s)")
  case True
  then show "sup_inv s \<Longrightarrow> register_profile p s = (res, s') \<Longrightarrow> ?thesis"
    by (auto simp: register_profile_def split: if_splits)
next
  case False
  assume inv: "sup_inv s" and r: "register_profile p s = (res, s')"
  let ?n = "sv_refs s"
  have s': "s' = s\<lparr>sv_workers := sv_workers s @ [(mp_id p, ?n)],
                     sv_obj := (sv_obj s)(?n := new_worker p), sv_refs := Suc ?n\<rparr>"
    using r False by (auto simp: register_profile_def split: if_splits)
  have new: "mp_id p \<notin> fst ` set (sv_workers s)"
    using False by (simp add: dhas_def map_of_None_notin [symmetric])
  have prof: "r \<noteq> ?n \<Longrightarrow> profile_of s' r = profile_of s r" and run: "running s' r \<Longrightarrow> r \<noteq> ?n \<and> running s r" for r
    by (auto simp: s' profile_of_def running_iff new_worker_def split: if_splits)
  have hot: "hot s' \<subseteq> hot s"
    using run by (auto simp: hot_def exclusive_def prof) (auto simp: s')
  have small: "e \<in> set (sv_workers s) \<union> set (sv_waiting s) \<Longrightarrow> snd e < ?n" for e
    using inv by (simp add: sup_inv_def keys_ok_def)
  have "(a, ?n) \<notin> set (sv_workers s)" "(a, ?n) \<notin> set (sv_waiting s)" for a
    using small [of "(a, ?n)"] by auto
  then have "keys_ok s'"
    using inv new small prof
    by (auto simp: sup_inv_def keys_ok_def less_Suc_eq s' new_worker_def profile_of_def split: if_splits)
  moreover have "identity_ok s'"
    using inv by (auto simp: sup_inv_def identity_ok_def s' new_worker_def)
  moreover have "task_ok s'"
  proof -
    have "visited_ok s' t" if "sv_start s = Some t" for t
    proof (rule visited_ok_mono [OF _ hot])
      show "visited_ok s t" "exclusive s' (st_ref t) = exclusive s (st_ref t)"
        using inv that prof [of "st_ref t"] by (auto simp: sup_inv_def task_ok_def exclusive_def)
    qed
    moreover have "sv_start s' = sv_start s" "sv_refs s' = Suc ?n" by (simp_all add: s')
    moreover have "r \<noteq> ?n \<Longrightarrow> sv_obj s' r = sv_obj s r" for r by (simp add: s')
    ultimately show ?thesis
      using inv prof by (auto simp: sup_inv_def task_ok_def)
  qed
  ultimately show ?thesis using inv hot by (auto simp: sup_inv_def) blast+
qed

lemma inv_criticals: "sup_inv s \<Longrightarrow> frames s (s'\<lparr>sv_criticals := sv_criticals s\<rparr>) \<Longrightarrow> sup_inv s'"
proof -
  have "sup_inv (s'\<lparr>sv_criticals := cs\<rparr>) = sup_inv s'" for cs
    by (simp add: sup_inv_def keys_ok_def identity_ok_def task_ok_def visited_ok_def hot_def exclusive_def
        profile_of_def running_iff)
  then show "sup_inv s \<Longrightarrow> frames s (s'\<lparr>sv_criticals := sv_criticals s\<rparr>) \<Longrightarrow> ?thesis"
    using inv_frames by metis
qed

text \<open>The invariant holds over every run.\<close>

lemma inv_step:
  assumes inv: "sup_inv s" and st: "step e s = Some (rep, s')"
  shows "sup_inv s'"
proof (cases e)
  case (StartResumes w i)
  then obtain t where "sv_start s = Some t" "start_step w i t (st_phase t) s = Some (rep, s')"
    using st by (auto split: option.splits)
  then show ?thesis using inv_start_step [OF inv] by blast
next
  case (Registers p)
  obtain res s1 where "register_profile p s = (res, s1)" by fastforce
  then show ?thesis using st inv_registers [OF inv] by (cases res) (auto simp: Registers)
next
  case (CallsCritical w)
  then show ?thesis
    using st inv_criticals [OF inv] frames_critical_loops [of s w "(length (sv_workers s), [])"]
    by (auto simp: critical_call_def)
next
  case (CriticalResumes w n i)
  then show ?thesis using st inv_criticals [OF inv] frames_critical_resumes by auto
qed (use frames_step [OF st] inv_frames [OF inv] in simp_all)

lemma init_workers:
  assumes "\<forall>(r, p)\<in>set l. r < n \<and> ps ! r = p"
    and "distinct (map fst d)" and "\<forall>e\<in>set d. snd e < n \<and> mp_id (ps ! snd e) = fst e"
  shows "distinct (map fst (fold (\<lambda>(r, p) d. AList.update (mp_id p) r d) l d))
     \<and> (\<forall>e\<in>set (fold (\<lambda>(r, p) d. AList.update (mp_id p) r d) l d). snd e < n \<and> mp_id (ps ! snd e) = fst e)"
  using assms
proof (induction l arbitrary: d)
  case (Cons x l)
  obtain r p where x: "x = (r, p)" by fastforce
  let ?d = "AList.update (mp_id p) r d"
  have sub: "set ?d \<subseteq> insert (mp_id p, r) (set d)"
    by (induction d) auto
  have rp: "case x of (r, p) \<Rightarrow> r < n \<and> ps ! r = p" using Cons.prems(1) by simp
  then have p: "r < n" "mp_id (ps ! r) = mp_id p" by (simp_all add: x)
  have "snd e < n \<and> mp_id (ps ! snd e) = fst e" if "e \<in> set ?d" for e
  proof (cases "e = (mp_id p, r)")
    case False
    then have "e \<in> set d" using that sub by auto
    then show ?thesis using Cons.prems(3) by simp
  qed (simp add: p)
  moreover have "distinct (map fst ?d)" using Cons.prems(2) by (rule AList.distinct_update)
  moreover have "\<forall>(r, p)\<in>set l. r < n \<and> ps ! r = p" using Cons.prems(1) by simp
  moreover have "fold (\<lambda>(r, p) d. AList.update (mp_id p) r d) (x # l) d
      = fold (\<lambda>(r, p) d. AList.update (mp_id p) r d) l ?d" by (simp add: x)
  ultimately show ?case by (simp only:) (rule Cons.IH, auto)
qed simp

lemma inv_init: "sup_inv (supervisor_init ps timeout dir)"
proof -
  let ?s = "supervisor_init ps timeout dir"
  have z: "\<forall>(r, p)\<in>set (zip [0..<length ps] ps). r < length ps \<and> ps ! r = p"
    by (auto simp: set_zip)
  have w: "distinct (map fst (sv_workers ?s)) \<and> (\<forall>e\<in>set (sv_workers ?s). snd e < length ps \<and> mp_id (ps ! snd e) = fst e)"
    using init_workers [OF z, of "[]"] by (simp add: supervisor_init_def)
  have f: "sv_waiting ?s = []" "sv_refs ?s = length ps" "profile_of ?s r = ps ! r" "mw_process (sv_obj ?s r) = None"
    "mw_resolved_identity (sv_obj ?s r) = None" "mw_state (sv_obj ?s r) = STOPPED" "sv_start ?s = None" for r
    by (simp_all add: supervisor_init_def profile_of_def new_worker_def)
  have "keys_ok ?s" using w by (simp add: keys_ok_def f)
  moreover have "hot ?s = {}" by (simp add: hot_def running_iff f)
  ultimately show ?thesis by (simp add: sup_inv_def identity_ok_def task_ok_def f)
qed

lemma inv_runs: "runs_to s es s' \<Longrightarrow> sup_inv s \<Longrightarrow> sup_inv s'"
  by (induction rule: runs_to.induct) (auto simp: steps_to_iff intro: inv_step)

lemma inv_reachable: "reachable ps s \<Longrightarrow> sup_inv s"
  using inv_runs inv_init by (auto simp: reachable_def)

end
