(* ===== verification/Supervisor_Properties.thy ===== *)
theory Supervisor_Properties
  imports Supervisor_Safety Launch_Safety
begin

text \<open>
  The properties of the worker supervisor, over every run of its transition system, and the two
  ways in which a start in flight defeats what the code intends: it survives a critical stop, and
  the report of an identity mismatch is overwritten by the exit it causes.
\<close>

section \<open>The kinds of stretches of a start\<close>

definition tame :: "supervisor \<Rightarrow> supervisor \<Rightarrow> bool" where
  "tame s s' \<longleftrightarrow> calm s s' \<and> sv_criticals s' = sv_criticals s"

lemma tame_settles: "settles t s s' \<Longrightarrow> tame s s'"
  by (simp add: settles_def tame_def)

lemma tameI: "x = (res, s') \<Longrightarrow> settles t s (snd x) \<Longrightarrow> tame s s'"
  using tame_settles by fastforce

lemma tame_after: "quiet s s1 \<Longrightarrow> tame s1 s2 \<Longrightarrow> tame s s2"
  by (auto simp: quiet_def same_tasks_def tame_def intro: calm_trans)

lemma tame_loops: "start_loops w t it s = (res, s') \<Longrightarrow> tame s s'"
proof (drule start_loops_cases, elim disjE conjE exE)
  fix ws e l
  assume "quiet s (s'\<lparr>sv_start := sv_start s\<rparr>)"
  then show ?thesis
    by (auto simp: quiet_def tame_def same_tasks_def intro: calm_core simp: same_core_def)
qed (auto intro: tame_settles)

lemma tame_enters: "start_enters w t s = (res, s') \<Longrightarrow> tame s s'"
  using tame_settles [OF settles_raises [of s s t]] tame_settles [OF settles_validates [of s s t w]]
    tame_loops [of w t "(length (sv_workers s), [])" s res s']
  by (auto simp: start_enters_def start_raises_def split: if_splits option.splits)

lemma tame_builders:
  "start_raises t e s = (res, s') \<Longrightarrow> tame s s'"
  "start_crashes w t e s = (res, s') \<Longrightarrow> tame s s'"
  "start_aborts w t INCOMPATIBLE m s = (res, s') \<Longrightarrow> tame s s'"
  "start_rejects t m1 m2 s = (res, s') \<Longrightarrow> tame s s'"
  "start_builds w t s = (res, s') \<Longrightarrow> tame s s'"
  "start_checks w t s = (res, s') \<Longrightarrow> tame s s'"
  "port_in_use t s = (res, s') \<Longrightarrow> tame s s'"
  by (auto elim!: tameI intro!: settles_all)

lemma tame_kill: "kill_step w j k s = Some ks \<Longrightarrow> start_killing t ks = (res, s') \<Longrightarrow> tame s s'"
  by (auto elim!: tameI intro!: settles_kill)

lemma tame_at: "start_at t ph s = (res, s') \<Longrightarrow> tame s s'"
  by (auto simp: start_at_def tame_def intro!: calm_core [OF calm_refl])

lemma tame_stops:
  assumes "stop_step w j r l ph s = Some (res1, s1)"
    and "(case res1 of StopContinues ph1 \<Rightarrow> start_at t (StartStops it r l ph1) s1
           | StopReturns \<Rightarrow> start_loops w t it s1 | StopRaises e \<Rightarrow> start_raises t e s1) = (res, s')"
  shows "tame s s'"
proof (rule tame_after [OF quiet_stop_step [OF assms(1)]])
  show "tame s1 s'"
    using assms(2) by (cases res1) (auto intro: tame_at tame_loops tame_builders)
qed

lemma start_step_kinds:
  assumes "start_step w i t (st_phase t) s = Some (res, s')"
  shows "tame s s'
     \<or> (i = SpawnAnswer None \<and> start_spawns w t s = (res, s'))
     \<or> (\<exists>d. st_phase t = StartVerify \<and> start_warms w t d s = (res, s'))
     \<or> (st_phase t = StartWarm \<and> start_ready t s = (res, s'))"
proof (cases "st_phase t")
  case StartLock
  then have "start_enters w t (hold (st_lock t) s) = (res, s')" using assms by (auto split: if_splits)
  then show ?thesis using tame_after [OF quiet_simps(2) tame_enters] by blast
next
  case (StartStops it r l ph)
  then obtain j res1 s1 where "stop_step w j r l ph s = Some (res1, s1)"
    and "(case res1 of StopContinues ph1 \<Rightarrow> start_at t (StartStops it r l ph1) s1
         | StopReturns \<Rightarrow> start_loops w t it s1 | StopRaises e \<Rightarrow> start_raises t e s1) = (res, s')"
    using assms by (auto split: start_input.splits)
  then show ?thesis using tame_stops by blast
next
  case StartVerify
  show ?thesis
    using assms StartVerify
    by (auto split: start_input.splits sum.splits prod.splits identity.splits intro: tame_builders)
next
  case StartWarm
  show ?thesis
    using assms StartWarm
    by (auto split: start_input.splits sum.splits if_splits elim!: tameI intro!: settles_all)
next
  case (StartSpawn l)
  show ?thesis
    using assms StartSpawn
    by (auto split: start_input.splits option.splits elim!: tameI intro!: settles_all)
qed (use assms in \<open>auto split: start_input.splits option.splits if_splits sum.splits py_error.splits
      poll_result.splits intro: tame_builders tame_at tame_kill\<close>)

text \<open>A stretch that starts a process or warms up is one change and then a tame rest.\<close>

lemma spawns_cases:
  assumes "start_spawns w t s = (res, s')"
  obtains f s1 where "tame (transition_to (st_ref t) LOADING ''Waiting for worker health and model load''
      (update_worker (st_ref t) f s1)) s'" "sv_events s1 = sv_events s" "sv_history s1 = sv_history s"
  using assms unfolding start_spawns_def Let_def
  by (auto split: sum.splits dest!: tame_builders tame_at)

lemma warms_cases:
  assumes "start_warms w t d s = (res, s')"
  obtains "tame (transition_to (st_ref t) WARMING ''Running configured warmup''
      (update_worker (st_ref t) (\<lambda>x. x\<lparr>mw_resolved_identity := Some d\<rparr>) s)) s'"
  using assms unfolding start_warms_def Let_def
  by (auto split: sum.splits dest!: tame_builders tame_at)

section \<open>Events\<close>

interpretation event_history: bounded_buffer "deque_push MAX_EVENTS" MAX_EVENTS
  by (rule deque_push_buffer) (simp add: MAX_EVENTS_def)

inductive emits :: "supervisor \<Rightarrow> supervisor \<Rightarrow> bool" where
  emits_refl [intro!]: "emits s s"
| emits_same: "emits s s1 \<Longrightarrow> sv_events s2 = sv_events s1 \<Longrightarrow> sv_history s2 = sv_history s1 \<Longrightarrow> emits s s2"
| emits_transition: "emits s s1 \<Longrightarrow> emits s (transition_to r st m s1)"
| emits_take: "emits s s1 \<Longrightarrow> emits s (s1\<lparr>sv_events := tl (sv_events s1)\<rparr>)"

lemma emits_trans: "emits s2 s3 \<Longrightarrow> emits s1 s2 \<Longrightarrow> emits s1 s3"
  by (induction rule: emits.induct) (auto intro: emits.intros)

lemma emits_calm: "calm s s' \<Longrightarrow> emits s s'"
  by (induction rule: calm.induct) (auto intro: emits.intros emits_same simp: same_core_def)

lemma emits_tame: "tame s1 s2 \<Longrightarrow> emits s s1 \<Longrightarrow> emits s s2"
  by (rule emits_trans [OF emits_calm]) (simp_all add: tame_def)

lemma emits_update: "emits s (update_worker r f s)"
  by (rule emits_same [OF emits_refl]) simp_all

lemma emits_start:
  assumes "start_step w i t (st_phase t) s = Some (res, s')"
  shows "emits s s'"
  using start_step_kinds [OF assms]
proof (elim disjE conjE exE)
  assume "start_spawns w t s = (res, s')"
  then show ?thesis
  proof (rule spawns_cases)
    fix f s1
    assume t: "tame (transition_to (st_ref t) LOADING ''Waiting for worker health and model load'' (update_worker (st_ref t) f s1)) s'"
      and "sv_events s1 = sv_events s" "sv_history s1 = sv_history s"
    then have "emits s (update_worker (st_ref t) f s1)" by (intro emits_same [OF emits_refl]) simp_all
    then show "emits s s'" by (intro emits_tame [OF t] emits_transition)
  qed
next
  fix d assume "start_warms w t d s = (res, s')"
  then show ?thesis by (rule warms_cases) (blast intro: emits_tame emits_transition emits_update)
next
  assume "start_ready t s = (res, s')"
  then have "s' = start_leaves t (transition_to (st_ref t) READY ''Worker passed health and warmup checks'' s)"
    by (simp add: start_ready_def Let_def)
  then show ?thesis
    by (auto simp: start_leaves_def release_def intro: emits_same [OF emits_transition [OF emits_refl]])
qed (auto intro: emits_tame)

lemma frames_emits: "frames s (s'\<lparr>sv_criticals := cs\<rparr>) \<Longrightarrow> emits s s'"
  by (auto simp: frames_def intro: emits_same [OF emits_calm])

lemma emits_step:
  assumes st: "step e s = Some (rep, s')"
  shows "emits s s'"
proof (cases e)
  case (StartResumes w i)
  then show ?thesis using st emits_start by (auto split: option.splits)
next
  case (Registers p)
  then have "sv_events s' = sv_events s" "sv_history s' = sv_history s"
    using st by (auto simp: register_profile_def split: if_splits)
  then show ?thesis by (rule emits_same [OF emits_refl])
next
  case (CallsCritical w)
  then show ?thesis
    using st frames_emits [OF frames_critical_loops [of s w "(length (sv_workers s), [])"]]
    by (auto simp: critical_call_def)
next
  case (CriticalResumes w n i)
  then show ?thesis using st frames_emits [OF frames_critical_resumes] by auto
qed (use frames_step [OF st] emits_calm in \<open>simp_all add: frames_def\<close>)

definition events_ok :: "supervisor \<Rightarrow> bool" where
  "events_ok s \<longleftrightarrow> length (sv_history s) \<le> MAX_EVENTS \<and> suffix (sv_events s) (sv_history s)"

lemma queue_follows_history:
  assumes "length h \<le> MAX_EVENTS" and "suffix q h"
  shows "suffix (queue_put e q) (deque_push MAX_EVENTS e h)"
proof -
  obtain pre where h: "h = pre @ q" using assms(2) by (auto simp: suffix_def)
  show ?thesis
  proof (cases "length h < MAX_EVENTS")
    case True
    then show ?thesis by (simp add: deque_push_def queue_put_def h suffixI [OF HOL.refl])
  next
    case False
    then have len: "length h = MAX_EVENTS" using assms(1) by simp
    then have h': "deque_push MAX_EVENTS e h = tl h @ [e]"
      by (cases h) (simp_all add: deque_push_def MAX_EVENTS_def)
    show ?thesis
    proof (cases pre)
      case Nil
      then show ?thesis using len unfolding h' by (simp add: queue_put_def h)
    next
      case (Cons x xs)
      then have "\<not> MAX_EVENTS \<le> length q" using len by (simp add: h)
      then show ?thesis unfolding h' by (simp add: queue_put_def h Cons suffixI [OF HOL.refl])
    qed
  qed
qed

lemma events_ok_emits: "emits s s' \<Longrightarrow> events_ok s \<Longrightarrow> events_ok s'"
proof (induction rule: emits.induct)
  case (emits_transition s s1 r st m)
  then show ?case
    using queue_follows_history event_history.push_length
    by (auto simp: events_ok_def transition_to_def Let_def)
next
  case (emits_take s s1)
  then show ?case
    by (cases "sv_events s1") (auto simp: events_ok_def dest: suffix_ConsD)
qed (auto simp: events_ok_def)

lemma events_ok_runs: "runs_to s es s' \<Longrightarrow> events_ok s \<Longrightarrow> events_ok s'"
  by (induction rule: runs_to.induct) (auto simp: steps_to_iff intro: events_ok_emits emits_step)

section \<open>Critical stops\<close>

definition crit_ok :: "supervisor \<Rightarrow> bool" where
  "crit_ok s \<longleftrightarrow> (\<forall>(it, r, k)\<in>set (sv_criticals s). \<forall>e\<in>set (sv_workers s).
     e \<in> set (snd it) \<longrightarrow> running s (snd e) \<longrightarrow> snd e = r)"

definition no_newcomer :: "supervisor \<Rightarrow> supervisor \<Rightarrow> bool" where
  "no_newcomer s s' \<longleftrightarrow> (\<forall>e\<in>set (sv_workers s'). running s' (snd e) \<longrightarrow> e \<in> set (sv_workers s) \<and> running s (snd e))"

lemma no_newcomer_calm: "calm s s' \<Longrightarrow> no_newcomer s s'"
  using core_calm [of s s'] by (auto simp: no_newcomer_def intro: running_calm)

lemma crit_okD: "crit_ok s \<Longrightarrow> (it, r, k) \<in> set (sv_criticals s) \<Longrightarrow> e \<in> set (sv_workers s)
    \<Longrightarrow> e \<in> set (snd it) \<Longrightarrow> running s (snd e) \<Longrightarrow> snd e = r"
  unfolding crit_ok_def by (auto dest!: bspec)

lemma crit_okI: "(\<And>it r k e. (it, r, k) \<in> set (sv_criticals s) \<Longrightarrow> e \<in> set (sv_workers s)
    \<Longrightarrow> e \<in> set (snd it) \<Longrightarrow> running s (snd e) \<Longrightarrow> snd e = r) \<Longrightarrow> crit_ok s"
  unfolding crit_ok_def by auto

lemma crit_ok_keeps:
  assumes "crit_ok s" and n: "no_newcomer s s'" and c: "set (sv_criticals s') \<subseteq> set (sv_criticals s)"
  shows "crit_ok s'"
proof (rule crit_okI)
  fix it r k e
  assume a: "(it, r, k) \<in> set (sv_criticals s')" "e \<in> set (sv_workers s')" "e \<in> set (snd it)" "running s' (snd e)"
  then have "e \<in> set (sv_workers s)" "running s (snd e)" using n by (auto simp: no_newcomer_def)
  then show "snd e = r" using crit_okD [OF assms(1) subsetD [OF c a(1)]] a(3) by blast
qed

lemma crit_ok_quiet: "crit_ok s \<Longrightarrow> quiet s s' \<Longrightarrow> crit_ok s'"
  by (rule crit_ok_keeps) (auto simp: quiet_def same_tasks_def intro: no_newcomer_calm)

lemma critical_loops_spec:
  assumes l: "critical_loops w it s = (rep, s')" and ok: "crit_ok s"
    and v: "\<forall>e\<in>set (sv_workers s). e \<in> set (snd it) \<longrightarrow> \<not> running s (snd e)"
  shows "crit_ok s' \<and> (rep = Done \<longrightarrow> (\<forall>e\<in>set (sv_workers s'). \<not> running s' (snd e)))"
proof (cases "length (sv_workers s) \<noteq> fst it")
  case True
  then show ?thesis using l ok by (auto simp: critical_loops_def)
next
  case len: False
  let ?keep = "\<lambda>e. \<not> running s (snd e)"
  show ?thesis
  proof (cases "dropWhile ?keep (unvisited it s)")
    case Nil
    have "s' = s" using l len unfolding critical_loops_def Let_def Nil by simp
    moreover have "\<forall>e\<in>set (sv_workers s). \<not> running s (snd e)"
      using Nil v by (auto simp: dropWhile_eq_Nil_conv unvisited_def)
    ultimately show ?thesis using ok by simp
  next
    case (Cons e es)
    then have "running s (snd e)" using hd_dropWhile [of ?keep "unvisited it s"] by auto
    then obtain p where p: "mw_process (sv_obj s (snd e)) = Some p" by (auto simp: running_iff)
    let ?q = "send_signal p SIGTERM (transition_to (snd e) STOPPING ''Critical thermal safety stop'' s)"
    have s': "rep = Pending" "s' = ?q\<lparr>sv_criticals := sv_criticals s
        @ [((fst it, snd it @ takeWhile ?keep (unvisited it s) @ [e]), snd e, KillWait p)]\<rparr>"
      using l len p unfolding critical_loops_def Let_def Cons by simp_all
    have same: "sv_workers s' = sv_workers s" "running s' r = running s r" for r
      by (simp_all add: s' send_signal_def running_iff)
    have "crit_ok s'"
    proof (rule crit_okI)
      fix it' r k e'
      assume a: "(it', r, k) \<in> set (sv_criticals s')" "e' \<in> set (sv_workers s')" "e' \<in> set (snd it')" "running s' (snd e')"
      then have e': "e' \<in> set (sv_workers s)" "running s (snd e')" by (simp_all add: same)
      show "snd e' = r"
      proof (cases "(it', r, k) \<in> set (sv_criticals s)")
        case True
        then show ?thesis using crit_okD [OF ok True] e' a(3) by blast
      next
        case False
        then have "it' = (fst it, snd it @ takeWhile ?keep (unvisited it s) @ [e])" "r = snd e"
          using a(1) by (auto simp: s'(2))
        then show ?thesis using a(3) e' v by (auto dest: set_takeWhileD)
      qed
    qed
    then show ?thesis by (simp add: s'(1))
  qed
qed

lemma crit_step:
  assumes st: "step e s = Some (rep, s')" and quiet: "\<forall>w. e \<noteq> StartResumes w (SpawnAnswer None)" and ok: "crit_ok s"
  shows "crit_ok s' \<and> (rep = Done \<longrightarrow> (\<exists>w. e = CallsCritical w) \<or> (\<exists>w n i. e = CriticalResumes w n i)
     \<longrightarrow> (\<forall>e\<in>set (sv_workers s'). \<not> running s' (snd e)))"
proof (cases e)
  case (StartResumes w i)
  then obtain t where t: "start_step w i t (st_phase t) s = Some (rep, s')" using st by (auto split: option.splits)
  have i: "i \<noteq> SpawnAnswer None" using quiet StartResumes by auto
  have "no_newcomer s s' \<and> sv_criticals s' = sv_criticals s"
    using start_step_kinds [OF t]
  proof (elim disjE conjE exE)
    assume "tame s s'" then show ?thesis by (auto simp: tame_def intro: no_newcomer_calm)
  next
    fix d assume "start_warms w t d s = (rep, s')"
    then show ?thesis
    proof (rule warms_cases)
      let ?s1 = "transition_to (st_ref t) WARMING ''Running configured warmup''
          (update_worker (st_ref t) (\<lambda>x. x\<lparr>mw_resolved_identity := Some d\<rparr>) s)"
      assume "tame ?s1 s'"
      then have "no_newcomer ?s1 s'" "sv_criticals s' = sv_criticals s" by (auto simp: tame_def intro: no_newcomer_calm)
      moreover have "running ?s1 r = running s r" for r by (simp add: running_iff)
      ultimately show ?thesis by (simp add: no_newcomer_def)
    qed
  next
    assume "start_ready t s = (rep, s')"
    then have s': "s' = start_leaves t (transition_to (st_ref t) READY ''Worker passed health and warmup checks'' s)"
      by (simp add: start_ready_def Let_def)
    have "running s' r = running s r" for r by (simp add: s' start_leaves_def release_def running_iff)
    then show ?thesis by (simp add: no_newcomer_def s' start_leaves_def release_def)
  qed (simp add: i)
  then have "crit_ok s'" by (intro crit_ok_keeps [OF ok]) simp_all
  then show ?thesis using StartResumes by simp
next
  case (Registers p)
  have "no_newcomer s s' \<and> sv_criticals s' = sv_criticals s"
    using st Registers by (auto simp: register_profile_def no_newcomer_def running_iff new_worker_def split: if_splits)
  then have "crit_ok s'" by (intro crit_ok_keeps [OF ok]) simp_all
  then show ?thesis using Registers by simp
next
  case (CallsCritical w)
  then show ?thesis
    using st critical_loops_spec [of w "(length (sv_workers s), [])" s rep s'] ok by (simp add: critical_call_def)
next
  case (CriticalResumes w n i)
  then have "critical_resumes w n i s = Some (rep, s')" using st by simp
  then show ?thesis
  proof (cases rule: critical_resumes_cases)
    case (1 it r k k1 s1)
    have q: "quiet s s1" by (rule quiet_kill [OF 1(3)])
    have ok1: "crit_ok s1" by (rule crit_ok_quiet [OF ok q])
    have in1: "(it, r, k) \<in> set (sv_criticals s1)"
      using nth_mem [OF 1(1)] 1(2) q by (simp add: quiet_def same_tasks_def)
    have "crit_ok s'"
    proof (rule crit_okI)
      fix it' r' k' e
      assume a: "(it', r', k') \<in> set (sv_criticals s')" "e \<in> set (sv_workers s')" "e \<in> set (snd it')" "running s' (snd e)"
      then have e: "e \<in> set (sv_workers s1)" "running s1 (snd e)" by (simp_all add: 1(4) running_iff)
      have "(it', r', k') \<in> set (sv_criticals s1) \<or> (it', r', k') = (it, r, k1)"
        using a(1) set_update_subset_insert [of "sv_criticals s1" n "(it, r, k1)"] by (auto simp: 1(4))
      then show "snd e = r'" using crit_okD [OF ok1] in1 e a(3) by blast
    qed
    then show ?thesis by (simp add: 1(5))
  next
    case (2 it r k s1)
    let ?s2 = "s1\<lparr>sv_criticals := take n (sv_criticals s1) @ drop (Suc n) (sv_criticals s1)\<rparr>"
    let ?s3 = "critical_isolates r ?s2"
    have q: "quiet s s1" by (rule quiet_kill [OF 2(3)])
    have ok1: "crit_ok s1" by (rule crit_ok_quiet [OF ok q])
    have in1: "(it, r, k) \<in> set (sv_criticals s1)" using nth_mem [OF 2(1)] 2(2) q by (simp add: quiet_def same_tasks_def)
    have "crit_ok ?s2"
      by (rule crit_ok_keeps [OF ok1]) (auto simp: no_newcomer_def running_iff dest: in_set_takeD in_set_dropD)
    then have "crit_ok ?s3" using crit_ok_quiet quiet_isolates by blast
    moreover have "\<not> running ?s3 (snd e)" if "e \<in> set (sv_workers ?s3)" "e \<in> set (snd it)" for e
    proof
      assume run: "running ?s3 (snd e)"
      have e: "e \<in> set (sv_workers s1)" using that(1) by (simp add: critical_isolates_def)
      have "snd e \<noteq> r" using run by (auto simp: critical_isolates_def running_iff)
      then have "running s1 (snd e)" using run by (auto simp: critical_isolates_def running_iff)
      then show False using crit_okD [OF ok1 in1 e that(2)] \<open>snd e \<noteq> r\<close> by blast
    qed
    ultimately show ?thesis using critical_loops_spec [OF 2(4)] by simp
  qed
qed (use frames_step [OF st] ok in \<open>simp_all add: frames_def task_frame_def crit_ok_keeps no_newcomer_calm\<close>)

section \<open>Example states\<close>

definition exclusive_profile :: model_profile where
  "exclusive_profile = example_profile\<lparr>mp_lifecycle := EXCLUSIVE\<rparr>"

definition example_world :: world where
  "example_world = \<lparr>w_now = 0, w_session = ''s'', w_port_free = True, w_group_gone = True, w_thermal = None,
     w_harness = False, w_host = example_host\<rparr>"

text \<open>One exclusive worker whose process runs, watched; and the same worker about to be verified.\<close>

definition running_worker :: managed_worker where
  "running_worker = (new_worker exclusive_profile)\<lparr>mw_state := READY, mw_process := Some 0\<rparr>"

definition running_state :: supervisor where
  "running_state = (supervisor_init [exclusive_profile] (Fin 10) ''.modeldeck'')
     \<lparr>sv_obj := (\<lambda>_. running_worker), sv_pids := 1, sv_watches := [(0, Some 0)]\<rparr>"

definition start_of :: "start_phase \<Rightarrow> start_task" where
  "start_of ph = \<lparr>st_id = mp_id exclusive_profile, st_ref = 0, st_lock = 0, st_phase = ph\<rparr>"

definition spawning_state :: "worker_launch \<Rightarrow> supervisor" where
  "spawning_state l = (supervisor_init [exclusive_profile] (Fin 10) ''.modeldeck'')
     \<lparr>sv_start := Some (start_of (StartSpawn l)), sv_held := [0]\<rparr>"

lemmas example_defs = running_state_def running_worker_def start_of_def spawning_state_def supervisor_init_def
  new_worker_def exclusive_profile_def example_profile_def example_world_def

lemma launchable: "\<exists>l. build_worker_launch False example_host (Some ''.modeldeck'') exclusive_profile = Inr l"
proof -
  have "is_ok (build_worker_launch False example_host (Some ''.modeldeck'') exclusive_profile)"
    by (simp add: build_worker_launch_def Let_def TRUSTED_LAUNCH_BUILDERS_def example_host_def exclusive_profile_def
        example_profile_def transformers_rocm_launch_def autoregressive_launch_def rocm_python_def require_def)
  then show ?thesis by (simp add: is_ok_iff)
qed

text \<open>A run that starts the worker.\<close>

lemma exclusive_profile_facts:
  "mp_lifecycle exclusive_profile = EXCLUSIVE" "mp_preferred_runtime exclusive_profile \<notin> set LLAMA_RUNTIMES"
  "mp_settings exclusive_profile = []"
  by (simp_all add: exclusive_profile_def example_profile_def LLAMA_RUNTIMES_def)

definition only_process :: "supervisor \<Rightarrow> bool" where
  "only_process s \<longleftrightarrow> sv_workers s = [(fst (hd (sv_workers s)), 0)] \<and> mw_process (sv_obj s 0) = Some 0 \<and> sv_code s 0 = None \<and> sv_pids s = 1
     \<and> sv_stops s = [] \<and> sv_removes s = [] \<and> sv_criticals s = []"

lemma only_process_run:
  "only_process s \<Longrightarrow> only_process (s\<lparr>sv_start := t\<rparr>)" "only_process s \<Longrightarrow> only_process (release l s)"
  "only_process s \<Longrightarrow> only_process (transition_to r st m s)"
  "only_process s \<Longrightarrow> \<forall>w. mw_process (f w) = mw_process w \<Longrightarrow> only_process (update_worker r f s)"
  by (auto simp: only_process_def release_def transition_to_def update_worker_def Let_def)

lemma reachable_loading:
  fixes w :: world
  assumes p: "mp_lifecycle p = EXCLUSIVE" "mp_preferred_runtime p \<notin> set LLAMA_RUNTIMES" "mp_settings p = []"
    and l: "build_worker_launch (w_harness w) (w_host w) (Some dir) p = Inr l"
    and w: "w_thermal w = None" "w_port_free w"
  shows "\<exists>s. reachable [p] s \<and> sv_workers s = [(mp_id p, 0)] \<and> exclusive s 0 \<and> running s 0 \<and> profile_of s 0 = p
    \<and> sv_start s = Some \<lparr>st_id = mp_id p, st_ref = 0, st_lock = 0, st_phase = LoadingGet\<rparr> \<and> only_process s"
proof -
  let ?s0 = "supervisor_init [p] (Fin 10) dir"
  let ?t = "\<lparr>st_id = mp_id p, st_ref = 0, st_lock = 0, st_phase = StartLock\<rparr>"
  let ?s1 = "?s0\<lparr>sv_waiting := [(mp_id p, 0)]\<rparr>"
  let ?s2 = "?s0\<lparr>sv_locks := [(mp_id p, 0)], sv_next_lock := Suc 0, sv_start := Some ?t\<rparr>"
  let ?v = "transition_to 0 VALIDATING ''Validating allowlisted worker manifest''
        (update_worker 0 (\<lambda>x. x\<lparr>mw_log_session_id := Some (w_session w)\<rparr>) (hold 0 ?s2))"
  let ?s3 = "(transition_to 0 STARTING ''Starting isolated worker process''
        (update_worker 0 (\<lambda>x. x\<lparr>mw_launch_environment := wl_environment l\<rparr>) ?v))
      \<lparr>sv_start := Some (?t\<lparr>st_phase := StartSpawn l\<rparr>)\<rparr>"
  have init: "sv_workers ?s0 = [(mp_id p, 0)]" "sv_start ?s0 = None" "sv_waiting ?s0 = []" "sv_locks ?s0 = []"
    "sv_next_lock ?s0 = 0" "sv_held ?s0 = []" "sv_obj ?s0 0 = new_worker p" "sv_data_dir ?s0 = dir"
    "sv_startup_timeout ?s0 = Fin 10" "sv_code ?s0 n = None" "sv_pids ?s0 = 0"
    "sv_stops ?s0 = []" "sv_removes ?s0 = []" "sv_criticals ?s0 = []" for n
    by (simp_all add: supervisor_init_def)
  have 1: "steps_to ?s0 (CallsStart (mp_id p)) Pending ?s1"
    by (simp add: steps_to_iff start_call_def require_worker_def init)
  have 2: "steps_to ?s1 (TakesLoadLock 0) Pending ?s2"
    by (simp add: steps_to_iff load_lock_taken_def lock_of_def init)
  let ?h = "hold 0 ?s2"
  have h: "sv_workers ?h = [(mp_id p, 0)]" "sv_obj ?h = sv_obj ?s0" "sv_code ?h = sv_code ?s0" "sv_data_dir ?h = dir"
    by (simp_all add: hold_def init)
  have v: "profile_of ?v 0 = p" by (simp add: profile_of_def h init new_worker_def)
  have d: "sv_data_dir ?v = dir" by (simp add: transition_to_def update_worker_def Let_def h)
  have "start_builds w ?t ?v = (Pending, ?s3)"
    using l by (simp add: start_builds_def v d start_at_def)
  then have "start_validates w ?t ?h = (Pending, ?s3)"
    using p(2) w(2) v by (simp add: start_validates_def start_checks_def Let_def)
  then have "start_loops w ?t (1, []) ?h = (Pending, ?s3)"
    by (simp add: start_loops_def unvisited_def must_stop_def h Let_def)
  then have "start_enters w ?t ?h = (Pending, ?s3)"
    using p(1) w(1)
    by (simp add: start_enters_def running_iff h init new_worker_def start_refusal_def exclusive_def profile_of_def)
  then have 3: "steps_to ?s2 (StartResumes w StartGo) Pending ?s3"
    by (simp add: steps_to_iff lock_free_def init)
  let ?t4 = "?t\<lparr>st_phase := StartSpawn l\<rparr>"
  have s3: "sv_start ?s3 = Some ?t4" "sv_workers ?s3 = [(mp_id p, 0)]" "profile_of ?s3 0 = p" "sv_pids ?s3 = 0"
    "sv_stops ?s3 = []" "sv_removes ?s3 = []" "sv_criticals ?s3 = []"
    by (simp_all add: h profile_of_def init new_worker_def hold_def transition_to_def update_worker_def Let_def)
  obtain s4 where s4: "start_spawns w ?t4 ?s3 = (Pending, s4)" "sv_workers s4 = [(mp_id p, 0)]"
    "profile_of s4 0 = p" "running s4 0" "sv_start s4 = Some (?t\<lparr>st_phase := LoadingGet\<rparr>)" "only_process s4"
    using p(3) s3 by (simp add: start_spawns_def Let_def dget_or_def start_at_def profile_of_def running_iff only_process_def
      transition_to_def update_worker_def)
  then have 4: "steps_to ?s3 (StartResumes w (SpawnAnswer None)) Pending s4"
    using s3(1) by (simp add: steps_to_iff)
  have "runs_to ?s0 ([] @ [CallsStart (mp_id p)] @ [TakesLoadLock 0] @ [StartResumes w StartGo]
      @ [StartResumes w (SpawnAnswer None)]) s4"
    using runs_snoc [OF runs_snoc [OF runs_snoc [OF runs_snoc [OF runs_Nil 1] 2] 3] 4] by simp
  then have "reachable [p] s4" unfolding reachable_def by blast
  then show ?thesis using s4 p(1) by (auto simp: exclusive_def)
qed

lemma example_loading: "\<exists>s. reachable [exclusive_profile] s \<and> sv_workers s = [(mp_id exclusive_profile, 0)]
    \<and> exclusive s 0 \<and> running s 0 \<and> profile_of s 0 = exclusive_profile \<and> sv_start s = Some (start_of LoadingGet)
    \<and> only_process s"
proof -
  obtain l where "build_worker_launch False example_host (Some ''.modeldeck'') exclusive_profile = Inr l"
    using launchable by blast
  then show ?thesis
    unfolding start_of_def
    by (intro reachable_loading [of _ example_world "''.modeldeck''" l])
       (simp_all add: exclusive_profile_facts example_world_def)
qed

lemma example_running: "\<exists>s. reachable [exclusive_profile] s \<and> sv_workers s = [(mp_id exclusive_profile, 0)]
    \<and> exclusive s 0 \<and> running s 0"
  using example_loading by blast

lemma reachable_step: "reachable ps s \<Longrightarrow> steps_to s e r s' \<Longrightarrow> reachable ps s'"
  unfolding reachable_def by (blast intro: runs_snoc)

text \<open>What the example worker reports about itself: the identity of its profile, or another model.\<close>

definition example_health :: pyval where
  "example_health = VDict [(''state'', VStr ''warming''), (''worker_id'', VStr (mp_id exclusive_profile)),
     (''model_id'', VStr (mp_model_id exclusive_profile)), (''model_revision'', VStr (mp_revision exclusive_profile)),
     (''generation_family'', VStr (generation_family_value (mp_generation_family exclusive_profile)))]"

definition example_model :: "string \<Rightarrow> pyval" where
  "example_model model = VDict [(''model_id'', VStr model), (''revision'', VStr (mp_revision exclusive_profile))]"

lemma example_verified: "\<exists>d. verify_identity rp exclusive_profile example_health (example_model (mp_model_id exclusive_profile)) (VDict [])
    = Inr (Verified d)"
  by (simp add: verify_identity_def example_health_def example_model_def mget_def mindex_def py_index_def or_else_def dget_def eq_str_def)

lemma example_mismatch: "\<exists>m. verify_identity rp exclusive_profile example_health (example_model ''other'') (VDict []) = Inr (Mismatch m)"
  by (simp add: verify_identity_def example_health_def example_model_def mget_def exclusive_profile_def example_profile_def dget_def eq_str_def)

lemma example_ready: "\<exists>s. reachable [exclusive_profile] s \<and> mw_state (sv_obj s 0) = READY \<and> profile_of s 0 = exclusive_profile
    \<and> sv_start s = None \<and> only_process s"
proof -
  obtain s where s: "reachable [exclusive_profile] s" "running s 0" "profile_of s 0 = exclusive_profile"
    "sv_start s = Some (start_of LoadingGet)" "only_process s" using example_loading by blast
  let ?a = "(example_health, example_model (mp_model_id exclusive_profile), VDict [])"
  let ?s1 = "s\<lparr>sv_start := Some (start_of StartVerify)\<rparr>"
  have 1: "steps_to s (StartResumes example_world (LoadAnswer (Some (True, example_health)))) Pending ?s1"
    using s by (simp add: steps_to_iff start_of_def poll_health_def example_health_def mget_def start_at_def dget_def eq_str_def)
  obtain d where d: "verify_identity (h_repr (w_host example_world)) exclusive_profile example_health
      (example_model (mp_model_id exclusive_profile)) (VDict []) = Inr (Verified d)" using example_verified by blast
  have p1: "profile_of ?s1 0 = exclusive_profile" using s(3) by (simp add: profile_of_def)
  obtain s2 where s2: "start_warms example_world (start_of StartVerify) d ?s1 = (Pending, s2)"
      "sv_start s2 = Some (start_of StartWarm)" "profile_of s2 0 = exclusive_profile" "only_process s2"
    using p1 s(5) by (simp add: start_warms_def Let_def dget_or_def exclusive_profile_facts start_at_def profile_of_def start_of_def
        only_process_run)
  have 2: "steps_to ?s1 (StartResumes example_world (VerifyAnswer (Inr ?a))) Pending s2"
    using s2(1) p1 d by (simp add: steps_to_iff start_of_def)
  let ?s3 = "start_leaves (start_of StartWarm) (transition_to 0 READY ''Worker passed health and warmup checks'' s2)"
  have 3: "\<exists>rep. steps_to s2 (StartResumes example_world (WarmAnswer (Inr (VDict [(''ready'', VBool True)])))) rep ?s3"
    using s2(2) by (simp add: steps_to_iff start_ready_def mget_def start_of_def Let_def dget_def)
  have "mw_state (sv_obj ?s3 0) = READY" "profile_of ?s3 0 = exclusive_profile" "sv_start ?s3 = None" "only_process ?s3"
    using s2(3,4) by (simp_all add: start_leaves_def profile_of_def only_process_run) (simp_all add: release_def)
  then show ?thesis using s(1) 1 2 3 reachable_step by blast
qed

section \<open>Properties\<close>

text \<open>C2: At most one exclusive worker runs: in every state the supervisor can reach, under every
  interleaving of starts, stops, restarts, registrations, removals, critical stops and process
  exits, two running exclusive workers of the dictionary are the same worker.\<close>

theorem one_exclusive_worker_runs:
  assumes "reachable ps s" and "(k, r) \<in> set (sv_workers s)" and "(k', r') \<in> set (sv_workers s)"
    and "exclusive s r" and "exclusive s r'" and "running s r" and "running s r'"
  shows "k = k' \<and> r = r'"
proof -
  have "(k, r) \<in> hot s" "(k', r') \<in> hot s" using assms(2-) by (simp_all add: hot_def)
  then show ?thesis using inv_reachable [OF assms(1)] by (force simp: sup_inv_def)
qed

theorem one_exclusive_worker_runs_witness:
  "\<exists>s k r k' r'. reachable [exclusive_profile] s \<and> (k, r) \<in> set (sv_workers s) \<and> (k', r') \<in> set (sv_workers s)
     \<and> exclusive s r \<and> running s r' \<and> k = k' \<and> r = r'"
proof -
  obtain s where s: "reachable [exclusive_profile] s" "sv_workers s = [(mp_id exclusive_profile, 0)]"
    "exclusive s 0" "running s 0" using example_running by blast
  let ?k = "mp_id exclusive_profile"
  have "?k = ?k \<and> (0::nat) = 0"
    by (rule one_exclusive_worker_runs [OF s(1)]) (simp_all add: s)
  with s show ?thesis by (intro exI [of _ s] exI [of _ ?k] exI [of _ 0]) simp
qed

text \<open>The event queue is the recent end of the event history: both hold at most 256 events, and
  what a reader of the queue can still take is a suffix of what the history shows, in the same order.\<close>

theorem event_queue_is_recent_history:
  assumes "reachable ps s"
  shows "length (sv_events s) \<le> 256 \<and> length (sv_history s) \<le> 256 \<and> suffix (sv_events s) (sv_history s)"
proof -
  obtain timeout dir es where "runs_to (supervisor_init ps timeout dir) es s"
    using assms by (auto simp: reachable_def)
  then have "events_ok s" by (rule events_ok_runs) (simp add: events_ok_def supervisor_init_def)
  then show ?thesis using suffix_length_le by (fastforce simp: events_ok_def MAX_EVENTS_def)
qed

theorem event_queue_is_recent_history_witness:
  "\<exists>s. reachable [exclusive_profile] s \<and> running s 0 \<and> suffix (sv_events s) (sv_history s)"
  using example_running event_queue_is_recent_history by blast

text \<open>C9: A worker is ready only with a verified identity: in every reachable state, a worker in state
  ready carries a resolved identity with exactly the model and the revision of its profile.\<close>

theorem ready_worker_is_verified:
  assumes "reachable ps s" and "mw_state (sv_obj s r) = READY"
  shows "\<exists>d. mw_resolved_identity (sv_obj s r) = Some d
     \<and> dget d ''model_id'' = VStr (mp_model_id (profile_of s r)) \<and> dget d ''revision'' = VStr (mp_revision (profile_of s r))"
  using inv_reachable [OF assms(1)] assms(2)
  by (auto simp: sup_inv_def identity_ok_def has_identity_def profile_of_def)

theorem ready_worker_is_verified_witness:
  "\<exists>(s :: supervisor) d. mw_state (sv_obj s 0) = READY \<and> mw_resolved_identity (sv_obj s 0) = Some d
     \<and> dget d ''model_id'' = VStr (mp_model_id exclusive_profile)"
proof -
  obtain s where s: "reachable [exclusive_profile] s" "mw_state (sv_obj s 0) = READY" "profile_of s 0 = exclusive_profile"
    using example_ready by blast
  have "\<exists>d. mw_resolved_identity (sv_obj s 0) = Some d \<and> dget d ''model_id'' = VStr (mp_model_id exclusive_profile)"
    using ready_worker_is_verified [OF s(1,2)] s(3) by auto
  with s(2) show ?thesis by blast
qed

text \<open>A start in flight survives a critical stop: with no process created yet, the critical stop
  passes over the worker and reports that it is done at once, changing nothing, and the start then
  creates the process and goes on loading the model.\<close>

theorem start_in_flight_survives_critical_stop:
  assumes "sv_start s = Some t" and "st_phase t = StartSpawn l" and "\<forall>(k, r)\<in>set (sv_workers s). \<not> running s r"
    and "is_ok (py_float_of (dget_or (mp_settings (profile_of s (st_ref t))) ''startup_timeout_seconds'' (VFloat (sv_startup_timeout s))))"
  shows "steps_to s (CallsCritical w) Done s
     \<and> (\<exists>s'. steps_to s (StartResumes w (SpawnAnswer None)) Pending s' \<and> running s' (st_ref t)
          \<and> mw_state (sv_obj s' (st_ref t)) = LOADING)"
proof -
  have none: "dropWhile (\<lambda>e. \<not> running s (snd e)) (unvisited (length (sv_workers s), []) s) = []"
    using assms(3) by (auto simp: dropWhile_eq_Nil_conv unvisited_def)
  have "steps_to s (CallsCritical w) Done s"
    unfolding steps_to_iff step.simps critical_call_def critical_loops_def Let_def none by simp
  then show ?thesis
    using assms(1,2,4)
    by (auto simp: steps_to_iff start_spawns_def Let_def start_at_def running_iff is_ok_iff)
qed

theorem start_in_flight_survives_critical_stop_witness:
  "\<exists>l s'. steps_to (spawning_state l) (CallsCritical example_world) Done (spawning_state l)
     \<and> steps_to (spawning_state l) (StartResumes example_world (SpawnAnswer None)) Pending s' \<and> running s' 0"
proof -
  fix l
  have f: "sv_start (spawning_state l) = Some (start_of (StartSpawn l))" "mp_settings (profile_of (spawning_state l) 0) = []"
    "\<not> running (spawning_state l) 0" "sv_workers (spawning_state l) = [(mp_id exclusive_profile, 0)]"
    by (simp_all add: spawning_state_def supervisor_init_def profile_of_def new_worker_def running_iff exclusive_profile_facts)
  have "steps_to (spawning_state l) (CallsCritical example_world) Done (spawning_state l)
     \<and> (\<exists>s'. steps_to (spawning_state l) (StartResumes example_world (SpawnAnswer None)) Pending s'
          \<and> running s' (st_ref (start_of (StartSpawn l))) \<and> mw_state (sv_obj s' (st_ref (start_of (StartSpawn l)))) = LOADING)"
    by (rule start_in_flight_survives_critical_stop [OF f(1)]) (simp_all add: start_of_def f dget_or_def)
  then show ?thesis by (auto simp: start_of_def)
qed

text \<open>The report of an identity mismatch is lost: the start marks the worker incompatible and ends
  its process, the watcher of that process then overwrites state and error with those of an
  unexpected exit, and the start reports this text instead of the mismatch.\<close>

theorem identity_mismatch_is_overwritten:
  assumes "sv_start s = Some t" and "st_phase t = StartVerify" and "st_ref t = r"
    and "mw_process (sv_obj s r) = Some p" and "sv_code s p = None" and "p < sv_pids s" and "(r, Some p) \<in> set (sv_watches s)"
    and "verify_identity (h_repr (w_host w)) (profile_of s r) health model metrics = Inr (Mismatch m)"
    and "w_group_gone w" and "msg = ''Worker process exited unexpectedly with code '' @ show_int c"
  shows "\<exists>s1 s2 s3 s4. steps_to s (StartResumes w (VerifyAnswer (Inr (health, model, metrics)))) Pending s1
     \<and> mw_state (sv_obj s1 r) = INCOMPATIBLE \<and> mw_last_error (sv_obj s1 r) = Some m
     \<and> steps_to s1 (ProcessExits p c) Done s2 \<and> steps_to s2 (WatchSees r p) Done s3
     \<and> steps_to s3 (StartResumes w (StartKills KillExit)) (Raises (''RuntimeError'', msg)) s4
     \<and> mw_state (sv_obj s4 r) = FAILED \<and> mw_last_error (sv_obj s4 r) = Some msg"
proof -
  let ?w1 = "sv_obj s r\<lparr>mw_last_error := Some m, mw_state := INCOMPATIBLE\<rparr>"
  obtain s1 where 1: "steps_to s (StartResumes w (VerifyAnswer (Inr (health, model, metrics)))) Pending s1"
    and s1: "sv_obj s1 r = ?w1" "sv_code s1 = sv_code s" "sv_pids s1 = sv_pids s" "sv_watches s1 = sv_watches s"
      "sv_start s1 = Some (t\<lparr>st_phase := StartKill (KillWait p)\<rparr>)"
    using assms(1-8)
    by (simp add: steps_to_iff start_aborts_def terminate_begin_def start_killing_def start_at_def send_signal_def)
       (simp add: transition_to_def update_worker_def Let_def)
  let ?s2 = "s1\<lparr>sv_code := (sv_code s1)(p := Some c)\<rparr>"
  have 2: "steps_to s1 (ProcessExits p c) Done ?s2" using assms(5,6) by (simp add: steps_to_iff s1)
  let ?s3 = "transition_to r FAILED msg (update_worker r (\<lambda>w. w\<lparr>mw_last_error := Some msg\<rparr>)
      (?s2\<lparr>sv_watches := remove1 (r, Some p) (sv_watches ?s2)\<rparr>))"
  have 3: "steps_to ?s2 (WatchSees r p) Done ?s3"
    using assms(7) by (simp add: steps_to_iff watch_sees_def s1 assms(10) Let_def)
  let ?s4 = "start_leaves (t\<lparr>st_phase := StartKill (KillWait p)\<rparr>) ?s3"
  have 4: "steps_to ?s3 (StartResumes w (StartKills KillExit)) (Raises (''RuntimeError'', msg)) ?s4"
    using assms(3,9) by (simp add: steps_to_iff s1 group_check_def start_killing_def start_raises_def)
  have 5: "mw_state (sv_obj ?s4 r) = FAILED" "mw_last_error (sv_obj ?s4 r) = Some msg"
    by (simp_all add: start_leaves_def release_def)
  have 6: "mw_state (sv_obj s1 r) = INCOMPATIBLE" "mw_last_error (sv_obj s1 r) = Some m" by (simp_all add: s1)
  show ?thesis using 1 6 2 3 4 5 by blast
qed

theorem identity_mismatch_is_overwritten_witness:
  "\<exists>s m s1 s2 s3 s4. steps_to s (StartResumes example_world (VerifyAnswer
        (Inr (example_health, example_model ''other'', VDict [])))) Pending s1
     \<and> mw_state (sv_obj s1 0) = INCOMPATIBLE \<and> mw_last_error (sv_obj s1 0) = Some m
     \<and> steps_to s1 (ProcessExits 0 (-15)) Done s2 \<and> steps_to s2 (WatchSees 0 0) Done s3
     \<and> steps_to s3 (StartResumes example_world (StartKills KillExit))
         (Raises (''RuntimeError'', ''Worker process exited unexpectedly with code -15'')) s4
     \<and> mw_state (sv_obj s4 0) = FAILED"
proof -
  let ?s = "running_state\<lparr>sv_start := Some (start_of StartVerify)\<rparr>"
  have f: "sv_start ?s = Some (start_of StartVerify)" "mw_process (sv_obj ?s 0) = Some 0" "sv_code ?s 0 = None"
    "sv_pids ?s = 1" "sv_watches ?s = [(0, Some 0)]" "profile_of ?s 0 = exclusive_profile"
    "st_phase (start_of StartVerify) = StartVerify" "st_ref (start_of StartVerify) = 0" "w_group_gone example_world"
    by (simp_all add: example_defs profile_of_def)
  obtain m where m: "verify_identity (h_repr (w_host example_world)) exclusive_profile example_health
      (example_model ''other'') (VDict []) = Inr (Mismatch m)" using example_mismatch by blast
  have msg: "''Worker process exited unexpectedly with code -15'' = ''Worker process exited unexpectedly with code '' @ show_int (-15)"
    by code_simp
  show ?thesis
    using identity_mismatch_is_overwritten [where s = ?s and m = m and health = example_health
        and model = "example_model ''other''" and metrics = "VDict []", OF f(1,7,8,2,3) _ _ _ f(9) msg] f(4-6) m
    by (simp add: f(6)) blast
qed

end
