(* ===== verification/Supervisor_Critical.thy ===== *)
theory Supervisor_Critical
  imports Supervisor_Properties
begin

text \<open>
  What a critical stop does to the processes. As long as no start creates a process, the handle of a
  worker is dropped only once its process has exited, whichever operations run; so when a critical
  stop is done, every process that the workers had when it began has exited.
\<close>

section \<open>Handles are dropped after the exit\<close>

definition frees :: "supervisor \<Rightarrow> supervisor \<Rightarrow> bool" where
  "frees s s' \<longleftrightarrow> (\<forall>p. sv_code s p \<noteq> None \<longrightarrow> sv_code s' p \<noteq> None) \<and> sv_refs s \<le> sv_refs s'
     \<and> set (sv_signals s) \<subseteq> set (sv_signals s')
     \<and> (\<forall>r p. r < sv_refs s \<longrightarrow> mw_process (sv_obj s r) = Some p \<longrightarrow> mw_process (sv_obj s' r) = Some p \<or> sv_code s' p \<noteq> None)
     \<and> (\<forall>r p. mw_process (sv_obj s' r) = Some p \<longrightarrow> mw_process (sv_obj s r) = Some p)
     \<and> (\<forall>e\<in>set (sv_workers s). e \<in> set (sv_workers s') \<or> \<not> running s' (snd e))
     \<and> (\<forall>e\<in>set (sv_workers s'). e \<in> set (sv_workers s) \<or> mw_process (sv_obj s' (snd e)) = None)"

lemma frees_refl [simp]: "frees s s" by (simp add: frees_def)

lemma frees_running: "frees s s' \<Longrightarrow> running s' r \<Longrightarrow> running s r"
  unfolding frees_def running_iff by blast

lemma frees_trans:
  assumes a: "frees s1 s2" and b: "frees s2 s3" shows "frees s1 s3"
proof -
  have "mw_process (sv_obj s3 r) = Some p \<or> sv_code s3 p \<noteq> None"
    if "r < sv_refs s1" "mw_process (sv_obj s1 r) = Some p" for r p
  proof -
    have "mw_process (sv_obj s2 r) = Some p \<or> sv_code s2 p \<noteq> None" using a that unfolding frees_def by blast
    moreover have "r < sv_refs s2" using a that unfolding frees_def by linarith
    ultimately show ?thesis using b unfolding frees_def by blast
  qed
  moreover have "e \<in> set (sv_workers s3) \<or> \<not> running s3 (snd e)" if "e \<in> set (sv_workers s1)" for e
    using a b that frees_running [OF b] unfolding frees_def by blast
  moreover have "e \<in> set (sv_workers s1) \<or> mw_process (sv_obj s3 (snd e)) = None" if "e \<in> set (sv_workers s3)" for e
  proof (cases "mw_process (sv_obj s3 (snd e))")
    case (Some p)
    then have "e \<in> set (sv_workers s2)" "mw_process (sv_obj s2 (snd e)) = Some p" using b that unfolding frees_def by fastforce+
    then show ?thesis using a unfolding frees_def by fastforce
  qed simp
  ultimately show ?thesis using a b unfolding frees_def by (auto intro: le_trans)
qed

text \<open>Nothing but bookkeeping changes.\<close>

definition still :: "supervisor \<Rightarrow> supervisor \<Rightarrow> bool" where
  "still s s' \<longleftrightarrow> (\<forall>r. mw_process (sv_obj s' r) = mw_process (sv_obj s r)) \<and> sv_code s' = sv_code s \<and> sv_workers s' = sv_workers s
     \<and> sv_refs s' = sv_refs s \<and> set (sv_signals s) \<subseteq> set (sv_signals s') \<and> sv_stops s' = sv_stops s \<and> sv_removes s' = sv_removes s
     \<and> sv_criticals s' = sv_criticals s"

lemma still_refl [simp]: "still s s" by (simp add: still_def)

lemma still_trans: "still s1 s2 \<Longrightarrow> still s2 s3 \<Longrightarrow> still s1 s3" by (auto simp: still_def)

lemma still_frees: "still s s' \<Longrightarrow> frees s s'" by (auto simp: still_def frees_def)

lemma lists_transition [simp]:
  "sv_stops (transition_to r st m s) = sv_stops s" "sv_removes (transition_to r st m s) = sv_removes s"
  "sv_signals (transition_to r st m s) = sv_signals s"
  "sv_stops (update_worker r f s) = sv_stops s" "sv_removes (update_worker r f s) = sv_removes s"
  "sv_signals (update_worker r f s) = sv_signals s"
  by (simp_all add: transition_to_def update_worker_def Let_def)

lemma still_steps:
  "still s s1 \<Longrightarrow> still s (transition_to r st m s1)" "still s s1 \<Longrightarrow> still s (hold l s1)"
  "still s s1 \<Longrightarrow> still s (release l s1)" "still s s1 \<Longrightarrow> still s (send_signal p g s1)"
  "still s s1 \<Longrightarrow> still s (s1\<lparr>sv_start := t\<rparr>)" "still s s1 \<Longrightarrow> still s (s1\<lparr>sv_waiting := ws\<rparr>)"
  "still s s1 \<Longrightarrow> still s (s1\<lparr>sv_watches := vs\<rparr>)" "still s s1 \<Longrightarrow> still s (snd (lock_of wid s1))"
  "still s s1 \<Longrightarrow> \<forall>w. mw_process (f w) = mw_process w \<Longrightarrow> still s (update_worker r f s1)"
  by (auto simp: still_def hold_def release_def send_signal_def lock_of_def split: option.splits)

lemma still_lock: "still s s1 \<Longrightarrow> lock_of wid s1 = (l, s2) \<Longrightarrow> still s s2"
  using still_steps(8) [of s s1 wid] by simp

section \<open>What the suspended operations wait for\<close>

definition pid_ok :: "supervisor \<Rightarrow> nat \<Rightarrow> nat \<Rightarrow> bool" where
  "pid_ok s r p \<longleftrightarrow> (\<forall>q. mw_process (sv_obj s r) = Some q \<longrightarrow> q = p)"

definition kill_ok :: "supervisor \<Rightarrow> nat \<Rightarrow> kill_phase \<Rightarrow> bool" where
  "kill_ok s r k = (case k of KillWait p \<Rightarrow> pid_ok s r p | KillGroup p \<Rightarrow> pid_ok s r p \<and> sv_code s p \<noteq> None | KillForce p \<Rightarrow> pid_ok s r p)"

definition stop_ok :: "supervisor \<Rightarrow> nat \<Rightarrow> stop_phase \<Rightarrow> bool" where
  "stop_ok s r ph = (case ph of StopWait p \<Rightarrow> pid_ok s r p | StopKill k \<Rightarrow> kill_ok s r k | _ \<Rightarrow> True)"

lemma oks_frees:
  assumes "frees s s'"
  shows "pid_ok s r p \<Longrightarrow> pid_ok s' r p" "kill_ok s r k \<Longrightarrow> kill_ok s' r k" "stop_ok s r ph \<Longrightarrow> stop_ok s' r ph"
proof -
  have p: "pid_ok s r p \<Longrightarrow> pid_ok s' r p" for p using assms unfolding frees_def pid_ok_def by blast
  moreover have c: "sv_code s p \<noteq> None \<Longrightarrow> sv_code s' p \<noteq> None" for p using assms unfolding frees_def by blast
  ultimately have k: "kill_ok s r k \<Longrightarrow> kill_ok s' r k" for k by (cases k) (simp_all add: kill_ok_def)
  show "pid_ok s r p \<Longrightarrow> pid_ok s' r p" "kill_ok s r k \<Longrightarrow> kill_ok s' r k" "stop_ok s r ph \<Longrightarrow> stop_ok s' r ph"
    using p k by (auto simp: stop_ok_def split: stop_phase.splits)
qed

lemma still_terminate: "still s (snd (terminate_begin w r s))"
  by (auto simp: terminate_begin_def intro: still_steps split: option.split)

lemma terminate_ok: "terminate_begin w r s = (k, s1) \<Longrightarrow> (case k of Some ph \<Rightarrow> kill_ok s1 r ph | None \<Rightarrow> \<not> running s1 r)"
  by (auto simp: terminate_begin_def kill_ok_def pid_ok_def group_check_def running_iff send_signal_def split: option.splits if_splits)

lemma kill_step_ok:
  assumes "kill_step w i k s = Some (k', s1)" and "kill_ok s r k"
  shows "still s s1 \<and> (case k' of Some ph \<Rightarrow> kill_ok s1 r ph | None \<Rightarrow> \<not> running s1 r)"
  using assms by (cases "(w, i, k, s)" rule: kill_step.cases)
    (auto simp: kill_ok_def pid_ok_def group_check_def force_kill_def running_iff send_signal_def still_def split: if_splits)

lemma drop_frees:
  assumes "\<not> running s r" and "drops_process f"
  shows "frees s (update_worker r f s)"
  using assms drops_processD [OF assms(2)] by (auto simp: frees_def running_iff)

definition same_lists :: "supervisor \<Rightarrow> supervisor \<Rightarrow> bool" where
  "same_lists s s' \<longleftrightarrow> sv_stops s' = sv_stops s \<and> sv_removes s' = sv_removes s \<and> sv_criticals s' = sv_criticals s"

lemma same_lists_refl [simp]: "same_lists s s" by (simp add: same_lists_def)

lemma same_lists_trans: "same_lists s1 s2 \<Longrightarrow> same_lists s2 s3 \<Longrightarrow> same_lists s1 s3" by (simp add: same_lists_def)

lemma still_lists: "still s s' \<Longrightarrow> same_lists s s'" by (simp add: still_def same_lists_def)

lemma isolating:
  assumes "\<not> running s r"
  shows "frees s (transition_to r st m (update_worker r (\<lambda>w. w\<lparr>mw_process := None, mw_started_at := None\<rparr>) s))"
    "frees s (transition_to r st m (update_worker r (\<lambda>w. w\<lparr>mw_process := None\<rparr>) s))"
  by (rule frees_trans [OF drop_frees [OF assms] still_frees [OF still_steps(1) [OF still_refl]]], simp add: drops_process_def)+

lemma stop_finish_ok:
  assumes "stop_finish r l s = (res, s1)" and "\<not> running s r"
  shows "frees s s1 \<and> same_lists s s1 \<and> sv_start s1 = sv_start s \<and> (\<forall>ph. res = StopContinues ph \<longrightarrow> stop_ok s1 r ph)"
  using assms isolating(1) [OF assms(2)] frees_trans [OF isolating(1) [OF assms(2)] still_frees [OF still_steps(3) [OF still_refl]]]
  by (auto simp: stop_finish_def same_lists_def release_def)

lemma stop_killing_ok:
  assumes "stop_killing r l (k, s1) = (res, s2)" and "still s s1" and "sv_start s1 = sv_start s"
    and "case k of Some ph \<Rightarrow> kill_ok s1 r ph | None \<Rightarrow> \<not> running s1 r"
  shows "frees s s2 \<and> same_lists s s2 \<and> sv_start s2 = sv_start s \<and> (\<forall>ph. res = StopContinues ph \<longrightarrow> stop_ok s2 r ph)"
proof (cases k)
  case None
  then show ?thesis
    using assms stop_finish_ok [of r l s1 res s2] frees_trans [OF still_frees [OF assms(2)]] same_lists_trans [OF still_lists [OF assms(2)]]
    by (auto simp: stop_killing_def)
next
  case (Some ph)
  then show ?thesis using assms still_frees still_lists by (auto simp: stop_killing_def stop_ok_def)
qed

lemma start_terminate [simp]: "sv_start (snd (terminate_begin w r s)) = sv_start s"
  by (simp add: terminate_begin_def send_signal_def split: option.split)

lemma start_kill: "kill_step w i k s = Some (k', s1) \<Longrightarrow> sv_start s1 = sv_start s"
  using quiet_kill [of w i k s k' s1] by (simp add: quiet_def same_tasks_def)

lemma stop_step_ok:
  assumes st: "stop_step w i r l ph s = Some (res, s1)" and ok: "stop_ok s r ph"
  shows "frees s s1 \<and> same_lists s s1 \<and> sv_start s1 = sv_start s \<and> (\<forall>ph1. res = StopContinues ph1 \<longrightarrow> stop_ok s1 r ph1)"
proof (cases "(w, i, r, l, ph, s)" rule: stop_step.cases)
  case (1 w r l s)
  then show ?thesis
    using st isolating(2) [of s r STOPPED "''Worker is stopped''"]
      still_frees [OF still_steps(1) [OF still_steps(2) [OF still_refl]], of s r STOPPING _ l]
    by (auto simp: stop_ok_def same_lists_def hold_def split: if_splits)
next
  case (2 w r l s)
  then show ?thesis
    using st stop_finish_ok [of r l s res s1] still_frees [OF still_steps(3) [OF still_refl], of s l]
    by (auto simp: stop_ok_def pid_ok_def running_iff same_lists_def release_def split: option.splits if_splits)
next
  case (3 w r l p s)
  then have "\<not> running s r" using st ok by (auto simp: stop_ok_def pid_ok_def running_iff split: if_splits)
  then show ?thesis using 3 st stop_finish_ok [of r l s res s1] by (auto split: if_splits)
next
  case (4 w r l p s)
  obtain k s2 where t: "terminate_begin w r s = (k, s2)" by fastforce
  have "still s s2" "sv_start s2 = sv_start s" using still_terminate [of s w r] start_terminate [of w r s] by (simp_all add: t)
  then show ?thesis using 4 st t stop_killing_ok [of r l k s2 res s1 s] terminate_ok [OF t] by auto
next
  case (5 w5 j r5 l5 k s5)
  then have e: "i = StopKills j" "ph = StopKill k" by simp_all
  then obtain k' s2 where k: "kill_step w j k s = Some (k', s2)" "stop_killing r l (k', s2) = (res, s1)" using st by auto
  have "kill_ok s r k" using ok e by (simp add: stop_ok_def)
  then have h: "still s s2 \<and> (case k' of Some ph \<Rightarrow> kill_ok s2 r ph | None \<Rightarrow> \<not> running s2 r)" by (rule kill_step_ok [OF k(1)])
  show ?thesis by (rule stop_killing_ok [OF k(2) conjunct1 [OF h] start_kill [OF k(1)] conjunct2 [OF h]])
qed (use st in auto)

section \<open>The stretches of a start\<close>

text \<open>A stretch of a start that creates no process is still, or has stopped another worker.\<close>

definition waits_lock :: "supervisor \<Rightarrow> bool" where
  "waits_lock s \<longleftrightarrow> (\<forall>t it r l ph. sv_start s = Some t \<longrightarrow> st_phase t = StartStops it r l ph \<longrightarrow> ph = StopLock)"

definition ends_still :: "supervisor \<Rightarrow> reply \<times> supervisor \<Rightarrow> bool" where
  "ends_still s r \<longleftrightarrow> still s (snd r) \<and> waits_lock (snd r)"

lemma ends_raises: "still s s1 \<Longrightarrow> ends_still s (start_raises t e s1)"
  by (auto simp: ends_still_def start_raises_def start_leaves_def waits_lock_def release_def still_def)

lemma ends_at: "still s s1 \<Longrightarrow> \<forall>it r l ph'. ph = StartStops it r l ph' \<longrightarrow> ph' = StopLock \<Longrightarrow> ends_still s (start_at t ph s1)"
  by (auto simp: ends_still_def start_at_def waits_lock_def still_def)

lemma ends_rejects: "still s s1 \<Longrightarrow> ends_still s (start_rejects t m msg s1)"
  unfolding start_rejects_def by (intro ends_raises still_steps) simp_all

lemma ends_killing: "still s (snd ks) \<Longrightarrow> ends_still s (start_killing t ks)"
  by (cases ks) (auto simp: start_killing_def intro: ends_raises ends_at split: option.splits)

lemma ends_aborts: "still s s1 \<Longrightarrow> ends_still s (start_aborts w t st m s1)"
  unfolding start_aborts_def by (intro ends_killing still_trans [OF _ still_terminate] still_steps) simp_all

lemma ends_crashes: "still s s1 \<Longrightarrow> ends_still s (start_crashes w t e s1)"
  unfolding start_crashes_def by (rule ends_aborts)

lemma ends_builds: "still s s1 \<Longrightarrow> ends_still s (start_builds w t s1)"
  unfolding start_builds_def
  by (auto split: sum.split py_error.split intro!: ends_rejects ends_raises ends_at still_steps)

lemma ends_checks: "still s s1 \<Longrightarrow> ends_still s (start_checks w t s1)"
  by (auto simp: start_checks_def intro: ends_builds ends_at)

lemma ends_port: "still s s1 \<Longrightarrow> ends_still s (port_in_use t s1)"
  by (auto simp: port_in_use_def Let_def intro: ends_rejects)

lemma ends_validates: "still s s1 \<Longrightarrow> ends_still s (start_validates w t s1)"
  unfolding start_validates_def Let_def by (auto intro!: ends_checks ends_at still_steps)

lemma ends_loops: "still s s1 \<Longrightarrow> ends_still s (start_loops w t it s1)"
  by (auto simp: start_loops_def Let_def intro!: ends_raises ends_validates ends_at intro: still_lock split: list.split prod.split)

lemma ends_leaves: "still s s1 \<Longrightarrow> ends_still s (rep, start_leaves t s1)"
  by (auto simp: ends_still_def start_leaves_def waits_lock_def release_def still_def)

lemma ends_enters: "still s s1 \<Longrightarrow> ends_still s (start_enters w t s1)"
  unfolding start_enters_def by (auto intro!: ends_leaves ends_raises ends_loops ends_validates split: option.split)

lemma ends_warms: "still s s1 \<Longrightarrow> ends_still s (start_warms w t d s1)"
  unfolding start_warms_def Let_def by (auto intro!: ends_crashes ends_at still_steps split: sum.split)

lemma ends_ready: "still s s1 \<Longrightarrow> ends_still s (start_ready t s1)"
  unfolding start_ready_def Let_def by (intro ends_leaves still_steps)

lemmas ends_all = ends_raises ends_at ends_rejects ends_aborts ends_crashes ends_builds ends_checks ends_port ends_validates
  ends_loops ends_enters ends_warms ends_ready

lemma start_step_ends:
  assumes st: "start_step w i t ph s = Some r" and "i \<noteq> SpawnAnswer None" and "\<forall>it q l sp. ph \<noteq> StartStops it q l sp"
  shows "ends_still s r"
proof (cases ph)
  case (StartKill k)
  then obtain j ks where j: "kill_step w j k s = Some ks" "r = start_killing t ks" using st by (cases i) auto
  have "quiet s (snd ks)" by (rule quiet_kill_snd [OF j(1)])
  have "still s (snd ks)" using j(1)
    by (cases "(w, j, k, s)" rule: kill_step.cases) (auto simp: force_kill_def split: if_splits intro!: still_steps)
  then show ?thesis unfolding j(2) by (rule ends_killing)
qed (use st assms(2,3) in \<open>cases i; auto split: if_splits option.splits sum.splits py_error.splits prod.splits poll_result.splits identity.splits
      intro!: ends_all still_steps\<close>)+

section \<open>The tasks of a step\<close>

fun kill_pid :: "kill_phase \<Rightarrow> nat" where
  "kill_pid (KillWait p) = p"
| "kill_pid (KillGroup p) = p"
| "kill_pid (KillForce p) = p"

definition start_ok :: "supervisor \<Rightarrow> bool" where
  "start_ok s \<longleftrightarrow> (\<forall>t it r l ph. sv_start s = Some t \<longrightarrow> st_phase t = StartStops it r l ph \<longrightarrow> stop_ok s r ph)"

definition critical_ok :: "supervisor \<Rightarrow> iteration \<times> nat \<times> kill_phase \<Rightarrow> bool" where
  "critical_ok s c = (case c of (it, r, k) \<Rightarrow> kill_ok s r k \<and> (kill_pid k, SIGTERM) \<in> set (sv_signals s))"

definition remove_ok :: "supervisor \<Rightarrow> string \<times> nat \<times> nat \<Rightarrow> bool" where
  "remove_ok s c = (case c of (wid, r, l) \<Rightarrow>
     \<forall>e\<in>set (sv_workers s). fst e = wid \<longrightarrow> snd e = r \<or> mw_process (sv_obj s (snd e)) = None)"

definition tasks_ok :: "supervisor \<Rightarrow> bool" where
  "tasks_ok s \<longleftrightarrow> start_ok s \<and> (\<forall>t\<in>set (sv_stops s). stop_ok s (sp_ref t) (sp_phase t))
     \<and> (\<forall>c\<in>set (sv_criticals s). critical_ok s c) \<and> (\<forall>c\<in>set (sv_removes s). remove_ok s c)"

text \<open>A step frees, and every task it leaves is an old one or in order.\<close>

definition tends :: "supervisor \<Rightarrow> supervisor \<Rightarrow> bool" where
  "tends s s' \<longleftrightarrow> frees s s' \<and> (sv_start s' = sv_start s \<or> start_ok s')
     \<and> (\<forall>t\<in>set (sv_stops s'). t \<in> set (sv_stops s) \<or> stop_ok s' (sp_ref t) (sp_phase t))
     \<and> (\<forall>c\<in>set (sv_criticals s'). c \<in> set (sv_criticals s) \<or> critical_ok s' c)
     \<and> (\<forall>c\<in>set (sv_removes s'). c \<in> set (sv_removes s) \<or> remove_ok s' c)"

lemma frees_none: "frees s s' \<Longrightarrow> mw_process (sv_obj s r) = None \<Longrightarrow> mw_process (sv_obj s' r) = None"
  by (cases "mw_process (sv_obj s' r)") (auto simp: frees_def)

lemma frees_entries: "frees s s' \<Longrightarrow> e \<in> set (sv_workers s') \<Longrightarrow> e \<in> set (sv_workers s) \<or> mw_process (sv_obj s' (snd e)) = None"
  unfolding frees_def by (rule bspec) (elim conjE)

lemma remove_ok_frees:
  assumes f: "frees s s'" and ok: "remove_ok s c" shows "remove_ok s' c"
proof -
  obtain wid r l where c: "c = (wid, r, l)" by (cases c)
  have "snd e = r \<or> mw_process (sv_obj s' (snd e)) = None" if "e \<in> set (sv_workers s')" "fst e = wid" for e
  proof (cases "e \<in> set (sv_workers s)")
    case True
    then show ?thesis using ok that(2) frees_none [OF f] by (auto simp: remove_ok_def c)
  next
    case False
    then have "mw_process (sv_obj s' (snd e)) = None" using frees_entries [OF f that(1)] by simp
    then show ?thesis ..
  qed
  then show ?thesis by (simp add: remove_ok_def c)
qed

lemma critical_ok_frees: "frees s s' \<Longrightarrow> critical_ok s c \<Longrightarrow> critical_ok s' c"
  using oks_frees(2) [of s s'] unfolding critical_ok_def by (cases c) (auto simp: frees_def)

lemma start_ok_frees: "frees s s' \<Longrightarrow> sv_start s' = sv_start s \<Longrightarrow> start_ok s \<Longrightarrow> start_ok s'"
  using oks_frees(3) unfolding start_ok_def by metis

lemma tendsD:
  assumes "tends s s'"
  shows "frees s s'" "sv_start s' = sv_start s \<or> start_ok s'"
    "t \<in> set (sv_stops s') \<Longrightarrow> t \<in> set (sv_stops s) \<or> stop_ok s' (sp_ref t) (sp_phase t)"
    "c \<in> set (sv_criticals s') \<Longrightarrow> c \<in> set (sv_criticals s) \<or> critical_ok s' c"
    "d \<in> set (sv_removes s') \<Longrightarrow> d \<in> set (sv_removes s) \<or> remove_ok s' d"
  using assms unfolding tends_def by blast+

lemma tasks_tend:
  assumes t: "tends s s'" and ok: "tasks_ok s" shows "tasks_ok s'"
proof -
  note f = tendsD(1) [OF t]
  have "start_ok s'" using tendsD(2) [OF t] start_ok_frees [OF f] ok by (auto simp: tasks_ok_def)
  moreover have "stop_ok s' (sp_ref x) (sp_phase x)" if "x \<in> set (sv_stops s')" for x
    using tendsD(3) [OF t that] oks_frees(3) [OF f] ok by (auto simp: tasks_ok_def)
  moreover have "critical_ok s' x" if "x \<in> set (sv_criticals s')" for x
    using tendsD(4) [OF t that] critical_ok_frees [OF f] ok unfolding tasks_ok_def by blast
  moreover have "remove_ok s' x" if "x \<in> set (sv_removes s')" for x
    using tendsD(5) [OF t that] remove_ok_frees [OF f] ok unfolding tasks_ok_def by blast
  ultimately show ?thesis by (simp add: tasks_ok_def)
qed

lemma tends_trans:
  assumes a: "tends s1 s2" and b: "tends s2 s3" shows "tends s1 s3"
proof -
  note f = tendsD(1) [OF b]
  have "sv_start s3 = sv_start s1 \<or> start_ok s3" using tendsD(2) [OF a] tendsD(2) [OF b] start_ok_frees [OF f] by auto
  moreover have "x \<in> set (sv_stops s1) \<or> stop_ok s3 (sp_ref x) (sp_phase x)" if "x \<in> set (sv_stops s3)" for x
    using tendsD(3) [OF b that] tendsD(3) [OF a, of x] oks_frees(3) [OF f] by blast
  moreover have "x \<in> set (sv_criticals s1) \<or> critical_ok s3 x" if "x \<in> set (sv_criticals s3)" for x
    using tendsD(4) [OF b that] tendsD(4) [OF a, of x] critical_ok_frees [OF f] by blast
  moreover have "x \<in> set (sv_removes s1) \<or> remove_ok s3 x" if "x \<in> set (sv_removes s3)" for x
    using tendsD(5) [OF b that] tendsD(5) [OF a, of x] remove_ok_frees [OF f] by blast
  ultimately show ?thesis using frees_trans [OF tendsD(1) [OF a] f] unfolding tends_def by blast
qed

lemma tends_frees:
  "frees s s' \<Longrightarrow> sv_start s' = sv_start s \<or> start_ok s' \<Longrightarrow> set (sv_stops s') \<subseteq> set (sv_stops s)
     \<Longrightarrow> set (sv_criticals s') \<subseteq> set (sv_criticals s) \<Longrightarrow> set (sv_removes s') \<subseteq> set (sv_removes s) \<Longrightarrow> tends s s'"
  unfolding tends_def by blast

lemma tends_still: "still s s' \<Longrightarrow> sv_start s' = sv_start s \<or> start_ok s' \<Longrightarrow> tends s s'"
  by (rule tends_frees) (auto simp: still_def intro: still_frees)

lemma waits_ok: "waits_lock s \<Longrightarrow> start_ok s"
  unfolding waits_lock_def start_ok_def by (fastforce simp: stop_ok_def)

lemma tends_ends: "ends_still s r \<Longrightarrow> tends s (snd r)"
  unfolding ends_still_def by (blast intro: tends_still waits_ok)

lemma tends_fields [simp]:
  "tends s (s\<lparr>sv_watches := a\<rparr>)" "tends s (s\<lparr>sv_events := b\<rparr>)" "tends s (s\<lparr>sv_waiting := ws\<rparr>)" "tends s s"
  by (auto intro!: tends_still simp: still_def)

lemma tends_start_step:
  assumes st: "start_step w i t (st_phase t) s = Some r" and "i \<noteq> SpawnAnswer None" and "sv_start s = Some t" and ok: "tasks_ok s"
  shows "tends s (snd r)"
proof (cases "st_phase t")
  case (StartStops it q l ph)
  then have ok': "stop_ok s q ph" using ok assms(3) by (auto simp: tasks_ok_def start_ok_def)
  obtain j res s1 where j: "stop_step w j q l ph s = Some (res, s1)"
    and r: "r = (case res of StopContinues ph1 \<Rightarrow> start_at t (StartStops it q l ph1) s1
         | StopReturns \<Rightarrow> start_loops w t it s1 | StopRaises e \<Rightarrow> start_raises t e s1)"
    using st StartStops by (cases i) auto
  have s1: "frees s s1" "same_lists s s1" "sv_start s1 = sv_start s" "\<And>ph1. res = StopContinues ph1 \<Longrightarrow> stop_ok s1 q ph1"
    using stop_step_ok [OF j ok'] by auto
  have "tends s s1" using s1(1-3) by (intro tends_frees) (auto simp: same_lists_def)
  moreover have "tends s1 (snd r)"
  proof (cases res)
    case (StopContinues ph1)
    let ?s = "s1\<lparr>sv_start := Some (t\<lparr>st_phase := StartStops it q l ph1\<rparr>)\<rparr>"
    have "still s1 ?s" by (rule still_steps) simp
    moreover have "stop_ok ?s q ph1" by (rule oks_frees(3) [OF still_frees [OF calculation] s1(4) [OF StopContinues]])
    then have "start_ok ?s" unfolding start_ok_def by (clarsimp simp del: split_paired_All)
    ultimately show ?thesis using r StopContinues by (auto simp: start_at_def intro: tends_still)
  qed (use r in \<open>auto intro!: tends_ends ends_all\<close>)
  ultimately show ?thesis by (rule tends_trans)
qed (rule tends_ends [OF start_step_ends [OF st assms(2)]], simp)+

lemma tends_stop_call: "tends s (snd (stop_call wid c s))"
proof (cases "require_worker s wid")
  case (Inr r)
  obtain l s1 where l: "lock_of wid s = (l, s1)" by fastforce
  have "still s s1" by (rule still_lock [OF still_refl l])
  moreover have "sv_start s1 = sv_start s" using quiet_lock_of [OF l] by (rule start_state_quiet)
  ultimately have "frees s (s1\<lparr>sv_stops := sv_stops s1 @ ts\<rparr>)" "sv_stops s1 = sv_stops s" "sv_criticals s1 = sv_criticals s"
    "sv_removes s1 = sv_removes s" for ts using still_frees [of s s1] by (auto simp: still_def frees_def running_def)
  then show ?thesis using Inr l \<open>sv_start s1 = sv_start s\<close> by (auto simp: stop_call_def tends_def stop_ok_def)
qed (simp add: stop_call_def)

lemma tends_start_call: "tends s (snd (start_call wid s))"
  by (auto simp: start_call_def split: sum.split)

lemma tends_stop_all: "tends s (snd (stop_all_loops it s))"
  by (auto simp: stop_all_loops_def intro: tends_stop_call split: list.split)

lemma tends_stop_returns: "tends s (snd (stop_returns r c s))"
  by (auto simp: stop_returns_def intro: tends_start_call tends_stop_all split: stop_caller.split)

lemma tends_stop_resumes:
  assumes a: "stop_resumes w n i s = Some (rep, s')" and ok: "tasks_ok s"
  shows "tends s s'"
proof -
  define t where "t = sv_stops s ! n"
  obtain res s1 where st: "stop_step w i (sp_ref t) (sp_lock t) (sp_phase t) s = Some (res, s1)" and n: "n < length (sv_stops s)"
    and r: "(case res of
            StopContinues ph \<Rightarrow> (Pending, s1\<lparr>sv_stops := (sv_stops s1)[n := t\<lparr>sp_phase := ph\<rparr>]\<rparr>)
          | StopReturns \<Rightarrow> stop_returns (sp_ref t) (sp_caller t) (stops_without n s1)
          | StopRaises e \<Rightarrow> (Raises e, stops_without n s1)) = (rep, s')"
    using a by (auto simp: stop_resumes_def t_def [symmetric] Let_def split: if_splits)
  have "stop_ok s (sp_ref t) (sp_phase t)" using ok n by (simp add: tasks_ok_def t_def)
  then have s1: "frees s s1" "same_lists s s1" "sv_start s1 = sv_start s"
    "\<And>ph1. res = StopContinues ph1 \<Longrightarrow> stop_ok s1 (sp_ref t) ph1" using stop_step_ok [OF st] by auto
  have f: "frees s (s1\<lparr>sv_stops := ts\<rparr>)" for ts
    by (rule frees_trans [OF s1(1)]) (simp add: frees_def running_def)
  have w: "tends s (stops_without n s1)"
    unfolding stops_without_def by (rule tends_frees [OF f])
      (use s1(2,3) in \<open>auto simp: same_lists_def dest: in_set_takeD in_set_dropD\<close>)
  show ?thesis
  proof (cases res)
    case (StopContinues ph)
    have "stop_ok (s1\<lparr>sv_stops := ts\<rparr>) (sp_ref t) ph" for ts
      using oks_frees(3) [OF _ s1(4) [OF StopContinues], of "s1\<lparr>sv_stops := ts\<rparr>"] by (simp add: frees_def running_def)
    moreover have "set ((sv_stops s1)[n := t\<lparr>sp_phase := ph\<rparr>]) \<subseteq> insert (t\<lparr>sp_phase := ph\<rparr>) (set (sv_stops s))"
      using set_update_subset_insert [of "sv_stops s1" n] s1(2) by (simp add: same_lists_def)
    ultimately show ?thesis using r StopContinues f s1(2,3) by (auto simp: tends_def same_lists_def)
  next
    case StopReturns
    then have "s' = snd (stop_returns (sp_ref t) (sp_caller t) (stops_without n s1))" using r by simp
    then show ?thesis using tends_trans [OF w tends_stop_returns] by simp
  next
    case (StopRaises e)
    then show ?thesis using r w by simp
  qed
qed

lemma dict_unique: "keys_ok s \<Longrightarrow> map_of (sv_workers s) wid = Some r \<Longrightarrow> e \<in> set (sv_workers s) \<Longrightarrow> fst e = wid \<Longrightarrow> snd e = r"
  using map_of_is_SomeI [of "sv_workers s" "fst e" "snd e"] unfolding keys_ok_def by fastforce

lemma tends_remove_call: "keys_ok s \<Longrightarrow> tends s (snd (remove_call wid s))"
proof (cases "require_worker s wid")
  case (Inr r)
  assume keys: "keys_ok s"
  have d: "map_of (sv_workers s) wid = Some r" using Inr by (auto simp: require_worker_def split: option.splits)
  obtain l s1 where l: "lock_of wid s = (l, s1)" by fastforce
  have st: "still s s1" by (rule still_lock [OF still_refl l])
  have "sv_start s1 = sv_start s" using quiet_lock_of [OF l] by (rule start_state_quiet)
  moreover have "frees s (s1\<lparr>sv_removes := rs\<rparr>)" for rs using still_frees [OF st] by (simp add: frees_def running_iff)
  moreover have "remove_ok (s1\<lparr>sv_removes := rs\<rparr>) (wid, r, l)" for rs
    using dict_unique [OF keys d] st by (auto simp: remove_ok_def still_def)
  ultimately show ?thesis using Inr l st by (auto simp: remove_call_def tends_def still_def)
qed (simp add: remove_call_def)

lemma still_refresh: "still s (refresh_exits s)"
proof -
  have "still s0 (fold refresh_worker rs s0)" for rs s0
  proof (induction rs arbitrary: s0)
    case (Cons r rs)
    have "still s0 (refresh_worker r s0)"
      by (auto simp: refresh_worker_def intro!: still_steps split: option.splits)
    then show ?case using Cons still_trans by fastforce
  qed simp
  then show ?thesis by (simp add: refresh_exits_def)
qed

lemma tends_remove_runs:
  assumes a: "remove_runs n s = Some (rep, s')" and ok: "tasks_ok s"
  shows "tends s s'"
proof -
  obtain wid r l where c: "sv_removes s ! n = (wid, r, l)" by (metis prod_cases3)
  define s1 where "s1 = refresh_exits (s\<lparr>sv_removes := take n (sv_removes s) @ drop (Suc n) (sv_removes s)\<rparr>)"
  have n: "n < length (sv_removes s)" using a by (auto simp: remove_runs_def split: if_splits)
  have st: "still (s\<lparr>sv_removes := take n (sv_removes s) @ drop (Suc n) (sv_removes s)\<rparr>) s1"
    unfolding s1_def by (rule still_refresh)
  have start: "sv_start s1 = sv_start s"
    using start_state_quiet [OF quiet_refresh [of "s\<lparr>sv_removes := take n (sv_removes s) @ drop (Suc n) (sv_removes s)\<rparr>"]] by (simp add: s1_def)
  have t1: "tends s s1"
    by (rule tends_frees) (use still_frees [OF st] st start in
      \<open>auto simp: still_def frees_def running_iff dest: in_set_takeD in_set_dropD\<close>)
  have ok1: "\<And>e. e \<in> set (sv_workers s1) \<Longrightarrow> fst e = wid \<Longrightarrow> snd e = r \<or> mw_process (sv_obj s1 (snd e)) = None"
  proof -
    have "remove_ok s (wid, r, l)" using ok nth_mem [OF n] by (auto simp: tasks_ok_def c)
    then show "\<And>e. e \<in> set (sv_workers s1) \<Longrightarrow> fst e = wid \<Longrightarrow> snd e = r \<or> mw_process (sv_obj s1 (snd e)) = None"
      using remove_ok_frees [OF tendsD(1) [OF t1], of "(wid, r, l)"] by (simp add: remove_ok_def)
  qed
  consider "s' = s1" | "\<not> running s1 r"
      "s' = s1\<lparr>sv_workers := AList.delete wid (sv_workers s1), sv_locks := AList.delete wid (sv_locks s1)\<rparr>"
    using a by (auto simp: remove_runs_def c Let_def s1_def [symmetric] split: if_splits)
  then show ?thesis
  proof cases
    case 2
    have "e \<in> set (AList.delete wid (sv_workers s1)) \<or> \<not> running s1 (snd e)" if "e \<in> set (sv_workers s1)" for e
      using ok1 [OF that] that 2(1) by (cases "fst e = wid") (auto simp: running_iff AList.delete_eq)
    then have "frees s1 s'" by (auto simp: 2(2) frees_def running_iff AList.delete_eq)
    then have "tends s1 s'" by (rule tends_frees) (simp_all add: 2(2))
    then show ?thesis by (rule tends_trans [OF t1])
  qed (simp add: t1)
qed

lemma tends_critical_loops: "tends s (snd (critical_loops w it s))"
proof -
  have "tends s ((send_signal p SIGTERM (transition_to r STOPPING m s))\<lparr>sv_criticals := sv_criticals s @ [(it', r, KillWait p)]\<rparr>)"
    if "mw_process (sv_obj s r) = Some p" for p r m it'
    using that by (auto simp: tends_def frees_def running_iff critical_ok_def kill_ok_def pid_ok_def send_signal_def)
  then show ?thesis by (auto simp: critical_loops_def Let_def split: list.split option.split)
qed

lemma kill_step_pid: "kill_step w i k s = Some (Some k', s') \<Longrightarrow> kill_pid k' = kill_pid k"
  by (cases "(w, i, k, s)" rule: kill_step.cases) (auto simp: group_check_def force_kill_def split: if_splits)

lemma tends_critical_resumes:
  assumes a: "critical_resumes w n i s = Some (rep, s')" and ok: "tasks_ok s"
  shows "tends s s'"
  using a
proof (cases rule: critical_resumes_cases)
  case (1 it r k k1 s1)
  have c: "critical_ok s (it, r, k)" using ok nth_mem [OF 1(1)] by (auto simp: tasks_ok_def 1(2))
  then have k: "still s s1" "kill_ok s1 r k1" using kill_step_ok [OF 1(3)] by (auto simp: critical_ok_def)
  have f: "frees s s'" using still_frees [OF k(1)] by (simp add: 1(4) frees_def running_iff)
  have "critical_ok s' (it, r, k1)"
    using c k kill_step_pid [OF 1(3)] by (cases k1) (auto simp: 1(4) critical_ok_def kill_ok_def pid_ok_def still_def)
  moreover have "set (sv_criticals s') \<subseteq> insert (it, r, k1) (set (sv_criticals s))"
    using set_update_subset_insert [of "sv_criticals s1" n "(it, r, k1)"] k(1) by (auto simp: 1(4) still_def)
  ultimately show ?thesis
    using f k(1) start_kill [OF 1(3)] by (auto simp: tends_def 1(4) still_def)
next
  case (2 it r k s1)
  let ?s2 = "s1\<lparr>sv_criticals := take n (sv_criticals s1) @ drop (Suc n) (sv_criticals s1)\<rparr>"
  have "critical_ok s (it, r, k)" using ok nth_mem [OF 2(1)] by (auto simp: tasks_ok_def 2(2))
  then have k: "still s s1" "\<not> running s1 r" using kill_step_ok [OF 2(3)] by (auto simp: critical_ok_def)
  have "frees ?s2 (critical_isolates r ?s2)"
    unfolding critical_isolates_def by (rule isolating) (use k(2) in \<open>simp add: running_iff\<close>)
  moreover have "frees s ?s2" using still_frees [OF k(1)] by (simp add: frees_def running_iff)
  ultimately have "frees s (critical_isolates r ?s2)" using frees_trans by blast
  then have "tends s (critical_isolates r ?s2)"
    by (rule tends_frees) (use k(1) start_kill [OF 2(3)] in
      \<open>auto simp: critical_isolates_def still_def dest: in_set_takeD in_set_dropD\<close>)
  then show ?thesis using tends_trans [OF _ tends_critical_loops, of s "critical_isolates r ?s2" w it] 2(4) by simp
qed

lemma tends_registers:
  assumes "keys_ok s" and "register_profile p s = (res, s')"
  shows "tends s s'"
proof (cases "s' = s")
  case False
  then show ?thesis using assms(2) False
    by (auto simp: register_profile_def tends_def frees_def running_iff new_worker_def split: if_splits)
qed simp

lemma tends_step:
  assumes st: "step e s = Some (rep, s')" and spawn: "\<forall>w. e \<noteq> StartResumes w (SpawnAnswer None)" and inv: "keys_ok s" and ok: "tasks_ok s"
  shows "tends s s'"
proof (cases e)
  case (ProcessExits p c)
  then have "s' = s\<lparr>sv_code := (sv_code s)(p := Some c)\<rparr>" using st by (simp split: if_splits)
  then show ?thesis by (auto intro!: tends_frees simp: frees_def running_iff)
next
  case (StartResumes w i)
  then obtain t where "sv_start s = Some t" "start_step w i t (st_phase t) s = Some (rep, s')" using st by (auto split: option.splits)
  then show ?thesis using tends_start_step [of w i t s "(rep, s')"] spawn StartResumes ok by auto
next
  case (Registers p)
  then show ?thesis using st tends_registers [OF inv, of p] by (auto split: prod.splits sum.splits)
next
  case (TakesLoadLock n)
  obtain wid r l s1 where t: "lock_of wid s = (l, s1)" "s' = s1\<lparr>sv_waiting := take n (sv_waiting s) @ drop (Suc n) (sv_waiting s),
          sv_start := Some \<lparr>st_id = wid, st_ref = r, st_lock = l, st_phase = StartLock\<rparr>\<rparr>"
    using st TakesLoadLock by (auto simp: load_lock_taken_def split: if_splits prod.splits)
  have "still s s'" unfolding t(2) using still_lock [OF still_refl t(1)] by (simp add: still_def)
  then show ?thesis by (rule tends_still) (simp add: t(2) start_ok_def)
next
  case (WatchSees r p)
  then have "still s s'" using st by (auto simp: watch_sees_def Let_def intro!: still_steps split: option.splits if_splits)
  then show ?thesis by (rule tends_still) (use st WatchSees in \<open>auto simp: watch_sees_def Let_def split: option.splits if_splits\<close>)
next
  case (StopResumes w n i)
  then show ?thesis using st ok by (auto intro: tends_stop_resumes)
next
  case (CriticalResumes w n i)
  then show ?thesis using st ok by (auto intro: tends_critical_resumes)
next
  case (RemoveRuns n)
  then show ?thesis using st ok by (auto intro: tends_remove_runs)
next
  case (CallsCritical w)
  then show ?thesis using st tends_critical_loops [of s w] by (auto simp: critical_call_def) (metis snd_conv)
next
  case RefreshesExits
  then show ?thesis using st still_refresh [of s] start_state_quiet [OF quiet_refresh] by (auto intro: tends_still)
next
  case (WatchRuns r)
  then have "\<exists>ws. s' = s\<lparr>sv_watches := ws\<rparr>" using st by (auto simp: watch_runs_def Let_def split: if_splits)
  then show ?thesis by auto
next
  case (CallsRemove wid)
  then show ?thesis using st tends_remove_call [OF inv, of wid] by simp
next
  case (CallsStart wid)
  then show ?thesis using st tends_start_call [of s wid] by simp
next
  case (CallsStop wid)
  then show ?thesis using st tends_stop_call [of s wid PlainStop] by simp
next
  case (CallsRestart wid)
  then show ?thesis using st tends_stop_call [of s wid "RestartStop wid"] by simp
next
  case CallsStopAll
  then show ?thesis using st tends_stop_all [of s "(length (sv_workers s), [])"] by simp
next
  case TakesEvent
  then show ?thesis using st by (auto split: list.splits)
qed

lemma keys_runs: "runs_to s es s' \<Longrightarrow> sup_inv s \<Longrightarrow> keys_ok s'"
  using inv_runs by (auto simp: sup_inv_def)

lemma tends_runs:
  assumes "runs_to s es s'" and "\<forall>w. StartResumes w (SpawnAnswer None) \<notin> set es" and "sup_inv s" and "tasks_ok s"
  shows "tends s s'"
  using assms
proof (induction rule: runs_to.induct)
  case (runs_snoc s es s1 e r s2)
  then have t: "tends s s1" by simp
  have "tends s1 s2"
    using tends_step [of e s1 r s2] runs_snoc tasks_tend [OF t] keys_runs [OF runs_snoc.hyps(1)] by (auto simp: steps_to_iff)
  then show ?case by (rule tends_trans [OF t])
qed simp

text \<open>A process that a worker of the dictionary held has exited when that worker runs no more.\<close>

lemma frees_exit:
  assumes f: "frees s s'" and "keys_ok s" and e: "e \<in> set (sv_workers s)" and p: "mw_process (sv_obj s (snd e)) = Some p"
    and no: "\<forall>e\<in>set (sv_workers s'). \<not> running s' (snd e)"
  shows "sv_code s' p \<noteq> None"
proof -
  have "\<not> running s' (snd e)" using f e no unfolding frees_def by blast
  moreover have "snd e < sv_refs s" using assms(2) e by (simp add: keys_ok_def)
  then have "mw_process (sv_obj s' (snd e)) = Some p \<or> sv_code s' p \<noteq> None" using f p unfolding frees_def by blast
  ultimately show ?thesis by (auto simp: running_iff)
qed

lemma crit_ok_runs:
  assumes "runs_to s es s1" and "sv_criticals s = []" and "\<forall>w. StartResumes w (SpawnAnswer None) \<notin> set es"
  shows "crit_ok s1"
  using assms
proof (induction rule: runs_to.induct)
  case (runs_Nil s)
  then show ?case by (simp add: crit_ok_def)
next
  case (runs_snoc s es s1 e r s2)
  then show ?case using crit_step [of e s1 r s2] by (auto simp: steps_to_iff)
qed

text \<open>C10: A critical stop leaves nothing running: from a reachable state in which no start, stop,
  removal or critical stop is suspended, when a critical stop reports that it is done, whatever
  operations ran in between as long as no start created a process, no worker of the dictionary runs,
  every process that a worker held at the beginning has exited, and every critical stop that is still
  waiting has sent SIGTERM to the process it waits for.\<close>

theorem critical_stop_isolates_workers:
  assumes "reachable ps s" and idle: "sv_start s = None" "sv_stops s = []" "sv_removes s = []" "sv_criticals s = []"
    and "runs_to s es s1" and "\<forall>w. StartResumes w (SpawnAnswer None) \<notin> set es"
    and "e = CallsCritical w \<or> e = CriticalResumes w n i" and "steps_to s1 e Done s2"
  shows "(\<forall>(k, r)\<in>set (sv_workers s2). \<not> running s2 r)
    \<and> (\<forall>(k, r)\<in>set (sv_workers s). \<forall>p. mw_process (sv_obj s r) = Some p \<longrightarrow> sv_code s2 p \<noteq> None)
    \<and> (\<forall>(it, r, k)\<in>set (sv_criticals s1) \<union> set (sv_criticals s2). (kill_pid k, SIGTERM) \<in> set (sv_signals s2))"
proof -
  have inv: "sup_inv s" by (rule inv_reachable [OF assms(1)])
  have t1: "tends s s1" by (rule tends_runs [OF assms(6,7) inv]) (simp add: tasks_ok_def start_ok_def idle)
  have ok: "tasks_ok s" by (simp add: tasks_ok_def start_ok_def idle)
  have t2: "tends s1 s2"
    using tends_step [of e s1 Done s2] assms(8,9) keys_runs [OF assms(6) inv] tasks_tend [OF t1 ok] by (auto simp: steps_to_iff)
  have no: "\<forall>e\<in>set (sv_workers s2). \<not> running s2 (snd e)"
    using crit_step [of e s1 Done s2] crit_ok_runs [OF assms(6) idle(4) assms(7)] assms(8,9) by (auto simp: steps_to_iff)
  have ok1: "tasks_ok s1" by (rule tasks_tend [OF t1 ok])
  have "critical_ok s2 c" if "c \<in> set (sv_criticals s1) \<union> set (sv_criticals s2)" for c
    using that critical_ok_frees [OF tendsD(1) [OF t2]] ok1 tasks_tend [OF t2 ok1] unfolding tasks_ok_def by blast
  then have "(\<forall>(it, r, k)\<in>set (sv_criticals s1) \<union> set (sv_criticals s2). (kill_pid k, SIGTERM) \<in> set (sv_signals s2))"
    unfolding critical_ok_def by auto
  moreover have "sv_code s2 p \<noteq> None" if "e \<in> set (sv_workers s)" "mw_process (sv_obj s (snd e)) = Some p" for e p
    by (rule frees_exit [OF tendsD(1) [OF tends_trans [OF t1 t2]] _ that no]) (use inv in \<open>simp add: sup_inv_def\<close>)
  ultimately show ?thesis using no by auto
qed

theorem critical_stop_isolates_workers_witness:
  "\<exists>s s1 s2. reachable [exclusive_profile] s \<and> running s 0 \<and> steps_to s (CallsCritical example_world) Pending s1
     \<and> (\<exists>s1'. steps_to s1 (ProcessExits 0 (-15)) Done s1'
       \<and> steps_to s1' (CriticalResumes example_world 0 KillExit) Done s2) \<and> sv_code s2 0 \<noteq> None"
proof -
  obtain s i where r: "reachable [exclusive_profile] s" and idle: "sv_start s = None"
    and w: "sv_workers s = [(i, 0)]" "mw_process (sv_obj s 0) = Some 0" "sv_code s 0 = None"
    "sv_pids s = 1" "sv_stops s = []" "sv_removes s = []" "sv_criticals s = []"
    using example_ready unfolding only_process_def by metis
  have run: "running s 0" using w by (simp add: running_iff)
  let ?s1 = "(send_signal 0 SIGTERM (transition_to 0 STOPPING ''Critical thermal safety stop'' s))
      \<lparr>sv_criticals := [((1, [(i, 0)]), 0, KillWait 0)]\<rparr>"
  have 1: "steps_to s (CallsCritical example_world) Pending ?s1"
    using w run by (simp add: steps_to_iff critical_call_def critical_loops_def unvisited_def Let_def)
  let ?s1' = "?s1\<lparr>sv_code := (sv_code ?s1)(0 := Some (-15))\<rparr>"
  have 2: "steps_to ?s1 (ProcessExits 0 (-15)) Done ?s1'"
    using w by (simp add: steps_to_iff send_signal_def)
  let ?s2 = "critical_isolates 0 (?s1'\<lparr>sv_criticals := []\<rparr>)"
  have s2: "sv_workers ?s2 = [(i, 0)]" using w by (simp add: critical_isolates_def send_signal_def)
  have "critical_loops example_world (1, [(i, 0)]) ?s2 = (Done, ?s2)"
    using s2 by (simp add: critical_loops_def unvisited_def Let_def)
  then have 3: "steps_to ?s1' (CriticalResumes example_world 0 KillExit) Done ?s2"
    by (simp add: steps_to_iff critical_resumes_def group_check_def example_world_def)
  have es: "runs_to s ([] @ [CallsCritical example_world] @ [ProcessExits 0 (-15)]) ?s1'"
    using runs_snoc [OF runs_snoc [OF runs_Nil 1] 2] by simp
  have "sv_code ?s2 0 \<noteq> None"
    using critical_stop_isolates_workers [OF r idle w(5,6,7) es _ disjI2 [OF HOL.refl] 3] w(1,2) by auto
  with r run 1 2 3 show ?thesis by blast
qed

end
