(* ===== verification/Gateway.thy ===== *)
theory Gateway
  imports Domain Thermal_Manager Launch
begin

text \<open>
  The pure part of the inference gateway (\<open>gateway/app.py\<close>): the shapes of its answers, the
  candidates of a route, what a worker's health means, the identities it publishes for discovery,
  and the validation of the request bodies it inspects. The text of floats and containers (\<open>rp\<close>)
  and the digest of a configuration (\<open>digest\<close>) are parameters.
\<close>

section \<open>Routes\<close>

text \<open>\<open>RouteCandidates\<close> remembers the configured identifiers; a plain list of a static table does
  not.\<close>

record gateway_route =
  gr_configured :: "string list option"
  gr_candidates :: "model_profile list"

type_synonym routes = "(string \<times> gateway_route) list"

definition is_family :: "generation_family \<Rightarrow> model_profile \<Rightarrow> bool" where
  "is_family f p = (mp_generation_family p = f)"

definition route_candidates :: "routes \<Rightarrow> string \<Rightarrow> gateway_route option" where
  "route_candidates rs name = (case map_of rs name of
       Some g \<Rightarrow> Some g
     | None \<Rightarrow> map_option snd (List.find (\<lambda>(n, g).
         list_ex (\<lambda>p. mp_model_id p = name \<and> is_family VISION_LANGUAGE p) (gr_candidates g)) rs))"

text \<open>\<open>if not candidates\<close>: an unknown route and a route without a usable worker look alike.\<close>

definition usable :: "gateway_route option \<Rightarrow> gateway_route option" where
  "usable g = (case g of None \<Rightarrow> None | Some r \<Rightarrow> if gr_candidates r = [] then None else Some r)"

definition endpoint :: "model_profile \<Rightarrow> string" where
  "endpoint p = ''http://127.0.0.1:'' @ show_int (mp_port p)"

definition upstream_model :: "model_profile \<Rightarrow> string \<Rightarrow> string" where
  "upstream_model p name = (if is_family VISION_LANGUAGE p then mp_model_id p else name)"

definition upstream_headers :: "environment \<Rightarrow> model_profile \<Rightarrow> string \<Rightarrow> (string \<times> string) list" where
  "upstream_headers env p request_id =
     (if is_family VISION_LANGUAGE p
      then [(''Authorization'', ''Bearer '' @ env_get env ''MODELDECK_SCENECHAT_API_KEY'' ''local'')] else [])
     @ (if request_id \<noteq> [] then [(''X-Request-ID'', request_id)] else [])"

definition route_role :: "model_profile \<Rightarrow> gateway_route \<Rightarrow> string res" where
  "route_role selected g = (case gr_configured g of
       Some [] \<Rightarrow> Inl (IndexError ''tuple index out of range'')
     | Some (i # _) \<Rightarrow> Inr (if i = mp_id selected then ''primary'' else ''backup'')
     | None \<Rightarrow> Inr (case gr_candidates g of
         p # _ \<Rightarrow> if mp_id p = mp_id selected then ''primary'' else ''backup'' | [] \<Rightarrow> ''backup''))"

section \<open>Answers\<close>

record gateway_response =
  gw_status :: int
  gw_body :: pyval
  gw_headers :: "(string \<times> string) list"

definition json_response :: "int \<Rightarrow> pydict \<Rightarrow> (string \<times> string) list \<Rightarrow> gateway_response" where
  "json_response st body headers = \<lparr>gw_status = st, gw_body = VDict body, gw_headers = headers\<rparr>"

definition str_or_none :: "string \<Rightarrow> pyval" where
  "str_or_none s = (if s = [] then VNone else VStr s)"

definition unavailable :: "string \<Rightarrow> string \<Rightarrow> gateway_response" where
  "unavailable name family = json_response 503
     [(''error'', VDict
        [(''code'', VStr ''local_route_unavailable''),
         (''message'', VStr (if name \<noteq> [] then ''No ready Worker supplies Route '' @ CHR 0x27 # name @ [CHR 0x27, CHR ''.'']
                             else ''Supply the public Route name in the model field.'')),
         (''route'', str_or_none name),
         (''required_generation_family'', VStr family),
         (''cloud_fallback_attempted'', VBool False)])] []"

definition gateway_error :: "int \<Rightarrow> string \<Rightarrow> string \<Rightarrow> string \<Rightarrow> gateway_response" where
  "gateway_error st code message name = json_response st
     [(''error'', VDict
        [(''code'', VStr code), (''message'', VStr message), (''route'', str_or_none name),
         (''cloud_fallback_attempted'', VBool False)])] []"

definition thermal_error_response :: "string \<Rightarrow> admission_decision \<Rightarrow> gateway_response res" where
  "thermal_error_response name d =
     rbind (case ad_suggested_retry_seconds d of
         None \<Rightarrow> Inr []
       | Some f \<Rightarrow> rbind (py_int_of (VFloat f)) (\<lambda>i. Inr [(''Retry-After'', show_int (max 1 i))])) (\<lambda>headers.
       Inr (json_response (if ad_action d = CANCEL then 503 else 429)
         [(''error'', VDict
            [(''code'', VStr (ad_reason_code d)), (''message'', VStr (ad_reason d)),
             (''route'', str_or_none name), (''thermal'', VDict (decision_as_dict d)),
             (''cloud_fallback_attempted'', VBool False)])] headers))"

definition thermal_response_headers :: "(pyval \<Rightarrow> string) \<Rightarrow> admission_decision \<Rightarrow> (string \<times> string) list" where
  "thermal_response_headers rp d =
     (let interval = dget (ad_degradation d) ''minimum_frame_interval_seconds'' in
      [(''x-modeldeck-thermal-state'', thermal_state_value (ad_thermal_state d)),
       (''x-modeldeck-thermal-reason'', ad_reason_code d)]
      @ (if interval = VNone then []
         else [(''x-modeldeck-minimum-frame-interval-seconds'', py_str rp interval)]))"

definition thermal_queue_timeout ::
  "thermal_config \<Rightarrow> thermal_state \<Rightarrow> pydict \<Rightarrow> admission_decision \<Rightarrow> string \<Rightarrow> admission_decision" where
  "thermal_queue_timeout c st status d timestamp =
     \<lparr>ad_action = REJECT_RETRYABLE, ad_reason_code = ''thermal_queue_timeout'',
      ad_reason = ''ModelDeck is cooling down; shared heavy-work capacity did not become available in time.'',
      ad_thermal_state = st, ad_temperature_c = dget status ''temperature_c'',
      ad_suggested_retry_seconds = Some (recovery_step_seconds c), ad_degradation = ad_degradation d,
      ad_timestamp = timestamp, ad_telemetry_age_seconds = dget status ''telemetry_age_seconds''\<rparr>"

definition gateway_operation :: "string \<Rightarrow> string" where
  "gateway_operation path = (case map_of
     [(''/v1/chat/completions'', ''chat''), (''/v1/completions'', ''completion''),
      (''/v1/embeddings'', ''embedding''), (''/v1/translations'', ''translation''),
      (''/v1/audio/speech'', ''speech''), (''/v1/audio/transcriptions'', ''speech''),
      (''/v1/refine'', ''refinement''), (''/v1/diffuse'', ''diffusion''),
      (''/native/autoregressive/trace'', ''completion'')] path of
     None \<Rightarrow> ''heavy_inference'' | Some op \<Rightarrow> op)"

definition deprecated_response :: "string \<Rightarrow> gateway_response \<Rightarrow> gateway_response" where
  "deprecated_response successor r = r\<lparr>gw_headers :=
     AList.update ''Link'' (''<'' @ successor @ ''>; rel='' @ CHR 0x22 # ''successor-version'' @ [CHR 0x22])
       (AList.update ''Deprecation'' ''true'' (gw_headers r))\<rparr>"

section \<open>Health of a worker\<close>

text \<open>What \<open>GET /health\<close> gives: nothing usable (\<open>HTTPError\<close>, not JSON), or a status and a value.\<close>

type_synonym http_answer = "(bool \<times> pyval) option"

definition with_items :: "pydict \<Rightarrow> pydict \<Rightarrow> pydict" where
  "with_items d items = fold (\<lambda>(k, v). AList.update k v) items d"

definition worker_health :: "http_answer \<Rightarrow> model_profile \<Rightarrow> pydict option \<times> bool" where
  "worker_health answer p = (case answer of
     None \<Rightarrow> (None, False)
   | Some (success, VDict health) \<Rightarrow>
       if dget health ''worker_id'' \<noteq> VNone \<and> \<not> eq_str (dget health ''worker_id'') (mp_id p)
       then (Some (with_items health [(''ready'', VBool False), (''error'', VStr ''worker_identity_mismatch'')]), False)
       else (Some health, success \<and> dget health ''ready'' = VBool True)
   | Some _ \<Rightarrow> (Some [(''ready'', VBool False), (''error'', VStr ''invalid_worker_health'')], False))"

text \<open>The ordered first-ready rule, with the health seen on the way.\<close>

fun first_ready :: "(model_profile \<Rightarrow> http_answer) \<Rightarrow> model_profile list \<Rightarrow> model_profile option \<times> pydict option list" where
  "first_ready answer [] = (None, [])"
| "first_ready answer (p # ps) = (case worker_health (answer p) p of
     (h, True) \<Rightarrow> (Some p, [h])
   | (h, False) \<Rightarrow> (case first_ready answer ps of (sel, hs) \<Rightarrow> (sel, h # hs)))"

definition all_busy :: "pydict option list \<Rightarrow> bool" where
  "all_busy hs = (hs \<noteq> [] \<and> list_all (\<lambda>h. case h of None \<Rightarrow> False | Some d \<Rightarrow> dget d ''busy'' = VBool True) hs)"

section \<open>Published identities\<close>

text \<open>\<open>profile.model_dump(mode="json")\<close>.\<close>

definition opt_text_value :: "string option \<Rightarrow> pyval" where
  "opt_text_value t = (case t of None \<Rightarrow> VNone | Some s \<Rightarrow> VStr s)"

definition profile_dump :: "model_profile \<Rightarrow> pydict" where
  "profile_dump p =
     [(''id'', VStr (mp_id p)), (''model_id'', VStr (mp_model_id p)), (''revision'', VStr (mp_revision p)),
      (''artifact_model_id'', opt_text_value (mp_artifact_model_id p)),
      (''artifact_revision'', opt_text_value (mp_artifact_revision p)), (''alias'', VStr (mp_alias p)),
      (''generation_family'', VStr (generation_family_value (mp_generation_family p))),
      (''preferred_runtime'', VStr (mp_preferred_runtime p)),
      (''runtime_template_id'', opt_text_value (mp_runtime_template_id p)),
      (''runtime_template_version'', opt_text_value (mp_runtime_template_version p)),
      (''lifecycle'', VStr (lifecycle_value (mp_lifecycle p))), (''port'', VInt (mp_port p)),
      (''local_files_only'', VBool (mp_local_files_only p)), (''trust_remote_code'', VBool (mp_trust_remote_code p)),
      (''dtype'', VStr (mp_dtype p)), (''capabilities'', VDict (capability_dump (mp_capabilities p))),
      (''settings'', VDict (mp_settings p))]"

definition stable_model_configuration_fingerprint ::
  "(pydict \<Rightarrow> string) \<Rightarrow> string \<Rightarrow> string \<Rightarrow> string \<Rightarrow> string \<Rightarrow> pyval \<Rightarrow> string option \<Rightarrow> string" where
  "stable_model_configuration_fingerprint digest model_id revision runtime dtype context_length version = digest
     [(''model_id'', VStr model_id), (''revision'', VStr revision), (''runtime'', VStr runtime),
      (''dtype'', VStr dtype), (''context_length'', context_length),
      (''runtime_template_version'', opt_text_value version)]"

text \<open>\<open>isinstance(v, int) and not isinstance(v, bool)\<close>.\<close>

definition int_or_none :: "pyval \<Rightarrow> pyval" where
  "int_or_none v = (case v of VInt i \<Rightarrow> VInt i | _ \<Rightarrow> VNone)"

definition accelerator_for_runtime :: "string \<Rightarrow> pydict \<Rightarrow> string" where
  "accelerator_for_runtime runtime health =
     (if py_truthy (dget health ''rocm_version'') then ''rocm''
      else if suffix ''-rocm'' runtime then ''rocm''
      else if runtime = ''llama-vulkan'' \<or> str_in ''llamacpp-vulkan'' runtime then ''vulkan''
      else if runtime = ''marian-transformers-cpu'' then ''cpu''
      else if runtime = ''mock'' then ''mock'' else ''unknown'')"

text \<open>The state of a worker that the discovery consults.\<close>

record gateway_state =
  gs_ready :: bool
  gs_health :: "pydict option"

definition health_of :: "gateway_state \<Rightarrow> pydict" where
  "health_of st = (case gs_health st of None \<Rightarrow> [] | Some h \<Rightarrow> h)"

definition nonempty_text :: "pyval \<Rightarrow> string option" where
  "nonempty_text v = (case v of VStr s \<Rightarrow> if s \<noteq> [] then Some s else None | _ \<Rightarrow> None)"

definition opt_default :: "'a option \<Rightarrow> 'a \<Rightarrow> 'a" where
  "opt_default x d = (case x of None \<Rightarrow> d | Some v \<Rightarrow> v)"

text \<open>\<open>a or b\<close> on optional texts: the empty text is false.\<close>

definition text_or :: "string option \<Rightarrow> string \<Rightarrow> string" where
  "text_or x d = (case x of Some (c # s) \<Rightarrow> c # s | _ \<Rightarrow> d)"

definition resolved_identity :: "pydict \<Rightarrow> pydict" where
  "resolved_identity health =
     map (\<lambda>k. (k, dget health k)) [''model_id'', ''model_revision'', ''artifact_model_id'', ''artifact_revision'',
       ''artifact_id'', ''artifact_format'', ''artifact_sha256'', ''quantisation'', ''runtime'']
     @ [(''backend'', py_or (dget health ''resolved_backend'') (dget health ''backend'')),
        (''device'', py_or (dget health ''resolved_device'') (dget health ''device'')),
        (''precision'', dget health ''dtype''), (''context_length'', dget health ''context_length''),
        (''kv_cache'', VDict (map (\<lambda>k. (k, dget health k)) (filter (dhas health)
           [''kv_cache'', ''kv_cache_dtype'', ''prefix_cache_enabled'', ''prefix_caching''])))]"

definition worker_discovery_identity ::
  "(pydict \<Rightarrow> string) \<Rightarrow> model_profile \<Rightarrow> gateway_state \<Rightarrow> bool \<Rightarrow> pydict" where
  "worker_discovery_identity digest p st report_observed =
     (let health = health_of st; ready = gs_ready st;
          runtime = (if ready \<and> report_observed
            then opt_default (nonempty_text (dget health ''runtime'')) (mp_preferred_runtime p)
            else mp_preferred_runtime p);
          model_id = text_or (mp_artifact_model_id p) (mp_model_id p);
          revision = text_or (mp_artifact_revision p) (mp_revision p);
          observed = (if ready then dget health ''configuration_fingerprint'' else VNone)
      in [(''worker_id'', VStr (mp_id p)),
          (''requested'', VDict (execution_identity (profile_dump p))),
          (''resolved'', if ready \<and> report_observed then VDict (resolved_identity health) else VNone),
          (''model_id'', VStr model_id), (''revision'', VStr revision),
          (''base_model_id'', VStr (mp_model_id p)), (''base_model_revision'', VStr (mp_revision p)),
          (''artifact_model_id'', opt_text_value (mp_artifact_model_id p)),
          (''artifact_revision'', opt_text_value (mp_artifact_revision p)),
          (''runtime'', VStr runtime), (''configured_runtime'', VStr (mp_preferred_runtime p)),
          (''accelerator'', VStr (accelerator_for_runtime runtime (if report_observed then health else []))),
          (''ready'', VBool ready),
          (''configuration_fingerprint'', VStr (stable_model_configuration_fingerprint digest model_id revision
             (mp_preferred_runtime p) (mp_dtype p) (int_or_none (dget (mp_settings p) ''context_length''))
             (mp_runtime_template_version p))),
          (''runtime_configuration_fingerprint'', opt_text_value (nonempty_text observed))])"

definition legacy_configuration_fingerprint ::
  "(pydict \<Rightarrow> string) \<Rightarrow> model_profile \<Rightarrow> gateway_state \<Rightarrow> string \<Rightarrow> string" where
  "legacy_configuration_fingerprint digest p st runtime =
     opt_default (nonempty_text (if gs_ready st then dget (health_of st) ''configuration_fingerprint'' else VNone))
       (stable_model_configuration_fingerprint digest (mp_model_id p)
          (text_or (mp_artifact_revision p) (mp_revision p)) runtime (mp_dtype p)
          (int_or_none (dget (mp_settings p) ''context_length'')) (mp_runtime_template_version p))"

definition worker_response_headers :: "(pydict \<Rightarrow> string) \<Rightarrow> model_profile \<Rightarrow> string \<Rightarrow> (string \<times> string) list" where
  "worker_response_headers digest p role =
     [(''X-ModelDeck-Worker-Id'', mp_id p),
      (''X-ModelDeck-Configuration-Fingerprint'',
         legacy_configuration_fingerprint digest p \<lparr>gs_ready = False, gs_health = Some []\<rparr> (mp_preferred_runtime p)),
      (''X-ModelDeck-Route-Role'', role)]"

end
