(* ===== verification/Gateway_Requests.thy ===== *)
theory Gateway_Requests
  imports Gateway
begin

text \<open>
  The requests whose bodies the gateway inspects itself (\<open>gateway/app.py\<close>): embeddings, audio
  transcriptions, autoregressive traces and diffusion jobs. Parsing JSON is a parameter; the text
  of a validation error is the message of the failing check.
\<close>

section \<open>Embeddings\<close>

datatype embedding_input = OneText string | ManyTexts "string list"

definition embedding_texts :: "embedding_input \<Rightarrow> string list" where
  "embedding_texts i = (case i of OneText s \<Rightarrow> [s] | ManyTexts xs \<Rightarrow> xs)"

definition non_empty_text_input :: "embedding_input \<Rightarrow> unit res" where
  "non_empty_text_input i =
     (let inputs = embedding_texts i in
      if inputs = [] then Inl (ValueError ''input must contain at least one text string'')
      else if 128 < length inputs then Inl (ValueError ''input supports at most 128 text strings'')
      else if list_ex (\<lambda>s. strip s = []) inputs then Inl (ValueError ''input text strings cannot be empty'')
      else if list_ex (\<lambda>s. 32000 < length s) inputs
      then Inl (ValueError ''input text strings cannot exceed 32000 characters'')
      else Inr ())"

fun all_texts :: "pyval list \<Rightarrow> string list option" where
  "all_texts [] = Some []"
| "all_texts (VStr s # vs) = map_option (Cons s) (all_texts vs)"
| "all_texts _ = None"

definition embedding_input_of :: "pyval \<Rightarrow> embedding_input res" where
  "embedding_input_of v = (case v of
     VStr s \<Rightarrow> Inr (OneText s)
   | VList vs \<Rightarrow> (case all_texts vs of Some xs \<Rightarrow> Inr (ManyTexts xs) | None \<Rightarrow> Inl (ValueError ''input''))
   | _ \<Rightarrow> Inl (ValueError ''input''))"

text \<open>\<open>EmbeddingRequest.model_validate\<close>: exactly the two fields, a model of 1 to 128 characters.\<close>

definition embedding_request :: "pyval \<Rightarrow> (string \<times> embedding_input) res" where
  "embedding_request body = (case body of
     VDict d \<Rightarrow>
       (case dget d ''model'' of
          VStr m \<Rightarrow>
            if m = [] \<or> 128 < length m then Inl (ValueError ''model'')
            else if \<not> list_all (\<lambda>(k, _). k = ''model'' \<or> k = ''input'') d then Inl (ValueError ''extra'')
            else rbind (embedding_input_of (dget d ''input'')) (\<lambda>i.
                 rbind (non_empty_text_input i) (\<lambda>_. Inr (m, i)))
        | _ \<Rightarrow> Inl (ValueError ''model''))
   | _ \<Rightarrow> Inl (ValueError ''body''))"

definition embedding_dump :: "string \<times> embedding_input \<Rightarrow> pydict" where
  "embedding_dump r = [(''model'', VStr (fst r)),
     (''input'', case snd r of OneText s \<Rightarrow> VStr s | ManyTexts xs \<Rightarrow> VList (map VStr xs))]"

text \<open>The checks of \<open>/v1/embeddings\<close> before it proxies: an answer, or the body to send on.
  \<open>None\<close> is a body that is not JSON.\<close>

definition embeddings_checks :: "routes \<Rightarrow> pyval option \<Rightarrow> gateway_response + pydict" where
  "embeddings_checks rs payload =
     (case (case payload of None \<Rightarrow> Inl (ValueError ''JSONDecodeError'') | Some v \<Rightarrow> embedding_request v) of
        Inl e \<Rightarrow> Inl (gateway_error 422 ''invalid_embedding_request'' (error_text e) [])
      | Inr (m, i) \<Rightarrow>
          (case usable (route_candidates rs m) of
             None \<Rightarrow> Inl (gateway_error 404 ''model_not_found''
               (''No published embedding model has ID '' @ CHR 0x27 # m @ [CHR 0x27, CHR ''.'']) m)
           | Some g \<Rightarrow>
               if list_ex (\<lambda>p. \<not> is_family EMBEDDING p \<or> \<not> cs_embeddings (mp_capabilities p)) (gr_candidates g)
               then Inl (gateway_error 409 ''incompatible_worker''
                 (''Embedding Route '' @ CHR 0x27 # m @ CHR 0x27 # '' has no compatible embedding Worker.'') m)
               else Inr (embedding_dump (m, i))))"

section \<open>Audio transcriptions\<close>

definition WHISPER_SAMPLE_RATE_HZ :: nat where "WHISPER_SAMPLE_RATE_HZ = 16000"
definition WHISPER_MAXIMUM_AUDIO_SECONDS :: nat where "WHISPER_MAXIMUM_AUDIO_SECONDS = 8"
definition WHISPER_MAXIMUM_AUDIO_BYTES :: nat where
  "WHISPER_MAXIMUM_AUDIO_BYTES = WHISPER_SAMPLE_RATE_HZ * 2 * WHISPER_MAXIMUM_AUDIO_SECONDS"

definition maximum_characters :: nat where
  "maximum_characters = ((WHISPER_MAXIMUM_AUDIO_BYTES + 2) div 3) * 4"

definition maximum_request_bytes :: nat where
  "maximum_request_bytes = maximum_characters + 4096"

text \<open>\<open>base64.b64decode(text, validate=True)\<close>, of which only the length is used: full groups of
  four, the last one padded; after a full group CPython accepts any further padding.\<close>

definition b64_char :: "char \<Rightarrow> bool" where
  "b64_char c = (let n = (of_char c :: nat) in (65 \<le> n \<and> n \<le> 90) \<or> (97 \<le> n \<and> n \<le> 122) \<or> (48 \<le> n \<and> n \<le> 57)
     \<or> c = CHR ''+'' \<or> c = CHR ''/'')"

fun b64_length :: "string \<Rightarrow> nat option" where
  "b64_length [] = Some 0"
| "b64_length (a # b # c # d # s) =
     (if \<not> (b64_char a \<and> b64_char b) then None
      else if b64_char c \<and> b64_char d
      then (if list_all (\<lambda>x. x = CHR ''='') s then Some 3 else map_option (\<lambda>n. n + 3) (b64_length s))
      else if s \<noteq> [] then None
      else if b64_char c \<and> d = CHR ''='' then Some 2
      else if c = CHR ''='' \<and> d = CHR ''='' then Some 1
      else None)"
| "b64_length _ = None"

text \<open>The body as it streams in: stop as soon as it is too long.\<close>

fun read_stream :: "nat \<Rightarrow> string list \<Rightarrow> string \<Rightarrow> string option" where
  "read_stream limit [] acc = Some acc"
| "read_stream limit (c # cs) acc = (if limit < length (acc @ c) then None else read_stream limit cs (acc @ c))"

definition too_large :: gateway_response where
  "too_large = gateway_error 413 ''invalid_audio'' ''The transcription request exceeds the size limit.'' []"

definition invalid_audio :: "string \<Rightarrow> string \<Rightarrow> gateway_response" where
  "invalid_audio message name = gateway_error 422 ''invalid_audio'' message name"

definition audio_checks :: "(pyval \<Rightarrow> string) \<Rightarrow> pydict \<Rightarrow> gateway_response + pydict" where
  "audio_checks rp body =
     (let name = py_str rp (py_or (dget body ''model'') (VStr [])) in
      case dget body ''audio_base64'' of
        VStr encoded \<Rightarrow>
          if \<not> (4 \<le> length encoded \<and> length encoded \<le> maximum_characters)
          then Inl (invalid_audio ''Audio must contain at most eight seconds of PCM16.'' name)
          else (case b64_length encoded of
             None \<Rightarrow> Inl (invalid_audio ''audio_base64 is not valid base64.'' name)
           | Some n \<Rightarrow>
               if n = 0 \<or> n mod 2 \<noteq> 0 \<or> WHISPER_MAXIMUM_AUDIO_BYTES < n
               then Inl (invalid_audio ''Audio must contain between one sample and eight seconds of PCM16.'' name)
               else Inr body)
      | _ \<Rightarrow> Inl (invalid_audio ''Audio must contain at most eight seconds of PCM16.'' name))"

definition length_header :: "string option \<Rightarrow> gateway_response + unit" where
  "length_header content_length = (case content_length of
     None \<Rightarrow> Inr ()
   | Some text \<Rightarrow> (case parse_int text of
       None \<Rightarrow> Inl (invalid_audio ''Content-Length is invalid.'' [])
     | Some n \<Rightarrow> if int maximum_request_bytes < n then Inl too_large else Inr ()))"

definition read_transcription_envelope ::
  "(string \<Rightarrow> pyval option) \<Rightarrow> (pyval \<Rightarrow> string) \<Rightarrow> string option \<Rightarrow> string list \<Rightarrow> gateway_response + pydict" where
  "read_transcription_envelope parse rp content_length chunks =
     rbind (length_header content_length) (\<lambda>_.
     (case read_stream maximum_request_bytes chunks [] of
        None \<Rightarrow> Inl too_large
      | Some text \<Rightarrow> (case parse text of
          None \<Rightarrow> Inl (invalid_audio ''The request body must be JSON.'' [])
        | Some (VDict body) \<Rightarrow> audio_checks rp body
        | Some _ \<Rightarrow> Inl (invalid_audio ''The request body must be a JSON object.'' []))))"

section \<open>Traces\<close>

definition is_int_list :: "pyval \<Rightarrow> bool" where
  "is_int_list v = (case v of VList xs \<Rightarrow> list_all (\<lambda>x. case x of VInt _ \<Rightarrow> True | _ \<Rightarrow> False) xs | _ \<Rightarrow> False)"

definition is_text_list :: "pyval \<Rightarrow> bool" where
  "is_text_list v = (case v of VList xs \<Rightarrow> list_all (\<lambda>x. case x of VStr _ \<Rightarrow> True | _ \<Rightarrow> False) xs | _ \<Rightarrow> False)"

definition list_length :: "pyval \<Rightarrow> nat" where
  "list_length v = (case v of VList xs \<Rightarrow> length xs | _ \<Rightarrow> 0)"

definition trace_token_metadata_error :: "pyval \<Rightarrow> string option" where
  "trace_token_metadata_error payload = (case payload of
     VDict d \<Rightarrow>
       (let prompt_ids = dget d ''prompt_token_ids''; prompt_tokens = dget d ''prompt_tokens'';
            user_ids = dget d ''user_prompt_token_ids''; user_tokens = dget d ''user_prompt_tokens'' in
        if \<not> is_int_list prompt_ids then Some ''prompt_token_ids must be an array of integers''
        else if \<not> is_text_list prompt_tokens then Some ''prompt_tokens must be an array of strings''
        else if list_length prompt_tokens \<noteq> list_length prompt_ids
        then Some ''prompt_tokens must align one-to-one with prompt_token_ids''
        else if \<not> is_int_list user_ids then Some ''user_prompt_token_ids must be an array of integers''
        else if \<not> is_text_list user_tokens then Some ''user_prompt_tokens must be an array of strings''
        else if list_length user_tokens \<noteq> list_length user_ids
        then Some ''user_prompt_tokens must align one-to-one with user_prompt_token_ids''
        else None)
   | _ \<Rightarrow> Some ''trace response must be a JSON object'')"

definition invalid_trace_metadata :: "string \<Rightarrow> string \<Rightarrow> gateway_response" where
  "invalid_trace_metadata worker_id reason = json_response 502
     [(''error'', VDict
        [(''code'', VStr ''invalid_worker_trace_metadata''),
         (''message'', VStr (''Local Worker '' @ CHR 0x27 # worker_id @ CHR 0x27
             # '' returned invalid trace token metadata: '' @ reason @ ''.'')),
         (''worker_id'', VStr worker_id)])] []"

section \<open>Diffusion jobs\<close>

definition terminal_states :: "string list" where
  "terminal_states = [''complete'', ''cancelled'', ''failed'']"

definition terminal_payload :: "pyval \<Rightarrow> bool" where
  "terminal_payload v = (case v of VDict d \<Rightarrow> list_ex (\<lambda>s. eq_str (dget d ''state'') s) terminal_states | _ \<Rightarrow> False)"

text \<open>\<open>x in {...}\<close> raises for a state that cannot be hashed.\<close>

definition unhashable_state :: "pyval \<Rightarrow> bool" where
  "unhashable_state v = (case v of VDict d \<Rightarrow> \<not> hashable (dget d ''state'') | _ \<Rightarrow> False)"

text \<open>\<open>job_response_is_terminal\<close>; the gateway built the response, so its body is a value.\<close>

definition job_response_is_terminal :: "gateway_response \<Rightarrow> bool" where
  "job_response_is_terminal r = terminal_payload (gw_body r)"

text \<open>\<open>resolve_job_worker\<close>: the known route of the job, the stored assignment, or the first diffusion
  worker that does not answer 404. \<open>assigned\<close> is the profile of the stored worker, if any;
  \<open>status\<close> is \<open>None\<close> when the worker cannot be reached.\<close>

record job_lookup =
  jl_worker :: "model_profile option"
  jl_routes :: "(string \<times> model_profile) list"
  jl_saved :: "(string \<times> string) list"

definition diffusion_candidates :: "routes \<Rightarrow> model_profile list" where
  "diffusion_candidates rs = map snd (fold (\<lambda>p. AList.update (mp_id p) p)
     (filter (is_family TEXT_DIFFUSION) (concat (map (gr_candidates \<circ> snd) rs))) [])"

definition resolve_by_asking ::
  "(string \<times> model_profile) list \<Rightarrow> bool \<Rightarrow> (model_profile \<Rightarrow> int option) \<Rightarrow> routes \<Rightarrow> string \<Rightarrow> job_lookup" where
  "resolve_by_asking known stored status rs job_id =
     (case List.find (\<lambda>p. case status p of None \<Rightarrow> False | Some c \<Rightarrow> c \<noteq> 404) (diffusion_candidates rs) of
        None \<Rightarrow> \<lparr>jl_worker = None, jl_routes = known, jl_saved = []\<rparr>
      | Some p \<Rightarrow> \<lparr>jl_worker = Some p, jl_routes = AList.update job_id p known,
                    jl_saved = (if stored then [(job_id, mp_id p)] else [])\<rparr>)"

definition resolve_job_worker ::
  "(string \<times> model_profile) list \<Rightarrow> model_profile option res \<Rightarrow> bool \<Rightarrow> (model_profile \<Rightarrow> int option) \<Rightarrow> routes
     \<Rightarrow> string \<Rightarrow> job_lookup res" where
  "resolve_job_worker known assigned stored status rs job_id =
     (case map_of known job_id of
        Some p \<Rightarrow> Inr \<lparr>jl_worker = Some p, jl_routes = known, jl_saved = []\<rparr>
      | None \<Rightarrow> rbind assigned (\<lambda>a. Inr (case a of
          Some p \<Rightarrow>
            if is_family TEXT_DIFFUSION p
            then \<lparr>jl_worker = Some p, jl_routes = AList.update job_id p known, jl_saved = []\<rparr>
            else resolve_by_asking known stored status rs job_id
        | None \<Rightarrow> resolve_by_asking known stored status rs job_id)))"

end
