(* ===== verification/Gateway_Flow.thy ===== *)
theory Gateway_Flow
  imports Gateway_Requests
begin

text \<open>
  The requests in flight in the gateway (\<open>gateway/app.py\<close>): the shared thermal capacity, the table
  of active request identifiers, and the life of a proxied request, a binary request, a speech
  conversation and a diffusion job, as a transition system. One step is one stretch of code between
  two awaits; suspended coroutines are data. The locks of the capacity and of the request table
  guard sections without an await, so a section is part of one stretch. What the workers, the
  client, the clock and the thermal status file answer is an argument of the step. Cancellation of
  a coroutine is not modelled, nor a failure to write the workload file.
\<close>

section \<open>State\<close>

text \<open>What one stretch sees: the status file twice, because the first admission and the capacity loop
  read it separately, the clock, fresh identifiers, and the routes a conversation resolves.\<close>

record gateway_world =
  gw_first_status :: file_content
  gw_status_file :: file_content
  gw_now :: rat
  gw_timestamp :: string
  gw_fresh_id :: string
  gw_object_id :: string
  gw_routes :: routes
  gw_repr :: "pyval \<Rightarrow> string"
  gw_digest :: "pydict \<Rightarrow> string"

datatype task_kind = Proxy string | Binary string | Speech

record upstream_response =
  ur_status :: int
  ur_headers :: "(string \<times> string) list"

definition is_success :: "upstream_response \<Rightarrow> bool" where
  "is_success u = (200 \<le> ur_status u \<and> ur_status u \<le> 299)"

datatype gateway_reply =
    GPending
  | GReplies gateway_response
  | GStreams int "(string \<times> string) list"
  | GCloses int "pydict option"
  | GDone
  | GFails

text \<open>How a request ends once its connection is closed.\<close>

datatype outcome =
    NoneReady "pydict option list"
  | DuplicateId
  | TimedOut
  | Disconnected
  | Unreachable
  | StreamDone
  | Answered gateway_reply
  | SpeechUnavailable
  | SpeechDone

datatype task_phase =
    Waiting rat pyfloat thermal_state pydict admission_decision
  | Asking "model_profile list" "pydict option list"
  | Sending
  | Reading upstream_response
  | Streaming
  | Cancelling outcome
  | Closing outcome

record gateway_task =
  gk_kind :: task_kind
  gk_name :: string
  gk_body :: pydict
  gk_route :: gateway_route
  gk_workload :: workload_request
  gk_request_id :: string
  gk_timeout :: rat
  gk_decision :: "admission_decision option"
  gk_selected :: "model_profile option"
  gk_claimed :: bool
  gk_retained :: bool
  gk_phase :: task_phase

record job_monitor =
  jm_job :: string
  jm_worker :: model_profile
  jm_deadline :: rat
  jm_misses :: nat
  jm_asking :: bool

record diagnostic =
  dg_route :: pyval
  dg_outcome :: string
  dg_error_code :: pyval
  dg_worker :: "string option"
  dg_fingerprint :: "string option"
  dg_role :: "string option"

record gateway =
  gt_config :: thermal_config
  gt_active :: int
  gt_file :: int
  gt_throttled :: int
  gt_queued :: int
  gt_delay :: rat
  gt_job_claims :: "string list"
  gt_requests :: "(string \<times> model_profile) list"
  gt_tasks :: "gateway_task list"
  gt_monitors :: "job_monitor list"
  gt_last :: "diagnostic option"

definition gateway_init :: "thermal_config \<Rightarrow> gateway" where
  "gateway_init c = \<lparr>gt_config = c, gt_active = 0, gt_file = 0, gt_throttled = 0, gt_queued = 0, gt_delay = 0,
     gt_job_claims = [], gt_requests = [], gt_tasks = [], gt_monitors = [], gt_last = None\<rparr>"

section \<open>Thermal capacity\<close>

definition publish_activity :: "gateway \<Rightarrow> gateway" where
  "publish_activity s = s\<lparr>gt_file := max 0 (gt_active s)\<rparr>"

text \<open>\<open>gateway_thermal_status\<close> and the decision on it.\<close>

definition decide ::
  "gateway_world \<Rightarrow> file_content \<Rightarrow> workload_request \<Rightarrow> gateway \<Rightarrow> (pydict \<times> thermal_state \<times> admission_decision) res" where
  "decide w f req s =
     rbind (read_thermal_status (gt_config s) f (gw_now w)) (\<lambda>status.
     rbind (rbind (py_index (VDict status) ''state'') parse_thermal_state) (\<lambda>st.
       Inr (status, st, evaluate (gt_config s) req st (dget status ''temperature_c'')
              (dget status ''telemetry_age_seconds'') (Some 0) (gw_timestamp w))))"

datatype claim_result =
    Claimed admission_decision
  | Refused admission_decision
  | Waits task_phase

definition throttle :: "gateway \<Rightarrow> gateway" where
  "throttle s = s\<lparr>gt_throttled := gt_throttled s + 1\<rparr>"

definition take_capacity :: "gateway_world \<Rightarrow> rat option \<Rightarrow> gateway \<Rightarrow> gateway" where
  "take_capacity w queued_at s =
     (let s1 = publish_activity (s\<lparr>gt_active := gt_active s + 1\<rparr>) in
      case queued_at of None \<Rightarrow> s1 | Some q \<Rightarrow> s1\<lparr>gt_delay := gt_delay s1 + (gw_now w - q)\<rparr>)"

text \<open>One round of the loop under the capacity condition.\<close>

definition capacity_loop ::
  "gateway_world \<Rightarrow> workload_request \<Rightarrow> rat option \<Rightarrow> pyfloat \<Rightarrow> gateway \<Rightarrow> (claim_result \<times> gateway) res" where
  "capacity_loop w req queued_at deadline s =
     rbind (decide w (gw_status_file w) req s) (\<lambda>(status, st, d).
     if \<not> admitted d then Inr (Refused d, throttle s)
     else rbind (py_int_of (dget_or status ''heavy_concurrency_limit'' (VInt 0))) (\<lambda>limit.
       if gt_active s < limit then Inr (Claimed d, take_capacity w queued_at s)
       else (let q = opt_default queued_at (gw_now w);
                 s1 = (if queued_at = None then s\<lparr>gt_queued := gt_queued s + 1\<rparr> else s) in
         if deadline - Fin (gw_now w) \<le> Fin 0
         then Inr (Refused (thermal_queue_timeout (gt_config s) st status d (gw_timestamp w)), throttle s1)
         else Inr (Waits (Waiting q deadline st status d), s1))))"

definition claim_thermal_capacity ::
  "gateway_world \<Rightarrow> workload_request \<Rightarrow> gateway \<Rightarrow> (claim_result \<times> gateway) res" where
  "claim_thermal_capacity w req s =
     rbind (decide w (gw_first_status w) req s) (\<lambda>(_, _, d).
     if \<not> admitted d
     then Inr (Refused d, (if ad_action d = QUEUE then (\<lambda>x. x\<lparr>gt_queued := gt_queued x + 1\<rparr>) else id) (throttle s))
     else capacity_loop w req None (Fin (gw_now w) + recovery_step_seconds (gt_config s)) s)"

datatype wait_input = Notified | WaitExpires

definition waiting_resumes ::
  "gateway_world \<Rightarrow> wait_input \<Rightarrow> workload_request \<Rightarrow> rat \<Rightarrow> pyfloat \<Rightarrow> thermal_state \<Rightarrow> pydict \<Rightarrow> admission_decision
     \<Rightarrow> gateway \<Rightarrow> (claim_result \<times> gateway) res" where
  "waiting_resumes w i req q deadline st status d s =
     (if i = WaitExpires \<and> \<not> Fin (gw_now w) < deadline
      then Inr (Refused (thermal_queue_timeout (gt_config s) st status d (gw_timestamp w)), throttle s)
      else capacity_loop w req (Some q) deadline s)"

definition release_thermal_capacity :: "gateway \<Rightarrow> gateway" where
  "release_thermal_capacity s = publish_activity (s\<lparr>gt_active := max 0 (gt_active s - 1)\<rparr>)"

definition retain_thermal_job_capacity :: "string \<Rightarrow> gateway \<Rightarrow> gateway" where
  "retain_thermal_job_capacity job s = s\<lparr>gt_job_claims := List.insert job (gt_job_claims s)\<rparr>"

definition release_thermal_job_capacity :: "string \<Rightarrow> gateway \<Rightarrow> gateway" where
  "release_thermal_job_capacity job s =
     (if job \<notin> set (gt_job_claims s) then s
      else publish_activity (s\<lparr>gt_job_claims := removeAll job (gt_job_claims s),
             gt_active := max 0 (gt_active s - 1)\<rparr>))"

section \<open>Active requests\<close>

text \<open>The table maps an identifier to the profile that serves it. Only the request that made an entry
  removes it, so comparing the profiles stands for the comparison of objects.\<close>

definition claim_active_request :: "string \<Rightarrow> model_profile \<Rightarrow> gateway \<Rightarrow> bool \<times> gateway" where
  "claim_active_request rid p s =
     (if dhas (gt_requests s) rid then (False, s)
      else (True, s\<lparr>gt_requests := AList.update rid p (gt_requests s)\<rparr>))"

definition release_active_request :: "string \<Rightarrow> model_profile option \<Rightarrow> gateway \<Rightarrow> gateway" where
  "release_active_request rid p s =
     (if p \<noteq> None \<and> map_of (gt_requests s) rid = p then s\<lparr>gt_requests := AList.delete rid (gt_requests s)\<rparr> else s)"

text \<open>\<open>/v1/requests/{id}/cancel\<close>: the worker that serves the request, then what it answers.\<close>

definition cancel_answer :: "(pyval \<Rightarrow> string) \<Rightarrow> string \<Rightarrow> gateway \<Rightarrow> http_answer \<Rightarrow> pydict" where
  "cancel_answer rp rid s answer = (case map_of (gt_requests s) rid of
     None \<Rightarrow> [(''ok'', VBool False), (''request_id'', VStr rid), (''state'', VStr ''not-found''), (''worker_id'', VNone)]
   | Some p \<Rightarrow> (case answer of
       Some (success, VDict payload) \<Rightarrow>
         [(''ok'', VBool (success \<and> dget payload ''ok'' = VBool True)), (''request_id'', VStr rid),
          (''state'', dget_or payload ''state'' (VStr (if py_truthy (dget payload ''ok'') then ''cancelling'' else ''not-found''))),
          (''worker_id'', VStr (mp_id p))]
     | _ \<Rightarrow> [(''ok'', VBool False), (''request_id'', VStr rid), (''state'', VStr ''worker-unavailable''),
             (''worker_id'', VStr (mp_id p))]))"

section \<open>Starting a request\<close>

definition record_diagnostic ::
  "(pydict \<Rightarrow> string) \<Rightarrow> string \<Rightarrow> string \<Rightarrow> pyval \<Rightarrow> (model_profile \<times> string) option \<Rightarrow> gateway \<Rightarrow> gateway" where
  "record_diagnostic digest name result code worker s = s\<lparr>gt_last := Some
     \<lparr>dg_route = str_or_none name, dg_outcome = result, dg_error_code = code,
      dg_worker = map_option (mp_id \<circ> fst) worker,
      dg_fingerprint = map_option (\<lambda>(p, _). legacy_configuration_fingerprint digest p
         \<lparr>gs_ready = False, gs_health = Some []\<rparr> (mp_preferred_runtime p)) worker,
      dg_role = map_option snd worker\<rparr>\<rparr>"

definition note_error :: "gateway_world \<Rightarrow> gateway_task \<Rightarrow> string \<Rightarrow> gateway \<Rightarrow> gateway" where
  "note_error w t code s = record_diagnostic (gw_digest w) (gk_name t) ''error'' (VStr code) None s"

definition request_workload :: "gateway_world \<Rightarrow> string \<Rightarrow> string \<Rightarrow> pydict \<Rightarrow> string \<Rightarrow> workload_request" where
  "request_workload w operation fallback body name =
     (let automatic = py_truthy (dget body ''automatic'') in
      \<lparr>workload_id = py_str (gw_repr w) (py_or (dget body ''request_id'') (VStr fallback)),
       wr_class = classify_workload operation automatic, wr_automatic = automatic,
       wr_backend = None, wr_model = Some name\<rparr>)"

definition new_task :: "task_kind \<Rightarrow> string \<Rightarrow> pydict \<Rightarrow> gateway_route \<Rightarrow> workload_request \<Rightarrow> string \<Rightarrow> rat \<Rightarrow> gateway_task" where
  "new_task k name body g req rid timeout = \<lparr>gk_kind = k, gk_name = name, gk_body = AList.delete ''automatic'' body,
     gk_route = g, gk_workload = req, gk_request_id = rid, gk_timeout = timeout, gk_decision = None,
     gk_selected = None, gk_claimed = False, gk_retained = False, gk_phase = Asking [] []\<rparr>"

definition add_task :: "gateway_task \<Rightarrow> gateway \<Rightarrow> gateway" where
  "add_task t s = s\<lparr>gt_tasks := gt_tasks s @ [t]\<rparr>"

text \<open>A refused request: the answer of its kind; nothing was claimed.\<close>

definition refuse :: "gateway_world \<Rightarrow> gateway_task \<Rightarrow> admission_decision \<Rightarrow> gateway \<Rightarrow> gateway_reply \<times> gateway" where
  "refuse w t d s = (case gk_kind t of
     Speech \<Rightarrow> (GCloses 1013 (Some [(''type'', VStr ''error''), (''code'', VStr (ad_reason_code d)),
        (''message'', VStr (ad_reason d)), (''thermal'', VDict (decision_as_dict d))]), s)
   | Binary _ \<Rightarrow> (case thermal_error_response (gk_name t) d of Inr r \<Rightarrow> GReplies r | Inl _ \<Rightarrow> GFails, s)
   | Proxy _ \<Rightarrow> (case thermal_error_response (gk_name t) d of Inr r \<Rightarrow> GReplies r | Inl _ \<Rightarrow> GFails,
        record_diagnostic (gw_digest w) (gk_name t) ''thermal_throttled'' (VStr (ad_reason_code d)) None s))"

definition local_route_unavailable :: "pydict option" where
  "local_route_unavailable = Some [(''type'', VStr ''error''), (''code'', VStr ''local_route_unavailable'')]"

text \<open>An admitted request asks its candidates; a conversation resolves its route only now.\<close>

definition admit :: "gateway_world \<Rightarrow> gateway_task \<Rightarrow> admission_decision \<Rightarrow> gateway_task" where
  "admit w t d = (let t1 = t\<lparr>gk_decision := Some d\<rparr> in case gk_kind t of
     Speech \<Rightarrow> (case usable (route_candidates (gw_routes w) (gk_name t)) of
        None \<Rightarrow> t1\<lparr>gk_phase := Closing SpeechUnavailable\<rparr>
      | Some g \<Rightarrow> (case filter (is_family SPEECH_CONVERSATION) (gr_candidates g) of
          [] \<Rightarrow> t1\<lparr>gk_route := g, gk_phase := Closing SpeechUnavailable\<rparr>
        | ps \<Rightarrow> t1\<lparr>gk_route := g, gk_phase := Asking ps []\<rparr>))
   | _ \<Rightarrow> t1\<lparr>gk_phase := Asking (gr_candidates (gk_route t)) []\<rparr>)"

text \<open>After the claim: a new task, or the same task in its next phase, or none. \<open>put\<close> stores it.\<close>

definition claim_settles ::
  "gateway_world \<Rightarrow> gateway_task \<Rightarrow> (gateway_task option \<Rightarrow> gateway \<Rightarrow> gateway) \<Rightarrow> (claim_result \<times> gateway) res
     \<Rightarrow> gateway \<Rightarrow> gateway_reply \<times> gateway" where
  "claim_settles w t put r s = (case r of
     Inl _ \<Rightarrow> (GFails, put None s)
   | Inr (Refused d, s1) \<Rightarrow> refuse w t d (put None s1)
   | Inr (Claimed d, s1) \<Rightarrow> (GPending, put (Some (admit w t d)) s1)
   | Inr (Waits ph, s1) \<Rightarrow> (GPending, put (Some (t\<lparr>gk_phase := ph\<rparr>)) s1))"

definition put_new :: "gateway_task option \<Rightarrow> gateway \<Rightarrow> gateway" where
  "put_new t s = (case t of None \<Rightarrow> s | Some x \<Rightarrow> add_task x s)"

definition claims_first :: "gateway_world \<Rightarrow> gateway_task \<Rightarrow> gateway \<Rightarrow> gateway_reply \<times> gateway" where
  "claims_first w t s = claim_settles w t put_new (claim_thermal_capacity w (gk_workload t) s) s"

definition proxy_call ::
  "gateway_world \<Rightarrow> string \<Rightarrow> rat \<Rightarrow> routes \<Rightarrow> pyval \<Rightarrow> gateway \<Rightarrow> gateway_reply \<times> gateway" where
  "proxy_call w path timeout rs payload s = (case payload of
     VDict body \<Rightarrow>
       (let name = py_str (gw_repr w) (py_or (dget body ''model'') (VStr [])) in
        case usable (route_candidates rs name) of
          None \<Rightarrow> (GReplies (unavailable name ''unknown''),
            record_diagnostic (gw_digest w) name ''error'' (VStr ''local_route_unavailable'') None s)
        | Some g \<Rightarrow> claims_first w (new_task (Proxy path) name body g
            (request_workload w (gateway_operation path) (''gateway-'' @ gw_object_id w) body name)
            (py_str (gw_repr w) (py_or (dget body ''request_id'') (VStr (gw_fresh_id w)))) timeout) s)
   | _ \<Rightarrow> (GFails, s))"

definition binary_call ::
  "gateway_world \<Rightarrow> string \<Rightarrow> rat \<Rightarrow> routes \<Rightarrow> pyval option \<Rightarrow> gateway \<Rightarrow> gateway_reply \<times> gateway" where
  "binary_call w path timeout rs payload s = (case payload of
     None \<Rightarrow> (GReplies (gateway_error 422 ''invalid_request'' ''The request body must be JSON.'' []), s)
   | Some (VDict body) \<Rightarrow>
       (let name = py_str (gw_repr w) (py_or (dget body ''model'') (VStr []));
            rid = py_str (gw_repr w) (py_or (dget body ''request_id'') (VStr [])) in
        if rid = [] then (GReplies (gateway_error 422 ''invalid_request_id'' ''Supply a caller-generated request_id.'' name), s)
        else (case usable (route_candidates rs name) of
          None \<Rightarrow> (GReplies (unavailable name (generation_family_value SPEECH_SYNTHESIS)), s)
        | Some g \<Rightarrow> claims_first w (new_task (Binary path) name body g
            (request_workload w (gateway_operation path) rid body name) rid timeout) s))
   | Some _ \<Rightarrow> (GFails, s))"

text \<open>The first message of a conversation; \<open>None\<close> is no message in time, or not JSON.\<close>

definition speech_call :: "gateway_world \<Rightarrow> pyval option \<Rightarrow> gateway \<Rightarrow> gateway_reply \<times> gateway" where
  "speech_call w first s = (case first of
     None \<Rightarrow> (GCloses 1008 None, s)
   | Some (VDict start) \<Rightarrow>
       (let name = py_str (gw_repr w) (py_or (dget start ''model'') (VStr [])) in
        claims_first w (new_task Speech name start \<lparr>gr_configured = None, gr_candidates = []\<rparr>
          (request_workload w ''speech'' (''speech-'' @ gw_object_id w) start name) [] 0) s)
   | Some _ \<Rightarrow> (GFails, s))"

text \<open>What is relayed: the worker's alias is replaced by the public name.\<close>

definition speech_start :: "model_profile \<Rightarrow> pydict \<Rightarrow> pydict" where
  "speech_start p start = AList.update ''model'' (VStr (mp_alias p)) start"

definition speech_event :: "model_profile \<Rightarrow> string \<Rightarrow> pyval \<Rightarrow> pyval" where
  "speech_event p public_name v = (case v of
     VDict d \<Rightarrow> if eq_str (dget d ''model'') (mp_alias p) then VDict (AList.update ''model'' (VStr public_name) d) else v
   | _ \<Rightarrow> v)"

section \<open>A request in flight\<close>

text \<open>What the request goes on with, once suspended: the task, or its reply when it is finished.\<close>

datatype continuation = GoesOn gateway_task | Ends gateway_reply

definition at_phase :: "gateway_task \<Rightarrow> task_phase \<Rightarrow> continuation" where
  "at_phase t ph = GoesOn (t\<lparr>gk_phase := ph\<rparr>)"

definition release_claims :: "gateway_task \<Rightarrow> gateway \<Rightarrow> gateway" where
  "release_claims t s =
     release_thermal_capacity (if gk_claimed t then release_active_request (gk_request_id t) (gk_selected t) s else s)"

definition busy_message :: "string \<Rightarrow> string" where
  "busy_message name = ''Every ready-capable Worker for Route '' @ CHR 0x27 # name @ CHR 0x27 # '' is currently busy.''"

definition duplicate_response :: "gateway_task \<Rightarrow> gateway_response" where
  "duplicate_response t = gateway_error 409 ''duplicate_request_id''
     (''Request ID '' @ CHR 0x27 # gk_request_id t @ CHR 0x27 # '' is already active.'') (gk_name t)"

definition timeout_response :: "gateway_task \<Rightarrow> gateway_response" where
  "timeout_response t = gateway_error 504 ''gateway_timeout''
     (''The local Worker for Route '' @ CHR 0x27 # gk_name t @ CHR 0x27 # '' did not respond within the gateway deadline.'') (gk_name t)"

definition first_family :: "gateway_task \<Rightarrow> string" where
  "first_family t = (case gr_candidates (gk_route t) of p # _ \<Rightarrow> generation_family_value (mp_generation_family p) | [] \<Rightarrow> [])"

text \<open>The end of a request whose connection is closed: the claims are released, then the answer.\<close>

fun finish :: "gateway_world \<Rightarrow> gateway_task \<Rightarrow> outcome \<Rightarrow> gateway \<Rightarrow> gateway_reply \<times> gateway" where
  "finish w t (NoneReady hs) s =
     (if all_busy hs
      then (GReplies (gateway_error 429 ''worker_busy'' (busy_message (gk_name t)) (gk_name t)),
            note_error w t ''worker_busy'' (release_thermal_capacity s))
      else (GReplies (unavailable (gk_name t) (first_family t)),
            note_error w t ''local_route_unavailable'' (release_thermal_capacity s)))"
| "finish w t DuplicateId s = (GReplies (duplicate_response t), release_thermal_capacity s)"
| "finish w t TimedOut s = (GReplies (timeout_response t), note_error w t ''gateway_timeout'' (release_claims t s))"
| "finish w t Disconnected s =
     (GReplies (gateway_error 499 ''client_disconnected''
        ''The gateway client disconnected before the local Worker completed.'' (gk_name t)),
      note_error w t ''client_disconnected'' (release_claims t s))"
| "finish w t Unreachable s =
     (GReplies (unavailable (gk_name t) (first_family t)), note_error w t ''local_route_unavailable'' (release_claims t s))"
| "finish w t StreamDone s = (GDone, release_claims t s)"
| "finish w t (Answered r) s =
     (r, (if gk_retained t then id else release_thermal_capacity)
           (if gk_claimed t then release_active_request (gk_request_id t) (gk_selected t) s else s))"
| "finish w t SpeechUnavailable s = (GCloses 1013 local_route_unavailable, release_thermal_capacity s)"
| "finish w t SpeechDone s = (GDone, release_thermal_capacity s)"

text \<open>A worker was found ready, or none was.\<close>

definition none_ready :: "gateway_world \<Rightarrow> gateway_task \<Rightarrow> pydict option list \<Rightarrow> gateway \<Rightarrow> continuation \<times> gateway" where
  "none_ready w t hs s = (case gk_kind t of
     Proxy _ \<Rightarrow> (at_phase t (Closing (NoneReady hs)), s)
   | Binary _ \<Rightarrow> (Ends (GReplies (unavailable (gk_name t) (generation_family_value SPEECH_SYNTHESIS))),
        release_thermal_capacity (note_error w t ''local_route_unavailable'' s))
   | Speech \<Rightarrow> (at_phase t (Closing SpeechUnavailable), s))"

definition PUBLIC_MODEL_PATHS :: "string list" where
  "PUBLIC_MODEL_PATHS = [''/v1/translations'', ''/v1/audio/transcriptions'']"

definition worker_found :: "gateway_world \<Rightarrow> gateway_task \<Rightarrow> model_profile \<Rightarrow> gateway \<Rightarrow> continuation \<times> gateway" where
  "worker_found w t p s = (case gk_kind t of
     Speech \<Rightarrow> (GoesOn (t\<lparr>gk_selected := Some p, gk_body := speech_start p (gk_body t), gk_phase := Streaming\<rparr>), s)
   | Proxy path \<Rightarrow> (case claim_active_request (gk_request_id t) p s of
       (False, s1) \<Rightarrow> (GoesOn (t\<lparr>gk_selected := Some p, gk_phase := Closing DuplicateId\<rparr>), s1)
     | (True, s1) \<Rightarrow> (GoesOn (t\<lparr>gk_selected := Some p, gk_claimed := True, gk_phase := Sending,
          gk_body := AList.update ''model'' (VStr (if path \<in> set PUBLIC_MODEL_PATHS then mp_alias p
            else upstream_model p (gk_name t))) (gk_body t)\<rparr>), s1))
   | Binary _ \<Rightarrow> (case claim_active_request (gk_request_id t) p s of
       (False, s1) \<Rightarrow> (Ends (GReplies (duplicate_response t)), release_thermal_capacity s1)
     | (True, s1) \<Rightarrow> (GoesOn (t\<lparr>gk_selected := Some p, gk_claimed := True, gk_phase := Sending,
          gk_body := AList.update ''model'' (VStr (mp_alias p)) (gk_body t)\<rparr>), s1)))"

definition health_arrives ::
  "gateway_world \<Rightarrow> gateway_task \<Rightarrow> http_answer \<Rightarrow> model_profile list \<Rightarrow> pydict option list \<Rightarrow> gateway \<Rightarrow> continuation \<times> gateway" where
  "health_arrives w t answer ps hs s = (case ps of
     [] \<Rightarrow> none_ready w t hs s
   | p # rest \<Rightarrow> (case worker_health answer p of
       (h, True) \<Rightarrow> worker_found w t p s
     | (h, False) \<Rightarrow> if rest = [] then none_ready w t (hs @ [h]) s else (at_phase t (Asking rest (hs @ [h])), s)))"

text \<open>What sending the request to the worker gives. \<open>SendRaises\<close> is a \<open>ValueError\<close>, which only a
  proxied request expects.\<close>

datatype send_result = SendAnswers upstream_response | SendTimesOut | SendDisconnects | SendFails | SendRaises

definition thermal_headers :: "gateway_world \<Rightarrow> gateway_task \<Rightarrow> (string \<times> string) list" where
  "thermal_headers w t = (case gk_decision t of None \<Rightarrow> [] | Some d \<Rightarrow> thermal_response_headers (gw_repr w) d)"

definition reply_headers :: "gateway_world \<Rightarrow> gateway_task \<Rightarrow> (string \<times> string) list res" where
  "reply_headers w t = (case gk_selected t of
     None \<Rightarrow> Inr (thermal_headers w t)
   | Some p \<Rightarrow> rbind (route_role p (gk_route t)) (\<lambda>role.
       Inr (worker_response_headers (gw_digest w) p role @ thermal_headers w t)))"

definition AUDIO_HEADERS :: "string list" where
  "AUDIO_HEADERS = [''x-request-id'', ''x-modeldeck-sample-rate-hz'', ''x-modeldeck-audio-duration-seconds'']"

text \<open>The code of an error answer: \<open>payload.get("error", {}).get("code")\<close> where both are dictionaries.\<close>

definition error_code :: "pyval \<Rightarrow> pyval" where
  "error_code payload = (case payload of
     VDict d \<Rightarrow> (case dget d ''error'' of VDict e \<Rightarrow> dget e ''code'' | _ \<Rightarrow> VNone) | _ \<Rightarrow> VNone)"

definition invalid_worker_response :: pyval where
  "invalid_worker_response = VDict [(''error'', VDict [(''code'', VStr ''invalid_worker_response''),
     (''message'', VStr ''The local speech synthesis Worker returned an invalid error response.'')])]"

definition media_type :: "upstream_response \<Rightarrow> string" where
  "media_type u = strip (takeWhile (\<lambda>c. c \<noteq> CHR '';'')
     (case map_of (ur_headers u) ''content-type'' of None \<Rightarrow> [] | Some v \<Rightarrow> v))"

text \<open>The answer of a binary request, whose claims are released before it is built. The payload of an
  error answer is \<open>None\<close> when it is not JSON; audio content is not modelled.\<close>

definition binary_answer ::
  "gateway_world \<Rightarrow> gateway_task \<Rightarrow> upstream_response \<Rightarrow> pyval option \<Rightarrow> gateway \<Rightarrow> gateway_reply \<times> gateway" where
  "binary_answer w t u payload s = (case reply_headers w t of
     Inl _ \<Rightarrow> (GFails, s)
   | Inr hs \<Rightarrow>
      (let headers = filter (\<lambda>(k, _). k \<in> set AUDIO_HEADERS) (ur_headers u) @ hs in
       if \<not> is_success u
       then (let v = (case payload of None \<Rightarrow> invalid_worker_response | Some x \<Rightarrow> x) in
         (GReplies \<lparr>gw_status = ur_status u, gw_body = v, gw_headers = headers\<rparr>,
          record_diagnostic (gw_digest w) (gk_name t) ''error'' (error_code v) None s))
       else if media_type u \<noteq> ''audio/wav''
       then (GReplies (gateway_error 502 ''invalid_worker_audio''
               ''The local speech synthesis Worker did not return WAV audio.'' (gk_name t)),
             note_error w t ''invalid_worker_audio'' s)
       else (GStreams (ur_status u) headers,
             record_diagnostic (gw_digest w) (gk_name t) ''success'' VNone None s)))"

definition binary_sent ::
  "gateway_world \<Rightarrow> gateway_task \<Rightarrow> send_result \<Rightarrow> pyval option \<Rightarrow> gateway \<Rightarrow> gateway_reply \<times> gateway" where
  "binary_sent w t r payload s = (case r of
     SendAnswers u \<Rightarrow> binary_answer w t u payload (release_claims t s)
   | SendTimesOut \<Rightarrow> (GReplies (timeout_response t), release_claims t (note_error w t ''gateway_timeout'' s))
   | SendFails \<Rightarrow> (GReplies (unavailable (gk_name t) (generation_family_value SPEECH_SYNTHESIS)),
        release_claims t (note_error w t ''local_route_unavailable'' s))
   | _ \<Rightarrow> (GFails, release_claims t s))"

definition proxy_sent :: "gateway_world \<Rightarrow> gateway_task \<Rightarrow> send_result \<Rightarrow> gateway_reply \<times> continuation" where
  "proxy_sent w t r = (case r of
     SendAnswers u \<Rightarrow>
       if py_truthy (dget (gk_body t) ''stream'')
       then (case reply_headers w t of Inr hs \<Rightarrow> GStreams (ur_status u) hs | Inl _ \<Rightarrow> GFails, at_phase t Streaming)
       else (GPending, at_phase t (Reading u))
   | SendTimesOut \<Rightarrow> (GPending, at_phase t (Cancelling TimedOut))
   | SendDisconnects \<Rightarrow> (GPending, at_phase t (Cancelling Disconnected))
   | _ \<Rightarrow> (GPending, at_phase t (Closing Unreachable)))"

text \<open>\<open>cancel_worker_inference\<close> asks the worker only when it can cancel.\<close>

definition asks_to_cancel :: "gateway_task \<Rightarrow> bool" where
  "asks_to_cancel t = (case gk_selected t of
     None \<Rightarrow> False | Some p \<Rightarrow> gk_request_id t \<noteq> [] \<and> cs_cancellation (mp_capabilities p))"

section \<open>The answer of a worker\<close>

definition set_model :: "string \<Rightarrow> pyval \<Rightarrow> pyval" where
  "set_model name v = (case v of VDict d \<Rightarrow> VDict (AList.update ''model'' (VStr name) d) | _ \<Rightarrow> v)"

definition REWRITTEN_PATHS :: "string list" where
  "REWRITTEN_PATHS = [''/v1/translations'', ''/v1/audio/transcriptions'', ''/v1/embeddings'']"

definition started_job :: "string \<Rightarrow> (pyval \<Rightarrow> string) \<Rightarrow> upstream_response \<Rightarrow> pyval \<Rightarrow> string option" where
  "started_job path rp u v = (case v of
     VDict d \<Rightarrow> if path = ''/v1/diffuse'' \<and> is_success u \<and> py_truthy (dget d ''job_id'')
       then Some (py_str rp (dget d ''job_id'')) else None
   | _ \<Rightarrow> None)"

definition watch_job :: "gateway_world \<Rightarrow> gateway_task \<Rightarrow> string \<Rightarrow> gateway \<Rightarrow> gateway" where
  "watch_job w t job s = (case gk_selected t of
     None \<Rightarrow> s
   | Some p \<Rightarrow> s\<lparr>gt_monitors := gt_monitors s @
       [\<lparr>jm_job = job, jm_worker = p, jm_deadline = gw_now w + gk_timeout t, jm_misses = 0, jm_asking = False\<rparr>]\<rparr>)"

definition text_code :: "pyval \<Rightarrow> pyval" where
  "text_code v = (case v of VStr s \<Rightarrow> v | _ \<Rightarrow> VNone)"

definition deliver ::
  "gateway_world \<Rightarrow> gateway_task \<Rightarrow> string \<Rightarrow> upstream_response \<Rightarrow> pyval \<Rightarrow> gateway \<Rightarrow> gateway_reply \<times> gateway" where
  "deliver w t path u v s =
     (let v1 = (if path \<in> set REWRITTEN_PATHS \<and> is_success u then set_model (gk_name t) v else v);
          trace_error = (if path = ''/native/autoregressive/trace'' \<and> is_success u
                         then trace_token_metadata_error v1 else None) in
      case (trace_error, gk_selected t) of
        (Some m, Some p) \<Rightarrow> (GReplies (invalid_trace_metadata (mp_id p) m), s)
      | (None, Some p) \<Rightarrow> (case (route_role p (gk_route t), reply_headers w t) of
          (Inr role, Inr hs) \<Rightarrow>
            (GReplies \<lparr>gw_status = ur_status u, gw_body = v1, gw_headers = hs\<rparr>,
             record_diagnostic (gw_digest w) (gk_name t) (if is_success u then ''success'' else ''error'')
               (if is_success u then VNone else text_code (error_code v1)) (Some (p, role)) s)
        | _ \<Rightarrow> (GFails, s))
      | (_, None) \<Rightarrow> (GFails, s))"

text \<open>The body has been read: \<open>None\<close> when it is not JSON. A started job keeps the capacity.\<close>

definition body_arrives ::
  "gateway_world \<Rightarrow> gateway_task \<Rightarrow> string \<Rightarrow> upstream_response \<Rightarrow> pyval option \<Rightarrow> gateway \<Rightarrow> continuation \<times> gateway" where
  "body_arrives w t path u payload s = (case payload of
     None \<Rightarrow> (at_phase t (Closing (Answered (GReplies (gateway_error 502 ''worker_protocol_error''
          (''The local Worker for Route '' @ CHR 0x27 # gk_name t @ CHR 0x27 # '' returned a non-JSON response.'') (gk_name t))))),
        note_error w t ''worker_protocol_error'' s)
   | Some v \<Rightarrow> (case started_job path (gw_repr w) u v of
       None \<Rightarrow> (case deliver w t path u v s of (r, s1) \<Rightarrow> (at_phase t (Closing (Answered r)), s1))
     | Some job \<Rightarrow> (case deliver w t path u v (watch_job w t job (retain_thermal_job_capacity job s)) of
         (r, s1) \<Rightarrow> (at_phase (t\<lparr>gk_retained := True\<rparr>) (Closing (Answered r)), s1))))"

section \<open>Steps\<close>

datatype task_input =
    Wakes wait_input
  | HealthIs http_answer
  | Sent send_result "pyval option"
  | BodyIs "pyval option"
  | BodyFails
  | StreamEnds bool
  | Goes

definition tasks_without :: "nat \<Rightarrow> gateway \<Rightarrow> gateway" where
  "tasks_without n s = s\<lparr>gt_tasks := take n (gt_tasks s) @ drop (Suc n) (gt_tasks s)\<rparr>"

definition put_task :: "nat \<Rightarrow> gateway_task option \<Rightarrow> gateway \<Rightarrow> gateway" where
  "put_task n t s = (case t of None \<Rightarrow> tasks_without n s | Some x \<Rightarrow> s\<lparr>gt_tasks := (gt_tasks s)[n := x]\<rparr>)"

definition continues :: "nat \<Rightarrow> continuation \<times> gateway \<Rightarrow> gateway_reply \<times> gateway" where
  "continues n c = (case c of
     (GoesOn t, s) \<Rightarrow> (GPending, put_task n (Some t) s)
   | (Ends r, s) \<Rightarrow> (r, put_task n None s))"

fun task_step :: "gateway_world \<Rightarrow> nat \<Rightarrow> task_input \<Rightarrow> gateway_task \<Rightarrow> task_phase \<Rightarrow> gateway \<Rightarrow> (gateway_reply \<times> gateway) option" where
  "task_step w n (Wakes i) t (Waiting q deadline st status d) s =
     Some (claim_settles w t (put_task n) (waiting_resumes w i (gk_workload t) q deadline st status d s) s)"
| "task_step w n (HealthIs a) t (Asking ps hs) s = Some (continues n (health_arrives w t a ps hs s))"
| "task_step w n (Sent r payload) t Sending s = Some (case gk_kind t of
     Binary _ \<Rightarrow> (case binary_sent w t r payload s of (rep, s1) \<Rightarrow> (rep, put_task n None s1))
   | _ \<Rightarrow> (case proxy_sent w t r of
       (rep, GoesOn t1) \<Rightarrow> (rep, put_task n (Some t1) s) | (rep, Ends r1) \<Rightarrow> (r1, put_task n None s)))"
| "task_step w n (BodyIs v) t (Reading u) s = (case gk_kind t of
     Proxy path \<Rightarrow> Some (continues n (body_arrives w t path u v s)) | _ \<Rightarrow> None)"
| "task_step w n BodyFails t (Reading u) s = Some (continues n (at_phase t (Closing (Answered GFails)), s))"
| "task_step w n (StreamEnds completed) t Streaming s = Some (continues n (at_phase t (case gk_kind t of
     Speech \<Rightarrow> Closing SpeechDone
   | _ \<Rightarrow> if completed then Closing StreamDone else Cancelling StreamDone), s))"
| "task_step w n Goes t (Cancelling out) s = Some (continues n (at_phase t (Closing out), s))"
| "task_step w n Goes t (Closing out) s = (case finish w t out s of (r, s1) \<Rightarrow> Some (r, put_task n None s1))"
| "task_step w n _ t _ s = None"

text \<open>\<open>monitor_thermal_job\<close>: a test of the deadline, which sends the question or ends the monitor; and
  an answer, which ends it or puts it to sleep until the next test. The answer is \<open>None\<close> when the
  request failed or was no JSON; a state that cannot be hashed raises, which ends the monitor.\<close>

definition monitors_without :: "nat \<Rightarrow> gateway \<Rightarrow> gateway" where
  "monitors_without n s = s\<lparr>gt_monitors := take n (gt_monitors s) @ drop (Suc n) (gt_monitors s)\<rparr>"

definition monitor_ends :: "job_monitor \<Rightarrow> (int \<times> pyval) option \<Rightarrow> bool" where
  "monitor_ends m answer = (case answer of
     None \<Rightarrow> 3 \<le> Suc (jm_misses m)
   | Some (status, v) \<Rightarrow> status = 404 \<or> terminal_payload v \<or> unhashable_state v)"

definition monitor_tests :: "gateway_world \<Rightarrow> nat \<Rightarrow> gateway \<Rightarrow> (gateway_reply \<times> gateway) option" where
  "monitor_tests w n s =
     (if \<not> n < length (gt_monitors s) \<or> jm_asking (gt_monitors s ! n) then None
      else (let m = gt_monitors s ! n in
        if gw_now w < jm_deadline m then Some (GPending, s\<lparr>gt_monitors := (gt_monitors s)[n := m\<lparr>jm_asking := True\<rparr>]\<rparr>)
        else Some (GDone, release_thermal_job_capacity (jm_job m) (monitors_without n s))))"

definition monitor_hears :: "nat \<Rightarrow> (int \<times> pyval) option \<Rightarrow> gateway \<Rightarrow> (gateway_reply \<times> gateway) option" where
  "monitor_hears n answer s =
     (if \<not> n < length (gt_monitors s) \<or> \<not> jm_asking (gt_monitors s ! n) then None
      else (let m = gt_monitors s ! n in
        if monitor_ends m answer then Some (GDone, release_thermal_job_capacity (jm_job m) (monitors_without n s))
        else Some (GPending, s\<lparr>gt_monitors := (gt_monitors s)
          [n := m\<lparr>jm_asking := False, jm_misses := (if answer = None then Suc (jm_misses m) else 0)\<rparr>]\<rparr>)))"

text \<open>The job endpoints: a terminal answer, or a successful cancellation, gives the capacity back; asking
  fails when the state cannot be hashed.\<close>

definition job_answered :: "string \<Rightarrow> gateway_response \<Rightarrow> gateway \<Rightarrow> gateway" where
  "job_answered job r s = (if job_response_is_terminal r then release_thermal_job_capacity job s else s)"

definition job_cancelled :: "string \<Rightarrow> gateway_response \<Rightarrow> gateway \<Rightarrow> gateway" where
  "job_cancelled job r s = (if gw_status r < 300 then release_thermal_job_capacity job s else s)"

definition proxy_job_request :: "(int \<times> pyval) option \<Rightarrow> gateway_response" where
  "proxy_job_request answer = (case answer of
     None \<Rightarrow> unavailable ''text-diffusion'' ''text-diffusion''
   | Some (status, v) \<Rightarrow> \<lparr>gw_status = status, gw_body = v, gw_headers = []\<rparr>)"

datatype gateway_event =
    CallsProxy gateway_world string rat routes pyval
  | CallsBinary gateway_world string rat routes "pyval option"
  | CallsSpeech gateway_world "pyval option"
  | Resumes gateway_world nat task_input
  | MonitorTests gateway_world nat
  | MonitorHears nat "(int \<times> pyval) option"
  | AsksJob string "(int \<times> pyval) option"
  | CancelsJob string "(int \<times> pyval) option"

fun gateway_step :: "gateway_event \<Rightarrow> gateway \<Rightarrow> (gateway_reply \<times> gateway) option" where
  "gateway_step (CallsProxy w path timeout rs body) s = Some (proxy_call w path timeout rs body s)"
| "gateway_step (CallsBinary w path timeout rs body) s = Some (binary_call w path timeout rs body s)"
| "gateway_step (CallsSpeech w first) s = Some (speech_call w first s)"
| "gateway_step (Resumes w n i) s =
     (if n < length (gt_tasks s) then task_step w n i (gt_tasks s ! n) (gk_phase (gt_tasks s ! n)) s else None)"
| "gateway_step (MonitorTests w n) s = monitor_tests w n s"
| "gateway_step (MonitorHears n answer) s = monitor_hears n answer s"
| "gateway_step (AsksJob job answer) s =
     (let r = proxy_job_request answer in
        Some (if unhashable_state (gw_body r) then GFails else GReplies r, job_answered job r s))"
| "gateway_step (CancelsJob job answer) s =
     (let r = proxy_job_request answer in Some (GReplies r, job_cancelled job r s))"

inductive gateway_steps :: "gateway \<Rightarrow> gateway_event \<Rightarrow> gateway_reply \<Rightarrow> gateway \<Rightarrow> bool" where
  gateway_stepI: "gateway_step e s = Some (r, s') \<Longrightarrow> gateway_steps s e r s'"

inductive gateway_reachable :: "thermal_config \<Rightarrow> gateway \<Rightarrow> bool" where
  reach_init: "gateway_reachable c (gateway_init c)"
| reach_step: "gateway_reachable c s \<Longrightarrow> gateway_steps s e r s' \<Longrightarrow> gateway_reachable c s'"

inductive_simps gateway_steps_iff: "gateway_steps s e r s'"

end
