(* ===== verification/Gateway_Discovery.thy ===== *)
theory Gateway_Discovery
  imports Gateway
begin

text \<open>
  What the gateway knows and publishes (\<open>gateway/app.py\<close>): the routes it resolves from the active
  routing snapshots, the state of the workers behind them, and the read-only endpoints
  \<open>/v1/health\<close>, \<open>/v1/models\<close>, \<open>/v1/capabilities\<close>, \<open>/v1/routes\<close>, \<open>/v1/metrics\<close> and
  \<open>/native/v1/capabilities\<close>. The rows of the store and the answers of the workers are arguments.
\<close>

section \<open>Route records\<close>

text \<open>What the gateway consults: the validation of worker documents, the printing of values, the
  store's rows, snapshots and rehearsals, and the worker names.\<close>

record gateway_view =
  gv_harness :: bool
  gv_to_bool :: "pyval \<Rightarrow> bool res"
  gv_parse :: "pydict \<Rightarrow> worker_definition res"
  gv_repr :: "pyval \<Rightarrow> string"
  gv_digest :: "pydict \<Rightarrow> string"
  gv_rows :: "worker_row list"
  gv_snapshots :: "pydict list"
  gv_tool_calling :: "string option \<Rightarrow> int option \<Rightarrow> string option \<Rightarrow> pydict"
  gv_names :: "(string \<times> pyval) list"

type_synonym route_record = "string \<times> gateway_route \<times> pydict"

definition dict_items :: "pyval \<Rightarrow> pydict list" where
  "dict_items v = (case v of VList xs \<Rightarrow> concat (map (\<lambda>x. case x of VDict d \<Rightarrow> [d] | _ \<Rightarrow> []) xs) | _ \<Rightarrow> [])"

definition text_items :: "pyval \<Rightarrow> string list" where
  "text_items v = (case v of VList xs \<Rightarrow> concat (map (\<lambda>x. case x of VStr s \<Rightarrow> [s] | _ \<Rightarrow> []) xs) | _ \<Rightarrow> [])"

definition ROUTING_FORMAT :: string where
  "ROUTING_FORMAT = ''modeldeck-routing-profile''"

text \<open>A published snapshot is what \<open>routing_snapshot\<close> wrote: a list of capability dictionaries whose
  worker identifiers are texts.\<close>

definition snapshot_capabilities :: "pydict \<Rightarrow> pydict list" where
  "snapshot_capabilities snapshot =
     (if eq_str (dget snapshot ''format'') ROUTING_FORMAT then dict_items (dget snapshot ''capabilities'') else [])"

text \<open>\<open>str(v or "") or None\<close>, and the revision when it is a proper integer.\<close>

definition text_or_none :: "(pyval \<Rightarrow> string) \<Rightarrow> pyval \<Rightarrow> string option" where
  "text_or_none rp v = (let s = py_str rp (py_or v (VStr [])) in if s = [] then None else Some s)"

definition revision_of :: "pydict \<Rightarrow> int option" where
  "revision_of snapshot = (case dget snapshot ''revision'' of VInt i \<Rightarrow> Some i | _ \<Rightarrow> None)"

definition static_record :: "string \<times> model_profile list \<Rightarrow> route_record" where
  "static_record r = (case r of (name, ps) \<Rightarrow>
     (name, \<lparr>gr_configured = None, gr_candidates = ps\<rparr>,
      [(''public_model_id'', VStr name), (''capability_id'', VNone), (''routing_profile_id'', VNone),
       (''routing_profile_revision'', VNone)]))"

definition capability_record :: "gateway_view \<Rightarrow> pydict \<Rightarrow> pydict \<Rightarrow> route_record option res" where
  "capability_record v snapshot capability =
     (let name = py_str (gv_repr v) (dget_or capability ''public_name'' (VStr []));
          cid = text_or_none (gv_repr v) (dget capability ''capability_id'');
          pid = text_or_none (gv_repr v) (dget snapshot ''profile_id'');
          rev = revision_of snapshot
      in if name = [] then Inr None
      else rbind (resolve_route (gv_harness v) (gv_to_bool v) (gv_parse v) name
             (text_items (dget capability ''worker_ids'')) (gv_rows v)) (\<lambda>r.
        Inr (Some (name, \<lparr>gr_configured = Some (rr_configured_worker_ids r), gr_candidates = rr_candidates r\<rparr>,
          route_metadata r @
           [(''public_model_id'', VStr name), (''capability_id'', opt_text_value cid),
            (''routing_profile_id'', opt_text_value pid),
            (''routing_profile_revision'', opt_int rev),
            (''tool_calling'', VDict (gv_tool_calling v pid rev cid))]))))"

fun collect :: "('a \<Rightarrow> 'b option res) \<Rightarrow> 'a list \<Rightarrow> 'b list res" where
  "collect f [] = Inr []"
| "collect f (x # xs) = rbind (f x) (\<lambda>r. rbind (collect f xs) (\<lambda>rs.
     Inr (case r of None \<Rightarrow> rs | Some y \<Rightarrow> y # rs)))"

text \<open>The capabilities of the active snapshots in order, those of the chosen contracts.\<close>

definition offered :: "gateway_view \<Rightarrow> string list option \<Rightarrow> (pydict \<times> pydict) list" where
  "offered v adapters = concat (map (\<lambda>s. map (Pair s) (filter (\<lambda>c. case adapters of None \<Rightarrow> True
       | Some ids \<Rightarrow> list_ex (\<lambda>i. eq_str (dget c ''protocol_contract'') i) ids) (snapshot_capabilities s)))
     (gv_snapshots v))"

text \<open>\<open>alias_routes\<close> of \<open>create_gateway_app\<close>: a static table replaces the store.\<close>

definition active_route_records ::
  "(string \<times> model_profile list) list option \<Rightarrow> gateway_view \<Rightarrow> string list option \<Rightarrow> route_record list res" where
  "active_route_records static v adapters = (case static of
     Some table \<Rightarrow> Inr (map static_record table)
   | None \<Rightarrow> collect (\<lambda>(s, c). capability_record v s c) (offered v adapters))"

definition routes_of :: "route_record list \<Rightarrow> routes" where
  "routes_of rs = fold (\<lambda>(name, g, _). AList.update name g) rs []"

definition active_routes ::
  "(string \<times> model_profile list) list option \<Rightarrow> gateway_view \<Rightarrow> string list option \<Rightarrow> routes res" where
  "active_routes static v adapters = rbind (active_route_records static v adapters) (\<lambda>rs. Inr (routes_of rs))"

definition active_capability_records ::
  "(string \<times> model_profile list) list option \<Rightarrow> gateway_view \<Rightarrow> bool \<Rightarrow> pydict list" where
  "active_capability_records static v native_only = (case static of
     Some _ \<Rightarrow> []
   | None \<Rightarrow> filter (\<lambda>c. native_only \<longrightarrow>
        (case find_adapter (py_str (gv_repr v) (dget c ''protocol_contract'')) of
           None \<Rightarrow> False | Some a \<Rightarrow> pa_native a)) (concat (map snapshot_capabilities (gv_snapshots v))))"

section \<open>The state of the workers\<close>

record worker_report =
  wr_id :: string
  wr_name :: pyval
  wr_family :: generation_family
  wr_endpoint :: string
  wr_state :: gateway_state

definition report_worker :: "gateway_view \<Rightarrow> (model_profile \<Rightarrow> http_answer) \<Rightarrow> model_profile \<Rightarrow> worker_report" where
  "report_worker v answer p = (case worker_health (answer p) p of (health, ready) \<Rightarrow>
     \<lparr>wr_id = mp_id p, wr_name = py_or (dget (gv_names v) (mp_id p)) (VStr (mp_id p)),
      wr_family = mp_generation_family p, wr_endpoint = endpoint p,
      wr_state = \<lparr>gs_ready = ready, gs_health = health\<rparr>\<rparr>)"

text \<open>One profile per identifier: the last one, at the place of the first.\<close>

definition route_profiles :: "routes \<Rightarrow> (string \<times> model_profile) list" where
  "route_profiles rs = fold (\<lambda>p. AList.update (mp_id p) p) (concat (map (gr_candidates \<circ> snd) rs)) []"

definition worker_states :: "gateway_view \<Rightarrow> (model_profile \<Rightarrow> http_answer) \<Rightarrow> routes \<Rightarrow> worker_report list" where
  "worker_states v answer rs = map (report_worker v answer \<circ> snd) (route_profiles rs)"

definition states_by_id :: "worker_report list \<Rightarrow> (string \<times> gateway_state) list" where
  "states_by_id ws = map (\<lambda>w. (wr_id w, wr_state w)) ws"

definition state_of :: "(string \<times> gateway_state) list \<Rightarrow> model_profile \<Rightarrow> gateway_state res" where
  "state_of states p = (case map_of states (mp_id p) of Some st \<Rightarrow> Inr st | None \<Rightarrow> Inl (KeyError (mp_id p)))"

section \<open>Model discovery\<close>

text \<open>\<open>next((p for p in candidates if states[p.id]["ready"]), None)\<close>.\<close>

fun ready_candidate :: "(string \<times> gateway_state) list \<Rightarrow> model_profile list \<Rightarrow> model_profile option res" where
  "ready_candidate states [] = Inr None"
| "ready_candidate states (p # ps) = rbind (state_of states p) (\<lambda>st.
     if gs_ready st then Inr (Some p) else ready_candidate states ps)"

definition configured_primary :: "pydict \<Rightarrow> model_profile list \<Rightarrow> model_profile option" where
  "configured_primary route ps =
     (let ids = dget_or route ''configured_worker_ids'' (VList (map (\<lambda>p. VStr (mp_id p)) ps));
          first = (case ids of VList (i # _) \<Rightarrow> i | _ \<Rightarrow> VNone)
      in List.find (\<lambda>p. VStr (mp_id p) = first) ps)"

definition opt_dict :: "pydict option \<Rightarrow> pyval" where
  "opt_dict d = (case d of None \<Rightarrow> VNone | Some e \<Rightarrow> VDict e)"

text \<open>Without the configured primary among the candidates, a backup is described by itself.\<close>

definition backup_discovery :: "(pydict \<Rightarrow> string) \<Rightarrow> string \<Rightarrow> model_profile list
    \<Rightarrow> (string \<times> gateway_state) list \<Rightarrow> pydict \<Rightarrow> pydict" where
  "backup_discovery digest name ps states route =
     (let selected = List.find (\<lambda>p. case map_of states (mp_id p) of None \<Rightarrow> False | Some st \<Rightarrow> gs_ready st) ps in
      [(''id'', VStr name), (''object'', VStr ''model''), (''owned_by'', VStr ''modeldeck-local''),
       (''revision'', VNone), (''ready'', VBool (selected \<noteq> None)),
       (''runtime'', (case selected of None \<Rightarrow> VNone | Some p \<Rightarrow> VStr (mp_preferred_runtime p))),
       (''accelerator'', VStr ''unknown''),
       (''modeldeck'', VDict
         [(''route'', VDict route), (''primary_worker'', VNone),
          (''selected_worker'', opt_dict (case selected of None \<Rightarrow> None
             | Some p \<Rightarrow> map_option (\<lambda>st. worker_discovery_identity digest p st True) (map_of states (mp_id p)))),
          (''selection_reason'', VStr (if selected \<noteq> None then ''backup_ready'' else ''no_ready_worker''))])])"

definition capability_summary :: "capability_set \<Rightarrow> pydict \<Rightarrow> pydict" where
  "capability_summary c route =
     (if py_truthy (cs_chat c)
      then [(''capabilities'', VDict
             ([(''chat'', VBool True),
               (''tool_calling'', VStr (if dget (as_mapping (dget route ''tool_calling'')) ''supported'' = VBool True
                                        then ''verified'' else ''unverified''))]
              @ (if cs_image_input c then [(''image_input'', VBool True)] else [])))]
      else [])"

definition model_discovery_record ::
  "(pydict \<Rightarrow> string) \<Rightarrow> string \<Rightarrow> model_profile list \<Rightarrow> (string \<times> gateway_state) list \<Rightarrow> pydict \<Rightarrow> pydict res" where
  "model_discovery_record digest name ps states route = (case configured_primary route ps of
     None \<Rightarrow> Inr (backup_discovery digest name ps states route)
   | Some primary \<Rightarrow>
     rbind (ready_candidate states ps) (\<lambda>selected.
     rbind (state_of states primary) (\<lambda>primary_state.
     let legacy = opt_default selected primary in
     rbind (state_of states legacy) (\<lambda>legacy_state.
     let primary_identity = worker_discovery_identity digest primary primary_state False;
         selected_identity = (if selected = None then None
           else Some (worker_discovery_identity digest legacy legacy_state True));
         legacy_identity = opt_default selected_identity primary_identity;
         runtime = dget legacy_identity ''runtime''
     in Inr
      ([(''id'', VStr name), (''object'', VStr ''model''), (''owned_by'', VStr ''modeldeck-local''),
        (''revision'', dget primary_identity ''revision''), (''ready'', VBool (selected \<noteq> None)),
        (''runtime'', runtime), (''accelerator'', dget legacy_identity ''accelerator''),
        (''modeldeck'', VDict
          [(''model_id'', VStr (mp_model_id legacy)), (''revision'', dget legacy_identity ''revision''),
           (''runtime'', runtime),
           (''configuration_fingerprint'', VStr (legacy_configuration_fingerprint digest legacy legacy_state
              (case runtime of VStr s \<Rightarrow> s | _ \<Rightarrow> []))),
           (''prefix_caching'', VStr (cs_prefix_caching (mp_capabilities legacy))),
           (''prefix_cache_enabled'', VBool (cs_prefix_cache_enabled (mp_capabilities legacy))),
           (''route'', VDict (filter (\<lambda>(k, _). k \<noteq> ''tool_calling'') route)),
           (''primary_worker'', VDict primary_identity), (''selected_worker'', opt_dict selected_identity),
           (''selection_reason'', VStr (case selected of
              Some p \<Rightarrow> if p = primary then ''primary_ready'' else ''backup_ready''
            | None \<Rightarrow> ''no_ready_worker''))])]
       @ capability_summary (mp_capabilities legacy) route)))))"

section \<open>The read-only endpoints\<close>

definition ready_of :: "(string \<times> gateway_state) list \<Rightarrow> model_profile \<Rightarrow> bool res" where
  "ready_of states p = rbind (state_of states p) (\<lambda>st. Inr (gs_ready st))"

text \<open>\<open>any(...)\<close> stops at the first true element.\<close>

fun any_ready :: "(string \<times> gateway_state) list \<Rightarrow> model_profile list \<Rightarrow> bool res" where
  "any_ready states [] = Inr False"
| "any_ready states (p # ps) = rbind (ready_of states p) (\<lambda>b. if b then Inr True else any_ready states ps)"

definition contracts_with :: "(protocol_adapter \<Rightarrow> bool) \<Rightarrow> string list" where
  "contracts_with P = map pa_contract_id (filter P PROTOCOL_ADAPTERS)"

definition health_endpoint :: "string \<Rightarrow> worker_report list \<Rightarrow> pydict" where
  "health_endpoint version ws =
     [(''status'', VStr ''ok''), (''service'', VStr ''modeldeck-gateway''), (''version'', VStr version),
      (''ready_workers'', VInt (int (length (filter (\<lambda>w. gs_ready (wr_state w)) ws))))]"

definition models_endpoint ::
  "(string \<times> model_profile list) list option \<Rightarrow> gateway_view \<Rightarrow> (model_profile \<Rightarrow> http_answer) \<Rightarrow> pydict res" where
  "models_endpoint static v answer =
     rbind (active_route_records static v (Some (contracts_with pa_openai_model))) (\<lambda>records.
     let states = states_by_id (worker_states v answer (routes_of records)) in
     rbind (map_res (\<lambda>(name, g, metadata).
         model_discovery_record (gv_digest v) name (gr_candidates g) states metadata) records) (\<lambda>data.
       Inr [(''object'', VStr ''list''), (''data'', VList (map VDict data))]))"

text \<open>The capabilities of the primary worker, or the default set.\<close>

fun primary_capabilities :: "gateway_route \<Rightarrow> model_profile list \<Rightarrow> capability_set res" where
  "primary_capabilities g [] = Inr default_capability_set"
| "primary_capabilities g (p # ps) = rbind (route_role p g) (\<lambda>role.
     if role = ''primary'' then Inr (mp_capabilities p) else primary_capabilities g ps)"

definition capabilities_endpoint :: "routes \<Rightarrow> pydict res" where
  "capabilities_endpoint rs = map_res (\<lambda>(name, g).
     rbind (primary_capabilities g (gr_candidates g)) (\<lambda>c. Inr (name, VDict (capability_dump c)))) rs"

definition resolution_entry ::
  "(pydict \<Rightarrow> string) \<Rightarrow> (string \<times> gateway_state) list \<Rightarrow> route_record \<Rightarrow> (string \<times> pyval) res" where
  "resolution_entry digest states r = (case r of (name, g, metadata) \<Rightarrow>
     rbind (map_res (\<lambda>p. rbind (state_of states p) (\<lambda>st. Inr (VDict (worker_discovery_identity digest p st True))))
       (gr_candidates g)) (\<lambda>ws. Inr (name, VDict (AList.update ''workers'' (VList ws) metadata))))"

text \<open>A dictionary comprehension: a later key replaces the value and keeps the place.\<close>

definition dict_of :: "(string \<times> pyval) list \<Rightarrow> pydict" where
  "dict_of kvs = fold (\<lambda>(k, v). AList.update k v) kvs []"

definition native_record ::
  "routes \<Rightarrow> (string \<times> gateway_state) list \<Rightarrow> pydict \<Rightarrow> pyval res" where
  "native_record rs states c =
     rbind (py_index (VDict c) ''capability_id'') (\<lambda>cid.
     rbind (py_index (VDict c) ''display_name'') (\<lambda>display.
     rbind (py_index (VDict c) ''public_name'') (\<lambda>name.
     rbind (py_index (VDict c) ''protocol_contract'') (\<lambda>pc.
     rbind (py_index (VDict c) ''worker_ids'') (\<lambda>ids.
     (case pc of VStr i \<Rightarrow> (case (find_adapter i, find_contract i) of
        (Some a, Some k) \<Rightarrow>
          rbind (any_ready states (case name of
              VStr n \<Rightarrow> (case map_of rs n of Some g \<Rightarrow> gr_candidates g | None \<Rightarrow> []) | _ \<Rightarrow> [])) (\<lambda>ready.
            Inr (VDict [(''id'', cid), (''display_name'', display), (''public_name'', name),
              (''protocol_contract'', pc), (''surfaces'', VList (map VStr (pa_public_surfaces a))),
              (''ready'', VBool ready),
              (''metadata'', VDict
                [(''generation_family'', VStr (generation_family_value (pc_generation_family k))),
                 (''worker_count'', VInt (int (length (text_items ids))))])]))
      | _ \<Rightarrow> Inl (KeyError i))
     | _ \<Rightarrow> Inl (KeyError ''protocol_contract'')))))))"

definition native_capabilities_endpoint ::
  "(string \<times> model_profile list) list option \<Rightarrow> gateway_view \<Rightarrow> (model_profile \<Rightarrow> http_answer) \<Rightarrow> pydict res" where
  "native_capabilities_endpoint static v answer =
     rbind (active_route_records static v (Some (contracts_with pa_native))) (\<lambda>resolved.
     let rs = routes_of resolved; states = states_by_id (worker_states v answer rs) in
     rbind (map_res (resolution_entry (gv_digest v) states) resolved) (\<lambda>entries.
     rbind (map_res (native_record rs states) (active_capability_records static v True)) (\<lambda>capabilities.
       Inr [(''resolution'', VDict (dict_of entries)), (''capabilities'', VList capabilities)])))"

definition contract_names :: "pydict list \<Rightarrow> pydict res" where
  "contract_names cs = rbind (map_res (\<lambda>c. rbind (py_index (VDict c) ''public_name'') (\<lambda>n.
       rbind (py_index (VDict c) ''protocol_contract'') (\<lambda>pc.
         Inr (case n of VStr s \<Rightarrow> s | _ \<Rightarrow> [], pc)))) cs) (\<lambda>kvs. Inr (dict_of kvs))"

definition route_entry ::
  "pydict \<Rightarrow> (string \<times> gateway_state) list \<Rightarrow> string \<times> gateway_route \<Rightarrow> pyval res" where
  "route_entry contracts states r = (case r of (name, g) \<Rightarrow>
     rbind (any_ready states (gr_candidates g)) (\<lambda>ready.
       Inr (VDict [(''public_name'', VStr name), (''protocol_contract'', dget contracts name),
         (''surfaces'', VList (case dget contracts name of
            VStr i \<Rightarrow> (case find_adapter i of Some a \<Rightarrow> map VStr (pa_public_surfaces a) | None \<Rightarrow> []) | _ \<Rightarrow> [])),
         (''ready'', VBool ready)])))"

definition routes_endpoint ::
  "(string \<times> model_profile list) list option \<Rightarrow> gateway_view \<Rightarrow> (model_profile \<Rightarrow> http_answer) \<Rightarrow> pydict res" where
  "routes_endpoint static v answer =
     rbind (contract_names (active_capability_records static v False)) (\<lambda>contracts.
     rbind (active_route_records static v None) (\<lambda>resolved.
     let rs = routes_of resolved; states = states_by_id (worker_states v answer rs) in
     rbind (map_res (resolution_entry (gv_digest v) states) resolved) (\<lambda>entries.
     rbind (map_res (route_entry contracts states) rs) (\<lambda>listed.
       Inr [(''resolution'', VDict (dict_of entries)), (''routes'', VList listed), (''cloud_fallback'', VBool False)]))))"

end
