(* ===== verification/Gateway_Safety.thy ===== *)
theory Gateway_Safety
  imports Gateway_Flow Gateway_Discovery
begin

text \<open>
  What the gateway guarantees over every interleaving of its requests: the shared capacity is never
  given back twice, so no more heavy requests are in flight than the limit that admitted the last
  one; request identifiers in flight are unique and lead a cancellation to the serving worker; a
  queued request is answered at its deadline; discovery reports the worker the proxy would choose.
\<close>

section \<open>Counting requests\<close>

definition holds :: "gateway_task \<Rightarrow> bool" where
  "holds t = (\<not> gk_retained t \<and> (case gk_phase t of Waiting _ _ _ _ _ \<Rightarrow> False | _ \<Rightarrow> True))"

definition count :: "('a \<Rightarrow> bool) \<Rightarrow> 'a list \<Rightarrow> int" where
  "count P xs = int (length (filter P xs))"

lemma count_simps [simp]: "count P [] = 0" "count P (x # xs) = (if P x then 1 else 0) + count P xs"
  "count P (xs @ ys) = count P xs + count P ys" "0 \<le> count P xs"
  by (simp_all add: count_def)

lemma count_split: "n < length xs \<Longrightarrow> count P xs = count P (take n xs) + (if P (xs ! n) then 1 else 0) + count P (drop (Suc n) xs)"
  by (subst id_take_nth_drop [of n xs]) auto

lemma count_update: "n < length xs \<Longrightarrow>
    count P (xs[n := x]) = count P xs - (if P (xs ! n) then 1 else 0) + (if P x then 1 else 0)"
  using count_split [of n xs P] by (simp add: upd_conv_take_nth_drop)

lemma count_remove: "n < length xs \<Longrightarrow>
    count P (take n xs @ drop (Suc n) xs) = count P xs - (if P (xs ! n) then 1 else 0)"
  using count_split [of n xs P] by simp

lemma count_pos: "n < length xs \<Longrightarrow> P (xs ! n) \<Longrightarrow> 1 \<le> count P xs"
  using count_split [of n xs P] count_simps(4) [of P "take n xs"] count_simps(4) [of P "drop (Suc n) xs"] by simp

definition holders :: "gateway \<Rightarrow> int" where
  "holders s = count holds (gt_tasks s)"

definition jobs :: "gateway \<Rightarrow> int" where
  "jobs s = int (length (gt_job_claims s))"

text \<open>The capacity that nobody holds any more.\<close>

definition slack :: "gateway \<Rightarrow> int" where
  "slack s = gt_active s - holders s - jobs s"

section \<open>What the pieces change\<close>

definition same_claims :: "gateway \<Rightarrow> gateway \<Rightarrow> bool" where
  "same_claims s s' \<longleftrightarrow> gt_config s' = gt_config s \<and> gt_active s' = gt_active s \<and> gt_file s' = gt_file s
     \<and> gt_job_claims s' = gt_job_claims s \<and> gt_requests s' = gt_requests s \<and> gt_tasks s' = gt_tasks s"

lemma same_claims_refl [simp]: "same_claims s s"
  by (simp add: same_claims_def)

lemma same_claims_pieces [simp]:
  "same_claims s (record_diagnostic dg name out code wk s)" "same_claims s (note_error w t ecode s)"
  "same_claims s (throttle s)" "same_claims s (s\<lparr>gt_queued := q\<rparr>)" "same_claims s (watch_job w t job s)"
  "same_claims s (monitors_without n s)" "same_claims s (s\<lparr>gt_monitors := ms\<rparr>)"
  by (simp_all add: same_claims_def record_diagnostic_def note_error_def throttle_def watch_job_def
      monitors_without_def split: option.splits)

lemma same_claims_trans [trans]: "same_claims s1 s2 \<Longrightarrow> same_claims s2 s3 \<Longrightarrow> same_claims s1 s3"
  by (simp add: same_claims_def)

lemma same_claimsD: "same_claims s s' \<Longrightarrow> gt_config s' = gt_config s \<and> gt_active s' = gt_active s \<and> gt_file s' = gt_file s
     \<and> gt_job_claims s' = gt_job_claims s \<and> gt_requests s' = gt_requests s \<and> gt_tasks s' = gt_tasks s"
  by (simp add: same_claims_def)

lemma fields_note [simp]:
  "gt_config (record_diagnostic dg name out code wk s) = gt_config s"
  "gt_active (record_diagnostic dg name out code wk s) = gt_active s"
  "gt_file (record_diagnostic dg name out code wk s) = gt_file s"
  "gt_job_claims (record_diagnostic dg name out code wk s) = gt_job_claims s"
  "gt_requests (record_diagnostic dg name out code wk s) = gt_requests s"
  "gt_tasks (record_diagnostic dg name out code wk s) = gt_tasks s"
  "gt_config (note_error w t ecode s) = gt_config s"
  "gt_active (note_error w t ecode s) = gt_active s"
  "gt_file (note_error w t ecode s) = gt_file s"
  "gt_job_claims (note_error w t ecode s) = gt_job_claims s"
  "gt_requests (note_error w t ecode s) = gt_requests s"
  "gt_tasks (note_error w t ecode s) = gt_tasks s"
  "gt_config (throttle s) = gt_config s" "gt_active (throttle s) = gt_active s" "gt_file (throttle s) = gt_file s"
  "gt_job_claims (throttle s) = gt_job_claims s" "gt_requests (throttle s) = gt_requests s" "gt_tasks (throttle s) = gt_tasks s"
  by (simp_all add: record_diagnostic_def note_error_def throttle_def)

lemma fields_capacity [simp]:
  "gt_config (release_thermal_capacity s) = gt_config s" "gt_config (take_capacity w q s) = gt_config s"
  "gt_active (release_thermal_capacity s) = max 0 (gt_active s - 1)" "gt_active (take_capacity w q s) = gt_active s + 1"
  "gt_file (release_thermal_capacity s) = max 0 (gt_active s - 1)" "gt_file (take_capacity w q s) = max 0 (gt_active s + 1)"
  "gt_job_claims (release_thermal_capacity s) = gt_job_claims s" "gt_job_claims (take_capacity w q s) = gt_job_claims s"
  "gt_requests (release_thermal_capacity s) = gt_requests s" "gt_requests (take_capacity w q s) = gt_requests s"
  "gt_tasks (release_thermal_capacity s) = gt_tasks s" "gt_tasks (take_capacity w q s) = gt_tasks s"
  by (simp_all add: release_thermal_capacity_def take_capacity_def publish_activity_def Let_def split: option.splits)

lemma fields_release [simp]:
  "gt_config (release_active_request rid p s) = gt_config s" "gt_active (release_active_request rid p s) = gt_active s"
  "gt_file (release_active_request rid p s) = gt_file s" "gt_job_claims (release_active_request rid p s) = gt_job_claims s"
  "gt_tasks (release_active_request rid p s) = gt_tasks s"
  by (simp_all add: release_active_request_def)

lemma fields_retain [simp]:
  "gt_config (retain_thermal_job_capacity job s) = gt_config s" "gt_active (retain_thermal_job_capacity job s) = gt_active s"
  "gt_file (retain_thermal_job_capacity job s) = gt_file s" "gt_requests (retain_thermal_job_capacity job s) = gt_requests s"
  "gt_tasks (retain_thermal_job_capacity job s) = gt_tasks s"
  by (simp_all add: retain_thermal_job_capacity_def)

text \<open>A claim: refused or queued it changes no claim, admitted it takes one unit below the limit.\<close>

definition limit_of :: "gateway_world \<Rightarrow> gateway \<Rightarrow> int res" where
  "limit_of w s = rbind (read_thermal_status (gt_config s) (gw_status_file w) (gw_now w)) (\<lambda>status.
     py_int_of (dget_or status ''heavy_concurrency_limit'' (VInt 0)))"

definition claims_unit :: "gateway_world \<Rightarrow> gateway \<Rightarrow> gateway \<Rightarrow> bool" where
  "claims_unit w s s' \<longleftrightarrow> (\<exists>q limit. s' = take_capacity w q s \<and> limit_of w s = Inr limit \<and> gt_active s < limit)"

definition wait_ok :: "thermal_config \<Rightarrow> task_phase \<Rightarrow> bool" where
  "wait_ok c ph = (case ph of Waiting q deadline _ _ _ \<Rightarrow> deadline = Fin q + recovery_step_seconds c | _ \<Rightarrow> True)"

definition claim_ok :: "gateway_world \<Rightarrow> gateway \<Rightarrow> claim_result \<times> gateway \<Rightarrow> bool" where
  "claim_ok w s r = (case r of
     (Claimed d, s') \<Rightarrow> admitted d \<and> claims_unit w s s'
   | (Refused d, s') \<Rightarrow> same_claims s s'
   | (Waits ph, s') \<Rightarrow> same_claims s s' \<and> wait_ok (gt_config s) ph \<and> (\<exists>q dl st v d. ph = Waiting q dl st v d))"

lemma capacity_loop_ok:
  assumes "capacity_loop w req q deadline s = Inr r"
    and "deadline = Fin (opt_default q (gw_now w)) + recovery_step_seconds (gt_config s)"
  shows "claim_ok w s r"
  using assms
  by (auto simp: capacity_loop_def decide_def rbind_eq_Inr claim_ok_def claims_unit_def limit_of_def wait_ok_def
      Let_def same_claims_def split: if_splits)

lemma claim_thermal_capacity_ok: "claim_thermal_capacity w req s = Inr r \<Longrightarrow> claim_ok w s r"
  using capacity_loop_ok [of w req None _ s r]
  by (auto simp: claim_thermal_capacity_def rbind_eq_Inr opt_default_def claim_ok_def same_claims_def split: if_splits)

lemma waiting_resumes_ok:
  "waiting_resumes w i req q deadline st status d s = Inr r
     \<Longrightarrow> deadline = Fin q + recovery_step_seconds (gt_config s) \<Longrightarrow> claim_ok w s r"
  using capacity_loop_ok [of w req "Some q" deadline s r]
  by (auto simp: waiting_resumes_def opt_default_def claim_ok_def split: if_splits)

section \<open>The invariant\<close>

fun claimed_outcome :: "outcome \<Rightarrow> bool" where
  "claimed_outcome TimedOut = True"
| "claimed_outcome Disconnected = True"
| "claimed_outcome Unreachable = True"
| "claimed_outcome StreamDone = True"
| "claimed_outcome (Answered r) = True"
| "claimed_outcome _ = False"

text \<open>The phases a request is in while its identifier is in the table.\<close>

fun claimed_phase :: "task_phase \<Rightarrow> bool" where
  "claimed_phase Sending = True"
| "claimed_phase (Reading u) = True"
| "claimed_phase Streaming = True"
| "claimed_phase (Cancelling out) = claimed_outcome out"
| "claimed_phase (Closing out) = claimed_outcome out"
| "claimed_phase _ = False"

definition task_ok :: "thermal_config \<Rightarrow> gateway_task \<Rightarrow> bool" where
  "task_ok c t \<longleftrightarrow> (gk_claimed t \<longrightarrow> gk_selected t \<noteq> None \<and> gk_kind t \<noteq> Speech \<and> claimed_phase (gk_phase t))
     \<and> (gk_retained t \<longrightarrow> (\<exists>r. gk_phase t = Closing (Answered r))) \<and> wait_ok c (gk_phase t)"

definition ids :: "gateway_task list \<Rightarrow> string list" where
  "ids ts = map gk_request_id (filter gk_claimed ts)"

lemma ids_simps [simp]: "ids [] = []" "ids (t # ts) = (if gk_claimed t then [gk_request_id t] else []) @ ids ts"
  "ids (xs @ ys) = ids xs @ ids ys"
  by (simp_all add: ids_def)

lemma ids_member: "t \<in> set ts \<Longrightarrow> gk_claimed t \<Longrightarrow> gk_request_id t \<in> set (ids ts)"
  by (auto simp: ids_def)

definition requests_ok :: "gateway_task list \<Rightarrow> (string \<times> model_profile) list \<Rightarrow> bool" where
  "requests_ok ts rq \<longleftrightarrow> distinct (map fst rq) \<and> distinct (ids ts) \<and> fst ` set rq = set (ids ts)
     \<and> (\<forall>t\<in>set ts. gk_claimed t \<longrightarrow> map_of rq (gk_request_id t) = gk_selected t)"

definition gateway_inv :: "gateway \<Rightarrow> bool" where
  "gateway_inv s \<longleftrightarrow> 0 \<le> slack s \<and> gt_file s = gt_active s \<and> distinct (gt_job_claims s)
     \<and> (\<forall>t\<in>set (gt_tasks s). task_ok (gt_config s) t) \<and> requests_ok (gt_tasks s) (gt_requests s)"

lemma active_bounds: "gateway_inv s \<Longrightarrow> holders s + jobs s \<le> gt_active s \<and> 0 \<le> gt_active s"
  using count_simps(4) [of holds "gt_tasks s"] unfolding gateway_inv_def slack_def holders_def jobs_def by linarith

text \<open>How one request may change: it keeps its claim, makes one, or ends and gives it back.\<close>

definition holding :: "gateway_task option \<Rightarrow> int" where
  "holding x = (case x of None \<Rightarrow> 0 | Some t \<Rightarrow> if holds t then 1 else 0)"

lemma holding_simps [simp]: "holding None = 0" "holding (Some t) = (if holds t then 1 else 0)"
  by (simp_all add: holding_def)

definition table_ok :: "gateway_task \<Rightarrow> gateway_task option \<Rightarrow> (string \<times> model_profile) list \<Rightarrow> (string \<times> model_profile) list \<Rightarrow> bool" where
  "table_ok t x rq rq' \<longleftrightarrow> (case x of
     None \<Rightarrow> rq' = (if gk_claimed t then AList.delete (gk_request_id t) rq else rq)
   | Some y \<Rightarrow> gk_request_id y = gk_request_id t
       \<and> (rq' = rq \<and> gk_claimed y = gk_claimed t \<and> (gk_claimed t \<longrightarrow> gk_selected y = gk_selected t)
          \<or> \<not> gk_claimed t \<and> gk_claimed y \<and> \<not> dhas rq (gk_request_id t)
             \<and> (\<exists>p. gk_selected y = Some p \<and> rq' = AList.update (gk_request_id t) p rq)))"

definition resume_ok :: "gateway \<Rightarrow> gateway_task \<Rightarrow> gateway_task option \<Rightarrow> gateway \<Rightarrow> bool" where
  "resume_ok s t x s' \<longleftrightarrow> gt_tasks s' = gt_tasks s \<and> gt_config s' = gt_config s \<and> distinct (gt_job_claims s')
     \<and> gt_active s - jobs s - holding (Some t) \<le> gt_active s' - jobs s' - holding x \<and> gt_file s' = gt_active s'
     \<and> (\<forall>y. x = Some y \<longrightarrow> task_ok (gt_config s) y) \<and> table_ok t x (gt_requests s) (gt_requests s')"

lemma requests_ok_replace:
  assumes ok: "requests_ok (xs @ t # ys) rq" and tab: "table_ok t x rq rq'"
  shows "requests_ok (xs @ (case x of None \<Rightarrow> [] | Some y \<Rightarrow> [y]) @ ys) rq'"
proof -
  let ?i = "gk_request_id t"
  have k: "distinct (map fst rq)" "distinct (ids xs @ ids [t] @ ids ys)"
    "fst ` set rq = set (ids xs) \<union> set (ids [t]) \<union> set (ids ys)"
    using ok unfolding requests_ok_def by (simp_all add: Un_assoc)
  have v: "map_of rq (gk_request_id u) = gk_selected u" if "u \<in> set xs \<union> {t} \<union> set ys" "gk_claimed u" for u
  proof -
    have "\<forall>u\<in>set (xs @ t # ys). gk_claimed u \<longrightarrow> map_of rq (gk_request_id u) = gk_selected u"
      using ok unfolding requests_ok_def by (elim conjE)
    then show ?thesis using that by auto
  qed
  have other: "gk_request_id u \<noteq> ?i" if "u \<in> set xs \<union> set ys" "gk_claimed u" "?i \<notin> set (ids xs) \<union> set (ids ys)" for u
    using that ids_member [of u xs] ids_member [of u ys] by auto
  show ?thesis
  proof (cases x)
    case None
    show ?thesis
    proof (cases "gk_claimed t")
      case True
      then have rq': "rq' = AList.delete ?i rq" using tab None by (simp add: table_ok_def)
      have fresh: "?i \<notin> set (ids xs) \<union> set (ids ys)" using k(2) True by auto
      have "map_of rq' (gk_request_id u) = gk_selected u" if "u \<in> set xs \<union> set ys" "gk_claimed u" for u
        using other [OF that fresh] v [of u] that by (auto simp: rq' delete_conv')
      moreover have "fst ` set rq' = set (ids xs) \<union> set (ids ys)"
        using k(3) fresh True by (auto simp: rq' fst_set_delete)
      ultimately show ?thesis using k None fresh by (auto simp: requests_ok_def rq' distinct_delete)
    next
      case False
      then show ?thesis using tab None k v by (auto simp: table_ok_def requests_ok_def)
    qed
  next
    case (Some y)
    consider "rq' = rq" "gk_claimed y = gk_claimed t" "gk_claimed t \<longrightarrow> gk_selected y = gk_selected t"
      | p where "\<not> gk_claimed t" "gk_claimed y" "\<not> dhas rq ?i" "gk_selected y = Some p" "rq' = AList.update ?i p rq"
      using tab Some by (auto simp: table_ok_def)
    then show ?thesis
    proof cases
      case 1
      then show ?thesis using k v [of t] v Some tab by (auto simp: requests_ok_def table_ok_def)
    next
      case 2
      have fresh: "?i \<notin> fst ` set rq" using 2(3) by (simp add: dhas_def map_of_eq_None_iff)
      then have f: "?i \<notin> set (ids xs) \<union> set (ids ys)" using k(3) by auto
      have y: "gk_request_id y = ?i" using tab Some by (simp add: table_ok_def)
      have "map_of rq' (gk_request_id u) = gk_selected u" if "u \<in> set xs \<union> set ys" "gk_claimed u" for u
        using other [OF that f] v [of u] that 2(5) by auto
      moreover have "fst ` set rq' = insert ?i (fst ` set rq)" by (simp add: 2(5) fst_set_update)
      ultimately show ?thesis
        using k 2 f y Some by (auto simp: requests_ok_def distinct_update)
    qed
  qed
qed

lemma put_task_fields [simp]:
  "gt_config (put_task n x s) = gt_config s" "gt_active (put_task n x s) = gt_active s" "gt_file (put_task n x s) = gt_file s"
  "gt_job_claims (put_task n x s) = gt_job_claims s" "gt_requests (put_task n x s) = gt_requests s"
  by (simp_all add: put_task_def tasks_without_def split: option.splits)

lemma put_task_tasks: "n < length (gt_tasks s) \<Longrightarrow>
    gt_tasks (put_task n x s) = take n (gt_tasks s) @ (case x of None \<Rightarrow> [] | Some y \<Rightarrow> [y]) @ drop (Suc n) (gt_tasks s)"
  by (auto simp: put_task_def tasks_without_def upd_conv_take_nth_drop split: option.splits)

lemma inv_put:
  assumes inv: "gateway_inv s" and n: "n < length (gt_tasks s)" and r: "resume_ok s (gt_tasks s ! n) x s'"
  shows "gateway_inv (put_task n x s') \<and> slack s \<le> slack (put_task n x s')"
proof -
  let ?t = "gt_tasks s ! n"
  have f: "gt_tasks s' = gt_tasks s" "gt_config s' = gt_config s" using r by (simp_all add: resume_ok_def)
  have ts: "gt_tasks s = take n (gt_tasks s) @ ?t # drop (Suc n) (gt_tasks s)" by (rule id_take_nth_drop [OF n])
  have new: "gt_tasks (put_task n x s') = take n (gt_tasks s) @ (case x of None \<Rightarrow> [] | Some y \<Rightarrow> [y]) @ drop (Suc n) (gt_tasks s)"
    using put_task_tasks [of n s' x] n by (simp add: f)
  have hold: "holders (put_task n x s') = holders s - holding (Some ?t) + holding x"
    using count_split [OF n, of holds] by (auto simp: holders_def new split: option.splits)
  then have slack: "slack s \<le> slack (put_task n x s')" using r by (simp add: slack_def resume_ok_def jobs_def)
  have tok: "task_ok (gt_config s) y" if "y \<in> set (gt_tasks (put_task n x s'))" for y
  proof -
    have "y \<in> set (gt_tasks s) \<or> x = Some y"
      using that by (auto simp: new dest: in_set_takeD in_set_dropD split: option.splits)
    then show ?thesis using inv r by (auto simp: gateway_inv_def resume_ok_def)
  qed
  have "requests_ok (gt_tasks (put_task n x s')) (gt_requests s')"
    unfolding new
  proof (rule requests_ok_replace)
    show "requests_ok (take n (gt_tasks s) @ ?t # drop (Suc n) (gt_tasks s)) (gt_requests s)"
      using inv ts by (simp add: gateway_inv_def)
    show "table_ok ?t x (gt_requests s) (gt_requests s')" using r by (simp add: resume_ok_def)
  qed
  then show ?thesis using inv slack tok r by (simp add: gateway_inv_def f resume_ok_def)
qed

section \<open>Every stretch keeps the invariant\<close>

lemma release_requests:
  assumes "requests_ok ts rq" and "t \<in> set ts" and "gk_claimed t" and "gk_selected t \<noteq> None" and "gt_requests s = rq"
  shows "gt_requests (release_active_request (gk_request_id t) (gk_selected t) s) = AList.delete (gk_request_id t) rq"
  using assms by (auto simp: requests_ok_def release_active_request_def)

lemma fields_release_claims [simp]:
  "gt_config (release_claims t s) = gt_config s" "gt_active (release_claims t s) = max 0 (gt_active s - 1)"
  "gt_file (release_claims t s) = max 0 (gt_active s - 1)" "gt_job_claims (release_claims t s) = gt_job_claims s"
  "gt_tasks (release_claims t s) = gt_tasks s"
  "gt_requests (release_claims t s) = (if gk_claimed t
     then gt_requests (release_active_request (gk_request_id t) (gk_selected t) s) else gt_requests s)"
  by (simp_all add: release_claims_def)

lemma member_facts:
  assumes "gateway_inv s" and "n < length (gt_tasks s)" and "gt_tasks s ! n = t"
  shows "task_ok (gt_config s) t" and "holds t \<Longrightarrow> 1 \<le> gt_active s"
    and "gk_claimed t \<Longrightarrow> gt_requests (release_active_request (gk_request_id t) (gk_selected t) s)
           = AList.delete (gk_request_id t) (gt_requests s)"
proof -
  have m: "t \<in> set (gt_tasks s)" using assms(2,3) by auto
  then show ok: "task_ok (gt_config s) t" using assms(1) by (simp add: gateway_inv_def)
  show "1 \<le> gt_active s" if "holds t"
    using active_bounds [OF assms(1)] count_pos [OF assms(2), of holds] that assms(3)
    by (simp add: holders_def jobs_def)
  show "gt_requests (release_active_request (gk_request_id t) (gk_selected t) s)
      = AList.delete (gk_request_id t) (gt_requests s)" if "gk_claimed t"
    using release_requests [of "gt_tasks s" "gt_requests s" t s] assms(1) m that ok
    by (simp add: gateway_inv_def task_ok_def)
qed

text \<open>A release without a claim of its own leaves the table alone.\<close>

lemma finish_ok:
  assumes inv: "gateway_inv s" and n: "n < length (gt_tasks s)" and t: "gt_tasks s ! n = t"
    and ph: "gk_phase t = Closing out" and fin: "finish w t out s = (r, s')"
  shows "resume_ok s t None s'"
proof -
  have h: "holds t \<longleftrightarrow> \<not> gk_retained t" using ph by (simp add: holds_def)
  have ok: "gk_claimed t \<Longrightarrow> claimed_outcome out" "gk_retained t \<Longrightarrow> \<exists>r. out = Answered r"
    using member_facts(1) [OF inv n t] ph by (auto simp: task_ok_def)
  note facts = member_facts(2,3) [OF inv n t] inv
  show ?thesis
    using fin ok facts h
    by (cases out; cases "gk_claimed t"; cases "gk_retained t")
       (auto simp: resume_ok_def table_ok_def gateway_inv_def jobs_def split: if_splits)
qed

lemma proxy_ok:
  "gateway_inv s \<Longrightarrow> same_claims s s' \<Longrightarrow> gk_request_id y = gk_request_id t \<Longrightarrow> gk_claimed y = gk_claimed t
     \<Longrightarrow> (gk_claimed t \<Longrightarrow> gk_selected y = gk_selected t) \<Longrightarrow> task_ok (gt_config s) y
     \<Longrightarrow> (holds y \<longleftrightarrow> holds t) \<Longrightarrow> resume_ok s t (Some y) s'"
  by (auto simp: resume_ok_def table_ok_def gateway_inv_def same_claims_def jobs_def)

text \<open>What a step may do to the whole state.\<close>

definition keeps :: "gateway \<Rightarrow> gateway \<Rightarrow> bool" where
  "keeps s s' \<longleftrightarrow> gateway_inv s' \<and> slack s \<le> slack s' \<and> gt_config s' = gt_config s"

lemma keeps_same: "gateway_inv s \<Longrightarrow> same_claims s s' \<Longrightarrow> keeps s s'"
  by (simp add: keeps_def gateway_inv_def slack_def holders_def jobs_def same_claims_def)

lemma keeps_trans [trans]: "keeps s1 s2 \<Longrightarrow> keeps s2 s3 \<Longrightarrow> keeps s1 s3"
  by (simp add: keeps_def)

lemma keeps_put: "gateway_inv s \<Longrightarrow> n < length (gt_tasks s) \<Longrightarrow> resume_ok s (gt_tasks s ! n) x s' \<Longrightarrow> keeps s (put_task n x s')"
  using inv_put [of s n x s'] by (simp add: keeps_def resume_ok_def)

definition cont :: "continuation \<Rightarrow> gateway_task option" where
  "cont c = (case c of GoesOn t \<Rightarrow> Some t | Ends r \<Rightarrow> None)"

lemma cont_simps [simp]: "cont (GoesOn t) = Some t" "cont (Ends r) = None" "cont (at_phase t ph) = Some (t\<lparr>gk_phase := ph\<rparr>)"
  by (simp_all add: cont_def at_phase_def)

lemma continues_keeps:
  "gateway_inv s \<Longrightarrow> n < length (gt_tasks s) \<Longrightarrow> resume_ok s (gt_tasks s ! n) (cont c) s1
     \<Longrightarrow> continues n (c, s1) = (rep, s') \<Longrightarrow> keeps s s'"
  using keeps_put by (cases c) (auto simp: continues_def)

lemma keeps_refuse: "gateway_inv s \<Longrightarrow> keeps s (snd (refuse w t d s))"
  by (rule keeps_same) (auto simp: refuse_def split: task_kind.splits)

lemma admit_ok:
  assumes "\<not> gk_claimed t" and "\<not> gk_retained t"
  shows "holds (admit w t d)" and "task_ok c (admit w t d)" and "\<not> gk_claimed (admit w t d)"
    and "gk_request_id (admit w t d) = gk_request_id t" and "gk_phase (admit w t d) \<noteq> Waiting q dl st v dd"
  using assms
  by (auto simp: admit_def holds_def task_ok_def wait_ok_def Let_def split: task_kind.splits option.splits list.splits)

text \<open>A claim by a request that is stored as \<open>put\<close> says.\<close>

lemma claim_settles_keeps:
  assumes inv: "gateway_inv s" and t: "\<not> gk_claimed t" "\<not> gk_retained t"
    and ok: "\<And>x. r = Inr x \<Longrightarrow> claim_ok w s x"
    and none: "\<And>s1. same_claims s s1 \<Longrightarrow> keeps s (put None s1)"
    and some: "\<And>y s1. task_ok (gt_config s) y \<Longrightarrow> \<not> gk_claimed y \<Longrightarrow> gk_request_id y = gk_request_id t
       \<Longrightarrow> (same_claims s s1 \<and> \<not> holds y \<or> claims_unit w s s1 \<and> holds y) \<Longrightarrow> keeps s (put (Some y) s1)"
    and st: "claim_settles w t put r s = (rep, s')"
  shows "keeps s s'"
proof (cases r)
  case (Inl e)
  then show ?thesis using st none [of s] by (simp add: claim_settles_def)
next
  case (Inr x)
  obtain c s1 where x: "x = (c, s1)" by (cases x)
  note ok = ok [OF Inr, unfolded x claim_ok_def]
  show ?thesis
  proof (cases c)
    case (Refused d)
    then have k: "keeps s (put None s1)" using ok none by simp
    then have "keeps (put None s1) (snd (refuse w t d (put None s1)))" using keeps_refuse by (simp add: keeps_def)
    then have "keeps (put None s1) s'" using st by (simp add: claim_settles_def Inr x Refused)
    with k show ?thesis by (rule keeps_trans)
  next
    case (Claimed d)
    then show ?thesis using ok st some [of "admit w t d" s1] admit_ok [OF t]
      by (simp add: claim_settles_def Inr x)
  next
    case (Waits ph)
    then have "task_ok (gt_config s) (t\<lparr>gk_phase := ph\<rparr>)" "\<not> holds (t\<lparr>gk_phase := ph\<rparr>)" "same_claims s s1"
      using ok t by (auto simp: task_ok_def holds_def)
    then show ?thesis using st t some [of "t\<lparr>gk_phase := ph\<rparr>" s1] by (simp add: claim_settles_def Inr x Waits)
  qed
qed

lemma claims_unitD:
  "claims_unit w s s' \<Longrightarrow> gateway_inv s \<Longrightarrow> gt_active s' = gt_active s + 1 \<and> gt_file s' = gt_active s' \<and> gt_tasks s' = gt_tasks s
     \<and> gt_job_claims s' = gt_job_claims s \<and> gt_requests s' = gt_requests s \<and> gt_config s' = gt_config s"
  using active_bounds [of s] by (auto simp: claims_unit_def)

lemma wakes_keeps:
  assumes inv: "gateway_inv s" and n: "n < length (gt_tasks s)" and t: "gt_tasks s ! n = t"
    and ph: "gk_phase t = Waiting q dl st v d"
    and step: "claim_settles w t (put_task n) (waiting_resumes w i req q dl st v d s) s = (rep, s')"
  shows "keeps s s'"
proof -
  have ok: "task_ok (gt_config s) t" by (rule member_facts(1) [OF inv n t])
  then have f: "\<not> gk_claimed t" "\<not> gk_retained t" "dl = Fin q + recovery_step_seconds (gt_config s)" "\<not> holds t"
    using ph by (auto simp: task_ok_def wait_ok_def holds_def)
  show ?thesis
  proof (rule claim_settles_keeps [OF inv f(1,2) _ _ _ step])
    show "claim_ok w s x" if "waiting_resumes w i req q dl st v d s = Inr x" for x
      by (rule waiting_resumes_ok [OF that f(3)])
    show "keeps s (put_task n None s1)" if "same_claims s s1" for s1
      by (rule keeps_put [OF inv n])
         (use that inv f in \<open>auto simp: t resume_ok_def table_ok_def gateway_inv_def same_claims_def jobs_def\<close>)
    show "keeps s (put_task n (Some y) s1)"
      if y: "task_ok (gt_config s) y" "\<not> gk_claimed y" "gk_request_id y = gk_request_id t"
        and c: "same_claims s s1 \<and> \<not> holds y \<or> claims_unit w s s1 \<and> holds y" for y s1
    proof (rule keeps_put [OF inv n])
      show "resume_ok s (gt_tasks s ! n) (Some y) s1"
        using c
      proof (elim disjE conjE)
        assume "same_claims s s1" "\<not> holds y"
        then show ?thesis unfolding t by (intro proxy_ok [OF inv]) (use y f in auto)
      next
        assume u: "claims_unit w s s1" and "holds y"
        then show ?thesis using claims_unitD [OF u inv] y f inv
          by (simp add: t resume_ok_def table_ok_def gateway_inv_def jobs_def)
      qed
    qed
  qed
qed

lemma keeps_add:
  assumes inv: "gateway_inv s" and y: "task_ok (gt_config s) y" "\<not> gk_claimed y"
    and c: "same_claims s s1 \<and> \<not> holds y \<or> claims_unit w s s1 \<and> holds y"
  shows "keeps s (add_task y s1)"
  using c
proof (elim disjE conjE)
  assume "same_claims s s1" "\<not> holds y"
  then show ?thesis using inv y
    by (auto simp: keeps_def gateway_inv_def slack_def holders_def jobs_def add_task_def same_claims_def requests_ok_def)
next
  assume u: "claims_unit w s s1" and "holds y"
  then show ?thesis using claims_unitD [OF u inv] y inv
    by (auto simp: keeps_def gateway_inv_def slack_def holders_def jobs_def add_task_def requests_ok_def)
qed

lemma claims_first_keeps:
  assumes inv: "gateway_inv s" and t: "\<not> gk_claimed t" "\<not> gk_retained t" and step: "claims_first w t s = (rep, s')"
  shows "keeps s s'"
proof (rule claim_settles_keeps [OF inv t _ _ _ step [unfolded claims_first_def]])
  show "claim_ok w s x" if "claim_thermal_capacity w (gk_workload t) s = Inr x" for x
    by (rule claim_thermal_capacity_ok [OF that])
  show "keeps s (put_new None s1)" if "same_claims s s1" for s1
    using keeps_same [OF inv that] by (simp add: put_new_def)
  show "keeps s (put_new (Some y) s1)"
    if "task_ok (gt_config s) y" "\<not> gk_claimed y" "gk_request_id y = gk_request_id t"
      and "same_claims s s1 \<and> \<not> holds y \<or> claims_unit w s s1 \<and> holds y" for y s1
    using keeps_add [OF inv that(1,2,4)] by (simp add: put_new_def)
qed

text \<open>A request that ends here and now gives back what it holds.\<close>

lemma ends_ok:
  assumes inv: "gateway_inv s" and n: "n < length (gt_tasks s)" and t: "gt_tasks s ! n = t"
    and r: "\<not> gk_retained t" "gt_tasks s' = gt_tasks s" "gt_config s' = gt_config s" "gt_job_claims s' = gt_job_claims s"
    and a: "gt_active s' = max 0 (gt_active s - 1)" "gt_file s' = gt_active s'"
    and q: "gt_requests s' = (if gk_claimed t then gt_requests (release_active_request (gk_request_id t) (gk_selected t) s) else gt_requests s)"
    and ph: "holds t"
  shows "resume_ok s t None s'"
  using r a q ph member_facts(2,3) [OF inv n t] inv
  by (auto simp: resume_ok_def table_ok_def gateway_inv_def jobs_def)

lemma none_ready_ok:
  assumes inv: "gateway_inv s" and n: "n < length (gt_tasks s)" and t: "gt_tasks s ! n = t"
    and ph: "gk_phase t = Asking ps hs" and step: "none_ready w t hs' s = (c, s')"
  shows "resume_ok s t (cont c) s'"
proof -
  have f: "\<not> gk_claimed t" "\<not> gk_retained t" "holds t"
    using member_facts(1) [OF inv n t] ph by (auto simp: task_ok_def holds_def)
  show ?thesis
  proof (cases "gk_kind t")
    case (Binary p)
    then have "c = Ends (GReplies (unavailable (gk_name t) (generation_family_value SPEECH_SYNTHESIS)))"
      "s' = release_thermal_capacity (note_error w t ''local_route_unavailable'' s)"
      using step by (simp_all add: none_ready_def)
    then show ?thesis using f by (simp add: ends_ok [OF inv n t])
  qed (use step f inv in \<open>auto simp: none_ready_def task_ok_def wait_ok_def holds_def intro!: proxy_ok\<close>)
qed

lemma worker_found_ok:
  assumes inv: "gateway_inv s" and n: "n < length (gt_tasks s)" and t: "gt_tasks s ! n = t"
    and ph: "gk_phase t = Asking ps hs" and step: "worker_found w t p s = (c, s')"
  shows "resume_ok s t (cont c) s'"
proof -
  have f: "\<not> gk_claimed t" "\<not> gk_retained t" "holds t"
    using member_facts(1) [OF inv n t] ph by (auto simp: task_ok_def holds_def)
  note new = resume_ok_def table_ok_def gateway_inv_def jobs_def task_ok_def wait_ok_def holds_def
  show ?thesis
  proof (cases "gk_kind t = Speech \<or> dhas (gt_requests s) (gk_request_id t)")
    case True
    then show ?thesis
      using step f inv ends_ok [OF inv n t, of "release_thermal_capacity s"]
      by (cases "gk_kind t")
         (auto simp: worker_found_def claim_active_request_def task_ok_def wait_ok_def holds_def intro!: proxy_ok)
  next
    case False
    then show ?thesis using step f inv
      by (cases "gk_kind t") (auto simp: worker_found_def claim_active_request_def new)
  qed
qed

lemma health_ok:
  assumes inv: "gateway_inv s" and n: "n < length (gt_tasks s)" and t: "gt_tasks s ! n = t"
    and ph: "gk_phase t = Asking ps hs" and step: "health_arrives w t a ps hs s = (c, s')"
  shows "resume_ok s t (cont c) s'"
proof -
  have f: "\<not> gk_claimed t" "\<not> gk_retained t" "holds t"
    using member_facts(1) [OF inv n t] ph by (auto simp: task_ok_def holds_def)
  show ?thesis
    using step f inv none_ready_ok [OF inv n t ph] worker_found_ok [OF inv n t ph]
    by (auto simp: health_arrives_def task_ok_def wait_ok_def holds_def split: list.splits prod.splits bool.splits if_splits
        intro!: proxy_ok)
qed

lemma answer_same:
  "same_claims s (snd (binary_answer w t u v s))" "same_claims s (snd (deliver w t path u x s))"
  by (auto simp: binary_answer_def deliver_def Let_def split: sum.splits option.splits)

lemma binary_sent_ok:
  assumes inv: "gateway_inv s" and n: "n < length (gt_tasks s)" and t: "gt_tasks s ! n = t"
    and ph: "gk_phase t = Sending" and step: "binary_sent w t r v s = (rep, s')"
  shows "resume_ok s t None s'"
proof -
  have f: "\<not> gk_retained t" "holds t"
    using member_facts(1) [OF inv n t] ph by (auto simp: task_ok_def holds_def)
  have a: "resume_ok s t None s2" if "same_claims (release_claims t s) s2" for s2
    using that by (intro ends_ok [OF inv n t f(1) _ _ _ _ _ _ f(2)]) (auto simp: same_claims_def)
  have b: "resume_ok s t None (release_claims t (note_error w t code s))" for code
    by (rule ends_ok [OF inv n t f(1) _ _ _ _ _ _ f(2)]) (simp_all add: release_active_request_def)
  show ?thesis
    using step a [of s'] b answer_same(1) [of "release_claims t s" w t _ v] a [OF same_claims_refl]
    by (auto simp: binary_sent_def split: send_result.splits) (metis snd_conv a)
qed

lemma moves_ok:
  assumes inv: "gateway_inv s" and n: "n < length (gt_tasks s)" and t: "gt_tasks s ! n = t"
    and ph: "claimed_phase (gk_phase t)" "\<forall>out. gk_phase t \<noteq> Closing out"
    and new: "gk_claimed t \<Longrightarrow> claimed_phase ph'" "\<And>q dl st v d. ph' \<noteq> Waiting q dl st v d" and same: "same_claims s s'"
  shows "resume_ok s t (Some (t\<lparr>gk_phase := ph'\<rparr>)) s'"
proof -
  have "\<not> gk_retained t" "holds t"
    using member_facts(1) [OF inv n t] ph by (auto simp: task_ok_def holds_def split: task_phase.splits)
  then show ?thesis
    using member_facts(1) [OF inv n t] new ph(2)
    by (intro proxy_ok [OF inv same]) (auto simp: task_ok_def wait_ok_def holds_def split: task_phase.splits)
qed

lemma retain_ok:
  assumes inv: "gateway_inv s" and n: "n < length (gt_tasks s)" and t: "gt_tasks s ! n = t"
    and ph: "gk_phase t = Reading u" and same: "same_claims (retain_thermal_job_capacity job s) s'"
  shows "resume_ok s t (Some (t\<lparr>gk_retained := True, gk_phase := Closing (Answered r)\<rparr>)) s'"
proof -
  have "task_ok (gt_config s) t" by (rule member_facts(1) [OF inv n t])
  moreover have "\<not> gk_retained t" "holds t"
    using member_facts(1) [OF inv n t] ph by (auto simp: task_ok_def holds_def)
  moreover have "length (List.insert job (gt_job_claims s)) \<le> length (gt_job_claims s) + 1" "distinct (List.insert job (gt_job_claims s))"
    using inv by (auto simp: List.insert_def gateway_inv_def)
  ultimately show ?thesis
    using same inv ph
    by (auto simp: resume_ok_def table_ok_def same_claims_def retain_thermal_job_capacity_def jobs_def gateway_inv_def
        task_ok_def wait_ok_def holds_def)
qed

lemma body_ok:
  assumes inv: "gateway_inv s" and n: "n < length (gt_tasks s)" and t: "gt_tasks s ! n = t"
    and ph: "gk_phase t = Reading u" and step: "body_arrives w t path u v s = (c, s')"
  shows "resume_ok s t (cont c) s'"
proof (cases v)
  case None
  then show ?thesis using step ph by (auto simp: body_arrives_def intro!: moves_ok [OF inv n t])
next
  case (Some x)
  show ?thesis
  proof (cases "started_job path (gw_repr w) u x")
    case None
    obtain r s1 where d: "deliver w t path u x s = (r, s1)" by (cases "deliver w t path u x s")
    then have "same_claims s s1" using answer_same(2) [where s = s and w = w and t = t and path = path and u = u and x = x] by simp
    then show ?thesis using step ph d by (auto simp: body_arrives_def Some None intro!: moves_ok [OF inv n t])
  next
    case (Some job)
    let ?s = "watch_job w t job (retain_thermal_job_capacity job s)"
    obtain r s1 where d: "deliver w t path u x ?s = (r, s1)" by (cases "deliver w t path u x ?s")
    then have "same_claims ?s s1" using answer_same(2) [where s = "?s" and w = w and t = t and path = path and u = u and x = x] by simp
    then have "same_claims (retain_thermal_job_capacity job s) s1" by (rule same_claims_trans [OF same_claims_pieces(5)])
    then show ?thesis using step d retain_ok [OF inv n t ph] by (auto simp: body_arrives_def \<open>v = Some x\<close> Some)
  qed
qed

lemma task_step_keeps:
  assumes inv: "gateway_inv s" and n: "n < length (gt_tasks s)" and t: "gt_tasks s ! n = t"
    and step: "task_step w n i t (gk_phase t) s = Some (rep, s')"
  shows "keeps s s'"
proof -
  note go = continues_keeps [OF inv n, unfolded t]
  have moves: "resume_ok s t (cont (at_phase t ph')) s"
    if "claimed_phase (gk_phase t)" "\<forall>out. gk_phase t \<noteq> Closing out" "gk_claimed t \<Longrightarrow> claimed_phase ph'"
      "\<And>q dl st v d. ph' \<noteq> Waiting q dl st v d" for ph'
    using moves_ok [OF inv n t that same_claims_refl] by simp
  note tok = member_facts(1) [OF inv n t]
  show ?thesis
  proof (cases "gk_phase t")
    case (Waiting q dl st v d)
    then show ?thesis using step wakes_keeps [OF inv n t Waiting] by (cases i) auto
  next
    case (Asking ps hs)
    then obtain a where st: "continues n (health_arrives w t a ps hs s) = (rep, s')" using step by (cases i) auto
    obtain c s1 where h: "health_arrives w t a ps hs s = (c, s1)" by (cases "health_arrives w t a ps hs s")
    show ?thesis using go [OF health_ok [OF inv n t Asking h]] st by (simp add: h)
  next
    case Sending
    then obtain r v where i: "i = Sent r v" using step by (cases i) auto
    show ?thesis
    proof (cases "\<exists>p. gk_kind t = Binary p")
      case True
      obtain rep1 s1 where b: "binary_sent w t r v s = (rep1, s1)" by (cases "binary_sent w t r v s")
      show ?thesis using True step Sending b keeps_put [OF inv n, of None s1] binary_sent_ok [OF inv n t Sending b]
        by (auto simp: i t)
    next
      case False
      obtain rep1 c where p: "proxy_sent w t r = (rep1, c)" by (cases "proxy_sent w t r")
      have "resume_ok s t (cont c) s"
        using p Sending by (auto simp: proxy_sent_def split: send_result.splits if_splits sum.splits intro!: moves)
      then show ?thesis using False step Sending p keeps_put [OF inv n, of "cont c" s]
        by (cases c; cases "gk_kind t") (auto simp: i t)
    qed
  next
    case (Reading u)
    show ?thesis
    proof (cases i)
      case (BodyIs v)
      then obtain path where k: "gk_kind t = Proxy path" and st: "continues n (body_arrives w t path u v s) = (rep, s')"
        using step Reading by (auto split: task_kind.splits)
      obtain c s1 where b: "body_arrives w t path u v s = (c, s1)" by (cases "body_arrives w t path u v s")
      show ?thesis using go [OF body_ok [OF inv n t Reading b]] st by (simp add: b)
    next
      case BodyFails
      then show ?thesis using step Reading go [OF moves [of "Closing (Answered GFails)"]] by auto
    qed (use step Reading in auto)
  next
    case Streaming
    then obtain ok where "i = StreamEnds ok" using step by (cases i) auto
    then obtain ph' where ph': "continues n (at_phase t ph', s) = (rep, s')" "gk_kind t \<noteq> Speech \<longrightarrow> claimed_phase ph'"
      "\<And>q dl st v d. ph' \<noteq> Waiting q dl st v d"
      using step Streaming by (cases "gk_kind t"; cases ok) auto
    show ?thesis using go [OF moves [of ph'] ph'(1)] ph'(2,3) tok Streaming by (auto simp: task_ok_def)
  next
    case (Cancelling out)
    then have i: "i = Goes" using step by (cases i) auto
    show ?thesis
    proof (cases "claimed_outcome out")
      case True
      then show ?thesis using step Cancelling i go [OF moves [of "Closing out"]] by auto
    next
      case False
      then have "\<not> gk_claimed t" "\<not> gk_retained t" "holds t" using tok Cancelling by (auto simp: task_ok_def holds_def)
      then have r: "resume_ok s t (cont (at_phase t (Closing out))) s"
        using inv by (auto simp: task_ok_def wait_ok_def holds_def intro!: proxy_ok)
      show ?thesis using step Cancelling i go [OF r] by auto
    qed
  next
    case (Closing out)
    then have i: "i = Goes" using step by (cases i) auto
    obtain r s1 where f: "finish w t out s = (r, s1)" by (cases "finish w t out s")
    show ?thesis using step Closing i f keeps_put [OF inv n, of None s1] finish_ok [OF inv n t Closing f] by (auto simp: t)
  qed
qed

lemma release_job_keeps:
  assumes inv: "gateway_inv s"
  shows "keeps s (release_thermal_job_capacity job s)"
proof (cases "job \<in> set (gt_job_claims s)")
  case True
  have "length (gt_job_claims s) = Suc (length (removeAll job (gt_job_claims s)))"
    using inv True length_pos_if_in_set [OF True]
    by (simp add: gateway_inv_def distinct_remove1_removeAll [symmetric] length_remove1)
  moreover have "1 \<le> gt_active s"
    using active_bounds [OF inv] True count_simps(4) [of holds "gt_tasks s"] length_pos_if_in_set [OF True]
    unfolding jobs_def holders_def by linarith
  ultimately show ?thesis
    using True inv by (simp add: keeps_def gateway_inv_def slack_def holders_def jobs_def release_thermal_job_capacity_def
        publish_activity_def distinct_removeAll)
next
  case False
  then show ?thesis using keeps_same [OF inv] by (simp add: release_thermal_job_capacity_def)
qed

lemma new_task_fields [simp]:
  "\<not> gk_claimed (new_task k name body g req rid timeout)" "\<not> gk_retained (new_task k name body g req rid timeout)"
  by (simp_all add: new_task_def)

lemma calls_keep:
  assumes inv: "gateway_inv s"
  shows "proxy_call w path timeout rs body s = (rep, s') \<Longrightarrow> keeps s s'"
    and "binary_call w path timeout rs payload s = (rep, s') \<Longrightarrow> keeps s s'"
    and "speech_call w payload s = (rep, s') \<Longrightarrow> keeps s s'"
proof -
  have new: "keeps s s'" if "claims_first w (new_task k name body g req rid to) s = (rep, s')"
    for k name body g req rid to and rep :: gateway_reply
    by (rule claims_first_keeps [OF inv _ _ that]) simp_all
  show "proxy_call w path timeout rs body s = (rep, s') \<Longrightarrow> keeps s s'"
    "binary_call w path timeout rs payload s = (rep, s') \<Longrightarrow> keeps s s'"
    "speech_call w payload s = (rep, s') \<Longrightarrow> keeps s s'"
    using inv
    by (auto simp: proxy_call_def binary_call_def speech_call_def Let_def intro: new keeps_same
        split: pyval.splits option.splits if_splits)
qed

lemma gateway_step_keeps:
  assumes inv: "gateway_inv s" and step: "gateway_step e s = Some (rep, s')"
  shows "keeps s s'"
proof (cases e)
  case (Resumes w n i)
  then show ?thesis using step task_step_keeps [OF inv] by (auto split: if_splits)
next
  case (MonitorTests w n)
  have "keeps s (release_thermal_job_capacity job (monitors_without n s))" for job
    using keeps_trans [OF keeps_same [OF inv same_claims_pieces(6)] release_job_keeps]
      keeps_same [OF inv same_claims_pieces(6), of n] by (simp add: keeps_def)
  then show ?thesis using step MonitorTests keeps_same [OF inv]
    by (auto simp: monitor_tests_def Let_def split: if_splits)
next
  case (MonitorHears n answer)
  have "keeps s (release_thermal_job_capacity job (monitors_without n s))" for job
    using keeps_trans [OF keeps_same [OF inv same_claims_pieces(6)] release_job_keeps]
      keeps_same [OF inv same_claims_pieces(6), of n] by (simp add: keeps_def)
  then show ?thesis using step MonitorHears keeps_same [OF inv]
    by (auto simp: monitor_hears_def Let_def split: if_splits)
next
  case (AsksJob job answer)
  then show ?thesis using step release_job_keeps [OF inv] keeps_same [OF inv]
    by (auto simp: job_answered_def Let_def)
next
  case (CancelsJob job answer)
  then show ?thesis using step release_job_keeps [OF inv] keeps_same [OF inv]
    by (auto simp: job_cancelled_def Let_def)
qed (use step calls_keep [OF inv] in auto)

lemma gateway_inv_init: "gateway_inv (gateway_init c)"
  by (simp add: gateway_inv_def gateway_init_def slack_def holders_def jobs_def requests_ok_def)

lemma reachable_inv: "gateway_reachable c s \<Longrightarrow> gateway_inv s \<and> gt_config s = c"
proof (induction rule: gateway_reachable.induct)
  case (reach_init c)
  show ?case using gateway_inv_init [of c] by (simp add: gateway_init_def)
next
  case (reach_step c s e r s')
  then show ?case using gateway_step_keeps [of s e r s'] by (auto simp: gateway_steps_iff keeps_def)
qed

end
