(* ===== verification/Gateway_Properties.thy ===== *)
theory Gateway_Properties
  imports Gateway_Safety Thermal_Publishing
begin

text \<open>
  The properties of the gateway, over every run of its transition system, and of the discovery it
  publishes.
\<close>

section \<open>Where capacity is taken\<close>

fun event_world :: "gateway_event \<Rightarrow> gateway_world option" where
  "event_world (CallsProxy w _ _ _ _) = Some w"
| "event_world (CallsBinary w _ _ _ _) = Some w"
| "event_world (CallsSpeech w _) = Some w"
| "event_world (Resumes w _ _) = Some w"
| "event_world _ = None"

definition grows_within :: "gateway_world \<Rightarrow> gateway \<Rightarrow> gateway \<Rightarrow> bool" where
  "grows_within w s s' \<longleftrightarrow> gt_active s' \<le> gt_active s \<or> (\<exists>limit. limit_of w s = Inr limit \<and> gt_active s' \<le> limit \<and> gt_active s' \<le> gt_active s + 1)"

lemma claim_settles_grows:
  assumes "\<And>x. r = Inr x \<Longrightarrow> claim_ok w s x" and "\<And>t s1. gt_active (put t s1) = gt_active s1"
    and "claim_settles w t put r s = (rep, s')"
  shows "grows_within w s s'"
proof (cases r)
  case (Inr x)
  obtain c s1 where x: "x = (c, s1)" by (cases x)
  have f: "gt_active (snd (refuse w t d s2)) = gt_active s2" for d s2
    by (auto simp: refuse_def split: task_kind.splits)
  show ?thesis
    using assms(1) [OF Inr] assms(2,3) f [of _ "put None s1"]
    by (cases c) (auto simp: x Inr claim_settles_def claim_ok_def grows_within_def claims_unit_def same_claims_def
        dest!: arg_cong [where f = snd])
qed (use assms in \<open>auto simp: claim_settles_def grows_within_def\<close>)

lemma shrinks:
  assumes inv: "gateway_inv s"
  shows "gt_active (release_thermal_capacity s) \<le> gt_active s" "gt_active (release_thermal_job_capacity job s) \<le> gt_active s"
    and "snd (finish w t out s) = s1 \<Longrightarrow> gt_active s1 \<le> gt_active s"
  using active_bounds [OF inv]
  by (cases out; auto simp: release_thermal_job_capacity_def publish_activity_def holders_def jobs_def)+

lemma claims_first_grows: "claims_first w t s = (rep, s') \<Longrightarrow> grows_within w s s'"
  unfolding claims_first_def
  by (rule claim_settles_grows)
     (auto simp: put_new_def add_task_def split: option.splits dest: claim_thermal_capacity_ok)

lemma calls_grow:
  "proxy_call w path timeout rs body s = (rep, s') \<Longrightarrow> grows_within w s s'"
  "binary_call w path timeout rs payload s = (rep, s') \<Longrightarrow> grows_within w s s'"
  "speech_call w payload s = (rep, s') \<Longrightarrow> grows_within w s s'"
  by (auto simp: proxy_call_def binary_call_def speech_call_def Let_def grows_within_def
      split: pyval.splits option.splits if_splits dest!: claims_first_grows [unfolded grows_within_def])

lemma active_continues [simp]: "gt_active (snd (continues n c)) = gt_active (snd c)"
  by (auto simp: continues_def split: prod.splits continuation.splits)

lemma deliver_active: "deliver w t path u x s = (r, s1) \<Longrightarrow> gt_active s1 = gt_active s"
  using answer_same(2) [of s w t path u x] by (simp add: same_claims_def)

lemma watch_active [simp]: "gt_active (watch_job w t job s) = gt_active s"
  by (simp add: watch_job_def split: option.splits)

lemma active_body [simp]: "gt_active (snd (body_arrives w t path u v s)) = gt_active s"
  by (auto simp: body_arrives_def split: option.splits prod.splits dest: deliver_active)

lemma active_ask: "gateway_inv s \<Longrightarrow> gt_active (snd (health_arrives w t a ps hs s)) \<le> gt_active s"
  using shrinks(1) [of s]
  by (auto simp: health_arrives_def none_ready_def worker_found_def claim_active_request_def
      split: list.splits prod.splits bool.splits task_kind.splits)

lemma active_sent: "gateway_inv s \<Longrightarrow> gt_active (snd (binary_sent w t r v s)) \<le> gt_active s"
  using shrinks(1) [of s] answer_same(1) [of "release_claims t s" w t _ v]
  by (auto simp: binary_sent_def same_claims_def split: send_result.splits)

lemma active_step:
  assumes inv: "gateway_inv s" and step: "gateway_step e s = Some (rep, s')"
  shows "gt_active s' \<le> gt_active s \<or> (\<exists>w. event_world e = Some w \<and> grows_within w s s')"
proof (cases e)
  case (Resumes w n i)
  then have n: "n < length (gt_tasks s)" and st: "task_step w n i (gt_tasks s ! n) (gk_phase (gt_tasks s ! n)) s = Some (rep, s')"
    using step by (auto split: if_splits)
  let ?t = "gt_tasks s ! n"
  show ?thesis
  proof (cases "gk_phase ?t")
    case (Waiting q dl st v d)
    then obtain j where j: "claim_settles w ?t (put_task n) (waiting_resumes w j (gk_workload ?t) q dl st v d s) s = (rep, s')"
      using st by (cases i) auto
    have "dl = Fin q + recovery_step_seconds (gt_config s)"
      using member_facts(1) [OF inv n HOL.refl] Waiting by (auto simp: task_ok_def wait_ok_def)
    then have "grows_within w s s'"
      by (intro claim_settles_grows [OF waiting_resumes_ok _ j]) simp_all
    then show ?thesis using Resumes by simp
  next
    case (Asking ps hs)
    then obtain a where a: "continues n (health_arrives w ?t a ps hs s) = (rep, s')" using st by (cases i) auto
    have "gt_active s' = gt_active (snd (health_arrives w ?t a ps hs s))"
      using active_continues [of n "health_arrives w ?t a ps hs s"] unfolding a by simp
    then show ?thesis using active_ask [OF inv, of w ?t a ps hs] by simp
  next
    case Sending
    then show ?thesis using st active_sent [OF inv]
      by (cases i) (auto split: task_kind.splits prod.splits continuation.splits dest: arg_cong [where f = snd], (metis snd_conv)+)
  next
    case (Reading u)
    then have "gt_active s' = gt_active s"
      using st by (cases i) (auto split: task_kind.splits dest!: arg_cong [where f = "gt_active \<circ> snd"])
    then show ?thesis by simp
  next
    case Streaming
    then have "gt_active s' = gt_active s"
      using st by (cases i) (auto dest!: arg_cong [where f = "gt_active \<circ> snd"])
    then show ?thesis by simp
  next
    case (Cancelling out)
    then have "gt_active s' = gt_active s"
      using st by (cases i) (auto dest!: arg_cong [where f = "gt_active \<circ> snd"])
    then show ?thesis by simp
  next
    case (Closing out)
    then have "gt_active s' \<le> gt_active s"
      using st shrinks(3) [OF inv, of w ?t out] by (cases i) (auto split: prod.splits)
    then show ?thesis by simp
  qed
next
  case (MonitorTests w n)
  have "gateway_inv (monitors_without n s)" using keeps_same [OF inv same_claims_pieces(6)] by (simp add: keeps_def)
  then have "gt_active s' \<le> gt_active s"
    using step MonitorTests shrinks(2) [of "monitors_without n s"]
    by (auto simp: monitor_tests_def Let_def monitors_without_def split: if_splits)
  then show ?thesis by simp
next
  case (MonitorHears n answer)
  have "gateway_inv (monitors_without n s)" using keeps_same [OF inv same_claims_pieces(6)] by (simp add: keeps_def)
  then have "gt_active s' \<le> gt_active s"
    using step MonitorHears shrinks(2) [of "monitors_without n s"]
    by (auto simp: monitor_hears_def Let_def monitors_without_def split: if_splits)
  then show ?thesis by simp
qed (use step calls_grow shrinks(2) [OF inv] in \<open>auto simp: job_answered_def job_cancelled_def Let_def\<close>)

section \<open>Example states\<close>

text \<open>A gateway without throttling: two heavy requests may run at once.\<close>

definition gateway_config :: thermal_config where
  "gateway_config = default_thermal_config\<lparr>tc_enabled := False\<rparr>"

definition gateway_profile :: model_profile where
  "gateway_profile = \<lparr>mp_id = ''chat-worker'', mp_model_id = ''m'', mp_revision = ''r'', mp_artifact_model_id = None,
     mp_artifact_revision = None, mp_alias = ''chat'', mp_generation_family = AUTOREGRESSIVE, mp_preferred_runtime = ''mock'',
     mp_runtime_template_id = None, mp_runtime_template_version = None, mp_lifecycle = EXCLUSIVE, mp_port = 8101,
     mp_local_files_only = True, mp_trust_remote_code = False, mp_dtype = ''auto'',
     mp_capabilities = default_capability_set, mp_settings = []\<rparr>"

definition chat_routes :: routes where
  "chat_routes = [(''chat'', \<lparr>gr_configured = None, gr_candidates = [gateway_profile]\<rparr>)]"

definition quiet_world :: gateway_world where
  "quiet_world = \<lparr>gw_first_status = FileMissing, gw_status_file = FileMissing, gw_now = 0, gw_timestamp = ''t'',
     gw_fresh_id = ''id'', gw_object_id = ''1'', gw_routes = [], gw_repr = (\<lambda>_. []), gw_digest = (\<lambda>_. [])\<rparr>"

definition chat_body :: pyval where
  "chat_body = VDict [(''model'', VStr ''chat'')]"

lemma quiet_limit: "gt_config s = gateway_config \<Longrightarrow> limit_of quiet_world s = Inr 2"
  by (simp add: limit_of_def quiet_world_def gateway_config_def read_thermal_status_def disabled_status_def
      capacity_for_state_def default_thermal_config_def Let_def dget_or_def)

lemma quiet_decision: "gt_config s = gateway_config \<Longrightarrow> \<exists>status st d. decide quiet_world FileMissing req s = Inr (status, st, d)
    \<and> admitted d \<and> dget_or status ''heavy_concurrency_limit'' (VInt 0) = VInt 2"
  using parse_thermal_state_value [of NORMAL]
  by (simp add: decide_def quiet_world_def gateway_config_def read_thermal_status_def disabled_status_def py_index_def
      capacity_for_state_def default_thermal_config_def Let_def dget_or_def evaluate_def admitted_def admission_outcome_def)

lemma quiet_claim:
  assumes "gt_config s = gateway_config" "gt_active s < 2"
  shows "\<exists>d. claim_thermal_capacity quiet_world req s = Inr (Claimed d, take_capacity quiet_world None s)"
proof -
  have f: "gw_first_status quiet_world = FileMissing" "gw_status_file quiet_world = FileMissing" by (simp_all add: quiet_world_def)
  obtain status st d where "decide quiet_world FileMissing req s = Inr (status, st, d)" "admitted d"
    "dget_or status ''heavy_concurrency_limit'' (VInt 0) = VInt 2" using quiet_decision [OF assms(1)] by blast
  then show ?thesis using assms(2) by (simp add: claim_thermal_capacity_def capacity_loop_def f)
qed

text \<open>A chat request on its way: it asks its only candidate.\<close>

lemma example_call:
  assumes "gt_config s = gateway_config" "gt_active s < 2"
  shows "\<exists>t. gateway_step (CallsProxy quiet_world ''/v1/chat/completions'' 60 chat_routes chat_body) s
      = Some (GPending, add_task t (take_capacity quiet_world None s))
    \<and> gk_phase t = Asking [gateway_profile] [] \<and> gk_request_id t = ''id'' \<and> \<not> gk_claimed t \<and> \<not> gk_retained t
    \<and> gk_kind t = Proxy ''/v1/chat/completions'' \<and> gk_name t = ''chat'' \<and> gk_route t = \<lparr>gr_configured = None, gr_candidates = [gateway_profile]\<rparr>"
proof -
  let ?b = "[(''model'', VStr ''chat'')]" and ?g = "\<lparr>gr_configured = None, gr_candidates = [gateway_profile]\<rparr>"
  let ?t = "new_task (Proxy ''/v1/chat/completions'') ''chat'' ?b ?g
      (request_workload quiet_world (gateway_operation ''/v1/chat/completions'') (''gateway-'' @ gw_object_id quiet_world) ?b ''chat'') ''id'' 60"
  obtain d where d: "claim_thermal_capacity quiet_world (gk_workload ?t) s = Inr (Claimed d, take_capacity quiet_world None s)"
    using quiet_claim [OF assms] by blast
  have c: "claims_first quiet_world ?t s = (GPending, add_task (admit quiet_world ?t d) (take_capacity quiet_world None s))"
    unfolding claims_first_def d by (simp add: claim_settles_def put_new_def)
  have r: "py_str (gw_repr quiet_world) (py_or (dget ?b ''model'') (VStr [])) = ''chat''"
    "py_str (gw_repr quiet_world) (py_or (dget ?b ''request_id'') (VStr (gw_fresh_id quiet_world))) = ''id''"
    "usable (route_candidates chat_routes ''chat'') = Some ?g"
    by (simp_all add: dget_def py_or_def py_str_def quiet_world_def route_candidates_def chat_routes_def usable_def)
  have "proxy_call quiet_world ''/v1/chat/completions'' 60 chat_routes chat_body s
      = (GPending, add_task (admit quiet_world ?t d) (take_capacity quiet_world None s))"
    unfolding proxy_call_def chat_body_def pyval.case Let_def r option.case c by (rule HOL.refl)
  then show ?thesis by (intro exI [of _ "admit quiet_world ?t d"]) (simp add: admit_def new_task_def Let_def)
qed

lemma example_in_flight:
  "\<exists>s t. gateway_reachable gateway_config s \<and> gt_tasks s = [t] \<and> gk_phase t = Asking [gateway_profile] []
     \<and> gk_request_id t = ''id'' \<and> \<not> gk_claimed t \<and> \<not> gk_retained t \<and> gk_kind t = Proxy ''/v1/chat/completions'' \<and> gk_name t = ''chat''
     \<and> gt_active s = 1 \<and> gt_requests s = [] \<and> gt_job_claims s = [] \<and> gt_config s = gateway_config"
proof -
  let ?s = "gateway_init gateway_config"
  have i: "gt_config ?s = gateway_config" "gt_active ?s = 0" "gt_tasks ?s = []" "gt_requests ?s = []" "gt_job_claims ?s = []"
    by (simp_all add: gateway_init_def)
  obtain t where t: "gateway_step (CallsProxy quiet_world ''/v1/chat/completions'' 60 chat_routes chat_body) ?s
      = Some (GPending, add_task t (take_capacity quiet_world None ?s))" "gk_phase t = Asking [gateway_profile] []"
    "gk_request_id t = ''id''" "\<not> gk_claimed t" "\<not> gk_retained t" "gk_kind t = Proxy ''/v1/chat/completions''" "gk_name t = ''chat''"
    using example_call [of ?s] i by auto
  have "gateway_reachable gateway_config (add_task t (take_capacity quiet_world None ?s))"
    by (rule reach_step [OF reach_init gateway_stepI [OF t(1)]])
  then show ?thesis using t(2-) i by (intro exI [of _ "add_task t (take_capacity quiet_world None ?s)"] exI [of _ t]) (simp add: add_task_def)
qed

text \<open>The same request once its worker has answered that it is ready.\<close>

definition ready_answer :: http_answer where
  "ready_answer = Some (True, VDict [(''ready'', VBool True)])"

lemma ready_gateway_profile: "worker_health ready_answer gateway_profile = (Some [(''ready'', VBool True)], True)"
  by (simp add: worker_health_def ready_answer_def dget_def)

lemma example_claimed:
  "\<exists>s t. gateway_reachable gateway_config s \<and> gt_tasks s = [t] \<and> gk_claimed t \<and> gk_request_id t = ''id''
     \<and> gk_selected t = Some gateway_profile"
proof -
  obtain s t where s: "gateway_reachable gateway_config s" "gt_tasks s = [t]" "gk_phase t = Asking [gateway_profile] []"
    "gk_request_id t = ''id''" "gk_kind t = Proxy ''/v1/chat/completions''" "gt_requests s = []"
    using example_in_flight by auto
  obtain t' where w: "worker_found quiet_world t gateway_profile s = (GoesOn t', s\<lparr>gt_requests := [(''id'', gateway_profile)]\<rparr>)"
    "gk_claimed t'" "gk_request_id t' = ''id''" "gk_selected t' = Some gateway_profile"
    using s(4-6) by (simp add: worker_found_def claim_active_request_def dhas_def)
  let ?s = "s\<lparr>gt_requests := [(''id'', gateway_profile)], gt_tasks := [t']\<rparr>"
  have "gateway_step (Resumes quiet_world 0 (HealthIs ready_answer)) s = Some (GPending, ?s)"
    using s(2,3) w by (simp add: health_arrives_def ready_gateway_profile continues_def put_task_def)
  then have "gateway_reachable gateway_config ?s" by (rule reach_step [OF s(1) gateway_stepI])
  then show ?thesis using w by (intro exI [of _ ?s] exI [of _ t']) simp
qed

text \<open>The third request has to wait.\<close>

lemma quiet_wait:
  assumes "gt_config s = gateway_config" "gt_active s = 2"
  shows "\<exists>st status d. claim_thermal_capacity quiet_world req s
     = Inr (Waits (Waiting 0 (Fin 30) st status d), s\<lparr>gt_queued := gt_queued s + 1\<rparr>)"
proof -
  have f: "gw_first_status quiet_world = FileMissing" "gw_status_file quiet_world = FileMissing" "gw_now quiet_world = 0"
    by (simp_all add: quiet_world_def)
  have r: "recovery_step_seconds gateway_config = Fin 30" by (simp add: gateway_config_def default_thermal_config_def)
  obtain status st d where "decide quiet_world FileMissing req s = Inr (status, st, d)" "admitted d"
    "dget_or status ''heavy_concurrency_limit'' (VInt 0) = VInt 2" using quiet_decision [OF assms(1)] by blast
  then show ?thesis using assms(2) by (simp add: claim_thermal_capacity_def capacity_loop_def f r assms(1) opt_default_def Let_def)
qed

lemma example_waiting:
  "\<exists>s n st status d. gateway_reachable gateway_config s \<and> n < length (gt_tasks s)
     \<and> gk_phase (gt_tasks s ! n) = Waiting 0 (Fin 30) st status d"
proof -
  obtain s1 t1 where s1: "gateway_reachable gateway_config s1" "gt_tasks s1 = [t1]" "gt_active s1 = 1" "gt_config s1 = gateway_config"
    using example_in_flight by auto
  obtain t2 where t2: "gateway_step (CallsProxy quiet_world ''/v1/chat/completions'' 60 chat_routes chat_body) s1
      = Some (GPending, add_task t2 (take_capacity quiet_world None s1))"
    using example_call [OF s1(4)] s1(3) by auto
  let ?s2 = "add_task t2 (take_capacity quiet_world None s1)"
  have r2: "gateway_reachable gateway_config ?s2" by (rule reach_step [OF s1(1) gateway_stepI [OF t2]])
  have f2: "gt_tasks ?s2 = [t1, t2]" "gt_active ?s2 = 2" "gt_config ?s2 = gateway_config"
    using s1 by (simp_all add: add_task_def)
  let ?t3 = "new_task Speech [] [] \<lparr>gr_configured = None, gr_candidates = []\<rparr>
      (request_workload quiet_world ''speech'' (''speech-'' @ gw_object_id quiet_world) [] []) [] 0"
  obtain st status d where c: "claim_thermal_capacity quiet_world (gk_workload ?t3) ?s2
     = Inr (Waits (Waiting 0 (Fin 30) st status d), ?s2\<lparr>gt_queued := gt_queued ?s2 + 1\<rparr>)"
    using quiet_wait [OF f2(3,2)] by blast
  let ?w = "?t3\<lparr>gk_phase := Waiting 0 (Fin 30) st status d\<rparr>"
  let ?s3 = "add_task ?w (?s2\<lparr>gt_queued := gt_queued ?s2 + 1\<rparr>)"
  have "claims_first quiet_world ?t3 ?s2 = (GPending, ?s3)"
    unfolding claims_first_def c by (simp add: claim_settles_def put_new_def)
  moreover have "py_str (gw_repr quiet_world) (py_or (dget [] ''model'') (VStr [])) = []" by (simp add: py_or_def py_str_def)
  ultimately have "speech_call quiet_world (Some (VDict [])) ?s2 = (GPending, ?s3)" by (simp add: speech_call_def Let_def)
  then have "gateway_step (CallsSpeech quiet_world (Some (VDict []))) ?s2 = Some (GPending, ?s3)" by simp
  then have "gateway_reachable gateway_config ?s3" by (rule reach_step [OF r2 gateway_stepI])
  moreover have "gt_tasks ?s3 = [t1, t2, ?w]" using f2(1) by (simp add: add_task_def)
  ultimately show ?thesis by (intro exI [of _ ?s3] exI [of _ 2] exI [of _ st] exI [of _ status] exI [of _ d]) simp
qed

lemma distinct_ids_once:
  assumes "distinct (ids ts)" and "t \<in> set ts" and "gk_claimed t"
  shows "length (filter (\<lambda>u. gk_claimed u \<and> gk_request_id u = gk_request_id t) ts) = 1"
proof -
  have "length (filter (\<lambda>u. gk_claimed u \<and> gk_request_id u = rid) ts) = count_list (ids ts) rid" for rid
    by (induction ts) (auto simp: ids_def)
  moreover have "distinct xs \<Longrightarrow> x \<in> set xs \<Longrightarrow> count_list xs x = 1" for xs and x :: string
    by (induction xs) (auto simp: count_list_0_iff)
  ultimately show ?thesis using assms ids_member [OF assms(2,3)] by simp
qed

section \<open>Properties\<close>

text \<open>C7: Capacity is never given back twice: in every reachable state the counter of heavy work is at
  least the number of requests in flight plus the running diffusion jobs, and the workload file that
  the thermal policy reads holds exactly this counter.\<close>

theorem capacity_is_never_over_released:
  assumes "gateway_reachable c s"
  shows "holders s + jobs s \<le> gt_active s \<and> gt_file s = gt_active s"
  using reachable_inv [OF assms] active_bounds by (auto simp: gateway_inv_def)

theorem capacity_is_never_over_released_witness:
  "\<exists>s. gateway_reachable gateway_config s \<and> holders s = 1 \<and> gt_active s = 1 \<and> holders s + jobs s \<le> gt_active s"
proof -
  obtain s t where s: "gateway_reachable gateway_config s" "gt_tasks s = [t]" "gk_phase t = Asking [gateway_profile] []"
    "\<not> gk_retained t" "gt_active s = 1" using example_in_flight by auto
  then have "holders s = 1" by (simp add: holders_def holds_def)
  with s capacity_is_never_over_released [OF s(1)] show ?thesis by blast
qed

text \<open>C3: Heavy work grows by one and only within the limit: whenever a step increases the number of requests
  that hold capacity and running jobs, it increases it by exactly one, and the new number is at most the
  concurrency limit that the thermal status showed in that very step.\<close>

theorem heavy_work_stays_within_limit:
  assumes "gateway_reachable c s" and "gateway_steps s e r s'" and "holders s + jobs s < holders s' + jobs s'"
  shows "\<exists>w limit. event_world e = Some w \<and> limit_of w s = Inr limit \<and> holders s' + jobs s' \<le> limit
    \<and> holders s' + jobs s' = holders s + jobs s + 1"
proof -
  have inv: "gateway_inv s" using reachable_inv [OF assms(1)] by simp
  have st: "gateway_step e s = Some (r, s')" using assms(2) by (simp add: gateway_steps_iff)
  have k: "gateway_inv s'" "slack s \<le> slack s'" using gateway_step_keeps [OF inv st] by (simp_all add: keeps_def)
  have "\<not> gt_active s' \<le> gt_active s" using k(2) assms(3) by (simp add: slack_def)
  then obtain w limit where l: "event_world e = Some w" "limit_of w s = Inr limit" "gt_active s' \<le> limit" "gt_active s' \<le> gt_active s + 1"
    using active_step [OF inv st] by (auto simp: grows_within_def)
  then have "holders s' + jobs s' = holders s + jobs s + 1" using k(2) assms(3) by (simp add: slack_def)
  then show ?thesis using l active_bounds [OF k(1)] by force
qed

theorem heavy_work_stays_within_limit_witness:
  "\<exists>s s' e r limit. gateway_steps s e r s' \<and> holders s' = 1 \<and> limit_of quiet_world s = Inr limit \<and> holders s' + jobs s' \<le> limit"
proof -
  let ?s = "gateway_init gateway_config" and ?e = "CallsProxy quiet_world ''/v1/chat/completions'' 60 chat_routes chat_body"
  have i: "gt_config ?s = gateway_config" "gt_active ?s = 0" "gt_tasks ?s = []" "gt_job_claims ?s = []" by (simp_all add: gateway_init_def)
  obtain t where t: "gateway_step ?e ?s = Some (GPending, add_task t (take_capacity quiet_world None ?s))"
    "gk_phase t = Asking [gateway_profile] []" "\<not> gk_retained t" using example_call [of ?s] i by auto
  let ?s' = "add_task t (take_capacity quiet_world None ?s)"
  have h: "holders ?s = 0" "jobs ?s = 0" "holders ?s' = 1" "jobs ?s' = 0"
    using i t by (simp_all add: holders_def holds_def jobs_def add_task_def)
  have step: "gateway_steps ?s ?e GPending ?s'" using t(1) by (rule gateway_stepI)
  obtain w limit where "event_world ?e = Some w" "limit_of w ?s = Inr limit" "holders ?s' + jobs ?s' \<le> limit"
    using heavy_work_stays_within_limit [OF reach_init step] h by auto
  then show ?thesis using step h(3)
    by (intro exI [of _ ?s] exI [of _ ?s'] exI [of _ ?e] exI [of _ GPending] exI [of _ limit]) simp
qed

text \<open>C6: Request identifiers in flight are unique, and the table of active requests is exact: a request
  that has claimed its identifier is the only one with it, its entry names the worker that serves it,
  and every entry belongs to such a request. So a cancellation reaches the serving worker.\<close>

theorem active_requests_are_exact:
  assumes "gateway_reachable c s"
  shows "(\<forall>t\<in>set (gt_tasks s). gk_claimed t \<longrightarrow>
        length (filter (\<lambda>u. gk_claimed u \<and> gk_request_id u = gk_request_id t) (gt_tasks s)) = 1
      \<and> map_of (gt_requests s) (gk_request_id t) = gk_selected t
      \<and> dget (cancel_answer rp (gk_request_id t) s answer) ''worker_id'' = VStr (mp_id (the (gk_selected t))))
    \<and> (\<forall>rid p. map_of (gt_requests s) rid = Some p \<longrightarrow> (\<exists>t\<in>set (gt_tasks s). gk_claimed t \<and> gk_request_id t = rid \<and> gk_selected t = Some p))"
proof (intro conjI)
  have inv: "gateway_inv s" using reachable_inv [OF assms] by simp
  then have rq: "distinct (ids (gt_tasks s))" "fst ` set (gt_requests s) = set (ids (gt_tasks s))"
    and v: "\<And>t. t \<in> set (gt_tasks s) \<Longrightarrow> gk_claimed t \<Longrightarrow> map_of (gt_requests s) (gk_request_id t) = gk_selected t \<and> gk_selected t \<noteq> None"
    by (auto simp: gateway_inv_def requests_ok_def task_ok_def)
  show "\<forall>t\<in>set (gt_tasks s). gk_claimed t \<longrightarrow>
        length (filter (\<lambda>u. gk_claimed u \<and> gk_request_id u = gk_request_id t) (gt_tasks s)) = 1
      \<and> map_of (gt_requests s) (gk_request_id t) = gk_selected t
      \<and> dget (cancel_answer rp (gk_request_id t) s answer) ''worker_id'' = VStr (mp_id (the (gk_selected t)))"
  proof (intro ballI impI conjI)
    fix t assume t: "t \<in> set (gt_tasks s)" "gk_claimed t"
    show "length (filter (\<lambda>u. gk_claimed u \<and> gk_request_id u = gk_request_id t) (gt_tasks s)) = 1"
      using distinct_ids_once [OF rq(1) t] .
    show m: "map_of (gt_requests s) (gk_request_id t) = gk_selected t" using v [OF t] by simp
    show "dget (cancel_answer rp (gk_request_id t) s answer) ''worker_id'' = VStr (mp_id (the (gk_selected t)))"
      using v [OF t] by (auto simp: cancel_answer_def dget_def split: option.splits prod.splits pyval.splits)
  qed
  show "\<forall>rid p. map_of (gt_requests s) rid = Some p \<longrightarrow> (\<exists>t\<in>set (gt_tasks s). gk_claimed t \<and> gk_request_id t = rid \<and> gk_selected t = Some p)"
  proof (intro allI impI)
    fix rid p assume m: "map_of (gt_requests s) rid = Some p"
    then have "rid \<in> set (ids (gt_tasks s))" using rq(2) by (metis fst_conv image_eqI map_of_SomeD)
    then obtain t where t: "t \<in> set (gt_tasks s)" "gk_claimed t" "gk_request_id t = rid" by (auto simp: ids_def)
    then show "\<exists>t\<in>set (gt_tasks s). gk_claimed t \<and> gk_request_id t = rid \<and> gk_selected t = Some p"
      using v [OF t(1,2)] m by auto
  qed
qed

theorem active_requests_are_exact_witness:
  "\<exists>s t. gateway_reachable gateway_config s \<and> t \<in> set (gt_tasks s) \<and> gk_claimed t
     \<and> map_of (gt_requests s) (gk_request_id t) = Some gateway_profile"
proof -
  obtain s t where s: "gateway_reachable gateway_config s" "gt_tasks s = [t]" "gk_claimed t" "gk_selected t = Some gateway_profile"
    using example_claimed by auto
  then show ?thesis using active_requests_are_exact [OF s(1)] by auto
qed

text \<open>C14: A queued request is answered at its deadline: the wait for capacity ends no later than the
  recovery time after the request was queued, because a request resumed then, by a notification or
  by its timer, either starts or gets its answer.\<close>

theorem queued_request_is_answered_at_deadline:
  assumes "gateway_reachable c s" and "n < length (gt_tasks s)" and "gk_phase (gt_tasks s ! n) = Waiting q deadline st status d"
    and "Fin q + recovery_step_seconds c \<le> Fin (gw_now w)"
  shows "\<exists>r s'. gateway_steps s (Resumes w n (Wakes i)) r s'
     \<and> (r \<noteq> GPending \<or> (\<forall>q deadline st status d. gk_phase (gt_tasks s' ! n) \<noteq> Waiting q deadline st status d))"
proof -
  let ?t = "gt_tasks s ! n"
  have inv: "gateway_inv s" and c: "gt_config s = c" using reachable_inv [OF assms(1)] by simp_all
  have ok: "task_ok c ?t" using member_facts(1) [OF inv assms(2) HOL.refl] c by simp
  then have f: "\<not> gk_claimed ?t" "\<not> gk_retained ?t" and dl: "deadline = Fin q + recovery_step_seconds c"
    using assms(3) by (auto simp: task_ok_def wait_ok_def)
  have late: "deadline \<le> Fin (gw_now w)" "\<not> Fin (gw_now w) < deadline" "deadline - Fin (gw_now w) \<le> Fin 0"
    using assms(4) unfolding dl [symmetric] by (cases deadline; simp)+
  let ?r = "waiting_resumes w i (gk_workload ?t) q deadline st status d s"
  obtain r s' where st: "claim_settles w ?t (put_task n) ?r s = (r, s')" by (cases "claim_settles w ?t (put_task n) ?r s")
  have "gateway_steps s (Resumes w n (Wakes i)) r s'" using assms(2,3) st by (simp add: gateway_steps_iff)
  moreover have "r \<noteq> GPending \<or> (\<forall>q deadline st status d. gk_phase (gt_tasks s' ! n) \<noteq> Waiting q deadline st status d)"
  proof (cases ?r)
    case (Inl e)
    then show ?thesis using st by (simp add: claim_settles_def)
  next
    case (Inr x)
    obtain res s1 where x: "x = (res, s1)" by (cases x)
    have "claim_ok w s (res, s1)" using waiting_resumes_ok [OF Inr] dl c x by simp
    moreover have "\<And>ph. res \<noteq> Waits ph"
      using Inr late unfolding x waiting_resumes_def capacity_loop_def Let_def
      by (auto simp: rbind_eq_Inr split: if_splits)
    ultimately consider d where "res = Refused d" | d where "res = Claimed d" "gt_tasks s1 = gt_tasks s"
      by (cases res) (auto simp: claim_ok_def claims_unit_def)
    then show ?thesis
    proof cases
      case 1
      then show ?thesis using st
        by (auto simp: claim_settles_def Inr x refuse_def split: task_kind.splits sum.splits)
    next
      case (2 d)
      then have "gt_tasks s' ! n = admit w ?t d" using st assms(2) by (auto simp: claim_settles_def Inr x put_task_def)
      then show ?thesis using admit_ok(5) [OF f] by simp
    qed
  qed
  ultimately show ?thesis by blast
qed

theorem queued_request_is_answered_at_deadline_witness:
  "\<exists>s n st status d r s'. gk_phase (gt_tasks s ! n) = Waiting 0 (Fin 30) st status d
     \<and> gateway_steps s (Resumes (quiet_world\<lparr>gw_now := 31\<rparr>) n (Wakes WaitExpires)) r s'"
proof -
  obtain s n st status d where s: "gateway_reachable gateway_config s" "n < length (gt_tasks s)"
    "gk_phase (gt_tasks s ! n) = Waiting 0 (Fin 30) st status d" using example_waiting by blast
  have "Fin 0 + recovery_step_seconds gateway_config \<le> Fin (gw_now (quiet_world\<lparr>gw_now := 31\<rparr>))"
    by (simp add: gateway_config_def default_thermal_config_def)
  then show ?thesis using queued_request_is_answered_at_deadline [OF s, of _ WaitExpires] s(3) by blast
qed

text \<open>A diffusion job loses its capacity at the deadline of the request that started it: whatever the
  worker answered last, the monitor's next test gives the claim back, so the next heavy request may be
  admitted beside a job that still runs.\<close>

theorem job_outlives_its_claim:
  assumes "n < length (gt_monitors s)" and "gt_monitors s ! n = m" and "jm_job m \<in> set (gt_job_claims s)" and "0 < gt_active s"
    and "jm_asking m" and "answer = Some (200, VDict [(''state'', VStr ''running'')])" and "jm_deadline m \<le> gw_now w"
  shows "\<exists>s1 s2. gateway_steps s (MonitorHears n answer) GPending s1 \<and> gt_active s1 = gt_active s
    \<and> gateway_steps s1 (MonitorTests w n) GDone s2 \<and> gt_active s2 = gt_active s - 1 \<and> jm_job m \<notin> set (gt_job_claims s2)"
proof -
  have "\<not> monitor_ends m answer"
    using assms(6) by (simp add: monitor_ends_def terminal_payload_def terminal_states_def unhashable_state_def hashable_def dget_def eq_str_def)
  then show ?thesis
    using assms by (simp add: gateway_steps_iff monitor_hears_def monitor_tests_def Let_def release_thermal_job_capacity_def
        monitors_without_def publish_activity_def)
qed

theorem job_outlives_its_claim_witness:
  "\<exists>s s1 s2. gt_active s = 1 \<and> gateway_steps s (MonitorHears 0 (Some (200, VDict [(''state'', VStr ''running'')]))) GPending s1
     \<and> gateway_steps s1 (MonitorTests (quiet_world\<lparr>gw_now := 60\<rparr>) 0) GDone s2 \<and> gt_active s2 = 0"
proof -
  let ?m = "\<lparr>jm_job = ''job'', jm_worker = gateway_profile, jm_deadline = 60, jm_misses = 0, jm_asking = True\<rparr>"
  let ?s = "(gateway_init gateway_config)\<lparr>gt_active := 1, gt_job_claims := [''job''], gt_monitors := [?m]\<rparr>"
  obtain s1 s2 where "gateway_steps ?s (MonitorHears 0 (Some (200, VDict [(''state'', VStr ''running'')]))) GPending s1"
      "gateway_steps s1 (MonitorTests (quiet_world\<lparr>gw_now := 60\<rparr>) 0) GDone s2" "gt_active s2 = gt_active ?s - 1"
    using job_outlives_its_claim [of 0 ?s ?m _ "quiet_world\<lparr>gw_now := 60\<rparr>"] by auto
  then show ?thesis by (intro exI [of _ ?s] exI [of _ s1] exI [of _ s2]) simp
qed

text \<open>The states that discovery looks at are those the proxy would see.\<close>

lemma map_of_updates:
  "map_of (fold (\<lambda>p. AList.update (f p) p) ps d) k
     = (case List.find (\<lambda>p. f p = k) (rev ps) of Some p \<Rightarrow> Some p | None \<Rightarrow> map_of d k)"
  by (induction ps arbitrary: d) (auto simp: find_in_append update_conv' split: option.splits)

lemma state_of_candidate:
  assumes p: "p \<in> set ps" "ps = concat (map (gr_candidates \<circ> snd) rs)" and u: "\<forall>q\<in>set ps. mp_id q = mp_id p \<longrightarrow> q = p"
  shows "state_of (states_by_id (worker_states v answer rs)) p
     = Inr \<lparr>gs_ready = snd (worker_health (answer p) p), gs_health = fst (worker_health (answer p) p)\<rparr>"
proof -
  have "map_of (route_profiles rs) (mp_id p) = Some p"
    using find_unique [of p "rev ps" mp_id] p(1) u
    by (simp add: route_profiles_def map_of_updates p(2) [symmetric])
  then have m: "p \<in> snd ` set (route_profiles rs)" by (metis image_eqI map_of_SomeD snd_conv)
  have keys: "k = mp_id q \<and> q \<in> set ps" if "(k, q) \<in> set (route_profiles rs)" for k q
  proof -
    have "(k, q) \<in> set (fold (\<lambda>p. AList.update (mp_id p) p) ps' d) \<Longrightarrow> (k, q) \<in> set d \<or> (k = mp_id q \<and> q \<in> set ps')" for ps' d
    proof (induction ps' arbitrary: d)
      case (Cons x xs)
      then have "(k, q) \<in> set (AList.update (mp_id x) x d) \<or> (k = mp_id q \<and> q \<in> set xs)" by auto
      then show ?case using in_set_update [of k q "mp_id x" x d] by auto
    qed simp
    then show ?thesis using that by (fastforce simp: route_profiles_def p(2))
  qed
  have "map_of (states_by_id (map (report_worker v answer \<circ> snd) ws)) (mp_id p)
      = Some (wr_state (report_worker v answer p))"
    if "p \<in> snd ` set ws" "\<And>k q. (k, q) \<in> set ws \<Longrightarrow> k = mp_id q \<and> q \<in> set ps" for ws
    using that
  proof (induction ws)
    case (Cons x xs)
    obtain k q where x: "x = (k, q)" by (cases x)
    have i: "wr_id (report_worker v answer q) = mp_id q" for q by (simp add: report_worker_def split: prod.splits)
    show ?case
    proof (cases "mp_id q = mp_id p")
      case True
      then have "q = p" using Cons.prems(2) [of k q] u x by simp
      then show ?thesis by (simp add: x states_by_id_def i)
    next
      case False
      then have "p \<in> snd ` set xs" using Cons.prems(1) by (auto simp: x)
      then have "map_of (states_by_id (map (report_worker v answer \<circ> snd) xs)) (mp_id p) = Some (wr_state (report_worker v answer p))"
        by (rule Cons.IH) (rule Cons.prems(2), simp)
      then show ?thesis using False by (simp add: x states_by_id_def i comp_def)
    qed
  qed simp
  from this [OF m keys] show ?thesis
    by (simp add: state_of_def worker_states_def report_worker_def split: prod.splits)
qed

lemma ready_candidate_first_ready:
  assumes "\<And>p. p \<in> set ps \<Longrightarrow> \<exists>h. state_of states p = Inr \<lparr>gs_ready = snd (worker_health (answer p) p), gs_health = h\<rparr>"
  shows "ready_candidate states ps = Inr (fst (first_ready answer ps))"
  using assms
proof (induction ps)
  case (Cons p ps)
  then obtain h where "state_of states p = Inr \<lparr>gs_ready = snd (worker_health (answer p) p), gs_health = h\<rparr>" by auto
  with Cons show ?case by (auto split: prod.splits bool.splits)
qed simp

lemma ready_candidate_in: "ready_candidate states ps = Inr (Some q) \<Longrightarrow> q \<in> set ps"
  by (induction ps) (auto simp: rbind_eq_Inr split: if_splits)

lemma candidates_of_route:
  assumes "(name, g) \<in> set rs" and "p \<in> set (gr_candidates g)"
  shows "p \<in> set (concat (map (gr_candidates \<circ> snd) rs))"
  using assms by force

lemma find_first_ready:
  assumes "\<And>p. p \<in> set ps \<Longrightarrow> map_of st (mp_id p) = Some \<lparr>gs_ready = snd (worker_health (answer p) p), gs_health = h p\<rparr>"
  shows "List.find (\<lambda>p. case map_of st (mp_id p) of None \<Rightarrow> False | Some x \<Rightarrow> gs_ready x) ps = fst (first_ready answer ps)"
  using assms
proof (induction ps)
  case (Cons p ps)
  then have "map_of st (mp_id p) = Some \<lparr>gs_ready = snd (worker_health (answer p) p), gs_health = h p\<rparr>" by simp
  then show ?case using Cons by (cases "worker_health (answer p) p") (auto split: prod.split bool.split)
qed simp

text \<open>C17: Discovery and the proxy choose alike: for a public name of the routes, when no two workers of the routes
  share an identifier, the entry of the model list is produced whether or not the configured primary is still
  a candidate; it is ready exactly when the proxy would find a ready worker for the same health answers; and
  its selected worker is the one that the proxy finds, or null when the proxy finds none.\<close>

theorem discovery_selects_what_the_proxy_selects:
  assumes g: "map_of rs name = Some g" and u: "\<forall>p\<in>set (concat (map (gr_candidates \<circ> snd) rs)).
      \<forall>q\<in>set (concat (map (gr_candidates \<circ> snd) rs)). mp_id q = mp_id p \<longrightarrow> q = p"
  shows "\<exists>d m. model_discovery_record digest name (gr_candidates g) (states_by_id (worker_states v answer rs)) route = Inr d
     \<and> dget d ''ready'' = VBool (fst (first_ready answer (gr_candidates g)) \<noteq> None)
     \<and> dget d ''modeldeck'' = VDict m
     \<and> (case fst (first_ready answer (gr_candidates g)) of
           None \<Rightarrow> dget m ''selected_worker'' = VNone \<and> dget m ''selection_reason'' = VStr ''no_ready_worker''
         | Some p \<Rightarrow> \<exists>sel. dget m ''selected_worker'' = VDict sel \<and> dget sel ''worker_id'' = VStr (mp_id p)
             \<and> dget m ''selection_reason'' =
                 VStr (if configured_primary route (gr_candidates g) = Some p then ''primary_ready'' else ''backup_ready''))"
proof -
  let ?st = "states_by_id (worker_states v answer rs)" and ?ps = "gr_candidates g"
  have st: "state_of ?st p = Inr \<lparr>gs_ready = snd (worker_health (answer p) p), gs_health = fst (worker_health (answer p) p)\<rparr>"
    if "p \<in> set ?ps" for p
    using state_of_candidate [OF candidates_of_route [OF map_of_SomeD [OF g] that] refl] u
      candidates_of_route [OF map_of_SomeD [OF g] that] by blast
  have lk: "map_of ?st (mp_id p) = Some \<lparr>gs_ready = snd (worker_health (answer p) p), gs_health = fst (worker_health (answer p) p)\<rparr>"
    if "p \<in> set ?ps" for p
    using st [OF that] by (simp add: state_of_def split: option.splits)
  have rc: "ready_candidate ?st ?ps = Inr (fst (first_ready answer ?ps))"
    by (rule ready_candidate_first_ready) (use st in blast)
  have fr: "p \<in> set ?ps" if "fst (first_ready answer ?ps) = Some p" for p
    using ready_candidate_in [of ?st ?ps p] rc that by simp
  show ?thesis
  proof (cases "configured_primary route ?ps")
    case primary: None
    note f = find_first_ready [of ?ps ?st answer "\<lambda>p. fst (worker_health (answer p) p)", OF lk]
    show ?thesis
    proof (cases "fst (first_ready answer ?ps)")
      case None
      then show ?thesis using primary f by (simp add: model_discovery_record_def backup_discovery_def dget_def opt_dict_def)
    next
      case (Some p)
      then show ?thesis using primary f lk [OF fr [OF Some]]
        by (simp add: model_discovery_record_def backup_discovery_def dget_def opt_dict_def worker_discovery_identity_def Let_def)
    qed
  next
    case primary: (Some p0)
    then have p0: "p0 \<in> set ?ps" by (auto simp: configured_primary_def Let_def find_Some_iff)
    show ?thesis
    proof (cases "fst (first_ready answer ?ps)")
      case None
      then show ?thesis using rc primary st [OF p0]
        by (simp add: model_discovery_record_def opt_default_def Let_def dget_def opt_dict_def)
    next
      case (Some p)
      then show ?thesis using rc primary st [OF p0] st [OF fr [OF Some]]
        by (simp add: model_discovery_record_def opt_default_def Let_def dget_def opt_dict_def worker_discovery_identity_def)
    qed
  qed
qed

theorem discovery_selects_what_the_proxy_selects_witness:
  "\<forall>v. \<exists>d. model_discovery_record (\<lambda>_. []) ''chat'' [gateway_profile]
         (states_by_id (worker_states v (\<lambda>_. Some (True, VDict [(''ready'', VBool True)])) chat_routes)) [] = Inr d
     \<and> dget d ''ready'' = VBool True"
proof
  fix v
  let ?answer = "\<lambda>p :: model_profile. Some (True, VDict [(''ready'', VBool True)])"
  let ?g = "\<lparr>gr_configured = None, gr_candidates = [gateway_profile]\<rparr>"
  have g: "map_of chat_routes ''chat'' = Some ?g" by (simp add: chat_routes_def)
  have u: "\<forall>p\<in>set (concat (map (gr_candidates \<circ> snd) chat_routes)).
      \<forall>q\<in>set (concat (map (gr_candidates \<circ> snd) chat_routes)). mp_id q = mp_id p \<longrightarrow> q = p"
    by (simp add: chat_routes_def)
  have r: "fst (first_ready ?answer (gr_candidates ?g)) \<noteq> None" by (simp add: worker_health_def dget_def)
  show "\<exists>d. model_discovery_record (\<lambda>_. []) ''chat'' [gateway_profile]
         (states_by_id (worker_states v (\<lambda>_. Some (True, VDict [(''ready'', VBool True)])) chat_routes)) [] = Inr d
     \<and> dget d ''ready'' = VBool True"
    using discovery_selects_what_the_proxy_selects [OF g u, of "\<lambda>_. []" v ?answer "[]"] r by auto
qed

text \<open>What the transcription endpoint lets through.\<close>

lemma read_stream_concat:
  "read_stream limit cs acc = Some s \<Longrightarrow> s = acc @ concat cs \<and> (length acc \<le> limit \<longrightarrow> length s \<le> limit)"
proof (induction cs arbitrary: acc)
  case (Cons c cs)
  then have "read_stream limit cs (acc @ c) = Some s" "length (acc @ c) \<le> limit" by (simp_all split: if_splits)
  then show ?case using Cons.IH [of "acc @ c"] by auto
qed simp

lemma audio_checks_accept:
  assumes "audio_checks rp body = Inr body'"
  shows "body' = body \<and> (\<exists>encoded n. dget body ''audio_base64'' = VStr encoded \<and> b64_length encoded = Some n
    \<and> 2 \<le> n \<and> n \<le> WHISPER_MAXIMUM_AUDIO_BYTES \<and> even n)"
proof -
  obtain encoded where e: "dget body ''audio_base64'' = VStr encoded"
    using assms by (cases "dget body ''audio_base64''") (auto simp: audio_checks_def Let_def)
  then obtain n where n: "b64_length encoded = Some n" "n \<noteq> 0" "n mod 2 = 0" "n \<le> WHISPER_MAXIMUM_AUDIO_BYTES" "body' = body"
    using assms by (auto simp: audio_checks_def Let_def split: if_splits option.splits)
  moreover have "2 \<le> n" using n(2,3) by presburger
  ultimately show ?thesis using e by (auto simp: even_iff_mod_2_eq_zero)
qed

text \<open>C38: A transcription request that reaches a worker is bounded: its body, however it was cut into
  chunks and whatever its length header said, has at most 345,432 bytes, and it carries base64 audio that
  decodes to between one and 128,000 PCM16 samples, a whole number of them.\<close>

theorem transcription_is_bounded:
  assumes "read_transcription_envelope parse rp content_length chunks = Inr body"
  shows "length (concat chunks) \<le> 345432 \<and> parse (concat chunks) = Some (VDict body)
    \<and> (\<exists>encoded n. dget body ''audio_base64'' = VStr encoded \<and> b64_length encoded = Some n
        \<and> 2 \<le> n \<and> n \<le> 256000 \<and> even n)"
proof -
  obtain s where s: "read_stream maximum_request_bytes chunks [] = Some s"
    using assms by (auto simp: read_transcription_envelope_def rbind_eq_Inr split: option.splits)
  then obtain d where d: "parse s = Some (VDict d)" "audio_checks rp d = Inr body"
    using assms by (auto simp: read_transcription_envelope_def rbind_eq_Inr split: option.splits pyval.splits)
  show ?thesis using read_stream_concat [OF s] d(1) audio_checks_accept [OF d(2)]
    by (auto simp: maximum_request_bytes_def maximum_characters_def WHISPER_MAXIMUM_AUDIO_BYTES_def
        WHISPER_SAMPLE_RATE_HZ_def WHISPER_MAXIMUM_AUDIO_SECONDS_def)
qed

theorem transcription_is_bounded_witness:
  "\<exists>body. read_transcription_envelope (\<lambda>s. Some (VDict [(''audio_base64'', VStr s)])) (\<lambda>_. []) (Some ''4'')
      [''AA'', ''A=''] = Inr body \<and> length (concat [''AA'', ''A='']) \<le> 345432"
proof -
  have "parse_int ''4'' = Some 4" by code_simp
  then have "read_transcription_envelope (\<lambda>s. Some (VDict [(''audio_base64'', VStr s)])) (\<lambda>_. []) (Some ''4'')
      [''AA'', ''A=''] = Inr [(''audio_base64'', VStr ''AAA='')]"
    by (simp add: read_transcription_envelope_def length_header_def audio_checks_def Let_def maximum_request_bytes_def
        maximum_characters_def WHISPER_MAXIMUM_AUDIO_BYTES_def WHISPER_SAMPLE_RATE_HZ_def WHISPER_MAXIMUM_AUDIO_SECONDS_def
        dget_def b64_char_def)
  from transcription_is_bounded [OF this] this show ?thesis by blast
qed

end
