(* ===== verification/Store.thy ===== *)
theory Store
  imports Domain "HOL-Library.List_Lexorder" "HOL-Library.Product_Lexorder"
begin

text \<open>
  The operational store (\<open>compatibility/store.py\<close> over the connection policy of \<open>persistence.py\<close>).
  A table is an association list from its primary key to the row, in the order of insertion; an
  upsert keeps the place of a row, as in SQLite. One \<open>connect_database\<close> block is a transaction:
  an exception inside it rolls everything back. A JSON column is the value that its text encodes;
  the order of keys, which \<open>sort_keys\<close> fixes, plays no role. The clock is an argument.
\<close>

section \<open>Columns, errors, transactions\<close>

text \<open>A column that holds JSON text; \<open>None\<close> is a text that is not JSON.\<close>

type_synonym column = "pyval option"

text \<open>\<open>PersistenceError\<close> is a \<open>RuntimeError\<close>.\<close>

definition persistence_error :: "string \<Rightarrow> py_error" where
  "persistence_error code = RuntimeError (''Local persistence is unavailable ('' @ code @ '')'')"

definition constraint_error :: py_error where
  "constraint_error = persistence_error ''database_constraint''"

definition decode_json :: "column \<Rightarrow> pyval res" where
  "decode_json c = (case c of Some v \<Rightarrow> Inr v | None \<Rightarrow> Inl (persistence_error ''invalid_persisted_json''))"

definition worker_document :: "column \<Rightarrow> pydict" where
  "worker_document c = (case c of Some (VDict d) \<Rightarrow> d | _ \<Rightarrow> [])"

definition encoded :: "pydict \<Rightarrow> column" where
  "encoded d = Some (VDict d)"

text \<open>\<open>v.get(k, default)\<close> on a value that need not be a dictionary, and a list to iterate over.\<close>

definition value_get :: "pyval \<Rightarrow> string \<Rightarrow> pyval \<Rightarrow> pyval res" where
  "value_get v k d = (case v of VDict e \<Rightarrow> Inr (dget_or e k d) | _ \<Rightarrow> Inl (AttributeError ''get''))"

definition iterable :: "pyval \<Rightarrow> pyval list res" where
  "iterable v = (case v of VList xs \<Rightarrow> Inr xs | _ \<Rightarrow> Inl (TypeError ''not iterable''))"

text \<open>\<open>next((x for x in xs if P(x)), None)\<close>.\<close>

fun first_match :: "('a \<Rightarrow> bool res) \<Rightarrow> 'a list \<Rightarrow> 'a option res" where
  "first_match P [] = Inr None"
| "first_match P (x # xs) = rbind (P x) (\<lambda>b. if b then Inr (Some x) else first_match P xs)"

definition attempt :: "('s \<Rightarrow> ('a \<times> 's) res) \<Rightarrow> 's \<Rightarrow> 'a res \<times> 's" where
  "attempt f s = (case f s of Inl e \<Rightarrow> (Inl e, s) | Inr (x, s') \<Rightarrow> (Inr x, s'))"

text \<open>A second block sees what the first one committed, also when the second raises.\<close>

definition after_commit :: "'a res \<times> 's \<Rightarrow> ('a \<Rightarrow> 's \<Rightarrow> 'b res \<times> 's) \<Rightarrow> 'b res \<times> 's" where
  "after_commit r f = (case r of (Inl e, s) \<Rightarrow> (Inl e, s) | (Inr x, s) \<Rightarrow> f x s)"

definition reading :: "('s \<Rightarrow> 'a res) \<Rightarrow> 's \<Rightarrow> 'a res \<times> 's" where
  "reading f s = (f s, s)"

section \<open>Tables\<close>

record worker_entry =
  we_name :: string
  we_document :: column
  we_created_at :: string
  we_updated_at :: string
  we_archived_at :: "string option"

record draft_entry =
  de_document :: column
  de_created_at :: string
  de_updated_at :: string

record revision_entry =
  re_document :: column
  re_published_at :: string

record active_entry =
  ae_revision :: int
  ae_routing :: column
  ae_published_at :: string

record rehearsal_entry =
  rh_supported :: bool
  rh_rehearsed :: bool
  rh_last_rehearsal :: "string option"
  rh_failure_code :: "string option"
  rh_evidence :: column
  rh_updated_at :: string

record test_entry =
  te_id :: nat
  te_fingerprint :: string
  te_result :: string
  te_failure_class :: "string option"
  te_evidence :: column
  te_tested_at :: string

record observation_entry =
  ob_id :: nat
  ob_test_id :: nat
  ob_kind :: string
  ob_observation :: column
  ob_observed_at :: string

record setup_entry =
  se_request_id :: string
  se_request_fingerprint :: string
  se_document :: column
  se_created_at :: string
  se_updated_at :: string

record setup_event =
  sv_id :: nat
  sv_setup_id :: string
  sv_state :: string
  sv_event :: column
  sv_created_at :: string

text \<open>The job assignments: worker, public name and contract of a job.\<close>

type_synonym job_assignments = "(string \<times> string \<times> string \<times> string) list"

record store =
  st_configuration :: "(string \<times> string) list"
  st_workers :: "(string \<times> worker_entry) list"
  st_profiles :: "(string \<times> draft_entry) list"
  st_revisions :: "((string \<times> int) \<times> revision_entry) list"
  st_active :: "(string \<times> active_entry) list"
  st_last_activation :: "(string \<times> active_entry) option"
  st_jobs :: job_assignments
  st_rehearsals :: "((string \<times> int \<times> string) \<times> rehearsal_entry) list"
  st_cache_policy :: "((string \<times> string) \<times> bool) list"
  st_capability_policy :: "((string \<times> string \<times> string) \<times> bool) list"
  st_tests :: "test_entry list"
  st_observations :: "observation_entry list"
  st_setups :: "(string \<times> setup_entry) list"
  st_setup_events :: "setup_event list"

definition empty_store :: store where
  "empty_store = \<lparr>st_configuration = [], st_workers = [], st_profiles = [], st_revisions = [], st_active = [],
     st_last_activation = None, st_jobs = [], st_rehearsals = [], st_cache_policy = [], st_capability_policy = [],
     st_tests = [], st_observations = [], st_setups = [], st_setup_events = []\<rparr>"

section \<open>Schema\<close>

definition REQUIRED_TABLES :: "string list" where
  "REQUIRED_TABLES = [''configuration_metadata'', ''workers'', ''routing_profiles'', ''routing_profile_revisions'',
     ''active_routing_profiles'', ''route_tool_calling_rehearsals'', ''gateway_job_assignments'', ''model_cache_policy'',
     ''model_capability_policy'', ''compatibility_tests'', ''compatibility_observations'', ''capability_setups'',
     ''capability_setup_events'']"

text \<open>\<open>check_health\<close>: the version row and the tables that the file has.\<close>

definition check_health :: "string option \<Rightarrow> string list \<Rightarrow> unit res" where
  "check_health version tables =
     (if version \<noteq> Some ''5'' then Inl (RuntimeError ''Expected schema v5; restart a matching build or restore a backup.'')
      else if \<not> list_all (\<lambda>t. t \<in> set tables) REQUIRED_TABLES then Inl (persistence_error ''database_schema_incomplete'')
      else Inr ())"

text \<open>\<open>initialise_v5\<close>: which files it takes over, and whether the old singleton activation is copied.\<close>

definition initialise_check :: "string list \<Rightarrow> string option \<Rightarrow> bool res" where
  "initialise_check tables version =
     (if tables \<noteq> [] \<and> ''schema_metadata'' \<notin> set tables
      then Inl (RuntimeError ''This is a legacy ModelDeck database. Run scripts/cutover_v2.ps1 before starting.'')
      else if ''schema_metadata'' \<in> set tables \<and> version = None
      then Inl (RuntimeError ''The ModelDeck database schema has no version'')
      else if ''schema_metadata'' \<in> set tables \<and> version = Some ''2''
      then Inl (RuntimeError ''Run scripts/migrate_v2_to_v3.ps1 before starting ModelDeck.'')
      else if ''schema_metadata'' \<in> set tables \<and> version = Some ''3''
      then Inl (RuntimeError ''Run scripts/migrate_v3_to_v4.ps1 before starting ModelDeck.'')
      else if ''schema_metadata'' \<in> set tables \<and> version \<notin> {Some ''4'', Some ''5''}
      then Inl (RuntimeError ''The ModelDeck database schema is not version 4 or 5.'')
      else Inr (''active_routing_profiles'' \<notin> set tables))"

definition migrate_singleton :: "bool \<Rightarrow> store \<Rightarrow> store" where
  "migrate_singleton migrate s = (case st_last_activation s of
     Some (pid, a) \<Rightarrow> if migrate \<and> map_of (st_active s) pid = None then s\<lparr>st_active := st_active s @ [(pid, a)]\<rparr> else s
   | None \<Rightarrow> s)"

section \<open>Configuration values and policies\<close>

definition get_configuration_value :: "string \<Rightarrow> store \<Rightarrow> string option" where
  "get_configuration_value k s = map_of (st_configuration s) k"

definition set_configuration_value :: "string \<Rightarrow> string \<Rightarrow> store \<Rightarrow> store" where
  "set_configuration_value k v s = s\<lparr>st_configuration := AList.update k v (st_configuration s)\<rparr>"

definition model_cache_allowed :: "string \<Rightarrow> string \<Rightarrow> store \<Rightarrow> bool" where
  "model_cache_allowed m r s = (case map_of (st_cache_policy s) (m, r) of None \<Rightarrow> True | Some b \<Rightarrow> b)"

definition set_model_cache_allowed :: "string \<Rightarrow> string \<Rightarrow> bool \<Rightarrow> store \<Rightarrow> store" where
  "set_model_cache_allowed m r b s = s\<lparr>st_cache_policy := AList.update (m, r) b (st_cache_policy s)\<rparr>"

definition model_capability_allowed :: "string \<Rightarrow> string \<Rightarrow> string \<Rightarrow> store \<Rightarrow> bool" where
  "model_capability_allowed m r c s = (map_of (st_capability_policy s) (m, r, c) = Some True)"

definition set_model_capability_allowed :: "string \<Rightarrow> string \<Rightarrow> string \<Rightarrow> bool \<Rightarrow> store \<Rightarrow> store" where
  "set_model_capability_allowed m r c b s =
     s\<lparr>st_capability_policy := AList.update (m, r, c) b (st_capability_policy s)\<rparr>"

section \<open>Workers\<close>

text \<open>\<open>COLLATE NOCASE\<close> folds ASCII letters.\<close>

definition list_workers_rows :: "bool \<Rightarrow> store \<Rightarrow> (string \<times> worker_entry) list" where
  "list_workers_rows include_archived s = sort_key (\<lambda>(i, w). (casefold (we_name w), i))
     (filter (\<lambda>(_, w). include_archived \<or> we_archived_at w = None) (st_workers s))"

definition stored_worker_row :: "string \<times> worker_entry \<Rightarrow> worker_row" where
  "stored_worker_row e = (case e of (i, w) \<Rightarrow>
     \<lparr>row_id = Some (VStr i), row_definition = worker_document (we_document w),
      row_archived_at = (case we_archived_at w of None \<Rightarrow> VNone | Some t \<Rightarrow> VStr t)\<rparr>)"

definition list_workers :: "bool \<Rightarrow> store \<Rightarrow> worker_row list" where
  "list_workers include_archived s = map stored_worker_row (list_workers_rows include_archived s)"

definition get_worker_definition :: "string \<Rightarrow> store \<Rightarrow> (pyval \<times> worker_entry) option res" where
  "get_worker_definition i s = (case map_of (st_workers s) i of
     None \<Rightarrow> Inr None | Some w \<Rightarrow> rbind (decode_json (we_document w)) (\<lambda>v. Inr (Some (v, w))))"

text \<open>The partial unique index: two rows that are not archived differ in their names.\<close>

definition name_taken :: "string \<Rightarrow> string \<Rightarrow> store \<Rightarrow> bool" where
  "name_taken i name s = list_ex (\<lambda>(j, w). j \<noteq> i \<and> we_archived_at w = None \<and> casefold (we_name w) = casefold name)
     (st_workers s)"

definition put_worker :: "(pyval \<Rightarrow> string) \<Rightarrow> string \<Rightarrow> pydict \<Rightarrow> store \<Rightarrow> (string \<times> store) res" where
  "put_worker rp now document s =
     rbind (py_index (VDict document) ''id'') (\<lambda>i.
     rbind (py_index (VDict document) ''name'') (\<lambda>name.
     let i = py_str rp i; name = py_str rp name; old = map_of (st_workers s) i;
         archived = (case old of None \<Rightarrow> None | Some w \<Rightarrow> we_archived_at w);
         w = \<lparr>we_name = name, we_document = encoded document,
              we_created_at = (case old of None \<Rightarrow> now | Some e \<Rightarrow> we_created_at e),
              we_updated_at = now, we_archived_at = archived\<rparr>
     in if archived = None \<and> name_taken i name s then Inl (ValueError ''A Worker with that name already exists'')
        else Inr (i, s\<lparr>st_workers := AList.update i w (st_workers s)\<rparr>)))"

definition save_worker_definition ::
  "(pyval \<Rightarrow> string) \<Rightarrow> string \<Rightarrow> pydict \<Rightarrow> store \<Rightarrow> (pyval \<times> worker_entry) option res \<times> store" where
  "save_worker_definition rp now document s =
     after_commit (attempt (put_worker rp now document) s) (\<lambda>i. reading (get_worker_definition i))"

definition archive_worker :: "string \<Rightarrow> string \<Rightarrow> store \<Rightarrow> bool \<times> store" where
  "archive_worker now i s = (case map_of (st_workers s) i of
     None \<Rightarrow> (False, s)
   | Some w \<Rightarrow> if we_archived_at w \<noteq> None then (False, s)
       else (True, s\<lparr>st_workers := AList.update i (w\<lparr>we_archived_at := Some now, we_updated_at := now\<rparr>) (st_workers s)\<rparr>))"

definition delete_worker_definition :: "string \<Rightarrow> store \<Rightarrow> bool \<times> store" where
  "delete_worker_definition i s = (dhas (st_workers s) i, s\<lparr>st_workers := AList.delete i (st_workers s)\<rparr>)"

section \<open>Routing profiles\<close>

record profile_record =
  pr_definition :: pyval
  pr_created_at :: string
  pr_updated_at :: string
  pr_active :: bool
  pr_active_revision :: "int option"
  pr_latest_revision :: "int option"

definition revisions_of :: "string \<Rightarrow> store \<Rightarrow> (int \<times> revision_entry) list" where
  "revisions_of pid s = map (\<lambda>((_, r), e). (r, e)) (filter (\<lambda>((p, _), _). p = pid) (st_revisions s))"

definition latest_revision :: "string \<Rightarrow> store \<Rightarrow> int option" where
  "latest_revision pid s = (case revisions_of pid s of [] \<Rightarrow> None | rs \<Rightarrow> Some (fold (max \<circ> fst) rs (fst (hd rs))))"

definition draft_name :: "draft_entry \<Rightarrow> string" where
  "draft_name e = (case de_document e of Some (VDict d) \<Rightarrow> (case dget d ''name'' of VStr n \<Rightarrow> n | _ \<Rightarrow> []) | _ \<Rightarrow> [])"

definition profile_record_of :: "store \<Rightarrow> string \<times> draft_entry \<Rightarrow> profile_record res" where
  "profile_record_of s e = (case e of (pid, d) \<Rightarrow> rbind (decode_json (de_document d)) (\<lambda>v.
     Inr \<lparr>pr_definition = v, pr_created_at = de_created_at d, pr_updated_at = de_updated_at d,
          pr_active = (map_of (st_active s) pid \<noteq> None),
          pr_active_revision = map_option ae_revision (map_of (st_active s) pid),
          pr_latest_revision = latest_revision pid s\<rparr>))"

text \<open>\<open>json_extract\<close> of a text that is not JSON fails the query.\<close>

definition list_routing_profiles :: "store \<Rightarrow> profile_record list res" where
  "list_routing_profiles s =
     (if list_ex (\<lambda>(_, d). de_document d = None) (st_profiles s) then Inl (persistence_error ''database_error'')
      else map_res (profile_record_of s) (sort_key (\<lambda>(_, d). casefold (draft_name d)) (st_profiles s)))"

definition get_routing_profile :: "string \<Rightarrow> store \<Rightarrow> profile_record option res" where
  "get_routing_profile pid s = rbind (list_routing_profiles s)
     (first_match (\<lambda>r. rbind (py_index (pr_definition r) ''id'') (\<lambda>i. Inr (eq_str i pid))))"

definition put_draft :: "(pyval \<Rightarrow> string) \<Rightarrow> string \<Rightarrow> pydict \<Rightarrow> store \<Rightarrow> (string \<times> store) res" where
  "put_draft rp now document s = rbind (py_index (VDict document) ''id'') (\<lambda>i.
     let pid = py_str rp i in
     Inr (pid, s\<lparr>st_profiles := AList.update pid
       \<lparr>de_document = encoded document,
        de_created_at = (case map_of (st_profiles s) pid of None \<Rightarrow> now | Some e \<Rightarrow> de_created_at e),
        de_updated_at = now\<rparr> (st_profiles s)\<rparr>))"

definition save_routing_profile_draft ::
  "(pyval \<Rightarrow> string) \<Rightarrow> string \<Rightarrow> pydict \<Rightarrow> store \<Rightarrow> profile_record option res \<times> store" where
  "save_routing_profile_draft rp now document s =
     after_commit (attempt (put_draft rp now document) s) (\<lambda>pid. reading (get_routing_profile pid))"

definition delete_routing_profile :: "string \<Rightarrow> store \<Rightarrow> bool res \<times> store" where
  "delete_routing_profile pid = attempt (\<lambda>s.
     if map_of (st_active s) pid \<noteq> None \<or> revisions_of pid s \<noteq> []
     then Inl (RuntimeError ''Published Routing Profiles cannot be deleted'')
     else Inr (dhas (st_profiles s) pid, s\<lparr>st_profiles := AList.delete pid (st_profiles s)\<rparr>))"

record revision_record =
  rv_definition :: pyval
  rv_revision :: int
  rv_published_at :: string
  rv_active :: bool

definition list_routing_profile_revisions :: "string \<Rightarrow> store \<Rightarrow> revision_record list res" where
  "list_routing_profile_revisions pid s =
     map_res (\<lambda>(r, e). rbind (decode_json (re_document e)) (\<lambda>v.
       Inr \<lparr>rv_definition = v, rv_revision = r, rv_published_at = re_published_at e,
            rv_active = (map_option ae_revision (map_of (st_active s) pid) = Some r)\<rparr>))
       (rev (sort_key fst (revisions_of pid s)))"

definition get_routing_profile_revision :: "string \<Rightarrow> int \<Rightarrow> store \<Rightarrow> revision_record option res" where
  "get_routing_profile_revision pid r s =
     rbind (list_routing_profile_revisions pid s) (\<lambda>rs. Inr (List.find (\<lambda>v. rv_revision v = r) rs))"

section \<open>Activation\<close>

definition public_names :: "(pyval \<Rightarrow> string) \<Rightarrow> pyval \<Rightarrow> string list res" where
  "public_names rp snapshot =
     rbind (value_get snapshot ''capabilities'' (VList [])) (\<lambda>cs.
     rbind (iterable cs) (map_res (\<lambda>c.
       rbind (value_get c ''public_name'' (VStr [])) (\<lambda>n. Inr (py_str rp n)))))"

definition requested_names :: "(pyval \<Rightarrow> string) \<Rightarrow> pyval \<Rightarrow> string list res" where
  "requested_names rp snapshot = rbind (public_names rp snapshot) (\<lambda>ns. Inr (map casefold (filter (\<lambda>n. n \<noteq> []) ns)))"

definition row_conflicts :: "(pyval \<Rightarrow> string) \<Rightarrow> string list \<Rightarrow> active_entry \<Rightarrow> string list res" where
  "row_conflicts rp requested a = rbind (decode_json (ae_routing a)) (\<lambda>v. rbind (public_names rp v) (\<lambda>ns.
     Inr (filter (\<lambda>n. n \<in> set (map casefold ns)) requested)))"

definition ensure_no_active_capability_collisions ::
  "(pyval \<Rightarrow> string) \<Rightarrow> (string \<times> active_entry) list \<Rightarrow> string \<Rightarrow> pyval \<Rightarrow> unit res" where
  "ensure_no_active_capability_collisions rp active pid snapshot =
     rbind (requested_names rp snapshot) (\<lambda>requested.
     if requested = [] then Inr ()
     else rbind (map_res (\<lambda>(_, a). row_conflicts rp requested a) (filter (\<lambda>(p, _). p \<noteq> pid) active)) (\<lambda>cs.
       if concat cs = [] then Inr ()
       else Inl (ValueError (''Active Routing Profiles must use unique API Model IDs; conflicts: ''
              @ join '', '' (sort (remdups (concat cs)))))))"

definition set_active_routing_profile ::
  "(pyval \<Rightarrow> string) \<Rightarrow> string \<Rightarrow> string \<Rightarrow> int \<Rightarrow> pydict \<Rightarrow> store \<Rightarrow> store res" where
  "set_active_routing_profile rp now pid revision routing s =
     (let snapshot = AList.update ''revision'' (VInt revision) routing;
          a = \<lparr>ae_revision = revision, ae_routing = encoded snapshot, ae_published_at = now\<rparr> in
      rbind (ensure_no_active_capability_collisions rp (st_active s) pid (VDict snapshot)) (\<lambda>_.
      if \<not> dhas (st_profiles s) pid then Inl constraint_error
      else Inr (s\<lparr>st_active := AList.update pid a (st_active s), st_last_activation := Some (pid, a)\<rparr>)))"

definition put_publication ::
  "(pyval \<Rightarrow> string) \<Rightarrow> string \<Rightarrow> pydict \<Rightarrow> pydict \<Rightarrow> store \<Rightarrow> ((string \<times> int) \<times> store) res" where
  "put_publication rp now document routing s = rbind (py_index (VDict document) ''id'') (\<lambda>i.
     let pid = py_str rp i; revision = (case latest_revision pid s of None \<Rightarrow> 0 | Some r \<Rightarrow> r) + 1 in
     if \<not> dhas (st_profiles s) pid then Inl constraint_error
     else rbind (set_active_routing_profile rp now pid revision routing
            (s\<lparr>st_revisions := AList.update (pid, revision) \<lparr>re_document = encoded document, re_published_at = now\<rparr>
               (st_revisions s)\<rparr>)) (\<lambda>s1. Inr ((pid, revision), s1)))"

definition publish_routing_profile ::
  "(pyval \<Rightarrow> string) \<Rightarrow> string \<Rightarrow> pydict \<Rightarrow> pydict \<Rightarrow> store \<Rightarrow> revision_record option res \<times> store" where
  "publish_routing_profile rp now document routing s =
     after_commit (attempt (put_publication rp now document routing) s)
       (\<lambda>(pid, r). reading (get_routing_profile_revision pid r))"

definition activate_routing_profile_revision ::
  "(pyval \<Rightarrow> string) \<Rightarrow> string \<Rightarrow> string \<Rightarrow> int \<Rightarrow> pydict \<Rightarrow> store \<Rightarrow> revision_record res \<times> store" where
  "activate_routing_profile_revision rp now pid revision routing s =
     (case get_routing_profile_revision pid revision s of
        Inl e \<Rightarrow> (Inl e, s)
      | Inr None \<Rightarrow> (Inl (KeyError ''Unknown Routing Profile revision''), s)
      | Inr (Some record) \<Rightarrow> attempt (\<lambda>s.
          rbind (set_active_routing_profile rp now pid revision routing s) (\<lambda>s1. Inr (record, s1))) s)"

definition deactivate_routing_profile :: "string \<Rightarrow> store \<Rightarrow> bool \<times> store" where
  "deactivate_routing_profile pid s = (dhas (st_active s) pid, s\<lparr>st_active := AList.delete pid (st_active s)\<rparr>)"

definition is_text :: "pyval \<Rightarrow> bool" where
  "is_text v = (case v of VStr _ \<Rightarrow> True | _ \<Rightarrow> False)"

definition valid_snapshot_capability :: "pyval \<Rightarrow> bool" where
  "valid_snapshot_capability c = (case c of
     VDict d \<Rightarrow> list_all (\<lambda>k. is_text (dget d k)) [''public_name'', ''capability_id'', ''display_name'', ''protocol_contract'']
       \<and> (case dget d ''worker_ids'' of VList xs \<Rightarrow> list_all is_text xs | _ \<Rightarrow> False)
   | _ \<Rightarrow> False)"

definition valid_snapshot :: "pyval \<Rightarrow> bool" where
  "valid_snapshot v = (case v of
     VDict d \<Rightarrow> (case dget d ''capabilities'' of VList cs \<Rightarrow> list_all valid_snapshot_capability cs | _ \<Rightarrow> False)
   | _ \<Rightarrow> False)"

definition active_routing_snapshots :: "store \<Rightarrow> pydict list res" where
  "active_routing_snapshots s =
     rbind (map_res (\<lambda>(_, a). decode_json (ae_routing a))
       (sort_key (\<lambda>(pid, a). (ae_published_at a, pid)) (st_active s))) (\<lambda>vs.
     if list_all valid_snapshot vs then Inr (concat (map (\<lambda>v. case v of VDict d \<Rightarrow> [d] | _ \<Rightarrow> []) vs))
     else Inl (persistence_error ''invalid_routing_snapshot''))"

definition active_routing_snapshot :: "store \<Rightarrow> pydict option res" where
  "active_routing_snapshot s = rbind (active_routing_snapshots s) (\<lambda>vs. Inr (case vs of [v] \<Rightarrow> Some v | _ \<Rightarrow> None))"

section \<open>Drafts that change\<close>

definition discard_routing_profile_draft ::
  "(pyval \<Rightarrow> string) \<Rightarrow> string \<Rightarrow> string \<Rightarrow> store \<Rightarrow> profile_record option res \<times> store" where
  "discard_routing_profile_draft rp now pid s = (case list_routing_profile_revisions pid s of
     Inl e \<Rightarrow> (Inl e, s)
   | Inr [] \<Rightarrow> (Inl (RuntimeError ''An unpublished Routing Profile has no published revision to restore''), s)
   | Inr (r # _) \<Rightarrow> (case rv_definition r of
       VDict d \<Rightarrow> save_routing_profile_draft rp now d s | _ \<Rightarrow> (Inl (AttributeError ''get''), s)))"

definition rebind_ids :: "string \<Rightarrow> string \<Rightarrow> pyval list \<Rightarrow> pyval list" where
  "rebind_ids old_id new_id ids = map (\<lambda>v. if v = VStr old_id then VStr new_id else v) ids"

text \<open>A capability: whether it names the old worker, and what becomes of it.\<close>

definition rebind_capability :: "string \<Rightarrow> string \<Rightarrow> pyval \<Rightarrow> (bool \<times> pyval) res" where
  "rebind_capability old_id new_id c =
     rbind (value_get c ''worker_ids'' (VList [])) (\<lambda>ids. rbind (iterable ids) (\<lambda>ids.
       if VStr old_id \<in> set ids
       then (case c of VDict d \<Rightarrow> Inr (True, VDict (AList.update ''worker_ids'' (VList (rebind_ids old_id new_id ids)) d))
             | _ \<Rightarrow> Inl (AttributeError ''get''))
       else Inr (False, c)))"

definition rebind_document :: "string \<Rightarrow> string \<Rightarrow> pyval \<Rightarrow> pydict option res" where
  "rebind_document old_id new_id v = (case v of
     VDict d \<Rightarrow> rbind (iterable (dget_or d ''capabilities'' (VList []))) (\<lambda>cs.
       rbind (map_res (rebind_capability old_id new_id) cs) (\<lambda>rs.
       Inr (if list_ex fst rs then Some (AList.update ''capabilities'' (VList (map snd rs)) d) else None)))
   | _ \<Rightarrow> Inl (AttributeError ''get''))"

definition rebind_row ::
  "string \<Rightarrow> string \<Rightarrow> string \<Rightarrow> string \<times> draft_entry \<Rightarrow> (bool \<times> (string \<times> draft_entry)) res" where
  "rebind_row now old_id new_id e = (case e of (pid, d) \<Rightarrow> rbind (decode_json (de_document d)) (\<lambda>v.
     rbind (rebind_document old_id new_id v) (\<lambda>r. Inr (case r of
       None \<Rightarrow> (False, (pid, d))
     | Some v' \<Rightarrow> (True, (pid, d\<lparr>de_document := encoded v', de_updated_at := now\<rparr>))))))"

definition rebind_routing_profile_drafts :: "string \<Rightarrow> string \<Rightarrow> string \<Rightarrow> store \<Rightarrow> string list res \<times> store" where
  "rebind_routing_profile_drafts now old_id new_id = attempt (\<lambda>s.
     rbind (map_res (rebind_row now old_id new_id) (st_profiles s)) (\<lambda>rs.
       Inr (map (fst \<circ> snd) (filter fst rs), s\<lparr>st_profiles := map snd rs\<rparr>)))"

section \<open>Rehearsals and job assignments\<close>

definition default_tool_calling :: pydict where
  "default_tool_calling = [(''supported'', VBool False), (''rehearsed'', VBool False), (''last_rehearsal'', VNone),
     (''failure_code'', VNone)]"

definition rehearsal_state :: "rehearsal_entry \<Rightarrow> pydict" where
  "rehearsal_state r = [(''supported'', VBool (rh_supported r)), (''rehearsed'', VBool (rh_rehearsed r)),
     (''last_rehearsal'', opt_str (rh_last_rehearsal r)), (''failure_code'', opt_str (rh_failure_code r))]"

definition route_tool_calling_state :: "string option \<Rightarrow> int option \<Rightarrow> string option \<Rightarrow> store \<Rightarrow> pydict" where
  "route_tool_calling_state pid revision cid s = (case (pid, revision, cid) of
     (Some p, Some r, Some c) \<Rightarrow> if p = [] \<or> c = [] then default_tool_calling
       else (case map_of (st_rehearsals s) (p, r, c) of Some e \<Rightarrow> rehearsal_state e | None \<Rightarrow> default_tool_calling)
   | _ \<Rightarrow> default_tool_calling)"

definition save_route_tool_calling_rehearsal ::
  "string \<Rightarrow> string \<Rightarrow> int \<Rightarrow> string \<Rightarrow> bool \<Rightarrow> string option \<Rightarrow> pydict \<Rightarrow> store \<Rightarrow> pydict \<times> store" where
  "save_route_tool_calling_rehearsal now pid revision cid supported failure evidence s =
     (let s1 = s\<lparr>st_rehearsals := AList.update (pid, revision, cid)
        \<lparr>rh_supported = supported, rh_rehearsed = True, rh_last_rehearsal = Some now, rh_failure_code = failure,
         rh_evidence = encoded evidence, rh_updated_at = now\<rparr> (st_rehearsals s)\<rparr>
      in (route_tool_calling_state (Some pid) (Some revision) (Some cid) s1, s1))"

definition save_gateway_job_assignment :: "string \<Rightarrow> string \<Rightarrow> string \<Rightarrow> string \<Rightarrow> job_assignments \<Rightarrow> job_assignments" where
  "save_gateway_job_assignment job worker name contract jobs = AList.update job (worker, name, contract) jobs"

definition get_gateway_job_assignment :: "string \<Rightarrow> job_assignments \<Rightarrow> (string \<times> string \<times> string) option" where
  "get_gateway_job_assignment job jobs = map_of jobs job"

definition delete_gateway_job_assignment :: "string \<Rightarrow> job_assignments \<Rightarrow> job_assignments" where
  "delete_gateway_job_assignment job jobs = AList.delete job jobs"

section \<open>Compatibility tests\<close>

definition FINGERPRINT_VERSION :: int where
  "FINGERPRINT_VERSION = 2"

definition FINGERPRINT_FIELDS :: "string list" where
  "FINGERPRINT_FIELDS =
    [''fingerprint_version'', ''requested_model_id'', ''requested_model_revision'', ''reported_model_id'',
     ''reported_model_revision'', ''hardware_profile'', ''fedora_version'', ''kernel'', ''gpu'',
     ''gpu_architecture'', ''rocm_version'', ''torch_version'', ''transformers_version'', ''triton_version'',
     ''kernels_version'', ''kernel_commit'', ''kernel_manifest_sha256'', ''tuning_profile_sha256'',
     ''execution_mode'', ''thinking_mode'', ''vllm_version'', ''model_id'', ''model_revision'',
     ''artifact_model_id'', ''artifact_revision'', ''artifact_id'', ''artifact_format'', ''artifact_sha256'',
     ''quantisation'', ''dtype'', ''runtime'', ''resolved_backend'', ''resolved_device'', ''capability_id'',
     ''protocol_contract_id'', ''runtime_template_id'', ''runtime_template_version'',
     ''worker_configuration_fingerprint'', ''runtime_registration_digest'', ''context_length'',
     ''maximum_new_tokens'', ''maximum_denoising_steps'', ''visual_token_budget'', ''prefix_cache_enabled'',
     ''workload_id'', ''measurement_path'', ''thermal_policy'', ''environment_overrides'']"

text \<open>The document that is hashed; the digest of a document is a parameter.\<close>

definition canonical_evidence :: "pydict \<Rightarrow> pydict" where
  "canonical_evidence evidence = map (\<lambda>f. (f, dget_or evidence f
     (if f = ''fingerprint_version'' then VInt FINGERPRINT_VERSION else VNone))) FINGERPRINT_FIELDS"

definition evidence_fingerprint :: "(pydict \<Rightarrow> string) \<Rightarrow> pydict \<Rightarrow> string" where
  "evidence_fingerprint digest evidence = digest (canonical_evidence evidence)"

text \<open>No test is ever deleted, so the next identifier is the number of tests and one.\<close>

definition record_test ::
  "(pydict \<Rightarrow> string) \<Rightarrow> string \<Rightarrow> pydict \<Rightarrow> string \<Rightarrow> string option \<Rightarrow> store \<Rightarrow> (nat \<times> string \<times> pydict) \<times> store" where
  "record_test digest now evidence result failure s =
     (let versioned = merged [(''fingerprint_version'', VInt FINGERPRINT_VERSION)] evidence;
          fingerprint = evidence_fingerprint digest versioned;
          document = merged versioned [(''result'', VStr result), (''failure_class'', opt_str failure), (''tested_at'', VStr now)];
          i = Suc (length (st_tests s))
      in ((i, fingerprint, document), s\<lparr>st_tests := st_tests s @
           [\<lparr>te_id = i, te_fingerprint = fingerprint, te_result = result, te_failure_class = failure,
             te_evidence = encoded document, te_tested_at = now\<rparr>]\<rparr>))"

definition record_test_observation ::
  "string \<Rightarrow> nat \<Rightarrow> pydict \<Rightarrow> string \<Rightarrow> store \<Rightarrow> nat res \<times> store" where
  "record_test_observation now test observation kind = attempt (\<lambda>s.
     if \<not> list_ex (\<lambda>t. te_id t = test) (st_tests s)
     then Inl (KeyError (''Unknown compatibility test: '' @ show_int (int test)))
     else (let i = Suc (length (st_observations s)) in
       Inr (i, s\<lparr>st_observations := st_observations s @ [\<lparr>ob_id = i, ob_test_id = test, ob_kind = kind,
         ob_observation = encoded observation, ob_observed_at = now\<rparr>]\<rparr>)))"

definition list_test_observations :: "nat \<Rightarrow> store \<Rightarrow> (observation_entry \<times> pyval) list res" where
  "list_test_observations test s =
     map_res (\<lambda>b. rbind (decode_json (ob_observation b)) (\<lambda>v. Inr (b, v)))
       (filter (\<lambda>b. ob_test_id b = test) (st_observations s))"

record test_record =
  tr_entry :: test_entry
  tr_evidence :: pyval
  tr_fingerprint_version :: int
  tr_evidence_status :: string
  tr_observations :: "(observation_entry \<times> pyval) list"

definition test_record_of :: "store \<Rightarrow> test_entry \<Rightarrow> test_record res" where
  "test_record_of s t = rbind (decode_json (te_evidence t)) (\<lambda>v.
     rbind (value_get v ''fingerprint_version'' (VInt 1)) (\<lambda>x. rbind (py_int_of x) (\<lambda>version.
     rbind (list_test_observations (te_id t) s) (\<lambda>obs.
       Inr \<lparr>tr_entry = t, tr_evidence = v, tr_fingerprint_version = version,
            tr_evidence_status = (if version = FINGERPRINT_VERSION then ''current'' else ''legacy''),
            tr_observations = obs\<rparr>))))"

definition list_tests :: "store \<Rightarrow> test_record list res" where
  "list_tests s = map_res (test_record_of s) (rev (st_tests s))"

section \<open>Capability setups\<close>

definition setup_with_request :: "string \<Rightarrow> store \<Rightarrow> setup_entry option" where
  "setup_with_request rid s = List.find (\<lambda>e. se_request_id e = rid) (map snd (st_setups s))"

definition create_capability_setup ::
  "(pyval \<Rightarrow> string) \<Rightarrow> string \<Rightarrow> pydict \<Rightarrow> store \<Rightarrow> pyval res \<times> store" where
  "create_capability_setup rp now document = attempt (\<lambda>s.
     rbind (py_index (VDict document) ''request_id'') (\<lambda>request.
     case setup_with_request (py_str rp request) s of
       Some e \<Rightarrow> rbind (py_index (VDict document) ''request_fingerprint'') (\<lambda>f.
         if se_request_fingerprint e \<noteq> py_str rp f
         then Inl (ValueError ''That setup request identifier was already used for different inputs'')
         else rbind (decode_json (se_document e)) (\<lambda>v. Inr (v, s)))
     | None \<Rightarrow> rbind (py_index (VDict document) ''id'') (\<lambda>i.
         rbind (py_index (VDict document) ''request_fingerprint'') (\<lambda>f.
         if dhas (st_setups s) (py_str rp i) then Inl constraint_error
         else Inr (VDict document, s\<lparr>st_setups := st_setups s @ [(py_str rp i,
           \<lparr>se_request_id = py_str rp request, se_request_fingerprint = py_str rp f, se_document = encoded document,
             se_created_at = now, se_updated_at = now\<rparr>)]\<rparr>)))))"

text \<open>An update that meets no row commits nothing and raises after the block.\<close>

definition save_capability_setup ::
  "(pyval \<Rightarrow> string) \<Rightarrow> string \<Rightarrow> pydict \<Rightarrow> store \<Rightarrow> pydict res \<times> store" where
  "save_capability_setup rp now document s = (case py_index (VDict document) ''id'' of
     Inl e \<Rightarrow> (Inl e, s)
   | Inr i \<Rightarrow> (case map_of (st_setups s) (py_str rp i) of
       None \<Rightarrow> (Inl (KeyError (''Unknown capability setup: '' @ py_str rp i)), s)
     | Some e \<Rightarrow> (Inr document, s\<lparr>st_setups := AList.update (py_str rp i)
         (e\<lparr>se_document := encoded document, se_updated_at := now\<rparr>) (st_setups s)\<rparr>)))"

definition get_capability_setup :: "string \<Rightarrow> store \<Rightarrow> pyval option res" where
  "get_capability_setup i s = (case map_of (st_setups s) i of
     None \<Rightarrow> Inr None | Some e \<Rightarrow> rbind (decode_json (se_document e)) (\<lambda>v. Inr (Some v)))"

definition list_capability_setups :: "store \<Rightarrow> pyval list res" where
  "list_capability_setups s = map_res (\<lambda>(_, e). decode_json (se_document e))
     (rev (sort_key (\<lambda>(_, e). se_created_at e) (rev (st_setups s))))"

definition record_capability_setup_event ::
  "string \<Rightarrow> string \<Rightarrow> string \<Rightarrow> pydict \<Rightarrow> store \<Rightarrow> nat res \<times> store" where
  "record_capability_setup_event now setup state event = attempt (\<lambda>s.
     if \<not> dhas (st_setups s) setup then Inl constraint_error
     else (let i = Suc (length (st_setup_events s)) in
       Inr (i, s\<lparr>st_setup_events := st_setup_events s @ [\<lparr>sv_id = i, sv_setup_id = setup, sv_state = state,
         sv_event = encoded event, sv_created_at = now\<rparr>]\<rparr>)))"

definition list_capability_setup_events :: "string \<Rightarrow> nat \<Rightarrow> store \<Rightarrow> (setup_event \<times> pyval) list res" where
  "list_capability_setup_events setup after s =
     map_res (\<lambda>e. rbind (decode_json (sv_event e)) (\<lambda>v. Inr (e, v)))
       (filter (\<lambda>e. sv_setup_id e = setup \<and> after < sv_id e) (st_setup_events s))"

end
