(* ===== verification/Gateway_Endpoints.thy ===== *)
theory Gateway_Endpoints
  imports Gateway_Flow Store
begin

text \<open>
  The endpoints of \<open>create_gateway_app\<close> (\<open>gateway/app.py\<close>) that start inference: which published
  contracts each of them serves, the path it calls on the worker, its deadline and its deprecated
  alias; the checks that precede the proxied call; and the book-keeping of diffusion jobs (who runs
  a job, and what is stored about it).
\<close>

section \<open>The table of endpoints\<close>

datatype gateway_endpoint =
  Chat | Completions | Embeddings | Translations | Speech_Synthesis | Speech_Recognition | Trace | Refine | Diffuse | Vision

record gateway_settings =
  gc_scenechat_timeout :: rat
  gc_translation_timeout :: rat
  gc_synthesis_timeout :: rat
  gc_recognition_timeout :: rat
  gc_diffusion_timeout :: rat

fun surface :: "gateway_endpoint \<Rightarrow> string" where
  "surface Chat = ''/v1/chat/completions''"
| "surface Completions = ''/v1/completions''"
| "surface Embeddings = ''/v1/embeddings''"
| "surface Translations = ''/v1/translations''"
| "surface Speech_Synthesis = ''/v1/audio/speech''"
| "surface Speech_Recognition = ''/v1/audio/transcriptions''"
| "surface Trace = ''/native/v1/autoregressive/traces''"
| "surface Refine = ''/native/v1/text-diffusion/refine''"
| "surface Diffuse = ''/native/v1/text-diffusion/jobs''"
| "surface Vision = ''/v1/vision/analyse''"

text \<open>The old paths, whose answers carry the successor in their headers.\<close>

fun deprecated_surface :: "gateway_endpoint \<Rightarrow> string option" where
  "deprecated_surface Trace = Some ''/native/autoregressive/trace''"
| "deprecated_surface Refine = Some ''/v1/refine''"
| "deprecated_surface Diffuse = Some ''/v1/diffuse''"
| "deprecated_surface _ = None"

fun endpoint_contracts :: "gateway_endpoint \<Rightarrow> string list" where
  "endpoint_contracts Chat = [''openai-chat-v1'', ''openai-image-chat-v1'', ''scene-analysis-v1'']"
| "endpoint_contracts Completions = [''openai-completions-v1'']"
| "endpoint_contracts Embeddings = [''openai-embeddings-v1'']"
| "endpoint_contracts Translations = [''translation-en-fr-v1'', ''translation-en-de-v1'']"
| "endpoint_contracts Speech_Synthesis = [''speech-synthesis-v1'']"
| "endpoint_contracts Speech_Recognition = [''speech-recognition-v1'']"
| "endpoint_contracts Trace = [''native-ar-trace-v1'']"
| "endpoint_contracts Refine = [''text-diffusion-v1'']"
| "endpoint_contracts Diffuse = [''text-diffusion-v1'']"
| "endpoint_contracts Vision = [''scene-analysis-v1'']"

fun endpoint_path :: "gateway_endpoint \<Rightarrow> string" where
  "endpoint_path Trace = ''/native/autoregressive/trace''"
| "endpoint_path Refine = ''/v1/refine''"
| "endpoint_path Diffuse = ''/v1/diffuse''"
| "endpoint_path Vision = ''/v1/chat/completions''"
| "endpoint_path e = surface e"

text \<open>\<open>proxy_request\<close> waits 60 seconds unless it is told otherwise.\<close>

fun endpoint_timeout :: "gateway_settings \<Rightarrow> gateway_endpoint \<Rightarrow> rat" where
  "endpoint_timeout c Chat = gc_scenechat_timeout c"
| "endpoint_timeout c Vision = gc_scenechat_timeout c"
| "endpoint_timeout c Translations = gc_translation_timeout c"
| "endpoint_timeout c Speech_Synthesis = gc_synthesis_timeout c"
| "endpoint_timeout c Speech_Recognition = gc_recognition_timeout c"
| "endpoint_timeout c Refine = gc_diffusion_timeout c"
| "endpoint_timeout c _ = 60"

section \<open>Calling an endpoint\<close>

text \<open>The body of a call: parsed JSON (\<open>None\<close> when it is not JSON), or the stream of a transcription.\<close>

record endpoint_request =
  er_json :: "pyval option"
  er_content_length :: "string option"
  er_chunks :: "string list"
  er_parse :: "string \<Rightarrow> pyval option"

text \<open>What the handler does before its first suspension: raise, answer, or start the request.\<close>

definition proxied ::
  "gateway_settings \<Rightarrow> gateway_world \<Rightarrow> gateway_endpoint \<Rightarrow> routes \<Rightarrow> pyval \<Rightarrow> (gateway_response + gateway_event) res" where
  "proxied c w e rs body = Inr (Inr (CallsProxy w (endpoint_path e) (endpoint_timeout c e) rs body))"

definition call_endpoint ::
  "gateway_settings \<Rightarrow> (string list \<Rightarrow> routes res) \<Rightarrow> gateway_world \<Rightarrow> gateway_endpoint \<Rightarrow> endpoint_request
     \<Rightarrow> (gateway_response + gateway_event) res" where
  "call_endpoint c active w e r = (case e of
     Embeddings \<Rightarrow> (case (case er_json r of None \<Rightarrow> Inl (ValueError ''JSONDecodeError'') | Some v \<Rightarrow> embedding_request v) of
         Inl err \<Rightarrow> Inr (Inl (gateway_error 422 ''invalid_embedding_request'' (error_text err) []))
       | Inr _ \<Rightarrow> rbind (active (endpoint_contracts e)) (\<lambda>rs. case embeddings_checks rs (er_json r) of
           Inl answer \<Rightarrow> Inr (Inl answer)
         | Inr body \<Rightarrow> proxied c w e rs (VDict body)))
   | Speech_Recognition \<Rightarrow>
       (case read_transcription_envelope (er_parse r) (gw_repr w) (er_content_length r) (er_chunks r) of
         Inl answer \<Rightarrow> Inr (Inl answer)
       | Inr body \<Rightarrow> rbind (active (endpoint_contracts e)) (\<lambda>rs. proxied c w e rs (VDict body)))
   | Speech_Synthesis \<Rightarrow> rbind (active (endpoint_contracts e)) (\<lambda>rs.
       Inr (Inr (CallsBinary w (endpoint_path e) (endpoint_timeout c e) rs (er_json r))))
   | _ \<Rightarrow> rbind (active (endpoint_contracts e)) (\<lambda>rs. case er_json r of
         None \<Rightarrow> Inl (ValueError ''JSONDecodeError'')
       | Some body \<Rightarrow> proxied c w e rs body))"

text \<open>An answer given through the deprecated path names its successor.\<close>

definition answer_at :: "gateway_endpoint \<Rightarrow> string \<Rightarrow> gateway_response \<Rightarrow> gateway_response" where
  "answer_at e path r = (if deprecated_surface e = Some path then deprecated_response (surface e) r else r)"

section \<open>Diffusion jobs\<close>

text \<open>The gateway's own table of job workers, and the store's \<open>gateway_job_assignments\<close>.\<close>

record job_book =
  jb_routes :: "(string \<times> model_profile) list"
  jb_stored :: job_assignments

definition save_assignments :: "(string \<times> string) list \<Rightarrow> string \<Rightarrow> job_assignments \<Rightarrow> job_assignments" where
  "save_assignments saves name stored =
     fold (\<lambda>(job, worker). save_gateway_job_assignment job worker name ''text-diffusion-v1'') saves stored"

text \<open>The worker of a stored assignment, when its definition still exists.\<close>

definition assigned_worker ::
  "(string \<Rightarrow> model_profile option res) \<Rightarrow> job_assignments \<Rightarrow> string \<Rightarrow> model_profile option res" where
  "assigned_worker profile_of stored job = (case get_gateway_job_assignment job stored of
     None \<Rightarrow> Inr None | Some (worker, _) \<Rightarrow> profile_of worker)"

definition find_job ::
  "(string \<Rightarrow> model_profile option res) option \<Rightarrow> (model_profile \<Rightarrow> int option) \<Rightarrow> routes \<Rightarrow> string \<Rightarrow> job_book
     \<Rightarrow> (model_profile option \<times> job_book) res" where
  "find_job store status rs job b =
     rbind (resolve_job_worker (jb_routes b)
       (case store of None \<Rightarrow> Inr None | Some f \<Rightarrow> assigned_worker f (jb_stored b) job) (store \<noteq> None) status rs job) (\<lambda>l.
     Inr (jl_worker l, \<lparr>jb_routes = jl_routes l, jb_stored = save_assignments (jl_saved l) [] (jb_stored b)\<rparr>))"

text \<open>\<open>diffuse_request\<close>, after the proxied answer: the job is looked up among the workers, and stored
  under the first public name that has this worker among its candidates.\<close>

definition public_name_of :: "routes \<Rightarrow> model_profile \<Rightarrow> string" where
  "public_name_of rs p = (case List.find (\<lambda>(_, g). list_ex (\<lambda>q. mp_id q = mp_id p) (gr_candidates g)) rs of
     None \<Rightarrow> [] | Some (name, _) \<Rightarrow> name)"

definition diffuse_answered ::
  "(string \<Rightarrow> model_profile option res) option \<Rightarrow> (model_profile \<Rightarrow> int option) \<Rightarrow> (pyval \<Rightarrow> string) \<Rightarrow> routes
     \<Rightarrow> gateway_response \<Rightarrow> job_book \<Rightarrow> job_book res" where
  "diffuse_answered store status rp rs r b =
     (if \<not> gw_status r < 300 then Inr b
      else (case gw_body r of
        VDict d \<Rightarrow>
          if py_truthy (dget d ''job_id'')
          then (let job = py_str rp (dget d ''job_id'') in
            rbind (find_job store status rs job b) (\<lambda>(found, b1). Inr (case found of
              None \<Rightarrow> b1
            | Some p \<Rightarrow> if store = None then b1
                else b1\<lparr>jb_stored := save_assignments [(job, mp_id p)] (public_name_of rs p) (jb_stored b1)\<rparr>)))
          else Inr b
      | _ \<Rightarrow> Inl (AttributeError ''get'')))"

definition unknown_job :: gateway_response where
  "unknown_job = json_response 404 [(''detail'', VStr ''Unknown diffusion job'')] []"

definition forget_job :: "bool \<Rightarrow> string \<Rightarrow> job_book \<Rightarrow> job_book" where
  "forget_job stored job b = (if stored then b\<lparr>jb_stored := delete_gateway_job_assignment job (jb_stored b)\<rparr> else b)"

text \<open>Asking for a job, or cancelling it, through the worker that \<open>find_job\<close> gives: the answer
  (\<open>None\<close> when the handler raises), the event that the gateway sees, and the book afterwards.\<close>

definition diffusion_job_request ::
  "(string \<Rightarrow> model_profile option res) option \<Rightarrow> (model_profile \<Rightarrow> int option) \<Rightarrow> routes \<Rightarrow> string
     \<Rightarrow> (model_profile \<Rightarrow> (int \<times> pyval) option) \<Rightarrow> job_book \<Rightarrow> (gateway_response option \<times> gateway_event option \<times> job_book) res" where
  "diffusion_job_request store status rs job answer b =
     rbind (find_job store status rs job b) (\<lambda>(found, b1). Inr (case found of
       None \<Rightarrow> (Some unknown_job, None, b1)
     | Some p \<Rightarrow> (let r = proxy_job_request (answer p) in
         (if unhashable_state (gw_body r) then None else Some r, Some (AsksJob job (answer p)),
          if job_response_is_terminal r then forget_job (store \<noteq> None) job b1 else b1))))"

definition cancel_diffusion_job_request ::
  "(string \<Rightarrow> model_profile option res) option \<Rightarrow> (model_profile \<Rightarrow> int option) \<Rightarrow> routes \<Rightarrow> string
     \<Rightarrow> (model_profile \<Rightarrow> (int \<times> pyval) option) \<Rightarrow> job_book \<Rightarrow> (gateway_response \<times> gateway_event option \<times> job_book) res" where
  "cancel_diffusion_job_request store status rs job answer b =
     rbind (find_job store status rs job b) (\<lambda>(found, b1). Inr (case found of
       None \<Rightarrow> (unknown_job, None, b1)
     | Some p \<Rightarrow> (let r = proxy_job_request (answer p) in
         (r, Some (CancelsJob job (answer p)),
          if gw_status r < 300 then forget_job (store \<noteq> None) job b1 else b1))))"

section \<open>Properties\<close>

text \<open>Job lookups.\<close>

lemma resolve_by_asking_known:
  "jl_worker (resolve_by_asking known stored status rs job) = Some p \<Longrightarrow>
     map_of (jl_routes (resolve_by_asking known stored status rs job)) job = Some p"
  by (cases "List.find (\<lambda>p. case status p of None \<Rightarrow> False | Some c \<Rightarrow> c \<noteq> 404) (diffusion_candidates rs)")
    (simp_all add: resolve_by_asking_def update_conv')

lemma resolve_known:
  assumes "resolve_job_worker known a stored status rs job = Inr l" and "jl_worker l = Some p"
  shows "map_of (jl_routes l) job = Some p"
proof (cases "map_of known job")
  case None
  then obtain x where x: "a = Inr x" using assms(1) by (auto simp: resolve_job_worker_def rbind_eq_Inr)
  have ask: "l = resolve_by_asking known stored status rs job \<Longrightarrow> ?thesis" using resolve_by_asking_known assms(2) by metis
  show ?thesis
  proof (cases x)
    case None
    then have "l = resolve_by_asking known stored status rs job" using assms(1) x \<open>map_of known job = None\<close>
      by (simp add: resolve_job_worker_def)
    then show ?thesis by (rule ask)
  next
    case (Some q)
    show ?thesis
    proof (cases "is_family TEXT_DIFFUSION q")
      case True
      then show ?thesis using assms x Some \<open>map_of known job = None\<close> by (auto simp: resolve_job_worker_def update_conv')
    next
      case False
      then have "l = resolve_by_asking known stored status rs job" using assms(1) x Some \<open>map_of known job = None\<close>
        by (simp add: resolve_job_worker_def)
      then show ?thesis by (rule ask)
    qed
  qed
next
  case (Some q)
  then show ?thesis using assms by (auto simp: resolve_job_worker_def)
qed

text \<open>Once a job's worker is found it stays found: a later lookup of the job answers the same worker
  at once, whatever the store and the workers say by then, and stores nothing more.\<close>

theorem job_worker_is_remembered:
  assumes "find_job store status rs job b = Inr (Some p, b1)"
  shows "find_job store' status' rs' job b1 = Inr (Some p, b1)"
proof -
  obtain l where l: "resolve_job_worker (jb_routes b) (case store of None \<Rightarrow> Inr None | Some f \<Rightarrow> assigned_worker f (jb_stored b) job)
      (store \<noteq> None) status rs job = Inr l" "jl_worker l = Some p" "jl_routes l = jb_routes b1"
    using assms by (auto simp: find_job_def rbind_eq_Inr)
  have "map_of (jb_routes b1) job = Some p" using resolve_known [OF l(1,2)] l(3) by simp
  then show ?thesis by (simp add: find_job_def resolve_job_worker_def save_assignments_def)
qed

definition diffusion_profile :: "string \<Rightarrow> model_profile" where
  "diffusion_profile i = \<lparr>mp_id = i, mp_model_id = ''m'', mp_revision = ''r'', mp_artifact_model_id = None,
     mp_artifact_revision = None, mp_alias = ''diffusion'', mp_generation_family = TEXT_DIFFUSION, mp_preferred_runtime = ''mock'',
     mp_runtime_template_id = None, mp_runtime_template_version = None, mp_lifecycle = EXCLUSIVE, mp_port = 8102,
     mp_local_files_only = True, mp_trust_remote_code = False, mp_dtype = ''auto'',
     mp_capabilities = default_capability_set, mp_settings = []\<rparr>"

definition diffusion_routes :: routes where
  "diffusion_routes = [(''text'', \<lparr>gr_configured = None, gr_candidates = [diffusion_profile ''a'', diffusion_profile ''b'']\<rparr>)]"

theorem job_worker_is_remembered_witness:
  "\<exists>b. find_job None (\<lambda>_. Some 200) diffusion_routes ''job'' \<lparr>jb_routes = [], jb_stored = []\<rparr> = Inr (Some (diffusion_profile ''a''), b)
     \<and> find_job None (\<lambda>_. None) [] ''job'' b = Inr (Some (diffusion_profile ''a''), b)"
proof -
  have found: "find_job None (\<lambda>_. Some 200) diffusion_routes ''job'' \<lparr>jb_routes = [], jb_stored = []\<rparr>
      = Inr (Some (diffusion_profile ''a''), \<lparr>jb_routes = [(''job'', diffusion_profile ''a'')], jb_stored = []\<rparr>)"
    by (simp add: find_job_def resolve_job_worker_def resolve_by_asking_def diffusion_candidates_def diffusion_routes_def
        diffusion_profile_def is_family_def save_assignments_def)
  then show ?thesis using job_worker_is_remembered [OF found, of None "\<lambda>_. None" "[]"] by blast
qed

text \<open>A worker that merely fails is taken for the one that runs the job: here \<open>b\<close> started it.\<close>

lemma failing_worker_is_taken_for_the_job:
  "\<exists>b1. find_job None (\<lambda>p. if mp_id p = ''a'' then Some 500 else Some 200) diffusion_routes ''job''
     \<lparr>jb_routes = [], jb_stored = []\<rparr> = Inr (Some (diffusion_profile ''a''), b1)"
  by (simp add: find_job_def resolve_job_worker_def resolve_by_asking_def diffusion_candidates_def diffusion_routes_def
      diffusion_profile_def is_family_def save_assignments_def)

end
