(* ===== verification/Store_Properties.thy ===== *)
theory Store_Properties
  imports Store
begin

text \<open>
  What the store keeps over every sequence of its operations: keys are unique, revisions are
  numbered without gaps and never change, an active row is a published revision of a stored
  profile, and no two active profiles offer the same public name.
\<close>

section \<open>Operations as steps\<close>

datatype store_op =
    Sets_Value string string
  | Sets_Model_Policy string string bool
  | Sets_Capability_Policy string string string bool
  | Saves_Worker string pydict
  | Archives_Worker string string
  | Deletes_Worker string
  | Saves_Draft string pydict
  | Deletes_Profile string
  | Publishes string pydict pydict
  | Activates string string int pydict
  | Deactivates string
  | Discards_Draft string string
  | Rebinds string string string
  | Saves_Rehearsal string string int string bool "string option" pydict
  | Saves_Job string string string string
  | Deletes_Job string
  | Records_Test string pydict string "string option"
  | Records_Observation string nat pydict string
  | Creates_Setup string pydict
  | Saves_Setup string pydict
  | Records_Setup_Event string string string pydict

fun store_step :: "(pyval \<Rightarrow> string) \<Rightarrow> (pydict \<Rightarrow> string) \<Rightarrow> store_op \<Rightarrow> store \<Rightarrow> store" where
  "store_step rp digest (Sets_Value k v) s = set_configuration_value k v s"
| "store_step rp digest (Sets_Model_Policy m r b) s = set_model_cache_allowed m r b s"
| "store_step rp digest (Sets_Capability_Policy m r c b) s = set_model_capability_allowed m r c b s"
| "store_step rp digest (Saves_Worker now d) s = snd (save_worker_definition rp now d s)"
| "store_step rp digest (Archives_Worker now i) s = snd (archive_worker now i s)"
| "store_step rp digest (Deletes_Worker i) s = snd (delete_worker_definition i s)"
| "store_step rp digest (Saves_Draft now d) s = snd (save_routing_profile_draft rp now d s)"
| "store_step rp digest (Deletes_Profile pid) s = snd (delete_routing_profile pid s)"
| "store_step rp digest (Publishes now d routing) s = snd (publish_routing_profile rp now d routing s)"
| "store_step rp digest (Activates now pid r routing) s = snd (activate_routing_profile_revision rp now pid r routing s)"
| "store_step rp digest (Deactivates pid) s = snd (deactivate_routing_profile pid s)"
| "store_step rp digest (Discards_Draft now pid) s = snd (discard_routing_profile_draft rp now pid s)"
| "store_step rp digest (Rebinds now i j) s = snd (rebind_routing_profile_drafts now i j s)"
| "store_step rp digest (Saves_Rehearsal now p r c b f e) s = snd (save_route_tool_calling_rehearsal now p r c b f e s)"
| "store_step rp digest (Saves_Job j w n c) s = s\<lparr>st_jobs := save_gateway_job_assignment j w n c (st_jobs s)\<rparr>"
| "store_step rp digest (Deletes_Job j) s = s\<lparr>st_jobs := delete_gateway_job_assignment j (st_jobs s)\<rparr>"
| "store_step rp digest (Records_Test now e r f) s = snd (record_test digest now e r f s)"
| "store_step rp digest (Records_Observation now t ob k) s = snd (record_test_observation now t ob k s)"
| "store_step rp digest (Creates_Setup now d) s = snd (create_capability_setup rp now d s)"
| "store_step rp digest (Saves_Setup now d) s = snd (save_capability_setup rp now d s)"
| "store_step rp digest (Records_Setup_Event now i st e) s = snd (record_capability_setup_event now i st e s)"

definition run_store :: "(pyval \<Rightarrow> string) \<Rightarrow> (pydict \<Rightarrow> string) \<Rightarrow> store_op list \<Rightarrow> store" where
  "run_store rp digest ops = fold (store_step rp digest) ops empty_store"

section \<open>The routing part\<close>

text \<open>Most operations leave drafts, revisions and activations alone.\<close>

definition same_routing :: "store \<Rightarrow> store \<Rightarrow> bool" where
  "same_routing s s' = (st_profiles s' = st_profiles s \<and> st_revisions s' = st_revisions s \<and> st_active s' = st_active s)"

definition active_names :: "(pyval \<Rightarrow> string) \<Rightarrow> active_entry \<Rightarrow> string list res" where
  "active_names rp a = rbind (decode_json (ae_routing a)) (requested_names rp)"

definition names_of :: "(pyval \<Rightarrow> string) \<Rightarrow> active_entry \<Rightarrow> string set" where
  "names_of rp a = (case active_names rp a of Inr ns \<Rightarrow> set ns | Inl _ \<Rightarrow> {})"

text \<open>A document is filed under its own identifier.\<close>

definition doc_ok :: "(pyval \<Rightarrow> string) \<Rightarrow> string \<Rightarrow> column \<Rightarrow> bool" where
  "doc_ok rp p c = (\<exists>v i. c = encoded v \<and> map_of v ''id'' = Some i \<and> py_str rp i = p)"

definition documents_ok :: "(pyval \<Rightarrow> string) \<Rightarrow> store \<Rightarrow> bool" where
  "documents_ok rp s = (list_all (\<lambda>(p, d). doc_ok rp p (de_document d)) (st_profiles s)
     \<and> list_all (\<lambda>((p, _), e). doc_ok rp p (re_document e)) (st_revisions s))"

definition numbered :: "store \<Rightarrow> bool" where
  "numbered s = (\<forall>p. map fst (revisions_of p s) = [1..int (length (revisions_of p s))])"

definition active_ok :: "(pyval \<Rightarrow> string) \<Rightarrow> store \<Rightarrow> bool" where
  "active_ok rp s = (\<forall>p a. (p, a) \<in> set (st_active s) \<longrightarrow> dhas (st_profiles s) p
     \<and> ae_revision a \<in> fst ` set (revisions_of p s)
     \<and> (\<exists>d. ae_routing a = encoded d \<and> dget d ''revision'' = VInt (ae_revision a)) \<and> is_ok (active_names rp a))"

definition names_unique :: "(pyval \<Rightarrow> string) \<Rightarrow> store \<Rightarrow> bool" where
  "names_unique rp s = (\<forall>p a q b. (p, a) \<in> set (st_active s) \<longrightarrow> (q, b) \<in> set (st_active s) \<longrightarrow> p \<noteq> q \<longrightarrow>
     names_of rp a \<inter> names_of rp b = {})"

definition store_inv :: "(pyval \<Rightarrow> string) \<Rightarrow> store \<Rightarrow> bool" where
  "store_inv rp s = (distinct (map fst (st_profiles s)) \<and> distinct (map fst (st_active s))
     \<and> (\<forall>p. revisions_of p s \<noteq> [] \<longrightarrow> dhas (st_profiles s) p)
     \<and> documents_ok rp s \<and> numbered s \<and> active_ok rp s \<and> names_unique rp s)"

lemma same_routing_refl [simp]: "same_routing s s"
  by (simp add: same_routing_def)

lemma revisions_of_same: "st_revisions s' = st_revisions s \<Longrightarrow> revisions_of p s' = revisions_of p s"
  by (simp add: revisions_of_def)

lemma inv_same:
  assumes "store_inv rp s" and "same_routing s s'"
  shows "store_inv rp s'"
proof -
  have e: "st_profiles s' = st_profiles s" "st_revisions s' = st_revisions s" "st_active s' = st_active s"
    using assms(2) by (simp_all add: same_routing_def)
  have r: "revisions_of p s' = revisions_of p s" for p by (rule revisions_of_same) (rule e)
  show ?thesis using assms(1) by (simp add: store_inv_def documents_ok_def numbered_def active_ok_def names_unique_def e r)
qed

lemma snd_attempt:
  assumes "\<And>x s'. f s = Inr (x, s') \<Longrightarrow> P s'" and "P s"
  shows "P (snd (attempt f s))"
  using assms by (auto simp: attempt_def split: sum.splits)

lemma attempt_Inr: "attempt f s = (Inr x, s') \<longleftrightarrow> f s = Inr (x, s')"
  by (auto simp: attempt_def split: sum.splits prod.splits)

lemma attempt_Inl: "attempt f s = (Inl e, s') \<longleftrightarrow> f s = Inl e \<and> s' = s"
  by (auto simp: attempt_def split: sum.splits prod.splits)

lemma after_commit_reading [simp]: "snd (after_commit r (\<lambda>x. reading (f x))) = snd r"
  by (cases r) (simp add: after_commit_def reading_def split: sum.splits)

lemma same_plain:
  "same_routing s (set_configuration_value k v s)"
  "same_routing s (set_model_cache_allowed m r b s)"
  "same_routing s (set_model_capability_allowed m r c b s)"
  "same_routing s (snd (delete_worker_definition i s))"
  "same_routing s (snd (save_route_tool_calling_rehearsal now p rv c b fl ev s))"
  "same_routing s (s\<lparr>st_jobs := js\<rparr>)"
  "same_routing s (snd (record_test digest now ev rs fl s))"
  by (simp_all add: same_routing_def set_configuration_value_def set_model_cache_allowed_def set_model_capability_allowed_def
      delete_worker_definition_def save_route_tool_calling_rehearsal_def record_test_def Let_def)

lemma same_archive: "same_routing s (snd (archive_worker now i s))"
  by (simp add: archive_worker_def same_routing_def split: option.split)

lemma same_save_worker: "same_routing s (snd (save_worker_definition rp now d s))"
  unfolding save_worker_definition_def after_commit_reading
  by (rule snd_attempt) (auto simp: put_worker_def rbind_eq_Inr Let_def same_routing_def split: if_splits)

lemma same_observation: "same_routing s (snd (record_test_observation now t ob k s))"
  unfolding record_test_observation_def
  by (rule snd_attempt) (auto simp: Let_def same_routing_def split: if_splits)

lemma same_create_setup: "same_routing s (snd (create_capability_setup rp now d s))"
  unfolding create_capability_setup_def
  by (rule snd_attempt) (auto simp: rbind_eq_Inr same_routing_def split: if_splits option.splits)

lemma same_save_setup: "same_routing s (snd (save_capability_setup rp now d s))"
  by (simp add: save_capability_setup_def same_routing_def split: sum.split option.split)

lemma same_setup_event: "same_routing s (snd (record_capability_setup_event now i st ev s))"
  unfolding record_capability_setup_event_def
  by (rule snd_attempt) (auto simp: Let_def same_routing_def split: if_splits)

lemmas same_ops = same_plain same_archive same_save_worker same_observation same_create_setup same_save_setup same_setup_event

section \<open>Collections\<close>

lemma fold_max_upto: "1 \<le> n \<Longrightarrow> fold max [1..n] 1 = n" for n :: int
  using Max.set_eq_fold [of 1 "[1..n]", symmetric] by (auto intro!: Max_eqI)

section \<open>Revisions\<close>

lemma latest_is_length:
  assumes "numbered s"
  shows "(case latest_revision p s of None \<Rightarrow> 0 | Some r \<Rightarrow> r) = int (length (revisions_of p s))"
proof (cases "revisions_of p s")
  case Nil
  then show ?thesis by (simp add: latest_revision_def)
next
  case (Cons x xs)
  let ?n = "int (length (revisions_of p s))"
  have n: "map fst (revisions_of p s) = [1..?n]" using assms by (simp add: numbered_def)
  have "1 \<le> ?n" using Cons by simp
  then have "fst x = 1" using n Cons by (simp add: upto_rec1)
  then have "latest_revision p s = Some (fold max (map fst (revisions_of p s)) 1)"
    using Cons by (simp add: latest_revision_def fold_map comp_def)
  then show ?thesis using n fold_max_upto [OF \<open>1 \<le> ?n\<close>] by simp
qed

lemma revisions_of_append:
  "st_revisions s' = st_revisions s @ [((p, r), e)] \<Longrightarrow> revisions_of q s' = revisions_of q s @ (if q = p then [(r, e)] else [])"
  by (simp add: revisions_of_def)

lemma revision_in: "(r, e) \<in> set (revisions_of p s) \<longleftrightarrow> ((p, r), e) \<in> set (st_revisions s)"
  by (force simp: revisions_of_def)

lemma next_revision_is_new:
  assumes "numbered s"
  shows "map_of (st_revisions s) (p, int (length (revisions_of p s)) + 1) = None"
proof (rule ccontr)
  let ?n = "int (length (revisions_of p s))"
  assume "\<not> ?thesis"
  then obtain e where "(?n + 1, e) \<in> set (revisions_of p s)" by (auto dest: map_of_SomeD simp: revision_in)
  then have "?n + 1 \<in> set (map fst (revisions_of p s))" by force
  then show False using assms unfolding numbered_def by (metis atLeastAtMost_iff less_add_one not_less set_upto)
qed

section \<open>Activations\<close>

lemma collision_check:
  assumes "ensure_no_active_capability_collisions rp active pid v = Inr ()"
  shows "\<exists>ns. requested_names rp v = Inr ns \<and> (\<forall>q b. (q, b) \<in> set active \<longrightarrow> q \<noteq> pid \<longrightarrow> set ns \<inter> names_of rp b = {})"
proof -
  obtain ns where ns: "requested_names rp v = Inr ns"
    using assms by (auto simp: ensure_no_active_capability_collisions_def rbind_eq_Inr)
  have "set ns \<inter> names_of rp b = {}" if m: "(q, b) \<in> set active" "q \<noteq> pid" for q b
  proof (cases "ns = []")
    case False
    then obtain cs where cs: "map_res (\<lambda>(_, a). row_conflicts rp ns a) (filter (\<lambda>(p, _). p \<noteq> pid) active) = Inr cs"
      "concat cs = []"
      using assms ns by (auto simp: ensure_no_active_capability_collisions_def rbind_eq_Inr split: if_splits)
    have "(q, b) \<in> set (filter (\<lambda>(p, _). p \<noteq> pid) active)" using m by simp
    from map_res_member [OF cs(1) this] obtain c where c: "c \<in> set cs" "row_conflicts rp ns b = Inr c" by auto
    then have "c = []" using cs(2) by simp
    then obtain w ms where w: "decode_json (ae_routing b) = Inr w" "public_names rp w = Inr ms"
      "filter (\<lambda>n. n \<in> set (map casefold ms)) ns = []"
      using c(2) by (auto simp: row_conflicts_def rbind_eq_Inr)
    have "names_of rp b \<subseteq> set (map casefold ms)"
      using w(1,2) by (auto simp: names_of_def active_names_def requested_names_def)
    then show ?thesis using w(3) by (auto simp: filter_empty_conv)
  qed simp
  then show ?thesis using ns by blast
qed

lemma set_active_ok:
  assumes "set_active_routing_profile rp now pid r routing s = Inr s'"
  shows "\<exists>a d ns. s' = s\<lparr>st_active := AList.update pid a (st_active s), st_last_activation := Some (pid, a)\<rparr>
     \<and> ae_revision a = r \<and> ae_routing a = encoded d \<and> dget d ''revision'' = VInt r \<and> active_names rp a = Inr ns
     \<and> dhas (st_profiles s) pid
     \<and> (\<forall>q b. (q, b) \<in> set (st_active s) \<longrightarrow> q \<noteq> pid \<longrightarrow> set ns \<inter> names_of rp b = {})"
proof -
  let ?d = "AList.update ''revision'' (VInt r) routing"
  let ?a = "\<lparr>ae_revision = r, ae_routing = encoded ?d, ae_published_at = now\<rparr>"
  have c: "ensure_no_active_capability_collisions rp (st_active s) pid (VDict ?d) = Inr ()" "dhas (st_profiles s) pid"
    "s' = s\<lparr>st_active := AList.update pid ?a (st_active s), st_last_activation := Some (pid, ?a)\<rparr>"
    using assms by (auto simp: set_active_routing_profile_def Let_def rbind_eq_Inr split: if_splits)
  obtain ns where ns: "requested_names rp (VDict ?d) = Inr ns"
    "\<forall>q b. (q, b) \<in> set (st_active s) \<longrightarrow> q \<noteq> pid \<longrightarrow> set ns \<inter> names_of rp b = {}"
    using collision_check [OF c(1)] by blast
  have "active_names rp ?a = Inr ns" using ns(1) by (simp add: active_names_def decode_json_def encoded_def)
  then show ?thesis using c(2,3) ns(2) by (intro exI [of _ ?a] exI [of _ ?d] exI [of _ ns]) (simp add: dget_def)
qed

lemma active_row:
  assumes "store_inv rp s" and "(p, a) \<in> set (st_active s)"
  shows "dhas (st_profiles s) p" and "ae_revision a \<in> fst ` set (revisions_of p s)"
    and "\<exists>d. ae_routing a = encoded d \<and> dget d ''revision'' = VInt (ae_revision a)" and "is_ok (active_names rp a)"
  using assms unfolding store_inv_def active_ok_def by blast+

lemma inv_activate:
  assumes inv: "store_inv rp s" and s: "set_active_routing_profile rp now pid r routing s = Inr s'"
    and r: "r \<in> fst ` set (revisions_of pid s)"
  shows "store_inv rp s'"
proof -
  obtain a d ns where s': "s' = s\<lparr>st_active := AList.update pid a (st_active s), st_last_activation := Some (pid, a)\<rparr>"
    and a: "ae_revision a = r" "ae_routing a = encoded d" "dget d ''revision'' = VInt r" "active_names rp a = Inr ns"
      "dhas (st_profiles s) pid"
    and ns: "\<forall>q b. (q, b) \<in> set (st_active s) \<longrightarrow> q \<noteq> pid \<longrightarrow> set ns \<inter> names_of rp b = {}"
    using set_active_ok [OF s] by blast
  have e: "st_profiles s' = st_profiles s" "st_revisions s' = st_revisions s" "st_active s' = AList.update pid a (st_active s)"
    by (simp_all add: s')
  have rv: "revisions_of p s' = revisions_of p s" for p by (rule revisions_of_same) (rule e)
  have na: "names_of rp a = set ns" by (simp add: names_of_def a(4))
  have dist: "wf_dict (st_active s)" using inv by (simp add: store_inv_def wf_dict_def)
  have mem: "(p, b) \<in> set (st_active s') \<Longrightarrow> (p = pid \<and> b = a) \<or> (p \<noteq> pid \<and> (p, b) \<in> set (st_active s))" for p b
    using in_set_update [of p b pid a "st_active s"] in_set_update_other [OF dist, of p b pid a] unfolding e by blast
  have "active_ok rp s'" unfolding active_ok_def rv e(1)
  proof (intro allI impI)
    fix p b
    assume "(p, b) \<in> set (st_active s')"
    then consider "p = pid" "b = a" | "(p, b) \<in> set (st_active s)" using mem by blast
    then show "dhas (st_profiles s) p \<and> ae_revision b \<in> fst ` set (revisions_of p s)
       \<and> (\<exists>d. ae_routing b = encoded d \<and> dget d ''revision'' = VInt (ae_revision b)) \<and> is_ok (active_names rp b)"
    proof cases
      case 1
      moreover have "\<exists>d. ae_routing a = encoded d \<and> dget d ''revision'' = VInt (ae_revision a)" using a(1,2,3) by blast
      ultimately show ?thesis using a(1,4,5) r by (simp add: is_ok_iff)
    next
      case 2
      then show ?thesis using active_row [OF inv] by blast
    qed
  qed
  moreover have "names_unique rp s'" unfolding names_unique_def
  proof (intro allI impI)
    fix p b q c
    assume m: "(p, b) \<in> set (st_active s')" "(q, c) \<in> set (st_active s')" "p \<noteq> q"
    have old: "(p, b) \<in> set (st_active s) \<Longrightarrow> (q, c) \<in> set (st_active s) \<Longrightarrow> names_of rp b \<inter> names_of rp c = {}"
      using inv m(3) by (simp add: store_inv_def names_unique_def)
    show "names_of rp b \<inter> names_of rp c = {}"
      using mem [OF m(1)] mem [OF m(2)] m(3) ns na old by blast
  qed
  ultimately show ?thesis using inv alist.wf_put [OF dist]
    by (simp add: store_inv_def documents_ok_def numbered_def rv e wf_dict_def)
qed

lemma inv_deactivate: "store_inv rp s \<Longrightarrow> store_inv rp (snd (deactivate_routing_profile pid s))"
proof -
  assume inv: "store_inv rp s"
  let ?s = "snd (deactivate_routing_profile pid s)"
  have e: "st_profiles ?s = st_profiles s" "st_revisions ?s = st_revisions s" "st_active ?s = AList.delete pid (st_active s)"
    by (simp_all add: deactivate_routing_profile_def)
  have rv: "revisions_of p ?s = revisions_of p s" for p by (rule revisions_of_same) (rule e)
  have "active_ok rp ?s" unfolding active_ok_def rv e in_set_delete using active_row [OF inv] by blast
  moreover have "names_unique rp ?s" using inv unfolding store_inv_def names_unique_def e in_set_delete by blast
  ultimately show ?thesis using inv by (simp add: store_inv_def documents_ok_def numbered_def rv e distinct_delete)
qed

section \<open>Drafts and publications\<close>

lemma inv_profiles:
  assumes inv: "store_inv rp s" and s: "st_revisions s' = st_revisions s" "st_active s' = st_active s"
    and p: "distinct (map fst (st_profiles s'))" "\<And>p. dhas (st_profiles s) p \<Longrightarrow> revisions_of p s \<noteq> [] \<Longrightarrow> dhas (st_profiles s') p"
    and d: "\<And>p d. (p, d) \<in> set (st_profiles s') \<Longrightarrow> doc_ok rp p (de_document d)"
  shows "store_inv rp s'"
proof -
  have rv: "revisions_of q s' = revisions_of q s" for q by (rule revisions_of_same) (rule s)
  have "dhas (st_profiles s') q" if "(q, a) \<in> set (st_active s)" for q a
    using active_row(1,2) [OF inv that] by (intro p(2)) auto
  then have "active_ok rp s'" unfolding active_ok_def rv s using active_row [OF inv] by blast
  moreover have "documents_ok rp s'" using inv d by (auto simp: store_inv_def documents_ok_def s list_all_iff)
  moreover have "\<forall>q. revisions_of q s' \<noteq> [] \<longrightarrow> dhas (st_profiles s') q"
    using inv p(2) unfolding rv store_inv_def by blast
  moreover have "names_unique rp s'" using inv unfolding store_inv_def names_unique_def s by blast
  ultimately show ?thesis using inv p(1) by (simp add: store_inv_def numbered_def rv s)
qed

lemma draft_documents: "store_inv rp s \<Longrightarrow> (p, d) \<in> set (st_profiles s) \<Longrightarrow> doc_ok rp p (de_document d)"
  by (auto simp: store_inv_def documents_ok_def list_all_iff)

lemma inv_put_draft:
  assumes inv: "store_inv rp s" and s: "put_draft rp now d s = Inr (pid, s')"
  shows "store_inv rp s'"
proof -
  obtain e where e: "s' = s\<lparr>st_profiles := AList.update pid e (st_profiles s)\<rparr>" "doc_ok rp pid (de_document e)"
  proof -
    obtain i where i: "map_of d ''id'' = Some i" using s by (auto simp: put_draft_def rbind_eq_Inr py_index_def split: option.splits)
    let ?e = "\<lparr>de_document = encoded d, de_created_at = (case map_of (st_profiles s) (py_str rp i) of
        None \<Rightarrow> now | Some e \<Rightarrow> de_created_at e), de_updated_at = now\<rparr>"
    have "pid = py_str rp i" "s' = s\<lparr>st_profiles := AList.update pid ?e (st_profiles s)\<rparr>"
      using s i by (auto simp: put_draft_def py_index_def Let_def)
    moreover have "doc_ok rp pid (de_document ?e)" using i \<open>pid = py_str rp i\<close> by (auto simp: doc_ok_def)
    ultimately show ?thesis using that by blast
  qed
  show ?thesis
  proof (rule inv_profiles [OF inv])
    show "distinct (map fst (st_profiles s'))" using inv by (simp add: e store_inv_def distinct_update)
    show "dhas (st_profiles s) p \<Longrightarrow> dhas (st_profiles s') p" for p by (simp add: dhas_iff e(1) fst_set_update)
    show "(p, x) \<in> set (st_profiles s') \<Longrightarrow> doc_ok rp p (de_document x)" for p x
      using in_set_update [of p x pid e "st_profiles s"] draft_documents [OF inv, of p x] e by auto
  qed (simp_all add: e)
qed

lemma inv_save_draft: "store_inv rp s \<Longrightarrow> store_inv rp (snd (save_routing_profile_draft rp now d s))"
  unfolding save_routing_profile_draft_def after_commit_reading
  by (rule snd_attempt) (auto dest: inv_put_draft)

lemma inv_delete_profile:
  assumes inv: "store_inv rp s"
  shows "store_inv rp (snd (delete_routing_profile pid s))"
  unfolding delete_routing_profile_def
proof (rule snd_attempt [where P = "store_inv rp", OF _ inv])
  fix x s'
  assume "(if map_of (st_active s) pid \<noteq> None \<or> revisions_of pid s \<noteq> []
     then Inl (RuntimeError ''Published Routing Profiles cannot be deleted'')
     else Inr (dhas (st_profiles s) pid, s\<lparr>st_profiles := AList.delete pid (st_profiles s)\<rparr>)) = Inr (x, s')"
  then have s': "s' = s\<lparr>st_profiles := AList.delete pid (st_profiles s)\<rparr>" "revisions_of pid s = []" by (auto split: if_splits)
  show "store_inv rp s'"
  proof (rule inv_profiles [OF inv])
    show "distinct (map fst (st_profiles s'))" using inv by (simp add: s' store_inv_def distinct_delete)
    show "dhas (st_profiles s) p \<Longrightarrow> revisions_of p s \<noteq> [] \<Longrightarrow> dhas (st_profiles s') p" for p
      using s'(2) by (cases "p = pid") (auto simp: dhas_def s'(1) delete_conv')
    show "(p, d) \<in> set (st_profiles s') \<Longrightarrow> doc_ok rp p (de_document d)" for p d
      unfolding s' by (auto simp: in_set_delete dest: draft_documents [OF inv])
  qed (simp_all add: s')
qed

lemma rebind_row_keys: "list_all2 (\<lambda>e r. rebind_row now i j e = Inr r) ds rs \<Longrightarrow> map (fst \<circ> snd) rs = map fst ds"
  by (induction rule: list_all2_induct) (auto simp: rebind_row_def rbind_eq_Inr split: option.splits prod.splits)

lemma rebind_row_documents:
  assumes "rebind_row now i j (q, e) = Inr (b, (p, d))" and "doc_ok rp q (de_document e)"
  shows "doc_ok rp p (de_document d)"
proof -
  obtain v k where v: "de_document e = encoded v" "map_of v ''id'' = Some k" "py_str rp k = q"
    using assms(2) by (auto simp: doc_ok_def)
  then obtain r where r: "rebind_document i j (VDict v) = Inr r" "p = q"
    "d = (case r of None \<Rightarrow> e | Some v' \<Rightarrow> e\<lparr>de_document := encoded v', de_updated_at := now\<rparr>)"
    using assms(1) by (auto simp: rebind_row_def rbind_eq_Inr decode_json_def encoded_def split: option.splits)
  then show ?thesis using v by (auto simp: doc_ok_def rebind_document_def rbind_eq_Inr split: if_splits)
qed

lemma inv_rebind:
  assumes inv: "store_inv rp s"
  shows "store_inv rp (snd (rebind_routing_profile_drafts now i j s))"
  unfolding rebind_routing_profile_drafts_def
proof (rule snd_attempt [where P = "store_inv rp", OF _ inv])
  fix x s'
  assume "rbind (map_res (rebind_row now i j) (st_profiles s)) (\<lambda>rs.
       Inr (map (fst \<circ> snd) (filter fst rs), s\<lparr>st_profiles := map snd rs\<rparr>)) = Inr (x, s')"
  then obtain rs where rs: "map_res (rebind_row now i j) (st_profiles s) = Inr rs" "s' = s\<lparr>st_profiles := map snd rs\<rparr>"
    by (auto simp: rbind_eq_Inr)
  have keys: "map (fst \<circ> snd) rs = map fst (st_profiles s)" by (rule rebind_row_keys) (rule map_res_all2 [OF rs(1)])
  show "store_inv rp s'"
  proof (rule inv_profiles [OF inv])
    show "distinct (map fst (st_profiles s'))" using inv by (simp add: rs store_inv_def keys [unfolded comp_def] comp_def)
    have "fst ` set (st_profiles s') = fst ` set (st_profiles s)"
      using arg_cong [OF keys, of set] by (simp add: rs image_image)
    then show "dhas (st_profiles s) p \<Longrightarrow> dhas (st_profiles s') p" for p by (simp add: dhas_iff)
    show "doc_ok rp p (de_document d)" if m: "(p, d) \<in> set (st_profiles s')" for p d
    proof -
      obtain b where "(b, (p, d)) \<in> set rs" using m by (auto simp: rs)
      from map_res_image [OF rs(1) this] obtain q e where "(q, e) \<in> set (st_profiles s)"
        "rebind_row now i j (q, e) = Inr (b, (p, d))" by auto
      then show ?thesis using rebind_row_documents draft_documents [OF inv] by blast
    qed
  qed (simp_all add: rs)
qed

text \<open>A publication: the new revision, then its activation.\<close>

definition next_revision :: "string \<Rightarrow> store \<Rightarrow> int" where
  "next_revision pid s = int (length (revisions_of pid s)) + 1"

lemma publication_steps:
  assumes inv: "store_inv rp s" and s: "put_publication rp now d routing s = Inr ((pid, r), s')"
  shows "\<exists>s1. r = next_revision pid s \<and> dhas (st_profiles s) pid \<and> doc_ok rp pid (encoded d)
    \<and> s1 = s\<lparr>st_revisions := st_revisions s @ [((pid, r), \<lparr>re_document = encoded d, re_published_at = now\<rparr>)]\<rparr>
    \<and> set_active_routing_profile rp now pid r routing s1 = Inr s'"
proof -
  have num: "numbered s" using inv by (simp add: store_inv_def)
  have new: "map_of (st_revisions s) (pid, next_revision pid s) = None"
    using next_revision_is_new [OF num] by (simp add: next_revision_def)
  have r: "r = next_revision pid s" "dhas (st_profiles s) pid" "doc_ok rp pid (encoded d)"
    and a: "set_active_routing_profile rp now pid r routing
       (s\<lparr>st_revisions := AList.update (pid, r) \<lparr>re_document = encoded d, re_published_at = now\<rparr> (st_revisions s)\<rparr>) = Inr s'"
    using s latest_is_length [OF num, of pid]
    by (auto simp: put_publication_def rbind_eq_Inr Let_def next_revision_def doc_ok_def py_index_def
        split: if_splits option.splits)
  show ?thesis using r a by (simp add: update_new [OF new])
qed

lemma inv_append_revision:
  assumes inv: "store_inv rp s" and p: "dhas (st_profiles s) pid" "doc_ok rp pid (encoded d)"
    and s': "s' = s\<lparr>st_revisions := st_revisions s @ [((pid, next_revision pid s), \<lparr>re_document = encoded d, re_published_at = now\<rparr>)]\<rparr>"
  shows "store_inv rp s'"
proof -
  let ?e = "\<lparr>re_document = encoded d, re_published_at = now\<rparr>"
  have rv: "revisions_of q s' = revisions_of q s @ (if q = pid then [(next_revision pid s, ?e)] else [])" for q
    by (rule revisions_of_append) (simp add: s')
  have e: "st_profiles s' = st_profiles s" "st_active s' = st_active s" by (simp_all add: s')
  have "numbered s'" unfolding numbered_def
  proof
    fix q
    have "map fst (revisions_of q s) = [1..int (length (revisions_of q s))]" using inv by (simp add: store_inv_def numbered_def)
    then show "map fst (revisions_of q s') = [1..int (length (revisions_of q s'))]"
      by (simp add: rv next_revision_def upto_rec2 add.commute)
  qed
  moreover have "active_ok rp s'" unfolding active_ok_def e
  proof (intro allI impI)
    fix q a
    assume "(q, a) \<in> set (st_active s)"
    note row = active_row [OF inv this]
    have "fst ` set (revisions_of q s) \<subseteq> fst ` set (revisions_of q s')" by (auto simp: rv)
    then show "dhas (st_profiles s) q \<and> ae_revision a \<in> fst ` set (revisions_of q s')
       \<and> (\<exists>d. ae_routing a = encoded d \<and> dget d ''revision'' = VInt (ae_revision a)) \<and> is_ok (active_names rp a)"
      using row by blast
  qed
  moreover have "\<forall>q. revisions_of q s' \<noteq> [] \<longrightarrow> dhas (st_profiles s') q"
    using inv p by (simp add: rv e store_inv_def)
  moreover have "documents_ok rp s'" using inv p(2) by (auto simp: store_inv_def documents_ok_def s')
  moreover have "names_unique rp s'" using inv unfolding store_inv_def names_unique_def e by blast
  ultimately show ?thesis using inv by (simp add: store_inv_def e)
qed

lemma inv_publication:
  assumes inv: "store_inv rp s" and s: "put_publication rp now d routing s = Inr ((pid, r), s')"
  shows "store_inv rp s'"
proof -
  obtain s1 where r: "r = next_revision pid s" and p: "dhas (st_profiles s) pid" "doc_ok rp pid (encoded d)"
    and s1: "s1 = s\<lparr>st_revisions := st_revisions s @ [((pid, r), \<lparr>re_document = encoded d, re_published_at = now\<rparr>)]\<rparr>"
    and a: "set_active_routing_profile rp now pid r routing s1 = Inr s'"
    using publication_steps [OF inv s] by blast
  have i1: "store_inv rp s1" by (rule inv_append_revision [OF inv p]) (simp add: s1 r)
  have rv: "revisions_of pid s1 = revisions_of pid s @ [(r, \<lparr>re_document = encoded d, re_published_at = now\<rparr>)]"
    using revisions_of_append [of s1 s pid r _ pid] by (simp add: s1)
  show ?thesis by (rule inv_activate [OF i1 a]) (simp add: rv)
qed

section \<open>Every operation\<close>

lemma inv_publish: "store_inv rp s \<Longrightarrow> store_inv rp (snd (publish_routing_profile rp now d routing s))"
proof -
  assume inv: "store_inv rp s"
  have "store_inv rp (snd (attempt (put_publication rp now d routing) s))"
    by (rule snd_attempt [where P = "store_inv rp", OF _ inv]) (auto dest: inv_publication [OF inv])
  moreover have "snd (publish_routing_profile rp now d routing s) = snd (attempt (put_publication rp now d routing) s)"
    by (cases "attempt (put_publication rp now d routing) s")
      (simp add: publish_routing_profile_def after_commit_def reading_def split: sum.split prod.split)
  ultimately show ?thesis by simp
qed

lemma revision_record_exists:
  assumes "get_routing_profile_revision pid r s = Inr (Some v)"
  shows "r \<in> fst ` set (revisions_of pid s)"
proof -
  obtain rs where rs: "list_routing_profile_revisions pid s = Inr rs" "List.find (\<lambda>v. rv_revision v = r) rs = Some v"
    using assms by (auto simp: get_routing_profile_revision_def rbind_eq_Inr)
  then have v: "v \<in> set rs" "rv_revision v = r" by (auto simp: find_Some_iff)
  obtain x where "x \<in> set (rev (sort_key fst (revisions_of pid s)))" "rv_revision v = fst x"
    using map_res_image [OF rs(1) [unfolded list_routing_profile_revisions_def] v(1)] by (auto simp: rbind_eq_Inr)
  then show ?thesis using v(2) by auto
qed

lemma inv_activation: "store_inv rp s \<Longrightarrow> store_inv rp (snd (activate_routing_profile_revision rp now pid r routing s))"
proof -
  assume inv: "store_inv rp s"
  show ?thesis
  proof (cases "get_routing_profile_revision pid r s")
    case (Inr v)
    show ?thesis
    proof (cases v)
      case (Some v')
      have r: "r \<in> fst ` set (revisions_of pid s)" using revision_record_exists Inr Some by blast
      have "store_inv rp (snd (attempt (\<lambda>s. rbind (set_active_routing_profile rp now pid r routing s) (\<lambda>s1. Inr (v', s1))) s))"
        by (rule snd_attempt [where P = "store_inv rp", OF _ inv]) (auto simp: rbind_eq_Inr dest: inv_activate [OF inv _ r])
      then show ?thesis using Inr Some by (simp add: activate_routing_profile_revision_def)
    qed (use inv Inr in \<open>simp add: activate_routing_profile_revision_def\<close>)
  qed (use inv in \<open>simp add: activate_routing_profile_revision_def\<close>)
qed

lemma inv_discard: "store_inv rp s \<Longrightarrow> store_inv rp (snd (discard_routing_profile_draft rp now pid s))"
  by (auto simp: discard_routing_profile_draft_def inv_save_draft split: sum.split list.split pyval.split)

lemma store_step_inv: "store_inv rp s \<Longrightarrow> store_inv rp (store_step rp digest op s)"
  by (cases op) (simp_all add: inv_save_draft inv_delete_profile inv_publish inv_activation inv_deactivate inv_discard inv_rebind
      inv_same [OF _ same_ops(1)] inv_same [OF _ same_ops(2)] inv_same [OF _ same_ops(3)] inv_same [OF _ same_ops(4)]
      inv_same [OF _ same_ops(5)] inv_same [OF _ same_ops(6)] inv_same [OF _ same_ops(7)] inv_same [OF _ same_ops(8)]
      inv_same [OF _ same_ops(9)] inv_same [OF _ same_ops(10)] inv_same [OF _ same_ops(11)] inv_same [OF _ same_ops(12)]
      inv_same [OF _ same_ops(13)])

interpretation store_machine: invariant_machine "store_step rp digest" "store_inv rp" for rp digest
  by unfold_locales (rule store_step_inv)

lemma empty_store_inv: "store_inv rp empty_store"
  by (simp add: store_inv_def empty_store_def documents_ok_def numbered_def active_ok_def names_unique_def revisions_of_def)

lemma run_store_inv: "store_inv rp (run_store rp digest ops)"
  unfolding run_store_def by (rule store_machine.run_inv) (rule empty_store_inv)

section \<open>Properties\<close>

definition example_draft :: "string \<Rightarrow> pydict" where
  "example_draft pid = [(''id'', VStr pid), (''capabilities'', VList [])]"

definition example_routing :: "string \<Rightarrow> pydict" where
  "example_routing name = [(''capabilities'', VList [VDict [(''public_name'', VStr name)]])]"

text \<open>Two profiles; the second one cannot take the name of the first.\<close>

definition example_ops :: "store_op list" where
  "example_ops = [Saves_Draft ''t0'' (example_draft ''p''), Saves_Draft ''t0'' (example_draft ''q''),
     Publishes ''t1'' (example_draft ''p'') (example_routing ''chat''), Publishes ''t1'' (example_draft ''q'') (example_routing ''Chat''),
     Publishes ''t1'' (example_draft ''q'') (example_routing ''draw'')]"

text \<open>C18: No two active routing profiles offer the same API model identifier: after any sequence of
  operations of the store, whatever documents they carry, the names (compared without case) that two
  active snapshots offer are disjoint.\<close>

theorem active_public_names_are_unique:
  assumes "(p, a) \<in> set (st_active (run_store rp digest ops))" and "(q, b) \<in> set (st_active (run_store rp digest ops))"
    and "p \<noteq> q"
  shows "\<exists>ns ms. active_names rp a = Inr ns \<and> active_names rp b = Inr ms \<and> set ns \<inter> set ms = {}"
proof -
  note inv = run_store_inv [of rp digest ops]
  obtain ns ms where n: "active_names rp a = Inr ns" "active_names rp b = Inr ms"
    using active_row(4) [OF inv assms(1)] active_row(4) [OF inv assms(2)] by (auto simp: is_ok_iff)
  have "names_of rp a \<inter> names_of rp b = {}" using inv assms unfolding store_inv_def names_unique_def by blast
  then show ?thesis using n by (simp add: names_of_def)
qed

lemma select_update_revisions: "st_revisions (s\<lparr>st_revisions := x\<rparr>) = x"
  by simp

lemma step_revisions:
  assumes inv: "store_inv rp s"
  shows "\<exists>new. st_revisions (store_step rp digest op s) = st_revisions s @ new"
proof -
  have keep: "st_revisions s' = st_revisions s \<Longrightarrow> ?thesis" if "store_step rp digest op s = s'" for s' using that by simp
  have plain: "same_routing s s' \<Longrightarrow> st_revisions s' = st_revisions s" for s' by (simp add: same_routing_def)
  have draft: "st_revisions (snd (save_routing_profile_draft rp now d s)) = st_revisions s" for now d
    unfolding save_routing_profile_draft_def after_commit_reading
    by (rule snd_attempt [where P = "\<lambda>s'. st_revisions s' = st_revisions s"])
      (auto simp: put_draft_def rbind_eq_Inr Let_def)
  have discard: "st_revisions (snd (discard_routing_profile_draft rp now pid s)) = st_revisions s" for now pid
    by (auto simp: discard_routing_profile_draft_def draft split: sum.split list.split pyval.split)
  have activate: "st_revisions (snd (activate_routing_profile_revision rp now pid r routing s)) = st_revisions s" for now pid r routing
  proof -
    have "st_revisions (snd (attempt (\<lambda>s. rbind (set_active_routing_profile rp now pid r routing s) (\<lambda>s1. Inr (v, s1))) s)) = st_revisions s"
      for v :: revision_record
      by (rule snd_attempt [where P = "\<lambda>s'. st_revisions s' = st_revisions s"]) (auto simp: rbind_eq_Inr dest!: set_active_ok)
    then show ?thesis by (simp add: activate_routing_profile_revision_def split: sum.split option.split)
  qed
  have publish: "\<exists>new. st_revisions (snd (publish_routing_profile rp now d routing s)) = st_revisions s @ new" for now d routing
  proof (cases "put_publication rp now d routing s")
    case (Inl e)
    then show ?thesis by (simp add: publish_routing_profile_def attempt_def after_commit_def)
  next
    case (Inr x)
    obtain pid r s' where x: "x = ((pid, r), s')" by (cases x) (metis surj_pair)
    from publication_steps [OF inv Inr [unfolded x]] obtain s1 new where
      "st_revisions s1 = st_revisions s @ new" "set_active_routing_profile rp now pid r routing s1 = Inr s'"
      by (metis select_update_revisions)
    then have "st_revisions s' = st_revisions s @ new" using set_active_ok by fastforce
    then show ?thesis using Inr x by (simp add: publish_routing_profile_def attempt_def after_commit_def reading_def)
  qed
  have delete: "st_revisions (snd (delete_routing_profile pid s)) = st_revisions s" for pid
    unfolding delete_routing_profile_def
    by (rule snd_attempt [where P = "\<lambda>s'. st_revisions s' = st_revisions s"]) (auto split: if_splits)
  have rebind: "st_revisions (snd (rebind_routing_profile_drafts now i j s)) = st_revisions s" for now i j
    unfolding rebind_routing_profile_drafts_def
    by (rule snd_attempt [where P = "\<lambda>s'. st_revisions s' = st_revisions s"]) (auto simp: rbind_eq_Inr)
  show ?thesis
    by (cases op) (simp_all add: draft discard activate publish delete rebind deactivate_routing_profile_def plain [OF same_ops(1)]
        plain [OF same_ops(2)] plain [OF same_ops(3)] plain [OF same_ops(4)] plain [OF same_ops(5)] plain [OF same_ops(7)]
        plain [OF same_ops(8)] plain [OF same_ops(9)] plain [OF same_ops(10)] plain [OF same_ops(11)] plain [OF same_ops(12)]
        plain [OF same_ops(13)])
qed

lemma run_store_append: "run_store rp digest (ops @ later) = fold (store_step rp digest) later (run_store rp digest ops)"
  by (simp add: run_store_def)

theorem active_public_names_are_unique_witness:
  "\<exists>a b. st_active (run_store (\<lambda>_. []) (\<lambda>_. []) example_ops) = [(''p'', a), (''q'', b)]
     \<and> (\<exists>ns ms. active_names (\<lambda>_. []) a = Inr ns \<and> active_names (\<lambda>_. []) b = Inr ms \<and> set ns \<inter> set ms = {})"
proof -
  let ?s = "run_store (\<lambda>_. []) (\<lambda>_. []) example_ops"
  have "map fst (st_active ?s) = [''p'', ''q'']" by code_simp
  then obtain a b where s: "st_active ?s = [(''p'', a), (''q'', b)]" by (auto simp: map_eq_Cons_conv)
  have "(''p'', a) \<in> set (st_active ?s)" "(''q'', b) \<in> set (st_active ?s)" by (simp_all add: s)
  from active_public_names_are_unique [OF this] s show ?thesis by auto
qed

text \<open>C19: A published revision is immutable: whatever operations follow, the revision keeps its document
  and its time, and no later publication takes its number.\<close>

theorem published_revisions_never_change:
  assumes "map_of (st_revisions (run_store rp digest ops)) k = Some e"
  shows "map_of (st_revisions (run_store rp digest (ops @ later))) k = Some e"
proof (induction later rule: rev_induct)
  case Nil
  then show ?case using assms by simp
next
  case (snoc op later)
  let ?s = "run_store rp digest (ops @ later)"
  obtain new where "st_revisions (store_step rp digest op ?s) = st_revisions ?s @ new"
    using step_revisions [OF run_store_inv] by blast
  then show ?case using snoc run_store_append [of rp digest "ops @ later" "[op]"] by (simp add: map_add_Some_iff)
qed

theorem published_revisions_never_change_witness:
  "\<exists>e. map_of (st_revisions (run_store (\<lambda>_. []) (\<lambda>_. []) (example_ops @ [Deactivates ''p'', Deletes_Profile ''p'']))) (''p'', 1) = Some e
     \<and> re_document e = encoded (example_draft ''p'')"
proof -
  have "map_option re_document (map_of (st_revisions (run_store (\<lambda>_. []) (\<lambda>_. []) example_ops)) (''p'', 1))
      = Some (encoded (example_draft ''p''))" by code_simp
  then obtain e where e: "map_of (st_revisions (run_store (\<lambda>_. []) (\<lambda>_. []) example_ops)) (''p'', 1) = Some e"
    "re_document e = encoded (example_draft ''p'')" by auto
  show ?thesis using published_revisions_never_change [OF e(1)] e(2) by blast
qed

text \<open>What the reading functions return in a store that keeps its invariant.\<close>

definition revision_view :: "store \<Rightarrow> string \<Rightarrow> int \<times> revision_entry \<Rightarrow> revision_record" where
  "revision_view s pid x = \<lparr>rv_definition = the (re_document (snd x)), rv_revision = fst x,
     rv_published_at = re_published_at (snd x), rv_active = (map_option ae_revision (map_of (st_active s) pid) = Some (fst x))\<rparr>"

lemma revision_documents: "store_inv rp s \<Longrightarrow> (r, e) \<in> set (revisions_of p s) \<Longrightarrow> doc_ok rp p (re_document e)"
  by (auto simp: revision_in store_inv_def documents_ok_def list_all_iff)

lemma revisions_ascend: "store_inv rp s \<Longrightarrow> map fst (revisions_of p s) = [1..int (length (revisions_of p s))]"
  by (simp add: store_inv_def numbered_def)

lemma revision_list:
  assumes inv: "store_inv rp s"
  shows "list_routing_profile_revisions pid s = Inr (map (revision_view s pid) (rev (revisions_of pid s)))"
proof -
  have "sort_key fst (revisions_of pid s) = revisions_of pid s"
    by (rule sort_key_id_if_sorted) (simp add: revisions_ascend [OF inv])
  then show ?thesis unfolding list_routing_profile_revisions_def
    using revision_documents [OF inv, of _ _ pid]
    by (auto intro!: map_res_map simp: doc_ok_def encoded_def decode_json_def revision_view_def dest!: revision_documents [OF inv])
qed

lemma find_map: "List.find P (map f xs) = map_option f (List.find (P \<circ> f) xs)"
  by (induction xs) auto

lemma get_revision:
  assumes inv: "store_inv rp s" and e: "(r, e) \<in> set (revisions_of pid s)"
  shows "get_routing_profile_revision pid r s = Inr (Some (revision_view s pid (r, e)))"
proof -
  have d: "distinct (map fst (revisions_of pid s))" by (simp add: revisions_ascend [OF inv])
  have "List.find (\<lambda>x. fst x = fst (r, e)) (rev (revisions_of pid s)) = Some (r, e)"
    using e d by (intro find_unique) (auto dest: eq_key_imp_eq_value)
  then show ?thesis by (simp add: get_routing_profile_revision_def revision_list [OF inv] find_map comp_def revision_view_def)
qed

lemma first_match_find: "(\<And>x. x \<in> set xs \<Longrightarrow> P x = Inr (Q x)) \<Longrightarrow> first_match P xs = Inr (List.find Q xs)"
  by (induction xs) auto

definition profile_view :: "store \<Rightarrow> string \<times> draft_entry \<Rightarrow> profile_record" where
  "profile_view s x = \<lparr>pr_definition = the (de_document (snd x)), pr_created_at = de_created_at (snd x),
     pr_updated_at = de_updated_at (snd x), pr_active = (map_of (st_active s) (fst x) \<noteq> None),
     pr_active_revision = map_option ae_revision (map_of (st_active s) (fst x)), pr_latest_revision = latest_revision (fst x) s\<rparr>"

lemma profile_list:
  assumes inv: "store_inv rp s"
  shows "list_routing_profiles s = Inr (map (profile_view s) (sort_key (\<lambda>(_, d). casefold (draft_name d)) (st_profiles s)))"
proof -
  have "\<not> list_ex (\<lambda>(_, d). de_document d = None) (st_profiles s)"
    using draft_documents [OF inv] by (fastforce simp: list_ex_iff doc_ok_def encoded_def)
  moreover have "profile_record_of s x = Inr (profile_view s x)" if x: "x \<in> set (st_profiles s)" for x
    using draft_documents [OF inv, of "fst x" "snd x"] x
    by (cases x) (auto simp: profile_record_of_def profile_view_def doc_ok_def encoded_def decode_json_def)
  then have "map_res (profile_record_of s) (sort_key (\<lambda>(_, d). casefold (draft_name d)) (st_profiles s))
      = Inr (map (profile_view s) (sort_key (\<lambda>(_, d). casefold (draft_name d)) (st_profiles s)))"
    by (intro map_res_map) simp
  ultimately show ?thesis by (simp add: list_routing_profiles_def)
qed

lemma get_profile:
  assumes inv: "store_inv rp s" and e: "map_of (st_profiles s) pid = Some e"
    and v: "de_document e = encoded v" "map_of v ''id'' = Some (VStr pid)"
  shows "get_routing_profile pid s = Inr (Some (profile_view s (pid, e)))"
proof -
  let ?ps = "sort_key (\<lambda>(_, d). casefold (draft_name d)) (st_profiles s)"
  have dist: "distinct (map fst (st_profiles s))" using inv by (simp add: store_inv_def)
  have one: "d = e" if "(pid, d) \<in> set (st_profiles s)" for d
    using dist that e by (metis map_of_eq_Some_iff option.inject)
  have id: "\<exists>i. py_index (pr_definition (profile_view s x)) ''id'' = Inr i \<and> eq_str i pid = (fst x = fst (pid, e))"
    if x: "x \<in> set (st_profiles s)" for x
  proof -
    obtain p d where x': "x = (p, d)" by (cases x)
    obtain w i where w: "de_document d = encoded w" "map_of w ''id'' = Some i" "py_str rp i = p"
      using draft_documents [OF inv, of p d] x x' by (auto simp: doc_ok_def)
    have "(i = VStr pid) = (p = pid)"
    proof
      assume "p = pid"
      then have "d = e" using one x x' by simp
      then show "i = VStr pid" using w(1,2) v by (simp add: encoded_def)
    qed (use w(3) in \<open>simp add: py_str_def\<close>)
    then show ?thesis using w(1,2) by (simp add: x' profile_view_def py_index_def encoded_def eq_str_def)
  qed
  have "List.find (\<lambda>x. fst x = fst (pid, e)) ?ps = Some (pid, e)"
  proof (rule find_unique)
    show "(pid, e) \<in> set ?ps" using map_of_SomeD [OF e] by simp
    show "\<forall>q\<in>set ?ps. fst q = fst (pid, e) \<longrightarrow> q = (pid, e)" using one by (metis fst_conv prod.collapse set_sort)
  qed
  moreover have "first_match (\<lambda>r. rbind (py_index (pr_definition r) ''id'') (\<lambda>i. Inr (eq_str i pid))) (map (profile_view s) ?ps)
      = Inr (map_option (profile_view s) (List.find (\<lambda>x. fst x = fst (pid, e)) ?ps))"
  proof -
    have "first_match (\<lambda>x. rbind (py_index (pr_definition (profile_view s x)) ''id'') (\<lambda>i. Inr (eq_str i pid))) ?ps
        = Inr (List.find (\<lambda>x. fst x = fst (pid, e)) ?ps)"
      by (rule first_match_find) (use id in fastforce)
    moreover have "first_match P (map f xs) = rbind (first_match (P \<circ> f) xs) (\<lambda>r. Inr (map_option f r))"
      for P :: "profile_record \<Rightarrow> bool res" and f and xs :: "(string \<times> draft_entry) list"
      by (induction xs) (auto simp: rbind_def split: sum.split)
    ultimately show ?thesis by (simp add: comp_def)
  qed
  ultimately show ?thesis by (simp add: get_routing_profile_def profile_list [OF inv])
qed

text \<open>C23: Publishing is all or nothing: it either raises and leaves the store as it was, or it answers the
  published document under the next free revision number, which is then the active one.\<close>

theorem publication_is_all_or_nothing:
  assumes "publish_routing_profile rp now d routing (run_store rp digest ops) = (res, s')"
  shows "(\<exists>e. res = Inl e \<and> s' = run_store rp digest ops)
    \<or> (\<exists>v pid. res = Inr (Some v) \<and> rv_definition v = VDict d \<and> rv_revision v = next_revision pid (run_store rp digest ops)
        \<and> rv_active v \<and> map_option ae_revision (map_of (st_active s') pid) = Some (rv_revision v))"
proof -
  let ?s = "run_store rp digest ops"
  have inv: "store_inv rp ?s" by (rule run_store_inv)
  show ?thesis
  proof (cases "put_publication rp now d routing ?s")
    case (Inl e)
    then show ?thesis using assms by (auto simp: publish_routing_profile_def attempt_def after_commit_def)
  next
    case (Inr x)
    obtain pid r s1 where x: "x = ((pid, r), s1)" by (cases x) (metis surj_pair)
    have inv1: "store_inv rp s1" by (rule inv_publication [OF inv Inr [unfolded x]])
    obtain s2 where r: "r = next_revision pid ?s"
      and s2: "s2 = ?s\<lparr>st_revisions := st_revisions ?s @ [((pid, r), \<lparr>re_document = encoded d, re_published_at = now\<rparr>)]\<rparr>"
      and a: "set_active_routing_profile rp now pid r routing s2 = Inr s1"
      using publication_steps [OF inv Inr [unfolded x]] by blast
    obtain b where b: "st_active s1 = AList.update pid b (st_active s2)" "ae_revision b = r" "st_revisions s1 = st_revisions s2"
      using set_active_ok [OF a] by auto
    have "(r, \<lparr>re_document = encoded d, re_published_at = now\<rparr>) \<in> set (revisions_of pid s1)"
      by (simp add: revision_in b s2)
    from get_revision [OF inv1 this] have "res = Inr (Some (revision_view s1 pid (r, \<lparr>re_document = encoded d, re_published_at = now\<rparr>)))"
      "s' = s1" using assms Inr x by (auto simp: publish_routing_profile_def attempt_def after_commit_def reading_def)
    moreover have "map_option ae_revision (map_of (st_active s1) pid) = Some r" by (simp add: b)
    ultimately show ?thesis using r
      by (intro disjI2 exI [of _ "revision_view s1 pid (r, \<lparr>re_document = encoded d, re_published_at = now\<rparr>)"] exI [of _ pid])
        (simp add: revision_view_def encoded_def)
  qed
qed

theorem publication_is_all_or_nothing_witness:
  "\<exists>v s'. publish_routing_profile (\<lambda>_. []) ''t2'' (example_draft ''p'') (example_routing ''chat'')
       (run_store (\<lambda>_. []) (\<lambda>_. []) example_ops) = (Inr (Some v), s') \<and> rv_active v"
proof -
  let ?r = "publish_routing_profile (\<lambda>_. []) ''t2'' (example_draft ''p'') (example_routing ''chat'')
       (run_store (\<lambda>_. []) (\<lambda>_. []) example_ops)"
  have "is_ok (fst ?r)" by code_simp
  then obtain v s' where "?r = (Inr v, s')" by (cases ?r) (auto simp: is_ok_iff)
  from publication_is_all_or_nothing [OF this] this show ?thesis by auto
qed

text \<open>Discarding a draft restores the latest publication.\<close>

lemma save_draft_stored:
  assumes "map_of d ''id'' = Some (VStr pid)"
  shows "\<exists>e. st_profiles (snd (save_routing_profile_draft rp now d s)) = AList.update pid e (st_profiles s) \<and> de_document e = encoded d
    \<and> st_active (snd (save_routing_profile_draft rp now d s)) = st_active s
    \<and> st_revisions (snd (save_routing_profile_draft rp now d s)) = st_revisions s"
  using assms unfolding save_routing_profile_draft_def after_commit_reading
  by (intro exI [of _ "\<lparr>de_document = encoded d, de_created_at = (case map_of (st_profiles s) pid of None \<Rightarrow> now
        | Some e \<Rightarrow> de_created_at e), de_updated_at = now\<rparr>"])
    (simp add: attempt_def put_draft_def py_index_def py_str_def Let_def)

lemma save_draft_reads_back:
  assumes inv: "store_inv rp s" and d: "map_of d ''id'' = Some (VStr pid)"
  shows "\<exists>r. fst (save_routing_profile_draft rp now d s) = Inr (Some r) \<and> pr_definition r = VDict d
    \<and> pr_active r = (map_of (st_active s) pid \<noteq> None)"
proof -
  let ?s = "snd (save_routing_profile_draft rp now d s)"
  obtain e where e: "st_profiles ?s = AList.update pid e (st_profiles s)" "de_document e = encoded d" "st_active ?s = st_active s"
    using save_draft_stored [OF d] by blast
  have "get_routing_profile pid ?s = Inr (Some (profile_view ?s (pid, e)))"
    by (rule get_profile [OF inv_save_draft [OF inv] _ e(2) d]) (simp add: e(1))
  moreover have "\<exists>s1. attempt (put_draft rp now d) s = (Inr pid, s1)" using d
    by (simp add: attempt_def put_draft_def py_index_def py_str_def Let_def)
  then have "fst (save_routing_profile_draft rp now d s) = get_routing_profile pid ?s"
    by (auto simp: save_routing_profile_draft_def after_commit_def reading_def)
  ultimately show ?thesis by (simp add: profile_view_def e encoded_def)
qed

text \<open>C24: Discarding a draft undoes every edit since the last publication: after a publication and any new
  draft of the profile, discarding the draft brings the published document back as the draft, and the
  profile is still active.\<close>

theorem discard_undoes_edits:
  assumes pub: "publish_routing_profile rp now d routing (run_store rp digest ops) = (Inr (Some v), s1)"
    and d: "map_of d ''id'' = Some (VStr pid)" and d2: "map_of d2 ''id'' = Some (VStr pid)"
  shows "\<exists>r s3. discard_routing_profile_draft rp now3 pid (snd (save_routing_profile_draft rp now2 d2 s1)) = (Inr (Some r), s3)
    \<and> pr_definition r = VDict d \<and> pr_active r"
proof -
  let ?s = "run_store rp digest ops" and ?s2 = "snd (save_routing_profile_draft rp now2 d2 s1)"
  have inv: "store_inv rp ?s" by (rule run_store_inv)
  obtain p r s0 where pp: "put_publication rp now d routing ?s = Inr ((p, r), s0)"
    using pub by (auto simp: publish_routing_profile_def attempt_def after_commit_def split: sum.splits prod.splits)
  then have p: "p = pid" using d by (auto simp: put_publication_def py_index_def py_str_def rbind_eq_Inr Let_def split: if_splits)
  have s0: "s0 = s1" using pub pp by (simp add: publish_routing_profile_def attempt_def after_commit_def reading_def)
  have inv1: "store_inv rp s1" using inv_publication [OF inv pp] s0 by simp
  let ?e = "\<lparr>re_document = encoded d, re_published_at = now\<rparr>"
  obtain s' where "s' = ?s\<lparr>st_revisions := st_revisions ?s @ [((pid, r), ?e)]\<rparr>"
    "set_active_routing_profile rp now pid r routing s' = Inr s1"
    using publication_steps [OF inv pp] p s0 by blast
  then have rev1: "st_revisions s1 = st_revisions ?s @ [((pid, r), ?e)]" and act: "map_of (st_active s1) pid \<noteq> None"
    using set_active_ok [of rp now pid r routing s' s1] by auto
  have inv2: "store_inv rp ?s2" by (rule inv_save_draft [OF inv1])
  have s2: "st_revisions ?s2 = st_revisions s1" "st_active ?s2 = st_active s1" using save_draft_stored [OF d2] by blast+
  have "revisions_of pid ?s2 = revisions_of pid ?s @ [(r, ?e)]"
    using revisions_of_append [of s1 ?s pid r ?e pid] rev1 revisions_of_same [OF s2(1)] by simp
  then have l: "list_routing_profile_revisions pid ?s2
      = Inr (revision_view ?s2 pid (r, ?e) # map (revision_view ?s2 pid) (rev (revisions_of pid ?s)))"
    by (simp add: revision_list [OF inv2])
  obtain x where x: "fst (save_routing_profile_draft rp now3 d ?s2) = Inr (Some x)" "pr_definition x = VDict d"
      "pr_active x = (map_of (st_active ?s2) pid \<noteq> None)"
    using save_draft_reads_back [OF inv2 d] by blast
  have "discard_routing_profile_draft rp now3 pid ?s2 = save_routing_profile_draft rp now3 d ?s2"
    by (simp add: discard_routing_profile_draft_def l revision_view_def encoded_def)
  then show ?thesis using x act s2(2) by (metis prod.collapse)
qed

theorem discard_undoes_edits_witness:
  "\<exists>v s1 r s3. publish_routing_profile (\<lambda>_. []) ''t2'' (example_draft ''p'') (example_routing ''chat'')
       (run_store (\<lambda>_. []) (\<lambda>_. []) example_ops) = (Inr (Some v), s1)
     \<and> discard_routing_profile_draft (\<lambda>_. []) ''t4'' ''p''
         (snd (save_routing_profile_draft (\<lambda>_. []) ''t3'' (example_draft ''p'' @ [(''name'', VStr ''edited'')]) s1)) = (Inr (Some r), s3)
     \<and> pr_definition r = VDict (example_draft ''p'')"
proof -
  let ?r = "publish_routing_profile (\<lambda>_. []) ''t2'' (example_draft ''p'') (example_routing ''chat'')
       (run_store (\<lambda>_. []) (\<lambda>_. []) example_ops)"
  have "case fst ?r of Inr (Some v) \<Rightarrow> True | _ \<Rightarrow> False" by code_simp
  then obtain v s1 where r: "?r = (Inr (Some v), s1)" by (cases ?r) (auto split: sum.splits option.splits)
  have "map_of (example_draft ''p'') ''id'' = Some (VStr ''p'')"
    "map_of (example_draft ''p'' @ [(''name'', VStr ''edited'')]) ''id'' = Some (VStr ''p'')"
    by (simp_all add: example_draft_def)
  from discard_undoes_edits [OF r this] r show ?thesis by blast
qed

text \<open>Who a draft refers to.\<close>

definition capability_workers :: "pyval \<Rightarrow> pyval list" where
  "capability_workers c = (case c of
     VDict b \<Rightarrow> (case dget_or b ''worker_ids'' (VList []) of VList ids \<Rightarrow> ids | _ \<Rightarrow> []) | _ \<Rightarrow> [])"

definition document_workers :: "pydict \<Rightarrow> pyval list" where
  "document_workers d = (case dget_or d ''capabilities'' (VList []) of
     VList cs \<Rightarrow> concat (map capability_workers cs) | _ \<Rightarrow> [])"

definition draft_workers :: "draft_entry \<Rightarrow> pyval list" where
  "draft_workers e = document_workers (worker_document (de_document e))"

lemma rebind_ids_gone: "i \<noteq> j \<Longrightarrow> VStr i \<notin> set (rebind_ids i j ids)"
  by (auto simp: rebind_ids_def)

lemma rebind_capability_workers:
  assumes "rebind_capability i j c = Inr (b, c')" and "i \<noteq> j"
  shows "b = (VStr i \<in> set (capability_workers c))" and "VStr i \<notin> set (capability_workers c')"
  using assms rebind_ids_gone [OF assms(2)]
  by (auto simp: rebind_capability_def rbind_eq_Inr value_get_def iterable_def capability_workers_def dget_or_def
      split: if_splits pyval.splits)

lemma rebind_document_workers:
  assumes r: "rebind_document i j (VDict d) = Inr r" and ij: "i \<noteq> j"
  shows "(r = None) = (VStr i \<notin> set (document_workers d))" and "r = Some d' \<Longrightarrow> VStr i \<notin> set (document_workers d')"
proof -
  obtain cs rs where cs: "dget_or d ''capabilities'' (VList []) = VList cs" "map_res (rebind_capability i j) cs = Inr rs"
    "r = (if list_ex fst rs then Some (AList.update ''capabilities'' (VList (map snd rs)) d) else None)"
    using r by (auto simp: rebind_document_def rbind_eq_Inr iterable_def split: pyval.splits)
  have "list_ex fst rs = (\<exists>c\<in>set cs. VStr i \<in> set (capability_workers c))"
  proof
    assume "list_ex fst rs"
    then obtain b c' where "(b, c') \<in> set rs" b by (auto simp: list_ex_iff)
    then obtain c where "c \<in> set cs" "rebind_capability i j c = Inr (b, c')" using map_res_image [OF cs(2)] by blast
    then show "\<exists>c\<in>set cs. VStr i \<in> set (capability_workers c)" using rebind_capability_workers(1) [OF _ ij] \<open>b\<close> by blast
  next
    assume "\<exists>c\<in>set cs. VStr i \<in> set (capability_workers c)"
    then obtain c where c: "c \<in> set cs" "VStr i \<in> set (capability_workers c)" by blast
    then obtain b c' where b: "(b, c') \<in> set rs" "rebind_capability i j c = Inr (b, c')"
      using map_res_member [OF cs(2)] by (metis surj_pair)
    then have b using rebind_capability_workers(1) [OF b(2) ij] c(2) by blast
    with b(1) show "list_ex fst rs" by (force simp: list_ex_iff)
  qed
  then show "(r = None) = (VStr i \<notin> set (document_workers d))" by (auto simp: cs document_workers_def)
  have gone: "VStr i \<notin> set (capability_workers c')" if "(b, c') \<in> set rs" for b c'
    using map_res_image [OF cs(2) that] rebind_capability_workers(2) [OF _ ij] by blast
  show "VStr i \<notin> set (document_workers d')" if d': "r = Some d'"
  proof -
    have "dget_or d' ''capabilities'' (VList []) = VList (map snd rs)"
      using d' cs(3) by (auto simp: dget_or_def split: if_splits)
    then show ?thesis using gone by (auto simp: document_workers_def)
  qed
qed

lemma rebind_row_workers:
  assumes "rebind_row now i j (p, e) = Inr (b, (q, e'))" and "i \<noteq> j" and "doc_ok rp p (de_document e)"
  shows "q = p" and "b = (VStr i \<in> set (draft_workers e))" and "VStr i \<notin> set (draft_workers e')"
proof -
  obtain d where d: "de_document e = Some (VDict d)" using assms(3) by (auto simp: doc_ok_def encoded_def)
  then obtain r where r: "rebind_document i j (VDict d) = Inr r"
    "(b, (q, e')) = (case r of None \<Rightarrow> (False, (p, e)) | Some v' \<Rightarrow> (True, (p, e\<lparr>de_document := encoded v', de_updated_at := now\<rparr>)))"
    using assms(1) by (auto simp: rebind_row_def rbind_eq_Inr decode_json_def)
  note w = rebind_document_workers [OF r(1) assms(2)]
  show "q = p" "b = (VStr i \<in> set (draft_workers e))" "VStr i \<notin> set (draft_workers e')"
    using r(2) w d by (auto simp: draft_workers_def worker_document_def encoded_def split: option.splits)
qed

text \<open>C25: Rebinding leaves no reference to the replaced worker in any draft: whenever it succeeds, no capability
  of any draft lists the old worker any more, and it answers exactly the profiles whose drafts did.\<close>

theorem rebinding_leaves_no_reference:
  assumes "rebind_routing_profile_drafts now i j (run_store rp digest ops) = (Inr changed, s')" and ij: "i \<noteq> j"
  shows "(\<forall>(p, e)\<in>set (st_profiles s'). VStr i \<notin> set (draft_workers e))
    \<and> changed = map fst (filter (\<lambda>(p, e). VStr i \<in> set (draft_workers e)) (st_profiles (run_store rp digest ops)))"
proof -
  let ?s = "run_store rp digest ops"
  have docs: "doc_ok rp p (de_document e)" if "(p, e) \<in> set (st_profiles ?s)" for p e
    by (rule draft_documents [OF run_store_inv that])
  obtain rs where rs: "map_res (rebind_row now i j) (st_profiles ?s) = Inr rs"
    "changed = map (fst \<circ> snd) (filter fst rs)" "st_profiles s' = map snd rs"
    using assms(1) by (auto simp: rebind_routing_profile_drafts_def attempt_def rbind_def split: sum.splits)
  have "VStr i \<notin> set (draft_workers e)" if m: "(p, e) \<in> set (st_profiles s')" for p e
  proof -
    obtain b where "(b, (p, e)) \<in> set rs" using m rs(3) by auto
    from map_res_image [OF rs(1) this] obtain q e0 where "(q, e0) \<in> set (st_profiles ?s)" "rebind_row now i j (q, e0) = Inr (b, (p, e))"
      by auto
    then show ?thesis using rebind_row_workers(3) [OF _ ij] docs by blast
  qed
  moreover have "map (fst \<circ> snd) (filter fst rs) = map fst (filter (\<lambda>(p, e). VStr i \<in> set (draft_workers e)) ps)"
    if "list_all2 (\<lambda>x y. rebind_row now i j x = Inr y) ps rs" "\<forall>(p, e)\<in>set ps. doc_ok rp p (de_document e)" for ps rs
    using that
  proof (induction rule: list_all2_induct)
    case (Cons x xs y ys)
    obtain p e b q e' where x: "x = (p, e)" "y = (b, (q, e'))" by (cases x, cases y) auto
    have "q = p" "b = (VStr i \<in> set (draft_workers e))"
      using rebind_row_workers(1,2) [OF _ ij, of now p e b q e' rp] Cons.hyps(1) Cons.prems x by auto
    then show ?case using Cons.IH Cons.prems by (simp add: x)
  qed simp
  then have "changed = map fst (filter (\<lambda>(p, e). VStr i \<in> set (draft_workers e)) (st_profiles ?s))"
    using map_res_all2 [OF rs(1)] docs rs(2) by blast
  ultimately show ?thesis by blast
qed

theorem rebinding_leaves_no_reference_witness:
  "\<exists>s'. rebind_routing_profile_drafts ''t1'' ''a'' ''b'' (run_store (\<lambda>_. []) (\<lambda>_. []) [Saves_Draft ''t0''
       [(''id'', VStr ''p''), (''capabilities'', VList [VDict [(''worker_ids'', VList [VStr ''a''])]])]]) = (Inr [''p''], s')
     \<and> (\<forall>(p, e)\<in>set (st_profiles s'). VStr ''a'' \<notin> set (draft_workers e))"
proof -
  let ?r = "rebind_routing_profile_drafts ''t1'' ''a'' ''b'' (run_store (\<lambda>_. []) (\<lambda>_. []) [Saves_Draft ''t0''
       [(''id'', VStr ''p''), (''capabilities'', VList [VDict [(''worker_ids'', VList [VStr ''a''])]])]])"
  have "fst ?r = Inr [''p'']" by code_simp
  then obtain s' where r: "?r = (Inr [''p''], s')" by (cases ?r) simp
  from rebinding_leaves_no_reference [OF r] r show ?thesis by simp
qed

end
