(* ===== verification/Local_Profiles.thy ===== *)
theory Local_Profiles
  imports Registry
begin

text \<open>
  Execution profiles for cached models (\<open>profiles/local.py\<close>): the operator's request, the languages
  of the allowlisted translation and speech models (\<open>speechshift.py\<close>), and the profile that a
  trusted template gives for a request. Paths are their texts.
\<close>

section \<open>Requests\<close>

record local_request =
  lr_model_id :: string
  lr_revision :: string
  lr_alias :: string
  lr_profile_name :: "string option"
  lr_dtype :: string
  lr_lifecycle :: lifecycle_class
  lr_context_length :: int
  lr_maximum_new_tokens :: int
  lr_maximum_denoising_steps :: int
  lr_visual_token_budget :: int
  lr_artifact_id :: "string option"
  lr_runtime_template_id :: "string option"
  lr_prefix_cache_enabled :: bool

definition opt_alias :: "string option \<Rightarrow> bool" where
  "opt_alias a = (case a of None \<Rightarrow> True | Some s \<Rightarrow> SAFE_ALIAS s)"

definition validate_local_request :: "local_request \<Rightarrow> local_request res" where
  "validate_local_request r =
     (if \<not> (3 \<le> length (lr_model_id r) \<and> length (lr_model_id r) \<le> 256) then Inl (ValueError ''model_id'')
      else if \<not> (1 \<le> length (lr_revision r) \<and> length (lr_revision r) \<le> 128) then Inl (ValueError ''revision'')
      else if \<not> SAFE_ALIAS (lr_alias r) then Inl (ValueError ''alias'')
      else if \<not> opt_alias (lr_profile_name r) then Inl (ValueError ''profile_name'')
      else if lr_dtype r \<notin> {''float16'', ''bfloat16'', ''float32''} then Inl (ValueError ''dtype'')
      else if \<not> (256 \<le> lr_context_length r \<and> lr_context_length r \<le> 32768) then Inl (ValueError ''context_length'')
      else if \<not> (1 \<le> lr_maximum_new_tokens r \<and> lr_maximum_new_tokens r \<le> MAXIMUM_NEW_TOKENS_LIMIT)
      then Inl (ValueError ''maximum_new_tokens'')
      else if \<not> (1 \<le> lr_maximum_denoising_steps r \<and> lr_maximum_denoising_steps r \<le> 48)
      then Inl (ValueError ''maximum_denoising_steps'')
      else if lr_visual_token_budget r \<notin> set ALLOWED_VISUAL_TOKEN_BUDGETS then Inl (ValueError ''visual_token_budget'')
      else if \<not> opt_alias (lr_artifact_id r) then Inl (ValueError ''artifact_id'')
      else if \<not> opt_alias (lr_runtime_template_id r) then Inl (ValueError ''runtime_template_id'')
      else Inr r)"

section \<open>Allowlisted languages\<close>

text \<open>\<open>SPEECHSHIFT_MODEL_SPECS\<close>: source and target language of each model.\<close>

definition SPEECHSHIFT_LANGUAGES :: "(string \<times> string option \<times> string option) list" where
  "SPEECHSHIFT_LANGUAGES =
    [(''Helsinki-NLP/opus-mt-en-fr'', Some ''en'', Some ''fr''),
     (''Helsinki-NLP/opus-mt-en-de'', Some ''en'', Some ''de''),
     (''Qwen/Qwen3-TTS-12Hz-0.6B-CustomVoice'', None, None),
     (''openai/whisper-small.en'', Some ''en'', None)]"

definition QWEN_TTS_VOICES :: "string list" where
  "QWEN_TTS_VOICES = [''ryan'', ''aiden'', ''vivian'', ''serena'']"

definition QWEN_TTS_LANGUAGES :: "string list" where
  "QWEN_TTS_LANGUAGES = [''en'', ''fr'', ''de'']"

section \<open>Profiles\<close>

text \<open>What the template asks of the request.\<close>

definition template_checks ::
  "runtime_template \<Rightarrow> local_request \<Rightarrow> string option \<Rightarrow> string option \<Rightarrow> string option \<Rightarrow> unit res" where
  "template_checks t r checkpoint_dir base_model_id base_model_revision =
     rbind (if rt_fixed_context_length t
            then (case dget (rt_settings t) ''context_length'' of
                VInt n \<Rightarrow> if lr_context_length r \<noteq> n
                  then Inl (ValueError (''This trusted runtime requires a context length of '' @ show_int n @ '' tokens''))
                  else Inr ()
              | VBool b \<Rightarrow> if lr_context_length r \<noteq> (if b then 1 else 0)
                  then Inl (ValueError (''This trusted runtime requires a context length of '' @ (if b then ''True'' else ''False'') @ '' tokens''))
                  else Inr ()
              | _ \<Rightarrow> Inl (ValueError ''The trusted runtime is missing its fixed context length''))
            else Inr ()) (\<lambda>_.
     if lr_prefix_cache_enabled r \<and> (rt_generation_family t \<noteq> AUTOREGRESSIVE
          \<or> \<not> supports_application_managed_prefix_cache (lr_model_id r))
     then Inl (ValueError ''Application-managed prefix caching is not qualified for this Worker'')
     else if rt_uses_base_model_identity t \<and> (checkpoint_dir = None \<or> base_model_id = None \<or> base_model_revision = None)
     then Inl (ValueError ''ModelDeck Q4 release identity is incomplete'')
     else Inr ())"

text \<open>The settings of the template with what the request adds, before the paths.\<close>

definition family_settings :: "generation_family \<Rightarrow> local_request \<Rightarrow> pydict res" where
  "family_settings f r =
     (if f = AUTOREGRESSIVE
      then Inr [(''context_length'', VInt (lr_context_length r)), (''prefix_cache_enabled'', VBool (lr_prefix_cache_enabled r))]
      else if f = VISION_LANGUAGE
      then Inr [(''context_length'', VInt (lr_context_length r)), (''visual_token_budget'', VInt (lr_visual_token_budget r))]
      else if f = TEXT_DIFFUSION
      then Inr [(''maximum_denoising_steps'', VInt (lr_maximum_denoising_steps r))]
      else if f = TEXT_TRANSLATION
      then (case map_of SPEECHSHIFT_LANGUAGES (lr_model_id r) of
          Some (Some s, Some t) \<Rightarrow> Inr [(''source_language'', VStr s), (''target_language'', VStr t)]
        | _ \<Rightarrow> Inl (ValueError ''The translation direction is not allowlisted''))
      else if f = SPEECH_SYNTHESIS
      then Inr [(''allowed_voices'', VStr (join '','' QWEN_TTS_VOICES)),
                (''allowed_languages'', VStr (join '','' QWEN_TTS_LANGUAGES))]
      else if f = SPEECH_RECOGNITION
      then (case map_of SPEECHSHIFT_LANGUAGES (lr_model_id r) of
          Some (Some s, _) \<Rightarrow> if s = ''en'' then Inr [] else Inl (ValueError ''The speech-recognition model is not allowlisted'')
        | _ \<Rightarrow> Inl (ValueError ''The speech-recognition model is not allowlisted''))
      else Inr [])"

definition local_settings :: "runtime_template \<Rightarrow> local_request \<Rightarrow> string option \<Rightarrow> pydict res" where
  "local_settings t r candidate =
     (let approved = eq_str (dget (rt_settings t) ''runtime_profile'') ''qwen35-approved-q8-vulkan'';
          f = rt_generation_family t in
      if approved \<and> candidate = None
      then Inl (ValueError ''This runtime requires an approved local Qwen candidate'')
      else rbind (family_settings f r) (\<lambda>fs. Inr (merged (rt_settings t)
        ((case candidate of Some c \<Rightarrow> if approved then [(''candidate_manifest_id'', VStr c)] else [] | None \<Rightarrow> [])
         @ (if lr_model_id r = ''google/gemma-4-12B-it'' then [(''hardware_verification_required'', VBool True)] else [])
         @ (if f \<in> {AUTOREGRESSIVE, VISION_LANGUAGE, TEXT_DIFFUSION, TEXT_TRANSLATION}
            then [(''maximum_new_tokens'', VInt (lr_maximum_new_tokens r))] else [])
         @ fs))))"

definition path_settings :: "runtime_template \<Rightarrow> string \<Rightarrow> string option \<Rightarrow> string option \<Rightarrow> pydict res" where
  "path_settings t cache_root checkpoint_dir artifact_path =
     (let roots = (if rt_include_cache_root t then [(''cache_root'', VStr cache_root)] else []) in
      if rt_cache_setting t = ''artifact_path''
      then (case artifact_path of
          None \<Rightarrow> Inl (ValueError ''This runtime requires a discovered allowlisted artefact'')
        | Some p \<Rightarrow> Inr ((rt_cache_setting t, VStr p) # roots))
      else Inr ((rt_cache_setting t, VStr (case checkpoint_dir of Some c \<Rightarrow> c | None \<Rightarrow> cache_root)) # roots))"

definition local_capabilities :: "runtime_template \<Rightarrow> local_request \<Rightarrow> capability_set" where
  "local_capabilities t r =
     (if rt_generation_family t = AUTOREGRESSIVE \<and> supports_application_managed_prefix_cache (lr_model_id r)
      then (rt_capabilities t)\<lparr>cs_prefix_caching := ''application-managed'',
             cs_prefix_cache_enabled := lr_prefix_cache_enabled r\<rparr>
      else rt_capabilities t)"

definition LLAMA_PROFILE_DTYPES :: "(string \<times> string) list" where
  "LLAMA_PROFILE_DTYPES = [(''qwen35-4b-q8-vulkan'', ''q8_0''), (''qwen35-approved-q8-vulkan'', ''q8_0''),
     (''qwen38-q8-mtp-vulkan'', ''q8_0''), (''qwen38-q4-mtp-vulkan'', ''q4_k_m'')]"

definition local_dtype :: "(pyval \<Rightarrow> string) \<Rightarrow> runtime_template \<Rightarrow> local_request \<Rightarrow> pydict \<Rightarrow> string res" where
  "local_dtype rp t r settings =
     (if rt_runtime t \<in> {''qwen35-llamacpp-vulkan'', ''qwen38-llamacpp-vulkan''}
      then rbind (py_index (VDict settings) ''runtime_profile'') (\<lambda>v.
        case map_of LLAMA_PROFILE_DTYPES (py_str rp v) of Some d \<Rightarrow> Inr d | None \<Rightarrow> Inl (KeyError (py_str rp v)))
      else (case rt_dtype t of Some d \<Rightarrow> if d = [] then Inr (lr_dtype r) else Inr d | None \<Rightarrow> Inr (lr_dtype r)))"

text \<open>\<open>fallback\<close> is the packaged registry, read when the given one is empty.\<close>

definition create_local_profile ::
  "(pyval \<Rightarrow> string) \<Rightarrow> bool \<Rightarrow> (string \<times> template_registration) list \<Rightarrow> (string \<times> template_registration) list
     \<Rightarrow> local_request \<Rightarrow> string \<Rightarrow> int \<Rightarrow> string \<Rightarrow> string option \<Rightarrow> string option \<Rightarrow> string option
     \<Rightarrow> string option \<Rightarrow> string option \<Rightarrow> model_profile res" where
  "create_local_profile rp harness fallback registrations r cache_root port support
       checkpoint_dir base_model_id base_model_revision artifact_path candidate =
     (case map_of (if registrations = [] then fallback else registrations) support of
        None \<Rightarrow> Inl (ValueError ''No allowlisted local worker supports this model architecture'')
      | Some registration \<Rightarrow>
        (let t = tr_template registration; base = rt_uses_base_model_identity t in
         rbind (template_checks t r checkpoint_dir base_model_id base_model_revision) (\<lambda>_.
         rbind (local_settings t r candidate) (\<lambda>s.
         rbind (path_settings t cache_root checkpoint_dir artifact_path) (\<lambda>paths.
         let settings = merged s paths in
         rbind (local_dtype rp t r settings) (\<lambda>dtype.
           validate_profile harness
            \<lparr>mp_id = ''local-'' @ (case lr_profile_name r of Some n \<Rightarrow> if n = [] then lr_alias r else n | None \<Rightarrow> lr_alias r),
             mp_model_id = (case base_model_id of Some i \<Rightarrow> if base then i else lr_model_id r | None \<Rightarrow> lr_model_id r),
             mp_revision = (case base_model_revision of Some i \<Rightarrow> if base then i else lr_revision r | None \<Rightarrow> lr_revision r),
             mp_artifact_model_id = (if base then Some (lr_model_id r) else None),
             mp_artifact_revision = (if base then Some (lr_revision r) else None),
             mp_alias = lr_alias r,
             mp_generation_family = rt_generation_family t,
             mp_preferred_runtime = rt_runtime t,
             mp_runtime_template_id = Some (rt_id t),
             mp_runtime_template_version = Some (mi_version (tr_package registration)),
             mp_lifecycle = (case rt_lifecycle t of Some l \<Rightarrow> l | None \<Rightarrow> lr_lifecycle r),
             mp_port = port, mp_local_files_only = True, mp_trust_remote_code = False,
             mp_dtype = dtype, mp_capabilities = local_capabilities t r, mp_settings = settings\<rparr>))))))"

end
