(* ===== verification/Management.thy ===== *)
theory Management
  imports Local_Profiles Store Supervisor
begin

text \<open>
  The management process: the handlers of \<open>v2_api.py\<close> that configure workers and routing profiles,
  and the model policies of \<open>main.py\<close>. The state is the store, the definitions in memory
  (\<open>app.state.worker_definitions\<close>) and the supervisor of \<open>Supervisor\<close>. A handler that does not
  suspend is one function; creating and archiving a worker suspend once and are two. What the
  handlers read of their surroundings (settings, catalogue, registry, clock, fresh identifiers, the
  typing of documents by the validation library) is an argument.
\<close>

section \<open>Answers\<close>

text \<open>\<open>HTTPException\<close> answers the client; any other exception leaves the handler.\<close>

datatype api_error = HTTPException int pyval | Raised py_error

type_synonym 'a answer = "api_error + 'a"

definition raised :: "'a res \<Rightarrow> 'a answer" where
  "raised r = (case r of Inl e \<Rightarrow> Inl (Raised e) | Inr x \<Rightarrow> Inr x)"

definition refused :: "int \<Rightarrow> string \<Rightarrow> 'a answer" where
  "refused code detail = Inl (HTTPException code (VStr detail))"

text \<open>\<open>except ValueError as error: raise HTTPException(code, str(error))\<close>.\<close>

definition catches_value_error :: "int \<Rightarrow> 'a res \<Rightarrow> 'a answer" where
  "catches_value_error code r = (case r of
     Inr x \<Rightarrow> Inr x | Inl (ValueError m) \<Rightarrow> refused code m | Inl e \<Rightarrow> Inl (Raised e))"

definition catches_runtime_error :: "int \<Rightarrow> 'a res \<Rightarrow> 'a answer" where
  "catches_runtime_error code r = (case r of
     Inr x \<Rightarrow> Inr x | Inl (RuntimeError m) \<Rightarrow> refused code m | Inl e \<Rightarrow> Inl (Raised e))"

lemma raised_simps [simp]: "raised (Inl e) = Inl (Raised e)" "raised (Inr x) = Inr x"
  by (simp_all add: raised_def)

lemma raised_eq_Inr [simp]: "raised r = Inr x \<longleftrightarrow> r = Inr x"
  by (cases r) simp_all

lemma refused_eq_Inr [simp]: "refused c d \<noteq> Inr x"
  by (simp add: refused_def)

lemma catches_value_error_eq_Inr [simp]: "catches_value_error c r = Inr x \<longleftrightarrow> r = Inr x"
  by (auto simp: catches_value_error_def refused_def split: sum.splits py_error.splits)

lemma catches_runtime_error_eq_Inr [simp]: "catches_runtime_error c r = Inr x \<longleftrightarrow> r = Inr x"
  by (auto simp: catches_runtime_error_def refused_def split: sum.splits py_error.splits)

fun filter_res :: "('a \<Rightarrow> 'e + bool) \<Rightarrow> 'a list \<Rightarrow> 'e + 'a list" where
  "filter_res P [] = Inr []"
| "filter_res P (x # xs) = rbind (P x) (\<lambda>b. rbind (filter_res P xs) (\<lambda>ys. Inr (if b then x # ys else ys)))"

section \<open>Surroundings and state\<close>

text \<open>What the handlers read of a model in the local cache.\<close>

record artifact =
  af_artifact_id :: string
  af_filenames :: "string list"
  af_candidate_manifest_id :: "string option"
  af_format :: pyval
  af_sha256 :: pyval

record potential_capability =
  pt_id :: string
  pt_protocol_contract_id :: "string option"

record cached_model =
  cm_model_id :: string
  cm_revision :: string
  cm_download_state :: string
  cm_potential_capabilities :: "potential_capability list"
  cm_configuration_support :: "string option"
  cm_cache_location :: string
  cm_snapshot_location :: string
  cm_maximum_context_length :: "int option"
  cm_base_model_id :: "string option"
  cm_base_model_revision :: "string option"
  cm_artifacts :: "artifact list"

text \<open>\<open>su_worker_fields\<close> and \<open>su_profile_fields\<close> type the fields of a document; the validators of the
  source run on what they return. \<open>su_packaged\<close> is the packaged registry, \<open>su_resolve\<close> the file
  system's \<open>Path.resolve\<close>.\<close>

record surroundings =
  su_repr :: "pyval \<Rightarrow> string"
  su_digest :: "pydict \<Rightarrow> string"
  su_bool :: "pyval \<Rightarrow> bool res"
  su_worker_fields :: "pyval \<Rightarrow> worker_definition res"
  su_profile_fields :: "pyval \<Rightarrow> routing_profile res"
  su_harness :: bool
  su_configuration_locked :: bool
  su_now :: string
  su_uuid :: string
  su_models :: "cached_model list"
  su_registrations :: "(string \<times> template_registration) list"
  su_packaged :: "(string \<times> template_registration) list"
  su_resolve :: "string \<Rightarrow> string"

record management =
  mg_store :: store
  mg_definitions :: "(string \<times> worker_definition) list"
  mg_supervisor :: supervisor

definition require_mutable :: "surroundings \<Rightarrow> unit answer" where
  "require_mutable su = (if su_configuration_locked su
     then refused 423 ''Configuration is locked by the local deployment policy'' else Inr ())"

definition require_definition :: "management \<Rightarrow> string \<Rightarrow> worker_definition answer" where
  "require_definition m wid = (case map_of (mg_definitions m) wid of
     None \<Rightarrow> refused 404 ''Unknown Worker'' | Some w \<Rightarrow> Inr w)"

section \<open>Documents\<close>

definition worker_model_validate :: "surroundings \<Rightarrow> pyval \<Rightarrow> worker_definition res" where
  "worker_model_validate su v = rbind (su_worker_fields su v) validate_worker"

definition qualification_value :: "event_qualification \<Rightarrow> string" where
  "qualification_value q = (case q of Compatible \<Rightarrow> ''compatible'' | TestedWorking \<Rightarrow> ''tested-working'')"

definition binding_dump :: "capability_binding \<Rightarrow> pydict" where
  "binding_dump b =
     [(''id'', VStr (cb_id b)), (''display_name'', VStr (cb_display_name b)), (''public_name'', VStr (cb_public_name b)),
      (''protocol_contract'', VStr (cb_protocol_contract b)),
      (''tool_calling_enabled'', VBool (cb_tool_calling_enabled b)),
      (''worker_ids'', VList (map VStr (cb_worker_ids b)))]"

definition routing_dump :: "routing_profile \<Rightarrow> pydict" where
  "routing_dump p =
     [(''id'', VStr (rpf_id p)), (''name'', VStr (rpf_name p)), (''description'', VStr (rpf_description p)),
      (''qualification'', VStr (qualification_value (rpf_qualification p))),
      (''capabilities'', VList (map (\<lambda>b. VDict (binding_dump b)) (rpf_capabilities p)))]"

definition profile_model_validate :: "surroundings \<Rightarrow> pyval \<Rightarrow> routing_profile res" where
  "profile_model_validate su v = rbind (su_profile_fields su v) (\<lambda>p. rbind (validate_routing_model p) (\<lambda>_. Inr p))"

text \<open>A row of \<open>list_tests\<close> as the dictionary that the validation reads.\<close>

definition test_dict :: "test_record \<Rightarrow> pydict" where
  "test_dict t = (let e = tr_entry t in
     [(''id'', VInt (int (te_id e))), (''fingerprint'', VStr (te_fingerprint e)), (''result'', VStr (te_result e)),
      (''failure_class'', opt_str (te_failure_class e)), (''evidence'', tr_evidence t), (''tested_at'', VStr (te_tested_at e)),
      (''fingerprint_version'', VInt (tr_fingerprint_version t)), (''evidence_status'', VStr (tr_evidence_status t)),
      (''observations'', VList (map (\<lambda>(ob, v). VDict [(''id'', VInt (int (ob_id ob))), (''test_id'', VInt (int (ob_test_id ob))),
         (''kind'', VStr (ob_kind ob)), (''observation'', v), (''observed_at'', VStr (ob_observed_at ob))])
         (tr_observations t)))])"

section \<open>Reading workers\<close>

text \<open>\<open>record["definition"].get("id") in app.state.worker_definitions\<close>.\<close>

definition known_id :: "management \<Rightarrow> pyval \<Rightarrow> bool res" where
  "known_id m v = (case v of
     VStr i \<Rightarrow> Inr (dhas (mg_definitions m) i)
   | VList _ \<Rightarrow> Inl (TypeError ''unhashable type'')
   | VDict _ \<Rightarrow> Inl (TypeError ''unhashable type'')
   | _ \<Rightarrow> Inr False)"

definition worker_records :: "bool \<Rightarrow> management \<Rightarrow> (string \<times> worker_entry) list res" where
  "worker_records include_archived m =
     filter_res (\<lambda>(_, w). known_id m (dget (worker_document (we_document w)) ''id''))
       (list_workers_rows include_archived (mg_store m))"

record worker_response =
  wp_definition :: worker_definition
  wp_state :: string
  wp_process :: "worker_view option"
  wp_created_at :: string
  wp_updated_at :: string
  wp_archived_at :: "string option"

text \<open>The response asks the supervisor, which notes the processes that have exited.\<close>

definition respond :: "surroundings \<Rightarrow> pyval \<Rightarrow> worker_entry \<Rightarrow> management \<Rightarrow> worker_response res \<times> management" where
  "respond su document row m = (case worker_model_validate su document of
     Inl e \<Rightarrow> (Inl e, m)
   | Inr w \<Rightarrow>
     if \<not> dhas (sv_workers (mg_supervisor m)) (wd_id w)
     then (Inr \<lparr>wp_definition = w, wp_state = ''archived'', wp_process = None, wp_created_at = we_created_at row,
             wp_updated_at = we_updated_at row, wp_archived_at = we_archived_at row\<rparr>, m)
     else (case get_worker (wd_id w) (mg_supervisor m) of (r, s) \<Rightarrow>
       (rbind r (\<lambda>v. Inr \<lparr>wp_definition = w, wp_state = worker_state_value (wv_state v), wp_process = Some v,
             wp_created_at = we_created_at row, wp_updated_at = we_updated_at row, wp_archived_at = we_archived_at row\<rparr>),
        m\<lparr>mg_supervisor := s\<rparr>)))"

fun respond_all ::
  "surroundings \<Rightarrow> (string \<times> worker_entry) list \<Rightarrow> management \<Rightarrow> worker_response list res \<times> management" where
  "respond_all su [] m = (Inr [], m)"
| "respond_all su ((i, w) # rows) m =
     (case respond su (VDict (worker_document (we_document w))) w m of
        (Inl e, m1) \<Rightarrow> (Inl e, m1)
      | (Inr x, m1) \<Rightarrow> (case respond_all su rows m1 of (r, m2) \<Rightarrow> (rbind r (\<lambda>xs. Inr (x # xs)), m2)))"

definition list_workers_handler :: "surroundings \<Rightarrow> management \<Rightarrow> worker_response list answer \<times> management" where
  "list_workers_handler su m = (case worker_records False m of
     Inl e \<Rightarrow> (Inl (Raised e), m)
   | Inr rows \<Rightarrow> (case respond_all su rows m of (r, m1) \<Rightarrow> (raised r, m1)))"

text \<open>The stored row of a worker as a response; a row that vanished cannot be read.\<close>

definition respond_stored :: "surroundings \<Rightarrow> string \<Rightarrow> management \<Rightarrow> worker_response answer \<times> management" where
  "respond_stored su wid m = (case get_worker_definition wid (mg_store m) of
     Inl e \<Rightarrow> (Inl (Raised e), m)
   | Inr None \<Rightarrow> (Inl (Raised (TypeError ''NoneType'')), m)
   | Inr (Some (v, w)) \<Rightarrow> (case respond su v w m of (r, m1) \<Rightarrow> (raised r, m1)))"

definition get_worker_handler :: "surroundings \<Rightarrow> string \<Rightarrow> management \<Rightarrow> worker_response answer \<times> management" where
  "get_worker_handler su wid m = (case require_definition m wid of
     Inl e \<Rightarrow> (Inl e, m)
   | Inr _ \<Rightarrow> (case get_worker_definition wid (mg_store m) of
       Inr None \<Rightarrow> (refused 404 ''Unknown Worker'', m)
     | _ \<Rightarrow> respond_stored su wid m))"

section \<open>Creating a worker\<close>

definition LOCAL_PORT_RANGE :: "int list" where
  "LOCAL_PORT_RANGE = [8630..8699]"

definition DEFAULT_VISUAL_TOKEN_BUDGET :: int where
  "DEFAULT_VISUAL_TOKEN_BUDGET = 280"

record worker_create =
  wc_name :: string
  wc_model_id :: string
  wc_revision :: string
  wc_dtype :: "string option"
  wc_lifecycle :: "lifecycle_class option"
  wc_context_length :: "int option"
  wc_maximum_new_tokens :: "int option"
  wc_maximum_denoising_steps :: "int option"
  wc_visual_token_budget :: "int option"
  wc_artifact_id :: "string option"
  wc_runtime_template_id :: "string option"
  wc_prefix_cache_enabled :: bool
  wc_capability_id :: "string option"

definition opt_all :: "('a \<Rightarrow> bool) \<Rightarrow> 'a option \<Rightarrow> bool" where
  "opt_all P x = (case x of None \<Rightarrow> True | Some y \<Rightarrow> P y)"

definition validate_create :: "worker_create \<Rightarrow> worker_create res" where
  "validate_create r =
     (if \<not> label_length (wc_name r) then Inl (ValueError ''name'')
      else if \<not> (3 \<le> length (wc_model_id r) \<and> length (wc_model_id r) \<le> 256) then Inl (ValueError ''model_id'')
      else if \<not> (1 \<le> length (wc_revision r) \<and> length (wc_revision r) \<le> 128) then Inl (ValueError ''revision'')
      else if \<not> opt_all (\<lambda>d. d \<in> {''float16'', ''bfloat16'', ''float32''}) (wc_dtype r) then Inl (ValueError ''dtype'')
      else if \<not> opt_all (\<lambda>n. 256 \<le> n \<and> n \<le> 32768) (wc_context_length r) then Inl (ValueError ''context_length'')
      else if \<not> opt_all (\<lambda>n. 1 \<le> n \<and> n \<le> MAXIMUM_NEW_TOKENS_LIMIT) (wc_maximum_new_tokens r)
      then Inl (ValueError ''maximum_new_tokens'')
      else if \<not> opt_all (\<lambda>n. 1 \<le> n \<and> n \<le> 48) (wc_maximum_denoising_steps r)
      then Inl (ValueError ''maximum_denoising_steps'')
      else if \<not> opt_all (\<lambda>n. n \<in> set ALLOWED_VISUAL_TOKEN_BUDGETS) (wc_visual_token_budget r)
      then Inl (ValueError ''visual_token_budget'')
      else if \<not> opt_alias (wc_artifact_id r) then Inl (ValueError ''artifact_id'')
      else if \<not> opt_alias (wc_runtime_template_id r) then Inl (ValueError ''runtime_template_id'')
      else if \<not> opt_alias (wc_capability_id r) then Inl (ValueError ''capability_id'')
      else Inr r)"

definition integer_template_default :: "pydict \<Rightarrow> string \<Rightarrow> int \<Rightarrow> int" where
  "integer_template_default settings name fallback = (case dget settings name of VInt n \<Rightarrow> n | _ \<Rightarrow> fallback)"

text \<open>\<open>request.field or default\<close>: zero counts as absent.\<close>

definition int_or :: "int option \<Rightarrow> int \<Rightarrow> int" where
  "int_or x d = (case x of Some n \<Rightarrow> if n = 0 then d else n | None \<Rightarrow> d)"

definition str_or :: "string option \<Rightarrow> string option \<Rightarrow> string option" where
  "str_or x d = (case x of Some t \<Rightarrow> if t = [] then d else Some t | None \<Rightarrow> d)"

definition default_runtime_template_id :: "string option \<Rightarrow> string option \<Rightarrow> string option" where
  "default_runtime_template_id support capability =
     (if support \<noteq> Some ''scenechat-qwen38-fp8'' then support
      else if capability \<in> {Some ''general-chat'', Some ''text-completion''} then Some ''qwen35-chat-transformers-rocm''
      else Some ''scenechat-qwen35'')"

definition validate_model_context_length :: "cached_model \<Rightarrow> int \<Rightarrow> unit answer" where
  "validate_model_context_length c n = (case cm_maximum_context_length c of
     None \<Rightarrow> Inr ()
   | Some maximum \<Rightarrow> if maximum < n
       then refused 422 (''The selected Model supports at most '' @ show_int maximum @ '' context tokens.'') else Inr ())"

text \<open>The complete pinned snapshot of a model.\<close>

definition installed_model :: "surroundings \<Rightarrow> string \<Rightarrow> string \<Rightarrow> cached_model option" where
  "installed_model su model_id revision = List.find (\<lambda>c. cm_model_id c = model_id \<and> cm_revision c = revision
     \<and> cm_download_state c = ''installed-untested'') (su_models su)"

definition templates :: "surroundings \<Rightarrow> (string \<times> runtime_template) list" where
  "templates su = map (\<lambda>(i, r). (i, tr_template r)) (su_registrations su)"

definition candidate_templates :: "surroundings \<Rightarrow> cached_model \<Rightarrow> string \<Rightarrow> string list" where
  "candidate_templates su c capability =
     compatible_runtime_template_ids capability (cm_configuration_support c) (templates su)"

definition offers :: "cached_model \<Rightarrow> string \<Rightarrow> bool" where
  "offers c capability = list_ex (\<lambda>x. pt_id x = capability) (cm_potential_capabilities c)"

definition capability_gate :: "surroundings \<Rightarrow> management \<Rightarrow> worker_create \<Rightarrow> cached_model \<Rightarrow> string option \<Rightarrow> unit answer" where
  "capability_gate su m r c template = (case wc_capability_id r of
     Some cap \<Rightarrow>
       if \<not> offers c cap then refused 409 ''That capability is not recognised for this Model''
       else if \<not> model_capability_allowed (wc_model_id r) (wc_revision r) cap (mg_store m)
       then refused 409 ''Allow this capability before creating a Worker''
       else if template \<notin> Some ` set (candidate_templates su c cap)
       then refused 409 ''Select a trusted runtime listed for the requested capability''
       else Inr ()
   | None \<Rightarrow>
       if list_ex (\<lambda>x. template \<in> Some ` set (candidate_templates su c (pt_id x))
            \<and> model_capability_allowed (wc_model_id r) (wc_revision r) (pt_id x) (mg_store m)) (cm_potential_capabilities c)
       then Inr ()
       else refused 409 ''Allow a capability exposed by the selected runtime, or supply capability_id'')"

text \<open>What the first part of the handler settles before the release is verified.\<close>

record create_plan =
  cp_name :: string
  cp_cached :: cached_model
  cp_template_id :: string
  cp_registration :: template_registration
  cp_context_length :: int
  cp_checkpoint_dir :: "string option"
  cp_artifact_path :: "string option"
  cp_candidate_manifest_id :: "string option"

definition spaced_name :: "string \<Rightarrow> string" where
  "spaced_name n = join '' '' (py_words n)"

definition path_parent :: "string \<Rightarrow> string" where
  "path_parent p = (let h = rev (dropWhile (\<lambda>c. c \<noteq> CHR ''/'') (rev p)) in
     if h = [] then ''.'' else if butlast h = [] then ''/'' else butlast h)"

definition plan_artifact :: "worker_create \<Rightarrow> cached_model \<Rightarrow> runtime_template \<Rightarrow> (string option \<times> string option) answer" where
  "plan_artifact r c t =
     (if rt_cache_setting t \<noteq> ''artifact_path'' then Inr (None, None)
      else (case List.find (\<lambda>a. Some (af_artifact_id a) = wc_artifact_id r) (cm_artifacts c) of
        None \<Rightarrow> refused 409 ''Select a discovered allowlisted artefact''
      | Some a \<Rightarrow> (case af_filenames a of
          [] \<Rightarrow> Inl (Raised (IndexError ''list index out of range''))
        | f # _ \<Rightarrow> Inr (Some (path_join (cm_snapshot_location c) f), af_candidate_manifest_id a))))"

definition same_name :: "string \<Rightarrow> string \<times> worker_entry \<Rightarrow> bool res" where
  "same_name name e = (case e of (_, w) \<Rightarrow>
     rbind (py_index (VDict (worker_document (we_document w))) ''name'') (\<lambda>n. case n of
       VStr t \<Rightarrow> Inr (casefold t = casefold name) | _ \<Rightarrow> Inl (AttributeError ''casefold'')))"

definition create_plan_of :: "surroundings \<Rightarrow> worker_create \<Rightarrow> management \<Rightarrow> create_plan answer" where
  "create_plan_of su r m =
     rbind (require_mutable su) (\<lambda>_.
     if wc_prefix_cache_enabled r \<and> \<not> supports_application_managed_prefix_cache (wc_model_id r)
     then refused 409 ''Application-managed prefix caching is not qualified for this Worker''
     else rbind (raised (rbind (worker_records False m) (first_match (same_name (spaced_name (wc_name r)))))) (\<lambda>taken.
     if taken \<noteq> None then refused 409 ''A Worker with that name already exists''
     else (case installed_model su (wc_model_id r) (wc_revision r) of
       None \<Rightarrow> refused 409 ''The requested pinned snapshot is not complete in the local cache''
     | Some c \<Rightarrow>
       if \<not> model_cache_allowed (wc_model_id r) (wc_revision r) (mg_store m)
       then refused 409 ''Allow this cached Model before creating a Worker''
       else (let template = str_or (wc_runtime_template_id r)
                   (default_runtime_template_id (cm_configuration_support c) (wc_capability_id r)) in
         rbind (capability_gate su m r c template) (\<lambda>_.
         case (case template of None \<Rightarrow> None | Some t \<Rightarrow> if t = [] then None else map_of (su_registrations su) t) of
           None \<Rightarrow> refused 409 ''Select an installed trusted runtime''
         | Some reg \<Rightarrow>
           (let t = tr_template reg;
                n = int_or (wc_context_length r) (integer_template_default (rt_settings t) ''context_length'' 2048) in
            rbind (validate_model_context_length c n) (\<lambda>_.
            rbind (plan_artifact r c t) (\<lambda>(path, candidate).
              Inr \<lparr>cp_name = spaced_name (wc_name r), cp_cached = c,
                   cp_template_id = (case template of Some i \<Rightarrow> i | None \<Rightarrow> []), cp_registration = reg,
                   cp_context_length = n,
                   cp_checkpoint_dir = (if rt_cache_setting t = ''q4_checkpoint_dir'' then Some (cm_snapshot_location c) else None),
                   cp_artifact_path = path, cp_candidate_manifest_id = candidate\<rparr>))))))))"

text \<open>\<open>int(record["definition"]["port"])\<close> of every known worker.\<close>

definition used_ports :: "management \<Rightarrow> int list res" where
  "used_ports m = rbind (worker_records True m) (map_res (\<lambda>(_, w).
     rbind (py_index (VDict (worker_document (we_document w))) ''port'') py_int_of))"

definition local_request_of :: "worker_create \<Rightarrow> create_plan \<Rightarrow> string \<Rightarrow> local_request" where
  "local_request_of r p internal = (let t = tr_template (cp_registration p); s = rt_settings t in
     \<lparr>lr_model_id = wc_model_id r, lr_revision = wc_revision r, lr_alias = internal, lr_profile_name = Some internal,
      lr_dtype = (case str_or (wc_dtype r) (rt_dtype t) of Some d \<Rightarrow> if d = [] then ''float16'' else d | None \<Rightarrow> ''float16''),
      lr_lifecycle = (case wc_lifecycle r of Some l \<Rightarrow> l | None \<Rightarrow> (case rt_lifecycle t of Some l \<Rightarrow> l | None \<Rightarrow> ON_DEMAND)),
      lr_context_length = cp_context_length p,
      lr_maximum_new_tokens = int_or (wc_maximum_new_tokens r) (integer_template_default s ''maximum_new_tokens'' 128),
      lr_maximum_denoising_steps = int_or (wc_maximum_denoising_steps r) (integer_template_default s ''maximum_denoising_steps'' 24),
      lr_visual_token_budget = int_or (wc_visual_token_budget r)
        (integer_template_default s ''visual_token_budget'' DEFAULT_VISUAL_TOKEN_BUDGET),
      lr_artifact_id = wc_artifact_id r, lr_runtime_template_id = wc_runtime_template_id r,
      lr_prefix_cache_enabled = wc_prefix_cache_enabled r\<rparr>)"

definition new_definition :: "surroundings \<Rightarrow> worker_create \<Rightarrow> create_plan \<Rightarrow> management \<Rightarrow> worker_definition answer" where
  "new_definition su r p m =
     rbind (raised (used_ports m)) (\<lambda>used.
     case List.find (\<lambda>n. n \<notin> set used) LOCAL_PORT_RANGE of
       None \<Rightarrow> refused 409 ''No local ModelDeck Worker ports are available''
     | Some port \<Rightarrow>
       rbind (raised (validate_local_request (local_request_of r p (''worker-'' @ take 8 (su_uuid su))))) (\<lambda>request.
       rbind (catches_value_error 422 (create_local_profile (su_repr su) (su_harness su) (su_packaged su) (su_registrations su)
           request (path_parent (cm_cache_location (cp_cached p))) port (cp_template_id p) (cp_checkpoint_dir p)
           (cm_base_model_id (cp_cached p)) (cm_base_model_revision (cp_cached p)) (cp_artifact_path p)
           (cp_candidate_manifest_id p))) (\<lambda>profile.
       raised (from_profile (profile\<lparr>mp_id := su_uuid su\<rparr>) (cp_name p)))))"

text \<open>The definition is stored, registered, and taken back when the supervisor refuses it.\<close>

definition install_definition ::
  "surroundings \<Rightarrow> worker_definition \<Rightarrow> management \<Rightarrow> worker_response answer \<times> management" where
  "install_definition su w m =
     (case save_worker_definition (su_repr su) (su_now su) (worker_dump w) (mg_store m) of
        (Inl e, st) \<Rightarrow> (Inl (Raised e), m\<lparr>mg_store := st\<rparr>)
      | (Inr _, st) \<Rightarrow>
        (let m1 = m\<lparr>mg_store := st\<rparr> in
         case (case to_profile (su_harness su) (su_bool su) w of
             Inl e \<Rightarrow> (Inl e, mg_supervisor m1)
           | Inr p \<Rightarrow> register_profile p (mg_supervisor m1)) of
           (Inl (ValueError t), _) \<Rightarrow>
             (refused 409 t, m1\<lparr>mg_store := snd (delete_worker_definition (wd_id w) (mg_store m1))\<rparr>)
         | (Inl e, _) \<Rightarrow> (Inl (Raised e), m1)
         | (Inr _, sv) \<Rightarrow> respond_stored su (wd_id w)
             (m1\<lparr>mg_supervisor := sv, mg_definitions := AList.update (wd_id w) w (mg_definitions m1)\<rparr>)))"

text \<open>The part after the release is verified; \<open>verified\<close> is the error that the verification raised.\<close>

definition create_finishes ::
  "surroundings \<Rightarrow> worker_create \<Rightarrow> create_plan \<Rightarrow> string option \<Rightarrow> management \<Rightarrow> worker_response answer \<times> management" where
  "create_finishes su r p verified m =
     (case (if cp_checkpoint_dir p = None then None else verified) of
        Some e \<Rightarrow> (refused 409 (''ModelDeck Q4 release verification failed: '' @ e), m)
      | None \<Rightarrow> (case new_definition su r p m of
          Inl e \<Rightarrow> (Inl e, m) | Inr w \<Rightarrow> install_definition su w m))"

definition create_worker ::
  "surroundings \<Rightarrow> worker_create \<Rightarrow> string option \<Rightarrow> management \<Rightarrow> worker_response answer \<times> management" where
  "create_worker su r verified m = (case create_plan_of su r m of
     Inl e \<Rightarrow> (Inl e, m) | Inr p \<Rightarrow> create_finishes su r p verified m)"

section \<open>Renaming, usage, archiving, replacing\<close>

text \<open>\<open>model_copy\<close> does not validate the new name.\<close>

definition rename_worker :: "surroundings \<Rightarrow> string \<Rightarrow> string \<Rightarrow> management \<Rightarrow> worker_response answer \<times> management" where
  "rename_worker su wid name m = (case rbind (require_mutable su) (\<lambda>_. require_definition m wid) of
     Inl e \<Rightarrow> (Inl e, m)
   | Inr _ \<Rightarrow> (case get_worker_definition wid (mg_store m) of
       Inl e \<Rightarrow> (Inl (Raised e), m)
     | Inr None \<Rightarrow> (refused 404 ''Unknown Worker'', m)
     | Inr (Some (v, _)) \<Rightarrow> (case worker_model_validate su v of
         Inl e \<Rightarrow> (Inl (Raised e), m)
       | Inr w \<Rightarrow>
         (let renamed = w\<lparr>wd_name := spaced_name name\<rparr> in
          case save_worker_definition (su_repr su) (su_now su) (worker_dump renamed) (mg_store m) of
            (Inl e, st) \<Rightarrow> (catches_value_error 409 (Inl e), m\<lparr>mg_store := st\<rparr>)
          | (Inr None, st) \<Rightarrow> (Inl (Raised (TypeError ''NoneType'')), m\<lparr>mg_store := st\<rparr>)
          | (Inr (Some (v1, row)), st) \<Rightarrow>
             (case respond su v1 row (m\<lparr>mg_store := st, mg_definitions := AList.update wid renamed (mg_definitions m)\<rparr>) of
               (r, m1) \<Rightarrow> (raised r, m1))))))"

record usage_reference =
  ur_profile_id :: pyval
  ur_profile_name :: pyval
  ur_capability_id :: pyval
  ur_capability_name :: pyval
  ur_kind :: string
  ur_revision :: "int option"

definition capability_reference ::
  "string \<Rightarrow> pyval \<Rightarrow> string \<Rightarrow> int option \<Rightarrow> pyval \<Rightarrow> usage_reference list res" where
  "capability_reference wid profile kind revision c =
     rbind (value_get c ''worker_ids'' (VList [])) (\<lambda>ws. rbind (iterable ws) (\<lambda>ws.
       if VStr wid \<in> set ws
       then rbind (py_index profile ''id'') (\<lambda>i. rbind (py_index profile ''name'') (\<lambda>n.
            rbind (py_index c ''id'') (\<lambda>ci. rbind (py_index c ''display_name'') (\<lambda>cn.
              Inr [\<lparr>ur_profile_id = i, ur_profile_name = n, ur_capability_id = ci, ur_capability_name = cn,
                    ur_kind = kind, ur_revision = revision\<rparr>]))))
       else Inr []))"

definition document_references ::
  "string \<Rightarrow> pyval \<Rightarrow> string \<Rightarrow> int option \<Rightarrow> pyval \<Rightarrow> usage_reference list res" where
  "document_references wid profile kind revision document =
     rbind (value_get document ''capabilities'' (VList [])) (\<lambda>cs. rbind (iterable cs) (\<lambda>cs.
     rbind (map_res (capability_reference wid profile kind revision) cs) (\<lambda>rs. Inr (concat rs))))"

definition id_text :: "pyval \<Rightarrow> string res" where
  "id_text v = rbind (py_index v ''id'') (\<lambda>i. case i of VStr t \<Rightarrow> Inr t | _ \<Rightarrow> Inl (TypeError ''id''))"

definition profile_references :: "string \<Rightarrow> management \<Rightarrow> profile_record \<Rightarrow> usage_reference list res" where
  "profile_references wid m p =
     (let d = pr_definition p in
      rbind (document_references wid d ''draft'' None d) (\<lambda>drafts.
      rbind (id_text d) (\<lambda>i. rbind (list_routing_profile_revisions i (mg_store m)) (\<lambda>rs.
      rbind (map_res (\<lambda>r. document_references wid d (if rv_active r then ''active'' else ''history'')
          (Some (rv_revision r)) (rv_definition r)) rs) (\<lambda>published. Inr (drafts @ concat published))))))"

definition worker_usage :: "string \<Rightarrow> management \<Rightarrow> usage_reference list res" where
  "worker_usage wid m = rbind (list_routing_profiles (mg_store m)) (\<lambda>ps.
     rbind (map_res (profile_references wid m) ps) (\<lambda>rs. Inr (concat rs)))"

definition blocking :: "usage_reference list \<Rightarrow> usage_reference list" where
  "blocking rs = filter (\<lambda>r. ur_kind r \<noteq> ''history'') rs"

definition reference_dict :: "usage_reference \<Rightarrow> pyval" where
  "reference_dict r = VDict ([(''profile_id'', ur_profile_id r), (''profile_name'', ur_profile_name r),
     (''capability_id'', ur_capability_id r), (''capability_name'', ur_capability_name r), (''kind'', VStr (ur_kind r))]
     @ (case ur_revision r of None \<Rightarrow> [] | Some n \<Rightarrow> [(''revision'', VInt n)]))"

definition usage_dict :: "string \<Rightarrow> usage_reference list \<Rightarrow> pydict" where
  "usage_dict wid rs = [(''worker_id'', VStr wid), (''references'', VList (map reference_dict rs)),
     (''blocking_references'', VList (map reference_dict (blocking rs))), (''archivable'', VBool (blocking rs = []))]"

text \<open>What the supervisor raised, as the handler's exception.\<close>

definition exn_error :: "exn \<Rightarrow> py_error" where
  "exn_error e = (if fst e = ''KeyError'' then KeyError (butlast (tl (snd e))) else RuntimeError (snd e))"

text \<open>Archiving, up to the call of the supervisor, which waits for the worker's lock; and from its
  return.\<close>

definition archive_begins :: "surroundings \<Rightarrow> string \<Rightarrow> management \<Rightarrow> unit answer \<times> management" where
  "archive_begins su wid m = (case rbind (require_mutable su) (\<lambda>_. require_definition m wid) of
     Inl e \<Rightarrow> (Inl e, m)
   | Inr _ \<Rightarrow> (case get_worker_definition wid (mg_store m) of
       Inl e \<Rightarrow> (Inl (Raised e), m)
     | Inr None \<Rightarrow> (refused 404 ''Unknown Worker'', m)
     | Inr (Some _) \<Rightarrow> (case worker_usage wid m of
         Inl e \<Rightarrow> (Inl (Raised e), m)
       | Inr rs \<Rightarrow>
         if blocking rs \<noteq> []
         then (Inl (HTTPException 409 (VDict ((''message'', VStr ''Reassign this Worker before archiving it'') # usage_dict wid rs))), m)
         else (case get_worker wid (mg_supervisor m) of
             (Inl e, sv) \<Rightarrow> (Inl (Raised e), m\<lparr>mg_supervisor := sv\<rparr>)
           | (Inr v, sv) \<Rightarrow>
             if wv_state v \<notin> {STOPPED, FAILED} then (refused 409 ''Stop the Worker before archiving it'', m\<lparr>mg_supervisor := sv\<rparr>)
             else (case remove_call wid sv of
                 (Raises e, sv1) \<Rightarrow> (Inl (Raised (exn_error e)), m\<lparr>mg_supervisor := sv1\<rparr>)
               | (_, sv1) \<Rightarrow> (Inr (), m\<lparr>mg_supervisor := sv1\<rparr>))))))"

definition archive_finishes :: "surroundings \<Rightarrow> string \<Rightarrow> management \<Rightarrow> management" where
  "archive_finishes su wid m = m\<lparr>mg_store := snd (archive_worker (su_now su) wid (mg_store m)),
     mg_definitions := AList.delete wid (mg_definitions m)\<rparr>"

text \<open>The \<open>n\<close>-th pending removal gets its lock.\<close>

definition archive_resumes :: "surroundings \<Rightarrow> nat \<Rightarrow> management \<Rightarrow> (unit answer \<times> management) option" where
  "archive_resumes su n m = map_option (\<lambda>(r, sv). case r of
       Raises e \<Rightarrow> (Inl (Raised (exn_error e)), m\<lparr>mg_supervisor := sv\<rparr>)
     | _ \<Rightarrow> (Inr (), archive_finishes su (fst (sv_removes (mg_supervisor m) ! n)) (m\<lparr>mg_supervisor := sv\<rparr>)))
     (remove_runs n (mg_supervisor m))"

text \<open>A lock that is free is taken without suspending. \<open>None\<close>: the handler waits.\<close>

definition archive_worker_handler :: "surroundings \<Rightarrow> string \<Rightarrow> management \<Rightarrow> unit answer option \<times> management" where
  "archive_worker_handler su wid m = (case archive_begins su wid m of
     (Inl e, m1) \<Rightarrow> (Some (Inl e), m1)
   | (Inr _, m1) \<Rightarrow> (case archive_resumes su (length (sv_removes (mg_supervisor m))) m1 of
       None \<Rightarrow> (None, m1) | Some (r, m2) \<Rightarrow> (Some r, m2)))"

record worker_replacement =
  wl_name :: string
  wl_dtype :: "string option"
  wl_lifecycle :: "lifecycle_class option"
  wl_context_length :: "int option"
  wl_maximum_new_tokens :: "int option"
  wl_maximum_denoising_steps :: "int option"
  wl_visual_token_budget :: "int option"
  wl_prefix_cache_enabled :: "bool option"
  wl_rebind_drafts :: bool

definition worker_integer_setting :: "worker_definition \<Rightarrow> string \<Rightarrow> int option" where
  "worker_integer_setting w name = (case dget (wd_settings w) name of VInt n \<Rightarrow> Some n | _ \<Rightarrow> None)"

definition replacement_artifact_id :: "surroundings \<Rightarrow> worker_definition \<Rightarrow> string \<Rightarrow> string \<Rightarrow> string option answer" where
  "replacement_artifact_id su w model_id revision =
     (case (case wd_runtime_template_id w of None \<Rightarrow> None | Some t \<Rightarrow> map_of (su_registrations su) t) of
        None \<Rightarrow> refused 409 ''The Worker's trusted runtime is no longer installed''
      | Some reg \<Rightarrow>
        if rt_cache_setting (tr_template reg) \<noteq> ''artifact_path'' then Inr None
        else (case (List.find (\<lambda>c. cm_model_id c = model_id \<and> cm_revision c = revision) (su_models su),
                    dget (wd_settings w) ''artifact_path'') of
            (Some c, VStr path) \<Rightarrow>
              (case List.find (\<lambda>a. list_ex (\<lambda>f. su_resolve su (path_join (cm_snapshot_location c) f) = su_resolve su path)
                    (af_filenames a)) (cm_artifacts c) of
                 Some a \<Rightarrow> Inr (Some (af_artifact_id a))
               | None \<Rightarrow> refused 409 ''The Worker's allowlisted Model artefact could not be identified'')
          | _ \<Rightarrow> refused 409 ''The Worker's allowlisted Model artefact is no longer available''))"

definition or_else_int :: "int option \<Rightarrow> int option \<Rightarrow> int option" where
  "or_else_int x d = (case x of Some n \<Rightarrow> if n = 0 then d else x | None \<Rightarrow> d)"

definition replacement_request ::
  "worker_definition \<Rightarrow> string \<Rightarrow> string \<Rightarrow> string option \<Rightarrow> worker_replacement \<Rightarrow> worker_create res" where
  "replacement_request w model_id revision artifact_id r =
     rbind (case wl_lifecycle r of Some l \<Rightarrow> Inr l | None \<Rightarrow> parse_lifecycle (wd_lifecycle w)) (\<lambda>lifecycle.
     validate_create \<lparr>wc_name = wl_name r, wc_model_id = model_id, wc_revision = revision,
       wc_dtype = str_or (wl_dtype r) (Some (wd_dtype w)), wc_lifecycle = Some lifecycle,
       wc_context_length = or_else_int (wl_context_length r) (worker_integer_setting w ''context_length''),
       wc_maximum_new_tokens = or_else_int (wl_maximum_new_tokens r) (worker_integer_setting w ''maximum_new_tokens''),
       wc_maximum_denoising_steps =
         or_else_int (wl_maximum_denoising_steps r) (worker_integer_setting w ''maximum_denoising_steps''),
       wc_visual_token_budget = or_else_int (wl_visual_token_budget r) (worker_integer_setting w ''visual_token_budget''),
       wc_artifact_id = artifact_id, wc_runtime_template_id = wd_runtime_template_id w,
       wc_prefix_cache_enabled = (case wl_prefix_cache_enabled r of Some b \<Rightarrow> b
         | None \<Rightarrow> py_truthy (dget_or (wd_settings w) ''prefix_cache_enabled'' (VBool False))),
       wc_capability_id = None\<rparr>)"

text \<open>The cached model a worker was made from.\<close>

definition cache_model_id :: "worker_definition \<Rightarrow> string" where
  "cache_model_id w = (case str_or (wd_artifact_model_id w) None of Some i \<Rightarrow> i | None \<Rightarrow> wd_model_id w)"

definition cache_revision :: "worker_definition \<Rightarrow> string" where
  "cache_revision w = (case str_or (wd_artifact_revision w) None of Some i \<Rightarrow> i | None \<Rightarrow> wd_revision w)"

definition replace_worker ::
  "surroundings \<Rightarrow> string \<Rightarrow> worker_replacement \<Rightarrow> string option \<Rightarrow> management
     \<Rightarrow> (worker_response \<times> string list) answer \<times> management" where
  "replace_worker su wid r verified m = (case require_definition m wid of
     Inl e \<Rightarrow> (Inl e, m)
   | Inr w \<Rightarrow>
     if wd_runtime_template_id w = None
     then (refused 409 ''This Worker has no trusted runtime identity to replace'', m)
     else (case rbind (replacement_artifact_id su w (cache_model_id w) (cache_revision w)) (\<lambda>a.
             raised (replacement_request w (cache_model_id w) (cache_revision w) a r)) of
         Inl e \<Rightarrow> (Inl e, m)
       | Inr request \<Rightarrow> (case create_worker su request verified m of
           (Inl e, m1) \<Rightarrow> (Inl e, m1)
         | (Inr x, m1) \<Rightarrow>
           if \<not> wl_rebind_drafts r then (Inr (x, []), m1)
           else (case rebind_routing_profile_drafts (su_now su) wid (wd_id (wp_definition x)) (mg_store m1) of
               (Inl e, st) \<Rightarrow> (Inl (Raised e), m1\<lparr>mg_store := st\<rparr>)
             | (Inr ids, st) \<Rightarrow> (Inr (x, ids), m1\<lparr>mg_store := st\<rparr>)))))"

section \<open>Validation of routing profiles\<close>

definition set_default :: "'k \<Rightarrow> 'v \<Rightarrow> ('k \<times> 'v) list \<Rightarrow> ('k \<times> 'v) list" where
  "set_default k v d = (if map_of d k = None then d @ [(k, v)] else d)"

text \<open>A worker from before the policy is granted what it can do, unless a policy says otherwise.\<close>

definition grandfather :: "surroundings \<Rightarrow> store \<Rightarrow> worker_definition \<Rightarrow> capability_policy \<Rightarrow> capability_policy" where
  "grandfather su s w policy =
     (if wd_capability_policy_version w \<noteq> None then policy
      else (case worker_cache_identity (su_repr su) (worker_dump w) of (i, r) \<Rightarrow>
        if \<not> model_cache_allowed i r s then policy
        else fold (\<lambda>c. set_default (i, r, c) True) (capabilities_for_worker (su_repr su) (worker_dump w)) policy))"

definition effective_policy :: "surroundings \<Rightarrow> management \<Rightarrow> capability_policy" where
  "effective_policy su m =
     fold (grandfather su (mg_store m)) (map snd (mg_definitions m))
       (map (\<lambda>((i, r, c), b). ((i, r, c), b \<and> model_cache_allowed i r (mg_store m))) (st_capability_policy (mg_store m)))"

definition validate_profile_definition :: "surroundings \<Rightarrow> routing_profile \<Rightarrow> management \<Rightarrow> routing_validation res" where
  "validate_profile_definition su p m = rbind (list_tests (mg_store m)) (\<lambda>tests.
     validate_routing_profile (su_repr su) (su_digest su) p (map snd (mg_definitions m)) (map test_dict tests)
       (Some (effective_policy su m)))"

definition routing_profile_definition :: "surroundings \<Rightarrow> string \<Rightarrow> management \<Rightarrow> routing_profile answer" where
  "routing_profile_definition su pid m = rbind (raised (get_routing_profile pid (mg_store m))) (\<lambda>r. case r of
     None \<Rightarrow> refused 404 ''Unknown Routing Profile''
   | Some x \<Rightarrow> raised (profile_model_validate su (pr_definition x)))"

definition validation_dict :: "routing_validation \<Rightarrow> pydict" where
  "validation_dict v =
     [(''valid'', VBool (rv_valid v)),
      (''errors'', VList (map (\<lambda>e. VDict [(''capability_id'', VStr (re_capability_id e)), (''worker_id'', VStr (re_worker_id e)),
         (''message'', VStr (re_message e))]) (rv_errors v))),
      (''warnings'', VList (map (\<lambda>w. VDict [(''message'', VStr w)]) (rv_warnings v))),
      (''capabilities'', VList (map (\<lambda>(c, n, ws). VDict [(''capability_id'', VStr c), (''public_name'', VStr n),
         (''workers'', VList (map (\<lambda>w. VDict [(''worker_id'', VStr (rw_worker_id w)), (''role'', VStr (rw_role w)),
            (''valid'', VBool (rw_valid w))]) ws))]) (rv_capabilities v)))]"

definition invalid_profile :: "routing_validation \<Rightarrow> 'a answer" where
  "invalid_profile v = Inl (HTTPException 409 (VDict [(''message'', VStr ''Routing Profile validation failed''),
     (''validation'', VDict (validation_dict v))]))"

section \<open>Routing profiles\<close>

text \<open>A body that the validation library refuses is answered 422 before the handler runs.\<close>

definition profile_body :: "surroundings \<Rightarrow> pyval \<Rightarrow> routing_profile answer" where
  "profile_body su body = (case profile_model_validate su body of
     Inl _ \<Rightarrow> refused 422 ''body'' | Inr p \<Rightarrow> Inr p)"

definition with_store :: "management \<Rightarrow> 'a res \<times> store \<Rightarrow> 'a answer \<times> management" where
  "with_store m x = (case x of (r, st) \<Rightarrow> (raised r, m\<lparr>mg_store := st\<rparr>))"

definition create_routing_profile ::
  "surroundings \<Rightarrow> pyval \<Rightarrow> management \<Rightarrow> profile_record option answer \<times> management" where
  "create_routing_profile su body m =
     (case rbind (profile_body su body) (\<lambda>p. rbind (require_mutable su) (\<lambda>_.
        rbind (raised (get_routing_profile (rpf_id p) (mg_store m))) (\<lambda>r.
          if r \<noteq> None then refused 409 ''That Routing Profile already exists'' else Inr p))) of
        Inl e \<Rightarrow> (Inl e, m)
      | Inr p \<Rightarrow> with_store m (save_routing_profile_draft (su_repr su) (su_now su) (routing_dump p) (mg_store m)))"

definition save_routing_profile_draft_handler ::
  "surroundings \<Rightarrow> string \<Rightarrow> pyval \<Rightarrow> management \<Rightarrow> profile_record option answer \<times> management" where
  "save_routing_profile_draft_handler su pid body m =
     (case rbind (profile_body su body) (\<lambda>p. rbind (require_mutable su) (\<lambda>_.
        if rpf_id p \<noteq> pid then refused 409 ''The Routing Profile identifier cannot be changed''
        else rbind (raised (get_routing_profile pid (mg_store m))) (\<lambda>r.
          if r = None then refused 404 ''Unknown Routing Profile'' else Inr p))) of
        Inl e \<Rightarrow> (Inl e, m)
      | Inr p \<Rightarrow> with_store m (save_routing_profile_draft (su_repr su) (su_now su) (routing_dump p) (mg_store m)))"

definition discard_draft_handler :: "surroundings \<Rightarrow> string \<Rightarrow> management \<Rightarrow> profile_record option answer \<times> management" where
  "discard_draft_handler su pid m = (case require_mutable su of
     Inl e \<Rightarrow> (Inl e, m)
   | Inr _ \<Rightarrow> (case discard_routing_profile_draft (su_repr su) (su_now su) pid (mg_store m) of
       (r, st) \<Rightarrow> (catches_runtime_error 409 r, m\<lparr>mg_store := st\<rparr>)))"

definition delete_profile_handler :: "surroundings \<Rightarrow> string \<Rightarrow> management \<Rightarrow> unit answer \<times> management" where
  "delete_profile_handler su pid m = (case require_mutable su of
     Inl e \<Rightarrow> (Inl e, m)
   | Inr _ \<Rightarrow> (case delete_routing_profile pid (mg_store m) of
       (r, st) \<Rightarrow> (rbind (catches_runtime_error 409 r) (\<lambda>removed.
          if removed then Inr () else refused 404 ''Unknown Routing Profile''), m\<lparr>mg_store := st\<rparr>)))"

definition validate_stored_profile :: "surroundings \<Rightarrow> string \<Rightarrow> management \<Rightarrow> routing_validation answer" where
  "validate_stored_profile su pid m =
     rbind (routing_profile_definition su pid m) (\<lambda>p. raised (validate_profile_definition su p m))"

text \<open>The profile, once validated; otherwise the answer.\<close>

definition validated :: "surroundings \<Rightarrow> routing_profile \<Rightarrow> management \<Rightarrow> routing_profile answer" where
  "validated su p m = rbind (raised (validate_profile_definition su p m)) (\<lambda>v.
     if rv_valid v then Inr p else invalid_profile v)"

definition publish_profile_handler :: "surroundings \<Rightarrow> string \<Rightarrow> management \<Rightarrow> (string \<times> int) answer \<times> management" where
  "publish_profile_handler su pid m =
     (case rbind (require_mutable su) (\<lambda>_. rbind (routing_profile_definition su pid m) (\<lambda>p. validated su p m)) of
        Inl e \<Rightarrow> (Inl e, m)
      | Inr p \<Rightarrow> (case publish_routing_profile (su_repr su) (su_now su) (routing_dump p) (routing_snapshot p 0) (mg_store m) of
          (r, st) \<Rightarrow> (rbind (catches_value_error 409 r) (\<lambda>x. case x of
              None \<Rightarrow> Inl (Raised (TypeError ''NoneType'')) | Some y \<Rightarrow> Inr (pid, rv_revision y)),
            m\<lparr>mg_store := st\<rparr>)))"

definition reactivate_profile_handler ::
  "surroundings \<Rightarrow> string \<Rightarrow> int \<Rightarrow> management \<Rightarrow> (string \<times> int) answer \<times> management" where
  "reactivate_profile_handler su pid revision m =
     (case rbind (require_mutable su) (\<lambda>_. rbind (raised (get_routing_profile_revision pid revision (mg_store m))) (\<lambda>r.
        case r of None \<Rightarrow> refused 404 ''Unknown Routing Profile revision''
        | Some x \<Rightarrow> rbind (raised (profile_model_validate su (rv_definition x))) (\<lambda>p. validated su p m))) of
        Inl e \<Rightarrow> (Inl e, m)
      | Inr p \<Rightarrow> (case activate_routing_profile_revision (su_repr su) (su_now su) pid revision (routing_snapshot p revision)
            (mg_store m) of
          (r, st) \<Rightarrow> (rbind (catches_value_error 409 r) (\<lambda>_. Inr (pid, revision)), m\<lparr>mg_store := st\<rparr>)))"

definition deactivate_profile_handler :: "surroundings \<Rightarrow> string \<Rightarrow> management \<Rightarrow> bool answer \<times> management" where
  "deactivate_profile_handler su pid m =
     (case rbind (require_mutable su) (\<lambda>_. rbind (raised (get_routing_profile pid (mg_store m))) (\<lambda>r.
        if r = None then refused 404 ''Unknown Routing Profile'' else Inr ())) of
        Inl e \<Rightarrow> (Inl e, m)
      | Inr _ \<Rightarrow> (case deactivate_routing_profile pid (mg_store m) of (b, st) \<Rightarrow> (Inr b, m\<lparr>mg_store := st\<rparr>)))"

section \<open>Policies\<close>

definition binding_reference ::
  "string \<Rightarrow> string list \<Rightarrow> pyval \<Rightarrow> string \<Rightarrow> int option \<Rightarrow> pyval \<Rightarrow> usage_reference list res" where
  "binding_reference contract ids profile kind revision c =
     rbind (value_get c ''protocol_contract'' VNone) (\<lambda>pc.
     if \<not> eq_str pc contract then Inr []
     else rbind (value_get c ''worker_ids'' (VList [])) (\<lambda>ws. rbind (iterable ws) (\<lambda>ws.
       if \<not> list_ex (\<lambda>i. VStr i \<in> set ws) ids then Inr []
       else rbind (py_index profile ''id'') (\<lambda>i. rbind (py_index profile ''name'') (\<lambda>n.
            rbind (py_index c ''id'') (\<lambda>ci. rbind (py_index c ''display_name'') (\<lambda>cn.
              Inr [\<lparr>ur_profile_id = i, ur_profile_name = n, ur_capability_id = ci, ur_capability_name = cn,
                    ur_kind = kind, ur_revision = revision\<rparr>])))))))"

definition bindings_of :: "pyval \<Rightarrow> pyval list res" where
  "bindings_of document = rbind (value_get document ''capabilities'' (VList [])) iterable"

definition policy_references_of ::
  "string \<Rightarrow> string list \<Rightarrow> management \<Rightarrow> profile_record \<Rightarrow> usage_reference list res" where
  "policy_references_of contract ids m p =
     (let d = pr_definition p in
      rbind (bindings_of d) (\<lambda>cs.
      rbind (map_res (binding_reference contract ids d ''draft'' None) cs) (\<lambda>drafts.
      case (if pr_active p then pr_active_revision p else None) of
        None \<Rightarrow> Inr (concat drafts)
      | Some n \<Rightarrow> rbind (id_text d) (\<lambda>i. rbind (get_routing_profile_revision i n (mg_store m)) (\<lambda>r. case r of
            None \<Rightarrow> Inr (concat drafts)
          | Some x \<Rightarrow> rbind (bindings_of (rv_definition x)) (\<lambda>bs.
              rbind (map_res (binding_reference contract ids d ''active'' (Some n)) bs) (\<lambda>live.
                Inr (concat drafts @ concat live))))))))"

text \<open>The dictionary keyed by profile, capability and kind keeps the last of equal references.\<close>

definition unique_references :: "usage_reference list \<Rightarrow> usage_reference list" where
  "unique_references rs = map snd (fold (\<lambda>r. AList.update (ur_profile_id r, ur_capability_id r, ur_kind r) r) rs [])"

definition capability_policy_references ::
  "surroundings \<Rightarrow> management \<Rightarrow> string \<Rightarrow> string \<Rightarrow> potential_capability \<Rightarrow> usage_reference list res" where
  "capability_policy_references su m model_id revision c = (case pt_protocol_contract_id c of
     None \<Rightarrow> Inr []
   | Some contract \<Rightarrow>
      (let ids = map wd_id (filter (\<lambda>w. worker_cache_identity (su_repr su) (worker_dump w) = (model_id, revision))
             (map snd (mg_definitions m))) in
       rbind (list_routing_profiles (mg_store m)) (\<lambda>ps.
       rbind (map_res (policy_references_of contract ids m) ps) (\<lambda>rs. Inr (unique_references (concat rs))))))"

definition set_capability_policy ::
  "surroundings \<Rightarrow> string \<Rightarrow> string \<Rightarrow> string \<Rightarrow> bool \<Rightarrow> management \<Rightarrow> unit answer \<times> management" where
  "set_capability_policy su model_id revision cap allowed m =
     (case rbind (require_mutable su) (\<lambda>_. case installed_model su model_id revision of
         None \<Rightarrow> refused 404 ''The exact complete cached Model revision was not discovered''
       | Some c \<Rightarrow> (case List.find (\<lambda>x. pt_id x = cap) (cm_potential_capabilities c) of
           None \<Rightarrow> refused 409 ''That capability is not a recognised candidate for this Model''
         | Some x \<Rightarrow> rbind (if allowed then Inr [] else raised (capability_policy_references su m model_id revision x)) (\<lambda>rs.
             if rs = [] then Inr ()
             else Inl (HTTPException 409 (VDict
               [(''message'', VStr ''Remove this capability from current Routing Profiles before disallowing it''),
                (''references'', VList (map reference_dict rs))]))))) of
        Inl e \<Rightarrow> (Inl e, m)
      | Inr _ \<Rightarrow> (Inr (), m\<lparr>mg_store := set_model_capability_allowed model_id revision cap allowed (mg_store m)\<rparr>))"

definition configured_for :: "string \<Rightarrow> string \<Rightarrow> worker_definition \<Rightarrow> bool" where
  "configured_for model_id revision w = (wd_model_id w = model_id \<and> wd_revision w = revision
     \<or> wd_artifact_model_id w = Some model_id \<and> wd_artifact_revision w = Some revision)"

definition set_cache_policy :: "surroundings \<Rightarrow> string \<Rightarrow> string \<Rightarrow> bool \<Rightarrow> management \<Rightarrow> unit answer \<times> management" where
  "set_cache_policy su model_id revision allowed m =
     (case rbind (require_mutable su) (\<lambda>_.
        if List.find (\<lambda>c. cm_model_id c = model_id \<and> cm_revision c = revision) (su_models su) = None
        then refused 404 ''The exact cached Model revision was not discovered''
        else (let ws = filter (configured_for model_id revision) (map snd (mg_definitions m)) in
          if \<not> allowed \<and> ws \<noteq> []
          then Inl (HTTPException 409 (VDict [(''message'', VStr ''Archive this Model's Workers before disallowing it''),
            (''workers'', VList (map (\<lambda>w. VDict [(''id'', VStr (wd_id w)), (''name'', VStr (wd_name w))]) ws))]))
          else Inr ())) of
        Inl e \<Rightarrow> (Inl e, m)
      | Inr _ \<Rightarrow> (Inr (), m\<lparr>mg_store := set_model_cache_allowed model_id revision allowed (mg_store m)\<rparr>))"

section \<open>Start\<close>

text \<open>Starting the process: the stored workers whose runtime is still trusted.\<close>

fun load_definitions ::
  "surroundings \<Rightarrow> (string \<times> worker_entry) list \<Rightarrow> (worker_definition \<times> model_profile) list res" where
  "load_definitions su [] = Inr []"
| "load_definitions su ((_, row) # rows) =
     (case rbind (worker_model_validate su (VDict (worker_document (we_document row)))) (\<lambda>w.
        rbind (to_profile (su_harness su) (su_bool su) w) (\<lambda>p. Inr (w, p))) of
        Inl (ValueError _) \<Rightarrow> load_definitions su rows
      | Inl e \<Rightarrow> Inl e
      | Inr x \<Rightarrow> rbind (load_definitions su rows) (\<lambda>xs. Inr (x # xs)))"

definition start_management :: "surroundings \<Rightarrow> pyfloat \<Rightarrow> string \<Rightarrow> store \<Rightarrow> management res" where
  "start_management su timeout dir st = rbind (load_definitions su (list_workers_rows False st)) (\<lambda>ws.
     Inr \<lparr>mg_store = st,
          mg_definitions = fold (\<lambda>(w, p). AList.update (wd_id w) w) ws [],
          mg_supervisor = supervisor_init (map snd ws) timeout dir\<rparr>)"

end
