(* ===== verification/Management_Invariant.thy ===== *)
theory Management_Invariant
  imports Management Store_Properties Domain_Routing
begin

text \<open>
  What the management process keeps while its handlers run one after another: every active route
  names workers that are configured, and none that the operator has disallowed for the capability;
  and where the handlers fall short of what they mean to do.
\<close>

section \<open>The typing of documents\<close>

text \<open>The validation library reads back what it wrote.\<close>

definition typed :: "surroundings \<Rightarrow> bool" where
  "typed su = ((\<forall>p. su_profile_fields su (VDict (routing_dump p)) = Inr p)
     \<and> (\<forall>w. su_worker_fields su (VDict (worker_dump w)) = Inr w))"

text \<open>A reader that satisfies this, for documents that hold values of the declared types.\<close>

definition text_of :: "pyval \<Rightarrow> string" where
  "text_of v = (case v of VStr t \<Rightarrow> t | _ \<Rightarrow> [])"

definition opt_text_of :: "pyval \<Rightarrow> string option" where
  "opt_text_of v = (case v of VStr t \<Rightarrow> Some t | _ \<Rightarrow> None)"

definition list_of :: "pyval \<Rightarrow> pyval list" where
  "list_of v = (case v of VList xs \<Rightarrow> xs | _ \<Rightarrow> [])"

definition read_worker :: "pyval \<Rightarrow> worker_definition res" where
  "read_worker v = (let d = as_mapping v in Inr
     \<lparr>wd_id = text_of (dget d ''id''), wd_name = text_of (dget d ''name''), wd_model_id = text_of (dget d ''model_id''),
      wd_revision = text_of (dget d ''revision''), wd_artifact_model_id = opt_text_of (dget d ''artifact_model_id''),
      wd_artifact_revision = opt_text_of (dget d ''artifact_revision''),
      wd_generation_family = text_of (dget d ''generation_family''), wd_runtime = text_of (dget d ''runtime''),
      wd_runtime_template_id = opt_text_of (dget d ''runtime_template_id''),
      wd_runtime_template_version = opt_text_of (dget d ''runtime_template_version''),
      wd_lifecycle = text_of (dget d ''lifecycle''), wd_port = (case dget d ''port'' of VInt n \<Rightarrow> n | _ \<Rightarrow> 0),
      wd_dtype = text_of (dget d ''dtype''), wd_capabilities = as_mapping (dget d ''capabilities''),
      wd_settings = as_mapping (dget d ''settings''),
      wd_capability_policy_version = (case dget d ''capability_policy_version'' of VInt n \<Rightarrow> Some n | _ \<Rightarrow> None),
      wd_archived = (dget d ''archived'' = VBool True)\<rparr>)"

definition read_binding :: "pyval \<Rightarrow> capability_binding" where
  "read_binding v = (let d = as_mapping v in
     \<lparr>cb_id = text_of (dget d ''id''), cb_display_name = text_of (dget d ''display_name''),
      cb_public_name = text_of (dget d ''public_name''), cb_protocol_contract = text_of (dget d ''protocol_contract''),
      cb_tool_calling_enabled = (dget d ''tool_calling_enabled'' = VBool True),
      cb_worker_ids = map text_of (list_of (dget d ''worker_ids''))\<rparr>)"

definition read_profile :: "pyval \<Rightarrow> routing_profile res" where
  "read_profile v = (let d = as_mapping v in Inr
     \<lparr>rpf_id = text_of (dget d ''id''), rpf_name = text_of (dget d ''name''), rpf_description = text_of (dget d ''description''),
      rpf_qualification = (if dget d ''qualification'' = VStr ''tested-working'' then TestedWorking else Compatible),
      rpf_capabilities = map read_binding (list_of (dget d ''capabilities''))\<rparr>)"

lemma opt_str_text [simp]: "opt_text_of (opt_str t) = t"
  by (cases t) (simp_all add: opt_text_of_def opt_str_def)

lemma read_worker_dump: "read_worker (VDict (worker_dump w)) = Inr w"
  by (simp add: read_worker_def worker_dump_def as_mapping_def text_of_def dget_def split: option.splits)

lemma read_binding_dump: "read_binding (VDict (binding_dump b)) = b"
  by (simp add: read_binding_def binding_dump_def as_mapping_def list_of_def text_of_def dget_def comp_def)

lemma read_profile_dump: "read_profile (VDict (routing_dump p)) = Inr p"
  by (cases "rpf_qualification p") (simp_all add: read_profile_def routing_dump_def as_mapping_def list_of_def text_of_def
      dget_def comp_def read_binding_dump qualification_value_def)

lemma typed_reader: "su_profile_fields su = read_profile \<Longrightarrow> su_worker_fields su = read_worker \<Longrightarrow> typed su"
  by (simp add: typed_def read_worker_dump read_profile_dump)

section \<open>The handlers as one machine\<close>

datatype management_op =
    Creates_Worker worker_create "string option"
  | Renames_Worker string string
  | Archives_Worker string
  | Replaces_Worker string worker_replacement "string option"
  | Lists_Workers
  | Creates_Profile pyval
  | Saves_Profile string pyval
  | Discards_Profile string
  | Deletes_Profile string
  | Publishes_Profile string
  | Reactivates_Profile string int
  | Deactivates_Profile string
  | Sets_Capability_Policy string string string bool
  | Sets_Cache_Policy string string bool
  | Records_Test pydict string "string option"
  | Supervisor_Moves event

text \<open>A handler that would wait for a lock is not among these runs.\<close>

fun management_step :: "surroundings \<times> management_op \<Rightarrow> management \<Rightarrow> management" where
  "management_step (su, Creates_Worker r v) m = snd (create_worker su r v m)"
| "management_step (su, Renames_Worker wid n) m = snd (rename_worker su wid n m)"
| "management_step (su, Archives_Worker wid) m = (case archive_worker_handler su wid m of (None, _) \<Rightarrow> m | (Some _, m1) \<Rightarrow> m1)"
| "management_step (su, Replaces_Worker wid r v) m = snd (replace_worker su wid r v m)"
| "management_step (su, Lists_Workers) m = snd (list_workers_handler su m)"
| "management_step (su, Creates_Profile b) m = snd (create_routing_profile su b m)"
| "management_step (su, Saves_Profile pid b) m = snd (save_routing_profile_draft_handler su pid b m)"
| "management_step (su, Discards_Profile pid) m = snd (discard_draft_handler su pid m)"
| "management_step (su, Deletes_Profile pid) m = snd (delete_profile_handler su pid m)"
| "management_step (su, Publishes_Profile pid) m = snd (publish_profile_handler su pid m)"
| "management_step (su, Reactivates_Profile pid n) m = snd (reactivate_profile_handler su pid n m)"
| "management_step (su, Deactivates_Profile pid) m = snd (deactivate_profile_handler su pid m)"
| "management_step (su, Sets_Capability_Policy i r c b) m = snd (set_capability_policy su i r c b m)"
| "management_step (su, Sets_Cache_Policy i r b) m = snd (set_cache_policy su i r b m)"
| "management_step (su, Records_Test e r f) m =
     m\<lparr>mg_store := snd (record_test (su_digest su) (su_now su) e r f (mg_store m))\<rparr>"
| "management_step (su, Supervisor_Moves ev) m = (case step ev (mg_supervisor m) of
     None \<Rightarrow> m | Some (_, sv) \<Rightarrow> m\<lparr>mg_supervisor := sv\<rparr>)"

section \<open>The invariant\<close>

text \<open>Drafts and revisions are dumps of routing profiles; an active route is the snapshot of the revision
  it names.\<close>

definition written :: "string \<Rightarrow> column \<Rightarrow> bool" where
  "written pid c = (\<exists>d. c = encoded (routing_dump d) \<and> rpf_id d = pid)"

definition live :: "store \<Rightarrow> string \<Rightarrow> active_entry \<Rightarrow> routing_profile \<Rightarrow> bool" where
  "live s pid a d = (ae_routing a = encoded (routing_snapshot d (ae_revision a)) \<and> rpf_id d = pid
     \<and> (\<exists>e. (ae_revision a, e) \<in> set (revisions_of pid s) \<and> re_document e = encoded (routing_dump d)))"

definition written_store :: "store \<Rightarrow> bool" where
  "written_store s = ((\<forall>p e. (p, e) \<in> set (st_profiles s) \<longrightarrow> written p (de_document e))
     \<and> (\<forall>p r e. (r, e) \<in> set (revisions_of p s) \<longrightarrow> written p (re_document e))
     \<and> (\<forall>p a. (p, a) \<in> set (st_active s) \<longrightarrow> (\<exists>d. live s p a d)))"

text \<open>A worker's cached model: an artifact identity is complete or absent.\<close>

definition artifact_identity :: "worker_definition \<Rightarrow> bool" where
  "artifact_identity w = ((wd_artifact_model_id w = None \<and> wd_artifact_revision w = None)
     \<or> (wd_artifact_model_id w \<notin> {None, Some []} \<and> wd_artifact_revision w \<notin> {None, Some []}))"

definition definitions_ok :: "management \<Rightarrow> bool" where
  "definitions_ok m = (distinct (map fst (mg_definitions m))
     \<and> (\<forall>i w. (i, w) \<in> set (mg_definitions m) \<longrightarrow> wd_id w = i \<and> artifact_identity w
          \<and> (\<forall>row. map_of (st_workers (mg_store m)) i = Some row \<longrightarrow> we_document row = encoded (worker_dump w))))"

text \<open>The operator has disallowed the model or its capability.\<close>

definition disallowed :: "store \<Rightarrow> capability_binding \<Rightarrow> worker_definition \<Rightarrow> bool" where
  "disallowed s b w = (case capability_id_for_contract (cb_protocol_contract b) of
     None \<Rightarrow> False
   | Some c \<Rightarrow> map_of (st_cache_policy s) (cache_model_id w, cache_revision w) = Some False
       \<or> map_of (st_capability_policy s) (cache_model_id w, cache_revision w, c) = Some False)"

definition binding_served :: "management \<Rightarrow> capability_binding \<Rightarrow> bool" where
  "binding_served m b = (\<forall>wid\<in>set (cb_worker_ids b). \<exists>w. map_of (mg_definitions m) wid = Some w
     \<and> \<not> disallowed (mg_store m) b w)"

definition routes_served :: "management \<Rightarrow> bool" where
  "routes_served m = (\<forall>p a d. (p, a) \<in> set (st_active (mg_store m)) \<longrightarrow> live (mg_store m) p a d \<longrightarrow>
     (\<forall>b\<in>set (rpf_capabilities d). binding_served m b))"

definition management_inv :: "(pyval \<Rightarrow> string) \<Rightarrow> management \<Rightarrow> bool" where
  "management_inv rp m = (store_inv rp (mg_store m) \<and> written_store (mg_store m) \<and> definitions_ok m \<and> routes_served m)"

section \<open>What a change may leave alone\<close>

definition same_policies :: "store \<Rightarrow> store \<Rightarrow> bool" where
  "same_policies s s' = (st_cache_policy s' = st_cache_policy s \<and> st_capability_policy s' = st_capability_policy s)"

lemma disallowed_cong:
  "same_policies s s' \<Longrightarrow> cache_model_id w' = cache_model_id w \<Longrightarrow> cache_revision w' = cache_revision w \<Longrightarrow>
     disallowed s' b w' = disallowed s b w"
  by (simp add: disallowed_def same_policies_def split: option.split)

lemma live_same: "st_revisions s' = st_revisions s \<Longrightarrow> live s' p a d = live s p a d"
  by (simp add: live_def revisions_of_def)

text \<open>Every worker that was configured still is, for the same cached model.\<close>

definition keeps_workers :: "management \<Rightarrow> management \<Rightarrow> bool" where
  "keeps_workers m m' = (\<forall>i w. map_of (mg_definitions m) i = Some w \<longrightarrow>
     (\<exists>w'. map_of (mg_definitions m') i = Some w' \<and> cache_model_id w' = cache_model_id w \<and> cache_revision w' = cache_revision w))"

lemma keeps_workers_refl: "mg_definitions m' = mg_definitions m \<Longrightarrow> keeps_workers m m'"
  by (simp add: keeps_workers_def)

lemma binding_served_keeps:
  "binding_served m b \<Longrightarrow> keeps_workers m m' \<Longrightarrow> same_policies (mg_store m) (mg_store m') \<Longrightarrow> binding_served m' b"
  unfolding binding_served_def keeps_workers_def using disallowed_cong by blast

lemma routes_served_keeps:
  assumes "routes_served m" and "keeps_workers m m'" and "same_policies (mg_store m) (mg_store m')"
    and "st_revisions (mg_store m') = st_revisions (mg_store m)"
    and "set (st_active (mg_store m')) \<subseteq> set (st_active (mg_store m))"
  shows "routes_served m'"
proof -
  have "live (mg_store m') p a d = live (mg_store m) p a d" for p a d by (rule live_same [OF assms(4)])
  then show ?thesis using assms(1,5) binding_served_keeps [OF _ assms(2,3)] unfolding routes_served_def by blast
qed

lemma same_policies_refl [simp]: "same_policies s s"
  by (simp add: same_policies_def)

lemma inv_keeps:
  assumes inv: "management_inv rp m" and s: "same_routing (mg_store m) (mg_store m')"
    and p: "same_policies (mg_store m) (mg_store m')" and k: "keeps_workers m m'" and d: "definitions_ok m'"
  shows "management_inv rp m'"
proof -
  have e: "st_profiles (mg_store m') = st_profiles (mg_store m)" "st_revisions (mg_store m') = st_revisions (mg_store m)"
    "st_active (mg_store m') = st_active (mg_store m)" using s by (simp_all add: same_routing_def)
  have rv: "revisions_of p (mg_store m') = revisions_of p (mg_store m)" for p by (rule revisions_of_same [OF e(2)])
  have lv: "live (mg_store m') p a d = live (mg_store m) p a d" for p a d by (rule live_same [OF e(2)])
  have "written_store (mg_store m') = written_store (mg_store m)" by (simp only: written_store_def rv lv e)
  then have "written_store (mg_store m')" using inv by (simp add: management_inv_def)
  moreover have "routes_served m'"
    by (rule routes_served_keeps [OF _ k p e(2)]) (use inv e in \<open>simp_all add: management_inv_def\<close>)
  ultimately show ?thesis using inv_same [OF _ s] inv d by (simp add: management_inv_def)
qed

lemma definitions_ok_same:
  "definitions_ok m \<Longrightarrow> mg_definitions m' = mg_definitions m \<Longrightarrow> st_workers (mg_store m') = st_workers (mg_store m) \<Longrightarrow>
     definitions_ok m'"
  unfolding definitions_ok_def by (elim conjE, intro conjI) simp_all

lemma inv_supervisor:
  assumes inv: "management_inv rp m"
  shows "management_inv rp (m\<lparr>mg_supervisor := sv\<rparr>)"
  by (rule inv_keeps [OF inv]) (use inv in \<open>auto simp: keeps_workers_refl management_inv_def intro: definitions_ok_same [of m]\<close>)

text \<open>A change of drafts.\<close>

lemma inv_drafts:
  assumes inv: "management_inv rp m" and si: "store_inv rp s'"
    and e: "st_revisions s' = st_revisions (mg_store m)" "st_active s' = st_active (mg_store m)"
      "st_workers s' = st_workers (mg_store m)" "same_policies (mg_store m) s'"
    and p: "\<And>p e. (p, e) \<in> set (st_profiles s') \<Longrightarrow> written p (de_document e)"
  shows "management_inv rp (m\<lparr>mg_store := s'\<rparr>)"
proof -
  let ?m = "m\<lparr>mg_store := s'\<rparr>"
  have rv: "revisions_of p s' = revisions_of p (mg_store m)" for p by (rule revisions_of_same [OF e(1)])
  have lv: "live s' p a d = live (mg_store m) p a d" for p a d by (rule live_same [OF e(1)])
  have "written_store (mg_store m)" using inv by (simp add: management_inv_def)
  then have "written_store s'" unfolding written_store_def rv lv e(2) using p by blast
  moreover have "routes_served ?m"
    by (rule routes_served_keeps [of m]) (use inv e in \<open>simp_all add: management_inv_def keeps_workers_refl\<close>)
  moreover have "definitions_ok ?m" using inv e(3) by (auto simp: management_inv_def intro: definitions_ok_same)
  ultimately show ?thesis using si by (simp add: management_inv_def)
qed

section \<open>Drafts\<close>

lemma dump_id [simp]: "map_of (routing_dump p) ''id'' = Some (VStr (rpf_id p))"
  by (simp add: routing_dump_def)

lemma draft_stores:
  "st_workers (snd (save_routing_profile_draft rp now d s)) = st_workers s"
  "same_policies s (snd (save_routing_profile_draft rp now d s))"
  by (simp_all add: save_routing_profile_draft_def attempt_def put_draft_def Let_def same_policies_def rbind_def
      split: sum.split)

lemma written_draft: "management_inv rp m \<Longrightarrow> (p, e) \<in> set (st_profiles (mg_store m)) \<Longrightarrow> written p (de_document e)"
  by (simp add: management_inv_def written_store_def)

lemma written_revision: "management_inv rp m \<Longrightarrow> (r, e) \<in> set (revisions_of p (mg_store m)) \<Longrightarrow> written p (re_document e)"
  by (simp add: management_inv_def written_store_def)

lemma inv_saves:
  assumes inv: "management_inv rp m"
  shows "management_inv rp (m\<lparr>mg_store := snd (save_routing_profile_draft rp now (routing_dump p) (mg_store m))\<rparr>)"
proof -
  let ?s = "snd (save_routing_profile_draft rp now (routing_dump p) (mg_store m))"
  obtain e where e: "st_profiles ?s = AList.update (rpf_id p) e (st_profiles (mg_store m))" "de_document e = encoded (routing_dump p)"
    "st_active ?s = st_active (mg_store m)" "st_revisions ?s = st_revisions (mg_store m)"
    using save_draft_stored [OF dump_id] by blast
  show ?thesis
  proof (rule inv_drafts [OF inv])
    show "store_inv rp ?s" using inv by (simp add: management_inv_def inv_save_draft)
    show "written q (de_document x)" if "(q, x) \<in> set (st_profiles ?s)" for q x
      using in_set_update [OF that [unfolded e(1)]] e(2) written_draft [OF inv, of q x] by (auto simp: written_def)
  qed (simp_all add: e draft_stores)
qed

lemma with_store_snd [simp]: "snd (with_store m x) = m\<lparr>mg_store := snd x\<rparr>"
  by (cases x) (simp add: with_store_def)

lemma inv_creates_profile: "management_inv rp m \<Longrightarrow> su_repr su = rp \<Longrightarrow> management_inv rp (snd (create_routing_profile su b m))"
  by (simp add: create_routing_profile_def inv_saves split: sum.split)

lemma inv_saves_profile:
  "management_inv rp m \<Longrightarrow> su_repr su = rp \<Longrightarrow> management_inv rp (snd (save_routing_profile_draft_handler su pid b m))"
  by (simp add: save_routing_profile_draft_handler_def inv_saves split: sum.split)

lemma revision_written:
  assumes inv: "management_inv rp m" and r: "list_routing_profile_revisions pid (mg_store m) = Inr rs" "r \<in> set rs"
  shows "\<exists>d. rv_definition r = VDict (routing_dump d) \<and> rpf_id d = pid"
proof -
  have "store_inv rp (mg_store m)" using inv by (simp add: management_inv_def)
  from revision_list [OF this] r obtain n e where e: "(n, e) \<in> set (revisions_of pid (mg_store m))"
    "r = revision_view (mg_store m) pid (n, e)" by auto
  then show ?thesis using written_revision [OF inv e(1)] by (auto simp: written_def revision_view_def encoded_def)
qed

lemma with_store_same [simp]: "m\<lparr>mg_store := mg_store m\<rparr> = m"
  by simp

lemma inv_discards:
  assumes inv: "management_inv rp m" and rp: "su_repr su = rp"
  shows "management_inv rp (snd (discard_draft_handler su pid m))"
proof (cases "list_routing_profile_revisions pid (mg_store m)")
  case (Inl e)
  then show ?thesis using inv by (simp add: discard_draft_handler_def discard_routing_profile_draft_def split: sum.split)
next
  case (Inr rs)
  show ?thesis
  proof (cases rs)
    case Nil
    then show ?thesis using inv Inr
      by (simp add: discard_draft_handler_def discard_routing_profile_draft_def split: sum.split)
  next
    case (Cons r rest)
    then obtain d where "rv_definition r = VDict (routing_dump d)" using revision_written [OF inv Inr, of r] by auto
    then have "discard_routing_profile_draft (su_repr su) (su_now su) pid (mg_store m) =
        save_routing_profile_draft rp (su_now su) (routing_dump d) (mg_store m)"
      using Inr Cons rp by (simp add: discard_routing_profile_draft_def)
    then show ?thesis using inv inv_saves [OF inv, of "su_now su" d]
      by (cases "save_routing_profile_draft rp (su_now su) (routing_dump d) (mg_store m)")
        (simp add: discard_draft_handler_def split: sum.split)
  qed
qed

lemma inv_deletes:
  assumes inv: "management_inv rp m"
  shows "management_inv rp (snd (delete_profile_handler su pid m))"
proof -
  let ?s = "snd (delete_routing_profile pid (mg_store m))"
  have "management_inv rp (m\<lparr>mg_store := ?s\<rparr>)"
  proof (rule inv_drafts [OF inv])
    show "store_inv rp ?s" using inv by (simp add: management_inv_def inv_delete_profile)
    show "written q (de_document x)" if "(q, x) \<in> set (st_profiles ?s)" for q x
      using that by (intro written_draft [OF inv]) (auto simp: delete_routing_profile_def attempt_def in_set_delete split: if_splits)
  qed (simp_all add: delete_routing_profile_def attempt_def same_policies_def)
  then show ?thesis using inv by (auto simp: delete_profile_handler_def split: sum.split prod.split)
qed

end
