(* ===== verification/Management_Workers.thy ===== *)
theory Management_Workers
  imports Management_Invariant
begin

text \<open>
  The worker handlers and the policies keep the invariant of the management process: a new worker
  gets a new identifier, a renamed one keeps its model, an archived one has no active route, and a
  model or capability that becomes disallowed serves none.
\<close>

section \<open>Identities\<close>

lemma cache_identity_dump [simp]:
  "worker_cache_identity rp (worker_dump w) = (cache_model_id w, cache_revision w)"
  by (auto simp: worker_cache_identity_def worker_dump_def dget_def py_or_def opt_str_def cache_model_id_def
      cache_revision_def str_or_def py_str_def split: option.splits)

definition same_identity :: "worker_definition \<Rightarrow> worker_definition \<Rightarrow> bool" where
  "same_identity w v = (wd_id v = wd_id w \<and> wd_model_id v = wd_model_id w \<and> wd_revision v = wd_revision w
     \<and> wd_artifact_model_id v = wd_artifact_model_id w \<and> wd_artifact_revision v = wd_artifact_revision w)"

lemma same_identity_cache: "same_identity w v \<Longrightarrow> cache_model_id v = cache_model_id w \<and> cache_revision v = cache_revision w"
  by (simp add: same_identity_def cache_model_id_def cache_revision_def split: option.split)

lemma same_identity_artifact: "same_identity w v \<Longrightarrow> artifact_identity v = artifact_identity w"
  by (simp add: same_identity_def artifact_identity_def)

lemma normalise_same_identity: "normalise_legacy_settings w = Inr v \<Longrightarrow> same_identity w v"
  by (auto simp: normalise_legacy_settings_def Let_def with_thinking_mode_def same_identity_def split: if_splits option.splits)

lemma validate_same_identity: "validate_worker w = Inr v \<Longrightarrow> same_identity w v"
  by (auto simp: validate_worker_def validate_uuid_def rbind_eq_Inr same_identity_def split: if_splits
      dest: normalise_same_identity)

lemma create_local_identity:
  assumes "create_local_profile rp harness fb regs r rdir port support cp bi br path cand = Inr p"
  shows "(mp_artifact_model_id p = None \<and> mp_artifact_revision p = None)
    \<or> (mp_artifact_model_id p = Some (lr_model_id r) \<and> mp_artifact_revision p = Some (lr_revision r))"
  using assms by (auto simp: create_local_profile_def Let_def rbind_eq_Inr validate_profile_Inr split: option.splits if_splits)

lemma local_request_lengths: "validate_local_request r = Inr q \<Longrightarrow> q = r \<and> lr_model_id r \<noteq> [] \<and> lr_revision r \<noteq> []"
  by (auto simp: validate_local_request_def split: if_splits)

lemma new_definition_identity:
  assumes "new_definition su r p m = Inr w"
  shows "wd_id w = su_uuid su \<and> artifact_identity w"
proof -
  obtain q rdir port support cp bi br path cand profile where q: "q = local_request_of r p (''worker-'' @ take 8 (su_uuid su))"
    "validate_local_request q = Inr q" 
    and pr: "create_local_profile (su_repr su) (su_harness su) (su_packaged su) (su_registrations su) q rdir port support cp bi br path cand
        = Inr profile" and w: "from_profile (profile\<lparr>mp_id := su_uuid su\<rparr>) (cp_name p) = Inr w"
    using assms local_request_lengths by (fastforce simp: new_definition_def rbind_eq_Inr split: option.splits)
  show ?thesis using create_local_identity [OF pr] local_request_lengths [OF q(2)] validate_same_identity [OF w [unfolded from_profile_def]]
    by (auto simp: same_identity_def artifact_identity_def)
qed

section \<open>Rows of workers\<close>

lemma saved_worker:
  assumes "save_worker_definition rp now (worker_dump w) s = (r, s')"
  shows "(is_ok r \<and> (\<exists>row. s' = s\<lparr>st_workers := AList.update (wd_id w) row (st_workers s)\<rparr> \<and> we_document row = encoded (worker_dump w)
      \<and> r = Inr (Some (VDict (worker_dump w), row))))
    \<or> (\<not> is_ok r \<and> s' = s)"
proof (cases "put_worker rp now (worker_dump w) s")
  case (Inl e)
  then show ?thesis using assms by (auto simp: save_worker_definition_def attempt_def after_commit_def is_ok_def)
next
  case (Inr x)
  obtain row where "x = (wd_id w, s\<lparr>st_workers := AList.update (wd_id w) row (st_workers s)\<rparr>)" "we_document row = encoded (worker_dump w)"
    using Inr by (cases x) (auto simp: put_worker_def rbind_eq_Inr py_index_def worker_dump_def py_str_def Let_def split: if_splits)
  then show ?thesis using assms Inr
    by (auto simp: save_worker_definition_def attempt_def after_commit_def reading_def is_ok_def get_worker_definition_def
        encoded_def decode_json_def)
qed

lemma same_rows [simp]:
  "same_routing s (s\<lparr>st_workers := ws\<rparr>)" "same_policies s (s\<lparr>st_workers := ws\<rparr>)"
  by (simp_all add: same_routing_def same_policies_def)

lemma inv_definitions:
  assumes inv: "management_inv rp m" and k: "keeps_workers m m'"
    and s: "mg_store m' = (mg_store m)\<lparr>st_workers := ws\<rparr>" and d: "definitions_ok m'"
  shows "management_inv rp m'"
  by (rule inv_keeps [OF inv _ _ k d]) (simp_all add: s)

lemma inv_definitions_ok: "management_inv rp m \<Longrightarrow> definitions_ok m"
  by (simp add: management_inv_def)

text \<open>The row of a worker that is not configured.\<close>

lemma inv_row:
  assumes inv: "management_inv rp m" and n: "map_of (mg_definitions m) i = None"
    and ws: "\<And>j. j \<noteq> i \<Longrightarrow> map_of ws j = map_of (st_workers (mg_store m)) j"
  shows "management_inv rp (m\<lparr>mg_store := (mg_store m)\<lparr>st_workers := ws\<rparr>\<rparr>)"
proof (rule inv_definitions [OF inv])
  have "i \<notin> fst ` set (mg_definitions m)" using n by (simp add: map_of_eq_None_iff)
  then have "j \<noteq> i" if "(j, w) \<in> set (mg_definitions m)" for j w using that by force
  then show "definitions_ok (m\<lparr>mg_store := (mg_store m)\<lparr>st_workers := ws\<rparr>\<rparr>)"
    using inv_definitions_ok [OF inv] ws by (auto simp: definitions_ok_def)
qed (simp_all add: keeps_workers_refl)

lemma definitions_ok_iff:
  "definitions_ok m = (distinct (map fst (mg_definitions m))
     \<and> (\<forall>i w. map_of (mg_definitions m) i = Some w \<longrightarrow> wd_id w = i \<and> artifact_identity w
          \<and> (\<forall>row. map_of (st_workers (mg_store m)) i = Some row \<longrightarrow> we_document row = encoded (worker_dump w))))"
  unfolding definitions_ok_def by (rule conj_cong) simp_all

text \<open>A definition that is stored as it is configured.\<close>

lemma inv_defined:
  assumes inv: "management_inv rp m" and w: "artifact_identity w"
    and old: "\<And>v. map_of (mg_definitions m) (wd_id w) = Some v \<Longrightarrow> same_identity v w"
    and row: "we_document row = encoded (worker_dump w)"
    and m': "mg_store m' = (mg_store m)\<lparr>st_workers := AList.update (wd_id w) row (st_workers (mg_store m))\<rparr>"
      "mg_definitions m' = AList.update (wd_id w) w (mg_definitions m)"
  shows "management_inv rp m'"
proof (rule inv_definitions [OF inv _ m'(1)])
  show "keeps_workers m m'" using same_identity_cache old by (auto simp: keeps_workers_def update_conv m'(2))
  show "definitions_ok m'" using inv_definitions_ok [OF inv] w row
    by (auto simp: definitions_ok_iff update_conv distinct_update m' split: if_splits)
qed

lemma respond_supervisor: "\<exists>sv. snd (respond su v row m) = m\<lparr>mg_supervisor := sv\<rparr>"
  by (auto simp: respond_def get_worker_def Let_def split: sum.split prod.split intro: exI [of _ "mg_supervisor m"])

lemma inv_respond: "management_inv rp m \<Longrightarrow> management_inv rp (snd (respond su v row m))"
  using respond_supervisor inv_supervisor by metis

lemma inv_respond_all: "management_inv rp m \<Longrightarrow> management_inv rp (snd (respond_all su rows m))"
proof (induction su rows m rule: respond_all.induct)
  case (2 su i w rows m)
  then show ?case using inv_respond [of rp m su "VDict (worker_document (we_document w))" w]
    by (auto split: prod.split sum.split)
qed simp

lemma inv_lists: "management_inv rp m \<Longrightarrow> management_inv rp (snd (list_workers_handler su m))"
  using inv_respond_all [of rp m su] by (auto simp: list_workers_handler_def split: sum.split prod.split) (metis snd_conv)

lemma inv_respond_stored: "management_inv rp m \<Longrightarrow> management_inv rp (snd (respond_stored su wid m))"
  using inv_respond [of rp m su] by (auto simp: respond_stored_def split: sum.split option.split prod.split) (metis snd_conv)

section \<open>Creating, renaming, replacing\<close>

lemma inv_installs:
  assumes inv: "management_inv (su_repr su) m" and w: "artifact_identity w" and n: "map_of (mg_definitions m) (wd_id w) = None"
  shows "management_inv (su_repr su) (snd (install_definition su w m))"
proof (cases "save_worker_definition (su_repr su) (su_now su) (worker_dump w) (mg_store m)")
  case (Pair r st)
  show ?thesis
  proof (cases r)
    case (Inl e)
    then have "st = mg_store m" using saved_worker [OF Pair] by (simp add: is_ok_def)
    then show ?thesis using inv Inl Pair by (simp add: install_definition_def)
  next
    case (Inr x)
    obtain row where st: "st = (mg_store m)\<lparr>st_workers := AList.update (wd_id w) row (st_workers (mg_store m))\<rparr>"
      "we_document row = encoded (worker_dump w)" using saved_worker [OF Pair] Inr by (auto simp: is_ok_def)
    have "management_inv (su_repr su) (m\<lparr>mg_store := st\<rparr>)"
      unfolding st(1) by (rule inv_row [OF inv n]) (simp add: update_conv)
    moreover have "management_inv (su_repr su) (m\<lparr>mg_store := snd (delete_worker_definition (wd_id w) st)\<rparr>)"
      using inv_row [OF inv n, of "AList.delete (wd_id w) (AList.update (wd_id w) row (st_workers (mg_store m)))"]
      by (simp add: st(1) delete_worker_definition_def delete_conv update_conv)
    moreover have "management_inv (su_repr su) (m\<lparr>mg_store := st, mg_supervisor := sv,
        mg_definitions := AList.update (wd_id w) w (mg_definitions m)\<rparr>)" for sv
      by (rule inv_defined [OF inv w _ st(2)]) (use n in \<open>simp_all add: st(1)\<close>)
    ultimately show ?thesis using Inr Pair inv_respond_stored
      by (auto simp: install_definition_def Let_def split: sum.split prod.split py_error.split)
  qed
qed

definition fresh :: "surroundings \<Rightarrow> management \<Rightarrow> bool" where
  "fresh su m = (map_of (mg_definitions m) (su_uuid su) = None)"

lemma inv_creates: "management_inv (su_repr su) m \<Longrightarrow> fresh su m \<Longrightarrow> management_inv (su_repr su) (snd (create_worker su r v m))"
  using new_definition_identity inv_installs
  by (auto simp: create_worker_def create_finishes_def fresh_def split: sum.split option.split)

lemma inv_renames:
  assumes inv: "management_inv (su_repr su) m" and t: "typed su"
  shows "management_inv (su_repr su) (snd (rename_worker su wid n m))"
proof (cases "map_of (mg_definitions m) wid")
  case None
  then show ?thesis using inv by (simp add: rename_worker_def require_mutable_def require_definition_def refused_def)
next
  case (Some w0)
  note w0 = inv_definitions_ok [OF inv, unfolded definitions_ok_iff, THEN conjunct2, rule_format, OF Some]
  show ?thesis
  proof (cases "map_of (st_workers (mg_store m)) wid")
    case None
    then show ?thesis using inv by (simp add: rename_worker_def get_worker_definition_def split: sum.split)
  next
    case (Some row0)
    then have g: "get_worker_definition wid (mg_store m) = Inr (Some (VDict (worker_dump w0), row0))"
      using w0 by (simp add: get_worker_definition_def encoded_def decode_json_def)
    have v: "worker_model_validate su (VDict (worker_dump w0)) = validate_worker w0"
      using t by (simp add: worker_model_validate_def typed_def)
    show ?thesis
    proof (cases "validate_worker w0")
      case (Inl e)
      then show ?thesis using inv g v by (simp add: rename_worker_def split: sum.split)
    next
      case (Inr w)
      let ?w = "w\<lparr>wd_name := spaced_name n\<rparr>"
      have same: "same_identity w0 ?w" using validate_same_identity [OF Inr] by (simp add: same_identity_def)
      have id: "wd_id ?w = wid" using same w0 by (simp add: same_identity_def)
      obtain r st where sv: "save_worker_definition (su_repr su) (su_now su) (worker_dump ?w) (mg_store m) = (r, st)" by fastforce
      have "management_inv (su_repr su) (m\<lparr>mg_store := st, mg_definitions := AList.update wid ?w (mg_definitions m)\<rparr>)" if "is_ok r"
      proof -
        obtain row where st: "st = (mg_store m)\<lparr>st_workers := AList.update (wd_id ?w) row (st_workers (mg_store m))\<rparr>"
          "we_document row = encoded (worker_dump ?w)" using saved_worker [OF sv] \<open>is_ok r\<close> by blast
        have "artifact_identity ?w" using same_identity_artifact [OF same] w0 by simp
        then show ?thesis
          by (rule inv_defined [OF inv _ _ st(2)]) (use same \<open>map_of (mg_definitions m) wid = Some w0\<close> id in \<open>simp_all add: st(1)\<close>)
      qed
      moreover have "st = mg_store m" if "\<not> is_ok r" using saved_worker [OF sv] that by blast
      ultimately show ?thesis using inv g v Inr sv saved_worker [OF sv]
        by (auto simp: rename_worker_def is_ok_def case_prod_beta Let_def split: sum.split intro: inv_respond)
    qed
  qed
qed

text \<open>Rebinding a draft replaces worker identifiers and nothing else.\<close>

definition rebound_binding :: "string \<Rightarrow> string \<Rightarrow> capability_binding \<Rightarrow> capability_binding" where
  "rebound_binding i j b = b\<lparr>cb_worker_ids := map (\<lambda>x. if x = i then j else x) (cb_worker_ids b)\<rparr>"

lemma rebind_binding:
  "rebind_capability i j (VDict (binding_dump b)) = Inr (i \<in> set (cb_worker_ids b), VDict (binding_dump (rebound_binding i j b)))"
proof (cases "i \<in> set (cb_worker_ids b)")
  case True
  then show ?thesis
    by (simp add: rebind_capability_def value_get_def dget_or_def binding_dump_def iterable_def rebound_binding_def rebind_ids_def comp_def
        image_iff)
next
  case False
  then have "map (\<lambda>x. if x = i then j else x) (cb_worker_ids b) = cb_worker_ids b" by (intro map_idI) auto
  then show ?thesis using False
    by (simp add: rebind_capability_def value_get_def dget_or_def binding_dump_def iterable_def rebound_binding_def image_iff)
qed

lemma rebind_dump:
  "\<exists>r. rebind_document i j (VDict (routing_dump d)) = Inr r \<and> (\<forall>v. r = Some v \<longrightarrow> (\<exists>d'. v = routing_dump d' \<and> rpf_id d' = rpf_id d))"
proof -
  let ?cs = "map (\<lambda>b. VDict (binding_dump b)) (rpf_capabilities d)"
  let ?d = "d\<lparr>rpf_capabilities := map (rebound_binding i j) (rpf_capabilities d)\<rparr>"
  have "map_res (rebind_capability i j) (map (\<lambda>b. VDict (binding_dump b)) bs)
      = Inr (map (\<lambda>b. (i \<in> set (cb_worker_ids b), VDict (binding_dump (rebound_binding i j b)))) bs)" for bs
    by (induction bs) (simp_all add: rebind_binding)
  moreover have "AList.update ''capabilities'' (VList (map (\<lambda>b. VDict (binding_dump b)) (rpf_capabilities ?d))) (routing_dump d)
      = routing_dump ?d" by (simp add: routing_dump_def)
  moreover have "dget_or (routing_dump d) ''capabilities'' (VList []) = VList ?cs" by (simp add: routing_dump_def dget_or_def)
  ultimately show ?thesis by (auto simp: rebind_document_def iterable_def comp_def intro!: exI [of _ ?d])
qed

lemma inv_rebinds:
  assumes inv: "management_inv rp m"
  shows "management_inv rp (m\<lparr>mg_store := snd (rebind_routing_profile_drafts now i j (mg_store m))\<rparr>)"
proof (cases "map_res (rebind_row now i j) (st_profiles (mg_store m))")
  case (Inl e)
  then show ?thesis using inv by (simp add: rebind_routing_profile_drafts_def attempt_def)
next
  case (Inr rs)
  then have s: "snd (rebind_routing_profile_drafts now i j (mg_store m)) = (mg_store m)\<lparr>st_profiles := map snd rs\<rparr>"
    by (simp add: rebind_routing_profile_drafts_def attempt_def)
  show ?thesis unfolding s
  proof (rule inv_drafts [OF inv])
    show "store_inv rp ((mg_store m)\<lparr>st_profiles := map snd rs\<rparr>)"
      using inv_rebind [of rp "mg_store m" now i j] inv by (simp add: s management_inv_def)
    show "written p (de_document e)" if pe: "(p, e) \<in> set (st_profiles ((mg_store m)\<lparr>st_profiles := map snd rs\<rparr>))" for p e
    proof -
      obtain b where "(b, (p, e)) \<in> set rs" using pe by auto
      then obtain q x where q: "(q, x) \<in> set (st_profiles (mg_store m))" "rebind_row now i j (q, x) = Inr (b, (p, e))"
        using map_res_image [OF Inr] by force
      obtain d where d: "de_document x = encoded (routing_dump d)" "rpf_id d = q"
        using written_draft [OF inv q(1)] by (auto simp: written_def)
      show ?thesis using q(2) d rebind_dump [of i j d]
        by (auto simp: rebind_row_def encoded_def decode_json_def written_def split: option.splits) metis+
    qed
  qed (simp_all add: same_policies_def)
qed

lemma inv_replaces:
  assumes inv: "management_inv (su_repr su) m" and f: "fresh su m"
  shows "management_inv (su_repr su) (snd (replace_worker su wid r v m))"
proof -
  have "management_inv (su_repr su) m1" if "create_worker su q v m = (x, m1)" for q x m1
    using inv_creates [OF inv f, of q v] that by simp
  moreover have "management_inv (su_repr su) (m1\<lparr>mg_store := st\<rparr>)"
    if "rebind_routing_profile_drafts (su_now su) wid j (mg_store m1) = (x, st)" "management_inv (su_repr su) m1" for m1 j x st
    using inv_rebinds [OF that(2), of "su_now su" wid j] that(1) by simp
  ultimately show ?thesis using inv
    by (auto simp: replace_worker_def split: sum.split prod.split)
qed

section \<open>Archiving\<close>

lemma active_entry_unique: "store_inv rp s \<Longrightarrow> (p, a) \<in> set (st_active s) \<Longrightarrow> map_of (st_active s) p = Some a"
  by (simp add: store_inv_def)

lemma profile_listed:
  assumes inv: "management_inv rp m" and a: "(p, a) \<in> set (st_active (mg_store m))"
  shows "\<exists>ps x d. list_routing_profiles (mg_store m) = Inr ps \<and> x \<in> set ps \<and> pr_definition x = VDict (routing_dump d) \<and> rpf_id d = p
    \<and> pr_active x \<and> pr_active_revision x = Some (ae_revision a)"
proof -
  have si: "store_inv rp (mg_store m)" using inv by (simp add: management_inv_def)
  obtain e where e: "(p, e) \<in> set (st_profiles (mg_store m))" using active_row(1) [OF si a] by (auto simp: dhas_def map_of_eq_None_iff dest: map_of_SomeD)
  then obtain d where "de_document e = encoded (routing_dump d)" "rpf_id d = p" using written_draft [OF inv] by (auto simp: written_def)
  then have "pr_definition (profile_view (mg_store m) (p, e)) = VDict (routing_dump d)" "rpf_id d = p"
    "pr_active (profile_view (mg_store m) (p, e))" "pr_active_revision (profile_view (mg_store m) (p, e)) = Some (ae_revision a)"
    using active_entry_unique [OF si a] by (simp_all add: profile_view_def encoded_def)
  moreover have "profile_view (mg_store m) (p, e) \<in>
      set (map (profile_view (mg_store m)) (sort_key (\<lambda>(_, d). casefold (draft_name d)) (st_profiles (mg_store m))))"
    using e by (simp del: split_paired_Ex)
  ultimately show ?thesis using profile_list [OF si] by blast
qed

lemma active_revision_listed:
  assumes inv: "management_inv rp m" and a: "(p, a) \<in> set (st_active (mg_store m))" and l: "live (mg_store m) p a d"
  shows "\<exists>rs r. list_routing_profile_revisions p (mg_store m) = Inr rs \<and> r \<in> set rs \<and> rv_active r \<and> rv_revision r = ae_revision a
    \<and> rv_definition r = VDict (routing_dump d)
    \<and> get_routing_profile_revision p (ae_revision a) (mg_store m) = Inr (Some r)"
proof -
  have si: "store_inv rp (mg_store m)" using inv by (simp add: management_inv_def)
  obtain e where e: "(ae_revision a, e) \<in> set (revisions_of p (mg_store m))" "re_document e = encoded (routing_dump d)"
    using l by (auto simp: live_def)
  have "rv_active (revision_view (mg_store m) p (ae_revision a, e))" "rv_revision (revision_view (mg_store m) p (ae_revision a, e)) = ae_revision a"
    "rv_definition (revision_view (mg_store m) p (ae_revision a, e)) = VDict (routing_dump d)"
    using e(2) active_entry_unique [OF si a] by (simp_all add: revision_view_def encoded_def)
  moreover have "revision_view (mg_store m) p (ae_revision a, e) \<in> set (map (revision_view (mg_store m) p) (rev (revisions_of p (mg_store m))))"
    using e(1) by simp
  ultimately show ?thesis using revision_list [OF si] get_revision [OF si e(1)] by blast
qed

lemma capability_referenced:
  assumes "capability_reference wid prof k r (VDict (binding_dump b)) = Inr refs" and "wid \<in> set (cb_worker_ids b)"
  shows "\<exists>x\<in>set refs. ur_kind x = k"
  using assms by (auto simp: capability_reference_def value_get_def dget_or_def binding_dump_def iterable_def rbind_eq_Inr image_iff)

lemma document_referenced:
  assumes "document_references wid prof k r (VDict (routing_dump d)) = Inr refs"
    and b: "b \<in> set (rpf_capabilities d)" "wid \<in> set (cb_worker_ids b)"
  shows "\<exists>x\<in>set refs. ur_kind x = k"
proof -
  obtain rs where rs: "map_res (capability_reference wid prof k r) (map (\<lambda>b. VDict (binding_dump b)) (rpf_capabilities d)) = Inr rs"
    "refs = concat rs"
    using assms(1) by (auto simp: document_references_def value_get_def dget_or_def routing_dump_def iterable_def rbind_eq_Inr)
  then obtain y where "y \<in> set rs" "capability_reference wid prof k r (VDict (binding_dump b)) = Inr y"
    using map_res_member [OF rs(1), of "VDict (binding_dump b)"] b(1) by auto
  then show ?thesis using capability_referenced b(2) rs(2) by fastforce
qed

text \<open>A worker that no draft and no active revision names has no active route.\<close>

lemma unused_worker:
  assumes inv: "management_inv rp m" and u: "worker_usage wid m = Inr rs" "blocking rs = []"
    and a: "(p, a) \<in> set (st_active (mg_store m))" and l: "live (mg_store m) p a d" and b: "b \<in> set (rpf_capabilities d)"
  shows "wid \<notin> set (cb_worker_ids b)"
proof
  assume wid: "wid \<in> set (cb_worker_ids b)"
  obtain ps x d0 where ps: "list_routing_profiles (mg_store m) = Inr ps" "x \<in> set ps"
    and d0: "pr_definition x = VDict (routing_dump d0)" "rpf_id d0 = p" using profile_listed [OF inv a] by blast
  obtain revs r where r: "list_routing_profile_revisions p (mg_store m) = Inr revs" "r \<in> set revs" "rv_active r"
    "rv_definition r = VDict (routing_dump d)" using active_revision_listed [OF inv a l] by blast
  obtain refs where refs: "map_res (profile_references wid m) ps = Inr refs" "rs = concat refs"
    using u(1) ps(1) by (auto simp: worker_usage_def rbind_eq_Inr)
  obtain y where y: "y \<in> set refs" "profile_references wid m x = Inr y" using map_res_member [OF refs(1) ps(2)] by blast
  have id: "id_text (VDict (routing_dump d0)) = Inr p" using d0(2) by (simp add: id_text_def py_index_def)
  obtain drafts pub where pub: "map_res (\<lambda>r. document_references wid (VDict (routing_dump d0)) (if rv_active r then ''active'' else ''history'')
      (Some (rv_revision r)) (rv_definition r)) revs = Inr pub" "y = drafts @ concat pub"
    using y(2) d0(1) id r(1) by (auto simp: profile_references_def rbind_eq_Inr Let_def)
  obtain z where z: "z \<in> set pub" "document_references wid (VDict (routing_dump d0)) ''active'' (Some (rv_revision r)) (VDict (routing_dump d)) = Inr z"
    using map_res_member [OF pub(1) r(2)] r(3,4) by auto
  obtain u where "u \<in> set z" "ur_kind u = ''active''" using document_referenced [OF z(2) b wid] by blast
  moreover from this have "u \<in> set y" using z(1) by (auto simp: pub(2))
  then have "u \<in> set rs" using y(1) unfolding refs(2) by auto
  ultimately have "u \<in> set (blocking rs)" by (simp add: blocking_def)
  then show False using assms(3) by simp
qed

lemma routes_without:
  assumes inv: "management_inv rp m" and u: "worker_usage wid m = Inr rs" "blocking rs = []"
    and s: "mg_store m' = (mg_store m)\<lparr>st_workers := ws\<rparr>" "mg_definitions m' = AList.delete wid (mg_definitions m)"
    and ws: "\<And>j. j \<noteq> wid \<Longrightarrow> map_of ws j = map_of (st_workers (mg_store m)) j"
  shows "management_inv rp m'"
proof -
  have lv: "live (mg_store m') p a d = live (mg_store m) p a d" for p a d by (rule live_same) (simp add: s)
  have st: "st_active (mg_store m') = st_active (mg_store m)" "st_profiles (mg_store m') = st_profiles (mg_store m)"
    by (simp_all add: s)
  have dis: "disallowed (mg_store m') b w = disallowed (mg_store m) b w" for b w
    by (rule disallowed_cong) (simp_all add: s)
  have "binding_served m' b"
    if "(p, a) \<in> set (st_active (mg_store m))" "live (mg_store m) p a d" "b \<in> set (rpf_capabilities d)" for p a d b
  proof -
    have "binding_served m b" using inv that by (auto simp: management_inv_def routes_served_def)
    then show ?thesis using unused_worker [OF inv u that]
      by (auto simp: binding_served_def dis s(2) delete_conv)
  qed
  then have "routes_served m'" unfolding routes_served_def lv st by blast
  moreover have rv: "revisions_of p (mg_store m') = revisions_of p (mg_store m)" for p by (rule revisions_of_same) (simp add: s)
  have "written_store (mg_store m') = written_store (mg_store m)" by (simp only: written_store_def rv lv st)
  moreover have "store_inv rp (mg_store m')" using inv inv_same [of rp "mg_store m" "mg_store m'"] by (simp add: management_inv_def s(1))
  moreover have "definitions_ok m'" using inv_definitions_ok [OF inv] ws
    by (auto simp: definitions_ok_iff s delete_conv' distinct_delete split: if_splits)
  ultimately show ?thesis using inv by (simp add: management_inv_def)
qed

lemma refresh_removes: "sv_removes (refresh_exits s) = sv_removes s"
proof -
  have "sv_removes (fold refresh_worker rs s) = sv_removes s" for rs s
    by (induction rs arbitrary: s) (simp_all add: refresh_worker_def update_worker_def split: option.split)
  then show ?thesis by (simp add: refresh_exits_def)
qed

lemma remove_call_pending:
  "remove_call wid s = (r, s') \<Longrightarrow> (\<exists>e. r = Raises e) \<or> (\<exists>x y. sv_removes s' = sv_removes s @ [(wid, x, y)])"
  by (auto simp: remove_call_def lock_of_def split: sum.splits option.splits)

lemma archive_checks:
  assumes "archive_begins su wid m = (r, m1)"
  shows "\<exists>sv. m1 = m\<lparr>mg_supervisor := sv\<rparr> \<and> (r = Inr () \<longrightarrow> (\<exists>rs x y. worker_usage wid m = Inr rs \<and> blocking rs = []
    \<and> sv_removes sv = sv_removes (mg_supervisor m) @ [(wid, x, y)]))"
proof -
  have same: "\<exists>sv. m = m\<lparr>mg_supervisor := sv\<rparr>" by (rule exI [of _ "mg_supervisor m"]) simp
  show ?thesis using assms same
    by (auto simp: archive_begins_def get_worker_def Let_def refused_def refresh_removes split: sum.splits option.splits if_splits
        prod.splits reply.splits dest!: remove_call_pending)
qed

lemma inv_archives:
  assumes inv: "management_inv rp m"
  shows "management_inv rp (management_step (su, Archives_Worker wid) m)"
proof -
  obtain r m1 where b: "archive_begins su wid m = (r, m1)" by fastforce
  obtain sv where m1: "m1 = m\<lparr>mg_supervisor := sv\<rparr>"
    and ok: "r = Inr () \<Longrightarrow> \<exists>rs x y. worker_usage wid m = Inr rs \<and> blocking rs = [] \<and> sv_removes sv = sv_removes (mg_supervisor m) @ [(wid, x, y)]"
    using archive_checks [OF b] by blast
  have inv1: "management_inv rp m1" using inv_supervisor [OF inv] m1 by simp
  show ?thesis
  proof (cases r)
    case (Inl e)
    then show ?thesis using inv1 b by (simp add: archive_worker_handler_def)
  next
    case (Inr u)
    then obtain rs x y where rs: "worker_usage wid m = Inr rs" "blocking rs = []" "sv_removes sv = sv_removes (mg_supervisor m) @ [(wid, x, y)]"
      using ok by auto
    have fin: "management_inv rp (archive_finishes su wid (m\<lparr>mg_supervisor := sv2\<rparr>))" for sv2
    proof -
      let ?ws = "st_workers (snd (archive_worker (su_now su) wid (mg_store m)))"
      have st: "snd (archive_worker (su_now su) wid (mg_store m)) = (mg_store m)\<lparr>st_workers := ?ws\<rparr>"
        by (simp add: archive_worker_def split: option.split)
      have "map_of ?ws j = map_of (st_workers (mg_store m)) j" if "j \<noteq> wid" for j
        using that by (simp add: archive_worker_def update_conv split: option.split)
      then show ?thesis
        by (intro routes_without [OF inv rs(1,2), where ws = ?ws]) (simp_all add: archive_finishes_def flip: st)
    qed
    have "management_inv rp m2" if m2: "archive_resumes su (length (sv_removes (mg_supervisor m))) m1 = Some (q, m2)" for q m2
    proof -
      obtain z b where "remove_runs (length (sv_removes (mg_supervisor m))) sv = Some (z, b)"
        using m2 by (auto simp: archive_resumes_def m1)
      then show ?thesis using m2 rs(3) fin inv_supervisor [OF inv] by (cases z) (auto simp: archive_resumes_def m1)
    qed
    then show ?thesis using inv Inr b by (auto simp: archive_worker_handler_def split: option.split)
  qed
qed

section \<open>Policies\<close>

lemma inv_policies:
  assumes inv: "management_inv rp m" and s: "same_routing (mg_store m) s'" "st_workers s' = st_workers (mg_store m)"
    and d: "\<And>p a d b wid w. (p, a) \<in> set (st_active (mg_store m)) \<Longrightarrow> live (mg_store m) p a d \<Longrightarrow> b \<in> set (rpf_capabilities d) \<Longrightarrow>
      wid \<in> set (cb_worker_ids b) \<Longrightarrow> map_of (mg_definitions m) wid = Some w \<Longrightarrow> disallowed s' b w \<Longrightarrow> disallowed (mg_store m) b w"
  shows "management_inv rp (m\<lparr>mg_store := s'\<rparr>)"
proof -
  have st: "st_profiles s' = st_profiles (mg_store m)" "st_revisions s' = st_revisions (mg_store m)" "st_active s' = st_active (mg_store m)"
    using s(1) by (simp_all add: same_routing_def)
  have rv: "revisions_of p s' = revisions_of p (mg_store m)" for p by (rule revisions_of_same [OF st(2)])
  have lv: "live s' p a d = live (mg_store m) p a d" for p a d by (rule live_same [OF st(2)])
  have "binding_served (m\<lparr>mg_store := s'\<rparr>) b"
    if "(p, a) \<in> set (st_active (mg_store m))" "live (mg_store m) p a d" "b \<in> set (rpf_capabilities d)" for p a d b
  proof -
    have "binding_served m b" using inv that by (auto simp: management_inv_def routes_served_def)
    then show ?thesis using d [OF that] by (fastforce simp: binding_served_def)
  qed
  then have "routes_served (m\<lparr>mg_store := s'\<rparr>)" by (simp add: routes_served_def lv st)
  moreover have "written_store s' = written_store (mg_store m)" by (simp only: written_store_def rv lv st)
  moreover have "definitions_ok (m\<lparr>mg_store := s'\<rparr>)" using inv_definitions_ok [OF inv] s(2) by (auto intro: definitions_ok_same)
  ultimately show ?thesis using inv inv_same [OF _ s(1)] by (simp add: management_inv_def)
qed

lemma configured_cache: "artifact_identity w \<Longrightarrow> configured_for (cache_model_id w) (cache_revision w) w"
  by (auto simp: artifact_identity_def configured_for_def cache_model_id_def cache_revision_def str_or_def)

lemma inv_sets_cache:
  assumes inv: "management_inv rp m"
  shows "management_inv rp (snd (set_cache_policy su i r b m))"
proof -
  let ?s = "set_model_cache_allowed i r b (mg_store m)"
  have "management_inv rp (m\<lparr>mg_store := ?s\<rparr>)" if none: "b \<or> filter (configured_for i r) (map snd (mg_definitions m)) = []"
  proof (rule inv_policies [OF inv])
    fix wid w c
    assume w: "map_of (mg_definitions m) wid = Some w" and d: "disallowed ?s c w"
    have "artifact_identity w" using inv_definitions_ok [OF inv] w by (auto simp: definitions_ok_iff)
    then have "configured_for (cache_model_id w) (cache_revision w) w" by (rule configured_cache)
    moreover have "w \<in> set (map snd (mg_definitions m))" using map_of_SomeD [OF w] by force
    ultimately have "b \<or> (i, r) \<noteq> (cache_model_id w, cache_revision w)" using none by (auto simp: filter_empty_conv)
    then show "disallowed (mg_store m) c w" using d
      by (auto simp: disallowed_def set_model_cache_allowed_def update_conv split: option.splits if_splits)
  qed (simp_all add: set_model_cache_allowed_def same_routing_def)
  then show ?thesis using inv
    by (auto simp: set_cache_policy_def Let_def refused_def require_mutable_def split: sum.split if_splits)
qed

lemma capability_contract_pair:
  "list_all (\<lambda>(c, i). case find_capability i of None \<Rightarrow> False | Some d \<Rightarrow> cd_protocol_contract_id d = Some c) CAPABILITY_ID_BY_CONTRACT"
  by code_simp

lemma contract_of_capability:
  assumes "capability_id_for_contract c = Some i"
  shows "\<exists>d. find_capability i = Some d \<and> cd_protocol_contract_id d = Some c"
  using capability_contract_pair map_of_SomeD [OF assms [unfolded capability_id_for_contract_def]]
  by (auto simp: list_all_iff split: option.splits)

text \<open>The catalogue lists candidates of the published definitions.\<close>

definition catalogued :: "surroundings \<Rightarrow> bool" where
  "catalogued su = list_all (\<lambda>c. list_all (\<lambda>x. case find_capability (pt_id x) of
     None \<Rightarrow> False | Some d \<Rightarrow> pt_protocol_contract_id x = cd_protocol_contract_id d) (cm_potential_capabilities c)) (su_models su)"

lemma unique_references_empty: "unique_references rs = [] \<Longrightarrow> rs = []"
proof (cases rs)
  case (Cons r rest)
  have "fold (\<lambda>r. AList.update (ur_profile_id r, ur_capability_id r, ur_kind r) r) xs d \<noteq> []" if "d \<noteq> []" for xs :: "usage_reference list" and d
    using that by (induction xs arbitrary: d) (auto simp: update_nonempty)
  then have "unique_references rs \<noteq> []" using Cons by (simp add: unique_references_def)
  then show "unique_references rs = [] \<Longrightarrow> rs = []" by simp
qed simp

lemma binding_referenced:
  assumes "binding_reference (cb_protocol_contract b) ids prof k r (VDict (binding_dump b)) = Inr refs"
    and "i \<in> set ids" "i \<in> set (cb_worker_ids b)"
  shows "refs \<noteq> []"
  using assms
  by (auto simp: binding_reference_def value_get_def dget_or_def binding_dump_def iterable_def rbind_eq_Inr eq_str_def list_ex_iff image_iff
      split: if_splits)

text \<open>Without references no active route uses the capability for the model.\<close>

lemma unreferenced_capability:
  assumes inv: "management_inv rp m" and rs: "capability_policy_references su m i r x = Inr []"
    and x: "pt_protocol_contract_id x = Some (cb_protocol_contract b)"
    and a: "(p, a) \<in> set (st_active (mg_store m))" and l: "live (mg_store m) p a d" and b: "b \<in> set (rpf_capabilities d)"
    and w: "map_of (mg_definitions m) wid = Some w" "(cache_model_id w, cache_revision w) = (i, r)"
  shows "wid \<notin> set (cb_worker_ids b)"
proof
  assume wid: "wid \<in> set (cb_worker_ids b)"
  let ?ids = "map wd_id (filter (\<lambda>w. worker_cache_identity (su_repr su) (worker_dump w) = (i, r)) (map snd (mg_definitions m)))"
  have ids: "wid \<in> set ?ids" using inv_definitions_ok [OF inv] w by (auto simp: definitions_ok_iff image_iff dest!: map_of_SomeD)
  obtain ps v d0 where ps: "list_routing_profiles (mg_store m) = Inr ps" "v \<in> set ps"
    and d0: "pr_definition v = VDict (routing_dump d0)" "rpf_id d0 = p" "pr_active v" "pr_active_revision v = Some (ae_revision a)"
    using profile_listed [OF inv a] by blast
  obtain rv where rv: "get_routing_profile_revision p (ae_revision a) (mg_store m) = Inr (Some rv)" "rv_definition rv = VDict (routing_dump d)"
    using active_revision_listed [OF inv a l] by blast
  obtain refs where refs: "map_res (policy_references_of (cb_protocol_contract b) ?ids m) ps = Inr refs" "unique_references (concat refs) = []"
    using rs x ps(1) by (auto simp: capability_policy_references_def rbind_eq_Inr Let_def)
  obtain y where y: "y \<in> set refs" "policy_references_of (cb_protocol_contract b) ?ids m v = Inr y" using map_res_member [OF refs(1) ps(2)] by blast
  have "y = []" using y(1) unique_references_empty [OF refs(2)] by auto
  have id: "id_text (VDict (routing_dump d0)) = Inr p" using d0(2) by (simp add: id_text_def py_index_def)
  have bs: "bindings_of (VDict (routing_dump d)) = Inr (map (\<lambda>b. VDict (binding_dump b)) (rpf_capabilities d))" for d
    by (simp add: bindings_of_def value_get_def dget_or_def routing_dump_def iterable_def)
  obtain live where live: "map_res (binding_reference (cb_protocol_contract b) ?ids (VDict (routing_dump d0)) ''active'' (Some (ae_revision a)))
      (map (\<lambda>b. VDict (binding_dump b)) (rpf_capabilities d)) = Inr live" "concat live = []"
    using y(2) d0 id rv bs \<open>y = []\<close> by (auto simp: policy_references_of_def rbind_eq_Inr Let_def)
  obtain z where "z \<in> set live" "binding_reference (cb_protocol_contract b) ?ids (VDict (routing_dump d0)) ''active'' (Some (ae_revision a))
      (VDict (binding_dump b)) = Inr z" using map_res_member [OF live(1), of "VDict (binding_dump b)"] b by auto
  then show False using binding_referenced [OF _ ids wid] live(2) by fastforce
qed

lemma found: "List.find P xs = Some x \<Longrightarrow> x \<in> set xs \<and> P x"
  by (auto simp: find_Some_iff)

lemma inv_sets_capability:
  assumes inv: "management_inv rp m" and c: "catalogued su"
  shows "management_inv rp (snd (set_capability_policy su i r cap b m))"
proof -
  let ?s = "set_model_capability_allowed i r cap b (mg_store m)"
  have "management_inv rp (m\<lparr>mg_store := ?s\<rparr>)"
    if k: "k \<in> set (su_models su)" "x \<in> set (cm_potential_capabilities k)" "pt_id x = cap"
      and none: "b \<or> capability_policy_references su m i r x = Inr []" for k x
  proof (rule inv_policies [OF inv])
    fix p a d c wid w
    assume a: "(p, a) \<in> set (st_active (mg_store m))" "live (mg_store m) p a d" "c \<in> set (rpf_capabilities d)"
      and w: "wid \<in> set (cb_worker_ids c)" "map_of (mg_definitions m) wid = Some w" and d: "disallowed ?s c w"
    have "\<not> (\<not> b \<and> (cache_model_id w, cache_revision w) = (i, r) \<and> capability_id_for_contract (cb_protocol_contract c) = Some cap)"
    proof
      assume e: "\<not> b \<and> (cache_model_id w, cache_revision w) = (i, r) \<and> capability_id_for_contract (cb_protocol_contract c) = Some cap"
      have "pt_protocol_contract_id x = Some (cb_protocol_contract c)"
        using contract_of_capability [of "cb_protocol_contract c" cap] e \<open>catalogued su\<close> k by (fastforce simp: catalogued_def list_all_iff)
      then show False using unreferenced_capability [OF inv _ _ a w(2)] none e w(1) by blast
    qed
    then show "disallowed (mg_store m) c w" using d
      by (auto simp: disallowed_def set_model_capability_allowed_def update_conv split: option.splits if_splits)
  qed (simp_all add: set_model_capability_allowed_def same_routing_def)
  then show ?thesis using inv
    by (auto simp: set_capability_policy_def rbind_eq_Inr installed_model_def raised_def refused_def require_mutable_def
        split: sum.splits option.splits if_splits dest!: found)
qed

end
