(* ===== verification/Management_Properties.thy ===== *)
theory Management_Properties
  imports Management_Workers
begin

text \<open>
  Publication keeps the invariant of the management process, so that every run of its handlers has
  active routes only to workers that are configured and permitted; and where the handlers fall short
  of what they mean to do.
\<close>

section \<open>Validation against the effective policy\<close>

lemma set_default_lookup: "map_of (set_default k v d) x = (if x = k \<and> map_of d k = None then Some v else map_of d x)"
  by (auto simp: set_default_def map_add_def split: option.split)

text \<open>A policy that overrides no explicit refusal.\<close>

definition honours :: "store \<Rightarrow> capability_policy \<Rightarrow> bool" where
  "honours s policy = ((\<forall>k. map_of (st_capability_policy s) k \<noteq> None \<longrightarrow> map_of policy k \<noteq> None)
     \<and> (\<forall>i r c. map_of policy (i, r, c) = Some True \<longrightarrow>
          model_cache_allowed i r s \<and> map_of (st_capability_policy s) (i, r, c) \<noteq> Some False))"

lemma honours_set_default:
  "honours s policy \<Longrightarrow> model_cache_allowed i r s \<Longrightarrow> honours s (set_default (i, r, c) True policy)"
  by (fastforce simp: honours_def set_default_lookup split: if_splits)

lemma honours_grandfather: "honours s policy \<Longrightarrow> honours s (grandfather su s w policy)"
proof -
  have "honours s (fold (\<lambda>c. set_default (i, r, c) True) cs policy)" if "honours s policy" "model_cache_allowed i r s" for i r cs policy
    using that by (induction cs arbitrary: policy) (simp_all add: honours_set_default)
  then show "honours s policy \<Longrightarrow> honours s (grandfather su s w policy)" by (simp add: grandfather_def)
qed

lemma honours_effective: "honours (mg_store m) (effective_policy su m)"
proof -
  let ?s = "mg_store m"
  have base: "map_of (map (\<lambda>((i, r, c), b). ((i, r, c), b \<and> model_cache_allowed i r ?s)) d) (i, r, c)
      = map_option (\<lambda>b. b \<and> model_cache_allowed i r ?s) (map_of d (i, r, c))"
    for d :: capability_policy and i r c by (induction d) auto
  have "honours ?s (map (\<lambda>((i, r, c), b). ((i, r, c), b \<and> model_cache_allowed i r ?s)) (st_capability_policy ?s))"
    unfolding honours_def using base by auto
  moreover have "honours ?s (fold (grandfather su ?s) ws policy)" if "honours ?s policy" for ws policy
    using that by (induction ws arbitrary: policy) (simp_all add: honours_grandfather)
  ultimately show ?thesis by (simp add: effective_policy_def)
qed

lemma permitted_worker:
  assumes "honours s policy" and "\<And>c. capability_id_for_contract (cb_protocol_contract b) = Some c \<Longrightarrow> policy_allows rp policy w c"
  shows "\<not> disallowed s b w"
proof (cases "capability_id_for_contract (cb_protocol_contract b)")
  case (Some c)
  then have "map_of policy (cache_model_id w, cache_revision w, c) = Some True" using assms(2) by (simp add: policy_allows_def)
  then have "model_cache_allowed (cache_model_id w) (cache_revision w) s"
    "map_of (st_capability_policy s) (cache_model_id w, cache_revision w, c) \<noteq> Some False" using assms(1) by (simp_all add: honours_def)
  then show ?thesis using Some by (auto simp: disallowed_def model_cache_allowed_def split: option.splits)
qed (simp add: disallowed_def)

lemma validated_serves:
  assumes v: "validated su p m = Inr q" and d: "definitions_ok m"
  shows "q = p \<and> (\<forall>b\<in>set (rpf_capabilities p). binding_served m b)"
proof -
  obtain tests val where val: "validate_routing_profile (su_repr su) (su_digest su) p (map snd (mg_definitions m)) tests
      (Some (effective_policy su m)) = Inr val" "rv_valid val" "q = p"
  proof -
    obtain val where val: "validate_profile_definition su p m = Inr val"
      using v by (cases "validate_profile_definition su p m") (simp_all add: validated_def)
    then have "rv_valid val \<and> q = p" using v by (cases "rv_valid val") (simp_all add: validated_def invalid_profile_def)
    moreover obtain tests where "list_tests (mg_store m) = Inr tests"
      using val by (cases "list_tests (mg_store m)") (simp_all add: validate_profile_definition_def)
    ultimately show thesis using val that [of "map test_dict tests" val] by (simp add: validate_profile_definition_def)
  qed
  have "binding_served m b" if b: "b \<in> set (rpf_capabilities p)" for b
  proof -
    have "\<exists>w. map_of (mg_definitions m) wid = Some w \<and> \<not> disallowed (mg_store m) b w" if wid: "wid \<in> set (cb_worker_ids b)" for wid
    proof -
      obtain w where w: "active_workers (map snd (mg_definitions m)) wid = Some w"
        "worker_serves (su_repr su) (su_digest su) (rpf_qualification p) (Some (effective_policy su m)) tests b w"
        using validation_iff [OF val(1)] val(2) b wid by blast
      have "w \<in> snd ` set (mg_definitions m)" "wd_id w = wid" using w(1) by (auto simp: active_workers_def dest!: map_of_SomeD)
      then have "map_of (mg_definitions m) wid = Some w" using d by (auto simp: definitions_ok_def)
      moreover have "\<not> disallowed (mg_store m) b w"
        by (rule permitted_worker [OF honours_effective]) (use w(2) in \<open>unfold worker_serves_def, blast\<close>)
      ultimately show ?thesis by blast
    qed
    then show ?thesis by (simp add: binding_served_def)
  qed
  then show ?thesis using val(3) by blast
qed

section \<open>Publication\<close>

lemma snapshot_capability:
  assumes "routing_snapshot d r = routing_snapshot p q"
  shows "rpf_capabilities d = rpf_capabilities p"
proof -
  let ?f = "\<lambda>b :: capability_binding. VDict
         [(''capability_id'', VStr (cb_id b)), (''display_name'', VStr (cb_display_name b)), (''public_name'', VStr (cb_public_name b)),
          (''protocol_contract'', VStr (cb_protocol_contract b)), (''tool_calling_enabled'', VBool (cb_tool_calling_enabled b)),
          (''worker_ids'', VList (map VStr (cb_worker_ids b)))]"
  have "inj ?f"
  proof (rule injI)
    fix b c :: capability_binding assume "?f b = ?f c"
    then show "b = c" by (intro capability_binding.equality) (auto dest!: map_injective simp: inj_def)
  qed
  moreover have "map ?f (rpf_capabilities d) = map ?f (rpf_capabilities p)" using assms by (simp add: routing_snapshot_def)
  ultimately show ?thesis by (simp add: inj_map_eq_map)
qed

lemma snapshot_revision [simp]: "AList.update ''revision'' (VInt r) (routing_snapshot p q) = routing_snapshot p r"
  by (simp add: routing_snapshot_def)

lemma inv_activates:
  assumes inv: "management_inv rp m" and si: "store_inv rp s'"
    and s: "st_profiles s' = st_profiles (mg_store m)" "st_workers s' = st_workers (mg_store m)" "same_policies (mg_store m) s'"
    and rv: "\<And>q. q \<noteq> pid \<Longrightarrow> revisions_of q s' = revisions_of q (mg_store m)"
    and wr: "\<And>r e. (r, e) \<in> set (revisions_of pid s') \<Longrightarrow> written pid (re_document e)"
    and a: "st_active s' = AList.update pid a (st_active (mg_store m))" and l: "live s' pid a p"
    and b: "\<forall>b\<in>set (rpf_capabilities p). binding_served m b"
  shows "management_inv rp (m\<lparr>mg_store := s'\<rparr>)"
proof -
  have lv: "live s' q c d = live (mg_store m) q c d" if "q \<noteq> pid" for q c d using rv [OF that] by (simp add: live_def)
  have dist: "distinct (map fst (st_active s'))" "distinct (map fst (st_active (mg_store m)))"
    using si inv by (simp_all add: store_inv_def management_inv_def)
  have keep: "q = pid \<and> c = a \<or> q \<noteq> pid \<and> (q, c) \<in> set (st_active (mg_store m))" if "(q, c) \<in> set (st_active s')" for q c
  proof -
    have "map_of (st_active s') q = Some c" using that dist(1) by simp
    then show ?thesis using dist(2) by (auto simp: a update_conv split: if_splits dest: map_of_SomeD)
  qed
  have "written_store s'" unfolding written_store_def
  proof (intro conjI allI impI)
    show "written q (de_document e)" if "(q, e) \<in> set (st_profiles s')" for q e using that written_draft [OF inv] by (simp add: s)
    show "written q (re_document e)" if "(r, e) \<in> set (revisions_of q s')" for q r e
      using that wr rv written_revision [OF inv] by (cases "q = pid") auto
    show "\<exists>d. live s' q c d" if qc: "(q, c) \<in> set (st_active s')" for q c
      using keep [OF qc] l lv inv by (auto simp: management_inv_def written_store_def)
  qed
  moreover have keeps: "binding_served (m\<lparr>mg_store := s'\<rparr>) c" if "binding_served m c" for c
    by (rule binding_served_keeps [OF that]) (simp_all add: keeps_workers_refl s)
  have "routes_served (m\<lparr>mg_store := s'\<rparr>)" unfolding routes_served_def
  proof (intro allI impI ballI)
    fix q c d k
    assume q: "(q, c) \<in> set (st_active (mg_store (m\<lparr>mg_store := s'\<rparr>)))" "live (mg_store (m\<lparr>mg_store := s'\<rparr>)) q c d"
      and k: "k \<in> set (rpf_capabilities d)"
    have "binding_served m k"
    proof (cases "q = pid")
      case True
      then have "c = a" using keep q(1) by auto
      then have "routing_snapshot d (ae_revision a) = routing_snapshot p (ae_revision a)"
        using q(2) l by (auto simp: live_def encoded_def)
      then show ?thesis using snapshot_capability k b by metis
    next
      case False
      then have "(q, c) \<in> set (st_active (mg_store m))" "live (mg_store m) q c d" using keep q lv by auto
      then show ?thesis using k inv unfolding management_inv_def routes_served_def by blast
    qed
    then show "binding_served (m\<lparr>mg_store := s'\<rparr>) k" by (rule keeps)
  qed
  moreover have "definitions_ok (m\<lparr>mg_store := s'\<rparr>)" using inv_definitions_ok [OF inv] s(2) by (auto intro: definitions_ok_same)
  ultimately show ?thesis using si by (simp add: management_inv_def)
qed

lemma typed_validation: "typed su \<Longrightarrow> profile_model_validate su (VDict (routing_dump d)) = Inr p \<Longrightarrow> p = d"
  by (simp add: profile_model_validate_def typed_def rbind_eq_Inr)

lemma published_row:
  assumes "set_active_routing_profile rp now pid r (routing_snapshot p n) s = Inr s'"
  shows "\<exists>a. s' = s\<lparr>st_active := AList.update pid a (st_active s), st_last_activation := Some (pid, a)\<rparr>
     \<and> ae_revision a = r \<and> ae_routing a = encoded (routing_snapshot p r)"
  using assms by (auto simp: set_active_routing_profile_def Let_def rbind_eq_Inr split: if_splits)

lemma inv_publishes:
  assumes inv: "management_inv (su_repr su) m"
  shows "management_inv (su_repr su) (snd (publish_profile_handler su pid m))"
proof (cases "rbind (require_mutable su) (\<lambda>_. rbind (routing_profile_definition su pid m) (\<lambda>p. validated su p m))")
  case (Inl e)
  then show ?thesis using inv by (simp add: publish_profile_handler_def)
next
  case (Inr p)
  let ?put = "put_publication (su_repr su) (su_now su) (routing_dump p) (routing_snapshot p 0)"
  have si: "store_inv (su_repr su) (mg_store m)" using inv by (simp add: management_inv_def)
  have b: "\<forall>b\<in>set (rpf_capabilities p). binding_served m b"
    using Inr validated_serves [OF _ inv_definitions_ok [OF inv]] by (auto simp: rbind_eq_Inr)
  have "management_inv (su_repr su) (m\<lparr>mg_store := snd (attempt ?put (mg_store m))\<rparr>)"
  proof (cases "?put (mg_store m)")
    case (Inl e)
    then show ?thesis using inv by (simp add: attempt_def)
  next
    case (Inr x)
    obtain i r s' where x: "x = ((i, r), s')" by (cases x) auto
    have i: "i = rpf_id p" using Inr x by (auto simp: put_publication_def rbind_eq_Inr py_index_def py_str_def Let_def split: if_splits)
    obtain s1 where s1: "s1 = (mg_store m)\<lparr>st_revisions := st_revisions (mg_store m)
          @ [((i, r), \<lparr>re_document = encoded (routing_dump p), re_published_at = su_now su\<rparr>)]\<rparr>"
      "set_active_routing_profile (su_repr su) (su_now su) i r (routing_snapshot p 0) s1 = Inr s'"
      using publication_steps [OF si Inr [unfolded x]] by blast
    obtain a where a: "s' = s1\<lparr>st_active := AList.update i a (st_active s1), st_last_activation := Some (i, a)\<rparr>"
      "ae_revision a = r" "ae_routing a = encoded (routing_snapshot p r)" using published_row [OF s1(2)] by blast
    have rv: "revisions_of q s' = revisions_of q (mg_store m) @ (if q = i then [(r, \<lparr>re_document = encoded (routing_dump p),
        re_published_at = su_now su\<rparr>)] else [])" for q
      by (rule revisions_of_append) (simp add: a(1) s1(1))
    have "management_inv (su_repr su) (m\<lparr>mg_store := s'\<rparr>)"
    proof (rule inv_activates [OF inv])
      show "store_inv (su_repr su) s'" using inv_publication [OF si Inr [unfolded x]] .
      show "written i (re_document e)" if "(q, e) \<in> set (revisions_of i s')" for q e
        using that written_revision [OF inv] i by (auto simp: rv written_def)
      show "live s' i a p" by (auto simp: live_def a(2,3) i rv)
      show "revisions_of q s' = revisions_of q (mg_store m)" if "q \<noteq> i" for q using that by (simp add: rv)
    qed (use b in \<open>simp_all add: a(1) s1(1) same_policies_def\<close>)
    then show ?thesis using Inr x by (simp add: attempt_def)
  qed
  moreover have "snd (publish_routing_profile (su_repr su) (su_now su) (routing_dump p) (routing_snapshot p 0) (mg_store m))
      = snd (attempt ?put (mg_store m))"
    by (simp add: publish_routing_profile_def after_commit_def reading_def split: prod.split sum.split)
  ultimately show ?thesis using Inr by (simp add: publish_profile_handler_def case_prod_beta)
qed

lemma inv_reactivates:
  assumes inv: "management_inv (su_repr su) m" and t: "typed su"
  shows "management_inv (su_repr su) (snd (reactivate_profile_handler su pid n m))"
proof (cases "rbind (require_mutable su) (\<lambda>_. rbind (raised (get_routing_profile_revision pid n (mg_store m))) (\<lambda>r.
        case r of None \<Rightarrow> refused 404 ''Unknown Routing Profile revision''
        | Some x \<Rightarrow> rbind (raised (profile_model_validate su (rv_definition x))) (\<lambda>p. validated su p m)))")
  case (Inl e)
  then show ?thesis using inv by (simp add: reactivate_profile_handler_def)
next
  case (Inr p)
  let ?s = "snd (activate_routing_profile_revision (su_repr su) (su_now su) pid n (routing_snapshot p n) (mg_store m))"
  have si: "store_inv (su_repr su) (mg_store m)" using inv by (simp add: management_inv_def)
  obtain x q where x: "get_routing_profile_revision pid n (mg_store m) = Inr (Some x)" "profile_model_validate su (rv_definition x) = Inr q"
    "validated su q m = Inr p" using Inr by (auto simp: rbind_eq_Inr split: option.splits)
  have pq: "p = q" and b: "\<forall>b\<in>set (rpf_capabilities p). binding_served m b"
    using validated_serves [OF x(3) inv_definitions_ok [OF inv]] by auto
  obtain e where e: "(n, e) \<in> set (revisions_of pid (mg_store m))" using revision_record_exists [OF x(1)] by auto
  have xe: "x = revision_view (mg_store m) pid (n, e)" using get_revision [OF si e] x(1) by simp
  obtain d where d: "re_document e = encoded (routing_dump d)" "rpf_id d = pid" using written_revision [OF inv e] by (auto simp: written_def)
  have "rv_definition x = VDict (routing_dump d)" using d(1) by (simp add: xe revision_view_def encoded_def)
  then have p: "p = d" using x(2) typed_validation [OF t, of d q] pq by simp
  have "management_inv (su_repr su) (m\<lparr>mg_store := ?s\<rparr>)"
  proof (cases "set_active_routing_profile (su_repr su) (su_now su) pid n (routing_snapshot p n) (mg_store m)")
    case (Inl e)
    then show ?thesis using inv x(1) by (simp add: activate_routing_profile_revision_def attempt_def)
  next
    case (Inr s')
    then have s': "?s = s'" using x(1) by (simp add: activate_routing_profile_revision_def attempt_def)
    obtain a where a: "s' = (mg_store m)\<lparr>st_active := AList.update pid a (st_active (mg_store m)), st_last_activation := Some (pid, a)\<rparr>"
      "ae_revision a = n" "ae_routing a = encoded (routing_snapshot p n)" using published_row [OF Inr] by blast
    have rv: "revisions_of q s' = revisions_of q (mg_store m)" for q by (rule revisions_of_same) (simp add: a(1))
    show ?thesis unfolding s'
    proof (rule inv_activates [OF inv])
      show "store_inv (su_repr su) s'" using inv_activation [OF si] s' by metis
      show "written pid (re_document f)" if "(q, f) \<in> set (revisions_of pid s')" for q f
        using that written_revision [OF inv] by (simp add: rv)
      show "live s' pid a p" using e d p by (auto simp: live_def a(2,3) rv)
      show "revisions_of q s' = revisions_of q (mg_store m)" for q by (rule rv)
    qed (use b in \<open>simp_all add: a(1) same_policies_def\<close>)
  qed
  then show ?thesis using Inr by (simp add: reactivate_profile_handler_def case_prod_beta)
qed

lemma inv_deactivates:
  assumes inv: "management_inv rp m"
  shows "management_inv rp (snd (deactivate_profile_handler su pid m))"
proof -
  let ?s = "(mg_store m)\<lparr>st_active := AList.delete pid (st_active (mg_store m))\<rparr>"
  have sub: "set (st_active ?s) \<subseteq> set (st_active (mg_store m))" using in_set_delete by fastforce
  have rv: "revisions_of q ?s = revisions_of q (mg_store m)" for q by (rule revisions_of_same) simp
  have lv: "live ?s q a d = live (mg_store m) q a d" for q a d by (rule live_same) simp
  have "written_store ?s" using inv sub unfolding management_inv_def written_store_def rv lv by fastforce
  moreover have "routes_served (m\<lparr>mg_store := ?s\<rparr>)"
    by (rule routes_served_keeps [of m]) (use inv sub in \<open>simp_all add: management_inv_def keeps_workers_refl same_policies_def\<close>)
  moreover have "definitions_ok (m\<lparr>mg_store := ?s\<rparr>)" using inv_definitions_ok [OF inv] by (auto intro: definitions_ok_same)
  moreover have "store_inv rp ?s" using inv inv_deactivate [of rp "mg_store m" pid] by (simp add: management_inv_def deactivate_routing_profile_def)
  ultimately have "management_inv rp (m\<lparr>mg_store := ?s\<rparr>)" by (simp add: management_inv_def)
  then show ?thesis using inv by (simp add: deactivate_profile_handler_def deactivate_routing_profile_def split: sum.split)
qed

lemma inv_tests:
  assumes inv: "management_inv rp m"
  shows "management_inv rp (m\<lparr>mg_store := snd (record_test dg now e r f (mg_store m))\<rparr>)"
proof (rule inv_keeps [OF inv])
  show "definitions_ok (m\<lparr>mg_store := snd (record_test dg now e r f (mg_store m))\<rparr>)"
    by (rule definitions_ok_same [OF inv_definitions_ok [OF inv]]) (simp_all add: record_test_def Let_def)
qed (simp_all add: record_test_def Let_def same_routing_def same_policies_def keeps_workers_refl)

section \<open>Runs\<close>

text \<open>An identifier is new when it is drawn.\<close>

fun fresh_run :: "(surroundings \<times> management_op) list \<Rightarrow> management \<Rightarrow> bool" where
  "fresh_run [] m = True"
| "fresh_run (x # xs) m = (fresh (fst x) m \<and> fresh_run xs (management_step x m))"

definition run_management :: "(surroundings \<times> management_op) list \<Rightarrow> management \<Rightarrow> management" where
  "run_management ops m = fold management_step ops m"

definition empty_management :: "supervisor \<Rightarrow> management" where
  "empty_management sv = \<lparr>mg_store = empty_store, mg_definitions = [], mg_supervisor = sv\<rparr>"

lemma management_step_inv:
  assumes inv: "management_inv (su_repr su) m" and su: "typed su" "catalogued su" and f: "fresh su m"
  shows "management_inv (su_repr su) (management_step (su, op) m)"
proof (cases op)
  case (Archives_Worker wid)
  then show ?thesis using inv_archives [OF inv] by simp
next
  case (Supervisor_Moves ev)
  then show ?thesis using inv inv_supervisor by (auto split: option.split)
qed (simp_all add: inv_creates [OF inv f] inv_renames [OF inv su(1)] inv_replaces [OF inv f] inv_lists [OF inv]
    inv_creates_profile [OF inv refl] inv_saves_profile [OF inv refl] inv_discards [OF inv refl] inv_deletes [OF inv]
    inv_publishes [OF inv] inv_reactivates [OF inv su(1)] inv_deactivates [OF inv] inv_sets_cache [OF inv]
    inv_sets_capability [OF inv su(2)] inv_tests [OF inv])

lemma management_run_inv:
  "\<forall>(su, op)\<in>set ops. typed su \<and> su_repr su = rp \<and> catalogued su \<Longrightarrow> fresh_run ops m \<Longrightarrow> management_inv rp m \<Longrightarrow>
     management_inv rp (run_management ops m)"
  by (induction ops arbitrary: m) (auto simp: run_management_def management_step_inv)

lemma empty_inv: "management_inv rp (empty_management sv)"
  using empty_store_inv [of rp]
  by (simp add: management_inv_def empty_management_def written_store_def definitions_ok_def routes_served_def empty_store_def revisions_of_def)


section \<open>A concrete run\<close>

definition chat_registration :: template_registration where
  "chat_registration = \<lparr>tr_template = \<lparr>rt_id = ''autoregressive-transformers'', rt_display_name = ''Chat'', rt_runtime = ''transformers-rocm'',
       rt_generation_family = AUTOREGRESSIVE, rt_capabilities = default_capability_set\<lparr>cs_chat := VBool True\<rparr>,
       rt_settings = [], rt_cache_setting = ''cache_root'', rt_include_cache_root = False,
       rt_lifecycle = None, rt_dtype = None, rt_uses_base_model_identity = False, rt_fixed_context_length = False\<rparr>,
     tr_package = \<lparr>mi_id = ''core'', mi_version = ''1.0.0'', mi_display_name = ''Core'', mi_publisher = ''Us''\<rparr>,
     tr_source = Packaged, tr_digest = ''d''\<rparr>"

definition chat_model :: cached_model where
  "chat_model = \<lparr>cm_model_id = ''org/chat'', cm_revision = ''r1'', cm_download_state = ''installed-untested'',
     cm_potential_capabilities = [\<lparr>pt_id = ''general-chat'', pt_protocol_contract_id = Some ''openai-chat-v1''\<rparr>],
     cm_configuration_support = Some ''autoregressive-transformers'', cm_cache_location = ''/cache/models--org--chat'',
     cm_snapshot_location = ''/cache/models--org--chat/snapshots/r1'', cm_maximum_context_length = Some 4096,
     cm_base_model_id = None, cm_base_model_revision = None, cm_artifacts = []\<rparr>"

definition chat_surroundings :: "string \<Rightarrow> surroundings" where
  "chat_surroundings uuid = \<lparr>su_repr = (\<lambda>_. []), su_digest = (\<lambda>_. []), su_bool = (\<lambda>v. Inr (v = VBool True)),
     su_worker_fields = read_worker, su_profile_fields = read_profile, su_harness = False, su_configuration_locked = False,
     su_now = ''t'', su_uuid = uuid, su_models = [chat_model], su_registrations = [(''autoregressive-transformers'', chat_registration)],
     su_packaged = [], su_resolve = id\<rparr>"

definition chat_uuid :: string where
  "chat_uuid = ''0f8fad5b-d9cb-469f-a165-70867728950e''"

definition chat_request :: worker_create where
  "chat_request = \<lparr>wc_name = ''Chat'', wc_model_id = ''org/chat'', wc_revision = ''r1'', wc_dtype = None, wc_lifecycle = None,
     wc_context_length = None, wc_maximum_new_tokens = None, wc_maximum_denoising_steps = None, wc_visual_token_budget = None,
     wc_artifact_id = None, wc_runtime_template_id = None, wc_prefix_cache_enabled = False, wc_capability_id = None\<rparr>"

definition chat_profile :: routing_profile where
  "chat_profile = \<lparr>rpf_id = ''7c9e6679-7425-40de-944b-e07fc1f90ae8'', rpf_name = ''Booth'', rpf_description = [],
     rpf_qualification = Compatible, rpf_capabilities = [\<lparr>cb_id = ''7c9e6679-7425-40de-944b-e07fc1f90ae7'',
       cb_display_name = ''Chat'', cb_public_name = ''chat-1'', cb_protocol_contract = ''openai-chat-v1'',
       cb_tool_calling_enabled = False, cb_worker_ids = [chat_uuid]\<rparr>]\<rparr>"

definition chat_ops :: "(surroundings \<times> management_op) list" where
  "chat_ops = [(chat_surroundings ''u0'', Sets_Capability_Policy ''org/chat'' ''r1'' ''general-chat'' True),
     (chat_surroundings chat_uuid, Creates_Worker chat_request None),
     (chat_surroundings ''u1'', Creates_Profile (VDict (routing_dump chat_profile))),
     (chat_surroundings ''u2'', Publishes_Profile (rpf_id chat_profile))]"

definition chat_start :: management where
  "chat_start = empty_management (supervisor_init [] (Fin 30) ''/data'')"


definition chat_worker :: worker_definition where
  "chat_worker = \<lparr>wd_id = chat_uuid, wd_name = ''Chat'', wd_model_id = ''org/chat'', wd_revision = ''r1'',
     wd_artifact_model_id = None, wd_artifact_revision = None, wd_generation_family = ''autoregressive'',
     wd_runtime = ''transformers-rocm'', wd_runtime_template_id = Some ''autoregressive-transformers'',
     wd_runtime_template_version = Some ''1.0.0'', wd_lifecycle = ''on-demand'', wd_port = 8630, wd_dtype = ''float16'',
     wd_capabilities = capability_dump (default_capability_set\<lparr>cs_chat := VBool True\<rparr>),
     wd_settings = [(''maximum_new_tokens'', VInt 128), (''context_length'', VInt 2048),
       (''prefix_cache_enabled'', VBool False), (''cache_root'', VStr ''/cache'')],
     wd_capability_policy_version = Some 5, wd_archived = False\<rparr>"

definition chat_permitted :: management where
  "chat_permitted = chat_start\<lparr>mg_store := empty_store\<lparr>st_capability_policy := [((''org/chat'', ''r1'', ''general-chat''), True)]\<rparr>\<rparr>"

lemma chat_step_policy: "management_step (chat_surroundings ''u0'', Sets_Capability_Policy ''org/chat'' ''r1'' ''general-chat'' True) chat_start = chat_permitted"
  by (simp add: set_capability_policy_def require_mutable_def chat_surroundings_def installed_model_def chat_model_def chat_permitted_def
      set_model_capability_allowed_def chat_start_def empty_management_def empty_store_def)

lemma chat_plan: "create_plan_of (chat_surroundings chat_uuid) chat_request chat_permitted = Inr \<lparr>cp_name = ''Chat'', cp_cached = chat_model, cp_template_id = ''autoregressive-transformers'', cp_registration = chat_registration,
     cp_context_length = 2048, cp_checkpoint_dir = None, cp_artifact_path = None, cp_candidate_manifest_id = None\<rparr>"
  by code_simp
lemma chat_definition: "new_definition (chat_surroundings chat_uuid) chat_request \<lparr>cp_name = ''Chat'', cp_cached = chat_model, cp_template_id = ''autoregressive-transformers'', cp_registration = chat_registration,
     cp_context_length = 2048, cp_checkpoint_dir = None, cp_artifact_path = None, cp_candidate_manifest_id = None\<rparr> chat_permitted = Inr chat_worker"
  by code_simp
lemma chat_to_profile: "(case to_profile False (\<lambda>v. Inr (v = VBool True)) chat_worker of Inr p \<Rightarrow> mp_id p = chat_uuid | _ \<Rightarrow> False)"
  by code_simp
definition chat_created :: "supervisor \<Rightarrow> management" where
  "chat_created sv = \<lparr>mg_store = (mg_store chat_permitted)\<lparr>st_workers := [(chat_uuid, \<lparr>we_name = ''Chat'', we_document = encoded (worker_dump chat_worker),
       we_created_at = ''t'', we_updated_at = ''t'', we_archived_at = None\<rparr>)]\<rparr>,
     mg_definitions = [(chat_uuid, chat_worker)], mg_supervisor = sv\<rparr>"

definition chat_drafted :: "supervisor \<Rightarrow> management" where
  "chat_drafted sv = (chat_created sv)\<lparr>mg_store := (mg_store (chat_created sv))\<lparr>st_profiles := [(rpf_id chat_profile,
     \<lparr>de_document = encoded (routing_dump chat_profile), de_created_at = ''t'', de_updated_at = ''t''\<rparr>)]\<rparr>\<rparr>"

lemma respond_stored_supervisor: "\<exists>sv. snd (respond_stored su wid m) = m\<lparr>mg_supervisor := sv\<rparr>"
proof -
  have "\<exists>sv. m = m\<lparr>mg_supervisor := sv\<rparr>" by (rule exI [of _ "mg_supervisor m"]) simp
  then show ?thesis using respond_supervisor [of su _ _ m]
    by (auto simp: respond_stored_def case_prod_beta split: sum.split option.split)
qed

lemma install_success:
  assumes "save_worker_definition (su_repr su) (su_now su) (worker_dump w) (mg_store m) = (Inr x, st)"
    and "to_profile (su_harness su) (su_bool su) w = Inr p" and "register_profile p (mg_supervisor m) = (Inr (), sv)"
  shows "\<exists>sv. snd (install_definition su w m) = \<lparr>mg_store = st, mg_definitions = AList.update (wd_id w) w (mg_definitions m), mg_supervisor = sv\<rparr>"
proof -
  let ?m = "m\<lparr>mg_store := st, mg_supervisor := sv, mg_definitions := AList.update (wd_id w) w (mg_definitions m)\<rparr>"
  obtain sv' where "snd (respond_stored su (wd_id w) ?m) = ?m\<lparr>mg_supervisor := sv'\<rparr>"
    using respond_stored_supervisor by blast
  then have "snd (install_definition su w m) = ?m\<lparr>mg_supervisor := sv'\<rparr>" using assms by (simp add: install_definition_def Let_def)
  then show ?thesis by (intro exI [of _ sv']) simp
qed

lemma chat_saved: "save_worker_definition (su_repr (chat_surroundings chat_uuid)) (su_now (chat_surroundings chat_uuid))
     (worker_dump chat_worker) (mg_store chat_permitted)
  = (Inr (Some (VDict (worker_dump chat_worker), snd (hd (st_workers (mg_store (chat_created sv)))))), mg_store (chat_created sv))"
  by code_simp

lemma chat_step_worker: "\<exists>sv. management_step (chat_surroundings chat_uuid, Creates_Worker chat_request None) chat_permitted = chat_created sv"
proof -
  let ?su = "chat_surroundings chat_uuid"
  have e: "management_step (?su, Creates_Worker chat_request None) chat_permitted = snd (install_definition ?su chat_worker chat_permitted)"
    by (simp add: create_worker_def chat_plan create_finishes_def chat_definition)
  obtain p where p: "to_profile (su_harness ?su) (su_bool ?su) chat_worker = Inr p"
    using chat_to_profile by (auto simp: chat_surroundings_def split: sum.splits)
  have "\<exists>sv. register_profile p (mg_supervisor chat_permitted) = (Inr (), sv)"
    by (simp add: register_profile_def chat_permitted_def chat_start_def empty_management_def supervisor_init_def dhas_def)
  then obtain sv where sv: "snd (install_definition ?su chat_worker chat_permitted) = \<lparr>mg_store = mg_store (chat_created undefined),
      mg_definitions = AList.update (wd_id chat_worker) chat_worker (mg_definitions chat_permitted), mg_supervisor = sv\<rparr>"
    using install_success [OF chat_saved p] by blast
  have "mg_definitions chat_permitted = []" "wd_id chat_worker = chat_uuid"
    by (simp_all add: chat_permitted_def chat_start_def empty_management_def chat_worker_def)
  then show ?thesis unfolding e sv by (intro exI [of _ sv]) (simp add: chat_created_def)
qed

lemma chat_step_draft: "management_step (chat_surroundings ''u1'', Creates_Profile (VDict (routing_dump chat_profile))) (chat_created sv) = chat_drafted sv"
proof -
  have "profile_body (chat_surroundings ''u1'') (VDict (routing_dump chat_profile)) = Inr chat_profile" by code_simp
  moreover have "get_routing_profile (rpf_id chat_profile) (mg_store (chat_created sv)) = Inr None" by code_simp
  moreover have "snd (save_routing_profile_draft (su_repr (chat_surroundings ''u1'')) (su_now (chat_surroundings ''u1'')) (routing_dump chat_profile)
      (mg_store (chat_created sv))) = mg_store (chat_drafted sv)" by code_simp
  ultimately show ?thesis
    by (simp add: create_routing_profile_def require_mutable_def chat_drafted_def) (simp add: chat_surroundings_def)
qed
lemma chat_step_publish: "map fst (st_active (mg_store (management_step (chat_surroundings ''u2'', Publishes_Profile (rpf_id chat_profile)) (chat_drafted sv)))) = [rpf_id chat_profile]"
  by code_simp
lemma chat_run:
  "\<exists>sv. fresh_run chat_ops chat_start \<and> run_management chat_ops chat_start
     = management_step (chat_surroundings ''u2'', Publishes_Profile (rpf_id chat_profile)) (chat_drafted sv)"
proof -
  obtain sv where sv: "management_step (chat_surroundings chat_uuid, Creates_Worker chat_request None) chat_permitted = chat_created sv"
    using chat_step_worker by blast
  have u: "fst (chat_surroundings u, x) = chat_surroundings u" "su_uuid (chat_surroundings u) = u" for u :: string and x :: management_op
    by (simp_all add: chat_surroundings_def)
  have f: "fresh (chat_surroundings u) chat_start" "fresh (chat_surroundings u) chat_permitted"
      "u \<noteq> chat_uuid \<Longrightarrow> fresh (chat_surroundings u) (chat_created sv)" "u \<noteq> chat_uuid \<Longrightarrow> fresh (chat_surroundings u) (chat_drafted sv)" for u
    by (simp_all add: fresh_def u chat_start_def chat_permitted_def empty_management_def chat_created_def chat_drafted_def)
  have n: "''u1'' \<noteq> chat_uuid" "''u2'' \<noteq> chat_uuid" by (simp_all add: chat_uuid_def)
  show ?thesis
    unfolding chat_ops_def run_management_def fresh_run.simps fold.simps o_apply id_apply u chat_step_policy sv chat_step_draft
    by (intro exI [of _ sv]) (simp add: f n)
qed

lemma chat_surroundings_ok: "\<forall>(su, op)\<in>set chat_ops. typed su \<and> su_repr su = (\<lambda>_. []) \<and> catalogued su"
proof -
  have "typed (chat_surroundings u)" for u by (rule typed_reader) (simp_all add: chat_surroundings_def)
  moreover have "catalogued (chat_surroundings u)" for u
  proof -
    have "catalogued (chat_surroundings u) = catalogued (chat_surroundings [])" by (simp add: catalogued_def chat_surroundings_def)
    also have "\<dots>" by code_simp
    finally show ?thesis .
  qed
  moreover have "su_repr (chat_surroundings u) = (\<lambda>_. [])" for u by (simp add: chat_surroundings_def)
  ultimately show ?thesis by (simp add: chat_ops_def)
qed


end
