(* ===== verification/Management_Creation.thy ===== *)
theory Management_Creation
  imports Management_Properties
begin

text \<open>
  Creating a worker is all or nothing: a definition that was validated once is valid when the store
  is read back, so the only errors come before the definition is stored or are undone. And where the
  handlers fall short: a blank name, and an archive that waits for its worker's lock.
\<close>

section \<open>Names\<close>

definition is_word :: "string \<Rightarrow> bool" where
  "is_word w = (w \<noteq> [] \<and> (\<forall>c\<in>set w. \<not> is_space c))"

lemma words_nil: "dropWhile is_space s = [] \<Longrightarrow> py_words s = []"
  by (subst py_words.simps) (simp only: list.case)

lemma words_cons: "dropWhile is_space s = c # t \<Longrightarrow>
    py_words s = (c # takeWhile (\<lambda>x. \<not> is_space x) t) # py_words (dropWhile (\<lambda>x. \<not> is_space x) t)"
  by (subst py_words.simps) (simp only: list.case)

lemma words_skip: "is_space c \<Longrightarrow> py_words (c # s) = py_words s"
  by (cases "dropWhile is_space s") (simp_all only: words_nil words_cons dropWhile.simps if_True)

lemma words_are: "w \<in> set (py_words s) \<Longrightarrow> is_word w"
proof (induction s rule: py_words.induct)
  case (1 s)
  show ?case
  proof (cases "dropWhile is_space s")
    case Nil
    then show ?thesis using 1(2) by (simp only: words_nil) simp
  next
    case (Cons c t)
    have "\<not> is_space c" using Cons by (metis dropWhile_eq_Cons_conv)
    then have "is_word (c # takeWhile (\<lambda>x. \<not> is_space x) t)" unfolding is_word_def using set_takeWhileD by fastforce
    moreover have "w = c # takeWhile (\<lambda>x. \<not> is_space x) t \<or> w \<in> set (py_words (dropWhile (\<lambda>x. \<not> is_space x) t))"
      using 1(2) unfolding words_cons [OF Cons] by simp
    ultimately show ?thesis using 1(1) [OF Cons] by blast
  qed
qed

lemma words_of_word: "is_word w \<Longrightarrow> py_words (w @ '' '' @ s) = w # py_words s \<and> py_words w = [w]"
proof -
  assume w: "is_word w"
  obtain c t where ct: "w = c # t" "\<not> is_space c" "\<forall>x\<in>set t. \<not> is_space x" using w by (cases w) (auto simp: is_word_def)
  have sp: "is_space CHR '' ''" by code_simp
  have tk: "takeWhile (\<lambda>x. \<not> is_space x) (t @ CHR '' '' # s) = t" "dropWhile (\<lambda>x. \<not> is_space x) (t @ CHR '' '' # s) = CHR '' '' # s"
    using ct(3) sp by (simp_all add: takeWhile_append dropWhile_append)
  have tk2: "takeWhile (\<lambda>x. \<not> is_space x) t = t" "dropWhile (\<lambda>x. \<not> is_space x) t = []" using ct(3) by auto
  have d: "dropWhile is_space (c # u) = c # u" for u using ct(2) by simp
  have "py_words (w @ '' '' @ s) = w # py_words s" using tk words_skip [OF sp] by (simp add: ct(1) words_cons [OF d])
  moreover have "py_words w = [w]" unfolding ct(1) words_cons [OF d] tk2 by (simp add: words_nil)
  ultimately show ?thesis by simp
qed

lemma words_join: "\<forall>w\<in>set ws. is_word w \<Longrightarrow> py_words (join '' '' ws) = ws"
proof (induction ws rule: induct_list012)
  case 1
  show ?case by (simp add: words_nil)
next
  case (2 w)
  then show ?case using words_of_word by simp
next
  case (3 w v ws)
  then show ?case using words_of_word [of w] by simp
qed

lemma join_words_length: "length (join '' '' (py_words s)) \<le> length s"
proof (induction s rule: length_induct)
  case (1 s)
  show ?case
  proof (cases "dropWhile is_space s")
    case Nil
    then show ?thesis by (simp only: words_nil) simp
  next
    case (Cons c t)
    let ?w = "takeWhile (\<lambda>x. \<not> is_space x) t"
    let ?r = "dropWhile (\<lambda>x. \<not> is_space x) t"
    have s: "Suc (length ?w + length ?r) \<le> length s"
    proof -
      have "Suc (length t) \<le> length s" using Cons length_dropWhile_le [of is_space s] by simp
      moreover have "length t = length ?w + length ?r" by (metis length_append takeWhile_dropWhile_id)
      ultimately show ?thesis by simp
    qed
    have w: "py_words s = (c # ?w) # py_words ?r" by (rule words_cons [OF Cons])
    show ?thesis
    proof (cases ?r)
      case Nil
      then have "py_words ?r = []" by (simp only: words_nil dropWhile.simps)
      then show ?thesis using s w by simp
    next
      case (Cons d u)
      have "is_space d" using Cons by (metis dropWhile_eq_Cons_conv)
      then have "py_words ?r = py_words u" unfolding Cons by (rule words_skip)
      moreover have "length (join '' '' (py_words u)) \<le> length u" using 1 s Cons by simp
      moreover have "length (join '' '' (x # ws)) \<le> length x + 1 + length (join '' '' ws)" for x ws by (cases ws) simp_all
      from this [of "c # ?w" "py_words u"] have "length (join '' '' ((c # ?w) # py_words u)) \<le> Suc (length ?w) + 1 + length (join '' '' (py_words u))"
        by simp
      ultimately show ?thesis using s Cons unfolding w by simp
    qed
  qed
qed

lemma clean_name_again: "clean_name n = Inr v \<Longrightarrow> label_length n \<Longrightarrow> clean_name v = Inr v \<and> label_length v"
proof -
  assume c: "clean_name n = Inr v" and l: "label_length n"
  then have v: "v = join '' '' (py_words n)" "v \<noteq> []" by (auto simp: clean_name_def Let_def split: if_splits)
  have "py_words v = py_words n" unfolding v(1) by (rule words_join) (simp add: words_are)
  then show ?thesis using v l join_words_length [of n]
    by (auto simp: clean_name_def Let_def label_length_def) (metis length_greater_0_conv Suc_leI)
qed

lemma validate_again: "validate_worker w = Inr v \<Longrightarrow> validate_worker v = Inr v"
proof -
  assume a: "validate_worker w = Inr v"
  then obtain n where n: "is_uuid (wd_id w)" "label_length (wd_name w)" "clean_name (wd_name w) = Inr n"
    "wd_lifecycle w \<in> {''resident'', ''on-demand'', ''exclusive''}" "1024 \<le> wd_port w" "wd_port w \<le> 65535"
    "normalise_legacy_settings (w\<lparr>wd_name := n\<rparr>) = Inr v"
    by (auto simp: validate_worker_def validate_uuid_def rbind_eq_Inr split: if_splits)
  have k: "wd_id v = wd_id w \<and> wd_name v = n \<and> wd_lifecycle v = wd_lifecycle w \<and> wd_port v = wd_port w"
    using n(7) by (auto simp: normalise_iff with_thinking_mode_def split: option.splits)
  have "normalise_legacy_settings v = Inr v" using normalisation_is_stable [OF n(7)] by blast
  moreover have "v\<lparr>wd_name := n\<rparr> = v" using k by simp
  ultimately have "normalise_legacy_settings (v\<lparr>wd_name := n\<rparr>) = Inr v" by simp
  then show ?thesis using n k clean_name_again [OF n(3,2)]
    by (simp add: validate_worker_def validate_uuid_def)
qed

section \<open>Creation\<close>

definition value_error :: "'a res \<Rightarrow> bool" where
  "value_error r = (case r of Inl e \<Rightarrow> (\<exists>x. e = ValueError x) | Inr _ \<Rightarrow> True)"

lemma value_error_simps [simp]: "value_error (Inr x)" "value_error (Inl (ValueError t))"
  by (simp_all add: value_error_def)

lemma value_error_bind: "value_error r \<Longrightarrow> (\<And>x. r = Inr x \<Longrightarrow> value_error (f x)) \<Longrightarrow> value_error (rbind r f)"
  by (cases r) (auto simp: value_error_def)

lemma capability_validate_error:
  assumes b: "\<And>v. value_error (to_bool v)"
  shows "value_error (capability_validate to_bool d)"
proof -
  have l: "value_error (literal_or_bool to_bool lit v)" for lit v using b by (auto simp: literal_or_bool_def intro: value_error_bind)
  have f: "value_error (field_or d k x g)" if "\<And>v. value_error (g v)" for k and x :: 'a and g using that
    by (auto simp: field_or_def split: option.split)
  have p: "value_error (prefix_caching_value v)" for v by (auto simp: prefix_caching_value_def split: pyval.split)
  show ?thesis unfolding capability_validate_def
    by (auto intro!: value_error_bind f l b p)
qed

lemma to_profile_error:
  assumes b: "\<And>v. value_error (to_bool v)"
  shows "value_error (to_profile harness to_bool w)"
  unfolding to_profile_def
proof (intro value_error_bind)
  show "value_error (parse_generation_family x)" for x by (auto simp: parse_generation_family_def split: option.split)
  show "value_error (parse_lifecycle x)" for x by (auto simp: parse_lifecycle_def split: option.split)
  show "value_error (capability_validate to_bool x)" for x by (rule capability_validate_error [OF b])
  show "value_error (validate_profile harness x)" for x
    using validate_profile_error [of harness x] by (cases "validate_profile harness x") (auto simp: value_error_def)
qed

lemma refresh_workers: "sv_workers (refresh_exits s) = sv_workers s"
proof -
  have "sv_workers (fold refresh_worker rs s) = sv_workers s" for rs s
    by (induction rs arbitrary: s) (simp_all add: refresh_worker_def update_worker_def split: option.split)
  then show ?thesis by (simp add: refresh_exits_def)
qed

lemma respond_registered:
  assumes "worker_model_validate su v = Inr w" and "dhas (sv_workers (mg_supervisor m)) (wd_id w)"
  shows "\<exists>x. respond su v row m = (Inr x, m\<lparr>mg_supervisor := refresh_exits (mg_supervisor m)\<rparr>) \<and> wp_definition x = w"
proof -
  obtain r where "map_of (sv_workers (refresh_exits (mg_supervisor m))) (wd_id w) = Some r"
    using assms(2) by (auto simp: dhas_def refresh_workers)
  then show ?thesis using assms by (auto simp: respond_def get_worker_def Let_def require_worker_def)
qed

lemma new_definition_valid: "new_definition su r p m = Inr w \<Longrightarrow> validate_worker w = Inr w"
  by (auto simp: new_definition_def from_profile_def rbind_eq_Inr split: option.splits dest: validate_again)

lemma delete_update_new: "map_of d k = None \<Longrightarrow> AList.delete k (AList.update k v d) = d"
  by (induction d) (auto simp: AList.delete_eq split: if_splits)

lemma installation:
  assumes t: "typed su" and b: "\<And>v. value_error (su_bool su v)" and w: "validate_worker w = Inr w"
    and n: "map_of (st_workers (mg_store m)) (wd_id w) = None" and c: "install_definition su w m = (res, m')"
  shows "(\<exists>e. res = Inl e \<and> m' = m) \<or> (\<exists>x. res = Inr x \<and> wp_definition x = w
    \<and> mg_definitions m' = AList.update (wd_id w) w (mg_definitions m)
    \<and> map_option we_document (map_of (st_workers (mg_store m')) (wd_id w)) = Some (encoded (worker_dump w))
    \<and> dhas (sv_workers (mg_supervisor m')) (wd_id w))"
proof (cases "save_worker_definition (su_repr su) (su_now su) (worker_dump w) (mg_store m)")
  case (Pair q st)
  show ?thesis
  proof (cases q)
    case (Inl e)
    then have "st = mg_store m" using saved_worker [OF Pair] by (simp add: is_ok_def)
    then show ?thesis using Pair Inl c by (intro disjI1) (auto simp: install_definition_def)
  next
    case (Inr x)
    obtain row where row: "st = (mg_store m)\<lparr>st_workers := AList.update (wd_id w) row (st_workers (mg_store m))\<rparr>"
      "we_document row = encoded (worker_dump w)" using saved_worker [OF Pair] Inr by (auto simp: is_ok_def)
    have undo: "m\<lparr>mg_store := snd (delete_worker_definition (wd_id w) st)\<rparr> = m"
      using delete_update_new [OF n] by (simp add: row(1) delete_worker_definition_def)
    show ?thesis
    proof (cases "to_profile (su_harness su) (su_bool su) w")
      case (Inl e)
      then obtain t where "e = ValueError t" using to_profile_error [of "su_bool su" "su_harness su" w, OF b] by (auto simp: value_error_def)
      then show ?thesis using Pair Inr Inl c undo by (auto simp: install_definition_def Let_def refused_def)
    next
      case prof: (Inr p)
      have id: "mp_id p = wd_id w" using to_profile_id [OF prof] .
      show ?thesis
      proof (cases "fst (register_profile p (mg_supervisor m))")
        case (Inl e)
        then obtain t where "register_profile p (mg_supervisor m) = (Inl (ValueError t), mg_supervisor m)"
          by (auto simp: register_profile_def split: if_splits)
        then show ?thesis using Pair Inr prof c undo by (auto simp: install_definition_def Let_def refused_def)
      next
        case reg: (Inr u)
        then obtain sv where sv: "register_profile p (mg_supervisor m) = (Inr (), sv)" "dhas (sv_workers sv) (wd_id w)"
          using id by (auto simp: register_profile_def dhas_def map_add_def split: if_splits)
        let ?m = "m\<lparr>mg_store := st, mg_supervisor := sv, mg_definitions := AList.update (wd_id w) w (mg_definitions m)\<rparr>"
        have v: "worker_model_validate su (VDict (worker_dump w)) = Inr w"
          using t w by (simp add: worker_model_validate_def typed_def)
        have g: "get_worker_definition (wd_id w) st = Inr (Some (VDict (worker_dump w), row))"
          using row by (simp add: get_worker_definition_def update_conv encoded_def decode_json_def)
        obtain y where y: "respond su (VDict (worker_dump w)) row ?m = (Inr y, ?m\<lparr>mg_supervisor := refresh_exits (mg_supervisor ?m)\<rparr>)"
          "wp_definition y = w" using respond_registered [OF v, where m = ?m and row = row] sv(2) by auto
        have "install_definition su w m = (Inr y, ?m\<lparr>mg_supervisor := refresh_exits (mg_supervisor ?m)\<rparr>)"
          using Pair Inr prof sv(1) g y(1) by (simp add: install_definition_def Let_def respond_stored_def)
        then show ?thesis using c y(2) row sv(2) by (auto simp: update_conv refresh_workers)
      qed
    qed
  qed
qed

text \<open>C22: Creating a worker is all or nothing: it either fails and changes nothing, or it answers a worker under the
  drawn identifier that is configured, stored as it is configured, and known to the supervisor.\<close>

theorem creation_is_all_or_nothing:
  assumes "typed su" and "\<And>v. value_error (su_bool su v)" and "map_of (st_workers (mg_store m)) (su_uuid su) = None"
    and "create_worker su r verified m = (res, m')"
  shows "(\<exists>e. res = Inl e \<and> m' = m) \<or> (\<exists>x w. res = Inr x \<and> wp_definition x = w \<and> wd_id w = su_uuid su
    \<and> mg_definitions m' = AList.update (wd_id w) w (mg_definitions m)
    \<and> map_option we_document (map_of (st_workers (mg_store m')) (wd_id w)) = Some (encoded (worker_dump w))
    \<and> dhas (sv_workers (mg_supervisor m')) (wd_id w))"
proof (cases "\<exists>p w. create_plan_of su r m = Inr p \<and> new_definition su r p m = Inr w \<and> create_worker su r verified m = install_definition su w m")
  case True
  then obtain p w where w: "new_definition su r p m = Inr w" "install_definition su w m = (res, m')" using assms(4) by auto
  have id: "wd_id w = su_uuid su" using new_definition_identity [OF w(1)] by simp
  have "map_of (st_workers (mg_store m)) (wd_id w) = None" using assms(3) id by simp
  from installation [OF assms(1,2) new_definition_valid [OF w(1)] this w(2)] id show ?thesis by blast
next
  case False
  then show ?thesis using assms(4)
    by (auto simp: create_worker_def create_finishes_def refused_def split: sum.splits option.splits)
qed

theorem creation_is_all_or_nothing_witness:
  "\<exists>x m'. create_worker (chat_surroundings chat_uuid) chat_request None chat_permitted = (Inr x, m')
     \<and> wd_id (wp_definition x) = chat_uuid \<and> dhas (sv_workers (mg_supervisor m')) chat_uuid"
proof -
  let ?su = "chat_surroundings chat_uuid"
  obtain res m' where c: "create_worker ?su chat_request None chat_permitted = (res, m')" by fastforce
  have t: "typed ?su" by (rule typed_reader) (simp_all add: chat_surroundings_def)
  have b: "value_error (su_bool ?su v)" for v by (simp add: chat_surroundings_def)
  have id: "su_uuid ?su = chat_uuid" by (simp add: chat_surroundings_def)
  have n: "map_of (st_workers (mg_store chat_permitted)) (su_uuid ?su) = None"
    by (simp add: chat_permitted_def chat_start_def empty_management_def empty_store_def)
  obtain sv where "m' = chat_created sv" using chat_step_worker c by auto
  then have "mg_definitions m' \<noteq> mg_definitions chat_permitted"
    by (simp add: chat_created_def chat_permitted_def chat_start_def empty_management_def)
  then show ?thesis using creation_is_all_or_nothing [OF t b n c] c unfolding id by auto
qed

section \<open>Where the handlers fall short\<close>

text \<open>A name of spaces passes the request, is stored empty, and no list of workers is answered any more:
  the stored document no longer validates. At the next start the worker is left out.\<close>

lemma blank_name_breaks_the_list:
  "fst (list_workers_handler (chat_surroundings ''u3'')
     (management_step (chat_surroundings ''u3'', Renames_Worker chat_uuid '' '') (chat_created sv))) = Inl (Raised (ValueError ''name''))"
  "(case start_management (chat_surroundings ''u3'') (Fin 30) ''/data''
       (mg_store (management_step (chat_surroundings ''u3'', Renames_Worker chat_uuid '' '') (chat_created sv))) of
     Inr m \<Rightarrow> mg_definitions m = [] | _ \<Rightarrow> False)"
  by code_simp+

text \<open>Archiving checks the references, then waits for the worker's lock. A profile that is published
  meanwhile keeps an active route to the worker that is gone.\<close>

definition chat_waiting :: "model_profile \<Rightarrow> nat list \<Rightarrow> supervisor" where
  "chat_waiting p held = (snd (register_profile p (supervisor_init [] (Fin 30) ''/data'')))
     \<lparr>sv_locks := [(chat_uuid, 0)], sv_next_lock := 1, sv_held := held, sv_removes := [(chat_uuid, 0, 0)]\<rparr>"

lemma publication_keeps_supervisor: "mg_supervisor (snd (publish_profile_handler su pid m)) = mg_supervisor m"
  "mg_definitions (snd (publish_profile_handler su pid m)) = mg_definitions m"
  by (simp_all add: publish_profile_handler_def split: sum.split prod.split)

lemma archive_meets_publication:
  assumes p: "to_profile False (\<lambda>v. Inr (v = VBool True)) chat_worker = Inr p"
  shows "archive_begins (chat_surroundings ''u1'') chat_uuid (chat_created ((chat_waiting p [0])\<lparr>sv_removes := []\<rparr>))
      = (Inr (), chat_created (chat_waiting p [0]))"
    and "\<exists>m. archive_resumes (chat_surroundings ''u3'') 0
        ((snd (publish_profile_handler (chat_surroundings ''u2'') (rpf_id chat_profile) (chat_drafted (chat_waiting p [0]))))
           \<lparr>mg_supervisor := chat_waiting p []\<rparr>) = Some (Inr (), m)
      \<and> mg_definitions m = [] \<and> map fst (st_active (mg_store m)) = [rpf_id chat_profile]"
proof -
  have id: "mp_id p = chat_uuid" using to_profile_id [OF p] by (simp add: chat_worker_def)
  have idle: "mw_process (new_worker p) = None" "mw_state (new_worker p) = STOPPED" by (simp_all add: new_worker_def)
  have r: "refresh_exits s = s" if "sv_workers s = [(chat_uuid, 0)]" "sv_obj s 0 = new_worker p" for s
    using that by (simp add: refresh_exits_def refresh_worker_def idle)
  have w: "sv_workers (chat_waiting p h) = [(chat_uuid, 0)]" "sv_obj (chat_waiting p h) 0 = new_worker p" for h
    by (simp_all add: chat_waiting_def register_profile_def supervisor_init_def id dhas_def)
  let ?su = "chat_surroundings ''u1''"
  let ?sv = "(chat_waiting p [0])\<lparr>sv_removes := []\<rparr>"
  have "worker_usage chat_uuid (chat_created sv) = Inr []" for sv by code_simp
  moreover have "rbind (require_mutable ?su) (\<lambda>_. require_definition (chat_created sv) chat_uuid) = Inr chat_worker" for sv
    by (simp add: require_mutable_def chat_surroundings_def require_definition_def chat_created_def)
  moreover have "get_worker_definition chat_uuid (mg_store (chat_created sv))
      = Inr (Some (VDict (worker_dump chat_worker), snd (hd (st_workers (mg_store (chat_created sv))))))" for sv
    by (simp add: get_worker_definition_def chat_created_def encoded_def decode_json_def)
  moreover have "mg_supervisor (chat_created sv) = sv" "(chat_created sv)\<lparr>mg_supervisor := sv'\<rparr> = chat_created sv'" for sv sv'
    by (simp_all add: chat_created_def)
  moreover have "\<exists>v. get_worker chat_uuid ?sv = (Inr v, ?sv) \<and> wv_state v = STOPPED"
    using r [of ?sv] w by (simp add: get_worker_def Let_def require_worker_def snapshot_def idle)
  moreover have "remove_call chat_uuid ?sv = (Pending, chat_waiting p [0])"
    using w by (simp add: remove_call_def require_worker_def lock_of_def) (simp add: chat_waiting_def)
  ultimately show "archive_begins ?su chat_uuid (chat_created ?sv) = (Inr (), chat_created (chat_waiting p [0]))"
    by (auto simp: archive_begins_def blocking_def)
  let ?m = "snd (publish_profile_handler (chat_surroundings ''u2'') (rpf_id chat_profile) (chat_drafted (chat_waiting p [0])))"
  let ?done = "\<lambda>sv. archive_finishes (chat_surroundings ''u3'') chat_uuid (?m\<lparr>mg_supervisor := sv\<rparr>)"
  have "\<exists>sv. remove_runs 0 (chat_waiting p []) = Some (Done, sv)"
    using w r [of "(chat_waiting p [])\<lparr>sv_removes := []\<rparr>"]
    by (simp add: remove_runs_def chat_waiting_def lock_free_def running_def idle Let_def dhas_def)
  then obtain sv where sv: "archive_resumes (chat_surroundings ''u3'') 0 (?m\<lparr>mg_supervisor := chat_waiting p []\<rparr>) = Some (Inr (), ?done sv)"
    by (auto simp: archive_resumes_def chat_waiting_def)
  have "mg_definitions (?done sv) = []"
    by (simp add: archive_finishes_def publication_keeps_supervisor chat_drafted_def chat_created_def)
  moreover have "st_active (mg_store (?done sv)) = st_active (mg_store ?m)"
    by (simp add: archive_finishes_def archive_worker_def split: option.split)
  ultimately show "\<exists>m. archive_resumes (chat_surroundings ''u3'') 0 (?m\<lparr>mg_supervisor := chat_waiting p []\<rparr>) = Some (Inr (), m)
      \<and> mg_definitions m = [] \<and> map fst (st_active (mg_store m)) = [rpf_id chat_profile]"
    using sv chat_step_publish by (intro exI [of _ "?done sv"]) simp
qed

end
