(* ===== verification/Probes.thy ===== *)
theory Probes
  imports SceneChat Management
begin

text \<open>
  The bounded probes of \<open>smoke_probes.py\<close>: for every protocol contract the request that the
  management process sends to a worker or through the gateway, and the test that decides whether the
  answer is evidence that the capability works. Payloads are Python values of any shape, so that a
  validator that raises is a result of the model.
\<close>

section \<open>Requests\<close>

record probe_request =
  pq_path :: string
  pq_body :: "pydict option"
  pq_headers :: "(string \<times> string) list option"

text \<open>What the module reads of the SceneChat contract: the packaged prompt and the JSON parser.\<close>

record probe_context =
  px_system_prompt :: string
  px_loads :: "string \<Rightarrow> json_failure + pyval"

type_synonym request_builder = "probe_context \<Rightarrow> string \<Rightarrow> string \<Rightarrow> probe_request"

definition probe_post :: "string \<Rightarrow> pydict \<Rightarrow> probe_request" where
  "probe_post path body = \<lparr>pq_path = path, pq_body = Some body, pq_headers = None\<rparr>"

definition text_chat_request :: request_builder where
  "text_chat_request px model api_key = probe_post ''/v1/chat/completions''
     [(''model'', VStr model),
      (''messages'', VList [VDict [(''role'', VStr ''user''), (''content'', VStr ''Reply with the word ready.'')]]),
      (''max_tokens'', VInt 4), (''temperature'', VInt 0), (''stream'', VBool False)]"

definition probe_image_url :: string where
  "probe_image_url = ''data:image/png;base64,'' @
     ''iVBORw0KGgoAAAANSUhEUgAAAAEAAAABCAQAAAC1HAwCAAAAC0lEQVR42mNk+A8AAQUBAScY42Y'' @ ''AAAAASUVORK5CYII=''"

definition image_chat_body_with :: "pyval \<Rightarrow> string \<Rightarrow> pydict" where
  "image_chat_body_with prompt model =
     [(''model'', VStr model),
      (''messages'', VList [VDict [(''role'', VStr ''user''),
         (''content'', VList [VDict [(''type'', VStr ''image_url''), (''image_url'', VDict [(''url'', VStr probe_image_url)])],
            prompt])]]),
      (''max_tokens'', VInt 4), (''temperature'', VInt 0), (''stream'', VBool False)]"

definition text_part :: "string \<Rightarrow> pyval" where
  "text_part t = VDict [(''type'', VStr ''text''), (''text'', VStr t)]"

definition image_chat_body :: "string \<Rightarrow> pydict" where
  "image_chat_body = image_chat_body_with (text_part ''Reply with the word ready.'')"

definition image_chat_request :: request_builder where
  "image_chat_request px model api_key = probe_post ''/v1/chat/completions'' (image_chat_body model)"

definition completion_request :: request_builder where
  "completion_request px model api_key = probe_post ''/v1/completions''
     [(''model'', VStr model), (''prompt'', VStr ''Reply with the word ready.''),
      (''max_tokens'', VInt 4), (''temperature'', VInt 0), (''stream'', VBool False)]"

definition embedding_probe_request :: request_builder where
  "embedding_probe_request px model api_key = probe_post ''/v1/embeddings''
     [(''model'', VStr model), (''input'', VList [VStr ''The local Worker is ready.''])]"

definition trace_body :: "string \<Rightarrow> pydict" where
  "trace_body model =
     [(''model'', VStr model), (''prompt'', VStr ''Reply with the word ready.''),
      (''max_tokens'', VInt 4), (''temperature'', VInt 0), (''top_k'', VInt 3), (''seed'', VInt 7)]"

definition trace_worker_request :: request_builder where
  "trace_worker_request px model api_key = probe_post ''/native/autoregressive/trace'' (trace_body model)"

definition trace_gateway_request :: request_builder where
  "trace_gateway_request px model api_key = probe_post ''/native/v1/autoregressive/traces'' (trace_body model)"

definition scene_worker_request :: request_builder where
  "scene_worker_request px model api_key = \<lparr>pq_path = ''/native/vision-language/smoke'', pq_body = None,
     pq_headers = Some [(''Authorization'', ''Bearer '' @ api_key)]\<rparr>"

definition scene_gateway_request :: request_builder where
  "scene_gateway_request px model api_key = probe_post ''/v1/vision/analyse''
     (merged (image_chat_body_with (text_part (external_prompt (px_system_prompt px) ''Describe the scene.'')) model)
        [(''max_tokens'', VInt 256), (''temperature'', VFloat (Fin (1/10))),
         (''response_format'', VDict [(''type'', VStr ''json_object'')])])"

definition diffusion_body :: "string \<Rightarrow> pydict" where
  "diffusion_body model =
     [(''model'', VStr model), (''prompt'', VStr ''A local Worker is ready.''), (''denoising_steps'', VInt 4),
      (''seed'', VInt 7)]"

definition diffusion_worker_request :: request_builder where
  "diffusion_worker_request px model api_key = probe_post ''/v1/refine'' (diffusion_body model)"

definition diffusion_gateway_request :: request_builder where
  "diffusion_gateway_request px model api_key = probe_post ''/native/v1/text-diffusion/refine'' (diffusion_body model)"

definition native_ok_request :: "string \<Rightarrow> request_builder" where
  "native_ok_request path px model api_key = \<lparr>pq_path = path, pq_body = None, pq_headers = None\<rparr>"

definition translation_gateway_request :: "string \<Rightarrow> request_builder" where
  "translation_gateway_request target px model api_key = probe_post ''/v1/translations''
     [(''request_id'', VStr ''modeldeck-route-smoke''), (''model'', VStr model),
      (''input'', VStr ''The local Worker is ready.''), (''source_language'', VStr ''en''), (''target_language'', VStr target)]"

definition speech_synthesis_gateway_request :: request_builder where
  "speech_synthesis_gateway_request px model api_key = probe_post ''/v1/audio/speech''
     [(''request_id'', VStr ''modeldeck-route-smoke''), (''model'', VStr model),
      (''input'', VStr ''The local Worker is ready.''), (''voice'', VStr ''ryan''), (''language'', VStr ''en''),
      (''response_format'', VStr ''wav'')]"

text \<open>The base64 text of 3,200 zero bytes.\<close>

definition silence_base64 :: string where
  "silence_base64 = replicate 4267 (CHR ''A'') @ ''=''"

definition speech_recognition_gateway_request :: request_builder where
  "speech_recognition_gateway_request px model api_key = probe_post ''/v1/audio/transcriptions''
     [(''request_id'', VStr ''modeldeck-route-smoke''), (''model'', VStr model), (''language'', VStr ''en''),
      (''encoding'', VStr ''pcm_s16le''), (''sample_rate_hz'', VInt 16000), (''channels'', VInt 1),
      (''audio_base64'', VStr silence_base64)]"

section \<open>Evidence\<close>

definition is_mapping :: "pyval \<Rightarrow> bool" where
  "is_mapping v = (case v of VDict _ \<Rightarrow> True | _ \<Rightarrow> False)"

definition is_str :: "pyval \<Rightarrow> bool" where
  "is_str v = (case v of VStr _ \<Rightarrow> True | _ \<Rightarrow> False)"

text \<open>\<open>isinstance(v, int) and not isinstance(v, bool)\<close>, and with floats.\<close>

definition is_plain_int :: "pyval \<Rightarrow> bool" where
  "is_plain_int v = (case v of VInt _ \<Rightarrow> True | _ \<Rightarrow> False)"

definition is_plain_number :: "pyval \<Rightarrow> bool" where
  "is_plain_number v = (case v of VInt _ \<Rightarrow> True | VFloat _ \<Rightarrow> True | _ \<Rightarrow> False)"

definition non_empty_text :: "pyval \<Rightarrow> bool" where
  "non_empty_text v = (case v of VStr s \<Rightarrow> strip s \<noteq> [] | _ \<Rightarrow> False)"

text \<open>A list that is not empty, and the elements of a value that is a list.\<close>

definition filled_list :: "pyval \<Rightarrow> bool" where
  "filled_list v = (case v of VList xs \<Rightarrow> xs \<noteq> [] | _ \<Rightarrow> False)"

definition items :: "pyval \<Rightarrow> pyval list" where
  "items v = (case v of VList xs \<Rightarrow> xs | _ \<Rightarrow> [])"

definition first_item :: "pyval \<Rightarrow> pydict" where
  "first_item v = (case items v of VDict d # _ \<Rightarrow> d | _ \<Rightarrow> [])"

definition valid_chat :: "pydict \<Rightarrow> bool" where
  "valid_chat payload = (let choices = dget payload ''choices'' in
     filled_list choices \<and> is_mapping (hd (items choices)) \<and>
     (let message = dget (first_item choices) ''message'' in is_mapping message \<and>
       (non_empty_text (dget (as_mapping message) ''content'') \<or>
        non_empty_text (dget (as_mapping message) ''reasoning_content''))))"

definition valid_scene_analysis :: "probe_context \<Rightarrow> pydict \<Rightarrow> bool" where
  "valid_scene_analysis px payload =
     (if dget payload ''ok'' = VBool True \<and> eq_str (dget payload ''visual_contract'') ''scene-analysis-v1'' then True
      else let choices = dget payload ''choices''; message = dget (first_item choices) ''message'' in
        filled_list choices \<and> is_mapping (hd (items choices)) \<and> is_mapping message \<and>
        (case dget (as_mapping message) ''content'' of
           VStr t \<Rightarrow> (case px_loads px t of Inl _ \<Rightarrow> False | Inr content \<Rightarrow> is_ok (scene_analysis_validate content))
         | _ \<Rightarrow> False))"

definition valid_completion :: "pydict \<Rightarrow> bool" where
  "valid_completion payload = (let choices = dget payload ''choices'' in
     filled_list choices \<and> is_mapping (hd (items choices)) \<and> non_empty_text (dget (first_item choices) ''text''))"

definition embedding_item :: "nat \<Rightarrow> pyval \<Rightarrow> bool" where
  "embedding_item index item = (case item of
     VDict d \<Rightarrow> eq_str (dget d ''object'') ''embedding'' \<and> eq_int (dget d ''index'') (int index) \<and>
       (case dget d ''embedding'' of VList vector \<Rightarrow> length vector = 1024 \<and> list_all is_plain_number vector | _ \<Rightarrow> False)
   | _ \<Rightarrow> False)"

definition valid_embeddings :: "pydict \<Rightarrow> bool" where
  "valid_embeddings payload = (let data = dget payload ''data'' in
     filled_list data \<and> list_all (\<lambda>(index, item). embedding_item index item) (enumerate 0 (items data)))"

definition trace_event_ok :: "pyval \<Rightarrow> bool" where
  "trace_event_ok event = (case event of
     VDict d \<Rightarrow> dget d ''cancelled'' \<noteq> VBool True \<and>
       (case dget d ''selected'' of VDict s \<Rightarrow> is_plain_int (dget s ''token_id'') | _ \<Rightarrow> False)
   | _ \<Rightarrow> False)"

definition valid_trace :: "pydict \<Rightarrow> bool" where
  "valid_trace payload = (let events = dget payload ''events'' in
     filled_list events \<and> list_all trace_event_ok (items events))"

definition diffusion_frame_ok :: "pyval \<Rightarrow> bool" where
  "diffusion_frame_ok frame = (case frame of
     VDict d \<Rightarrow> is_str (dget d ''text'') \<and> dget d ''cancelled'' \<noteq> VBool True
   | _ \<Rightarrow> False)"

definition valid_diffusion :: "pydict \<Rightarrow> bool" where
  "valid_diffusion payload = (let frames = dget payload ''frames'' in
     filled_list frames \<and> \<not> eq_str (dget payload ''state'') ''cancelled'' \<and> \<not> eq_str (dget payload ''state'') ''failed'' \<and>
     list_all diffusion_frame_ok (items frames) \<and> non_empty_text (dget (as_mapping (last (items frames))) ''text'') \<and>
     non_empty_text (dget payload ''text''))"

definition valid_ok :: "pydict \<Rightarrow> bool" where
  "valid_ok payload = (dget payload ''ok'' = VBool True)"

text \<open>Membership in a set hashes the value: a list or a dictionary raises.\<close>

definition in_text_set :: "pyval \<Rightarrow> string list \<Rightarrow> bool res" where
  "in_text_set v ts = (case v of
     VList _ \<Rightarrow> Inl (TypeError ''unhashable type: list'')
   | VDict _ \<Rightarrow> Inl (TypeError ''unhashable type: dict'')
   | VStr s \<Rightarrow> Inr (s \<in> set ts)
   | _ \<Rightarrow> Inr False)"

definition valid_translation :: "pydict \<Rightarrow> bool res" where
  "valid_translation payload =
     (if non_empty_text (dget payload ''output_text'') then Inr True
      else if dget payload ''ok'' = VBool True \<and> eq_str (dget payload ''source_language'') ''en''
      then in_text_set (dget payload ''target_language'') [''fr'', ''de'']
      else Inr False)"

definition valid_synthesis :: "pydict \<Rightarrow> bool" where
  "valid_synthesis payload = (dget payload ''audio'' = VBool True \<or>
     (dget payload ''ok'' = VBool True \<and> (case dget payload ''audio_bytes'' of VInt n \<Rightarrow> n > 0 | _ \<Rightarrow> False)))"

text \<open>\<open>math.isfinite\<close> converts an integer to a float, which raises beyond the range of doubles: from
  \<open>2^1024 - 2^970\<close>, the midpoint above the largest double, the conversion overflows.\<close>

definition FLOAT_OVERFLOW :: int where
  "FLOAT_OVERFLOW = 2 ^ 1024 - 2 ^ 970"

definition py_isfinite :: "pyval \<Rightarrow> bool res" where
  "py_isfinite v = (case v of
     VInt i \<Rightarrow> if \<bar>i\<bar> \<ge> FLOAT_OVERFLOW then Inl (OverflowError ''int too large to convert to float'') else Inr True
   | VFloat f \<Rightarrow> Inr (isfinite f)
   | VBool _ \<Rightarrow> Inr True
   | _ \<Rightarrow> Inl (TypeError ''must be real number''))"

definition number_ge_zero :: "pyval \<Rightarrow> bool" where
  "number_ge_zero v = (case py_num v of Some x \<Rightarrow> Fin 0 \<le> x | None \<Rightarrow> False)"

definition number_gt_zero :: "pyval \<Rightarrow> bool" where
  "number_gt_zero v = (case py_num v of Some x \<Rightarrow> Fin 0 < x | None \<Rightarrow> False)"

text \<open>\<open>all(... for x in xs)\<close> where the test may raise.\<close>

fun all_res :: "('a \<Rightarrow> bool res) \<Rightarrow> 'a list \<Rightarrow> bool res" where
  "all_res P [] = Inr True"
| "all_res P (x # xs) = rbind (P x) (\<lambda>b. if b then all_res P xs else Inr False)"

definition duration_ok :: "pydict \<Rightarrow> string \<Rightarrow> bool res" where
  "duration_ok metrics key = (let v = dget metrics key in
     if \<not> is_plain_number v then Inr False
     else rbind (py_isfinite v) (\<lambda>finite. Inr (finite \<and> number_ge_zero v)))"

definition completed_silence :: "pydict \<Rightarrow> bool res" where
  "completed_silence payload =
     (if eq_str (dget payload ''object'') ''audio.transcription'' \<and> eq_str (dget payload ''language'') ''en''
         \<and> is_str (dget payload ''text'') \<and> is_mapping (dget payload ''metrics'')
      then let metrics = as_mapping (dget payload ''metrics'') in
        rbind (all_res (duration_ok metrics) [''audio_seconds'', ''inference_seconds'', ''total_worker_seconds'']) (\<lambda>ok.
          Inr (ok \<and> number_gt_zero (dget metrics ''audio_seconds'')))
      else Inr False)"

definition valid_recognition :: "pydict \<Rightarrow> bool res" where
  "valid_recognition payload = rbind (completed_silence payload) (\<lambda>silence.
     Inr (silence \<or> non_empty_text (dget payload ''text'') \<or>
       (dget payload ''ok'' = VBool True \<and> eq_str (dget payload ''output_kind'') ''transcript'')))"

section \<open>The probes\<close>

datatype timeout_class = DefaultTimeout | DiffusionTimeout | TranslationTimeout | SynthesisTimeout | RecognitionTimeout

record protocol_probe =
  pp_capability_id :: string
  pp_contract_id :: string
  pp_worker_request :: request_builder
  pp_gateway_request :: "request_builder option"
  pp_validate :: "probe_context \<Rightarrow> pydict \<Rightarrow> bool res"
  pp_timeout_class :: timeout_class

definition probe ::
  "string \<Rightarrow> string \<Rightarrow> request_builder \<Rightarrow> request_builder option \<Rightarrow> (probe_context \<Rightarrow> pydict \<Rightarrow> bool res) \<Rightarrow>
   timeout_class \<Rightarrow> protocol_probe" where
  "probe cap contract worker gateway valid timeout = \<lparr>pp_capability_id = cap, pp_contract_id = contract,
     pp_worker_request = worker, pp_gateway_request = gateway, pp_validate = valid, pp_timeout_class = timeout\<rparr>"

definition total :: "(pydict \<Rightarrow> bool) \<Rightarrow> probe_context \<Rightarrow> pydict \<Rightarrow> bool res" where
  "total P px payload = Inr (P payload)"

definition scene_probe_validate :: "probe_context \<Rightarrow> pydict \<Rightarrow> bool res" where
  "scene_probe_validate px payload = Inr (valid_scene_analysis px payload)"

definition PROTOCOL_PROBES :: "protocol_probe list" where
  "PROTOCOL_PROBES =
    [probe ''general-chat'' ''openai-chat-v1'' text_chat_request (Some text_chat_request) (total valid_chat) DefaultTimeout,
     probe ''general-image-chat'' ''openai-image-chat-v1'' image_chat_request (Some image_chat_request)
       (total valid_chat) DefaultTimeout,
     probe ''text-completion'' ''openai-completions-v1'' completion_request (Some completion_request)
       (total valid_completion) DefaultTimeout,
     probe ''embeddings'' ''openai-embeddings-v1'' embedding_probe_request (Some embedding_probe_request)
       (total valid_embeddings) DefaultTimeout,
     probe ''autoregressive-trace'' ''native-ar-trace-v1'' trace_worker_request (Some trace_gateway_request)
       (total valid_trace) DefaultTimeout,
     probe ''scene-analysis'' ''scene-analysis-v1'' scene_worker_request (Some scene_gateway_request)
       scene_probe_validate DefaultTimeout,
     probe ''text-refinement'' ''text-diffusion-v1'' diffusion_worker_request (Some diffusion_gateway_request)
       (total valid_diffusion) DiffusionTimeout,
     probe ''speech-conversation'' ''speech-conversation-v1'' (native_ok_request ''/smoke'') None (total valid_ok) DefaultTimeout,
     probe ''translation-en-fr'' ''translation-en-fr-v1'' (native_ok_request ''/native/text-translation/smoke'')
       (Some (translation_gateway_request ''fr'')) (\<lambda>_. valid_translation) TranslationTimeout,
     probe ''translation-en-de'' ''translation-en-de-v1'' (native_ok_request ''/native/text-translation/smoke'')
       (Some (translation_gateway_request ''de'')) (\<lambda>_. valid_translation) TranslationTimeout,
     probe ''speech-synthesis'' ''speech-synthesis-v1'' (native_ok_request ''/native/speech-synthesis/smoke'')
       (Some speech_synthesis_gateway_request) (total valid_synthesis) SynthesisTimeout,
     probe ''speech-recognition'' ''speech-recognition-v1'' (native_ok_request ''/native/speech-recognition/smoke'')
       (Some speech_recognition_gateway_request) (\<lambda>_. valid_recognition) RecognitionTimeout]"

definition probe_for_capability :: "string \<Rightarrow> protocol_probe res" where
  "probe_for_capability cap = (case List.find (\<lambda>p. pp_capability_id p = cap) PROTOCOL_PROBES of
     Some p \<Rightarrow> Inr p | None \<Rightarrow> Inl (ValueError (''Capability has no bounded probe adapter: '' @ cap)))"

definition probe_for_contract :: "string \<Rightarrow> protocol_probe res" where
  "probe_for_contract contract = (case List.find (\<lambda>p. pp_contract_id p = contract) PROTOCOL_PROBES of
     Some p \<Rightarrow> Inr p | None \<Rightarrow> Inl (ValueError (''Protocol has no bounded probe adapter: '' @ contract)))"

datatype probe_surface = OnWorker | OnGateway

definition surface_name :: "probe_surface \<Rightarrow> string" where
  "surface_name s = (case s of OnWorker \<Rightarrow> ''worker'' | OnGateway \<Rightarrow> ''gateway'')"

definition build_probe_request ::
  "probe_context \<Rightarrow> protocol_probe \<Rightarrow> probe_surface \<Rightarrow> string \<Rightarrow> string \<Rightarrow> probe_request res" where
  "build_probe_request px p surface model api_key =
     (case (case surface of OnWorker \<Rightarrow> Some (pp_worker_request p) | OnGateway \<Rightarrow> pp_gateway_request p) of
        None \<Rightarrow> Inl (ValueError (pp_contract_id p @ '' requires an interactive '' @ surface_name surface @ '' probe''))
      | Some builder \<Rightarrow> Inr (builder px model api_key))"

definition validate_probe_response :: "probe_context \<Rightarrow> protocol_probe \<Rightarrow> pyval \<Rightarrow> bool res" where
  "validate_probe_response px p payload = (case payload of VDict d \<Rightarrow> pp_validate p px d | _ \<Rightarrow> Inr False)"

text \<open>Every capability of the catalogue that names a contract has one probe, for that contract.\<close>

lemma probes_cover_the_catalogue:
  "set (map (\<lambda>p. (pp_capability_id p, Some (pp_contract_id p))) PROTOCOL_PROBES) =
   set (filter (\<lambda>(c, k). k \<noteq> None) (map (\<lambda>d. (cd_id d, cd_protocol_contract_id d)) CAPABILITY_DEFINITIONS))"
  by (simp add: PROTOCOL_PROBES_def probe_def CAPABILITY_DEFINITIONS_def) auto

lemma probes_distinct: "distinct (map pp_capability_id PROTOCOL_PROBES)" "distinct (map pp_contract_id PROTOCOL_PROBES)"
  by (simp_all add: PROTOCOL_PROBES_def probe_def)

end
