(* ===== verification/Qualification.thy ===== *)
theory Qualification
  imports Probes
begin

text \<open>
  Qualifying a worker: the handler of \<open>v2_api.py\<close> that sends a probe to a running worker, judges the
  answers, applies the promotion gate of the native FP8 runtimes and records the outcome as a
  compatibility test. The HTTP exchanges and the machine's description are arguments; the handler
  suspends while it waits for them and is two functions.
\<close>

section \<open>Answers of a worker\<close>

text \<open>An exception of the HTTP client, with its class name and its text.\<close>

datatype http_failure = TimeoutException exn | HTTPStatusError int exn | TransportFailure exn

datatype probe_error = HttpError http_failure | PythonError py_error

text \<open>\<open>hr_status\<close> is what \<open>raise_for_status\<close> raises, \<open>hr_json\<close> what \<open>json()\<close> returns or raises.\<close>

record http_reply =
  hr_status :: "http_failure option"
  hr_json :: "pyval res"

type_synonym exchange = "http_failure + http_reply"

text \<open>The three reads are gathered: one failure stands for all.\<close>

record worker_client =
  wk_reads :: "http_failure + http_reply \<times> http_reply \<times> http_reply"
  wk_generation :: exchange
  wk_repeats :: "exchange list"
  wk_refreshed :: exchange

record payloads =
  pl_health :: pyval
  pl_model :: pyval
  pl_metrics :: pyval
  pl_generation :: pyval

definition no_payloads :: payloads where
  "no_payloads = \<lparr>pl_health = VDict [], pl_model = VDict [], pl_metrics = VDict [], pl_generation = VDict []\<rparr>"

text \<open>The body of the \<open>try\<close>: it may raise, and the payloads it has stored stay.\<close>

type_synonym 'a probing = "payloads \<Rightarrow> (probe_error + 'a) \<times> payloads"

definition pbind :: "'a probing \<Rightarrow> ('a \<Rightarrow> 'b probing) \<Rightarrow> 'b probing" where
  "pbind m f = (\<lambda>p. case m p of (Inl e, p1) \<Rightarrow> (Inl e, p1) | (Inr x, p1) \<Rightarrow> f x p1)"

definition http :: "http_failure + 'a \<Rightarrow> 'a probing" where
  "http r = (\<lambda>p. (case r of Inl e \<Rightarrow> Inl (HttpError e) | Inr x \<Rightarrow> Inr x, p))"

definition python :: "'a res \<Rightarrow> 'a probing" where
  "python r = (\<lambda>p. (case r of Inl e \<Rightarrow> Inl (PythonError e) | Inr x \<Rightarrow> Inr x, p))"

definition store_payload :: "(payloads \<Rightarrow> payloads) \<Rightarrow> unit probing" where
  "store_payload u = (\<lambda>p. (Inr (), u p))"

definition raise_for_status :: "http_reply \<Rightarrow> unit probing" where
  "raise_for_status r = http (case hr_status r of None \<Rightarrow> Inr () | Some e \<Rightarrow> Inl e)"

definition require_that :: "bool \<Rightarrow> string \<Rightarrow> unit probing" where
  "require_that b m = python (if b then Inr () else Inl (RuntimeError m))"

text \<open>\<open>payload.get(key)\<close> on a JSON value.\<close>

definition payload_get :: "pyval \<Rightarrow> string \<Rightarrow> pyval res" where
  "payload_get v key = value_get v key VNone"

definition has_smoke_evidence :: "probe_context \<Rightarrow> string \<Rightarrow> pyval \<Rightarrow> bool res" where
  "has_smoke_evidence px cap payload = rbind (probe_for_capability cap) (\<lambda>p. validate_probe_response px p payload)"

section \<open>The native FP8 gate\<close>

definition NATIVE_FP8_RUNTIME_PREFIX :: string where
  "NATIVE_FP8_RUNTIME_PREFIX = ''qwen38-fp8-''"

definition NATIVE_FP8_CHAT :: string where
  "NATIVE_FP8_CHAT = ''qwen38-fp8-chat-transformers-rocm''"

definition NATIVE_FP8_IMAGE :: string where
  "NATIVE_FP8_IMAGE = ''qwen38-fp8-vision-language-transformers-rocm''"

definition NATIVE_FP8_BENCHMARK_REPETITIONS :: nat where
  "NATIVE_FP8_BENCHMARK_REPETITIONS = 5"

definition NATIVE_FP8_MAXIMUM_STEADY_MEMORY_BYTES :: int where
  "NATIVE_FP8_MAXIMUM_STEADY_MEMORY_BYTES = 36 * 1024 ^ 3"

definition NATIVE_FP8_MAXIMUM_PEAK_MEMORY_BYTES :: int where
  "NATIVE_FP8_MAXIMUM_PEAK_MEMORY_BYTES = 38 * 1024 ^ 3"

text \<open>\<open>isinstance(v, (int, float))\<close> holds of booleans; the comparisons are those of numbers.\<close>

definition is_number :: "pyval \<Rightarrow> bool" where
  "is_number v = (py_num v \<noteq> None)"

definition exceeds :: "pyval \<Rightarrow> pyfloat \<Rightarrow> bool" where
  "exceeds v limit = (case py_num v of Some x \<Rightarrow> limit < x | None \<Rightarrow> False)"

definition below :: "pyval \<Rightarrow> pyfloat \<Rightarrow> bool" where
  "below v limit = (case py_num v of Some x \<Rightarrow> x < limit | None \<Rightarrow> False)"

definition memory_gate :: "pyval \<Rightarrow> string \<times> int \<Rightarrow> unit res" where
  "memory_gate metrics gate = (case gate of (name, maximum) \<Rightarrow>
     rbind (payload_get metrics name) (\<lambda>v.
       if \<not> is_number v \<or> exceeds v (Fin (of_int maximum))
       then Inl (RuntimeError (''Native FP8 promotion gate failed for '' @ name)) else Inr ()))"

definition validate_native_fp8_promotion :: "string \<Rightarrow> pyval \<Rightarrow> pyval \<Rightarrow> unit res" where
  "validate_native_fp8_promotion runtime metrics generation =
     (if \<not> prefix NATIVE_FP8_RUNTIME_PREFIX runtime then Inr ()
      else rbind (payload_get metrics ''tuning_status'') (\<lambda>status.
        if \<not> eq_str status ''validated''
        then Inl (RuntimeError ''Native FP8 requires a validated machine-specific tuning profile'')
        else rbind (memory_gate metrics (''memory_allocated_bytes'', NATIVE_FP8_MAXIMUM_STEADY_MEMORY_BYTES)) (\<lambda>_.
          rbind (memory_gate metrics (''peak_memory_allocated_bytes'', NATIVE_FP8_MAXIMUM_PEAK_MEMORY_BYTES)) (\<lambda>_.
          if runtime \<noteq> NATIVE_FP8_CHAT then Inr ()
          else rbind (value_get generation ''metrics'' (VDict [])) (\<lambda>raw.
            let g = as_mapping raw; throughput = dget g ''tokens_per_second''; first = dget g ''first_token_seconds'' in
            if \<not> is_number throughput \<or> below throughput (Fin (32/10))
            then Inl (RuntimeError ''Native FP8 steady throughput did not reach 3.20 tokens/s'')
            else if \<not> is_number first \<or> exceeds first (Fin (1/2))
            then Inl (RuntimeError ''Native FP8 warmed first-token latency regressed beyond 0.50 seconds'')
            else Inr ())))))"

text \<open>\<open>statistics.median\<close> of an odd number of values: the middle one in order.\<close>

definition number_less :: "pyval \<Rightarrow> pyval \<Rightarrow> bool" where
  "number_less a b = (case (py_num a, py_num b) of (Some x, Some y) \<Rightarrow> x < y | _ \<Rightarrow> False)"

fun insert_number :: "pyval \<Rightarrow> pyval list \<Rightarrow> pyval list" where
  "insert_number v [] = [v]"
| "insert_number v (w # ws) = (if number_less v w then v # w # ws else w # insert_number v ws)"

definition sorted_numbers :: "pyval list \<Rightarrow> pyval list" where
  "sorted_numbers vs = fold insert_number vs []"

definition median_of :: "pyval list \<Rightarrow> pyval" where
  "median_of vs = sorted_numbers vs ! (length vs div 2)"

definition aggregate_native_fp8_text_benchmark :: "pydict list \<Rightarrow> pydict res" where
  "aggregate_native_fp8_text_benchmark documents =
     (let metrics = map (\<lambda>d. dget d ''metrics'') documents;
          throughput = map (\<lambda>m. dget (as_mapping m) ''tokens_per_second'') metrics;
          first_token = map (\<lambda>m. dget (as_mapping m) ''first_token_seconds'') metrics in
      if length documents \<noteq> NATIVE_FP8_BENCHMARK_REPETITIONS
      then Inl (RuntimeError ''Native FP8 promotion requires five benchmark repeats'')
      else if \<not> list_all is_mapping metrics then Inl (RuntimeError ''Native FP8 benchmark response omitted metrics'')
      else if \<not> list_all is_plain_number throughput
      then Inl (RuntimeError ''Native FP8 benchmark omitted finite throughput'')
      else if \<not> list_all is_plain_number first_token
      then Inl (RuntimeError ''Native FP8 benchmark omitted finite first-token latency'')
      else Inr (merged (last documents) [(''metrics'', VDict (merged (as_mapping (last metrics))
        [(''tokens_per_second'', median_of throughput), (''first_token_seconds'', median_of first_token),
         (''benchmark_repetitions'', VInt (int NATIVE_FP8_BENCHMARK_REPETITIONS))]))]))"

definition has_matching_native_fp8_text_promotion :: "test_record list \<Rightarrow> string \<Rightarrow> string \<Rightarrow> pydict \<Rightarrow> bool" where
  "has_matching_native_fp8_text_promotion tests model_id revision metrics =
     (let required = [(''model_id'', VStr model_id), (''model_revision'', VStr revision), (''runtime'', VStr NATIVE_FP8_CHAT),
            (''execution_mode'', VStr ''native_fp8''), (''kernel_commit'', dget metrics ''kernel_commit''),
            (''kernel_manifest_sha256'', dget metrics ''kernel_manifest_sha256''),
            (''tuning_profile_sha256'', dget metrics ''tuning_profile_sha256'')] in
      list_ex (\<lambda>t. te_result (tr_entry t) = ''tested-working'' \<and> (case tr_evidence t of
         VDict e \<Rightarrow> list_all (\<lambda>(k, v). py_eq (dget e k) v) required | _ \<Rightarrow> False)) tests)"

section \<open>The requests to a worker\<close>

definition gemma4_chat_runtime :: string where
  "gemma4_chat_runtime = ''gemma4-general-chat-transformers-rocm''"

text \<open>The alias of a worker's profile, which is built only when it is needed.\<close>

definition probe_model :: "surroundings \<Rightarrow> worker_definition \<Rightarrow> string res" where
  "probe_model su w = (if wd_runtime w = gemma4_chat_runtime then Inr (wd_model_id w)
     else rbind (to_profile (su_harness su) (su_bool su) w) (\<lambda>p. Inr (mp_alias p)))"

text \<open>A capability without a probe is refused with 409; a profile that cannot be built raises.\<close>

definition worker_capability_request ::
  "surroundings \<Rightarrow> probe_context \<Rightarrow> string \<Rightarrow> worker_definition \<Rightarrow> string \<Rightarrow> probe_request answer" where
  "worker_capability_request su px api_key w cap = rbind (raised (probe_model su w)) (\<lambda>model.
     rbind (catches_value_error 409 (rbind (probe_for_capability cap) (\<lambda>p. build_probe_request px p OnWorker model api_key)))
     (\<lambda>q. Inr (q\<lparr>pq_body := (case pq_body q of
            Some body \<Rightarrow> Some (if wd_runtime_template_id w = Some ''gpt-oss-llama-vulkan'' \<and> cap \<in> {''general-chat'', ''text-completion''}
              then merged body [(''max_tokens'', VInt 64)] else body)
          | None \<Rightarrow> None),
        pq_headers := (if wd_runtime w = gemma4_chat_runtime then Some [(''Authorization'', ''Bearer '' @ api_key)]
          else pq_headers q)\<rparr>)))"

definition SMOKE_ORDER :: "string list" where
  "SMOKE_ORDER = [''general-chat'', ''text-completion'', ''autoregressive-trace'', ''embeddings'', ''general-image-chat'',
     ''scene-analysis'', ''text-refinement'', ''speech-conversation'', ''translation-en-fr'', ''translation-en-de'',
     ''speech-synthesis'', ''speech-recognition'']"

definition worker_smoke_capability_id :: "surroundings \<Rightarrow> worker_definition \<Rightarrow> string answer" where
  "worker_smoke_capability_id su w = (let supported = capabilities_for_worker (su_repr su) (worker_dump w) in
     case List.find (\<lambda>c. c \<in> set supported) SMOKE_ORDER of
       Some c \<Rightarrow> Inr c | None \<Rightarrow> refused 409 ''This Worker has no bounded diagnostic adapter'')"

definition classify_probe_failure :: "probe_error \<Rightarrow> string \<Rightarrow> string \<times> string" where
  "classify_probe_failure e operation = (case e of
     HttpError (TimeoutException _) \<Rightarrow> (''transient-failure'', operation @ ''-timeout'')
   | HttpError (HTTPStatusError code _) \<Rightarrow>
       if code \<in> {404, 405} then (''deterministic-failure'', operation @ ''-adapter-mismatch'')
       else if code \<in> {400, 401, 403, 409, 415, 422} then (''deterministic-failure'', operation @ ''-request-rejected'')
       else (''transient-failure'', operation @ ''-worker-unavailable'')
   | PythonError (ValueError _) \<Rightarrow> (''deterministic-failure'', operation @ ''-malformed-response'')
   | PythonError (RuntimeError _) \<Rightarrow> (''deterministic-failure'', operation @ ''-invalid-response'')
   | _ \<Rightarrow> (''transient-failure'', operation @ ''-transport-failure''))"

text \<open>\<open>except (httpx.HTTPError, ValueError, RuntimeError)\<close>, and \<open>f"{type(error).__name__}: {error}"\<close>.\<close>

definition probe_error_caught :: "probe_error \<Rightarrow> bool" where
  "probe_error_caught e = (case e of HttpError _ \<Rightarrow> True | PythonError (ValueError _) \<Rightarrow> True
     | PythonError (RuntimeError _) \<Rightarrow> True | PythonError _ \<Rightarrow> False)"

definition http_exn :: "http_failure \<Rightarrow> exn" where
  "http_exn h = (case h of TimeoutException x \<Rightarrow> x | HTTPStatusError _ x \<Rightarrow> x | TransportFailure x \<Rightarrow> x)"

definition probe_error_summary :: "probe_error \<Rightarrow> string" where
  "probe_error_summary e = (let (name, text) = (case e of HttpError h \<Rightarrow> http_exn h | PythonError p \<Rightarrow> exn_of p) in
     name @ '': '' @ text)"

section \<open>The probe of a worker\<close>

definition store_json :: "(pyval \<Rightarrow> payloads \<Rightarrow> payloads) \<Rightarrow> http_reply \<Rightarrow> unit probing" where
  "store_json u r = pbind (python (hr_json r)) (\<lambda>v. store_payload (u v))"

text \<open>The reads, the generation, the status of all four, their documents in this order.\<close>

definition read_worker_documents :: "worker_client \<Rightarrow> unit probing" where
  "read_worker_documents c = pbind (http (wk_reads c)) (\<lambda>(h, m, x).
     pbind (http (wk_generation c)) (\<lambda>g.
     pbind (raise_for_status h) (\<lambda>_. pbind (raise_for_status m) (\<lambda>_.
     pbind (raise_for_status x) (\<lambda>_. pbind (raise_for_status g) (\<lambda>_.
     pbind (store_json (\<lambda>v p. p\<lparr>pl_health := v\<rparr>) h) (\<lambda>_.
     pbind (store_json (\<lambda>v p. p\<lparr>pl_model := v\<rparr>) m) (\<lambda>_.
     pbind (store_json (\<lambda>v p. p\<lparr>pl_metrics := v\<rparr>) x) (\<lambda>_.
       store_json (\<lambda>v p. p\<lparr>pl_generation := v\<rparr>) g)))))))))"

definition require_ready :: "unit probing" where
  "require_ready = (\<lambda>p. pbind (python (payload_get (pl_health p) ''ready'')) (\<lambda>v.
     require_that (v = VBool True) ''Worker health did not report ready'') p)"

definition require_evidence :: "probe_context \<Rightarrow> string \<Rightarrow> string \<Rightarrow> unit probing" where
  "require_evidence px cap message = (\<lambda>p. pbind (python (has_smoke_evidence px cap (pl_generation p)))
     (\<lambda>b. require_that b message) p)"

text \<open>A repetition: post, status, document, evidence.\<close>

definition repeat_once :: "probe_context \<Rightarrow> string \<Rightarrow> string \<Rightarrow> exchange \<Rightarrow> pyval probing" where
  "repeat_once px cap message r = pbind (http r) (\<lambda>a. pbind (raise_for_status a) (\<lambda>_. pbind (python (hr_json a)) (\<lambda>v.
     pbind (python (has_smoke_evidence px cap v)) (\<lambda>b. pbind (require_that b message) (\<lambda>_. python (Inr v))))))"

fun repeat_all :: "probe_context \<Rightarrow> string \<Rightarrow> string \<Rightarrow> exchange list \<Rightarrow> pyval list probing" where
  "repeat_all px cap message [] = python (Inr [])"
| "repeat_all px cap message (r # rs) = pbind (repeat_once px cap message r) (\<lambda>v.
     pbind (repeat_all px cap message rs) (\<lambda>vs. python (Inr (v # vs))))"

text \<open>What the native FP8 runtimes do besides; \<open>tests\<close> is the list of recorded tests.\<close>

definition fp8_repetitions ::
  "probe_context \<Rightarrow> worker_client \<Rightarrow> worker_definition \<Rightarrow> string \<Rightarrow> string \<Rightarrow> string \<Rightarrow> test_record list res \<Rightarrow> unit probing" where
  "fp8_repetitions px c w cap model_id revision tests =
     (if wd_runtime w = NATIVE_FP8_CHAT
      then pbind (repeat_all px ''autoregressive-trace'' ''Native FP8 benchmark response contained no output''
             (take NATIVE_FP8_BENCHMARK_REPETITIONS (wk_repeats c))) (\<lambda>vs.
           pbind (python (aggregate_native_fp8_text_benchmark (map as_mapping vs))) (\<lambda>d.
             store_payload (\<lambda>p. p\<lparr>pl_generation := VDict d\<rparr>)))
      else if wd_runtime w = NATIVE_FP8_IMAGE
      then pbind (python tests) (\<lambda>ts. pbind (\<lambda>p. python (payload_get (pl_metrics p) ''kernel_commit'') p) (\<lambda>_. pbind (\<lambda>p. require_that
             (has_matching_native_fp8_text_promotion ts model_id revision (as_mapping (pl_metrics p)))
             ''Native FP8 image promotion requires matching successful text promotion evidence'' p) (\<lambda>_.
           pbind (repeat_all px cap ''Native FP8 image benchmark response contained no output''
             (take (NATIVE_FP8_BENCHMARK_REPETITIONS - 1) (wk_repeats c))) (\<lambda>_. python (Inr ())))))
      else python (Inr ()))"

definition refresh_metrics :: "worker_client \<Rightarrow> worker_definition \<Rightarrow> unit probing" where
  "refresh_metrics c w = (if prefix NATIVE_FP8_RUNTIME_PREFIX (wd_runtime w)
     then pbind (http (wk_refreshed c)) (\<lambda>a. pbind (raise_for_status a) (\<lambda>_. store_json (\<lambda>v p. p\<lparr>pl_metrics := v\<rparr>) a))
     else python (Inr ()))"

definition qualification_probe ::
  "probe_context \<Rightarrow> worker_client \<Rightarrow> worker_definition \<Rightarrow> string \<Rightarrow> string \<Rightarrow> string \<Rightarrow> test_record list res \<Rightarrow> unit probing" where
  "qualification_probe px c w cap model_id revision tests =
     pbind (read_worker_documents c) (\<lambda>_. pbind require_ready (\<lambda>_.
     pbind (require_evidence px cap ''Qualification response contained no valid Worker evidence'') (\<lambda>_.
     pbind (fp8_repetitions px c w cap model_id revision tests) (\<lambda>_.
     pbind (refresh_metrics c w) (\<lambda>_.
       \<lambda>p. python (validate_native_fp8_promotion (wd_runtime w) (pl_metrics p) (pl_generation p)) p)))))"

section \<open>The handler\<close>

datatype qualify_error = QualifyApi api_error | QualifyThermal admission_decision

record qualify_plan =
  qp_definition :: worker_definition
  qp_cached :: cached_model
  qp_model_id :: string
  qp_revision :: string
  qp_view :: worker_view
  qp_contract :: string

definition api :: "'a answer \<Rightarrow> qualify_error + 'a" where
  "api a = (case a of Inl e \<Rightarrow> Inl (QualifyApi e) | Inr x \<Rightarrow> Inr x)"

definition benchmark_request :: "string \<Rightarrow> worker_definition \<Rightarrow> workload_request" where
  "benchmark_request wid w = \<lparr>workload_id = wid, wr_class = BENCHMARK, wr_automatic = False,
     wr_backend = Some (wd_runtime w), wr_model = None\<rparr>"

definition thermal_decision :: "thermal_view \<Rightarrow> workload_request \<Rightarrow> admission_decision" where
  "thermal_decision tv req = evaluate (tv_config tv) req (tv_state tv) (tv_temperature tv) (tv_age tv) (tv_active tv) (tv_timestamp tv)"

definition catalogue_contract :: "string \<Rightarrow> string option answer" where
  "catalogue_contract cap = (case find_capability cap of
     None \<Rightarrow> Inl (Raised (KeyError cap)) | Some d \<Rightarrow> Inr (cd_protocol_contract_id d))"

text \<open>Up to the first suspension: the exact model revision is installed, offers the capability to this
  worker's runtime and is allowed, the worker is ready, the machine is cool.\<close>

definition qualification_begins ::
  "surroundings \<Rightarrow> thermal_view \<Rightarrow> string \<Rightarrow> string \<Rightarrow> management \<Rightarrow> (qualify_error + qualify_plan) \<times> management" where
  "qualification_begins su tv wid cap m = (case require_definition m wid of
     Inl e \<Rightarrow> (Inl (QualifyApi e), m)
   | Inr w \<Rightarrow>
     (let (model_id, revision) = worker_cache_identity (su_repr su) (worker_dump w) in
      case installed_model su model_id revision of
        None \<Rightarrow> (api (refused 409 (''The Worker'' @ [CHR 0x27] @ ''s exact cached Model revision is unavailable'')), m)
      | Some c \<Rightarrow>
        if \<not> offers c cap \<or> wd_runtime_template_id w \<notin> Some ` set (candidate_templates su c cap)
        then (api (refused 409 ''This Worker has no trusted adapter for that capability''), m)
        else if \<not> model_cache_allowed model_id revision (mg_store m)
             \<or> \<not> model_capability_allowed model_id revision cap (mg_store m)
        then (api (refused 409 ''Allow this Model capability before qualifying it''), m)
        else (case get_worker wid (mg_supervisor m) of (r, s) \<Rightarrow>
          (let m1 = m\<lparr>mg_supervisor := s\<rparr> in
           case r of Inl e \<Rightarrow> (Inl (QualifyApi (Raised e)), m1)
           | Inr v \<Rightarrow>
             if wv_state v \<noteq> READY then (api (refused 409 ''Worker must be ready before qualification''), m1)
             else let d = thermal_decision tv (benchmark_request wid w) in
             if \<not> admitted d then (Inl (QualifyThermal d), m1)
             else (case catalogue_contract cap of
               Inl e \<Rightarrow> (Inl (QualifyApi e), m1)
             | Inr None \<Rightarrow> (api (refused 409 ''This capability has no qualification contract''), m1)
             | Inr (Some contract) \<Rightarrow> (Inr \<lparr>qp_definition = w, qp_cached = c, qp_model_id = model_id,
                 qp_revision = revision, qp_view = v, qp_contract = contract\<rparr>, m1))))))"

text \<open>What \<open>probe_environment\<close>, the settings and the clock contribute to the evidence.\<close>

record machine_probe =
  mc_hardware_profile :: pyval
  mc_fedora :: pyval
  mc_kernel :: pyval
  mc_gpu_architecture :: pyval
  mc_thermal_policy :: pyval
  mc_thermal_observations :: pyval
  mc_duration :: pyval

record qualify_outcome =
  qo_result :: string
  qo_failure_class :: "string option"
  qo_summary :: "string option"

definition probe_outcome :: "string \<Rightarrow> string \<Rightarrow> probe_error + unit \<Rightarrow> py_error + qualify_outcome" where
  "probe_outcome success operation r = (case r of
     Inr _ \<Rightarrow> Inr \<lparr>qo_result = success, qo_failure_class = None, qo_summary = None\<rparr>
   | Inl e \<Rightarrow> if probe_error_caught e
       then (case classify_probe_failure e operation of (result, failure) \<Rightarrow>
         Inr \<lparr>qo_result = result, qo_failure_class = Some failure, qo_summary = Some (probe_error_summary e)\<rparr>)
       else (case e of PythonError p \<Rightarrow> Inl p | HttpError _ \<Rightarrow> Inl (RuntimeError [])))"

definition thermally_invalid :: "thermal_state \<Rightarrow> bool" where
  "thermally_invalid s = (s \<in> {VERY_HOT, CRITICAL, TELEMETRY_DEGRADED})"

definition thermal_override :: "thermal_state \<Rightarrow> qualify_outcome \<Rightarrow> qualify_outcome" where
  "thermal_override s o1 = (if thermally_invalid s
     then \<lparr>qo_result = ''transient-failure'', qo_failure_class = Some ''qualification-thermal-policy-breach'',
            qo_summary = Some ''Qualification became thermally invalid before completion''\<rparr>
     else o1)"

definition identity_field :: "worker_view \<Rightarrow> string \<Rightarrow> pyval" where
  "identity_field v key = (case wv_resolved_identity v of None \<Rightarrow> VNone | Some d \<Rightarrow> dget d key)"

definition overrides_dict :: "(string \<times> string option) list \<Rightarrow> pyval" where
  "overrides_dict kvs = VDict (map (\<lambda>(k, v). (k, opt_str v)) kvs)"

definition settings_artifact :: "qualify_plan \<Rightarrow> artifact option" where
  "settings_artifact q = List.find (\<lambda>a. VStr (af_artifact_id a) = dget (wd_settings (qp_definition q)) ''artifact_id'')
     (cm_artifacts (qp_cached q))"

definition success_text :: "bool \<Rightarrow> string \<Rightarrow> pyval" where
  "success_text b other = VStr (if b then ''success'' else other)"

text \<open>The payloads are read as dictionaries: any other document raises here.\<close>

definition payload_dicts :: "payloads \<Rightarrow> (pydict \<times> pydict \<times> pydict) res" where
  "payload_dicts p = (case (pl_health p, pl_model p, pl_metrics p) of
     (VDict h, VDict m, VDict x) \<Rightarrow> Inr (h, m, x) | _ \<Rightarrow> Inl (AttributeError ''get''))"

definition common_evidence ::
  "surroundings \<Rightarrow> machine_probe \<Rightarrow> worker_definition \<Rightarrow> string \<Rightarrow> string \<Rightarrow> pydict \<Rightarrow> pydict \<Rightarrow> pydict \<Rightarrow> pydict" where
  "common_evidence su mc w cap contract health model metrics =
     [(''worker_id'', VStr (wd_id w)), (''capability_id'', VStr cap), (''protocol_contract_id'', VStr contract),
      (''runtime_template_id'', opt_str (wd_runtime_template_id w)),
      (''runtime_template_version'', opt_str (wd_runtime_template_version w)),
      (''worker_configuration_fingerprint'', VStr (worker_configuration_fingerprint (su_digest su) (worker_dump w))),
      (''hardware_profile'', mc_hardware_profile mc), (''fedora_version'', mc_fedora mc), (''kernel'', mc_kernel mc),
      (''gpu'', dget health ''device_name''), (''gpu_architecture'', mc_gpu_architecture mc),
      (''rocm_version'', dget health ''rocm_version''), (''torch_version'', dget metrics ''torch_version''),
      (''transformers_version'', dget metrics ''transformers_version''), (''triton_version'', dget metrics ''triton_version''),
      (''kernels_version'', dget metrics ''kernels_version''), (''kernel_commit'', dget metrics ''kernel_commit''),
      (''kernel_manifest_sha256'', dget metrics ''kernel_manifest_sha256''),
      (''tuning_profile_sha256'', dget metrics ''tuning_profile_sha256''),
      (''execution_mode'', dget_or metrics ''execution_mode'' (VStr ''bf16_dequant'')),
      (''thinking_mode'', py_or (dget metrics ''thinking_mode'') (dget model ''thinking_mode'')),
      (''vllm_version'', dget metrics ''vllm_version''),
      (''quantisation'', dget_or model ''quantization'' (VStr ''none'')), (''dtype'', dget_or model ''dtype'' (VStr (wd_dtype w))),
      (''runtime'', VStr (wd_runtime w)),
      (''load_result'', success_text (py_truthy (dget health ''ready'')) ''not-confirmed''),
      (''warmup_result'', success_text (py_truthy (dget health ''ready'')) ''not-confirmed''),
      (''test_duration_seconds'', mc_duration mc)]"

definition qualification_evidence ::
  "surroundings \<Rightarrow> machine_probe \<Rightarrow> string \<Rightarrow> qualify_plan \<Rightarrow> qualify_outcome \<Rightarrow> pyval \<Rightarrow> pydict \<Rightarrow> pydict \<Rightarrow> pydict \<Rightarrow> pydict" where
  "qualification_evidence su mc cap q outcome overrides health model metrics =
     (let w = qp_definition q; settings = wd_settings w; a = settings_artifact q in
      common_evidence su mc w cap (qp_contract q) health model metrics @
      [(''requested_model_id'', VStr (wd_model_id w)), (''requested_model_revision'', VStr (wd_revision w)),
       (''runtime_registration_digest'', (case wd_runtime_template_id w of None \<Rightarrow> VNone
          | Some t \<Rightarrow> (case map_of (su_registrations su) t of None \<Rightarrow> VNone | Some r \<Rightarrow> VStr (tr_digest r)))),
       (''model_id'', VStr (qp_model_id q)), (''model_revision'', VStr (qp_revision q)),
       (''reported_model_id'', dget_or model ''model_id'' (VStr (wd_model_id w))),
       (''reported_model_revision'', dget_or model ''revision'' (VStr (wd_revision w))),
       (''artifact_model_id'', opt_str (wd_artifact_model_id w)), (''artifact_revision'', opt_str (wd_artifact_revision w)),
       (''artifact_id'', dget settings ''artifact_id''),
       (''artifact_format'', py_or (case a of None \<Rightarrow> VNone | Some x \<Rightarrow> af_format x) (dget model ''format'')),
       (''artifact_sha256'', (case a of None \<Rightarrow> VNone | Some x \<Rightarrow> af_sha256 x)),
       (''resolved_backend'', identity_field (qp_view q) ''backend''),
       (''resolved_device'', identity_field (qp_view q) ''device''),
       (''context_length'', dget settings ''context_length''), (''maximum_new_tokens'', dget settings ''maximum_new_tokens''),
       (''maximum_denoising_steps'', dget settings ''maximum_denoising_steps''),
       (''visual_token_budget'', dget settings ''visual_token_budget''),
       (''prefix_cache_enabled'', dget_or settings ''prefix_cache_enabled'' (VBool False)),
       (''workload_id'', VStr cap), (''measurement_path'', VStr ''worker''),
       (''thermal_policy'', mc_thermal_policy mc), (''thermal_observations'', mc_thermal_observations mc),
       (''environment_overrides'', overrides),
       (''smoke_result'', success_text (qo_result outcome = ''tested-working'') ''failed''),
       (''error_summary'', opt_str (qo_summary outcome))])"

text \<open>After the last suspension. \<open>r\<close> and \<open>p\<close> are how the probe ended and the payloads it left.\<close>

definition qualification_finishes ::
  "surroundings \<Rightarrow> machine_probe \<Rightarrow> thermal_state \<Rightarrow> string \<Rightarrow> qualify_plan \<Rightarrow> (probe_error + unit) \<times> payloads \<Rightarrow>
   management \<Rightarrow> (bool \<times> nat \<times> string \<times> pydict) answer \<times> management" where
  "qualification_finishes su mc thermal_end cap q probed m =
     (case probe_outcome ''tested-working'' ''capability-qualification'' (fst probed) of
        Inl e \<Rightarrow> (Inl (Raised e), m)
      | Inr o1 \<Rightarrow>
        (let outcome = thermal_override thermal_end o1 in
         case payload_dicts (snd probed) of
           Inl e \<Rightarrow> (Inl (Raised e), m)
         | Inr (health, model, metrics) \<Rightarrow>
           (case worker_environment (mg_supervisor m) (wd_id (qp_definition q)) of
              Inl e \<Rightarrow> (Inl (Raised e), m)
            | Inr overrides \<Rightarrow>
              (case record_test (su_digest su) (su_now su)
                   (qualification_evidence su mc cap q outcome (overrides_dict overrides) health model metrics)
                   (qo_result outcome) (qo_failure_class outcome) (mg_store m) of
                 (record, st) \<Rightarrow> (Inr (qo_result outcome = ''tested-working'', record), m\<lparr>mg_store := st\<rparr>)))))"

text \<open>The whole handler when nothing else runs while it waits; a request that cannot be built is
  refused or recorded like any other failure of the probe.\<close>

definition run_probe ::
  "surroundings \<Rightarrow> probe_context \<Rightarrow> string \<Rightarrow> worker_client \<Rightarrow> string \<Rightarrow> qualify_plan \<Rightarrow> store \<Rightarrow>
   api_error + (probe_error + unit) \<times> payloads" where
  "run_probe su px api_key c cap q s = (case worker_capability_request su px api_key (qp_definition q) cap of
     Inl (HTTPException code d) \<Rightarrow> Inl (HTTPException code d)
   | Inl (Raised e) \<Rightarrow> Inr (Inl (PythonError e), no_payloads)
   | Inr _ \<Rightarrow> Inr (qualification_probe px c (qp_definition q) cap (qp_model_id q) (qp_revision q) (list_tests s) no_payloads))"

definition qualify_worker_capability ::
  "surroundings \<Rightarrow> thermal_view \<Rightarrow> probe_context \<Rightarrow> string \<Rightarrow> worker_client \<Rightarrow> machine_probe \<Rightarrow> thermal_state \<Rightarrow> string \<Rightarrow> string \<Rightarrow>
   management \<Rightarrow> (qualify_error + (bool \<times> nat \<times> string \<times> pydict)) \<times> management" where
  "qualify_worker_capability su tv px api_key c mc thermal_end wid cap m =
     (case qualification_begins su tv wid cap m of
        (Inl e, m1) \<Rightarrow> (Inl e, m1)
      | (Inr q, m1) \<Rightarrow> (case run_probe su px api_key c cap q (mg_store m1) of
          Inl e \<Rightarrow> (Inl (QualifyApi e), m1)
        | Inr probed \<Rightarrow> (case qualification_finishes su mc thermal_end cap q probed m1 of
            (r, m2) \<Rightarrow> (api r, m2))))"

end
