(* ===== verification/Qualification_Properties.thy ===== *)
theory Qualification_Properties
  imports Qualification Management_Properties
begin

text \<open>
  What a qualification means: a recorded success rests on a probe that every check of the source
  accepted, on a machine that was cool before and after, and the routing rules then see the worker as
  qualified; every other outcome is recorded with the class of its failure.
\<close>

section \<open>Programs of the probe\<close>

lemma pbind_Inr: "pbind m f p = (Inr y, p2) \<longleftrightarrow> (\<exists>x p1. m p = (Inr x, p1) \<and> f x p1 = (Inr y, p2))"
  by (auto simp: pbind_def split: prod.splits sum.splits)

lemma http_Inr: "http r p = (Inr x, p1) \<longleftrightarrow> r = Inr x \<and> p1 = p"
  by (auto simp: http_def split: sum.splits)

lemma python_Inr: "python r p = (Inr x, p1) \<longleftrightarrow> r = Inr x \<and> p1 = p"
  by (auto simp: python_def split: sum.splits)

lemma store_payload_Inr: "store_payload u p = (Inr x, p1) \<longleftrightarrow> p1 = u p"
  by (auto simp: store_payload_def)

lemma raise_for_status_Inr: "raise_for_status r p = (Inr x, p1) \<longleftrightarrow> hr_status r = None \<and> p1 = p"
  by (auto simp: raise_for_status_def http_Inr split: option.splits)

lemma require_that_Inr: "require_that b t p = (Inr x, p1) \<longleftrightarrow> b \<and> p1 = p"
  by (auto simp: require_that_def python_Inr)

lemma store_json_Inr: "store_json u r p = (Inr x, p1) \<longleftrightarrow> (\<exists>v. hr_json r = Inr v \<and> p1 = u v p)"
  by (auto simp: store_json_def pbind_Inr python_Inr store_payload_Inr)

lemmas probing_simps = pbind_Inr http_Inr python_Inr store_payload_Inr raise_for_status_Inr require_that_Inr store_json_Inr

text \<open>The answers of a worker that are documents, and what they are.\<close>

definition answers :: "worker_client \<Rightarrow> payloads \<Rightarrow> bool" where
  "answers c p \<longleftrightarrow> (\<exists>h m x g. wk_reads c = Inr (h, m, x) \<and> wk_generation c = Inr g
     \<and> hr_status h = None \<and> hr_status m = None \<and> hr_status x = None \<and> hr_status g = None
     \<and> hr_json h = Inr (pl_health p) \<and> hr_json m = Inr (pl_model p) \<and> hr_json x = Inr (pl_metrics p)
     \<and> hr_json g = Inr (pl_generation p))"

lemma read_worker_documents_Inr: "read_worker_documents c p0 = (Inr u, p) \<longleftrightarrow> answers c p"
proof -
  have "p = p0\<lparr>pl_health := a, pl_model := b, pl_metrics := d, pl_generation := e\<rparr>
      \<longleftrightarrow> pl_health p = a \<and> pl_model p = b \<and> pl_metrics p = d \<and> pl_generation p = e" for a b d e
    by (cases p; cases p0) auto
  then show ?thesis
    by (auto simp: read_worker_documents_def probing_simps answers_def split: prod.splits)
qed

definition is_ready :: "pyval \<Rightarrow> bool" where
  "is_ready health \<longleftrightarrow> payload_get health ''ready'' = Inr (VBool True)"

lemma require_ready_Inr: "require_ready p = (Inr u, p1) \<longleftrightarrow> is_ready (pl_health p) \<and> p1 = p"
  by (auto simp: require_ready_def probing_simps is_ready_def)

lemma require_evidence_Inr:
  "require_evidence px cap t p = (Inr u, p1) \<longleftrightarrow> has_smoke_evidence px cap (pl_generation p) = Inr True \<and> p1 = p"
  by (auto simp: require_evidence_def probing_simps)

text \<open>The runtimes without a gate of their own: the probe succeeds exactly on these answers.\<close>

lemma plain_probe_Inr:
  assumes "\<not> prefix NATIVE_FP8_RUNTIME_PREFIX (wd_runtime w)"
  shows "qualification_probe px c w cap mid rv tests p0 = (Inr u, p) \<longleftrightarrow>
    answers c p \<and> is_ready (pl_health p) \<and> has_smoke_evidence px cap (pl_generation p) = Inr True"
proof -
  have other: "wd_runtime w \<noteq> NATIVE_FP8_CHAT" "wd_runtime w \<noteq> NATIVE_FP8_IMAGE"
    using assms by (auto simp: NATIVE_FP8_CHAT_def NATIVE_FP8_IMAGE_def NATIVE_FP8_RUNTIME_PREFIX_def)
  show ?thesis
    by (auto simp: qualification_probe_def probing_simps read_worker_documents_Inr require_ready_Inr
        require_evidence_Inr fp8_repetitions_def refresh_metrics_def validate_native_fp8_promotion_def other assms)
qed

text \<open>On every runtime a success had a ready worker and an answer that is evidence.\<close>

lemma probe_evidence:
  assumes "qualification_probe px c w cap mid rv tests p0 = (Inr u, p)"
  shows "\<exists>p1. answers c p1 \<and> is_ready (pl_health p1) \<and> has_smoke_evidence px cap (pl_generation p1) = Inr True"
  using assms
  by (auto simp: qualification_probe_def pbind_Inr read_worker_documents_Inr require_ready_Inr require_evidence_Inr)

section \<open>The outcome\<close>

lemma classified_is_failure: "fst (classify_probe_failure e operation) \<noteq> ''tested-working''"
  by (auto simp: classify_probe_failure_def split: probe_error.splits http_failure.splits py_error.splits)

lemma outcome_success:
  assumes "probe_outcome ''tested-working'' operation r = Inr o1"
  shows "qo_result o1 = ''tested-working'' \<longleftrightarrow> r = Inr ()"
    "qo_failure_class o1 = None \<longleftrightarrow> r = Inr ()"
proof -
  have "(qo_result o1 = ''tested-working'' \<longleftrightarrow> r = Inr ()) \<and> (qo_failure_class o1 = None \<longleftrightarrow> r = Inr ())"
  proof (cases r)
    case (Inl e)
    obtain result failure where c: "classify_probe_failure e operation = (result, failure)"
      by (cases "classify_probe_failure e operation")
    then have "result \<noteq> ''tested-working''" using classified_is_failure [of e operation] by simp
    moreover have "probe_error_caught e" using assms Inl
      by (cases "probe_error_caught e") (auto simp: probe_outcome_def probe_error_caught_def split: probe_error.splits)
    ultimately show ?thesis using assms Inl c by (auto simp: probe_outcome_def)
  next
    case (Inr u)
    with assms show ?thesis by (auto simp: probe_outcome_def)
  qed
  then show "qo_result o1 = ''tested-working'' \<longleftrightarrow> r = Inr ()" "qo_failure_class o1 = None \<longleftrightarrow> r = Inr ()" by simp_all
qed

lemma override_success:
  "qo_result (thermal_override s o1) = ''tested-working'' \<longleftrightarrow> \<not> thermally_invalid s \<and> qo_result o1 = ''tested-working''"
  by (simp add: thermal_override_def)

text \<open>A benchmark is admitted only by a machine in its normal state, or when the policy is off.\<close>

lemma benchmark_admitted:
  "admitted (thermal_decision tv (benchmark_request wid w)) \<longleftrightarrow> \<not> tc_enabled (tv_config tv) \<or> tv_state tv = NORMAL"
  by (cases "tv_state tv") (auto simp: thermal_decision_def benchmark_request_def thermal_defs)

lemma begins_Inr:
  assumes begins: "qualification_begins su tv wid cap m = (Inr q, m1)"
  shows "map_of (mg_definitions m) wid = Some (qp_definition q)"
    "mg_store m1 = mg_store m" "mg_definitions m1 = mg_definitions m"
    "(qp_model_id q, qp_revision q) = worker_cache_identity (su_repr su) (worker_dump (qp_definition q))"
    "model_cache_allowed (qp_model_id q) (qp_revision q) (mg_store m)"
    "model_capability_allowed (qp_model_id q) (qp_revision q) cap (mg_store m)"
    "wv_state (qp_view q) = READY"
    "\<not> tc_enabled (tv_config tv) \<or> tv_state tv = NORMAL"
    "find_capability cap \<noteq> None"
proof -
  obtain w where w: "map_of (mg_definitions m) wid = Some w"
    using begins by (cases "map_of (mg_definitions m) wid")
      (simp_all add: qualification_begins_def require_definition_def refused_def)
  let ?mid = "cache_model_id w" and ?rv = "cache_revision w"
  have id: "worker_cache_identity (su_repr su) (worker_dump w) = (?mid, ?rv)" by simp
  obtain c where c: "installed_model su ?mid ?rv = Some c"
    using begins by (cases "installed_model su ?mid ?rv")
      (simp_all add: qualification_begins_def require_definition_def w id refused_def api_def)
  obtain r s where g: "get_worker wid (mg_supervisor m) = (r, s)" by (cases "get_worker wid (mg_supervisor m)")
  note run = qualification_begins_def require_definition_def w id c g
  have allowed: "model_cache_allowed ?mid ?rv (mg_store m)" "model_capability_allowed ?mid ?rv cap (mg_store m)"
    using begins by (auto simp: run refused_def api_def split: if_splits)
  obtain v where v: "r = Inr v"
    using begins by (cases r) (auto simp: run refused_def api_def split: if_splits)
  obtain contract where k: "catalogue_contract cap = Inr (Some contract)"
    using begins v by (auto simp: run refused_def api_def Let_def split: if_splits sum.splits option.splits)
  have rest: "wv_state v = READY" "admitted (thermal_decision tv (benchmark_request wid w))"
    "q = \<lparr>qp_definition = w, qp_cached = c, qp_model_id = ?mid, qp_revision = ?rv, qp_view = v, qp_contract = contract\<rparr>"
    "m1 = m\<lparr>mg_supervisor := s\<rparr>"
    using begins v k by (auto simp: run refused_def api_def Let_def split: if_splits)
  show "map_of (mg_definitions m) wid = Some (qp_definition q)"
    "mg_store m1 = mg_store m" "mg_definitions m1 = mg_definitions m"
    "(qp_model_id q, qp_revision q) = worker_cache_identity (su_repr su) (worker_dump (qp_definition q))"
    "model_cache_allowed (qp_model_id q) (qp_revision q) (mg_store m)"
    "model_capability_allowed (qp_model_id q) (qp_revision q) cap (mg_store m)"
    "wv_state (qp_view q) = READY"
    using w id allowed rest by simp_all
  show "\<not> tc_enabled (tv_config tv) \<or> tv_state tv = NORMAL" using rest(2) by (simp add: benchmark_admitted)
  show "find_capability cap \<noteq> None" using k by (auto simp: catalogue_contract_def split: option.splits)
qed

section \<open>Tests as evidence\<close>

lemma map_of_merged: "map_of (merged base other) k = (case map_of (rev other) k of Some v \<Rightarrow> Some v | None \<Rightarrow> map_of base k)"
  by (induction other rule: rev_induct) (auto simp: merged_def update_conv' split: option.splits)

lemma dget_merged_none:
  assumes "k \<notin> fst ` set other"
  shows "dget (merged base other) k = dget base k"
proof -
  have "map_of (rev other) k = None" using assms by (simp add: map_of_eq_None_iff)
  then show ?thesis by (simp add: dget_def map_of_merged)
qed

lemma dget_merged_last: "k \<notin> fst ` set ys \<Longrightarrow> dget (merged base (xs @ (k, v) # ys)) k = v"
proof -
  assume "k \<notin> fst ` set ys"
  then have "map_of (rev ys) k = None" by (simp add: map_of_eq_None_iff)
  then show ?thesis by (simp add: dget_def map_of_merged map_add_def)
qed

text \<open>The parts of a finished qualification.\<close>

lemma finishes_Inr:
  assumes "qualification_finishes su mc s cap q probed m = (Inr (ok, i, fp, doc), m2)"
  obtains o1 health model metrics overrides outcome where
    "probe_outcome ''tested-working'' ''capability-qualification'' (fst probed) = Inr o1"
    "outcome = thermal_override s o1" "ok = (qo_result outcome = ''tested-working'')"
    "record_test (su_digest su) (su_now su) (qualification_evidence su mc cap q outcome (overrides_dict overrides) health model metrics)
       (qo_result outcome) (qo_failure_class outcome) (mg_store m) = ((i, fp, doc), mg_store m2)"
    "mg_definitions m2 = mg_definitions m"
  using assms
  by (auto simp: qualification_finishes_def Let_def split: sum.splits prod.splits)

lemma qualify_Inr:
  assumes "qualify_worker_capability su tv px key c mc s wid cap m = (Inr r, m2)"
  obtains q m1 probed where
    "qualification_begins su tv wid cap m = (Inr q, m1)"
    "run_probe su px key c cap q (mg_store m1) = Inr probed"
    "qualification_finishes su mc s cap q probed m1 = (Inr r, m2)"
  using assms
  by (auto simp: qualify_worker_capability_def api_def split: prod.splits sum.splits)

lemma run_probe_success:
  assumes "run_probe su px key c cap q st = Inr probed" "fst probed = Inr ()"
  shows "qualification_probe px c (qp_definition q) cap (qp_model_id q) (qp_revision q) (list_tests st) no_payloads
    = (Inr (), snd probed)"
  using assms by (cases probed) (auto simp: run_probe_def split: sum.splits api_error.splits)

text \<open>C20: A qualification that reports success rests on everything it claims: the exact model revision of
  the worker and the capability were allowed, the worker was ready, the machine was in its normal
  thermal state when the probe started (or the policy is off) and not too hot, critical or without
  telemetry when it ended, and the worker answered the four requests with documents, reported that it
  was ready and gave an answer that the probe of this capability accepts.
\<close>

theorem success_rests_on_evidence:
  assumes "qualify_worker_capability su tv px key c mc s wid cap m = (Inr (True, i, fp, doc), m2)"
  shows "\<exists>w p. map_of (mg_definitions m) wid = Some w
    \<and> (case worker_cache_identity (su_repr su) (worker_dump w) of (mid, rv) \<Rightarrow>
         model_cache_allowed mid rv (mg_store m) \<and> model_capability_allowed mid rv cap (mg_store m))
    \<and> (\<not> tc_enabled (tv_config tv) \<or> tv_state tv = NORMAL) \<and> \<not> thermally_invalid s
    \<and> answers c p \<and> is_ready (pl_health p) \<and> has_smoke_evidence px cap (pl_generation p) = Inr True"
proof -
  obtain q m1 probed where begins: "qualification_begins su tv wid cap m = (Inr q, m1)"
    and run: "run_probe su px key c cap q (mg_store m1) = Inr probed"
    and finish: "qualification_finishes su mc s cap q probed m1 = (Inr (True, i, fp, doc), m2)"
    using assms by (rule qualify_Inr)
  obtain o1 outcome where o1: "probe_outcome ''tested-working'' ''capability-qualification'' (fst probed) = Inr o1"
    and ok: "qo_result (thermal_override s o1) = ''tested-working''"
    using finish by (rule finishes_Inr) auto
  have "fst probed = Inr ()" "\<not> thermally_invalid s"
    using ok outcome_success(1) [OF o1] by (auto simp: override_success)
  then show ?thesis
    using begins_Inr [OF begins] probe_evidence [OF run_probe_success [OF run]] by (fastforce split: prod.splits)
qed

section \<open>The routing rules see the qualification\<close>

lemma map_res_Cons: "map_res f (x # xs) = Inr ys \<longleftrightarrow> (\<exists>z zs. ys = z # zs \<and> f x = Inr z \<and> map_res f xs = Inr zs)"
  by (auto simp: rbind_eq_Inr)

lemma evidence_keys:
  "dget (merged base (qualification_evidence su mc cap q o1 v h md x)) ''worker_id'' = VStr (wd_id (qp_definition q))"
  "dget (merged base (qualification_evidence su mc cap q o1 v h md x)) ''capability_id'' = VStr cap"
  "dget (merged base (qualification_evidence su mc cap q o1 v h md x)) ''worker_configuration_fingerprint''
    = VStr (worker_configuration_fingerprint (su_digest su) (worker_dump (qp_definition q)))"
  "dget (merged base (qualification_evidence su mc cap q o1 v h md x)) ''fingerprint_version'' = dget base ''fingerprint_version''"
proof -
  show "dget (merged base (qualification_evidence su mc cap q o1 v h md x)) ''worker_id'' = VStr (wd_id (qp_definition q))"
    unfolding qualification_evidence_def common_evidence_def Let_def append_Cons
    by (rule dget_merged_last [where xs = "[]", simplified]) simp
  show "dget (merged base (qualification_evidence su mc cap q o1 v h md x)) ''capability_id'' = VStr cap"
    unfolding qualification_evidence_def common_evidence_def Let_def append_Cons
    by (rule dget_merged_last [where xs = "[a]" for a, simplified]) simp
  show "dget (merged base (qualification_evidence su mc cap q o1 v h md x)) ''worker_configuration_fingerprint''
    = VStr (worker_configuration_fingerprint (su_digest su) (worker_dump (qp_definition q)))"
    unfolding qualification_evidence_def common_evidence_def Let_def append_Cons
    by (rule dget_merged_last [where xs = "[a, b, c, d, e]" for a b c d e, simplified]) simp
  show "dget (merged base (qualification_evidence su mc cap q o1 v h md x)) ''fingerprint_version'' = dget base ''fingerprint_version''"
    by (rule dget_merged_none) (simp add: qualification_evidence_def common_evidence_def Let_def)
qed

definition recorded_document :: "string \<Rightarrow> pydict \<Rightarrow> string \<Rightarrow> string option \<Rightarrow> pydict" where
  "recorded_document now ev result failure = merged (merged [(''fingerprint_version'', VInt FINGERPRINT_VERSION)] ev)
     [(''result'', VStr result), (''failure_class'', opt_str failure), (''tested_at'', VStr now)]"

lemma record_parts:
  assumes recorded: "record_test dg now ev result failure st = ((i, fp, doc), st2)"
  shows "doc = recorded_document now ev result failure"
    "st2 = st\<lparr>st_tests := st_tests st @ [\<lparr>te_id = i, te_fingerprint = fp, te_result = result,
       te_failure_class = failure, te_evidence = encoded doc, te_tested_at = now\<rparr>]\<rparr>"
  using recorded unfolding record_test_def recorded_document_def Let_def prod.inject by (elim conjE, simp only:)+

lemma recorded_evidence:
  assumes recorded: "record_test dg now ev result failure st = ((i, fp, doc), st2)"
    and tests: "list_tests st2 = Inr ts"
  obtains z zs where "ts = z # zs" "tr_evidence z = VDict doc" "te_id (tr_entry z) = i" "te_result (tr_entry z) = result"
    "doc = recorded_document now ev result failure"
proof -
  note doc = record_parts(1) [OF recorded] and st2 = record_parts(2) [OF recorded]
  define t where "t = \<lparr>te_id = i, te_fingerprint = fp, te_result = result, te_failure_class = failure,
     te_evidence = encoded doc, te_tested_at = now\<rparr>"
  have t: "st_tests st2 = st_tests st @ [t]" "te_id t = i" "te_result t = result" "te_evidence t = encoded doc"
    by (simp_all add: st2 flip: t_def) (simp_all add: t_def)
  have "map_res (test_record_of st2) (t # rev (st_tests st)) = Inr ts"
    using tests by (simp add: list_tests_def t(1) del: map_res.simps)
  then obtain z zs where z: "ts = z # zs" "test_record_of st2 t = Inr z"
    unfolding map_res_Cons by blast
  have "decode_json (te_evidence t) = Inr (VDict doc)" by (simp add: t(4) decode_json_def encoded_def)
  then have e: "tr_entry z = t \<and> tr_evidence z = VDict doc"
    using z(2) unfolding test_record_of_def rbind_eq_Inr by clarsimp
  have ids: "te_id (tr_entry z) = i" "te_result (tr_entry z) = result" using e t(2,3) by simp_all
  show thesis by (rule that [OF z(1) conjunct2 [OF e] ids doc])
qed

lemma policy_version_is_int: "\<exists>v. py_int_of (py_or (dget (worker_dump w) ''capability_policy_version'') (VInt 0)) = Inr v"
  by (cases "wd_capability_policy_version w") (auto simp: worker_dump_def dget_def py_or_def)

text \<open>C21: A recorded success counts: the rules that judge a worker of a routing profile, reading the tests
  of the store after the qualification, find the capability qualified by exactly this test, whatever
  was recorded before and whatever policy version the worker has.
\<close>

theorem recorded_success_qualifies:
  assumes succeeded: "qualify_worker_capability su tv px key c mc s wid cap m = (Inr (True, i, fp, doc), m2)"
    and worker: "map_of (mg_definitions m) wid = Some w"
    and readable: "list_tests (mg_store m2) = Inr ts"
  shows "capability_evidence_status (su_digest su) (worker_dump w) cap (map test_dict ts) = Inr (Qualified, Some (int i))"
proof -
  obtain q m1 probed where begins: "qualification_begins su tv wid cap m = (Inr q, m1)"
    and finish: "qualification_finishes su mc s cap q probed m1 = (Inr (True, i, fp, doc), m2)"
    using succeeded by (rule qualify_Inr)
  have w: "qp_definition q = w" using begins_Inr(1) [OF begins] worker by simp
  obtain overrides health model metrics outcome where
    ok: "qo_result outcome = ''tested-working''" and
    recorded: "record_test (su_digest su) (su_now su) (qualification_evidence su mc cap q outcome (overrides_dict overrides) health model metrics)
       (qo_result outcome) (qo_failure_class outcome) (mg_store m1) = ((i, fp, doc), mg_store m2)"
    using finish by (rule finishes_Inr) auto
  obtain z zs where z: "ts = z # zs" "tr_evidence z = VDict doc" "te_id (tr_entry z) = i"
      "te_result (tr_entry z) = ''tested-working''"
    and doc: "doc = recorded_document (su_now su) (qualification_evidence su mc cap q outcome (overrides_dict overrides) health model metrics)
       ''tested-working'' (qo_failure_class outcome)"
    using recorded_evidence [OF recorded readable] ok by metis
  have keys: "dget doc ''worker_id'' = VStr (wd_id w)" "dget doc ''capability_id'' = VStr cap"
    "dget doc ''worker_configuration_fingerprint'' = VStr (worker_configuration_fingerprint (su_digest su) (worker_dump w))"
    "dget doc ''fingerprint_version'' = VInt FINGERPRINT_VERSION"
    by (simp_all add: doc recorded_document_def dget_merged_none evidence_keys w) (simp add: dget_def)
  have fields: "dget_or (test_dict z) ''evidence'' (VDict []) = VDict doc" "dget (test_dict z) ''result'' = VStr ''tested-working''"
    "py_index (VDict (test_dict z)) ''id'' = Inr (VInt (int i))"
    by (simp_all add: test_dict_def Let_def dget_or_def dget_def py_index_def z)
  have id: "dget (worker_dump w) ''id'' = VStr (wd_id w)" by (simp add: worker_dump_def dget_def)
  obtain v where "py_int_of (py_or (dget (worker_dump w) ''capability_policy_version'') (VInt 0)) = Inr v"
    using policy_version_is_int by blast
  then show ?thesis
    by (simp add: capability_evidence_status_def z fields keys id eq_str_def py_or_def FINGERPRINT_VERSION_def)
qed

section \<open>A concrete qualification\<close>

definition reply_json :: "pydict \<Rightarrow> http_reply" where
  "reply_json d = \<lparr>hr_status = None, hr_json = Inr (VDict d)\<rparr>"

definition chat_client :: worker_client where
  "chat_client = \<lparr>wk_reads = Inr (reply_json [(''ready'', VBool True)], reply_json [], reply_json []),
     wk_generation = Inr (reply_json [(''choices'', VList [VDict [(''message'', VDict [(''content'', VStr ''ready'')])]])]),
     wk_repeats = [], wk_refreshed = Inr (reply_json [])\<rparr>"

definition chat_context :: probe_context where
  "chat_context = \<lparr>px_system_prompt = [], px_loads = (\<lambda>_. Inl JSONDecodeError)\<rparr>"

definition chat_machine :: machine_probe where
  "chat_machine = \<lparr>mc_hardware_profile = VStr ''framework'', mc_fedora = VNone, mc_kernel = VNone, mc_gpu_architecture = VNone,
     mc_thermal_policy = VNone, mc_thermal_observations = VNone, mc_duration = VInt 1\<rparr>"

definition chat_thermal :: thermal_view where
  "chat_thermal = \<lparr>tv_config = default_thermal_config, tv_state = NORMAL, tv_temperature = VInt 60, tv_age = VInt 1, tv_active = Some 0,
     tv_timestamp = ''t''\<rparr>"

definition chat_mp :: model_profile where
  "chat_mp = projr (to_profile False (\<lambda>v. Inr (v = VBool True)) chat_worker)"

definition chat_supervisor :: supervisor where
  "chat_supervisor = update_worker 0 (\<lambda>w. w\<lparr>mw_state := READY\<rparr>) (supervisor_init [chat_mp] (Fin 30) ''/data'')"

definition chat_ready :: management where
  "chat_ready = chat_created chat_supervisor"

definition chat_qualified :: "(qualify_error + (bool \<times> nat \<times> string \<times> pydict)) \<times> management" where
  "chat_qualified = qualify_worker_capability (chat_surroundings ''u3'') chat_thermal chat_context ''local'' chat_client chat_machine
     NORMAL chat_uuid ''general-chat'' chat_ready"

lemma chat_profile_built: "to_profile False (\<lambda>v. Inr (v = VBool True)) chat_worker = Inr chat_mp" "mp_id chat_mp = chat_uuid"
  using chat_to_profile by (auto simp: chat_mp_def split: sum.splits)

lemma chat_supervised: "sv_workers chat_supervisor = [(chat_uuid, 0)]" "mw_process (sv_obj chat_supervisor 0) = None"
    "mw_state (sv_obj chat_supervisor 0) = READY"
  by (simp_all add: chat_supervisor_def update_worker_def supervisor_init_def chat_profile_built new_worker_def)

lemma chat_view: "get_worker chat_uuid chat_supervisor = (Inr (snapshot chat_supervisor 0), chat_supervisor)"
  "wv_state (snapshot chat_supervisor 0) = READY"
  by (simp_all add: get_worker_def refresh_exits_def refresh_worker_def chat_supervised require_worker_def snapshot_def Let_def)

lemma chat_template: "''autoregressive-transformers'' \<in> set (candidate_templates (chat_surroundings []) chat_model ''general-chat'')"
  by code_simp

lemma chat_contract: "catalogue_contract ''general-chat'' = Inr (Some ''openai-chat-v1'')"
  by code_simp

definition chat_q :: qualify_plan where
  "chat_q = \<lparr>qp_definition = chat_worker, qp_cached = chat_model, qp_model_id = ''org/chat'', qp_revision = ''r1'',
     qp_view = snapshot chat_supervisor 0, qp_contract = ''openai-chat-v1''\<rparr>"

lemma chat_guards:
  "require_definition chat_ready chat_uuid = Inr chat_worker" "mg_supervisor chat_ready = chat_supervisor"
  "cache_model_id chat_worker = ''org/chat''" "cache_revision chat_worker = ''r1''"
  "wd_runtime_template_id chat_worker = Some ''autoregressive-transformers''"
  "installed_model (chat_surroundings ''u3'') ''org/chat'' ''r1'' = Some chat_model" "offers chat_model ''general-chat''"
  "''autoregressive-transformers'' \<in> set (candidate_templates (chat_surroundings ''u3'') chat_model ''general-chat'')"
  "model_cache_allowed ''org/chat'' ''r1'' (mg_store chat_ready)"
  "model_capability_allowed ''org/chat'' ''r1'' ''general-chat'' (mg_store chat_ready)"
  "get_worker chat_uuid chat_supervisor = (Inr (snapshot chat_supervisor 0), chat_supervisor)"
  "wv_state (snapshot chat_supervisor 0) = READY"
proof -
  show "''autoregressive-transformers'' \<in> set (candidate_templates (chat_surroundings ''u3'') chat_model ''general-chat'')"
    using chat_template by (simp add: candidate_templates_def templates_def chat_surroundings_def)
  show "require_definition chat_ready chat_uuid = Inr chat_worker" "mg_supervisor chat_ready = chat_supervisor"
    by (simp_all add: require_definition_def chat_ready_def chat_created_def)
  show "cache_model_id chat_worker = ''org/chat''" "cache_revision chat_worker = ''r1''"
      "wd_runtime_template_id chat_worker = Some ''autoregressive-transformers''"
    by (simp_all add: cache_model_id_def cache_revision_def chat_worker_def str_or_def)
  show "installed_model (chat_surroundings ''u3'') ''org/chat'' ''r1'' = Some chat_model" "offers chat_model ''general-chat''"
    by (simp_all add: installed_model_def chat_surroundings_def chat_model_def offers_def)
  show "model_cache_allowed ''org/chat'' ''r1'' (mg_store chat_ready)"
      "model_capability_allowed ''org/chat'' ''r1'' ''general-chat'' (mg_store chat_ready)"
    by (simp_all add: chat_ready_def chat_created_def chat_permitted_def chat_start_def empty_management_def empty_store_def
        model_cache_allowed_def model_capability_allowed_def)
qed (rule chat_view)+

lemma chat_begins: "qualification_begins (chat_surroundings ''u3'') chat_thermal chat_uuid ''general-chat'' chat_ready = (Inr chat_q, chat_ready)"
proof -
  have cool: "admitted (thermal_decision chat_thermal (benchmark_request chat_uuid chat_worker))"
    by (simp add: benchmark_admitted chat_thermal_def)
  have same: "chat_ready\<lparr>mg_supervisor := chat_supervisor\<rparr> = chat_ready" by (simp add: chat_ready_def chat_created_def)
  show ?thesis
    by (simp add: qualification_begins_def chat_guards cool chat_contract chat_q_def same)
qed

lemma chat_runs: "\<exists>p. run_probe (chat_surroundings ''u3'') chat_context ''local'' chat_client ''general-chat'' chat_q (mg_store chat_ready)
    = Inr (Inr (), p) \<and> payload_dicts p = Inr ([(''ready'', VBool True)], [], [])"
proof -
  let ?p = "\<lparr>pl_health = VDict [(''ready'', VBool True)], pl_model = VDict [], pl_metrics = VDict [],
    pl_generation = VDict [(''choices'', VList [VDict [(''message'', VDict [(''content'', VStr ''ready'')])]])]\<rparr>"
  have probe: "probe_for_capability ''general-chat''
      = Inr (probe ''general-chat'' ''openai-chat-v1'' text_chat_request (Some text_chat_request) (total valid_chat) DefaultTimeout)"
    unfolding probe_for_capability_def PROTOCOL_PROBES_def by (simp add: probe_def)
  have request: "\<exists>r. worker_capability_request (chat_surroundings ''u3'') chat_context ''local'' chat_worker ''general-chat'' = Inr r"
  proof -
    have "wd_runtime chat_worker \<noteq> gemma4_chat_runtime" by (simp add: gemma4_chat_runtime_def chat_worker_def)
    then have "probe_model (chat_surroundings ''u3'') chat_worker = Inr (mp_alias chat_mp)"
      by (simp add: probe_model_def chat_surroundings_def chat_profile_built)
    then show ?thesis
      by (simp add: worker_capability_request_def probe build_probe_request_def catches_value_error_def)
  qed
  have answers: "answers chat_client ?p" by (simp add: answers_def chat_client_def reply_json_def)
  have evidence: "has_smoke_evidence chat_context ''general-chat'' (pl_generation ?p) = Inr True"
    by (simp add: has_smoke_evidence_def probe validate_probe_response_def) (simp add: probe_def total_def valid_chat_def
      filled_list_def items_def is_mapping_def first_item_def dget_def non_empty_text_def as_mapping_def strip_def is_space_def)
  have ready: "is_ready (pl_health ?p)" by (simp add: is_ready_def payload_get_def value_get_def dget_or_def)
  have runtime: "\<not> prefix NATIVE_FP8_RUNTIME_PREFIX (wd_runtime chat_worker)"
    by (simp add: NATIVE_FP8_RUNTIME_PREFIX_def chat_worker_def)
  have "qualification_probe chat_context chat_client chat_worker ''general-chat'' ''org/chat'' ''r1'' (list_tests (mg_store chat_ready)) no_payloads
      = (Inr (), ?p)"
    using answers evidence ready by (simp add: plain_probe_Inr [OF runtime])
  then show ?thesis
    using request by (intro exI [of _ ?p]) (auto simp: run_probe_def chat_q_def payload_dicts_def)
qed

lemma recorded_readable:
  assumes recorded: "record_test dg now (qualification_evidence su mc cap q o1 v h x y) r f st = ((i, fp, doc), st2)"
    and empty: "st_tests st = []" "st_observations st = []"
  shows "is_ok (list_tests st2)"
proof -
  note parts = record_parts [OF recorded]
  have "dget doc ''fingerprint_version'' = VInt FINGERPRINT_VERSION"
    by (simp add: parts(1) recorded_document_def dget_merged_none evidence_keys) (simp add: dget_def)
  then have "value_get (VDict doc) ''fingerprint_version'' (VInt 1) = Inr (VInt FINGERPRINT_VERSION)"
    by (auto simp: value_get_def dget_def dget_or_def split: option.splits)
  then show ?thesis
    by (simp add: list_tests_def parts(2) empty test_record_of_def decode_json_def encoded_def list_test_observations_def)
qed

lemma chat_finishes: "payload_dicts p = Inr (h, x, y) \<Longrightarrow>
  \<exists>i fp doc m2. qualification_finishes (chat_surroundings ''u3'') chat_machine NORMAL ''general-chat'' chat_q (Inr (), p) chat_ready
    = (Inr (True, i, fp, doc), m2) \<and> is_ok (list_tests (mg_store m2))"
proof -
  assume p: "payload_dicts p = Inr (h, x, y)"
  obtain overrides where env: "worker_environment (mg_supervisor chat_ready) (wd_id chat_worker) = Inr overrides"
    by (simp add: worker_environment_def require_worker_def chat_ready_def chat_created_def chat_supervised chat_worker_def)
  have tests: "st_tests (mg_store chat_ready) = []" "st_observations (mg_store chat_ready) = []"
    by (simp_all add: chat_ready_def chat_created_def chat_permitted_def chat_start_def empty_management_def empty_store_def)
  let ?o = "\<lparr>qo_result = ''tested-working'', qo_failure_class = None, qo_summary = None\<rparr>"
  obtain i fp doc st2 where r: "record_test (su_digest (chat_surroundings ''u3'')) (su_now (chat_surroundings ''u3''))
      (qualification_evidence (chat_surroundings ''u3'') chat_machine ''general-chat'' chat_q ?o (overrides_dict overrides) h x y)
      ''tested-working'' None (mg_store chat_ready) = ((i, fp, doc), st2)"
    by (metis prod.collapse)
  have "is_ok (list_tests st2)" by (rule recorded_readable [OF r tests])
  then show ?thesis
    using p env r by (simp add: qualification_finishes_def probe_outcome_def thermal_override_def thermally_invalid_def chat_q_def)
qed

lemma chat_succeeds: "\<exists>i fp doc m2 ts. chat_qualified = (Inr (True, i, fp, doc), m2) \<and> list_tests (mg_store m2) = Inr ts"
proof -
  obtain p where p: "run_probe (chat_surroundings ''u3'') chat_context ''local'' chat_client ''general-chat'' chat_q (mg_store chat_ready)
    = Inr (Inr (), p)" "payload_dicts p = Inr ([(''ready'', VBool True)], [], [])" using chat_runs by blast
  obtain i fp doc m2 where f: "qualification_finishes (chat_surroundings ''u3'') chat_machine NORMAL ''general-chat'' chat_q (Inr (), p) chat_ready
    = (Inr (True, i, fp, doc), m2)" and ok: "is_ok (list_tests (mg_store m2))" using chat_finishes [OF p(2)] by blast
  have "chat_qualified = (Inr (True, i, fp, doc), m2)"
    by (simp add: chat_qualified_def qualify_worker_capability_def chat_begins p(1) f api_def)
  with ok show ?thesis unfolding is_ok_iff by metis
qed

lemma chat_ready_worker: "map_of (mg_definitions chat_ready) chat_uuid = Some chat_worker"
  by (simp add: chat_ready_def chat_created_def)

theorem success_rests_on_evidence_witness: "\<exists>p. answers chat_client p \<and> is_ready (pl_health p)"
  using chat_succeeds success_rests_on_evidence [of "chat_surroundings ''u3''" chat_thermal chat_context "''local''" chat_client chat_machine NORMAL
      chat_uuid "''general-chat''" chat_ready]
  unfolding chat_qualified_def by blast

theorem recorded_success_qualifies_witness:
  "\<exists>ts i. capability_evidence_status (su_digest (chat_surroundings ''u3'')) (worker_dump chat_worker) ''general-chat'' (map test_dict ts)
     = Inr (Qualified, Some (int i))"
  using chat_succeeds recorded_success_qualifies [OF _ chat_ready_worker] unfolding chat_qualified_def by blast

section \<open>Where the checks fall short\<close>

text \<open>The gate of the native FP8 runtimes compares with \<open><\<close> and \<open>>\<close>, which NaN never satisfies, and
  \<open>json.loads\<close> reads NaN: a worker that reports it passes every limit. The aggregation, whose messages
  promise finite values, lets it through as well.\<close>

lemma nan_passes_the_gate:
  "validate_native_fp8_promotion NATIVE_FP8_CHAT
     (VDict [(''tuning_status'', VStr ''validated''), (''memory_allocated_bytes'', VFloat NaN), (''peak_memory_allocated_bytes'', VFloat NaN)])
     (VDict [(''metrics'', VDict [(''tokens_per_second'', VFloat NaN), (''first_token_seconds'', VFloat NaN)])]) = Inr ()"
  by code_simp

lemma nan_is_aggregated:
  "is_ok (aggregate_native_fp8_text_benchmark (replicate 5
     [(''metrics'', VDict [(''tokens_per_second'', VFloat NaN), (''first_token_seconds'', VFloat NaN)])]))"
  by code_simp

text \<open>Two validators raise on an answer of the wrong shape, and no handler catches these exceptions: the
  qualification ends without a record.\<close>

lemma unhashable_language_raises:
  "valid_translation [(''ok'', VBool True), (''source_language'', VStr ''en''), (''target_language'', VList [])]
     = Inl (TypeError ''unhashable type: list'')"
  "\<not> probe_error_caught (PythonError (TypeError t))"
  by (simp_all add: valid_translation_def dget_def eq_str_def non_empty_text_def in_text_set_def probe_error_caught_def)

lemma huge_duration_raises:
  "duration_ok [(''audio_seconds'', VInt FLOAT_OVERFLOW)] ''audio_seconds'' = Inl (OverflowError ''int too large to convert to float'')"
  "\<not> probe_error_caught (PythonError (OverflowError t))"
  by (simp_all add: duration_ok_def dget_def is_plain_number_def py_isfinite_def probe_error_caught_def)

text \<open>A machine that is not cool makes the handler raise, which its route does not turn into an answer.\<close>

lemma warm_machine_raises:
  "\<exists>d. fst (qualification_begins (chat_surroundings ''u3'') (chat_thermal\<lparr>tv_state := WARM\<rparr>) chat_uuid ''general-chat'' chat_ready)
     = Inl (QualifyThermal d)"
proof -
  have "\<not> admitted (thermal_decision (chat_thermal\<lparr>tv_state := WARM\<rparr>) (benchmark_request chat_uuid chat_worker))"
    by (simp add: benchmark_admitted chat_thermal_def default_thermal_config_def)
  then show ?thesis by (simp add: qualification_begins_def chat_guards Let_def)
qed

end
