(* ===== verification/Route_Probes.thy ===== *)
theory Route_Probes
  imports Qualification Management_Properties
begin

text \<open>
  The other probes of \<open>v2_api.py\<close>: the diagnostic of a running worker, the smoke test of a published
  route through the gateway, and the rehearsal of tool calling on a route, in three requests whose
  answers are judged before the next one is sent. HTTP answers are arguments.
\<close>

section \<open>The diagnostic of a worker\<close>

definition diagnostic_probe ::
  "surroundings \<Rightarrow> probe_context \<Rightarrow> string \<Rightarrow> worker_client \<Rightarrow> worker_definition \<Rightarrow> string \<Rightarrow>
   api_error + (probe_error + unit) \<times> payloads" where
  "diagnostic_probe su px api_key c w cap = (case wk_reads c of
     Inl e \<Rightarrow> Inr (Inl (HttpError e), no_payloads)
   | Inr _ \<Rightarrow> (case worker_capability_request su px api_key w cap of
       Inl (HTTPException code d) \<Rightarrow> Inl (HTTPException code d)
     | Inl (Raised e) \<Rightarrow> Inr (Inl (PythonError e), no_payloads)
     | Inr _ \<Rightarrow> Inr (pbind (read_worker_documents c) (\<lambda>_. pbind require_ready (\<lambda>_.
         require_evidence px cap ''Smoke response contained no valid Worker evidence'')) no_payloads)))"

text \<open>\<open>generation.get("metrics", {}).get(name)\<close>.\<close>

definition generation_metric :: "pyval \<Rightarrow> string \<Rightarrow> pyval res" where
  "generation_metric generation name =
     rbind (value_get generation ''metrics'' (VDict [])) (\<lambda>m. value_get m name VNone)"

definition diagnostic_evidence ::
  "surroundings \<Rightarrow> machine_probe \<Rightarrow> string \<Rightarrow> worker_definition \<Rightarrow> qualify_outcome \<Rightarrow> pyval \<Rightarrow> payloads \<Rightarrow> pydict res" where
  "diagnostic_evidence su mc cap w outcome overrides p =
     rbind (payload_dicts p) (\<lambda>(health, model, metrics).
     rbind (generation_metric (pl_generation p) ''first_token_seconds'') (\<lambda>first.
     rbind (if py_truthy first then Inr first else generation_metric (pl_generation p) ''first_output_seconds'') (\<lambda>output.
     rbind (generation_metric (pl_generation p) ''tokens_per_second'') (\<lambda>throughput.
       Inr (common_evidence su mc w cap (case find_capability cap of Some d \<Rightarrow> (case cd_protocol_contract_id d of Some k \<Rightarrow> k | None \<Rightarrow> []) | None \<Rightarrow> [])
              health model metrics @
         [(''evidence_kind'', VStr ''worker-diagnostic''),
          (''model_id'', dget_or model ''model_id'' (VStr (wd_model_id w))),
          (''model_revision'', dget_or model ''revision'' (VStr (wd_revision w))),
          (''environment_overrides'', overrides),
          (''smoke_result'', success_text (qo_result outcome = ''diagnostic-passed'') ''failed''),
          (''cold_load_seconds'', dget metrics ''load_seconds''), (''first_output_seconds'', output),
          (''throughput_tokens_per_second'', throughput),
          (''peak_memory_bytes'', dget metrics ''peak_memory_allocated_bytes''),
          (''steady_memory_bytes'', dget metrics ''memory_allocated_bytes''),
          (''shutdown_result'', VStr ''not-tested''), (''memory_recovery_result'', VStr ''not-tested''),
          (''error_summary'', opt_str (qo_summary outcome))])))))"

record diagnostic =
  dg_ok :: bool
  dg_outcome :: qualify_outcome
  dg_evidence :: pydict

text \<open>The handler; it records nothing, and only the supervisor notes exited processes.\<close>

definition smoke_worker ::
  "surroundings \<Rightarrow> probe_context \<Rightarrow> string \<Rightarrow> worker_client \<Rightarrow> machine_probe \<Rightarrow> string \<Rightarrow> management \<Rightarrow>
   diagnostic answer \<times> management" where
  "smoke_worker su px api_key c mc wid m = (case require_definition m wid of
     Inl e \<Rightarrow> (Inl e, m)
   | Inr w \<Rightarrow> (case get_worker wid (mg_supervisor m) of (r, s) \<Rightarrow>
     (let m1 = m\<lparr>mg_supervisor := s\<rparr> in
      (case r of
         Inl e \<Rightarrow> Inl (Raised e)
       | Inr v \<Rightarrow>
         if wv_state v \<noteq> READY then refused 409 ''Worker must be ready before smoke testing''
         else rbind (worker_smoke_capability_id su w) (\<lambda>cap.
           rbind (diagnostic_probe su px api_key c w cap) (\<lambda>(probed, p).
           rbind (raised (probe_outcome ''diagnostic-passed'' ''worker-diagnostic'' probed)) (\<lambda>outcome.
           rbind (raised (worker_environment s wid)) (\<lambda>overrides.
           rbind (raised (diagnostic_evidence su mc cap w outcome (overrides_dict overrides) p)) (\<lambda>evidence.
             Inr \<lparr>dg_ok = (qo_result outcome = ''diagnostic-passed''), dg_outcome = outcome, dg_evidence = evidence\<rparr>))))),
       m1))))"

section \<open>The smoke test of a route\<close>

record probe_timeouts =
  tm_diffusion :: pyfloat
  tm_scenechat :: pyfloat
  tm_translation :: pyfloat
  tm_speech_synthesis :: pyfloat
  tm_speech_recognition :: pyfloat

definition capability_smoke_timeout :: "string \<Rightarrow> probe_timeouts \<Rightarrow> pyfloat" where
  "capability_smoke_timeout contract t =
     (case (case probe_for_contract contract of Inr p \<Rightarrow> pp_timeout_class p | Inl _ \<Rightarrow> DefaultTimeout) of
        DiffusionTimeout \<Rightarrow> tm_diffusion t
      | SynthesisTimeout \<Rightarrow> tm_speech_synthesis t
      | RecognitionTimeout \<Rightarrow> tm_speech_recognition t
      | TranslationTimeout \<Rightarrow> tm_translation t
      | DefaultTimeout \<Rightarrow> pymax (Fin 60) (tm_scenechat t))"

text \<open>An entry of a routing snapshot: its fields are texts and a list, as \<open>active_routing_snapshots\<close> checks.\<close>

definition entry_text :: "pydict \<Rightarrow> string \<Rightarrow> string" where
  "entry_text entry k = (case dget entry k of VStr s \<Rightarrow> s | _ \<Rightarrow> [])"

definition entry_workers :: "pydict \<Rightarrow> string list" where
  "entry_workers entry = (case dget entry ''worker_ids'' of
     VList vs \<Rightarrow> map (\<lambda>v. case v of VStr s \<Rightarrow> s | _ \<Rightarrow> []) vs | _ \<Rightarrow> [])"

definition capability_smoke_request ::
  "probe_context \<Rightarrow> pydict \<Rightarrow> (string \<times> worker_definition) list \<Rightarrow> (string \<times> pydict option) answer" where
  "capability_smoke_request px entry definitions =
     (let contract = entry_text entry ''protocol_contract'' in
      rbind (catches_value_error 409 (rbind (probe_for_contract contract) (\<lambda>p.
        build_probe_request px p OnGateway (entry_text entry ''public_name'') ''local''))) (\<lambda>q.
      Inr (pq_path q,
        if contract \<in> {''openai-chat-v1'', ''openai-completions-v1''} \<and>
           list_ex (\<lambda>i. case map_of definitions i of
             Some w \<Rightarrow> wd_runtime_template_id w = Some ''gpt-oss-llama-vulkan'' | None \<Rightarrow> False) (entry_workers entry)
        then map_option (\<lambda>b. merged b [(''max_tokens'', VInt 64)]) (pq_body q) else pq_body q)))"

text \<open>An answer of the gateway: \<open>is_success\<close>, the document, and the bytes of the body.\<close>

record gateway_answer =
  ga_status :: "http_failure option"
  ga_json :: "pyval res"
  ga_content :: string

definition is_wave :: "string \<Rightarrow> bool" where
  "is_wave b = (length b > 44 \<and> prefix ''RIFF'' b \<and> take 4 (drop 8 b) = ''WAVE'')"

definition route_evidence :: "string \<Rightarrow> gateway_answer \<Rightarrow> probe_error + pyval" where
  "route_evidence contract a = (case ga_status a of
     Some e \<Rightarrow> Inl (HttpError e)
   | None \<Rightarrow> if contract = ''speech-synthesis-v1'' then Inr (VDict [(''audio'', VBool (is_wave (ga_content a)))])
       else (case ga_json a of Inl e \<Rightarrow> Inl (PythonError e) | Inr v \<Rightarrow> Inr v))"

definition route_probe :: "probe_context \<Rightarrow> string \<Rightarrow> http_failure + gateway_answer \<Rightarrow> probe_error + pyval" where
  "route_probe px contract r = (case r of
     Inl e \<Rightarrow> Inl (HttpError e)
   | Inr a \<Rightarrow> rbind (route_evidence contract a) (\<lambda>v.
       case rbind (probe_for_contract contract) (\<lambda>p. validate_probe_response px p v) of
         Inl e \<Rightarrow> Inl (PythonError e)
       | Inr ok \<Rightarrow> if ok then Inr v
           else Inl (PythonError (RuntimeError ''Gateway capability response contained no valid protocol evidence''))))"

definition evidence_names :: "string list" where
  "evidence_names = [''choices'', ''events'', ''frames'', ''ok'', ''output_text'', ''text'', ''audio'']"

definition evidence_name :: "pyval \<Rightarrow> string" where
  "evidence_name v = (case List.find (\<lambda>n. py_truthy (dget (as_mapping v) n)) evidence_names of
     Some n \<Rightarrow> n | None \<Rightarrow> ''response'')"

text \<open>\<open>error_text\<close> of a failure of the client is a parameter of the answer, like its class.\<close>

definition probe_text :: "probe_error \<Rightarrow> string" where
  "probe_text e = (case e of HttpError h \<Rightarrow> snd (http_exn h) | PythonError p \<Rightarrow> error_text p)"

text \<open>The gateway: what it answers to a request for a path, and how long that takes.\<close>

type_synonym gateway = "string \<times> pydict option \<Rightarrow> (http_failure + gateway_answer) \<times> int"

definition smoke_plain_route ::
  "probe_context \<Rightarrow> gateway \<Rightarrow> pydict \<Rightarrow> (string \<times> worker_definition) list \<Rightarrow> pydict answer" where
  "smoke_plain_route px post entry definitions =
     rbind (capability_smoke_request px entry definitions) (\<lambda>q.
     case route_probe px (entry_text entry ''protocol_contract'') (fst (post q)) of
       Inr v \<Rightarrow> Inr [(''ok'', VBool True), (''evidence'', VStr (evidence_name v))]
     | Inl e \<Rightarrow> if probe_error_caught e then refused 503 (''Gateway capability smoke test failed: '' @ probe_text e)
         else (case e of PythonError p \<Rightarrow> Inl (Raised p) | HttpError _ \<Rightarrow> Inl (Raised (RuntimeError []))))"

section \<open>The rehearsal of tool calling\<close>

definition py_item :: "pyval \<Rightarrow> pyval res" where
  "py_item v = (case v of
     VList [] \<Rightarrow> Inl (IndexError ''list index out of range'')
   | VList (x # _) \<Rightarrow> Inr x
   | VStr [] \<Rightarrow> Inl (IndexError ''string index out of range'')
   | VStr (c # _) \<Rightarrow> Inr (VStr [c])
   | VDict _ \<Rightarrow> Inl (KeyError ''0'')
   | _ \<Rightarrow> Inl (TypeError ''not subscriptable''))"

definition first_message :: "pyval \<Rightarrow> pyval res" where
  "first_message payload = rbind (py_index payload ''choices'') (\<lambda>cs. rbind (py_item cs) (\<lambda>c. py_index c ''message''))"

text \<open>The answer of a failed request, by the code the gateway gave it.\<close>

definition failure_category :: "pyval \<Rightarrow> string" where
  "failure_category payload = (case payload of
     VDict d \<Rightarrow> (case dget d ''error'' of
       VDict e \<Rightarrow> (case dget e ''code'' of VStr s \<Rightarrow> s | _ \<Rightarrow> ''tool_calling_probe_failed'')
     | _ \<Rightarrow> ''tool_calling_probe_failed'')
   | _ \<Rightarrow> ''tool_calling_probe_failed'')"

definition judge_call ::
  "(string \<Rightarrow> json_failure + pyval) \<Rightarrow> string \<Rightarrow> pydict \<Rightarrow> pyval \<Rightarrow> (pydict option \<times> string) res" where
  "judge_call loads name arguments payload =
     rbind (first_message payload) (\<lambda>m. rbind (py_index m ''tool_calls'') (\<lambda>calls.
     case calls of
       VList [VDict call] \<Rightarrow>
         if (case dget call ''id'' of VStr i \<Rightarrow> i = [] | _ \<Rightarrow> True) then Inr (None, ''tool_call_id_invalid'')
         else if \<not> eq_str (dget call ''type'') ''function'' then Inr (None, ''tool_call_name_invalid'')
         else rbind (py_index (VDict call) ''function'') (\<lambda>f. rbind (py_index f ''name'') (\<lambda>n.
           if \<not> eq_str n name then Inr (None, ''tool_call_name_invalid'')
           else rbind (py_index f ''arguments'') (\<lambda>a. case a of
               VStr t \<Rightarrow> (case loads t of
                   Inl _ \<Rightarrow> Inl (ValueError ''JSONDecodeError'')
                 | Inr v \<Rightarrow> if py_eq v (VDict arguments) then Inr (Some call, ''valid'')
                     else Inr (None, ''tool_call_arguments_invalid''))
             | _ \<Rightarrow> Inr (None, ''tool_call_arguments_invalid''))))
     | VList [_] \<Rightarrow> Inr (None, ''tool_call_protocol_invalid'')
     | _ \<Rightarrow> Inr (None, ''tool_call_count_invalid'')))"

text \<open>\<open>except (KeyError, TypeError, ValueError)\<close> does not cover an \<open>IndexError\<close>.\<close>

definition rehearsal_tool_call ::
  "(string \<Rightarrow> json_failure + pyval) \<Rightarrow> string \<Rightarrow> pydict \<Rightarrow> gateway_answer \<Rightarrow> (pydict option \<times> string) res" where
  "rehearsal_tool_call loads name arguments a = (case ga_json a of
     Inl (ValueError _) \<Rightarrow> Inr (None, ''invalid_worker_response'')
   | Inl e \<Rightarrow> Inl e
   | Inr payload \<Rightarrow>
     if ga_status a \<noteq> None then Inr (None, failure_category payload)
     else (case judge_call loads name arguments payload of
         Inl (KeyError _) \<Rightarrow> Inr (None, ''tool_call_protocol_invalid'')
       | Inl (TypeError _) \<Rightarrow> Inr (None, ''tool_call_protocol_invalid'')
       | Inl (ValueError _) \<Rightarrow> Inr (None, ''tool_call_protocol_invalid'')
       | r \<Rightarrow> r))"

definition judge_text :: "string \<Rightarrow> pyval \<Rightarrow> (bool \<times> string) res" where
  "judge_text marker payload = rbind (first_message payload) (\<lambda>m. rbind (value_get m ''tool_calls'' VNone) (\<lambda>calls.
     if py_truthy calls then Inr (False, ''final_tool_call_unexpected'')
     else rbind (py_index m ''content'') (\<lambda>content. case content of
         VStr t \<Rightarrow> if str_in marker t then Inr (True, ''valid'') else Inr (False, ''grounded_final_text_invalid'')
       | _ \<Rightarrow> Inr (False, ''grounded_final_text_invalid''))))"

definition valid_rehearsal_final_text :: "string \<Rightarrow> gateway_answer \<Rightarrow> (bool \<times> string) res" where
  "valid_rehearsal_final_text marker a = (case ga_json a of
     Inl (ValueError _) \<Rightarrow> Inr (False, ''invalid_worker_response'')
   | Inl e \<Rightarrow> Inl e
   | Inr payload \<Rightarrow>
     if ga_status a \<noteq> None then Inr (False, failure_category payload)
     else (case judge_text marker payload of
         Inl (KeyError _) \<Rightarrow> Inr (False, ''tool_call_protocol_invalid'')
       | Inl (TypeError _) \<Rightarrow> Inr (False, ''tool_call_protocol_invalid'')
       | r \<Rightarrow> r))"

definition REHEARSAL_MARKER :: string where
  "REHEARSAL_MARKER = ''MODELDECK_TOOL_REHEARSAL_OK''"

record rehearsal_probe =
  rp_tool_calls :: nat
  rp_category :: string
  rp_latency :: int

definition rehearsal_probe_dict :: "rehearsal_probe \<Rightarrow> pyval" where
  "rehearsal_probe_dict p = VDict [(''tool_call_count'', VInt (int (rp_tool_calls p))),
     (''result_category'', VStr (rp_category p)), (''latency_ms'', VInt (rp_latency p))]"

section \<open>The requests of a rehearsal\<close>

definition TOOL_CALLING_REHEARSAL_MAX_TOKENS :: int where
  "TOOL_CALLING_REHEARSAL_MAX_TOKENS = 512"

definition list_tool :: pyval where
  "list_tool = VDict [(''type'', VStr ''function''), (''function'', VDict [(''name'', VStr ''list_workspace_entries''),
     (''description'', VStr ''List allowlisted workspace entries.''),
     (''parameters'', VDict [(''type'', VStr ''object''), (''properties'', VDict [])])])]"

definition read_tool :: pyval where
  "read_tool = VDict [(''type'', VStr ''function''), (''function'', VDict [(''name'', VStr ''read_workspace_text_file''),
     (''description'', VStr ''Read one allowlisted workspace text file.''),
     (''parameters'', VDict [(''type'', VStr ''object''),
        (''properties'', VDict [(''path'', VDict [(''type'', VStr ''string'')])]), (''required'', VList [VStr ''path''])])])]"

definition rehearsal_prompt :: pyval where
  "rehearsal_prompt = VDict [(''role'', VStr ''user''),
     (''content'', VStr (''Call list_workspace_entries exactly once. After its result, call '' @
        ''read_workspace_text_file for Readme.md, then report the rehearsal marker '' @
        ''from that file. Do not guess or answer before using the tools.''))]"

definition tool_turns :: "pydict \<Rightarrow> string \<Rightarrow> pyval list" where
  "tool_turns call content =
     [VDict [(''role'', VStr ''assistant''), (''content'', VNone), (''tool_calls'', VList [VDict call])],
      VDict [(''role'', VStr ''tool''), (''tool_call_id'', dget call ''id''), (''content'', VStr content)]]"

definition json_quoted :: "string \<Rightarrow> string" where
  "json_quoted t = [CHR 0x22] @ t @ [CHR 0x22]"

definition list_result :: string where
  "list_result = ''{'' @ json_quoted ''entries'' @ '': ['' @ json_quoted ''Readme.md'' @ '']}''"

definition read_result :: string where
  "read_result = ''{'' @ json_quoted ''path'' @ '': '' @ json_quoted ''Readme.md'' @ '', '' @ json_quoted ''content'' @ '': '' @ json_quoted REHEARSAL_MARKER @ ''}''"

definition tool_request :: "string \<Rightarrow> pyval \<Rightarrow> pyval list \<Rightarrow> string \<times> pydict option" where
  "tool_request name tool messages = (''/v1/chat/completions'', Some [(''model'', VStr name), (''messages'', VList messages),
     (''tools'', VList [tool]), (''tool_choice'', VStr ''required''), (''temperature'', VInt 0),
     (''max_tokens'', VInt TOOL_CALLING_REHEARSAL_MAX_TOKENS)])"

definition list_request :: "string \<Rightarrow> string \<times> pydict option" where
  "list_request name = tool_request name list_tool [rehearsal_prompt]"

definition read_request :: "string \<Rightarrow> pydict \<Rightarrow> string \<times> pydict option" where
  "read_request name call1 = tool_request name read_tool (rehearsal_prompt # tool_turns call1 list_result)"

definition final_request :: "string \<Rightarrow> pydict \<Rightarrow> pydict \<Rightarrow> string \<times> pydict option" where
  "final_request name call1 call2 = (''/v1/chat/completions'', Some [(''model'', VStr name),
     (''messages'', VList (rehearsal_prompt # tool_turns call1 list_result @ tool_turns call2 read_result)),
     (''temperature'', VInt 0), (''max_tokens'', VInt 96)])"

section \<open>Its rounds\<close>

definition exchange_failure :: "http_failure \<Rightarrow> string" where
  "exchange_failure e = (case e of TimeoutException _ \<Rightarrow> ''gateway_timeout'' | _ \<Rightarrow> ''local_route_unavailable'')"

text \<open>The probes so far and the call that was made, or the failure code that ends the rehearsal.\<close>

definition call_round ::
  "(string \<Rightarrow> json_failure + pyval) \<Rightarrow> string \<Rightarrow> pydict \<Rightarrow> (http_failure + gateway_answer) \<times> int \<Rightarrow> rehearsal_probe list \<Rightarrow>
   (rehearsal_probe list \<times> (string + pydict)) res" where
  "call_round loads name arguments t probes = (case fst t of
     Inl e \<Rightarrow> Inr (probes, Inl (exchange_failure e))
   | Inr a \<Rightarrow> rbind (rehearsal_tool_call loads name arguments a) (\<lambda>(call, category).
       Inr (probes @ [\<lparr>rp_tool_calls = (if call = None then 0 else 1), rp_category = category, rp_latency = snd t\<rparr>],
            case call of None \<Rightarrow> Inl category | Some c \<Rightarrow> Inr c)))"

definition text_round ::
  "(http_failure + gateway_answer) \<times> int \<Rightarrow> rehearsal_probe list \<Rightarrow> (rehearsal_probe list \<times> string option) res" where
  "text_round t probes = (case fst t of
     Inl e \<Rightarrow> Inr (probes, Some (exchange_failure e))
   | Inr a \<Rightarrow> rbind (valid_rehearsal_final_text REHEARSAL_MARKER a) (\<lambda>(ok, category).
       Inr (probes @ [\<lparr>rp_tool_calls = 0, rp_category = category, rp_latency = snd t\<rparr>], if ok then None else Some category)))"

definition next_round ::
  "(rehearsal_probe list \<times> (string + pydict)) res \<Rightarrow>
   (pydict \<Rightarrow> rehearsal_probe list \<Rightarrow> (rehearsal_probe list \<times> string option) res) \<Rightarrow>
   (rehearsal_probe list \<times> string option) res" where
  "next_round r f = rbind r (\<lambda>(probes, x). case x of Inl failure \<Rightarrow> Inr (probes, Some failure) | Inr call \<Rightarrow> f call probes)"

definition rehearsal_rounds ::
  "(string \<Rightarrow> json_failure + pyval) \<Rightarrow> gateway \<Rightarrow> string \<Rightarrow> (rehearsal_probe list \<times> string option) res" where
  "rehearsal_rounds loads post name =
     next_round (call_round loads ''list_workspace_entries'' [] (post (list_request name)) []) (\<lambda>call1 p1.
     next_round (call_round loads ''read_workspace_text_file'' [(''path'', VStr ''Readme.md'')] (post (read_request name call1)) p1) (\<lambda>call2 p2.
     text_round (post (final_request name call1 call2)) p2))"

definition rehearse_route_tool_calling ::
  "surroundings \<Rightarrow> (string \<Rightarrow> json_failure + pyval) \<Rightarrow> gateway \<Rightarrow> string \<Rightarrow> string \<Rightarrow> int \<Rightarrow> string \<Rightarrow> management \<Rightarrow>
   (bool \<times> pydict) answer \<times> management" where
  "rehearse_route_tool_calling su loads post name pid revision cid m = (case rehearsal_rounds loads post name of
     Inl e \<Rightarrow> (Inl (Raised e), m)
   | Inr (probes, failure) \<Rightarrow>
     (let supported = (failure = None \<and> length probes = 3) in
      case save_route_tool_calling_rehearsal (su_now su) pid revision cid supported failure
             [(''probe_count'', VInt (int (length probes))), (''probes'', VList (map rehearsal_probe_dict probes))] (mg_store m) of
        (state, st) \<Rightarrow> (Inr (supported, state), m\<lparr>mg_store := st\<rparr>)))"

text \<open>The route handler: the entry of the live snapshot, rehearsed when it offers tools.\<close>

definition live_entry :: "string \<Rightarrow> string \<Rightarrow> store \<Rightarrow> (pydict \<times> pydict) answer" where
  "live_entry pid cid s = rbind (raised (active_routing_snapshots s)) (\<lambda>snapshots.
     case List.find (\<lambda>x. eq_str (dget x ''profile_id'') pid) snapshots of
       None \<Rightarrow> refused 409 ''Publish this Routing Profile before smoke-testing capabilities''
     | Some now_live \<Rightarrow>
         (case List.find (\<lambda>e. eq_str (dget e ''capability_id'') cid) (map as_mapping (items (dget now_live ''capabilities''))) of
            None \<Rightarrow> refused 404 ''The capability is not in the live Routing Profile revision''
          | Some e \<Rightarrow> Inr (now_live, e)))"

text \<open>From the live entry on; the workers' definitions are those of the moment the request was built.\<close>

definition smoke_entry ::
  "surroundings \<Rightarrow> probe_context \<Rightarrow> gateway \<Rightarrow> string \<Rightarrow> string \<Rightarrow> (string \<times> worker_definition) list \<Rightarrow> pydict \<times> pydict \<Rightarrow>
   management \<Rightarrow> (bool \<times> pydict) answer \<times> management" where
  "smoke_entry su px post pid cid definitions found m = (case found of (now_live, entry) \<Rightarrow>
     if dget entry ''tool_calling_enabled'' = VBool True
     then (case raised (rbind (py_index (VDict now_live) ''revision'') py_int_of) of
         Inl e \<Rightarrow> (Inl e, m)
       | Inr revision \<Rightarrow>
           rehearse_route_tool_calling su (px_loads px) post (entry_text entry ''public_name'') pid revision cid m)
     else (rbind (smoke_plain_route px post entry definitions) (\<lambda>d. Inr (True, d)), m))"

definition smoke_routing_profile_capability ::
  "surroundings \<Rightarrow> probe_context \<Rightarrow> gateway \<Rightarrow> string \<Rightarrow> string \<Rightarrow> management \<Rightarrow> (bool \<times> pydict) answer \<times> management" where
  "smoke_routing_profile_capability su px post pid cid m = (case live_entry pid cid (mg_store m) of
     Inl e \<Rightarrow> (Inl e, m)
   | Inr found \<Rightarrow> smoke_entry su px post pid cid (mg_definitions m) found m)"

section \<open>Starting, stopping and restarting through a route\<close>

text \<open>What the supervisor's operation ended with; a thermal refusal is a \<open>RuntimeError\<close> of its own class.\<close>

datatype lifecycle_end = Lifecycle_Done | Lifecycle_Thermal admission_decision | Lifecycle_Raises py_error

definition lifecycle_answer :: "lifecycle_end \<Rightarrow> unit answer" where
  "lifecycle_answer e = (case e of
     Lifecycle_Done \<Rightarrow> Inr ()
   | Lifecycle_Thermal d \<Rightarrow> Inl (HTTPException 429 (VDict (decision_as_dict d)))
   | Lifecycle_Raises (KeyError k) \<Rightarrow> refused 404 (error_text (KeyError k))
   | Lifecycle_Raises (RuntimeError t) \<Rightarrow> refused 409 t
   | Lifecycle_Raises p \<Rightarrow> Inl (Raised p))"

definition lifecycle :: "string \<Rightarrow> lifecycle_end \<Rightarrow> management \<Rightarrow> unit answer" where
  "lifecycle wid e m = rbind (require_definition m wid) (\<lambda>_. lifecycle_answer e)"

section \<open>What a rehearsal shows\<close>

text \<open>The one call an answer has to hold: its identifier, its name and its decoded arguments.\<close>

definition valid_call :: "(string \<Rightarrow> json_failure + pyval) \<Rightarrow> string \<Rightarrow> pydict \<Rightarrow> pydict \<Rightarrow> pyval \<Rightarrow> bool" where
  "valid_call loads name arguments call payload \<longleftrightarrow> (\<exists>m i f n t v.
     first_message payload = Inr m \<and> py_index m ''tool_calls'' = Inr (VList [VDict call]) \<and>
     dget call ''id'' = VStr i \<and> i \<noteq> [] \<and> eq_str (dget call ''type'') ''function'' \<and>
     py_index (VDict call) ''function'' = Inr f \<and> py_index f ''name'' = Inr n \<and> eq_str n name \<and>
     py_index f ''arguments'' = Inr (VStr t) \<and> loads t = Inr v \<and> py_eq v (VDict arguments))"

definition valid_text :: "pyval \<Rightarrow> bool" where
  "valid_text payload \<longleftrightarrow> (\<exists>m calls t. first_message payload = Inr m \<and> value_get m ''tool_calls'' VNone = Inr calls \<and>
     \<not> py_truthy calls \<and> py_index m ''content'' = Inr (VStr t) \<and> str_in REHEARSAL_MARKER t)"

definition answered :: "(http_failure + gateway_answer) \<times> int \<Rightarrow> (pyval \<Rightarrow> bool) \<Rightarrow> bool" where
  "answered t P \<longleftrightarrow> (\<exists>a v. fst t = Inr a \<and> ga_status a = None \<and> ga_json a = Inr v \<and> P v)"

definition rehearsal_passes :: "(string \<Rightarrow> json_failure + pyval) \<Rightarrow> gateway \<Rightarrow> string \<Rightarrow> bool" where
  "rehearsal_passes loads post name \<longleftrightarrow> (\<exists>call1 call2.
     answered (post (list_request name)) (valid_call loads ''list_workspace_entries'' [] call1) \<and>
     answered (post (read_request name call1))
       (valid_call loads ''read_workspace_text_file'' [(''path'', VStr ''Readme.md'')] call2) \<and>
     answered (post (final_request name call1 call2)) valid_text)"

lemma judge_call_some:
  assumes "judge_call loads name arguments payload = Inr (Some call, category)"
  shows "valid_call loads name arguments call payload"
  using assms
  by (auto simp: judge_call_def valid_call_def rbind_def split: sum.splits pyval.splits list.splits if_splits)

lemma judge_call_valid:
  "valid_call loads name arguments call payload \<Longrightarrow> judge_call loads name arguments payload = Inr (Some call, ''valid'')"
  unfolding valid_call_def by (elim exE conjE) (simp add: judge_call_def rbind_def)

lemma judge_text_true: "judge_text REHEARSAL_MARKER payload = Inr (True, category) \<Longrightarrow> valid_text payload"
  by (auto simp: judge_text_def valid_text_def rbind_def split: sum.splits pyval.splits if_splits)

lemma judge_text_valid: "valid_text payload \<Longrightarrow> judge_text REHEARSAL_MARKER payload = Inr (True, ''valid'')"
  unfolding valid_text_def by (elim exE conjE) (simp add: judge_text_def rbind_def)

lemma call_round_passes:
  assumes "call_round loads name arguments t probes = Inr (probes', Inr call)"
  shows "answered t (valid_call loads name arguments call) \<and> length probes' = Suc (length probes)"
proof (cases "fst t")
  case (Inl e)
  then show ?thesis using assms by (simp add: call_round_def)
next
  case (Inr a)
  obtain category where r: "rehearsal_tool_call loads name arguments a = Inr (Some call, category)"
    and l: "length probes' = Suc (length probes)"
    using assms Inr by (auto simp: call_round_def rbind_def split: sum.splits option.splits)
  have "ga_status a = None" "\<exists>v. ga_json a = Inr v \<and> valid_call loads name arguments call v"
    using r by (auto simp: rehearsal_tool_call_def dest: judge_call_some split: sum.splits py_error.splits if_splits)
  then show ?thesis using Inr l by (auto simp: answered_def)
qed

lemma text_round_passes:
  assumes "text_round t probes = Inr (probes', None)"
  shows "answered t valid_text \<and> length probes' = Suc (length probes)"
proof (cases "fst t")
  case (Inl e)
  then show ?thesis using assms by (simp add: text_round_def)
next
  case (Inr a)
  obtain category where r: "valid_rehearsal_final_text REHEARSAL_MARKER a = Inr (True, category)"
    and l: "length probes' = Suc (length probes)"
    using assms Inr by (auto simp: text_round_def rbind_def split: sum.splits if_splits)
  have "ga_status a = None" "\<exists>v. ga_json a = Inr v \<and> valid_text v"
    using r by (auto simp: valid_rehearsal_final_text_def dest: judge_text_true split: sum.splits py_error.splits if_splits)
  then show ?thesis using Inr l by (auto simp: answered_def)
qed

lemma next_round_passes:
  assumes "next_round r f = Inr (probes', None)"
  obtains probes call where "r = Inr (probes, Inr call)" "f call probes = Inr (probes', None)"
  using assms by (auto simp: next_round_def rbind_def split: sum.splits)

lemma rounds_pass:
  assumes "rehearsal_rounds loads post name = Inr (probes, None)"
  shows "rehearsal_passes loads post name \<and> length probes = 3"
proof -
  obtain p1 call1 where 1: "call_round loads ''list_workspace_entries'' [] (post (list_request name)) [] = Inr (p1, Inr call1)"
    and rest: "next_round (call_round loads ''read_workspace_text_file'' [(''path'', VStr ''Readme.md'')] (post (read_request name call1)) p1)
      (\<lambda>call2 p2. text_round (post (final_request name call1 call2)) p2) = Inr (probes, None)"
    using assms unfolding rehearsal_rounds_def by (rule next_round_passes)
  obtain p2 call2 where 2: "call_round loads ''read_workspace_text_file'' [(''path'', VStr ''Readme.md'')] (post (read_request name call1)) p1 = Inr (p2, Inr call2)"
    and 3: "text_round (post (final_request name call1 call2)) p2 = Inr (probes, None)"
    using rest by (rule next_round_passes)
  show ?thesis
    using call_round_passes [OF 1] call_round_passes [OF 2] text_round_passes [OF 3]
    by (auto simp: rehearsal_passes_def)
qed

lemma call_round_valid:
  "answered t (valid_call loads name arguments call) \<Longrightarrow> call_round loads name arguments t probes =
    Inr (probes @ [\<lparr>rp_tool_calls = 1, rp_category = ''valid'', rp_latency = snd t\<rparr>], Inr call)"
  unfolding answered_def by (elim exE conjE) (simp add: call_round_def rehearsal_tool_call_def rbind_def judge_call_valid)

lemma text_round_valid:
  "answered t valid_text \<Longrightarrow> text_round t probes =
    Inr (probes @ [\<lparr>rp_tool_calls = 0, rp_category = ''valid'', rp_latency = snd t\<rparr>], None)"
  unfolding answered_def by (elim exE conjE) (simp add: text_round_def valid_rehearsal_final_text_def rbind_def judge_text_valid)

lemma rounds_pass_iff:
  "(\<exists>probes. rehearsal_rounds loads post name = Inr (probes, None) \<and> length probes = 3) \<longleftrightarrow> rehearsal_passes loads post name"
  using rounds_pass [of loads post name]
  by (auto simp: rehearsal_passes_def rehearsal_rounds_def next_round_def call_round_valid text_round_valid)

lemma rehearsal_answer:
  assumes "rehearse_route_tool_calling su loads post name pid rv cid m = (Inr (ok, state), m')"
    and "pid \<noteq> []" "cid \<noteq> []"
  shows "ok = rehearsal_passes loads post name" "dget state ''supported'' = VBool ok"
    "route_tool_calling_state (Some pid) (Some rv) (Some cid) (mg_store m') = state"
proof -
  obtain probes failure where r: "rehearsal_rounds loads post name = Inr (probes, failure)"
    and k: "ok = (failure = None \<and> length probes = 3)"
    and s: "save_route_tool_calling_rehearsal (su_now su) pid rv cid ok failure
        [(''probe_count'', VInt (int (length probes))), (''probes'', VList (map rehearsal_probe_dict probes))] (mg_store m) = (state, mg_store m')"
    using assms(1) by (auto simp: rehearse_route_tool_calling_def Let_def split: sum.splits prod.splits)
  show "ok = rehearsal_passes loads post name" using k rounds_pass_iff [of loads post name] r by auto
  show "dget state ''supported'' = VBool ok"
    "route_tool_calling_state (Some pid) (Some rv) (Some cid) (mg_store m') = state"
    using s [symmetric] assms(2,3)
    by (auto simp: save_route_tool_calling_rehearsal_def route_tool_calling_state_def rehearsal_state_def dget_def Let_def)
qed

lemma rehearsal_returns:
  assumes "rehearsal_rounds loads post name = Inr x"
  obtains ok state m' where "rehearse_route_tool_calling su loads post name pid rv cid m = (Inr (ok, state), m')"
  using assms by (cases x) (auto simp: rehearse_route_tool_calling_def save_route_tool_calling_rehearsal_def Let_def)

text \<open>C34: a route is recorded as supporting tools exactly when the three rounds of the rehearsal answered well: one call
  of the listing tool, one call of the reading tool on Readme.md, and a text with the marker and no further call. The
  recorded state is the one the gateway reads for that revision.\<close>

theorem tools_supported_iff_rehearsed:
  assumes "rehearse_route_tool_calling su loads post name pid rv cid m = (Inr (ok, state), m')"
    and "pid \<noteq> []" "cid \<noteq> []"
  shows "dget (route_tool_calling_state (Some pid) (Some rv) (Some cid) (mg_store m')) ''supported'' =
    VBool (rehearsal_passes loads post name)"
  using rehearsal_answer [OF assms] by simp

definition example_message :: "pydict \<Rightarrow> gateway_answer" where
  "example_message d = \<lparr>ga_status = None,
     ga_json = Inr (VDict [(''choices'', VList [VDict [(''message'', VDict d)]])]), ga_content = []\<rparr>"

definition example_tool_call :: "string \<Rightarrow> string \<Rightarrow> pydict" where
  "example_tool_call name arguments = [(''id'', VStr ''c1''),
     (''type'', VStr ''function''), (''function'', VDict [(''name'', VStr name), (''arguments'', VStr arguments)])]"

definition tool_loads :: "string \<Rightarrow> json_failure + pyval" where
  "tool_loads t = (if t = ''{}'' then Inr (VDict [])
     else if t = ''p'' then Inr (VDict [(''path'', VStr ''Readme.md'')]) else Inl JSONDecodeError)"

text \<open>A gateway that plays its part, by the number of turns of the conversation.\<close>

definition example_turns :: "pydict option \<Rightarrow> nat" where
  "example_turns body = (case body of Some d \<Rightarrow> (case dget d ''messages'' of VList ms \<Rightarrow> length ms | _ \<Rightarrow> 0) | None \<Rightarrow> 0)"

definition example_gateway :: gateway where
  "example_gateway q = (Inr (case example_turns (snd q) of
       Suc 0 \<Rightarrow> example_message [(''tool_calls'', VList [VDict (example_tool_call ''list_workspace_entries'' ''{}'')])]
     | Suc (Suc (Suc 0)) \<Rightarrow> example_message [(''tool_calls'', VList [VDict (example_tool_call ''read_workspace_text_file'' ''p'')])]
     | _ \<Rightarrow> example_message [(''content'', VStr REHEARSAL_MARKER)]), 7)"

lemma example_rehearsal:
  "rehearsal_rounds tool_loads example_gateway ''chat'' =
   Inr ([\<lparr>rp_tool_calls = 1, rp_category = ''valid'', rp_latency = 7\<rparr>, \<lparr>rp_tool_calls = 1, rp_category = ''valid'', rp_latency = 7\<rparr>,
     \<lparr>rp_tool_calls = 0, rp_category = ''valid'', rp_latency = 7\<rparr>], None)"
  by code_simp

theorem tools_supported_iff_rehearsed_witness:
  "dget (route_tool_calling_state (Some ''p'') (Some 1) (Some ''c'') (mg_store (snd
     (rehearse_route_tool_calling (chat_surroundings []) tool_loads example_gateway ''chat'' ''p'' 1 ''c'' chat_start)))) ''supported'' = VBool True"
proof -
  let ?r = "rehearse_route_tool_calling (chat_surroundings []) tool_loads example_gateway ''chat'' ''p'' 1 ''c'' chat_start"
  obtain ok state m' where r: "?r = (Inr (ok, state), m')" by (rule rehearsal_returns [OF example_rehearsal])
  have "rehearsal_passes tool_loads example_gateway ''chat''" using example_rehearsal by (simp add: rounds_pass_iff [symmetric])
  then show ?thesis using tools_supported_iff_rehearsed [OF r] r by simp
qed

text \<open>A gateway that answers with no choices raises an exception that is not among the caught ones: nothing is recorded,
  and a publication that asked for the rehearsal stays in \<open>verifying-route\<close>.\<close>

lemma empty_choices_raise:
  assumes "fst (post (list_request name)) = Inr \<lparr>ga_status = None, ga_json = Inr (VDict [(''choices'', VList [])]), ga_content = []\<rparr>"
  shows "rehearse_route_tool_calling su loads post name pid rv cid m = (Inl (Raised (IndexError ''list index out of range'')), m)"
  using assms by (simp add: rehearse_route_tool_calling_def rehearsal_rounds_def next_round_def call_round_def rehearsal_tool_call_def
    judge_call_def first_message_def py_index_def py_item_def rbind_def)

text \<open>An unreachable gateway is an answer, not an error, when the route offers tools.\<close>

lemma unreachable_gateway_answers:
  assumes "fst (post (list_request name)) = Inl (TransportFailure e)"
  shows "\<exists>state m'. rehearse_route_tool_calling su loads post name pid rv cid m = (Inr (False, state), m')"
proof -
  have r: "rehearsal_rounds loads post name = Inr ([], Some ''local_route_unavailable'')"
    using assms by (simp add: rehearsal_rounds_def next_round_def call_round_def exchange_failure_def rbind_def)
  show ?thesis
    by (simp add: rehearse_route_tool_calling_def r save_route_tool_calling_rehearsal_def Let_def)
qed

lemma unreachable_gateway_refuses:
  "capability_smoke_request px entry ds = Inr q \<Longrightarrow> fst (post q) = Inl (TransportFailure e) \<Longrightarrow>
   smoke_plain_route px post entry ds = refused 503 (''Gateway capability smoke test failed: '' @ snd e)"
  by (simp add: smoke_plain_route_def route_probe_def probe_error_caught_def probe_text_def http_exn_def)

end
