(* ===== verification/Setups.thy ===== *)
theory Setups
  imports Route_Probes
begin

text \<open>
  The guided setup of a capability (\<open>v2_api.py\<close>): a plan that the operator reviews, a background task
  that applies it and stops with a qualified worker, and the publication of the result. The task and
  the handlers suspend while a worker starts, stops or answers; a suspended one keeps its own copy of
  the setup's document. One step runs from one suspension to the next.
\<close>

section \<open>What the requests hold\<close>

record setup_selection =
  sl_capability_id :: string
  sl_model_id :: string
  sl_revision :: string
  sl_worker_name :: string
  sl_artifact_id :: "string option"
  sl_runtime_template_id :: "string option"
  sl_dtype :: "string option"
  sl_lifecycle :: "lifecycle_class option"
  sl_context_length :: "int option"
  sl_maximum_new_tokens :: "int option"
  sl_maximum_denoising_steps :: "int option"
  sl_visual_token_budget :: "int option"
  sl_prefix_cache_enabled :: bool

definition opt_value :: "('a \<Rightarrow> pyval) \<Rightarrow> 'a option \<Rightarrow> pyval" where
  "opt_value f x = (case x of None \<Rightarrow> VNone | Some y \<Rightarrow> f y)"

definition selection_dump :: "setup_selection \<Rightarrow> pydict" where
  "selection_dump s =
     [(''capability_id'', VStr (sl_capability_id s)), (''model_id'', VStr (sl_model_id s)), (''revision'', VStr (sl_revision s)),
      (''worker_name'', VStr (sl_worker_name s)), (''artifact_id'', opt_str (sl_artifact_id s)),
      (''runtime_template_id'', opt_str (sl_runtime_template_id s)), (''dtype'', opt_str (sl_dtype s)),
      (''lifecycle'', opt_value (\<lambda>l. VStr (lifecycle_value l)) (sl_lifecycle s)),
      (''context_length'', opt_value VInt (sl_context_length s)), (''maximum_new_tokens'', opt_value VInt (sl_maximum_new_tokens s)),
      (''maximum_denoising_steps'', opt_value VInt (sl_maximum_denoising_steps s)),
      (''visual_token_budget'', opt_value VInt (sl_visual_token_budget s)),
      (''prefix_cache_enabled'', VBool (sl_prefix_cache_enabled s))]"

definition create_dump :: "worker_create \<Rightarrow> pydict" where
  "create_dump r =
     [(''name'', VStr (wc_name r)), (''model_id'', VStr (wc_model_id r)), (''revision'', VStr (wc_revision r)),
      (''dtype'', opt_str (wc_dtype r)), (''lifecycle'', opt_value (\<lambda>l. VStr (lifecycle_value l)) (wc_lifecycle r)),
      (''context_length'', opt_value VInt (wc_context_length r)), (''maximum_new_tokens'', opt_value VInt (wc_maximum_new_tokens r)),
      (''maximum_denoising_steps'', opt_value VInt (wc_maximum_denoising_steps r)),
      (''visual_token_budget'', opt_value VInt (wc_visual_token_budget r)), (''artifact_id'', opt_str (wc_artifact_id r)),
      (''runtime_template_id'', opt_str (wc_runtime_template_id r)), (''prefix_cache_enabled'', VBool (wc_prefix_cache_enabled r)),
      (''capability_id'', opt_str (wc_capability_id r))]"

definition validate_selection :: "setup_selection \<Rightarrow> setup_selection res" where
  "validate_selection s =
     (if \<not> opt_alias (Some (sl_capability_id s)) then Inl (ValueError ''capability_id'')
      else if \<not> (3 \<le> length (sl_model_id s) \<and> length (sl_model_id s) \<le> 256) then Inl (ValueError ''model_id'')
      else if \<not> (1 \<le> length (sl_revision s) \<and> length (sl_revision s) \<le> 128) then Inl (ValueError ''revision'')
      else if \<not> label_length (sl_worker_name s) then Inl (ValueError ''worker_name'')
      else if \<not> opt_alias (sl_artifact_id s) then Inl (ValueError ''artifact_id'')
      else if \<not> opt_alias (sl_runtime_template_id s) then Inl (ValueError ''runtime_template_id'')
      else if \<not> opt_all (\<lambda>d. d \<in> {''float16'', ''bfloat16'', ''float32''}) (sl_dtype s) then Inl (ValueError ''dtype'')
      else if \<not> opt_all (\<lambda>n. 256 \<le> n \<and> n \<le> 32768) (sl_context_length s) then Inl (ValueError ''context_length'')
      else if \<not> opt_all (\<lambda>n. 1 \<le> n \<and> n \<le> MAXIMUM_NEW_TOKENS_LIMIT) (sl_maximum_new_tokens s)
      then Inl (ValueError ''maximum_new_tokens'')
      else if \<not> opt_all (\<lambda>n. 1 \<le> n \<and> n \<le> 48) (sl_maximum_denoising_steps s)
      then Inl (ValueError ''maximum_denoising_steps'')
      else if \<not> opt_all (\<lambda>n. n \<in> set ALLOWED_VISUAL_TOKEN_BUDGETS) (sl_visual_token_budget s)
      then Inl (ValueError ''visual_token_budget'')
      else Inr s)"

text \<open>What a step may read besides the state: the request's surroundings, the thermal state, the typing of
  the documents, the digest of a document (\<open>sha256\<close> of its canonical JSON) and \<open>uuid5\<close>.\<close>

record setup_io =
  io_su :: surroundings
  io_thermal :: thermal_view
  io_selection_fields :: "pyval \<Rightarrow> setup_selection res"
  io_create_fields :: "pyval \<Rightarrow> worker_create res"
  io_fingerprint :: "pydict \<Rightarrow> string"
  io_uuid5 :: "string \<Rightarrow> string \<Rightarrow> string"

section \<open>The preview\<close>

text \<open>The templates for which a current test of this exact model and capability succeeded.\<close>

definition evidence_templates :: "setup_io \<Rightarrow> setup_selection \<Rightarrow> string list \<Rightarrow> test_record list \<Rightarrow> string list" where
  "evidence_templates io s available tests =
     remdups (map (\<lambda>t. py_str (su_repr (io_su io)) (dget (as_mapping (tr_evidence t)) ''runtime_template_id''))
       (filter (\<lambda>t. (let e = as_mapping (tr_evidence t) in
          te_result (tr_entry t) = ''tested-working'' \<and> tr_fingerprint_version t = 2
          \<and> eq_str (dget e ''model_id'') (sl_model_id s) \<and> eq_str (dget e ''model_revision'') (sl_revision s)
          \<and> eq_str (dget e ''capability_id'') (sl_capability_id s)
          \<and> dget e ''runtime_template_id'' \<in> VStr ` set available)) tests))"

definition choice_required :: "string \<Rightarrow> string \<Rightarrow> string \<Rightarrow> string list \<Rightarrow> 'a answer" where
  "choice_required message code key options = Inl (HTTPException 409 (VDict [(''message'', VStr message), (''code'', VStr code),
     (key, VList (map VStr options))]))"

definition select_template ::
  "setup_io \<Rightarrow> setup_selection \<Rightarrow> string list \<Rightarrow> management \<Rightarrow> (string \<times> string) answer" where
  "select_template io s available m =
     rbind (case sl_runtime_template_id s of
         Some t \<Rightarrow> Inr (Some (t, ''operator-selected''))
       | None \<Rightarrow> (case available of
           [t] \<Rightarrow> Inr (Some (t, ''only-compatible-runtime''))
         | _ \<Rightarrow> rbind (raised (list_tests (mg_store m))) (\<lambda>tests.
             Inr (case evidence_templates io s available tests of
                 [t] \<Rightarrow> Some (t, ''matching-local-evidence'') | _ \<Rightarrow> None)))) (\<lambda>choice.
     case choice of
       None \<Rightarrow> choice_required ''Choose a trusted Runtime; no unique matching local evidence exists''
         ''runtime_selection_required'' ''runtime_template_ids'' available
     | Some (t, basis) \<Rightarrow> if t \<notin> set available
         then refused 409 ''Select a trusted Runtime listed for this Model capability'' else Inr (t, basis))"

definition select_artifact :: "setup_selection \<Rightarrow> cached_model \<Rightarrow> runtime_template \<Rightarrow> string option answer" where
  "select_artifact s c t =
     (if rt_cache_setting t \<noteq> ''artifact_path'' then Inr (sl_artifact_id s)
      else (let valid = map af_artifact_id (cm_artifacts c);
                chosen = (case (sl_artifact_id s, valid) of (None, [a]) \<Rightarrow> Some a | (x, _) \<Rightarrow> x) in
        if chosen \<notin> Some ` set valid
        then choice_required ''Choose an allowlisted local Artifact'' ''artifact_selection_required'' ''artifact_ids'' valid
        else Inr chosen))"

definition planned_worker ::
  "setup_selection \<Rightarrow> string \<Rightarrow> string option \<Rightarrow> runtime_template \<Rightarrow> int \<Rightarrow> worker_create" where
  "planned_worker s template artifact t n =
     (let d = rt_settings t in
      \<lparr>wc_name = spaced_name (sl_worker_name s), wc_model_id = sl_model_id s, wc_revision = sl_revision s,
       wc_dtype = str_or (str_or (sl_dtype s) (rt_dtype t)) (Some ''float16''),
       wc_lifecycle = (case sl_lifecycle s of Some l \<Rightarrow> Some l | None \<Rightarrow>
         (case rt_lifecycle t of Some l \<Rightarrow> Some l | None \<Rightarrow> Some ON_DEMAND)),
       wc_context_length = Some n,
       wc_maximum_new_tokens = Some (int_or (sl_maximum_new_tokens s) (integer_template_default d ''maximum_new_tokens'' 128)),
       wc_maximum_denoising_steps =
         Some (int_or (sl_maximum_denoising_steps s) (integer_template_default d ''maximum_denoising_steps'' 24)),
       wc_visual_token_budget =
         Some (int_or (sl_visual_token_budget s) (integer_template_default d ''visual_token_budget'' DEFAULT_VISUAL_TOKEN_BUDGET)),
       wc_artifact_id = artifact, wc_runtime_template_id = Some template,
       wc_prefix_cache_enabled = sl_prefix_cache_enabled s, wc_capability_id = Some (sl_capability_id s)\<rparr>)"

definition setup_plan_of ::
  "setup_selection \<Rightarrow> worker_create \<Rightarrow> string \<Rightarrow> template_registration \<Rightarrow> management \<Rightarrow> pydict" where
  "setup_plan_of s w basis reg m =
     [(''selection'', VDict (selection_dump s)), (''worker'', VDict (create_dump w)), (''selection_basis'', VStr basis),
      (''runtime_registration_digest'', VStr (tr_digest reg)),
      (''policy_changes'', VDict
        [(''model_allowed'', VBool (\<not> model_cache_allowed (sl_model_id s) (sl_revision s) (mg_store m))),
         (''capability_allowed'', VBool (\<not> model_capability_allowed (sl_model_id s) (sl_revision s) (sl_capability_id s) (mg_store m)))]),
      (''warnings'', VList [])]"

text \<open>The plan and its fingerprint.\<close>

definition setup_preview :: "setup_io \<Rightarrow> setup_selection \<Rightarrow> management \<Rightarrow> (pydict \<times> string) answer" where
  "setup_preview io s m = (let su = io_su io in
     case installed_model su (sl_model_id s) (sl_revision s) of
       None \<Rightarrow> refused 409 ''Select a complete pinned Model from the local cache''
     | Some c \<Rightarrow>
       if \<not> offers c (sl_capability_id s) then refused 409 ''That capability is not recognised for this Model''
       else (let available = candidate_templates su c (sl_capability_id s) in
         if available = [] then refused 409 ''No installed trusted Runtime supports this Model capability''
         else rbind (select_template io s available m) (\<lambda>(template, basis).
         case map_of (su_registrations su) template of
           None \<Rightarrow> refused 409 ''The selected trusted Runtime is not installed''
         | Some reg \<Rightarrow>
           (let t = tr_template reg;
                n = int_or (sl_context_length s) (integer_template_default (rt_settings t) ''context_length'' 2048) in
            rbind (select_artifact s c t) (\<lambda>artifact.
            rbind (validate_model_context_length c n) (\<lambda>_.
            rbind (raised (validate_create (planned_worker s template artifact t n))) (\<lambda>w.
            (let plan = setup_plan_of s w basis reg m in Inr (plan, io_fingerprint io plan)))))))))"

definition preview_capability_setup :: "setup_io \<Rightarrow> setup_selection \<Rightarrow> management \<Rightarrow> (pydict \<times> string) answer" where
  "preview_capability_setup io s m = rbind (require_mutable (io_su io)) (\<lambda>_. setup_preview io s m)"

section \<open>The document of a setup\<close>

definition set_key :: "string \<Rightarrow> pyval \<Rightarrow> pydict \<Rightarrow> pydict" where
  "set_key k v d = AList.update k v d"

definition setup_state :: "pydict \<Rightarrow> string" where
  "setup_state d = (case dget d ''state'' of VStr t \<Rightarrow> t | _ \<Rightarrow> [])"

definition setup_id :: "setup_io \<Rightarrow> pydict \<Rightarrow> string" where
  "setup_id io d = py_str (su_repr (io_su io)) (dget d ''id'')"

definition schedulable :: "pydict \<Rightarrow> bool" where
  "schedulable d = (setup_state d \<in> {''queued'', ''waiting-for-thermal-capacity''})"

definition save_setup :: "setup_io \<Rightarrow> pydict \<Rightarrow> management \<Rightarrow> pydict res \<times> management" where
  "save_setup io d m = (case save_capability_setup (su_repr (io_su io)) (su_now (io_su io)) d (mg_store m) of
     (r, st) \<Rightarrow> (r, m\<lparr>mg_store := st\<rparr>))"

definition record_event :: "setup_io \<Rightarrow> pydict \<Rightarrow> string \<Rightarrow> string \<Rightarrow> management \<Rightarrow> nat res \<times> management" where
  "record_event io d state message m =
     (case record_capability_setup_event (su_now (io_su io)) (setup_id io d) state [(''message'', VStr message)] (mg_store m) of
        (r, st) \<Rightarrow> (r, m\<lparr>mg_store := st\<rparr>))"

definition entering :: "setup_io \<Rightarrow> string \<Rightarrow> pydict \<Rightarrow> pydict" where
  "entering io state d = set_key ''updated_at'' (VStr (su_now (io_su io)))
     (set_key ''current_step'' (VStr state) (set_key ''state'' (VStr state) d))"

text \<open>The document that is saved is also the caller's copy from here on.\<close>

definition transition_setup :: "setup_io \<Rightarrow> pydict \<Rightarrow> string \<Rightarrow> string \<Rightarrow> management \<Rightarrow> pydict res \<times> management" where
  "transition_setup io setup state message m = (let d = entering io state setup in
     case save_setup io d m of
       (Inl e, m1) \<Rightarrow> (Inl e, m1)
     | (Inr _, m1) \<Rightarrow> (case record_event io d state message m1 of (r, m2) \<Rightarrow> (rbind r (\<lambda>_. Inr d), m2)))"

text \<open>\<open>store.get_capability_setup(setup_id) or setup\<close>.\<close>

definition reread_setup :: "string \<Rightarrow> pydict \<Rightarrow> management \<Rightarrow> pydict res" where
  "reread_setup sid setup m = rbind (get_capability_setup sid (mg_store m)) (\<lambda>x. Inr (case x of
     Some v \<Rightarrow> if py_truthy v then as_mapping v else setup | None \<Rightarrow> setup))"

section \<open>The background task\<close>

text \<open>What a suspended task keeps: its copy of the document and the locals it took from the plan.\<close>

record run_frame =
  fr_id :: string
  fr_setup :: pydict
  fr_plan :: pydict
  fr_worker :: string

datatype run_point =
    Waiting
  | Stopping run_frame string
  | Creating run_frame worker_create create_plan
  | Starting run_frame
  | Cooling_Start run_frame
  | Qualifying run_frame qualify_plan
  | Cooling_Qualification run_frame
  | Finished

definition api_message :: "(pyval \<Rightarrow> string) \<Rightarrow> api_error \<Rightarrow> string" where
  "api_message rp e = (case e of HTTPException _ d \<Rightarrow> py_str rp d | Raised p \<Rightarrow> error_text p)"

definition error_document :: "string \<Rightarrow> string \<Rightarrow> string \<Rightarrow> pyval \<Rightarrow> bool \<Rightarrow> pyval" where
  "error_document code message component at_step retryable = VDict [(''code'', VStr code), (''message'', VStr message),
     (''component'', VStr component), (''step'', at_step), (''retryable'', VBool retryable)]"

text \<open>\<open>except Exception\<close>. The document is read again; the thermal refusals and HTTP failures that would be
  retryable never get here. An error of the handler itself ends the task.\<close>

definition run_fails :: "setup_io \<Rightarrow> run_frame \<Rightarrow> api_error \<Rightarrow> management \<Rightarrow> run_point \<times> management" where
  "run_fails io f e m = (case reread_setup (fr_id f) (fr_setup f) m of
     Inl _ \<Rightarrow> (Finished, m)
   | Inr d \<Rightarrow> (let d1 = set_key ''error'' (error_document ''setup_failed'' (api_message (su_repr (io_su io)) e) ''capability-setup''
                  (dget d ''current_step'') False) d in
       (Finished, snd (transition_setup io d1 ''failed'' ''Setup stopped with a recorded failure'' m))))"

definition moves ::
  "setup_io \<Rightarrow> run_frame \<Rightarrow> string \<Rightarrow> string \<Rightarrow> management \<Rightarrow> (run_frame \<Rightarrow> management \<Rightarrow> run_point \<times> management) \<Rightarrow>
   run_point \<times> management" where
  "moves io f state message m next = (case transition_setup io (fr_setup f) state message m of
     (Inl e, m1) \<Rightarrow> run_fails io f (Raised e) m1
   | (Inr d, m1) \<Rightarrow> next (f\<lparr>fr_setup := d\<rparr>) m1)"

definition saves ::
  "setup_io \<Rightarrow> run_frame \<Rightarrow> management \<Rightarrow> (management \<Rightarrow> run_point \<times> management) \<Rightarrow> run_point \<times> management" where
  "saves io f m next = (case save_setup io (fr_setup f) m of
     (Inl e, m1) \<Rightarrow> run_fails io f (Raised e) m1 | (Inr _, m1) \<Rightarrow> next m1)"

definition raises ::
  "setup_io \<Rightarrow> run_frame \<Rightarrow> 'a answer \<times> management \<Rightarrow> ('a \<Rightarrow> management \<Rightarrow> run_point \<times> management) \<Rightarrow> run_point \<times> management" where
  "raises io f r next = (case r of (Inl e, m1) \<Rightarrow> run_fails io f e m1 | (Inr x, m1) \<Rightarrow> next x m1)"

text \<open>Whether the setup has a worker that must be stopped; the supervisor notes processes that have exited.\<close>

definition worker_to_stop :: "pydict \<Rightarrow> management \<Rightarrow> string option answer \<times> management" where
  "worker_to_stop setup m = (case dget setup ''worker_id'' of
     VStr wid \<Rightarrow> (case get_worker wid (mg_supervisor m) of (r, s) \<Rightarrow>
       (raised (rbind r (\<lambda>v. Inr (if wv_state v \<in> {STOPPED, FAILED} then None else Some wid))), m\<lparr>mg_supervisor := s\<rparr>))
   | _ \<Rightarrow> (Inr None, m))"

definition run_cancelled :: "setup_io \<Rightarrow> run_frame \<Rightarrow> string \<Rightarrow> management \<Rightarrow> run_point \<times> management" where
  "run_cancelled io f message m = moves io f ''cancelled'' message m (\<lambda>_ m1. (Finished, m1))"

definition run_cancels :: "setup_io \<Rightarrow> run_frame \<Rightarrow> string \<Rightarrow> management \<Rightarrow> run_point \<times> management" where
  "run_cancels io f message m = raises io f (worker_to_stop (fr_setup f) m) (\<lambda>stop m1. case stop of
     None \<Rightarrow> run_cancelled io f message m1 | Some _ \<Rightarrow> (Stopping f message, m1))"

definition cancel_requested :: "run_frame \<Rightarrow> bool" where
  "cancel_requested f = py_truthy (dget (fr_setup f) ''cancel_requested'')"

definition plan_text :: "setup_io \<Rightarrow> run_frame \<Rightarrow> string \<Rightarrow> string" where
  "plan_text io f k = py_str (su_repr (io_su io)) (dget (fr_plan f) k)"

text \<open>The evidence is judged, and the setup waits for its publication.\<close>

definition qualification_document :: "nat \<times> string \<times> pydict \<Rightarrow> pydict" where
  "qualification_document t = (case t of (i, fp, d) \<Rightarrow>
     [(''id'', VInt (int i)), (''fingerprint'', VStr fp), (''result'', dget d ''result''),
      (''failure_class'', dget d ''failure_class''), (''evidence'', VDict d), (''tested_at'', dget d ''tested_at'')])"

definition run_qualified :: "setup_io \<Rightarrow> run_frame \<Rightarrow> bool \<Rightarrow> nat \<times> string \<times> pydict \<Rightarrow> management \<Rightarrow> run_point \<times> management" where
  "run_qualified io f ok test m =
     (let f1 = f\<lparr>fr_setup := set_key ''qualification'' (VDict (qualification_document test))
                 (set_key ''evidence_id'' (VInt (int (fst test))) (fr_setup f))\<rparr> in
      saves io f1 m (\<lambda>m1.
        if \<not> ok then run_fails io f1 (Raised (RuntimeError ''Capability qualification failed; the negative evidence was preserved'')) m1
        else moves io f1 ''awaiting-publication'' ''Qualification passed; review evidence before publishing'' m1 (\<lambda>_ m2. (Finished, m2))))"

definition run_qualifies :: "setup_io \<Rightarrow> run_frame \<Rightarrow> management \<Rightarrow> run_point \<times> management" where
  "run_qualifies io f m =
     (case qualification_begins (io_su io) (io_thermal io) (fr_worker f) (plan_text io f ''capability_id'') m of
        (Inl (QualifyApi e), m1) \<Rightarrow> run_fails io f e m1
      | (Inl (QualifyThermal _), m1) \<Rightarrow> moves io f ''waiting-for-thermal-capacity''
          ''Qualification paused until the machine returns to a safe thermal state'' m1 (\<lambda>f1 m2. (Cooling_Qualification f1, m2))
      | (Inr q, m1) \<Rightarrow> (Qualifying f q, m1))"

definition identity_document :: "run_frame \<Rightarrow> worker_view \<Rightarrow> pyval" where
  "identity_document f v = (case wv_resolved_identity v of
     Some (x # d) \<Rightarrow> VDict (x # d)
   | _ \<Rightarrow> VDict [(''runtime'', dget (fr_plan f) ''runtime_template_id''), (''backend'', VStr ''awaiting-worker-report''),
       (''device'', VStr ''awaiting-worker-report'')])"

definition run_verifies :: "setup_io \<Rightarrow> run_frame \<Rightarrow> management \<Rightarrow> run_point \<times> management" where
  "run_verifies io f m = moves io f ''verifying-identity'' ''Verifying resolved Worker identity'' m (\<lambda>f1 m1.
     raises io f1 (case get_worker (fr_worker f1) (mg_supervisor m1) of (r, s) \<Rightarrow> (raised r, m1\<lparr>mg_supervisor := s\<rparr>)) (\<lambda>v m2.
     let f2 = f1\<lparr>fr_setup := set_key ''resolved_identity'' (identity_document f1 v) (fr_setup f1)\<rparr> in
     saves io f2 m2 (\<lambda>m3.
     moves io f2 ''qualifying'' ''Running the bounded capability qualification'' m3 (run_qualifies io))))"

definition run_starts :: "setup_io \<Rightarrow> run_frame \<Rightarrow> management \<Rightarrow> run_point \<times> management" where
  "run_starts io f m = moves io f ''starting-worker'' ''Starting the isolated Worker'' m (\<lambda>f1 m1. (Starting f1, m1))"

definition run_prepared :: "setup_io \<Rightarrow> run_frame \<Rightarrow> management \<Rightarrow> run_point \<times> management" where
  "run_prepared io f m =
     (let f1 = f\<lparr>fr_worker := py_str (su_repr (io_su io)) (dget (fr_setup f) ''worker_id'')\<rparr> in
      if cancel_requested f1 then run_cancels io f1 ''Setup cancelled; the Worker was retained'' m else run_starts io f1 m)"

definition run_created :: "setup_io \<Rightarrow> run_frame \<Rightarrow> worker_response answer \<times> management \<Rightarrow> run_point \<times> management" where
  "run_created io f r = raises io f r (\<lambda>w m1.
     let f1 = f\<lparr>fr_setup := set_key ''worker_id'' (VStr (wd_id (wp_definition w))) (fr_setup f)\<rparr> in
     saves io f1 m1 (run_prepared io f1))"

text \<open>The creation suspends only when it has a release to verify.\<close>

definition run_creates :: "setup_io \<Rightarrow> run_frame \<Rightarrow> management \<Rightarrow> run_point \<times> management" where
  "run_creates io f m =
     raises io f (raised (rbind (io_create_fields io (VDict (fr_plan f))) validate_create), m) (\<lambda>r m1.
     raises io f (create_plan_of (io_su io) r m1, m1) (\<lambda>p m2.
       if cp_checkpoint_dir p = None then run_created io f (create_finishes (io_su io) r p None m2)
       else (Creating f r p, m2)))"

definition allow_plan :: "setup_io \<Rightarrow> run_frame \<Rightarrow> store \<Rightarrow> store" where
  "allow_plan io f s = set_model_capability_allowed (plan_text io f ''model_id'') (plan_text io f ''revision'')
     (plan_text io f ''capability_id'') True
     (set_model_cache_allowed (plan_text io f ''model_id'') (plan_text io f ''revision'') True s)"

definition run_applies :: "setup_io \<Rightarrow> run_frame \<Rightarrow> management \<Rightarrow> run_point \<times> management" where
  "run_applies io f m = moves io f ''applying-policy'' ''Allowing the exact Model capability'' m (\<lambda>f1 m1.
     let m2 = m1\<lparr>mg_store := allow_plan io f1 (mg_store m1)\<rparr> in
     if py_truthy (dget (fr_setup f1) ''worker_id'') then run_prepared io f1 m2
     else moves io f1 ''creating-worker'' ''Creating the immutable Worker'' m2 (run_creates io))"

text \<open>With the lock: a setup that is not queued, or has gone, is left alone.\<close>

definition worker_plan :: "pydict \<Rightarrow> pydict" where
  "worker_plan setup = as_mapping (dget (as_mapping (dget setup ''plan'')) ''worker'')"

definition run_begins :: "setup_io \<Rightarrow> string \<Rightarrow> management \<Rightarrow> run_point \<times> management" where
  "run_begins io sid m = (case get_capability_setup sid (mg_store m) of
     Inl _ \<Rightarrow> (Finished, m)
   | Inr None \<Rightarrow> (Finished, m)
   | Inr (Some v) \<Rightarrow> (let setup = as_mapping v;
         f = \<lparr>fr_id = sid, fr_setup = setup, fr_plan = worker_plan setup, fr_worker = []\<rparr> in
       if \<not> schedulable setup then (Finished, m)
       else if cancel_requested f then run_cancels io f ''Setup cancelled; the Worker was retained'' m
       else run_applies io f m))"

text \<open>What resumes a suspended task.\<close>

datatype wake =
    Stop_Returned "py_error option"
  | Release_Verified "string option"
  | Start_Returned lifecycle_end
  | Slept
  | Probe_Answered probe_context string worker_client machine_probe thermal_state

definition start_returned :: "setup_io \<Rightarrow> run_frame \<Rightarrow> lifecycle_end \<Rightarrow> management \<Rightarrow> run_point \<times> management" where
  "start_returned io f e m = (case e of
     Lifecycle_Done \<Rightarrow> run_verifies io f m
   | Lifecycle_Thermal _ \<Rightarrow> moves io f ''waiting-for-thermal-capacity''
       ''Paused until fresh thermal telemetry permits model loading'' m (\<lambda>f1 m1. (Cooling_Start f1, m1))
   | Lifecycle_Raises p \<Rightarrow> run_fails io f (Raised p) m)"

definition slept ::
  "setup_io \<Rightarrow> run_frame \<Rightarrow> string \<Rightarrow> management \<Rightarrow> (run_frame \<Rightarrow> management \<Rightarrow> run_point \<times> management) \<Rightarrow> run_point \<times> management" where
  "slept io f message m next = raises io f (raised (reread_setup (fr_id f) (fr_setup f) m), m) (\<lambda>d m1.
     let f1 = f\<lparr>fr_setup := d\<rparr> in if cancel_requested f1 then run_cancels io f1 message m1 else next f1 m1)"

definition probe_answered ::
  "setup_io \<Rightarrow> run_frame \<Rightarrow> qualify_plan \<Rightarrow> probe_context \<Rightarrow> string \<Rightarrow> worker_client \<Rightarrow> machine_probe \<Rightarrow> thermal_state \<Rightarrow>
   management \<Rightarrow> run_point \<times> management" where
  "probe_answered io f q px api_key c mc thermal_end m =
     (let cap = plan_text io f ''capability_id'' in
      raises io f (run_probe (io_su io) px api_key c cap q (mg_store m), m) (\<lambda>probed m1.
      raises io f (qualification_finishes (io_su io) mc thermal_end cap q probed m1) (\<lambda>(ok, test) m2.
        run_qualified io f ok test m2)))"

fun run_wakes :: "setup_io \<Rightarrow> wake \<Rightarrow> run_point \<Rightarrow> management \<Rightarrow> (run_point \<times> management) option" where
  "run_wakes io (Stop_Returned None) (Stopping f message) m = Some (run_cancelled io f message m)"
| "run_wakes io (Stop_Returned (Some e)) (Stopping f message) m = Some (run_fails io f (Raised e) m)"
| "run_wakes io (Release_Verified v) (Creating f r p) m = Some (run_created io f (create_finishes (io_su io) r p v m))"
| "run_wakes io (Start_Returned e) (Starting f) m = Some (start_returned io f e m)"
| "run_wakes io Slept (Cooling_Start f) m = Some (slept io f ''Setup cancelled while waiting to cool'' m (run_starts io))"
| "run_wakes io (Probe_Answered px key c mc t) (Qualifying f q) m = Some (probe_answered io f q px key c mc t m)"
| "run_wakes io Slept (Cooling_Qualification f) m =
     Some (slept io f ''Setup cancelled while qualification was thermally paused'' m
       (\<lambda>f1 m1. moves io f1 ''qualifying'' ''Retrying the bounded capability qualification'' m1 (run_qualifies io)))"
| "run_wakes io w p m = None"

section \<open>The publication\<close>

datatype route_action = Add | Replace_Primary

record publication_request =
  pn_profile_name :: "string option"
  pn_display_name :: string
  pn_public_name :: string
  pn_tool_calling_enabled :: bool
  pn_route_action :: route_action

record publication_plan =
  pb_profile_id :: string
  pb_base_updated_at :: "string option"
  pb_target :: routing_profile
  pb_validation :: routing_validation
  pb_fingerprint :: string

text \<open>The profile that guided setup keeps, or a clean one over an unpublished draft.\<close>

definition publication_base ::
  "setup_io \<Rightarrow> pydict \<Rightarrow> publication_request \<Rightarrow> store \<Rightarrow> (string \<times> pydict \<times> string option) res" where
  "publication_base io setup q s =
     (let guided = get_configuration_value ''guided_profile_id'' s in
      rbind (case guided of Some g \<Rightarrow> if g = [] then Inr None else get_routing_profile g s | None \<Rightarrow> Inr None) (\<lambda>existing.
      case existing of
        Some r \<Rightarrow> Inr (case guided of Some g \<Rightarrow> g | None \<Rightarrow> [],
          (case pn_profile_name q of None \<Rightarrow> as_mapping (pr_definition r)
           | Some n \<Rightarrow> set_key ''name'' (VStr n) (as_mapping (pr_definition r))), Some (pr_updated_at r))
      | None \<Rightarrow> (let g = io_uuid5 io (setup_id io setup) ''guided-profile'' in
          rbind (get_routing_profile g s) (\<lambda>draft.
          Inr (g, [(''id'', VStr g),
            (''name'', VStr (case pn_profile_name q of Some (c # n) \<Rightarrow> c # n | _ \<Rightarrow> ''Local capabilities'')),
            (''description'', VStr ''Capabilities configured through guided setup.''),
            (''qualification'', VStr ''tested-working''), (''capabilities'', VList [])], map_option pr_updated_at draft)))))"

definition setup_public_name :: "setup_io \<Rightarrow> pydict \<Rightarrow> string" where
  "setup_public_name io item = casefold (py_str (su_repr (io_su io)) (dget_or item ''public_name'' (VStr [])))"

definition replaced_binding :: "publication_request \<Rightarrow> string \<Rightarrow> pydict \<Rightarrow> pydict" where
  "replaced_binding q wid current =
     merged current [(''display_name'', VStr (pn_display_name q)), (''tool_calling_enabled'', VBool (pn_tool_calling_enabled q)),
       (''worker_ids'', VList (VStr wid # drop 1 (items (dget current ''worker_ids''))))]"

definition added_binding :: "setup_io \<Rightarrow> pydict \<Rightarrow> publication_request \<Rightarrow> string \<Rightarrow> string \<Rightarrow> pydict" where
  "added_binding io setup q contract wid =
     [(''id'', VStr (io_uuid5 io (setup_id io setup) ''published-capability'')), (''display_name'', VStr (pn_display_name q)),
      (''public_name'', VStr (pn_public_name q)), (''protocol_contract'', VStr contract),
      (''tool_calling_enabled'', VBool (pn_tool_calling_enabled q)), (''worker_ids'', VList [VStr wid])]"

fun replace_match :: "('a \<Rightarrow> bool) \<Rightarrow> 'a \<Rightarrow> 'a list \<Rightarrow> 'a list" where
  "replace_match P y [] = []"
| "replace_match P y (x # xs) = (if P x then y # xs else x # replace_match P y xs)"

definition proposed_bindings ::
  "setup_io \<Rightarrow> pydict \<Rightarrow> publication_request \<Rightarrow> string \<Rightarrow> string \<Rightarrow> pydict list \<Rightarrow> pydict list answer" where
  "proposed_bindings io setup q contract wid bindings =
     (let taken = (\<lambda>item. setup_public_name io item = casefold (pn_public_name q)) in
      case List.find taken bindings of
        None \<Rightarrow> if pn_route_action q \<noteq> Add then refused 409 ''Use the add action for a new API Model ID''
          else Inr (bindings @ [added_binding io setup q contract wid])
      | Some current \<Rightarrow>
          if pn_route_action q \<noteq> Replace_Primary
          then refused 409 ''Explicitly choose replace-primary for this existing API Model ID''
          else if \<not> eq_str (dget current ''protocol_contract'') contract
          then refused 409 ''The existing API Model ID uses a different protocol''
          else Inr (replace_match taken (replaced_binding q wid current) bindings))"

definition qualified_worker :: "setup_io \<Rightarrow> pydict \<Rightarrow> store \<Rightarrow> worker_definition res" where
  "qualified_worker io setup s =
     rbind (get_worker_definition (py_str (su_repr (io_su io)) (dget setup ''worker_id'')) s) (\<lambda>x. case x of
       None \<Rightarrow> Inl (TypeError ''NoneType'') | Some (v, _) \<Rightarrow> worker_model_validate (io_su io) v)"

definition publication_preview ::
  "setup_io \<Rightarrow> pydict \<Rightarrow> publication_request \<Rightarrow> management \<Rightarrow> publication_plan answer" where
  "publication_preview io setup q m =
     (if setup_state setup \<noteq> ''awaiting-publication'' then refused 409 ''Complete qualification before preparing publication''
      else rbind (raised (publication_base io setup q (mg_store m))) (\<lambda>(pid, base, updated).
      rbind (raised (qualified_worker io setup (mg_store m))) (\<lambda>w.
      rbind (catalogue_contract (py_str (su_repr (io_su io)) (dget (worker_plan setup) ''capability_id''))) (\<lambda>k.
      case k of
        None \<Rightarrow> refused 409 ''This capability has no publishable protocol contract''
      | Some contract \<Rightarrow>
        rbind (proposed_bindings io setup q contract (wd_id w) (map as_mapping (items (dget base ''capabilities'')))) (\<lambda>bindings.
        rbind (raised (profile_model_validate (io_su io) (VDict (set_key ''capabilities'' (VList (map VDict bindings)) base)))) (\<lambda>target.
        rbind (raised (validate_profile_definition (io_su io) target m)) (\<lambda>v.
        Inr \<lparr>pb_profile_id = pid, pb_base_updated_at = updated, pb_target = target, pb_validation = v,
             pb_fingerprint = io_fingerprint io
               [(''profile_id'', VStr pid), (''base_updated_at'', opt_str updated), (''before'', VDict base),
                (''after'', VDict (routing_dump target)), (''validation'', VDict (validation_dict v))]\<rparr>)))))))"

definition setup_or_404 :: "string \<Rightarrow> management \<Rightarrow> pydict answer" where
  "setup_or_404 sid m = rbind (raised (get_capability_setup sid (mg_store m))) (\<lambda>x. case x of
     None \<Rightarrow> refused 404 ''Unknown capability setup'' | Some v \<Rightarrow> Inr (as_mapping v))"

definition preview_capability_publication ::
  "setup_io \<Rightarrow> string \<Rightarrow> publication_request \<Rightarrow> management \<Rightarrow> publication_plan answer" where
  "preview_capability_publication io sid q m = rbind (setup_or_404 sid m) (\<lambda>d. publication_preview io d q m)"

text \<open>What a publication keeps while the gateway answers.\<close>

record publication =
  pc_setup :: pydict
  pc_target :: routing_profile
  pc_binding :: string
  pc_previous :: "pydict list"
  pc_definitions :: "(string \<times> worker_definition) list"
  pc_found :: "pydict \<times> pydict"

text \<open>Every check before the first change.\<close>

definition publication_checks ::
  "setup_io \<Rightarrow> string \<Rightarrow> publication_request \<Rightarrow> string \<Rightarrow> management \<Rightarrow> (pydict \<times> publication_plan \<times> pydict list) answer" where
  "publication_checks io sid q fp m =
     rbind (require_mutable (io_su io)) (\<lambda>_.
     rbind (setup_or_404 sid m) (\<lambda>setup.
     rbind (publication_preview io setup q m) (\<lambda>p.
     if pb_fingerprint p \<noteq> fp then refused 409 ''The publication preview is stale; review routing changes again''
     else if \<not> rv_valid (pb_validation p) then invalid_profile (pb_validation p)
     else rbind (raised (get_routing_profile (pb_profile_id p) (mg_store m))) (\<lambda>current.
       if map_option pr_updated_at current \<noteq> pb_base_updated_at p
       then refused 409 ''The Routing Profile changed; review publication again''
       else rbind (raised (active_routing_snapshots (mg_store m))) (\<lambda>previous. Inr (setup, p, previous))))))"

text \<open>The draft and its revision; a draft that is stored stays when the activation conflicts.\<close>

definition publish_target :: "setup_io \<Rightarrow> routing_profile \<Rightarrow> management \<Rightarrow> int res \<times> management" where
  "publish_target io target m = (let su = io_su io in
     case save_routing_profile_draft (su_repr su) (su_now su) (routing_dump target) (mg_store m) of
       (Inl e, st) \<Rightarrow> (Inl e, m\<lparr>mg_store := st\<rparr>)
     | (Inr _, st) \<Rightarrow> (case publish_routing_profile (su_repr su) (su_now su) (routing_dump target) (routing_snapshot target 0) st of
         (r, st1) \<Rightarrow> (rbind r (\<lambda>x. case x of None \<Rightarrow> Inl (TypeError ''NoneType'') | Some y \<Rightarrow> Inr (rv_revision y)),
                      m\<lparr>mg_store := st1\<rparr>)))"

definition routing_conflict :: "setup_io \<Rightarrow> pydict \<Rightarrow> string \<Rightarrow> management \<Rightarrow> 'a answer \<times> management" where
  "routing_conflict io setup t m =
     (case transition_setup io (set_key ''error'' (error_document ''routing_conflict'' t ''routing-profile'' (VStr ''publishing'') True) setup)
         ''awaiting-publication'' ''Routing conflict prevented publication; review routing changes again'' m of
        (Inl e, m1) \<Rightarrow> (Inl (Raised e), m1) | (Inr _, m1) \<Rightarrow> (refused 409 t, m1))"

fun restore_all :: "setup_io \<Rightarrow> pydict list \<Rightarrow> store \<Rightarrow> unit res \<times> store" where
  "restore_all io [] s = (Inr (), s)"
| "restore_all io (x # xs) s = (let su = io_su io; pid = py_str (su_repr su) (dget x ''profile_id'') in
     case rbind (py_int_of (dget x ''revision'')) (\<lambda>r. rbind (get_routing_profile_revision pid r s) (\<lambda>old.
            case old of None \<Rightarrow> Inr None
            | Some v \<Rightarrow> rbind (profile_model_validate su (rv_definition v)) (\<lambda>d. Inr (Some (d, r))))) of
       Inl e \<Rightarrow> (Inl e, s)
     | Inr None \<Rightarrow> restore_all io xs s
     | Inr (Some (d, r)) \<Rightarrow>
         (case activate_routing_profile_revision (su_repr su) (su_now su) (rpf_id d) r (routing_snapshot d r) s of
            (Inl e, s1) \<Rightarrow> (Inl e, s1) | (Inr _, s1) \<Rightarrow> restore_all io xs s1))"

text \<open>After the smoke test of the published route. A failure that is not an \<open>HTTPException\<close> leaves the handler.\<close>

definition publication_ends ::
  "setup_io \<Rightarrow> pydict \<Rightarrow> string \<Rightarrow> pydict list \<Rightarrow> (bool \<times> pydict) answer \<Rightarrow> management \<Rightarrow> pydict answer \<times> management" where
  "publication_ends io setup target previous smoke m = (case smoke of
     Inr _ \<Rightarrow> (case transition_setup io setup ''succeeded'' ''Capability is published and serving locally'' m of
       (r, m1) \<Rightarrow> (raised r, m1))
   | Inl (Raised e) \<Rightarrow> (Inl (Raised e), m)
   | Inl (HTTPException code d) \<Rightarrow>
     (case restore_all io previous (snd (deactivate_routing_profile target (mg_store m))) of
        (Inl e, st) \<Rightarrow> (Inl (Raised e), m\<lparr>mg_store := st\<rparr>)
      | (Inr _, st) \<Rightarrow>
        (case transition_setup io (set_key ''error'' (error_document ''route_verification_failed'' (py_str (su_repr (io_su io)) d) ''gateway''
                (VStr ''verifying-route'') True) setup)
              ''failed'' ''Route verification failed; prior routing restored'' (m\<lparr>mg_store := st\<rparr>) of
           (r, m1) \<Rightarrow> (raised r, m1))))"

text \<open>Up to the exchange with the gateway. A live entry that is missing fails at once.\<close>

definition publication_verifies ::
  "setup_io \<Rightarrow> pydict \<Rightarrow> publication_request \<Rightarrow> routing_profile \<Rightarrow> pydict list \<Rightarrow> management \<Rightarrow>
   (pydict answer + publication) \<times> management" where
  "publication_verifies io setup q target previous m =
     (case transition_setup io setup ''verifying-route'' ''Exercising the published local route'' m of
        (Inl e, m1) \<Rightarrow> (Inl (Inl (Raised e)), m1)
      | (Inr d, m1) \<Rightarrow> (case List.find (\<lambda>b. cb_public_name b = pn_public_name q) (rpf_capabilities target) of
          None \<Rightarrow> (Inl (Inl (Raised (RuntimeError ''coroutine raised StopIteration''))), m1)
        | Some b \<Rightarrow> (case live_entry (rpf_id target) (cb_id b) (mg_store m1) of
            Inl e \<Rightarrow> (case publication_ends io d (rpf_id target) previous (Inl e) m1 of (r, m2) \<Rightarrow> (Inl r, m2))
          | Inr found \<Rightarrow> (Inr \<lparr>pc_setup = d, pc_target = target, pc_binding = cb_id b, pc_previous = previous,
              pc_definitions = mg_definitions m1, pc_found = found\<rparr>, m1))))"

definition publication_begins ::
  "setup_io \<Rightarrow> string \<Rightarrow> publication_request \<Rightarrow> string \<Rightarrow> management \<Rightarrow> (pydict answer + publication) \<times> management" where
  "publication_begins io sid q fp m = (case publication_checks io sid q fp m of
     Inl e \<Rightarrow> (Inl (Inl e), m)
   | Inr (setup, p, previous) \<Rightarrow>
     (case transition_setup io (set_key ''error'' VNone setup) ''publishing'' ''Publishing the reviewed Routing Profile'' m of
        (Inl e, m1) \<Rightarrow> (Inl (Inl (Raised e)), m1)
      | (Inr d, m1) \<Rightarrow>
        (case profile_model_validate (io_su io) (VDict (routing_dump (pb_target p))) of
           Inl e \<Rightarrow> (Inl (Inl (Raised e)), m1)
         | Inr target \<Rightarrow>
           (case publish_target io target m1 of
              (Inl (ValueError t), m2) \<Rightarrow> (case routing_conflict io d t m2 of (r, m3) \<Rightarrow> (Inl r, m3))
            | (Inl e, m2) \<Rightarrow> (Inl (Inl (Raised e)), m2)
            | (Inr revision, m2) \<Rightarrow>
              publication_verifies io
                (set_key ''publication'' (VDict [(''profile_id'', VStr (rpf_id target)), (''revision'', VInt revision),
                   (''public_name'', VStr (pn_public_name q))]) d)
                q target previous
                (m2\<lparr>mg_store := set_configuration_value ''guided_profile_id'' (rpf_id target) (mg_store m2)\<rparr>)))))"

definition publication_answered ::
  "setup_io \<Rightarrow> probe_context \<Rightarrow> gateway \<Rightarrow> publication \<Rightarrow> management \<Rightarrow> pydict answer \<times> management" where
  "publication_answered io px post p m =
     (case smoke_entry (io_su io) px post (rpf_id (pc_target p)) (pc_binding p) (pc_definitions p) (pc_found p) m of
        (r, m1) \<Rightarrow> publication_ends io (pc_setup p) (rpf_id (pc_target p)) (pc_previous p) r m1)"

section \<open>The handlers and the tasks together\<close>

text \<open>The lock admits one task at a time. \<open>sw_cancels\<close> and \<open>sw_publications\<close> are the handlers that wait.\<close>

record setup_world =
  sw_management :: management
  sw_tasks :: "(string \<times> run_point) list"
  sw_holder :: "string option"
  sw_cancels :: "pydict list"
  sw_publications :: "publication list"

definition task_done :: "run_point option \<Rightarrow> bool" where
  "task_done p = (case p of None \<Rightarrow> True | Some Finished \<Rightarrow> True | _ \<Rightarrow> False)"

definition schedule_setup :: "string \<Rightarrow> setup_world \<Rightarrow> setup_world" where
  "schedule_setup sid w = (if task_done (map_of (sw_tasks w) sid)
     then w\<lparr>sw_tasks := AList.update sid Waiting (sw_tasks w)\<rparr> else w)"

definition schedule_if_queued :: "setup_io \<Rightarrow> pydict \<Rightarrow> setup_world \<Rightarrow> setup_world" where
  "schedule_if_queued io d w = (if schedulable d then schedule_setup (setup_id io d) w else w)"

definition list_setups :: "setup_io \<Rightarrow> setup_world \<Rightarrow> pydict list answer \<times> setup_world" where
  "list_setups io w = (case list_capability_setups (mg_store (sw_management w)) of
     Inl e \<Rightarrow> (Inl (Raised e), w)
   | Inr vs \<Rightarrow> (let ds = map as_mapping vs in (Inr ds, fold (schedule_if_queued io) ds w)))"

definition get_setup :: "string \<Rightarrow> setup_world \<Rightarrow> pydict answer \<times> setup_world" where
  "get_setup sid w = (case setup_or_404 sid (sw_management w) of
     Inl e \<Rightarrow> (Inl e, w)
   | Inr d \<Rightarrow> (Inr d, if schedulable d then schedule_setup sid w else w))"

definition new_setup :: "setup_io \<Rightarrow> string \<Rightarrow> string \<Rightarrow> setup_selection \<Rightarrow> pydict \<Rightarrow> management \<Rightarrow> pydict" where
  "new_setup io request fp s plan m = (let now = VStr (su_now (io_su io)) in
     [(''id'', VStr (su_uuid (io_su io))), (''request_id'', VStr request),
      (''request_fingerprint'', VStr (io_fingerprint io [(''selection'', VDict (selection_dump s)), (''preview'', VStr fp)])),
      (''preview_fingerprint'', VStr fp), (''plan'', VDict plan),
      (''previous_policy'', VDict
        [(''model_allowed'', VBool (model_cache_allowed (sl_model_id s) (sl_revision s) (mg_store m))),
         (''capability_allowed'', VBool (model_capability_allowed (sl_model_id s) (sl_revision s) (sl_capability_id s) (mg_store m)))]),
      (''state'', VStr ''queued''), (''current_step'', VStr ''queued''), (''cancel_requested'', VBool False),
      (''created_at'', now), (''updated_at'', now), (''error'', VNone)])"

definition create_setup ::
  "setup_io \<Rightarrow> string \<Rightarrow> string \<Rightarrow> setup_selection \<Rightarrow> setup_world \<Rightarrow> pydict answer \<times> setup_world" where
  "create_setup io request fp s w = (let m = sw_management w in
     case rbind (preview_capability_setup io s m) (\<lambda>(plan, actual).
       if actual \<noteq> fp then refused 409 ''The setup preview is stale; review the resolved configuration again'' else Inr plan) of
       Inl e \<Rightarrow> (Inl e, w)
     | Inr plan \<Rightarrow>
       (case create_capability_setup (su_repr (io_su io)) (su_now (io_su io)) (new_setup io request fp s plan m) (mg_store m) of
          (r, st) \<Rightarrow> (let w1 = w\<lparr>sw_management := m\<lparr>mg_store := st\<rparr>\<rparr> in
            case catches_value_error 409 r of
              Inl e \<Rightarrow> (Inl e, w1)
            | Inr v \<Rightarrow> (Inr (as_mapping v), schedule_if_queued io (as_mapping v) w1))))"

text \<open>A setup that is at rest is cancelled by the handler itself, once its worker has stopped; a running one is
  only asked to.\<close>

definition cancel_ends :: "setup_io \<Rightarrow> pydict \<Rightarrow> setup_world \<Rightarrow> pydict answer \<times> setup_world" where
  "cancel_ends io d w =
     (case transition_setup io d ''cancelled'' ''Setup cancelled; the Worker was retained'' (sw_management w) of
        (r, m) \<Rightarrow> (raised r, w\<lparr>sw_management := m\<rparr>))"

definition request_cancel :: "setup_io \<Rightarrow> string \<Rightarrow> setup_world \<Rightarrow> pydict answer option \<times> setup_world" where
  "request_cancel io sid w = (let m = sw_management w in
     case rbind (require_mutable (io_su io)) (\<lambda>_. setup_or_404 sid m) of
       Inl e \<Rightarrow> (Some (Inl e), w)
     | Inr d \<Rightarrow>
       if setup_state d \<in> {''publishing'', ''verifying-route'', ''succeeded''}
       then (Some (refused 409 ''Publishing has started and can no longer be cancelled''), w)
       else if setup_state d \<in> {''cancelled'', ''failed'', ''awaiting-publication''}
       then (case worker_to_stop d m of
           (Inl e, m1) \<Rightarrow> (Some (Inl e), w\<lparr>sw_management := m1\<rparr>)
         | (Inr (Some _), m1) \<Rightarrow> (None, w\<lparr>sw_management := m1, sw_cancels := sw_cancels w @ [d]\<rparr>)
         | (Inr None, m1) \<Rightarrow> (case cancel_ends io d (w\<lparr>sw_management := m1\<rparr>) of (r, w1) \<Rightarrow> (Some r, w1)))
       else (case save_setup io (set_key ''cancel_requested'' (VBool True) d) m of
           (r, m1) \<Rightarrow> (Some (raised r), w\<lparr>sw_management := m1\<rparr>)))"

definition drop_nth :: "nat \<Rightarrow> 'a list \<Rightarrow> 'a list" where
  "drop_nth i xs = take i xs @ drop (Suc i) xs"

definition cancel_stopped :: "setup_io \<Rightarrow> nat \<Rightarrow> py_error option \<Rightarrow> setup_world \<Rightarrow> pydict answer \<times> setup_world" where
  "cancel_stopped io i e w = (let d = sw_cancels w ! i; w1 = w\<lparr>sw_cancels := drop_nth i (sw_cancels w)\<rparr> in
     case e of Some p \<Rightarrow> (Inl (Raised p), w1) | None \<Rightarrow> cancel_ends io d w1)"

definition queued_again :: "pydict \<Rightarrow> pydict" where
  "queued_again d = set_key ''error'' VNone (set_key ''cancel_requested'' (VBool False)
     (set_key ''current_step'' (VStr ''queued'') (set_key ''state'' (VStr ''queued'') d)))"

definition retry_checks :: "setup_io \<Rightarrow> string \<Rightarrow> management \<Rightarrow> pydict answer" where
  "retry_checks io sid m =
     rbind (require_mutable (io_su io)) (\<lambda>_.
     rbind (setup_or_404 sid m) (\<lambda>d.
     if setup_state d \<notin> {''failed'', ''cancelled''} then refused 409 ''Only a failed or cancelled setup can be retried''
     else rbind (raised (rbind (io_selection_fields io (dget (as_mapping (dget d ''plan'')) ''selection'')) validate_selection)) (\<lambda>s.
     rbind (setup_preview io s m) (\<lambda>(plan, fp).
     if \<not> eq_str (dget d ''preview_fingerprint'') fp
     then refused 409 ''The exact configuration changed; create and review a new setup'' else Inr d))))"

definition retry_setup :: "setup_io \<Rightarrow> string \<Rightarrow> setup_world \<Rightarrow> pydict answer \<times> setup_world" where
  "retry_setup io sid w = (case retry_checks io sid (sw_management w) of
     Inl e \<Rightarrow> (Inl e, w)
   | Inr d \<Rightarrow> (case save_setup io (queued_again d) (sw_management w) of
       (Inl e, m) \<Rightarrow> (Inl (Raised e), w\<lparr>sw_management := m\<rparr>)
     | (Inr d1, m) \<Rightarrow> (Inr d1, schedule_setup sid (w\<lparr>sw_management := m\<rparr>))))"

definition publish_setup ::
  "setup_io \<Rightarrow> string \<Rightarrow> publication_request \<Rightarrow> string \<Rightarrow> setup_world \<Rightarrow> pydict answer option \<times> setup_world" where
  "publish_setup io sid q fp w = (case publication_begins io sid q fp (sw_management w) of
     (Inl r, m) \<Rightarrow> (Some r, w\<lparr>sw_management := m\<rparr>)
   | (Inr p, m) \<Rightarrow> (None, w\<lparr>sw_management := m, sw_publications := sw_publications w @ [p]\<rparr>))"

definition gateway_answers ::
  "setup_io \<Rightarrow> nat \<Rightarrow> probe_context \<Rightarrow> gateway \<Rightarrow> setup_world \<Rightarrow> pydict answer \<times> setup_world" where
  "gateway_answers io i px post w =
     (case publication_answered io px post (sw_publications w ! i) (sw_management w) of
        (r, m) \<Rightarrow> (r, w\<lparr>sw_management := m, sw_publications := drop_nth i (sw_publications w)\<rparr>))"

definition task_moves :: "string \<Rightarrow> run_point \<times> management \<Rightarrow> setup_world \<Rightarrow> setup_world" where
  "task_moves sid r w = (case r of (p, m) \<Rightarrow>
     w\<lparr>sw_management := m, sw_tasks := AList.update sid p (sw_tasks w), sw_holder := (if task_done (Some p) then None else Some sid)\<rparr>)"

definition acquire :: "setup_io \<Rightarrow> string \<Rightarrow> setup_world \<Rightarrow> setup_world" where
  "acquire io sid w = (case (sw_holder w, map_of (sw_tasks w) sid) of
     (None, Some Waiting) \<Rightarrow> task_moves sid (run_begins io sid (sw_management w)) w
   | _ \<Rightarrow> w)"

definition resume :: "setup_io \<Rightarrow> string \<Rightarrow> wake \<Rightarrow> setup_world \<Rightarrow> setup_world" where
  "resume io sid k w = (if sw_holder w \<noteq> Some sid then w
     else (case map_of (sw_tasks w) sid of
       None \<Rightarrow> w
     | Some p \<Rightarrow> (case run_wakes io k p (sw_management w) of None \<Rightarrow> w | Some r \<Rightarrow> task_moves sid r w)))"

section \<open>After a restart\<close>

definition in_progress :: "string list" where
  "in_progress = [''queued'', ''applying-policy'', ''creating-worker'', ''starting-worker'', ''verifying-identity'',
     ''qualifying'', ''waiting-for-thermal-capacity'']"

definition reconcile_queued :: "setup_io \<Rightarrow> pydict \<Rightarrow> setup_world \<Rightarrow> unit res \<times> setup_world" where
  "reconcile_queued io d w =
     (let d1 = set_key ''current_step'' (VStr ''queued'') (set_key ''state'' (VStr ''queued'') d) in
      case save_setup io d1 (sw_management w) of
        (Inl e, m) \<Rightarrow> (Inl e, w\<lparr>sw_management := m\<rparr>)
      | (Inr _, m) \<Rightarrow> (case record_event io d1 ''queued'' ''Resuming after the management service restarted'' m of
          (Inl e, m1) \<Rightarrow> (Inl e, w\<lparr>sw_management := m1\<rparr>)
        | (Inr _, m1) \<Rightarrow> (Inr (), schedule_setup (setup_id io d1) (w\<lparr>sw_management := m1\<rparr>))))"

definition interrupted :: "setup_io \<Rightarrow> pydict \<Rightarrow> setup_world \<Rightarrow> unit res \<times> setup_world" where
  "interrupted io d w =
     (case transition_setup io (set_key ''error'' (error_document ''publication_interrupted''
             ''The service restarted during publication; inspect the retained revision before retrying''
             ''routing-profile'' (VStr (setup_state d)) False) d)
           ''failed'' ''Publication was interrupted; retained routing requires explicit review'' (sw_management w) of
        (r, m) \<Rightarrow> (rbind r (\<lambda>_. Inr ()), w\<lparr>sw_management := m\<rparr>))"

definition review_again :: "setup_io \<Rightarrow> pydict \<Rightarrow> setup_world \<Rightarrow> unit res \<times> setup_world" where
  "review_again io d w =
     (let d1 = set_key ''error'' (error_document ''publication_not_completed'' ''Publication did not complete; review routing changes again''
                 ''routing-profile'' (VStr (setup_state d)) True)
               (set_key ''current_step'' (VStr ''awaiting-publication'') (set_key ''state'' (VStr ''awaiting-publication'') d)) in
      case save_setup io d1 (sw_management w) of
        (Inl e, m) \<Rightarrow> (Inl e, w\<lparr>sw_management := m\<rparr>)
      | (Inr _, m) \<Rightarrow> (case record_event io d1 ''awaiting-publication'' ''Incomplete publication recovered for a fresh review'' m of
          (r, m1) \<Rightarrow> (rbind r (\<lambda>_. Inr ()), w\<lparr>sw_management := m1\<rparr>)))"

definition reconcile_publishing :: "setup_io \<Rightarrow> pydict \<Rightarrow> setup_world \<Rightarrow> unit res \<times> setup_world" where
  "reconcile_publishing io d w =
     (let s = mg_store (sw_management w);
          guided = (case get_configuration_value ''guided_profile_id'' s of
            Some (c # g) \<Rightarrow> c # g | _ \<Rightarrow> io_uuid5 io (setup_id io d) ''guided-profile'') in
      case get_routing_profile guided s of
        Inl e \<Rightarrow> (Inl e, w)
      | Inr r \<Rightarrow> if (case r of None \<Rightarrow> True | Some x \<Rightarrow> pr_latest_revision x = None) then review_again io d w else interrupted io d w)"

definition reconcile_one :: "setup_io \<Rightarrow> pydict \<Rightarrow> setup_world \<Rightarrow> unit res \<times> setup_world" where
  "reconcile_one io d w =
     (if setup_state d \<in> set in_progress then reconcile_queued io d w
      else if setup_state d = ''publishing'' then reconcile_publishing io d w
      else if setup_state d = ''verifying-route'' then interrupted io d w
      else (Inr (), w))"

fun reconcile_all :: "setup_io \<Rightarrow> pydict list \<Rightarrow> setup_world \<Rightarrow> unit res \<times> setup_world" where
  "reconcile_all io [] w = (Inr (), w)"
| "reconcile_all io (d # ds) w = (case reconcile_one io d w of
     (Inl e, w1) \<Rightarrow> (Inl e, w1) | (Inr _, w1) \<Rightarrow> reconcile_all io ds w1)"

definition reconcile_setups :: "setup_io \<Rightarrow> setup_world \<Rightarrow> unit res \<times> setup_world" where
  "reconcile_setups io w = (case list_capability_setups (mg_store (sw_management w)) of
     Inl e \<Rightarrow> (Inl e, w) | Inr vs \<Rightarrow> reconcile_all io (map as_mapping vs) w)"

text \<open>Shutting down cancels the tasks, which record nothing, and the waiting handlers end with the process.\<close>

definition shutdown_setups :: "setup_world \<Rightarrow> setup_world" where
  "shutdown_setups w = w\<lparr>sw_tasks := map (\<lambda>(i, _). (i, Finished)) (sw_tasks w), sw_holder := None,
     sw_cancels := [], sw_publications := []\<rparr>"

section \<open>Runs\<close>

text \<open>Every other handler leaves the setups alone and keeps the recorded tests.\<close>

definition leaves_setups :: "store \<Rightarrow> store \<Rightarrow> bool" where
  "leaves_setups s s' = (st_setups s' = st_setups s \<and> st_setup_events s' = st_setup_events s \<and> prefix (st_tests s) (st_tests s'))"

datatype setup_op =
    Others management
  | Submits_Setup string string setup_selection
  | Gets_Setup string
  | Lists_Setups
  | Requests_Cancel string
  | Cancel_Stopped nat "py_error option"
  | Retries_Setup string
  | Publishes_Setup string publication_request string
  | Gateway_Answers nat probe_context gateway
  | Acquires string
  | Resumes string wake
  | Restarts

definition setup_step :: "setup_io \<times> setup_op \<Rightarrow> setup_world \<Rightarrow> setup_world" where
  "setup_step x w = (case x of (io, op) \<Rightarrow> (case op of
     Others m \<Rightarrow> if leaves_setups (mg_store (sw_management w)) (mg_store m) then w\<lparr>sw_management := m\<rparr> else w
   | Submits_Setup request fp s \<Rightarrow> snd (create_setup io request fp s w)
   | Gets_Setup sid \<Rightarrow> snd (get_setup sid w)
   | Lists_Setups \<Rightarrow> snd (list_setups io w)
   | Requests_Cancel sid \<Rightarrow> snd (request_cancel io sid w)
   | Cancel_Stopped i e \<Rightarrow> if i < length (sw_cancels w) then snd (cancel_stopped io i e w) else w
   | Retries_Setup sid \<Rightarrow> snd (retry_setup io sid w)
   | Publishes_Setup sid q fp \<Rightarrow> snd (publish_setup io sid q fp w)
   | Gateway_Answers i px post \<Rightarrow> if i < length (sw_publications w) then snd (gateway_answers io i px post w) else w
   | Acquires sid \<Rightarrow> acquire io sid w
   | Resumes sid k \<Rightarrow> resume io sid k w
   | Restarts \<Rightarrow> snd (reconcile_setups io (shutdown_setups w))))"

definition run_setups :: "(setup_io \<times> setup_op) list \<Rightarrow> setup_world \<Rightarrow> setup_world" where
  "run_setups ops w = fold setup_step ops w"

definition no_setups :: "management \<Rightarrow> setup_world" where
  "no_setups m = \<lparr>sw_management = m, sw_tasks = [], sw_holder = None, sw_cancels = [], sw_publications = []\<rparr>"

end
