(* ===== verification/Setups_Invariant.thy ===== *)
theory Setups_Invariant
  imports Setups Qualification_Properties
begin

text \<open>
  What guided setups keep, whatever handlers run between their steps: every copy that a suspended task
  or handler holds is of a stored setup with the same plan, a document that claims a success has its
  evidence, and only the holder of the lock is under way. Each operation is shown to let the store grow
  only in this way.
\<close>

section \<open>Documents and their copies\<close>

lemma set_key_get [simp]: "dget (set_key k v d) k' = (if k' = k then v else dget d k')"
  by (simp add: set_key_def dget_def update_conv)

lemma setup_state_set [simp]:
  "setup_state (set_key k v d) = (if k = ''state'' then (case v of VStr t \<Rightarrow> t | _ \<Rightarrow> []) else setup_state d)"
  by (simp add: setup_state_def)

lemma worker_plan_set [simp]: "k \<noteq> ''plan'' \<Longrightarrow> worker_plan (set_key k v d) = worker_plan d"
  by (simp add: worker_plan_def)

definition PUBLISHABLE :: "string set" where
  "PUBLISHABLE = {''awaiting-publication'', ''publishing'', ''verifying-route'', ''succeeded''}"

text \<open>A recorded successful test of the planned capability.\<close>

definition evidenced :: "(pyval \<Rightarrow> string) \<Rightarrow> store \<Rightarrow> pydict \<Rightarrow> bool" where
  "evidenced rp s d \<longleftrightarrow> (\<exists>t ev. t \<in> set (st_tests s) \<and> dget d ''evidence_id'' = VInt (int (te_id t)) \<and> te_result t = ''tested-working''
     \<and> te_evidence t = encoded ev \<and> dget ev ''capability_id'' = VStr (py_str rp (dget (worker_plan d) ''capability_id'')))"

definition evidence_ok :: "(pyval \<Rightarrow> string) \<Rightarrow> store \<Rightarrow> pydict \<Rightarrow> bool" where
  "evidence_ok rp s d \<longleftrightarrow> (setup_state d \<in> PUBLISHABLE \<longrightarrow> evidenced rp s d)"

definition docs_ok :: "(pyval \<Rightarrow> string) \<Rightarrow> store \<Rightarrow> bool" where
  "docs_ok rp s \<longleftrightarrow> distinct (map fst (st_setups s)) \<and> (\<forall>sid e. map_of (st_setups s) sid = Some e \<longrightarrow>
     (\<exists>d. se_document e = encoded d \<and> dget d ''id'' = VStr sid \<and> evidence_ok rp s d))"

lemma docs_okD: "docs_ok rp s \<Longrightarrow> map_of (st_setups s) sid = Some e \<Longrightarrow>
  \<exists>d. se_document e = encoded d \<and> dget d ''id'' = VStr sid \<and> evidence_ok rp s d"
  unfolding docs_ok_def by blast

text \<open>A copy may be stale, but it is of a stored setup with the same plan.\<close>

definition copy_of :: "store \<Rightarrow> string \<Rightarrow> pydict \<Rightarrow> bool" where
  "copy_of s sid d \<longleftrightarrow> dget d ''id'' = VStr sid \<and>
     (\<exists>e d'. map_of (st_setups s) sid = Some e \<and> se_document e = encoded d' \<and> worker_plan d' = worker_plan d)"

definition grows :: "(pyval \<Rightarrow> string) \<Rightarrow> store \<Rightarrow> store \<Rightarrow> bool" where
  "grows rp s s' \<longleftrightarrow> docs_ok rp s' \<and> (\<forall>sid d. copy_of s sid d \<longrightarrow> copy_of s' sid d) \<and> set (st_tests s) \<subseteq> set (st_tests s')"

definition recorded :: "store \<Rightarrow> string \<Rightarrow> string \<Rightarrow> bool" where
  "recorded s sid state \<longleftrightarrow> (\<exists>e d. map_of (st_setups s) sid = Some e \<and> se_document e = encoded d \<and> setup_state d = state)"

lemma growsD:
  assumes "grows rp s s'"
  shows "docs_ok rp s'" "copy_of s sid d \<Longrightarrow> copy_of s' sid d" "evidenced rp s d \<Longrightarrow> evidenced rp s' d"
    "evidence_ok rp s d \<Longrightarrow> evidence_ok rp s' d"
  using assms unfolding grows_def evidenced_def evidence_ok_def by blast+

lemma grows_refl: "docs_ok rp s \<Longrightarrow> grows rp s s" by (simp add: grows_def)

lemma grows_trans: "grows rp s s' \<Longrightarrow> grows rp s' s'' \<Longrightarrow> grows rp s s''" by (auto simp: grows_def)

lemma grows_leaves: "docs_ok rp s \<Longrightarrow> st_setups s' = st_setups s \<Longrightarrow> set (st_tests s) \<subseteq> set (st_tests s') \<Longrightarrow> grows rp s s'"
  unfolding grows_def docs_ok_def copy_of_def evidence_ok_def evidenced_def by (auto simp del: encoded_def) blast

lemma stored_copy:
  assumes "docs_ok rp s" "map_of (st_setups s) sid = Some e" "se_document e = encoded d"
  shows "copy_of s sid d" "evidence_ok rp s d"
  using docs_okD [OF assms(1,2)] assms by (auto simp: copy_of_def encoded_def)

text \<open>Saving a copy whose claims are backed by evidence.\<close>

lemma save_setup_ok:
  assumes d: "docs_ok rp (mg_store m)" and c: "copy_of (mg_store m) sid d" and e: "evidence_ok rp (mg_store m) d"
  obtains m' where "save_setup io d m = (Inr d, m')" "grows rp (mg_store m) (mg_store m')" "recorded (mg_store m') sid (setup_state d)"
    "copy_of (mg_store m') sid d"
proof -
  let ?s = "mg_store m"
  obtain x d' where x: "map_of (st_setups ?s) sid = Some x" "se_document x = encoded d'" "worker_plan d' = worker_plan d"
    and i: "dget d ''id'' = VStr sid" using c by (auto simp: copy_of_def)
  let ?x = "x\<lparr>se_document := encoded d, se_updated_at := su_now (io_su io)\<rparr>"
  let ?s' = "?s\<lparr>st_setups := AList.update sid ?x (st_setups ?s)\<rparr>"
  have s: "save_setup io d m = (Inr d, m\<lparr>mg_store := ?s'\<rparr>)"
    using x i by (auto simp: save_setup_def save_capability_setup_def py_index_def py_str_def dget_def split: option.splits)
  have ev: "evidence_ok rp ?s' y = evidence_ok rp ?s y" for y by (simp add: evidence_ok_def evidenced_def)
  have look: "map_of (st_setups ?s') k = (if k = sid then Some ?x else map_of (st_setups ?s) k)" for k
    by (simp add: update_conv)
  have docs: "docs_ok rp ?s'" using d i e unfolding docs_ok_def ev look by (auto simp: distinct_update)
  have copies: "copy_of ?s k y \<Longrightarrow> copy_of ?s' k y" for k y
    using x unfolding copy_of_def look by (auto simp: encoded_def)
  have g: "grows rp ?s ?s'" unfolding grows_def using docs copies by simp
  have r: "recorded ?s' sid (setup_state d)" unfolding recorded_def look by auto
  show thesis using that [of "m\<lparr>mg_store := ?s'\<rparr>"] s g r copies [OF c] by simp
qed

lemma record_event_ok:
  assumes "docs_ok rp (mg_store m)" "copy_of (mg_store m) sid d" "dget d ''id'' = VStr sid"
  obtains n m' where "record_event io d st msg m = (Inr n, m')" "grows rp (mg_store m) (mg_store m')"
    "st_setups (mg_store m') = st_setups (mg_store m)"
proof -
  have "dhas (st_setups (mg_store m)) (setup_id io d)" using assms(2,3) by (auto simp: copy_of_def dhas_def setup_id_def py_str_def)
  then show thesis using that grows_leaves [OF assms(1)]
    by (auto simp: record_event_def record_capability_setup_event_def attempt_def Let_def)
qed

lemma entering_simps [simp]: "dget (entering io st d) ''id'' = dget d ''id''" "setup_state (entering io st d) = st"
  "worker_plan (entering io st d) = worker_plan d" "dget (entering io st d) ''evidence_id'' = dget d ''evidence_id''"
  by (simp_all add: entering_def)

lemma copy_of_cong: "copy_of s sid d \<Longrightarrow> dget d' ''id'' = dget d ''id'' \<Longrightarrow> worker_plan d' = worker_plan d \<Longrightarrow> copy_of s sid d'"
  by (simp add: copy_of_def)

lemma transition_ok:
  assumes d: "docs_ok rp (mg_store m)" and c: "copy_of (mg_store m) sid d" and e: "evidence_ok rp (mg_store m) (entering io st d)"
  obtains m' where "transition_setup io d st msg m = (Inr (entering io st d), m')" "grows rp (mg_store m) (mg_store m')"
    "copy_of (mg_store m') sid (entering io st d)" "recorded (mg_store m') sid st"
proof -
  let ?d = "entering io st d"
  have c1: "copy_of (mg_store m) sid ?d" using c by (rule copy_of_cong) simp_all
  obtain m1 where m1: "save_setup io ?d m = (Inr ?d, m1)" "grows rp (mg_store m) (mg_store m1)" "recorded (mg_store m1) sid st"
    "copy_of (mg_store m1) sid ?d"
    using save_setup_ok [OF d c1 e, of io] by auto
  have i: "dget ?d ''id'' = VStr sid" using c1 by (simp add: copy_of_def)
  obtain n m2 where m2: "record_event io ?d st msg m1 = (Inr n, m2)" "grows rp (mg_store m1) (mg_store m2)"
    "st_setups (mg_store m2) = st_setups (mg_store m1)"
    by (rule record_event_ok [OF growsD(1) [OF m1(2)] m1(4) i])
  show thesis
  proof (rule that [of m2])
    show "transition_setup io d st msg m = (Inr ?d, m2)" using m1(1) m2(1) by (simp add: transition_setup_def)
    show "grows rp (mg_store m) (mg_store m2)" using m1(2) m2(2) by (rule grows_trans)
    show "copy_of (mg_store m2) sid ?d" using growsD(2) [OF m2(2) m1(4)] .
    show "recorded (mg_store m2) sid st" using m1(3) m2(3) by (simp add: recorded_def)
  qed
qed

section \<open>What the other components leave alone\<close>

definition spares :: "store \<Rightarrow> store \<Rightarrow> bool" where
  "spares s s' \<longleftrightarrow> st_setups s' = st_setups s \<and> set (st_tests s) \<subseteq> set (st_tests s')"

lemma spares_refl [simp]: "spares s s" by (simp add: spares_def)

lemma spares_grows: "docs_ok rp s \<Longrightarrow> spares s s' \<Longrightarrow> grows rp s s'"
  by (auto simp: spares_def intro: grows_leaves)

lemma save_worker_spares: "spares s (snd (save_worker_definition rp now d s))"
  by (auto simp: save_worker_definition_def after_commit_def attempt_def reading_def put_worker_def spares_def rbind_def Let_def
      split: sum.splits prod.splits if_splits)

lemma respond_spares: "mg_store (snd (respond su v row m)) = mg_store m"
  by (auto simp: respond_def split: sum.splits prod.splits)

lemma respond_stored_spares: "mg_store (snd (respond_stored su wid m)) = mg_store m"
  by (auto simp: respond_stored_def respond_spares split: sum.splits prod.splits option.splits)
    (metis respond_spares snd_conv)+

lemma install_spares: "spares (mg_store m) (mg_store (snd (install_definition su w m)))"
proof -
  obtain r st where r: "save_worker_definition (su_repr su) (su_now su) (worker_dump w) (mg_store m) = (r, st)" by fastforce
  have "spares (mg_store m) st" using save_worker_spares [of "mg_store m" "su_repr su" "su_now su" "worker_dump w"] r by simp
  then show ?thesis
    by (auto simp: install_definition_def r respond_stored_spares delete_worker_definition_def spares_def Let_def
        split: sum.splits prod.splits py_error.splits)
qed

lemma create_finishes_spares: "spares (mg_store m) (mg_store (snd (create_finishes su r p v m)))"
  by (auto simp: create_finishes_def install_spares split: option.splits sum.splits)

lemma qualification_begins_spares: "mg_store (snd (qualification_begins su tv wid cap m)) = mg_store m"
  by (auto simp: qualification_begins_def Let_def split: sum.splits prod.splits option.splits)

section \<open>The background task\<close>

definition frame_ok :: "(pyval \<Rightarrow> string) \<Rightarrow> store \<Rightarrow> string \<Rightarrow> run_frame \<Rightarrow> bool" where
  "frame_ok rp s sid f \<longleftrightarrow> fr_id f = sid \<and> copy_of s sid (fr_setup f) \<and> evidence_ok rp s (fr_setup f)
     \<and> fr_plan f = worker_plan (fr_setup f)"

fun point_frame :: "run_point \<Rightarrow> run_frame option" where
  "point_frame Waiting = None"
| "point_frame (Stopping f _) = Some f"
| "point_frame (Creating f _ _) = Some f"
| "point_frame (Starting f) = Some f"
| "point_frame (Cooling_Start f) = Some f"
| "point_frame (Qualifying f _) = Some f"
| "point_frame (Cooling_Qualification f) = Some f"
| "point_frame Finished = None"

definition ENDED :: "string set" where
  "ENDED = {''cancelled'', ''failed'', ''awaiting-publication''}"

text \<open>A task that stops has recorded its end; one that suspends keeps a proper copy.\<close>

definition settled :: "(pyval \<Rightarrow> string) \<Rightarrow> store \<Rightarrow> string \<Rightarrow> run_point \<Rightarrow> bool" where
  "settled rp s sid p \<longleftrightarrow> (case point_frame p of Some f \<Rightarrow> frame_ok rp s sid f
     | None \<Rightarrow> p = Finished \<and> (\<exists>st\<in>ENDED. recorded s sid st))
     \<and> (\<forall>f q. p = Qualifying f q \<longrightarrow> setup_state (fr_setup f) \<notin> PUBLISHABLE)"

definition outcome_ok :: "(pyval \<Rightarrow> string) \<Rightarrow> store \<Rightarrow> string \<Rightarrow> run_point \<times> management \<Rightarrow> bool" where
  "outcome_ok rp s sid r \<longleftrightarrow> grows rp s (mg_store (snd r)) \<and> settled rp (mg_store (snd r)) sid (fst r)"

lemma outcome_grows: "grows rp s s' \<Longrightarrow> outcome_ok rp s' sid r \<Longrightarrow> outcome_ok rp s sid r"
  by (auto simp: outcome_ok_def intro: grows_trans)

lemma frame_grows: "frame_ok rp s sid f \<Longrightarrow> grows rp s s' \<Longrightarrow> frame_ok rp s' sid f"
  by (auto simp: frame_ok_def dest: growsD)

lemma suspends: "docs_ok rp (mg_store m) \<Longrightarrow> frame_ok rp (mg_store m) sid f \<Longrightarrow> point_frame p = Some f \<Longrightarrow>
  (\<And>q. p = Qualifying f q \<Longrightarrow> setup_state (fr_setup f) \<notin> PUBLISHABLE) \<Longrightarrow> outcome_ok rp (mg_store m) sid (p, m)"
  by (auto simp: outcome_ok_def settled_def grows_refl)

lemma ending: "docs_ok rp (mg_store m) \<Longrightarrow> recorded (mg_store m) sid st \<Longrightarrow> st \<in> ENDED \<Longrightarrow> outcome_ok rp (mg_store m) sid (Finished, m)"
  by (auto simp: outcome_ok_def settled_def grows_refl)

lemma reread_ok:
  assumes d: "docs_ok rp (mg_store m)" and c: "copy_of (mg_store m) sid d0"
  obtains d where "reread_setup sid d1 m = Inr d" "copy_of (mg_store m) sid d" "evidence_ok rp (mg_store m) d"
    "worker_plan d = worker_plan d0"
proof -
  obtain e d where e: "map_of (st_setups (mg_store m)) sid = Some e" "se_document e = encoded d" "worker_plan d = worker_plan d0"
    using c by (auto simp: copy_of_def)
  have i: "dget d ''id'' = VStr sid" using docs_okD [OF d e(1)] e(2) by (auto simp: encoded_def)
  then have "d \<noteq> []" by (auto simp: dget_def)
  then have "reread_setup sid d1 m = Inr d" using e
    by (cases d) (auto simp: reread_setup_def get_capability_setup_def encoded_def decode_json_def as_mapping_def)
  then show thesis using that stored_copy [OF d e(1,2)] e(3) by blast
qed

lemma frame_copy: "frame_ok rp s sid f \<Longrightarrow> copy_of s sid (fr_setup f)" by (simp add: frame_ok_def)

lemma frame_with:
  "frame_ok rp s sid f \<Longrightarrow> copy_of s sid d \<Longrightarrow> evidence_ok rp s d \<Longrightarrow> worker_plan d = worker_plan (fr_setup f) \<Longrightarrow>
   frame_ok rp s sid (f\<lparr>fr_setup := d\<rparr>)"
  by (simp add: frame_ok_def)

lemma run_fails_ok:
  assumes d: "docs_ok rp (mg_store m)" and f: "frame_ok rp (mg_store m) sid f"
  shows "outcome_ok rp (mg_store m) sid (run_fails io f e m)"
proof -
  obtain x where x: "reread_setup sid (fr_setup f) m = Inr x" "copy_of (mg_store m) sid x"
    using reread_ok [OF d frame_copy [OF f]] by metis
  let ?x = "set_key ''error'' (error_document ''setup_failed'' (api_message (su_repr (io_su io)) e) ''capability-setup''
      (dget x ''current_step'') False) x"
  have c: "copy_of (mg_store m) sid ?x" using x(2) by (rule copy_of_cong) simp_all
  have e1: "evidence_ok rp (mg_store m) (entering io ''failed'' ?x)" by (simp add: evidence_ok_def PUBLISHABLE_def)
  obtain m1 where m1: "transition_setup io ?x ''failed'' ''Setup stopped with a recorded failure'' m = (Inr (entering io ''failed'' ?x), m1)"
    "grows rp (mg_store m) (mg_store m1)" "recorded (mg_store m1) sid ''failed''"
    by (rule transition_ok [OF d c e1])
  have "run_fails io f e m = (Finished, m1)" using x(1) m1(1) f by (simp add: run_fails_def frame_ok_def)
  then show ?thesis using outcome_grows [OF m1(2) ending [OF growsD(1) [OF m1(2)] m1(3)]] by (simp add: ENDED_def)
qed

lemma moving_ok:
  assumes d: "docs_ok rp (mg_store m)" and f: "frame_ok rp (mg_store m) sid f"
    and e: "evidence_ok rp (mg_store m) (entering io st (fr_setup f))"
    and step: "\<And>f1 m1. docs_ok rp (mg_store m1) \<Longrightarrow> frame_ok rp (mg_store m1) sid f1 \<Longrightarrow> recorded (mg_store m1) sid st \<Longrightarrow>
      f1 = f\<lparr>fr_setup := entering io st (fr_setup f)\<rparr> \<Longrightarrow> grows rp (mg_store m) (mg_store m1) \<Longrightarrow> outcome_ok rp (mg_store m1) sid (k f1 m1)"
  shows "outcome_ok rp (mg_store m) sid (moves io f st msg m k)"
proof -
  obtain m1 where m1: "transition_setup io (fr_setup f) st msg m = (Inr (entering io st (fr_setup f)), m1)"
    "grows rp (mg_store m) (mg_store m1)" "copy_of (mg_store m1) sid (entering io st (fr_setup f))" "recorded (mg_store m1) sid st"
    by (rule transition_ok [OF d frame_copy [OF f] e])
  let ?f = "f\<lparr>fr_setup := entering io st (fr_setup f)\<rparr>"
  have "frame_ok rp (mg_store m1) sid ?f"
    using frame_with [OF frame_grows [OF f m1(2)] m1(3)] growsD(4) [OF m1(2) e] by simp
  then have "outcome_ok rp (mg_store m1) sid (k ?f m1)" using growsD(1) [OF m1(2)] m1(2,4) step by blast
  then show ?thesis using m1(1,2) by (simp add: moves_def outcome_grows)
qed

lemma not_publishable: "st \<notin> PUBLISHABLE \<Longrightarrow> evidence_ok rp s (entering io st d)" by (simp add: evidence_ok_def)

lemma saves_ok:
  assumes d: "docs_ok rp (mg_store m)" and f: "frame_ok rp (mg_store m) sid f"
    and step: "\<And>m1. docs_ok rp (mg_store m1) \<Longrightarrow> frame_ok rp (mg_store m1) sid f \<Longrightarrow> grows rp (mg_store m) (mg_store m1) \<Longrightarrow>
      outcome_ok rp (mg_store m1) sid (k m1)"
  shows "outcome_ok rp (mg_store m) sid (saves io f m k)"
proof -
  have e: "evidence_ok rp (mg_store m) (fr_setup f)" using f by (simp add: frame_ok_def)
  obtain m1 where m1: "save_setup io (fr_setup f) m = (Inr (fr_setup f), m1)" "grows rp (mg_store m) (mg_store m1)"
    by (rule save_setup_ok [OF d frame_copy [OF f] e])
  then have "outcome_ok rp (mg_store m1) sid (k m1)" using step growsD(1) [OF m1(2)] frame_grows [OF f m1(2)] by blast
  then show ?thesis using m1 by (simp add: saves_def outcome_grows)
qed

lemma raises_ok:
  assumes d: "docs_ok rp (mg_store m)" and f: "frame_ok rp (mg_store m) sid f" and s: "spares (mg_store m) (mg_store (snd r))"
    and step: "\<And>x m1. r = (Inr x, m1) \<Longrightarrow> docs_ok rp (mg_store m1) \<Longrightarrow> frame_ok rp (mg_store m1) sid f \<Longrightarrow>
      outcome_ok rp (mg_store m1) sid (k x m1)"
  shows "outcome_ok rp (mg_store m) sid (raises io f r k)"
proof -
  obtain a m1 where r: "r = (a, m1)" by fastforce
  have g: "grows rp (mg_store m) (mg_store m1)" using spares_grows [OF d s] r by simp
  note ok = growsD(1) [OF g] frame_grows [OF f g]
  show ?thesis
  proof (cases a)
    case (Inl e)
    then show ?thesis using outcome_grows [OF g run_fails_ok [OF ok]] r by (simp add: raises_def)
  next
    case (Inr x)
    then show ?thesis using outcome_grows [OF g step] ok r by (simp add: raises_def)
  qed
qed

lemma run_cancelled_ok:
  "docs_ok rp (mg_store m) \<Longrightarrow> frame_ok rp (mg_store m) sid f \<Longrightarrow> outcome_ok rp (mg_store m) sid (run_cancelled io f msg m)"
  unfolding run_cancelled_def
  by (rule moving_ok) (auto intro!: not_publishable ending simp: PUBLISHABLE_def ENDED_def)

lemma worker_to_stop_spares: "mg_store (snd (worker_to_stop d m)) = mg_store m"
  by (auto simp: worker_to_stop_def split: pyval.splits prod.splits)

lemma run_cancels_ok:
  "docs_ok rp (mg_store m) \<Longrightarrow> frame_ok rp (mg_store m) sid f \<Longrightarrow> outcome_ok rp (mg_store m) sid (run_cancels io f msg m)"
  unfolding run_cancels_def
  by (rule raises_ok) (auto intro!: suspends simp: worker_to_stop_spares run_cancelled_ok split: option.split)

lemma frame_set:
  "frame_ok rp s sid f \<Longrightarrow> k \<notin> {''id'', ''state'', ''plan'', ''evidence_id''} \<Longrightarrow> frame_ok rp s sid (f\<lparr>fr_setup := set_key k v (fr_setup f)\<rparr>)"
  by (auto simp: frame_ok_def copy_of_def evidence_ok_def evidenced_def)

text \<open>A test that was recorded for this plan.\<close>

definition test_of :: "(pyval \<Rightarrow> string) \<Rightarrow> store \<Rightarrow> run_frame \<Rightarrow> bool \<Rightarrow> nat \<Rightarrow> bool" where
  "test_of rp s f ok i \<longleftrightarrow> (ok \<longrightarrow> (\<exists>t ev. t \<in> set (st_tests s) \<and> te_id t = i \<and> te_result t = ''tested-working''
     \<and> te_evidence t = encoded ev \<and> dget ev ''capability_id'' = VStr (py_str rp (dget (fr_plan f) ''capability_id''))))"

lemma run_qualified_ok:
  assumes d: "docs_ok rp (mg_store m)" and f: "frame_ok rp (mg_store m) sid f" and t: "test_of rp (mg_store m) f ok (fst test)"
    and q: "setup_state (fr_setup f) \<notin> PUBLISHABLE"
  shows "outcome_ok rp (mg_store m) sid (run_qualified io f ok test m)"
proof -
  let ?d = "set_key ''qualification'' (VDict (qualification_document test)) (set_key ''evidence_id'' (VInt (int (fst test))) (fr_setup f))"
  let ?f = "f\<lparr>fr_setup := ?d\<rparr>"
  have f1: "frame_ok rp (mg_store m) sid ?f"
    using f q by (simp add: frame_ok_def copy_of_def evidence_ok_def)
  have e: "evidence_ok rp (mg_store m1) (entering io ''awaiting-publication'' ?d)" if "ok" "grows rp (mg_store m) (mg_store m1)" for m1
    using that t f unfolding test_of_def evidence_ok_def evidenced_def grows_def frame_ok_def by auto
  show ?thesis unfolding run_qualified_def Let_def
  proof (rule saves_ok [OF d f1])
    fix m1 :: management assume 1: "docs_ok rp (mg_store m1)" "frame_ok rp (mg_store m1) sid ?f" "grows rp (mg_store m) (mg_store m1)"
    show "outcome_ok rp (mg_store m1) sid (if \<not> ok
        then run_fails io ?f (Raised (RuntimeError ''Capability qualification failed; the negative evidence was preserved'')) m1
        else moves io ?f ''awaiting-publication'' ''Qualification passed; review evidence before publishing'' m1 (\<lambda>_ m2. (Finished, m2)))"
    proof (cases ok)
      case True
      have "outcome_ok rp (mg_store m1) sid (moves io ?f ''awaiting-publication'' msg m1 (\<lambda>_ m2. (Finished, m2)))" for msg
        by (rule moving_ok [OF 1(1,2)]) (use e [OF True 1(3)] in \<open>auto intro!: ending simp: ENDED_def\<close>)
      then show ?thesis using True by simp
    next
      case False
      then show ?thesis using run_fails_ok [OF 1(1,2)] by simp
    qed
  qed
qed

lemma run_qualifies_ok:
  assumes d: "docs_ok rp (mg_store m)" and f: "frame_ok rp (mg_store m) sid f" and n: "setup_state (fr_setup f) \<notin> PUBLISHABLE"
  shows "outcome_ok rp (mg_store m) sid (run_qualifies io f m)"
proof -
  obtain r m1 where r: "qualification_begins (io_su io) (io_thermal io) (fr_worker f) (plan_text io f ''capability_id'') m = (r, m1)" by fastforce
  have s: "mg_store m1 = mg_store m" using qualification_begins_spares [of "io_su io"] r by (metis snd_conv)
  have cool: "outcome_ok rp (mg_store m1) sid (moves io f ''waiting-for-thermal-capacity'' msg m1 (\<lambda>f1 m2. (Cooling_Qualification f1, m2)))" for msg
    by (rule moving_ok) (use d f s in \<open>auto intro!: not_publishable suspends simp: PUBLISHABLE_def\<close>)
  show ?thesis using run_fails_ok [of rp m1 sid f] cool suspends [of rp m1 sid f] d f n
    by (auto simp: run_qualifies_def r s split: sum.split qualify_error.split)
qed

lemma run_verifies_ok:
  assumes d: "docs_ok rp (mg_store m)" and f: "frame_ok rp (mg_store m) sid f"
  shows "outcome_ok rp (mg_store m) sid (run_verifies io f m)"
  unfolding run_verifies_def Let_def
proof (rule moving_ok [OF d f])
  fix f1 and m1 :: management assume 1: "docs_ok rp (mg_store m1)" "frame_ok rp (mg_store m1) sid f1"
  show "outcome_ok rp (mg_store m1) sid (raises io f1 (case get_worker (fr_worker f1) (mg_supervisor m1) of (r, s) \<Rightarrow> (raised r, m1\<lparr>mg_supervisor := s\<rparr>))
      (\<lambda>v m2. saves io (f1\<lparr>fr_setup := set_key ''resolved_identity'' (identity_document f1 v) (fr_setup f1)\<rparr>) m2
        (\<lambda>m3. moves io (f1\<lparr>fr_setup := set_key ''resolved_identity'' (identity_document f1 v) (fr_setup f1)\<rparr>) ''qualifying''
           ''Running the bounded capability qualification'' m3 (run_qualifies io))))"
    by (rule raises_ok [OF 1]) (auto intro!: saves_ok moving_ok not_publishable run_qualifies_ok frame_set
        simp: PUBLISHABLE_def split: prod.split)
qed (simp add: not_publishable PUBLISHABLE_def)

lemma run_starts_ok:
  "docs_ok rp (mg_store m) \<Longrightarrow> frame_ok rp (mg_store m) sid f \<Longrightarrow> outcome_ok rp (mg_store m) sid (run_starts io f m)"
  unfolding run_starts_def
  by (rule moving_ok) (auto intro!: not_publishable suspends simp: PUBLISHABLE_def)

lemma frame_worker [simp]: "frame_ok rp s sid (f\<lparr>fr_worker := x\<rparr>) = frame_ok rp s sid f" by (simp add: frame_ok_def)

lemma run_prepared_ok:
  "docs_ok rp (mg_store m) \<Longrightarrow> frame_ok rp (mg_store m) sid f \<Longrightarrow> outcome_ok rp (mg_store m) sid (run_prepared io f m)"
  by (simp add: run_prepared_def Let_def run_cancels_ok run_starts_ok)

lemma run_created_ok:
  assumes "docs_ok rp (mg_store m)" "frame_ok rp (mg_store m) sid f" "spares (mg_store m) (mg_store (snd r))"
  shows "outcome_ok rp (mg_store m) sid (run_created io f r)"
  unfolding run_created_def Let_def
  by (rule raises_ok [OF assms]) (auto intro!: saves_ok run_prepared_ok frame_set)

lemma run_creates_ok:
  assumes d: "docs_ok rp (mg_store m)" and f: "frame_ok rp (mg_store m) sid f"
  shows "outcome_ok rp (mg_store m) sid (run_creates io f m)"
  unfolding run_creates_def
proof (rule raises_ok [OF d f])
  fix r and m1 :: management assume 1: "docs_ok rp (mg_store m1)" "frame_ok rp (mg_store m1) sid f"
  show "outcome_ok rp (mg_store m1) sid (raises io f (create_plan_of (io_su io) r m1, m1) (\<lambda>p m2.
      if cp_checkpoint_dir p = None then run_created io f (create_finishes (io_su io) r p None m2) else (Creating f r p, m2)))"
    by (rule raises_ok [OF 1]) (auto intro!: run_created_ok suspends create_finishes_spares)
qed simp

lemma run_applies_ok:
  assumes d: "docs_ok rp (mg_store m)" and f: "frame_ok rp (mg_store m) sid f"
  shows "outcome_ok rp (mg_store m) sid (run_applies io f m)"
  unfolding run_applies_def Let_def
proof (rule moving_ok [OF d f])
  fix f1 and m1 :: management assume 1: "docs_ok rp (mg_store m1)" "frame_ok rp (mg_store m1) sid f1"
  let ?m = "m1\<lparr>mg_store := allow_plan io f1 (mg_store m1)\<rparr>"
  have g: "grows rp (mg_store m1) (mg_store ?m)"
    by (rule spares_grows [OF 1(1)]) (simp add: spares_def allow_plan_def set_model_capability_allowed_def set_model_cache_allowed_def)
  note ok = growsD(1) [OF g] frame_grows [OF 1(2) g]
  have "outcome_ok rp (mg_store ?m) sid (moves io f1 ''creating-worker'' msg ?m (run_creates io))" for msg
    by (rule moving_ok [OF ok]) (auto intro!: not_publishable run_creates_ok simp: PUBLISHABLE_def)
  then show "outcome_ok rp (mg_store m1) sid (if py_truthy (dget (fr_setup f1) ''worker_id'') then run_prepared io f1 ?m
      else moves io f1 ''creating-worker'' ''Creating the immutable Worker'' ?m (run_creates io))"
    using outcome_grows [OF g] run_prepared_ok [OF ok] by simp
qed (simp add: not_publishable PUBLISHABLE_def)

lemma record_test_spares:
  assumes "record_test dg now ev result failure s = (x, s')"
  shows "spares s s'"
proof -
  obtain i fp doc where "x = (i, fp, doc)" by (cases x)
  then show ?thesis using record_parts(2) [of dg now ev result failure s i fp doc s'] assms by (auto simp: spares_def)
qed

lemma finishes_spares:
  assumes "qualification_finishes su mc te cap q probed m = (r, m2)"
  shows "spares (mg_store m) (mg_store m2)"
  using assms by (auto simp: qualification_finishes_def Let_def dest: record_test_spares split: sum.splits prod.splits)

lemma finishes_test_of:
  assumes fin: "qualification_finishes su mc te cap q probed m = (Inr (ok, test), m2)"
    and cap: "cap = py_str rp (dget (fr_plan f) ''capability_id'')"
  shows "test_of rp (mg_store m2) f ok (fst test)"
proof -
  obtain i fp doc where t: "test = (i, fp, doc)" by (cases test)
  obtain outcome health model metrics overrides where o: "ok = (qo_result outcome = ''tested-working'')"
    "record_test (su_digest su) (su_now su) (qualification_evidence su mc cap q outcome (overrides_dict overrides) health model metrics)
       (qo_result outcome) (qo_failure_class outcome) (mg_store m) = ((i, fp, doc), mg_store m2)"
    using fin unfolding t by (rule finishes_Inr) auto
  have "dget doc ''capability_id'' = VStr cap"
    by (simp add: record_parts(1) [OF o(2)] recorded_document_def dget_merged_none evidence_keys)
  moreover have "\<exists>x\<in>set (st_tests (mg_store m2)). te_id x = i \<and> te_result x = qo_result outcome \<and> te_evidence x = encoded doc"
    unfolding record_parts(2) [OF o(2)] by simp
  ultimately show ?thesis using o(1) unfolding test_of_def t cap by auto
qed

lemma probe_answered_ok:
  assumes d: "docs_ok rp (mg_store m)" and f: "frame_ok rp (mg_store m) sid f" and n: "setup_state (fr_setup f) \<notin> PUBLISHABLE"
    and rp: "su_repr (io_su io) = rp"
  shows "outcome_ok rp (mg_store m) sid (probe_answered io f q px key c mc te m)"
  unfolding probe_answered_def Let_def
proof (rule raises_ok [OF d f])
  fix probed and m1 :: management assume 1: "docs_ok rp (mg_store m1)" "frame_ok rp (mg_store m1) sid f"
  show "outcome_ok rp (mg_store m1) sid (raises io f (qualification_finishes (io_su io) mc te (plan_text io f ''capability_id'') q probed m1)
      (\<lambda>(ok, test) m2. run_qualified io f ok test m2))"
  proof (rule raises_ok [OF 1])
    show "spares (mg_store m1) (mg_store (snd (qualification_finishes (io_su io) mc te (plan_text io f ''capability_id'') q probed m1)))"
      using finishes_spares by (metis surjective_pairing)
    fix x and m2 :: management
    assume x: "qualification_finishes (io_su io) mc te (plan_text io f ''capability_id'') q probed m1 = (Inr x, m2)"
      and 2: "docs_ok rp (mg_store m2)" "frame_ok rp (mg_store m2) sid f"
    obtain ok test where t: "x = (ok, test)" by (cases x) auto
    have "test_of rp (mg_store m2) f ok (fst test)"
      by (rule finishes_test_of [OF x [unfolded t]]) (simp add: plan_text_def rp)
    then show "outcome_ok rp (mg_store m2) sid ((case x of (ok, test) \<Rightarrow> \<lambda>m2. run_qualified io f ok test m2) m2)"
      using run_qualified_ok [OF 2 _ n] by (simp add: t)
  qed
qed simp

lemma slept_ok:
  assumes d: "docs_ok rp (mg_store m)" and f: "frame_ok rp (mg_store m) sid f"
    and step: "\<And>f1. frame_ok rp (mg_store m) sid f1 \<Longrightarrow> outcome_ok rp (mg_store m) sid (k f1 m)"
  shows "outcome_ok rp (mg_store m) sid (slept io f msg m k)"
proof -
  obtain x where x: "reread_setup sid (fr_setup f) m = Inr x" "copy_of (mg_store m) sid x" "evidence_ok rp (mg_store m) x"
    "worker_plan x = worker_plan (fr_setup f)"
    by (rule reread_ok [OF d frame_copy [OF f]])
  note f1 = frame_with [OF f x(2-4)]
  show ?thesis using x(1) f run_cancels_ok [OF d f1] step [OF f1]
    by (simp add: slept_def raises_def Let_def frame_ok_def)
qed

lemma start_returned_ok:
  assumes d: "docs_ok rp (mg_store m)" and f: "frame_ok rp (mg_store m) sid f"
  shows "outcome_ok rp (mg_store m) sid (start_returned io f e m)"
proof -
  have "outcome_ok rp (mg_store m) sid (moves io f ''waiting-for-thermal-capacity'' msg m (\<lambda>f1 m1. (Cooling_Start f1, m1)))" for msg
    by (rule moving_ok [OF d f]) (auto intro!: not_publishable suspends simp: PUBLISHABLE_def)
  then show ?thesis using run_verifies_ok [OF d f] run_fails_ok [OF d f] by (auto simp: start_returned_def split: lifecycle_end.split)
qed

text \<open>Whatever wakes a task: it suspends with a proper copy or has recorded its end.\<close>

lemma run_wakes_ok:
  assumes w: "run_wakes io k p m = Some r" and s: "settled rp (mg_store m) sid p" and d: "docs_ok rp (mg_store m)"
    and rp: "su_repr (io_su io) = rp"
  shows "outcome_ok rp (mg_store m) sid r"
proof -
  have f: "frame_ok rp (mg_store m) sid f" if "point_frame p = Some f" for f using s that by (simp add: settled_def)
  have retry: "outcome_ok rp (mg_store m) sid (moves io f1 ''qualifying'' msg m (run_qualifies io))"
    if "frame_ok rp (mg_store m) sid f1" for f1 msg
    by (rule moving_ok [OF d that]) (auto intro!: not_publishable run_qualifies_ok simp: PUBLISHABLE_def)
  show ?thesis
  proof (cases "(io, k, p, m)" rule: run_wakes.cases)
    case (6 io' px key c mc te f q m')
    then have "setup_state (fr_setup f) \<notin> PUBLISHABLE" using s by (simp add: settled_def)
    then show ?thesis using w 6 probe_answered_ok [OF d f _ rp] by auto
  qed (use w f in \<open>auto intro!: run_cancelled_ok run_fails_ok run_created_ok start_returned_ok slept_ok run_starts_ok
      create_finishes_spares retry d\<close>)
qed

lemma run_begins_ok:
  assumes d: "docs_ok rp (mg_store m)"
  shows "run_begins io sid m = (Finished, m) \<or> outcome_ok rp (mg_store m) sid (run_begins io sid m)"
proof (cases "map_of (st_setups (mg_store m)) sid")
  case None
  then show ?thesis by (simp add: run_begins_def get_capability_setup_def)
next
  case (Some e)
  then obtain x where x: "se_document e = encoded x" using docs_okD [OF d] by blast
  let ?f = "\<lparr>fr_id = sid, fr_setup = x, fr_plan = worker_plan x, fr_worker = []\<rparr>"
  have f: "frame_ok rp (mg_store m) sid ?f" using stored_copy [OF d Some x] by (simp add: frame_ok_def)
  have "get_capability_setup sid (mg_store m) = Inr (Some (VDict x))"
    using Some x by (simp add: get_capability_setup_def decode_json_def encoded_def)
  then show ?thesis using run_cancels_ok [OF d f] run_applies_ok [OF d f] by (simp add: run_begins_def Let_def as_mapping_def)
qed

section \<open>The publication\<close>

lemma draft_spares: "spares s (snd (save_routing_profile_draft rp now d s))"
  by (auto simp: save_routing_profile_draft_def after_commit_def attempt_def reading_def put_draft_def spares_def rbind_def Let_def
      split: sum.splits prod.splits if_splits)

lemma set_active_spares: "set_active_routing_profile rp now pid r d s = Inr s' \<Longrightarrow> spares s s'"
  by (auto simp: set_active_routing_profile_def spares_def Let_def rbind_eq_Inr split: if_splits)

lemma publish_spares: "spares s (snd (publish_routing_profile rp now d routing s))"
proof -
  have "spares s s'" if "put_publication rp now d routing s = Inr (x, s')" for x s'
    using that by (auto simp: put_publication_def rbind_eq_Inr Let_def dest!: set_active_spares split: if_splits) (auto simp: spares_def)
  then show ?thesis
    by (auto simp: publish_routing_profile_def after_commit_def attempt_def reading_def split: sum.splits prod.splits)
qed

lemma activate_spares: "spares s (snd (activate_routing_profile_revision rp now pid r d s))"
  by (auto simp: activate_routing_profile_revision_def attempt_def rbind_def dest: set_active_spares split: sum.splits option.splits)

lemma spares_trans: "spares s s' \<Longrightarrow> spares s' s'' \<Longrightarrow> spares s s''" by (auto simp: spares_def)

lemma restore_spares: "spares s (snd (restore_all io xs s))"
proof (induction xs arbitrary: s)
  case (Cons x xs)
  then show ?case
    by (auto simp: Let_def split: sum.split option.split prod.split)
      (metis activate_spares snd_conv, metis activate_spares snd_conv spares_trans)
qed simp

lemma publish_target_spares: "spares (mg_store m) (mg_store (snd (publish_target io target m)))"
proof -
  obtain r st where r: "save_routing_profile_draft (su_repr (io_su io)) (su_now (io_su io)) (routing_dump target) (mg_store m) = (r, st)" by fastforce
  have "spares (mg_store m) st" using draft_spares [of "mg_store m"] r by (metis snd_conv)
  moreover obtain q st1 where q: "publish_routing_profile (su_repr (io_su io)) (su_now (io_su io)) (routing_dump target) (routing_snapshot target 0) st = (q, st1)"
    by fastforce
  have "spares st st1" using publish_spares [of st] q by (metis snd_conv)
  ultimately show ?thesis by (auto simp: publish_target_def r q Let_def split: sum.split intro: spares_trans)
qed

text \<open>A copy that may claim anything: its evidence stands.\<close>

definition claim_sound :: "(pyval \<Rightarrow> string) \<Rightarrow> store \<Rightarrow> pydict \<Rightarrow> bool" where
  "claim_sound rp s d \<longleftrightarrow> (\<exists>sid. copy_of s sid d) \<and> evidenced rp s d"

lemma claim_grows: "claim_sound rp s d \<Longrightarrow> grows rp s s' \<Longrightarrow> claim_sound rp s' d"
  unfolding claim_sound_def by (blast dest: growsD)

lemma claim_set: "claim_sound rp s d \<Longrightarrow> k \<notin> {''id'', ''plan'', ''evidence_id''} \<Longrightarrow> claim_sound rp s (set_key k v d)"
  unfolding claim_sound_def evidenced_def copy_of_def by auto

lemma claim_transition:
  assumes d: "docs_ok rp (mg_store m)" and c: "claim_sound rp (mg_store m) d"
  obtains m' where "transition_setup io d st msg m = (Inr (entering io st d), m')" "grows rp (mg_store m) (mg_store m')"
    "claim_sound rp (mg_store m') (entering io st d)"
proof -
  obtain sid where sid: "copy_of (mg_store m) sid d" using c by (auto simp: claim_sound_def)
  have e: "evidenced rp (mg_store m) (entering io st d)" using c by (simp add: claim_sound_def evidenced_def)
  obtain m' where m': "transition_setup io d st msg m = (Inr (entering io st d), m')" "grows rp (mg_store m) (mg_store m')"
    "copy_of (mg_store m') sid (entering io st d)"
    by (rule transition_ok [OF d sid, of io st msg]) (use e in \<open>auto simp: evidence_ok_def\<close>)
  show thesis using that [OF m'(1,2)] m'(3) growsD(3) [OF m'(2) e] by (auto simp: claim_sound_def)
qed

lemma publication_ends_ok:
  assumes d: "docs_ok rp (mg_store m)" and c: "claim_sound rp (mg_store m) setup"
  shows "grows rp (mg_store m) (mg_store (snd (publication_ends io setup target previous smoke m)))"
proof -
  obtain r st where r: "restore_all io previous (snd (deactivate_routing_profile target (mg_store m))) = (r, st)" by fastforce
  have "spares (snd (deactivate_routing_profile target (mg_store m))) st"
    using restore_spares [of "snd (deactivate_routing_profile target (mg_store m))" io previous] r by simp
  then have g: "grows rp (mg_store m) (mg_store (m\<lparr>mg_store := st\<rparr>))"
    by (intro spares_grows [OF d]) (simp add: spares_def deactivate_routing_profile_def)
  have fails: "grows rp (mg_store m) (mg_store (snd (transition_setup io (set_key ''error'' v setup) ''failed'' msg (m\<lparr>mg_store := st\<rparr>))))" for v msg
    by (rule claim_transition [OF growsD(1) [OF g] claim_set [OF claim_grows [OF c g]], of "''error''" io v "''failed''" msg])
      (auto intro: grows_trans [OF g])
  show ?thesis
  proof (cases smoke)
    case (Inl e)
    then show ?thesis using fails g grows_refl [OF d]
      by (cases e) (auto simp: publication_ends_def r split: sum.split prod.split, metis snd_conv)
  next
    case (Inr x)
    then show ?thesis by (rule_tac claim_transition [OF d c, of io "''succeeded''" "''Capability is published and serving locally''"])
        (auto simp: publication_ends_def)
  qed
qed

text \<open>Where a publication waits for the gateway, its copy is backed by evidence.\<close>

definition pending_ok :: "(pyval \<Rightarrow> string) \<Rightarrow> store \<Rightarrow> (pydict answer + publication) \<times> management \<Rightarrow> bool" where
  "pending_ok rp s r \<longleftrightarrow> grows rp s (mg_store (snd r)) \<and>
     (case fst r of Inl _ \<Rightarrow> True | Inr p \<Rightarrow> claim_sound rp (mg_store (snd r)) (pc_setup p))"

lemma publication_verifies_ok:
  assumes d: "docs_ok rp (mg_store m)" and c: "claim_sound rp (mg_store m) setup"
  shows "pending_ok rp (mg_store m) (publication_verifies io setup q target previous m)"
proof -
  obtain m1 where m1: "transition_setup io setup ''verifying-route'' ''Exercising the published local route'' m
      = (Inr (entering io ''verifying-route'' setup), m1)" "grows rp (mg_store m) (mg_store m1)"
    "claim_sound rp (mg_store m1) (entering io ''verifying-route'' setup)"
    by (rule claim_transition [OF d c])
  have "grows rp (mg_store m) (mg_store (snd (publication_ends io (entering io ''verifying-route'' setup) pid previous (Inl e) m1)))" for pid e
    by (rule grows_trans [OF m1(2) publication_ends_ok [OF growsD(1) [OF m1(2)] m1(3)]])
  then show ?thesis using m1
    by (auto simp: publication_verifies_def pending_ok_def split: option.split sum.split prod.split) (metis snd_conv)
qed

lemma checked_claim:
  assumes "publication_checks io sid q fp m = Inr (setup, p, previous)" and d: "docs_ok rp (mg_store m)"
  shows "claim_sound rp (mg_store m) setup"
proof -
  have s: "setup_or_404 sid m = Inr setup" and p: "publication_preview io setup q m = Inr p"
    using assms(1) by (auto simp: publication_checks_def rbind_eq_Inr invalid_profile_def split: if_splits)
  have a: "setup_state setup = ''awaiting-publication''" using p by (auto simp: publication_preview_def split: if_splits)
  obtain e v where e: "map_of (st_setups (mg_store m)) sid = Some e" "decode_json (se_document e) = Inr v" "setup = as_mapping v"
    using s by (auto simp: setup_or_404_def get_capability_setup_def rbind_eq_Inr split: option.splits)
  obtain x where x: "se_document e = encoded x" using docs_okD [OF d e(1)] by blast
  then have "setup = x" using e by (auto simp: decode_json_def encoded_def as_mapping_def)
  then show ?thesis using stored_copy [OF d e(1) x] a by (auto simp: claim_sound_def evidence_ok_def PUBLISHABLE_def)
qed

lemma pending_grows: "grows rp s s' \<Longrightarrow> pending_ok rp s' r \<Longrightarrow> pending_ok rp s r"
  by (auto simp: pending_ok_def intro: grows_trans)

lemma pending_refl: "docs_ok rp (mg_store m) \<Longrightarrow> pending_ok rp (mg_store m) (Inl r, m)"
  by (simp add: pending_ok_def grows_refl)

lemma publication_begins_ok:
  assumes d: "docs_ok rp (mg_store m)"
  shows "pending_ok rp (mg_store m) (publication_begins io sid q fp m)"
proof (cases "publication_checks io sid q fp m")
  case (Inl e)
  then show ?thesis using pending_refl [OF d] by (simp add: publication_begins_def)
next
  case (Inr x)
  obtain d0 p previous where x: "x = (d0, p, previous)" by (cases x)
  let ?d = "entering io ''publishing'' (set_key ''error'' VNone d0)"
  obtain m1 where m1: "transition_setup io (set_key ''error'' VNone d0) ''publishing'' ''Publishing the reviewed Routing Profile'' m
      = (Inr ?d, m1)" "grows rp (mg_store m) (mg_store m1)" "claim_sound rp (mg_store m1) ?d"
    by (rule claim_transition [OF d claim_set [OF checked_claim [OF Inr [unfolded x] d]], of "''error''" io VNone]) auto
  note d1 = growsD(1) [OF m1(2)]
  show ?thesis
  proof (cases "profile_model_validate (io_su io) (VDict (routing_dump (pb_target p)))")
    case (Inl e)
    then show ?thesis using pending_grows [OF m1(2) pending_refl [OF d1]] Inr x m1(1) by (simp add: publication_begins_def)
  next
    case target: (Inr target)
    obtain r m2 where r: "publish_target io target m1 = (r, m2)" by fastforce
    have g2: "grows rp (mg_store m1) (mg_store m2)" using spares_grows [OF d1 publish_target_spares [of m1 io target]] r by simp
    note g = grows_trans [OF m1(2) g2] and d2 = growsD(1) [OF g2] and c2 = claim_grows [OF m1(3) g2]
    have conflict: "pending_ok rp (mg_store m2) (case routing_conflict io ?d t m2 of (a, m3) \<Rightarrow> (Inl a, m3))" for t
      by (rule claim_transition [OF d2 claim_set [OF c2], of "''error''" io
            "error_document ''routing_conflict'' t ''routing-profile'' (VStr ''publishing'') True" "''awaiting-publication''"
            "''Routing conflict prevented publication; review routing changes again''"])
        (auto simp: routing_conflict_def pending_ok_def)
    let ?m = "m2\<lparr>mg_store := set_configuration_value ''guided_profile_id'' (rpf_id target) (mg_store m2)\<rparr>"
    have g3: "grows rp (mg_store m2) (mg_store ?m)"
      by (rule spares_grows [OF d2]) (simp add: spares_def set_configuration_value_def)
    have verifies: "pending_ok rp (mg_store m2) (publication_verifies io (set_key ''publication'' v ?d) q target previous ?m)" for v
      by (rule pending_grows [OF g3 publication_verifies_ok [OF growsD(1) [OF g3] claim_set [OF claim_grows [OF c2 g3]]]]) simp
    show ?thesis
      using Inr x m1(1) target r conflict verifies pending_refl [OF d2]
      by (auto simp: publication_begins_def split: sum.split py_error.split intro!: pending_grows [OF g])
  qed
qed

section \<open>Every run\<close>

definition task_running :: "run_point \<Rightarrow> bool" where
  "task_running p \<longleftrightarrow> point_frame p \<noteq> None"

text \<open>Only the holder of the lock is under way; every copy that is kept is proper.\<close>

definition world_ok :: "(pyval \<Rightarrow> string) \<Rightarrow> setup_world \<Rightarrow> bool" where
  "world_ok rp w \<longleftrightarrow> (let s = mg_store (sw_management w) in docs_ok rp s
     \<and> (\<forall>sid p. map_of (sw_tasks w) sid = Some p \<longrightarrow> task_running p \<longrightarrow> sw_holder w = Some sid \<and> settled rp s sid p)
     \<and> (\<forall>d\<in>set (sw_cancels w). \<exists>sid. copy_of s sid d)
     \<and> (\<forall>p\<in>set (sw_publications w). claim_sound rp s (pc_setup p)))"

lemma settled_grows: "settled rp s sid p \<Longrightarrow> task_running p \<Longrightarrow> grows rp s s' \<Longrightarrow> settled rp s' sid p"
  by (auto simp: settled_def task_running_def intro: frame_grows split: option.splits)

lemma world_docs: "world_ok rp w \<Longrightarrow> docs_ok rp (mg_store (sw_management w))" by (simp add: world_ok_def Let_def)

text \<open>A change of the management state that grows, and of the tasks that adds no running one.\<close>

lemma world_grows:
  assumes w: "world_ok rp w" and g: "grows rp (mg_store (sw_management w)) (mg_store m)"
  shows "world_ok rp (w\<lparr>sw_management := m\<rparr>)"
  using w growsD [OF g] settled_grows [OF _ _ g] claim_grows [OF _ g] unfolding world_ok_def Let_def by fastforce

lemma world_schedules: "world_ok rp w \<Longrightarrow> world_ok rp (schedule_setup sid w)"
  by (auto simp: world_ok_def Let_def schedule_setup_def update_conv task_running_def)

lemma world_if_queued: "world_ok rp w \<Longrightarrow> world_ok rp (schedule_if_queued io d w)"
  by (simp add: schedule_if_queued_def world_schedules)

lemma schedule_management [simp]: "sw_management (schedule_setup sid w) = sw_management w"
  "sw_management (schedule_if_queued io d w) = sw_management w"
  by (simp_all add: schedule_setup_def schedule_if_queued_def)

lemma world_lists: "world_ok rp w \<Longrightarrow> world_ok rp (snd (list_setups io w))"
proof -
  have "world_ok rp w \<Longrightarrow> world_ok rp (fold (schedule_if_queued io) ds w)" for ds
    by (induction ds arbitrary: w) (simp_all add: world_if_queued)
  then show "world_ok rp w \<Longrightarrow> world_ok rp (snd (list_setups io w))" by (simp add: list_setups_def Let_def split: sum.split)
qed

lemma world_gets: "world_ok rp w \<Longrightarrow> world_ok rp (snd (get_setup sid w))"
  by (simp add: get_setup_def world_schedules split: sum.split)

lemma world_task_moves:
  assumes w: "world_ok rp w" and o: "outcome_ok rp (mg_store (sw_management w)) sid r"
    and h: "sw_holder w \<in> {None, Some sid}"
  shows "world_ok rp (task_moves sid r w)"
proof -
  obtain p m where r: "r = (p, m)" by fastforce
  have g: "grows rp (mg_store (sw_management w)) (mg_store m)" and s: "settled rp (mg_store m) sid p" using o by (simp_all add: outcome_ok_def r)
  have others: "\<not> task_running q" if "map_of (sw_tasks w) k = Some q" "k \<noteq> sid" for k q
    using that w h unfolding world_ok_def Let_def by auto
  have fin: "task_done (Some p) \<longleftrightarrow> \<not> task_running p" if "task_running p \<or> p = Finished"
    using that by (cases p) (auto simp: task_done_def task_running_def)
  have "task_running p \<or> p = Finished" using s by (auto simp: settled_def task_running_def split: option.splits)
  note fin = fin [OF this]
  show ?thesis
    using world_grows [OF w g] others s fin unfolding world_ok_def Let_def r task_moves_def
    by (auto simp: update_conv)
qed

lemma world_acquires:
  assumes w: "world_ok rp w" shows "world_ok rp (acquire io sid w)"
proof (cases "sw_holder w = None \<and> map_of (sw_tasks w) sid = Some Waiting")
  case True
  then have a: "acquire io sid w = task_moves sid (run_begins io sid (sw_management w)) w" by (simp add: acquire_def)
  show ?thesis
  proof (cases "run_begins io sid (sw_management w) = (Finished, sw_management w)")
    case unchanged: True
    show ?thesis unfolding a unchanged task_moves_def using w True
      by (auto simp: world_ok_def Let_def update_conv task_running_def task_done_def)
  next
    case False
    then have o: "outcome_ok rp (mg_store (sw_management w)) sid (run_begins io sid (sw_management w))"
      using run_begins_ok [OF world_docs [OF w]] by blast
    show ?thesis unfolding a by (rule world_task_moves [OF w o]) (use True in simp)
  qed
next
  case False
  then have "acquire io sid w = w" by (auto simp: acquire_def split: option.splits run_point.splits)
  then show ?thesis using w by simp
qed

lemma world_resumes:
  assumes w: "world_ok rp w" and rp: "su_repr (io_su io) = rp" shows "world_ok rp (resume io sid k w)"
proof (cases "sw_holder w = Some sid \<and> (\<exists>p r. map_of (sw_tasks w) sid = Some p \<and> run_wakes io k p (sw_management w) = Some r)")
  case True
  then obtain p r where p: "map_of (sw_tasks w) sid = Some p" "run_wakes io k p (sw_management w) = Some r" "sw_holder w = Some sid" by blast
  have "task_running p" using p(2) by (cases p; cases k) (auto simp: task_running_def)
  then have "settled rp (mg_store (sw_management w)) sid p" using w p(1) unfolding world_ok_def Let_def by blast
  then have "outcome_ok rp (mg_store (sw_management w)) sid r" by (rule run_wakes_ok [OF p(2) _ world_docs [OF w] rp])
  then show ?thesis using world_task_moves [OF w] p by (simp add: resume_def)
next
  case False
  then have "resume io sid k w = w" by (auto simp: resume_def split: option.splits)
  then show ?thesis using w by simp
qed

lemma stored_document:
  assumes "setup_or_404 sid m = Inr d" "docs_ok rp (mg_store m)"
  obtains e where "map_of (st_setups (mg_store m)) sid = Some e" "se_document e = encoded d"
proof -
  obtain e v where e: "map_of (st_setups (mg_store m)) sid = Some e" "decode_json (se_document e) = Inr v" "d = as_mapping v"
    using assms(1) by (auto simp: setup_or_404_def get_capability_setup_def rbind_eq_Inr split: option.splits)
  obtain x where x: "se_document e = encoded x" using docs_okD [OF assms(2) e(1)] by blast
  then have "d = x" using e by (auto simp: decode_json_def encoded_def as_mapping_def)
  then show thesis using that e(1) x by blast
qed

lemma create_grows:
  assumes d: "docs_ok rp s" and c: "create_capability_setup rp0 now doc s = (r, s')"
    and i: "dget doc ''id'' = VStr i" and st: "setup_state doc \<notin> PUBLISHABLE"
  shows "grows rp s s'"
proof (cases "s' = s")
  case False
  obtain e where n: "\<not> dhas (st_setups s) i" and s': "s' = s\<lparr>st_setups := st_setups s @ [(i, e)]\<rparr>" and e: "se_document e = encoded doc"
    using c i False by (auto simp: create_capability_setup_def attempt_def rbind_def py_index_def dget_def py_str_def
        split: sum.splits option.splits if_splits)
  have look: "map_of (st_setups s') k = (if k = i then Some e else map_of (st_setups s) k)" for k
    using n by (auto simp: s' dhas_def map_add_def split: option.split)
  have ev: "evidence_ok rp s' y = evidence_ok rp s y" for y by (simp add: evidence_ok_def evidenced_def s')
  have "distinct (map fst (st_setups s'))" using d n by (auto simp: docs_ok_def s' dhas_def map_of_eq_None_iff)
  then have "docs_ok rp s'" using d i e st unfolding docs_ok_def ev look by (auto simp: evidence_ok_def)
  moreover have "copy_of s k y \<Longrightarrow> copy_of s' k y" for k y using n unfolding copy_of_def look by (auto simp: dhas_def)
  ultimately show ?thesis by (simp add: grows_def s')
qed (simp add: grows_refl d)

lemma new_setup_simps: "dget (new_setup io request fp sl plan m) ''id'' = VStr (su_uuid (io_su io))"
  "setup_state (new_setup io request fp sl plan m) = ''queued''"
  by (simp_all add: new_setup_def dget_def setup_state_def Let_def)

lemma world_creates:
  assumes w: "world_ok rp w" shows "world_ok rp (snd (create_setup io request fp sl w))"
proof -
  let ?m = "sw_management w"
  have "world_ok rp (w\<lparr>sw_management := ?m\<lparr>mg_store := st\<rparr>\<rparr>)"
    if "create_capability_setup (su_repr (io_su io)) (su_now (io_su io)) (new_setup io request fp sl plan ?m) (mg_store ?m) = (r, st)" for plan r st
    by (rule world_grows [OF w]) (simp add: create_grows [OF world_docs [OF w] that] new_setup_simps PUBLISHABLE_def)
  then show ?thesis using w world_if_queued
    by (auto simp: create_setup_def Let_def split: sum.split prod.split)
qed

lemma cancel_ends_ok:
  assumes w: "world_ok rp w" and c: "copy_of (mg_store (sw_management w)) sid d"
  shows "world_ok rp (snd (cancel_ends io d w))"
proof -
  have e: "evidence_ok rp (mg_store (sw_management w)) (entering io ''cancelled'' d)" by (simp add: not_publishable PUBLISHABLE_def)
  show ?thesis
    by (rule transition_ok [OF world_docs [OF w] c e, of "''Setup cancelled; the Worker was retained''"])
      (simp add: cancel_ends_def world_grows [OF w])
qed

lemma world_cancels:
  assumes w: "world_ok rp w" shows "world_ok rp (snd (request_cancel io sid w))"
proof (cases "rbind (require_mutable (io_su io)) (\<lambda>_. setup_or_404 sid (sw_management w))")
  case (Inl e)
  then show ?thesis using w by (simp add: request_cancel_def)
next
  case (Inr d)
  let ?s = "mg_store (sw_management w)"
  note docs = world_docs [OF w]
  have s: "setup_or_404 sid (sw_management w) = Inr d" using Inr by (auto simp: rbind_eq_Inr)
  obtain e where e: "map_of (st_setups ?s) sid = Some e" "se_document e = encoded d" by (rule stored_document [OF s docs])
  note c = stored_copy [OF docs e]
  obtain r m1 where r: "worker_to_stop d (sw_management w) = (r, m1)" by fastforce
  have same: "mg_store m1 = ?s" using worker_to_stop_spares [of d "sw_management w"] r by simp
  have w1: "world_ok rp (w\<lparr>sw_management := m1\<rparr>)" by (rule world_grows [OF w]) (simp add: same grows_refl docs)
  have pending: "world_ok rp (w\<lparr>sw_management := m1, sw_cancels := sw_cancels w @ [d]\<rparr>)"
    using w1 c(1) by (auto simp: world_ok_def Let_def same)
  have ended: "world_ok rp (snd (cancel_ends io d (w\<lparr>sw_management := m1\<rparr>)))" by (rule cancel_ends_ok [OF w1, of sid]) (simp add: same c(1))
  let ?d = "set_key ''cancel_requested'' (VBool True) d"
  have c2: "copy_of ?s sid ?d" using c(1) by (rule copy_of_cong) simp_all
  have e2: "evidence_ok rp ?s ?d" using c(2) by (simp add: evidence_ok_def evidenced_def)
  have asked: "world_ok rp (w\<lparr>sw_management := snd (save_setup io ?d (sw_management w))\<rparr>)"
    by (rule save_setup_ok [OF docs c2 e2, of io]) (simp add: world_grows [OF w])
  show ?thesis using w w1 pending ended asked
    by (auto simp: request_cancel_def Inr r Let_def split: sum.split option.split prod.split)
qed

lemma in_drop_nth: "x \<in> set (drop_nth i xs) \<Longrightarrow> x \<in> set xs"
  by (auto simp: drop_nth_def dest: in_set_takeD in_set_dropD)

lemma world_cancel_stops:
  assumes w: "world_ok rp w" and i: "i < length (sw_cancels w)"
  shows "world_ok rp (snd (cancel_stopped io i e w))"
proof -
  let ?w = "w\<lparr>sw_cancels := drop_nth i (sw_cancels w)\<rparr>"
  have w1: "world_ok rp ?w" using w in_drop_nth by (fastforce simp: world_ok_def Let_def)
  obtain sid where "copy_of (mg_store (sw_management w)) sid (sw_cancels w ! i)" using w i by (fastforce simp: world_ok_def Let_def)
  then show ?thesis using w1 cancel_ends_ok [OF w1] by (simp add: cancel_stopped_def Let_def split: option.split)
qed

lemma world_retries:
  assumes w: "world_ok rp w" shows "world_ok rp (snd (retry_setup io sid w))"
proof (cases "retry_checks io sid (sw_management w)")
  case (Inl e)
  then show ?thesis using w by (simp add: retry_setup_def)
next
  case (Inr d)
  note docs = world_docs [OF w]
  have s: "setup_or_404 sid (sw_management w) = Inr d" using Inr by (auto simp: retry_checks_def rbind_eq_Inr split: if_splits)
  obtain e where e: "map_of (st_setups (mg_store (sw_management w))) sid = Some e" "se_document e = encoded d"
    by (rule stored_document [OF s docs])
  have c: "copy_of (mg_store (sw_management w)) sid (queued_again d)"
    using stored_copy(1) [OF docs e] by (rule copy_of_cong) (simp_all add: queued_again_def)
  have q: "evidence_ok rp (mg_store (sw_management w)) (queued_again d)"
    by (simp add: evidence_ok_def queued_again_def PUBLISHABLE_def)
  show ?thesis
    by (rule save_setup_ok [OF docs c q, of io]) (simp add: retry_setup_def Inr world_schedules world_grows [OF w])
qed

lemma world_publishes:
  assumes w: "world_ok rp w" shows "world_ok rp (snd (publish_setup io sid q fp w))"
proof -
  obtain r m where r: "publication_begins io sid q fp (sw_management w) = (r, m)" by fastforce
  have p: "pending_ok rp (mg_store (sw_management w)) (r, m)" using publication_begins_ok [OF world_docs [OF w]] r by metis
  then have w1: "world_ok rp (w\<lparr>sw_management := m\<rparr>)" using world_grows [OF w] by (simp add: pending_ok_def)
  show ?thesis using w1 p by (cases r) (auto simp: publish_setup_def r pending_ok_def world_ok_def Let_def)
qed

lemma smoke_entry_spares: "spares (mg_store m) (mg_store (snd (smoke_entry su px post pid cid ds found m)))"
  by (auto simp: smoke_entry_def rehearse_route_tool_calling_def save_route_tool_calling_rehearsal_def spares_def Let_def
      split: prod.splits sum.splits)

lemma world_answers:
  assumes w: "world_ok rp w" and i: "i < length (sw_publications w)"
  shows "world_ok rp (snd (gateway_answers io i px post w))"
proof -
  let ?p = "sw_publications w ! i"
  have c: "claim_sound rp (mg_store (sw_management w)) (pc_setup ?p)" using w i by (simp add: world_ok_def Let_def)
  obtain r m1 where r: "smoke_entry (io_su io) px post (rpf_id (pc_target ?p)) (pc_binding ?p) (pc_definitions ?p) (pc_found ?p) (sw_management w) = (r, m1)"
    by fastforce
  have g: "grows rp (mg_store (sw_management w)) (mg_store m1)"
    using spares_grows [OF world_docs [OF w]] smoke_entry_spares r by (metis snd_conv)
  let ?m = "snd (publication_answered io px post ?p (sw_management w))"
  have "grows rp (mg_store m1) (mg_store ?m)"
    using publication_ends_ok [OF growsD(1) [OF g] claim_grows [OF c g]] r by (simp add: publication_answered_def)
  then have w1: "world_ok rp (w\<lparr>sw_management := ?m\<rparr>)" using world_grows [OF w] grows_trans [OF g] by blast
  have "snd (gateway_answers io i px post w) = w\<lparr>sw_management := ?m, sw_publications := drop_nth i (sw_publications w)\<rparr>"
    by (simp add: gateway_answers_def split: prod.split)
  then show ?thesis using w1 in_drop_nth by (fastforce simp: world_ok_def Let_def)
qed

section \<open>A restart\<close>

definition stored :: "store \<Rightarrow> string \<Rightarrow> pydict \<Rightarrow> bool" where
  "stored s sid d \<longleftrightarrow> (\<exists>e. map_of (st_setups s) sid = Some e \<and> se_document e = encoded d)"

definition same_others :: "string \<Rightarrow> store \<Rightarrow> store \<Rightarrow> bool" where
  "same_others sid s s' \<longleftrightarrow> (\<forall>k. k \<noteq> sid \<longrightarrow> map_of (st_setups s') k = map_of (st_setups s) k)"

lemma same_others_refl [simp]: "same_others sid s s" by (simp add: same_others_def)

lemma same_others_trans: "same_others sid s s' \<Longrightarrow> same_others sid s' s'' \<Longrightarrow> same_others sid s s''" by (simp add: same_others_def)

lemma save_others: "dget d ''id'' = VStr sid \<Longrightarrow> same_others sid (mg_store m) (mg_store (snd (save_setup io d m)))"
  by (auto simp: save_setup_def save_capability_setup_def same_others_def py_index_def py_str_def dget_def update_conv split: option.splits)

lemma event_others: "same_others sid (mg_store m) (mg_store (snd (record_event io d st msg m)))"
  by (auto simp: record_event_def record_capability_setup_event_def attempt_def same_others_def Let_def)

lemma transition_others:
  "dget d ''id'' = VStr sid \<Longrightarrow> same_others sid (mg_store m) (mg_store (snd (transition_setup io d st msg m)))"
proof -
  assume i: "dget d ''id'' = VStr sid"
  obtain r m1 where r: "save_setup io (entering io st d) m = (r, m1)" by fastforce
  have "same_others sid (mg_store m) (mg_store m1)" using save_others [of "entering io st d" sid m io] i r by simp
  moreover have "same_others sid (mg_store m1) (mg_store (snd (record_event io (entering io st d) st msg m1)))" by (rule event_others)
  ultimately show ?thesis by (auto simp: transition_setup_def r Let_def split: sum.split prod.split dest: same_others_trans)
qed

text \<open>What a restart leaves: at rest, or queued with a task that waits for the lock.\<close>

definition MIDWAY :: "string set" where
  "MIDWAY = {''applying-policy'', ''creating-worker'', ''starting-worker'', ''verifying-identity'', ''qualifying'',
     ''waiting-for-thermal-capacity'', ''publishing'', ''verifying-route''}"

definition resumed :: "setup_world \<Rightarrow> string \<Rightarrow> bool" where
  "resumed w sid \<longleftrightarrow> (\<exists>d. stored (mg_store (sw_management w)) sid d \<and> setup_state d \<notin> MIDWAY
     \<and> (setup_state d = ''queued'' \<longrightarrow> map_of (sw_tasks w) sid = Some Waiting))"

definition idle :: "setup_world \<Rightarrow> bool" where
  "idle w \<longleftrightarrow> (\<forall>sid p. map_of (sw_tasks w) sid = Some p \<longrightarrow> p = Waiting \<or> p = Finished)"

definition reconciled :: "(pyval \<Rightarrow> string) \<Rightarrow> string \<Rightarrow> setup_world \<Rightarrow> unit res \<times> setup_world \<Rightarrow> bool" where
  "reconciled rp sid w r \<longleftrightarrow> world_ok rp (snd r) \<and> idle (snd r)
     \<and> same_others sid (mg_store (sw_management w)) (mg_store (sw_management (snd r)))
     \<and> (\<forall>k. map_of (sw_tasks w) k = Some Waiting \<longrightarrow> map_of (sw_tasks (snd r)) k = Some Waiting)
     \<and> (fst r = Inr () \<longrightarrow> resumed (snd r) sid)"

lemma recorded_stored: "recorded s sid st \<Longrightarrow> \<exists>d. stored s sid d \<and> setup_state d = st"
  by (auto simp: recorded_def stored_def)

lemma resumed_at: "recorded (mg_store (sw_management w)) sid st \<Longrightarrow> st \<notin> MIDWAY \<Longrightarrow>
  (st = ''queued'' \<Longrightarrow> map_of (sw_tasks w) sid = Some Waiting) \<Longrightarrow> resumed w sid"
  unfolding resumed_def using recorded_stored by blast

text \<open>Saving and an event, as the recovery does it.\<close>

lemma saves_and_records:
  assumes w: "world_ok rp w" and c: "copy_of (mg_store (sw_management w)) sid d" and e: "evidence_ok rp (mg_store (sw_management w)) d"
  obtains n m1 m2 where "save_setup io d (sw_management w) = (Inr d, m1)" "record_event io d st msg m1 = (Inr n, m2)"
    "world_ok rp (w\<lparr>sw_management := m2\<rparr>)" "recorded (mg_store m2) sid (setup_state d)"
    "same_others sid (mg_store (sw_management w)) (mg_store m2)"
proof -
  obtain m1 where m1: "save_setup io d (sw_management w) = (Inr d, m1)" "grows rp (mg_store (sw_management w)) (mg_store m1)"
    "recorded (mg_store m1) sid (setup_state d)" "copy_of (mg_store m1) sid d"
    by (rule save_setup_ok [OF world_docs [OF w] c e])
  have i: "dget d ''id'' = VStr sid" using c by (simp add: copy_of_def)
  obtain n m2 where m2: "record_event io d st msg m1 = (Inr n, m2)" "grows rp (mg_store m1) (mg_store m2)"
    "st_setups (mg_store m2) = st_setups (mg_store m1)"
    by (rule record_event_ok [OF growsD(1) [OF m1(2)] m1(4) i])
  have "same_others sid (mg_store (sw_management w)) (mg_store m2)"
    using save_others [OF i, of "sw_management w" io] m1(1) m2(3) by (simp add: same_others_def)
  then show thesis using that [OF m1(1) m2(1)] world_grows [OF w grows_trans [OF m1(2) m2(2)]] m1(3) m2(3)
    by (simp add: recorded_def)
qed

lemma stored_facts:
  assumes "world_ok rp w" "stored (mg_store (sw_management w)) sid d"
  shows "copy_of (mg_store (sw_management w)) sid d" "evidence_ok rp (mg_store (sw_management w)) d" "dget d ''id'' = VStr sid"
  using assms stored_copy [OF world_docs [OF assms(1)]] by (auto simp: stored_def copy_of_def)

lemma reconciled_by_transition:
  assumes w: "world_ok rp w" and i: "idle w" and d: "stored (mg_store (sw_management w)) sid d"
  shows "reconciled rp sid w (interrupted io d w)"
proof -
  let ?d = "set_key ''error'' (error_document ''publication_interrupted''
      ''The service restarted during publication; inspect the retained revision before retrying''
      ''routing-profile'' (VStr (setup_state d)) False) d"
  note f = stored_facts [OF w d]
  have c: "copy_of (mg_store (sw_management w)) sid ?d" using f(1) by (rule copy_of_cong) simp_all
  have e: "evidence_ok rp (mg_store (sw_management w)) (entering io ''failed'' ?d)" by (simp add: not_publishable PUBLISHABLE_def)
  obtain m1 where m1: "transition_setup io ?d ''failed'' ''Publication was interrupted; retained routing requires explicit review'' (sw_management w)
      = (Inr (entering io ''failed'' ?d), m1)" "grows rp (mg_store (sw_management w)) (mg_store m1)" "recorded (mg_store m1) sid ''failed''"
    by (rule transition_ok [OF world_docs [OF w] c e])
  have i2: "dget ?d ''id'' = VStr sid" using f(3) by simp
  have "same_others sid (mg_store (sw_management w)) (mg_store m1)"
    using transition_others [OF i2, of "sw_management w" io "''failed''"] m1(1) by (metis snd_conv)
  moreover have "resumed (w\<lparr>sw_management := m1\<rparr>) sid" by (rule resumed_at [of _ _ "''failed''"]) (simp_all add: m1(3) MIDWAY_def)
  ultimately show ?thesis using world_grows [OF w m1(2)] i m1(1) by (simp add: reconciled_def interrupted_def idle_def)
qed

lemma idle_schedules:
  assumes "idle w"
  shows "idle (schedule_setup sid w)" "map_of (sw_tasks (schedule_setup sid w)) sid = Some Waiting"
    "map_of (sw_tasks w) k = Some Waiting \<Longrightarrow> map_of (sw_tasks (schedule_setup sid w)) k = Some Waiting"
proof -
  have "map_of (sw_tasks w) sid = None \<or> map_of (sw_tasks w) sid = Some Finished \<or> map_of (sw_tasks w) sid = Some Waiting"
    using assms unfolding idle_def by (cases "map_of (sw_tasks w) sid") auto
  then show "idle (schedule_setup sid w)" "map_of (sw_tasks (schedule_setup sid w)) sid = Some Waiting"
    "map_of (sw_tasks w) k = Some Waiting \<Longrightarrow> map_of (sw_tasks (schedule_setup sid w)) k = Some Waiting"
    using assms by (auto simp: idle_def schedule_setup_def task_done_def update_conv)
qed

lemma reconciled_queued:
  assumes w: "world_ok rp w" and i: "idle w" and d: "stored (mg_store (sw_management w)) sid d"
  shows "reconciled rp sid w (reconcile_queued io d w)"
proof -
  let ?d = "set_key ''current_step'' (VStr ''queued'') (set_key ''state'' (VStr ''queued'') d)"
  note f = stored_facts [OF w d]
  have c: "copy_of (mg_store (sw_management w)) sid ?d" using f(1) by (rule copy_of_cong) simp_all
  have e: "evidence_ok rp (mg_store (sw_management w)) ?d" by (simp add: evidence_ok_def PUBLISHABLE_def)
  obtain n m1 m2 where m: "save_setup io ?d (sw_management w) = (Inr ?d, m1)"
    "record_event io ?d ''queued'' ''Resuming after the management service restarted'' m1 = (Inr n, m2)"
    "world_ok rp (w\<lparr>sw_management := m2\<rparr>)" "recorded (mg_store m2) sid (setup_state ?d)"
    "same_others sid (mg_store (sw_management w)) (mg_store m2)"
    by (rule saves_and_records [OF w c e])
  have sid: "setup_id io ?d = sid" using f(3) by (simp add: setup_id_def py_str_def)
  have i1: "idle (w\<lparr>sw_management := m2\<rparr>)" using i by (simp add: idle_def)
  note t = idle_schedules [OF i1, where sid = sid]
  have "resumed (schedule_setup sid (w\<lparr>sw_management := m2\<rparr>)) sid"
    by (rule resumed_at [of _ _ "''queued''"]) (use m(4) t(2) in \<open>simp_all add: MIDWAY_def\<close>)
  then show ?thesis using m(5) world_schedules [OF m(3)] t(1,3)
    by (simp add: reconciled_def reconcile_queued_def Let_def m(1,2) sid)
qed

lemma reconciled_review:
  assumes w: "world_ok rp w" and i: "idle w" and d: "stored (mg_store (sw_management w)) sid d" and p: "setup_state d = ''publishing''"
  shows "reconciled rp sid w (review_again io d w)"
proof -
  let ?d = "set_key ''error'' (error_document ''publication_not_completed'' ''Publication did not complete; review routing changes again''
                 ''routing-profile'' (VStr (setup_state d)) True)
               (set_key ''current_step'' (VStr ''awaiting-publication'') (set_key ''state'' (VStr ''awaiting-publication'') d))"
  note f = stored_facts [OF w d]
  have c: "copy_of (mg_store (sw_management w)) sid ?d" using f(1) by (rule copy_of_cong) simp_all
  have e: "evidence_ok rp (mg_store (sw_management w)) ?d" using f(2) p by (simp add: evidence_ok_def evidenced_def PUBLISHABLE_def)
  obtain n m1 m2 where m: "save_setup io ?d (sw_management w) = (Inr ?d, m1)"
    "record_event io ?d ''awaiting-publication'' ''Incomplete publication recovered for a fresh review'' m1 = (Inr n, m2)"
    "world_ok rp (w\<lparr>sw_management := m2\<rparr>)" "recorded (mg_store m2) sid (setup_state ?d)"
    "same_others sid (mg_store (sw_management w)) (mg_store m2)"
    by (rule saves_and_records [OF w c e])
  have "resumed (w\<lparr>sw_management := m2\<rparr>) sid"
    by (rule resumed_at [of _ _ "''awaiting-publication''"]) (use m(4) in \<open>simp_all add: MIDWAY_def\<close>)
  then show ?thesis using m(3,5) i by (simp add: reconciled_def review_again_def Let_def m(1,2) idle_def)
qed

lemma reconciled_one:
  assumes w: "world_ok rp w" and i: "idle w" and d: "stored (mg_store (sw_management w)) sid d"
  shows "reconciled rp sid w (reconcile_one io d w)"
proof -
  have stays: "reconciled rp sid w (Inr (), w)" if "setup_state d \<notin> MIDWAY" "setup_state d \<noteq> ''queued''"
    using w i d that by (auto simp: reconciled_def resumed_def)
  have fails: "reconciled rp sid w (Inl e, w)" for e using w i by (simp add: reconciled_def)
  have publishing: "reconciled rp sid w (reconcile_publishing io d w)" if "setup_state d = ''publishing''"
    using reconciled_review [OF w i d that] reconciled_by_transition [OF w i d] fails
    by (simp add: reconcile_publishing_def Let_def split: sum.split)
  show ?thesis
    using stays publishing reconciled_queued [OF w i d] reconciled_by_transition [OF w i d]
    by (auto simp: reconcile_one_def in_progress_def MIDWAY_def)
qed

lemma stored_id: "world_ok rp w \<Longrightarrow> stored (mg_store (sw_management w)) sid d \<Longrightarrow> dget d ''id'' = VStr sid"
  by (rule stored_facts(3))

text \<open>Documents of different setups are recovered one after another.\<close>

lemma reconcile_all_ok:
  assumes "world_ok rp w" "idle w" "list_all2 (stored (mg_store (sw_management w))) sids ds" "distinct sids"
  shows "world_ok rp (snd (reconcile_all io ds w))
    \<and> (\<forall>k. map_of (sw_tasks w) k = Some Waiting \<longrightarrow> map_of (sw_tasks (snd (reconcile_all io ds w))) k = Some Waiting)
    \<and> (\<forall>k. k \<notin> set sids \<longrightarrow> map_of (st_setups (mg_store (sw_management (snd (reconcile_all io ds w))))) k
         = map_of (st_setups (mg_store (sw_management w))) k)
    \<and> (fst (reconcile_all io ds w) = Inr () \<longrightarrow> (\<forall>sid\<in>set sids. resumed (snd (reconcile_all io ds w)) sid))"
  using assms
proof (induction ds arbitrary: sids w)
  case Nil
  then show ?case by simp
next
  case (Cons d ds)
  obtain sid rest where sids: "sids = sid # rest" "stored (mg_store (sw_management w)) sid d"
    "list_all2 (stored (mg_store (sw_management w))) rest ds" "sid \<notin> set rest" "distinct rest"
    using Cons.prems(3,4) by (cases sids) auto
  obtain r w1 where r: "reconcile_one io d w = (r, w1)" by fastforce
  have one: "reconciled rp sid w (r, w1)" using reconciled_one [OF Cons.prems(1,2) sids(2), of io] r by simp
  have o: "world_ok rp w1" "idle w1" "same_others sid (mg_store (sw_management w)) (mg_store (sw_management w1))"
    "\<And>k. map_of (sw_tasks w) k = Some Waiting \<Longrightarrow> map_of (sw_tasks w1) k = Some Waiting" "r = Inr () \<Longrightarrow> resumed w1 sid"
    using one by (simp_all add: reconciled_def)
  show ?case
  proof (cases r)
    case (Inl e)
    then show ?thesis using o r sids(1) by (simp add: same_others_def)
  next
    case (Inr u)
    have "list_all2 (stored (mg_store (sw_management w1))) rest ds"
    proof (rule list.rel_mono_strong [OF sids(3)])
      fix k x assume "k \<in> set rest" "stored (mg_store (sw_management w)) k x"
      then show "stored (mg_store (sw_management w1)) k x" using o(3) sids(4) by (auto simp: stored_def same_others_def)
    qed
    note IH = Cons.IH [OF o(1,2) this sids(5)]
    let ?w = "snd (reconcile_all io ds w1)"
    have keep: "map_of (st_setups (mg_store (sw_management ?w))) sid = map_of (st_setups (mg_store (sw_management w1))) sid"
      using IH sids(4) by blast
    have "resumed w1 sid" using o(5) Inr by simp
    then have "resumed ?w sid" using keep IH unfolding resumed_def stored_def by auto
    moreover have "reconcile_all io (d # ds) w = reconcile_all io ds w1" using r Inr by simp
    ultimately show ?thesis using IH o(3,4) sids(1) by (auto simp: same_others_def)
  qed
qed

lemma map_res_succeeds: "(\<And>x. x \<in> set xs \<Longrightarrow> \<exists>y. f x = Inr y) \<Longrightarrow> \<exists>ys. map_res f xs = Inr ys"
  by (induction xs) (fastforce simp: rbind_eq_Inr)+

lemma listed_setups:
  assumes d: "docs_ok rp s"
  obtains sids vs where "list_capability_setups s = Inr vs" "list_all2 (stored s) sids (map as_mapping vs)" "distinct sids"
    "set sids = fst ` set (st_setups s)"
proof -
  define rows where "rows = rev (sort_key (\<lambda>(_, e). se_created_at e) (rev (st_setups s)))"
  have row: "\<exists>x. map_of (st_setups s) (fst r) = Some (snd r) \<and> se_document (snd r) = encoded x" if "r \<in> set rows" for r
  proof -
    have "map_of (st_setups s) (fst r) = Some (snd r)" using that d by (simp add: docs_ok_def rows_def)
    then show ?thesis using docs_okD [OF d] by blast
  qed
  have "\<exists>v. (\<lambda>(_, e). decode_json (se_document e)) r = Inr v" if "r \<in> set rows" for r
    using row [OF that] by (cases r) (auto simp: decode_json_def encoded_def)
  then obtain vs where vs: "map_res (\<lambda>(_, e). decode_json (se_document e)) rows = Inr vs" using map_res_succeeds by blast
  have "list_all2 (stored s) (map fst rows) (map as_mapping vs)"
    unfolding list.rel_map
  proof (rule list.rel_mono_strong [OF map_res_all2 [OF vs]])
    fix r v assume r: "r \<in> set rows" and v: "(case r of (_, e) \<Rightarrow> decode_json (se_document e)) = Inr v"
    show "stored s (fst r) (as_mapping v)"
      using row [OF r] v by (cases r) (auto simp: stored_def decode_json_def encoded_def as_mapping_def)
  qed
  moreover have "distinct (map fst rows)" using d by (simp add: docs_ok_def distinct_map inj_on_def rows_def)
  ultimately show thesis using that [of vs "map fst rows"] vs by (simp add: list_capability_setups_def rows_def)
qed

lemma reconcile_setups_ok:
  assumes w: "world_ok rp w" and i: "idle w"
  shows "world_ok rp (snd (reconcile_setups io w))"
    "fst (reconcile_setups io w) = Inr () \<Longrightarrow> stored (mg_store (sw_management (snd (reconcile_setups io w)))) sid d \<Longrightarrow>
      resumed (snd (reconcile_setups io w)) sid"
proof -
  let ?s = "mg_store (sw_management w)"
  obtain sids vs where l: "list_capability_setups ?s = Inr vs" "list_all2 (stored ?s) sids (map as_mapping vs)" "distinct sids"
    "set sids = fst ` set (st_setups ?s)"
    by (rule listed_setups [OF world_docs [OF w]])
  note r = reconcile_all_ok [OF w i l(2,3), of io]
  have e: "reconcile_setups io w = reconcile_all io (map as_mapping vs) w" by (simp add: reconcile_setups_def l(1))
  show "world_ok rp (snd (reconcile_setups io w))" using r e by simp
  assume "fst (reconcile_setups io w) = Inr ()" "stored (mg_store (sw_management (snd (reconcile_setups io w)))) sid d"
  moreover have "sid \<in> set sids" if "stored (mg_store (sw_management (snd (reconcile_all io (map as_mapping vs) w)))) sid d"
  proof (rule ccontr)
    assume n: "sid \<notin> set sids"
    then have "map_of (st_setups ?s) sid = None" by (simp add: l(4) map_of_eq_None_iff)
    then show False using r n that by (auto simp: stored_def)
  qed
  ultimately show "resumed (snd (reconcile_setups io w)) sid" using r e by auto
qed

lemma ended_tasks: "map_of (map (\<lambda>(i, _). (i, Finished)) ts) sid = map_option (\<lambda>_. Finished) (map_of ts sid)"
  by (induction ts) auto

lemma shutdown_ok: "world_ok rp w \<Longrightarrow> world_ok rp (shutdown_setups w)" "idle (shutdown_setups w)"
proof -
  have m: "map_of (sw_tasks (shutdown_setups w)) sid = map_option (\<lambda>_. Finished) (map_of (sw_tasks w) sid)" for sid
    by (simp add: shutdown_setups_def ended_tasks)
  show "idle (shutdown_setups w)" by (auto simp: idle_def m)
  show "world_ok rp w \<Longrightarrow> world_ok rp (shutdown_setups w)"
    unfolding world_ok_def Let_def m by (auto simp: task_running_def shutdown_setups_def)
qed

lemma setup_step_ok:
  assumes w: "world_ok rp w" and rp: "su_repr (io_su io) = rp"
  shows "world_ok rp (setup_step (io, op) w)"
proof (cases op)
  case (Others m)
  have "grows rp (mg_store (sw_management w)) (mg_store m)" if "leaves_setups (mg_store (sw_management w)) (mg_store m)"
    by (rule grows_leaves [OF world_docs [OF w]]) (use that in \<open>auto simp: leaves_setups_def dest: set_mono_prefix\<close>)
  then show ?thesis using w world_grows [OF w] Others by (simp add: setup_step_def)
qed (simp_all add: setup_step_def w world_creates world_gets world_lists world_cancels world_cancel_stops world_retries
    world_publishes world_answers world_acquires world_resumes rp reconcile_setups_ok(1) shutdown_ok)

lemma run_setups_proper:
  "world_ok rp w \<Longrightarrow> \<forall>(io, op)\<in>set ops. su_repr (io_su io) = rp \<Longrightarrow> world_ok rp (run_setups ops w)"
  by (induction ops arbitrary: w) (auto simp: run_setups_def setup_step_ok)

lemma no_setups_ok: "st_setups (mg_store m) = [] \<Longrightarrow> world_ok rp (no_setups m)"
  by (simp add: world_ok_def no_setups_def docs_ok_def)

end
