(* ===== verification/Setups_Rollback.thy ===== *)
theory Setups_Rollback
  imports Setups_Invariant
begin

text \<open>
  A publication whose verification fails gives the routes back: what was active before it is active
  again, at the same revision and with the same snapshot.
\<close>

section \<open>When an activation cannot conflict\<close>

lemma casefold_empty: "casefold t = [] \<longleftrightarrow> t = []"
  by (simp add: casefold_def)

lemma requested_not_empty: "requested_names rp v = Inr ns \<Longrightarrow> n \<in> set ns \<Longrightarrow> n \<noteq> []"
  by (fastforce simp: requested_names_def rbind_eq_Inr casefold_def)

lemma no_conflict:
  assumes ns: "requested_names rp v = Inr ns"
    and others: "\<And>q b. (q, b) \<in> set active \<Longrightarrow> q \<noteq> pid \<Longrightarrow> is_ok (active_names rp b) \<and> set ns \<inter> names_of rp b = {}"
  shows "ensure_no_active_capability_collisions rp active pid v = Inr ()"
proof -
  have row: "row_conflicts rp ns b = Inr []" if m: "(q, b) \<in> set active" "q \<noteq> pid" for q b
  proof -
    obtain bs where bs: "active_names rp b = Inr bs" using others [OF m] by (auto simp: is_ok_iff)
    then obtain w ms where w: "decode_json (ae_routing b) = Inr w" "public_names rp w = Inr ms"
      "bs = map casefold (filter (\<lambda>n. n \<noteq> []) ms)"
      by (auto simp: active_names_def requested_names_def rbind_eq_Inr)
    have "names_of rp b = set bs" using bs by (simp add: names_of_def)
    then have "n \<notin> set (map casefold ms)" if "n \<in> set ns" for n
      using others [OF m] requested_not_empty [OF ns that] that w(3) by (auto simp: casefold_empty)
    then show ?thesis using w by (simp add: row_conflicts_def filter_empty_conv)
  qed
  have all: "map_res (\<lambda>(_, a). row_conflicts rp ns a) xs = Inr (map (\<lambda>_. []) xs)"
    if "set xs \<subseteq> {x \<in> set active. fst x \<noteq> pid}" for xs :: "(string \<times> active_entry) list"
    using that by (induction xs) (auto simp: row rbind_eq_Inr)
  have "set (filter (\<lambda>(p, _). p \<noteq> pid) active) \<subseteq> {x \<in> set active. fst x \<noteq> pid}" by auto
  note all [OF this]
  then show ?thesis using ns by (simp add: ensure_no_active_capability_collisions_def concat_eq_Nil_conv)
qed

section \<open>The routes that are active\<close>

definition route :: "store \<Rightarrow> string \<Rightarrow> (int \<times> column) option" where
  "route s pid = map_option (\<lambda>a. (ae_revision a, ae_routing a)) (map_of (st_active s) pid)"

lemma names_by_routing: "ae_routing a = ae_routing b \<Longrightarrow> names_of rp a = names_of rp b"
  by (simp add: names_of_def active_names_def)

text \<open>A store on the way back: nothing that was published is lost, and what is active was active before.\<close>

definition returning :: "(pyval \<Rightarrow> string) \<Rightarrow> store \<Rightarrow> store \<Rightarrow> bool" where
  "returning rp s0 s \<longleftrightarrow> store_inv rp s \<and> (\<forall>pid. set (revisions_of pid s0) \<subseteq> set (revisions_of pid s))
     \<and> (\<forall>pid. route s pid \<noteq> None \<longrightarrow> route s pid = route s0 pid)"

text \<open>The stored profiles are accepted again by the validation that accepted them.\<close>

definition revalidates :: "surroundings \<Rightarrow> store \<Rightarrow> bool" where
  "revalidates su s \<longleftrightarrow> (\<forall>p a d. (p, a) \<in> set (st_active s) \<longrightarrow> live s p a d \<longrightarrow> profile_model_validate su (VDict (routing_dump d)) = Inr d)"

lemma reactivated:
  assumes inv0: "store_inv rp s0" and r: "returning rp s0 s" and a: "map_of (st_active s0) pid = Some a" and l: "live s0 pid a d"
    and e: "(ae_revision a, e) \<in> set (revisions_of pid s0)"
  shows "\<exists>s' v. activate_routing_profile_revision rp now pid (ae_revision a) (routing_snapshot d (ae_revision a)) s = (Inr v, s')
    \<and> returning rp s0 s' \<and> route s' pid = route s0 pid \<and> (\<forall>k. route s k \<noteq> None \<longrightarrow> route s' k \<noteq> None)"
proof -
  let ?r = "ae_revision a" and ?snap = "routing_snapshot d (ae_revision a)"
  have inv: "store_inv rp s" and rv: "(?r, e) \<in> set (revisions_of pid s)" using r e by (auto simp: returning_def)
  have routing: "ae_routing a = encoded ?snap" using l by (simp add: live_def)
  have ain: "(pid, a) \<in> set (st_active s0)" using a by (rule map_of_SomeD)
  obtain ns where ns: "active_names rp a = Inr ns" using active_row(4) [OF inv0 ain] by (auto simp: is_ok_iff)
  have req: "requested_names rp (VDict ?snap) = Inr ns" using ns routing by (simp add: active_names_def encoded_def decode_json_def)
  have free: "ensure_no_active_capability_collisions rp (st_active s) pid (VDict ?snap) = Inr ()"
  proof (rule no_conflict [OF req])
    fix q b assume q: "(q, b) \<in> set (st_active s)" "q \<noteq> pid"
    have "map_of (st_active s) q = Some b" using q(1) inv by (simp add: store_inv_def)
    then have "route s q = Some (ae_revision b, ae_routing b)" by (simp add: route_def)
    then have "route s0 q = Some (ae_revision b, ae_routing b)" using r unfolding returning_def by (metis option.distinct(1))
    then obtain b0 where b0: "(q, b0) \<in> set (st_active s0)" "ae_routing b = ae_routing b0"
      by (auto simp: route_def dest: map_of_SomeD)
    have "names_of rp a \<inter> names_of rp b0 = {}" using inv0 ain b0(1) q(2) by (simp add: store_inv_def names_unique_def)
    then show "is_ok (active_names rp b) \<and> set ns \<inter> names_of rp b = {}"
      using active_row(4) [OF inv q(1)] names_by_routing [OF b0(2), of rp] ns by (simp add: names_of_def)
  qed
  have prof: "dhas (st_profiles s) pid" using inv rv by (cases "revisions_of pid s") (auto simp: store_inv_def)
  let ?a = "\<lparr>ae_revision = ?r, ae_routing = encoded ?snap, ae_published_at = now\<rparr>"
  let ?s = "s\<lparr>st_active := AList.update pid ?a (st_active s), st_last_activation := Some (pid, ?a)\<rparr>"
  have set: "set_active_routing_profile rp now pid ?r ?snap s = Inr ?s"
    using free prof by (simp add: set_active_routing_profile_def snapshot_revision Let_def)
  have act: "activate_routing_profile_revision rp now pid ?r ?snap s = (Inr (revision_view s pid (?r, e)), ?s)"
    using get_revision [OF inv rv] set by (simp add: activate_routing_profile_revision_def attempt_def)
  have si: "store_inv rp ?s" using inv_activation [OF inv, of now pid ?r ?snap] act by simp
  have rt: "route ?s k = (if k = pid then Some (?r, encoded ?snap) else route s k)" for k by (simp add: route_def update_conv)
  have r0: "route s0 pid = Some (?r, encoded ?snap)" using a routing by (simp add: route_def)
  have rv': "revisions_of k ?s = revisions_of k s" for k by (rule revisions_of_same) simp
  have "returning rp s0 ?s" using si r r0 unfolding returning_def rt rv' by simp
  then show ?thesis using r0
    by (intro exI [of _ ?s] exI [of _ "revision_view s pid (?r, e)"]) (simp add: act rt)
qed

section \<open>The way back\<close>

text \<open>A snapshot of a route that was active.\<close>

definition snapshot_of :: "store \<Rightarrow> string \<Rightarrow> pydict \<Rightarrow> bool" where
  "snapshot_of s pid x \<longleftrightarrow> (\<exists>a d. map_of (st_active s) pid = Some a \<and> live s pid a d \<and> x = routing_snapshot d (ae_revision a))"

lemma snapshot_keys: "dget (routing_snapshot d r) ''profile_id'' = VStr (rpf_id d)" "dget (routing_snapshot d r) ''revision'' = VInt r"
  by (simp_all add: routing_snapshot_def dget_def)

lemma restore_one:
  assumes inv0: "store_inv rp s0" and v: "revalidates (io_su io) s0" and rp: "su_repr (io_su io) = rp"
    and r: "returning rp s0 s" and x: "snapshot_of s0 pid x"
  shows "\<exists>s'. restore_all io (x # xs) s = restore_all io xs s' \<and> returning rp s0 s' \<and> route s' pid = route s0 pid
    \<and> (\<forall>k. route s k \<noteq> None \<longrightarrow> route s' k \<noteq> None)"
proof -
  obtain a d where a: "map_of (st_active s0) pid = Some a" "live s0 pid a d" "x = routing_snapshot d (ae_revision a)"
    using x by (auto simp: snapshot_of_def)
  have id: "rpf_id d = pid" using a(2) by (simp add: live_def)
  obtain e where e: "(ae_revision a, e) \<in> set (revisions_of pid s0)" "re_document e = encoded (routing_dump d)"
    using a(2) by (auto simp: live_def)
  have rec: "get_routing_profile_revision pid (ae_revision a) s = Inr (Some (revision_view s pid (ae_revision a, e)))"
    using r e(1) by (intro get_revision) (auto simp: returning_def)
  have val: "profile_model_validate (io_su io) (VDict (routing_dump d)) = Inr d"
    using v map_of_SomeD [OF a(1)] a(2) by (auto simp: revalidates_def)
  obtain s' w where s': "activate_routing_profile_revision rp (su_now (io_su io)) pid (ae_revision a) (routing_snapshot d (ae_revision a)) s = (Inr w, s')"
    "returning rp s0 s'" "route s' pid = route s0 pid" "\<forall>k. route s k \<noteq> None \<longrightarrow> route s' k \<noteq> None"
    using reactivated [OF inv0 r a(1,2) e(1)] by blast
  have "restore_all io (x # xs) s = restore_all io xs s'"
    by (simp add: a(3) snapshot_keys id py_str_def rec revision_view_def e(2) encoded_def val rp s'(1) rbind_def Let_def)
  then show ?thesis using s'(2-4) by blast
qed

lemma restore_all_ok:
  assumes inv0: "store_inv rp s0" and v: "revalidates (io_su io) s0" and rp: "su_repr (io_su io) = rp"
  shows "returning rp s0 s \<Longrightarrow> list_all2 (snapshot_of s0) pids xs \<Longrightarrow>
    \<exists>s'. restore_all io xs s = (Inr (), s') \<and> returning rp s0 s' \<and> (\<forall>pid. pid \<in> set pids \<or> route s pid \<noteq> None \<longrightarrow> route s' pid \<noteq> None)"
proof (induction xs arbitrary: s pids)
  case Nil
  then show ?case by auto
next
  case (Cons x xs)
  then obtain pid rest where p: "pids = pid # rest" "snapshot_of s0 pid x" "list_all2 (snapshot_of s0) rest xs" by (cases pids) auto
  obtain s1 where s1: "restore_all io (x # xs) s = restore_all io xs s1" "returning rp s0 s1" "route s1 pid = route s0 pid"
    "\<forall>k. route s k \<noteq> None \<longrightarrow> route s1 k \<noteq> None"
    using restore_one [OF inv0 v rp Cons.prems(1) p(2)] by blast
  obtain s' where s': "restore_all io xs s1 = (Inr (), s')" "returning rp s0 s'"
    "\<forall>k. k \<in> set rest \<or> route s1 k \<noteq> None \<longrightarrow> route s' k \<noteq> None"
    using Cons.IH [OF s1(2) p(3)] by blast
  have "route s0 pid \<noteq> None" using p(2) by (auto simp: snapshot_of_def route_def)
  then show ?case using s1 s' p(1) by (intro exI [of _ s']) auto
qed

text \<open>Everything that was active before, and nothing else.\<close>

lemma restored:
  assumes inv0: "store_inv rp s0" and v: "revalidates (io_su io) s0" and rp: "su_repr (io_su io) = rp"
    and r: "returning rp s0 s" and xs: "list_all2 (snapshot_of s0) pids xs" "set pids = fst ` set (st_active s0)"
  obtains s' where "restore_all io xs s = (Inr (), s')" "\<And>pid. route s' pid = route s0 pid"
proof -
  obtain s' where s': "restore_all io xs s = (Inr (), s')" "returning rp s0 s'"
    "\<forall>pid. pid \<in> set pids \<or> route s pid \<noteq> None \<longrightarrow> route s' pid \<noteq> None"
    using restore_all_ok [OF inv0 v rp r xs(1)] by blast
  have "route s' pid = route s0 pid" for pid
  proof (cases "route s' pid")
    case None
    then have "pid \<notin> fst ` set (st_active s0)" using s'(3) xs(2) by blast
    then have "map_of (st_active s0) pid = None" by (simp add: map_of_eq_None_iff)
    then show ?thesis using None by (simp add: route_def)
  next
    case (Some y)
    then show ?thesis using s'(2) unfolding returning_def by (metis option.distinct(1))
  qed
  then show thesis using that s'(1) by blast
qed

lemma previous_snapshots:
  assumes w: "written_store s" and d: "distinct (map fst (st_active s))" and xs: "active_routing_snapshots s = Inr xs"
  obtains pids where "list_all2 (snapshot_of s) pids xs" "set pids = fst ` set (st_active s)"
proof -
  define rows where "rows = sort_key (\<lambda>(pid, a). (ae_published_at a, pid)) (st_active s)"
  obtain vs where vs: "map_res (\<lambda>(_, a). decode_json (ae_routing a)) rows = Inr vs"
    "xs = concat (map (\<lambda>v. case v of VDict d \<Rightarrow> [d] | _ \<Rightarrow> []) vs)"
    using xs by (auto simp: active_routing_snapshots_def rbind_eq_Inr rows_def split: if_splits)
  have row: "\<exists>x. decode_json (ae_routing (snd r)) = Inr (VDict x) \<and> snapshot_of s (fst r) x" if "r \<in> set rows" for r
  proof -
    have r: "(fst r, snd r) \<in> set (st_active s)" using that by (simp add: rows_def)
    then obtain p where p: "live s (fst r) (snd r) p" using w unfolding written_store_def by blast
    then have "decode_json (ae_routing (snd r)) = Inr (VDict (routing_snapshot p (ae_revision (snd r))))"
      by (simp add: live_def decode_json_def encoded_def)
    moreover have "map_of (st_active s) (fst r) = Some (snd r)" using r d by simp
    ultimately show ?thesis using p by (auto simp: snapshot_of_def)
  qed
  have "\<exists>ds. map_res (\<lambda>(_, a). decode_json (ae_routing a)) rs = Inr (map VDict ds) \<and> list_all2 (snapshot_of s) (map fst rs) ds"
    if "set rs \<subseteq> set rows" for rs
    using that
  proof (induction rs)
    case (Cons r rs)
    obtain x where x: "decode_json (ae_routing (snd r)) = Inr (VDict x)" "snapshot_of s (fst r) x"
      using row [of r] Cons.prems by (meson list.set_intros(1) subsetD)
    obtain ds where "map_res (\<lambda>(_, a). decode_json (ae_routing a)) rs = Inr (map VDict ds)" "list_all2 (snapshot_of s) (map fst rs) ds"
      using Cons by auto
    then show ?case using x by (intro exI [of _ "x # ds"], cases r) (simp add: rbind_def)
  qed simp
  then obtain ds where ds: "map_res (\<lambda>(_, a). decode_json (ae_routing a)) rows = Inr (map VDict ds)" "list_all2 (snapshot_of s) (map fst rows) ds"
    by blast
  have c: "concat (map (\<lambda>v. case v of VDict d \<Rightarrow> [d] | _ \<Rightarrow> []) (map VDict ys)) = ys" for ys by (induction ys) simp_all
  have "vs = map VDict ds" using vs(1) ds(1) by simp
  then have "xs = ds" using vs(2) c [of ds] by (simp only:)
  then show thesis using that [of "map fst rows"] ds(2) by (simp add: rows_def)
qed

section \<open>From the publication to its failure\<close>

lemma same_routing_routes: "same_routing s s' \<Longrightarrow> route s' = route s" "same_routing s s' \<Longrightarrow> revisions_of k s' = revisions_of k s"
  by (simp_all add: same_routing_def route_def revisions_of_def fun_eq_iff)

lemma save_setup_routing: "same_routing (mg_store m) (mg_store (snd (save_setup io d m)))"
  by (auto simp: save_setup_def save_capability_setup_def same_routing_def split: sum.splits option.splits)

lemma record_event_routing: "same_routing (mg_store m) (mg_store (snd (record_event io d st msg m)))"
  by (auto simp: record_event_def record_capability_setup_event_def attempt_def same_routing_def Let_def)

lemma same_routing_trans: "same_routing s s' \<Longrightarrow> same_routing s' s'' \<Longrightarrow> same_routing s s''" by (simp add: same_routing_def)

lemma transition_routing:
  assumes "transition_setup io d st msg m = (r, m')" shows "same_routing (mg_store m) (mg_store m')"
proof -
  obtain x m1 where x: "save_setup io (entering io st d) m = (x, m1)" by fastforce
  have "same_routing (mg_store m) (mg_store m1)" using save_setup_routing x by (metis snd_conv)
  moreover have "same_routing (mg_store m1) (mg_store (snd (record_event io (entering io st d) st msg m1)))" by (rule record_event_routing)
  ultimately show ?thesis using assms x
    by (auto simp: transition_setup_def Let_def split: sum.splits prod.splits dest: same_routing_trans)
qed

text \<open>The store while the published route is verified: apart from the target, the routes are as before.\<close>

definition published_over :: "(pyval \<Rightarrow> string) \<Rightarrow> store \<Rightarrow> string \<Rightarrow> store \<Rightarrow> bool" where
  "published_over rp s0 target s \<longleftrightarrow> store_inv rp s \<and> (\<forall>pid. set (revisions_of pid s0) \<subseteq> set (revisions_of pid s))
     \<and> (\<forall>pid. pid \<noteq> target \<longrightarrow> route s pid = route s0 pid)"

lemma published_over_same: "published_over rp s0 target s \<Longrightarrow> same_routing s s' \<Longrightarrow> published_over rp s0 target s'"
  using inv_same [of rp s s'] by (simp add: published_over_def same_routing_routes)

lemma over_deactivated:
  assumes "published_over rp s0 target s"
  shows "returning rp s0 (snd (deactivate_routing_profile target s))"
proof -
  let ?s = "snd (deactivate_routing_profile target s)"
  have "route ?s k = (if k = target then None else route s k)" for k
    by (simp add: route_def deactivate_routing_profile_def delete_conv)
  moreover have "revisions_of k ?s = revisions_of k s" for k by (rule revisions_of_same) (simp add: deactivate_routing_profile_def)
  ultimately show ?thesis using assms inv_deactivate [of rp s target] by (simp add: published_over_def returning_def)
qed

lemma draft_routes:
  assumes inv: "store_inv rp s" and d: "save_routing_profile_draft rp now doc s = (r, s')"
  shows "store_inv rp s' \<and> st_active s' = st_active s \<and> st_revisions s' = st_revisions s"
proof -
  have "store_inv rp s'" using inv_save_draft [OF inv, of now doc] d by simp
  then show ?thesis using d
    by (auto simp: save_routing_profile_draft_def after_commit_def attempt_def reading_def put_draft_def rbind_def Let_def
        split: sum.splits prod.splits if_splits)
qed

lemma publish_routes:
  assumes inv: "store_inv rp s" and p: "publish_routing_profile rp now (routing_dump d) (routing_snapshot d 0) s = (Inr x, s')"
  shows "published_over rp s (rpf_id d) s'"
proof -
  obtain pid r where put: "put_publication rp now (routing_dump d) (routing_snapshot d 0) s = Inr ((pid, r), s')"
    using p by (auto simp: publish_routing_profile_def after_commit_def attempt_def reading_def split: sum.splits prod.splits)
  have i: "pid = rpf_id d" using put by (auto simp: put_publication_def rbind_eq_Inr py_index_def py_str_def Let_def split: if_splits)
  obtain s1 e where s1: "s1 = s\<lparr>st_revisions := st_revisions s @ [((pid, r), e)]\<rparr>"
    "set_active_routing_profile rp now pid r (routing_snapshot d 0) s1 = Inr s'"
    using publication_steps [OF inv put] by blast
  obtain a where a: "s' = s1\<lparr>st_active := AList.update pid a (st_active s1), st_last_activation := Some (pid, a)\<rparr>"
    using published_row [OF s1(2)] by blast
  have rv: "revisions_of k s' = revisions_of k s @ (if k = pid then [(r, e)] else [])" for k
    by (rule revisions_of_append) (simp add: a s1(1))
  have "route s' k = route s k" if "k \<noteq> pid" for k using that by (simp add: route_def a s1(1) update_conv)
  then show ?thesis using inv_publication [OF inv put] i by (auto simp: published_over_def rv)
qed

lemma publish_target_routes:
  assumes inv: "store_inv rp (mg_store m)" and rp: "su_repr (io_su io) = rp" and p: "publish_target io d m = (Inr r, m')"
  shows "published_over rp (mg_store m) (rpf_id d) (mg_store m')"
proof -
  obtain x s1 where x: "save_routing_profile_draft rp (su_now (io_su io)) (routing_dump d) (mg_store m) = (Inr x, s1)"
    using p by (auto simp: publish_target_def rp Let_def split: sum.splits prod.splits)
  note s1 = draft_routes [OF inv x]
  obtain y s2 where y: "publish_routing_profile rp (su_now (io_su io)) (routing_dump d) (routing_snapshot d 0) s1 = (Inr y, s2)"
    "mg_store m' = s2"
    using p x by (auto simp: publish_target_def rp Let_def rbind_eq_Inr split: prod.splits)
  have "route s1 = route (mg_store m)" using s1 by (simp add: route_def fun_eq_iff)
  moreover have "revisions_of k s1 = revisions_of k (mg_store m)" for k by (rule revisions_of_same) (simp add: s1)
  ultimately show ?thesis using publish_routes [OF conjunct1 [OF s1] y(1)] by (simp add: published_over_def y(2))
qed

lemma unpublished_ends:
  assumes "publication_checks io sid q fp m = Inr (d0, plan, previous)"
    and "transition_setup io (set_key ''error'' VNone d0) ''publishing'' ''Publishing the reviewed Routing Profile'' m = (Inr d, m1)"
    and "profile_model_validate (io_su io) (VDict (routing_dump (pb_target plan))) = Inr target"
    and "publish_target io target m1 = (Inl e, m2)"
  shows "fst (publication_begins io sid q fp m) \<noteq> Inr p"
  by (cases e) (simp_all add: publication_begins_def assms case_prod_beta)

lemma begun_publication:
  assumes inv: "store_inv rp (mg_store m)" and rp: "su_repr (io_su io) = rp" and b: "publication_begins io sid q fp m = (Inr p, m')"
  shows "published_over rp (mg_store m) (rpf_id (pc_target p)) (mg_store m')"
    and "active_routing_snapshots (mg_store m) = Inr (pc_previous p)"
proof -
  obtain d0 plan previous where c: "publication_checks io sid q fp m = Inr (d0, plan, previous)"
    using b by (auto simp: publication_begins_def split: sum.splits)
  obtain d m1 where t: "transition_setup io (set_key ''error'' VNone d0) ''publishing'' ''Publishing the reviewed Routing Profile'' m = (Inr d, m1)"
    using b c by (auto simp: publication_begins_def split: sum.splits prod.splits)
  obtain target where v0: "profile_model_validate (io_su io) (VDict (routing_dump (pb_target plan))) = Inr target"
    using b c t by (cases "profile_model_validate (io_su io) (VDict (routing_dump (pb_target plan)))") (simp_all add: publication_begins_def)
  obtain x m2 where x: "publish_target io target m1 = (x, m2)" by fastforce
  obtain revision where "x = Inr revision"
  proof (cases x)
    case (Inl e)
    have "fst (publication_begins io sid q fp m) \<noteq> Inr p"
      by (rule unpublished_ends [OF c t v0]) (simp add: x Inl)
    then show ?thesis using b by simp
  qed
  note target = v0 x [unfolded this]
  let ?m = "m2\<lparr>mg_store := set_configuration_value ''guided_profile_id'' (rpf_id target) (mg_store m2)\<rparr>"
  obtain v where v: "publication_verifies io (set_key ''publication'' v d) q target previous ?m = (Inr p, m')"
    using b c t target by (auto simp: publication_begins_def)
  obtain d2 where v2: "transition_setup io (set_key ''publication'' v d) ''verifying-route'' ''Exercising the published local route'' ?m = (Inr d2, m')"
    "pc_target p = target" "pc_previous p = previous"
    using v by (auto simp: publication_verifies_def split: sum.splits prod.splits option.splits)
  have s1: "same_routing (mg_store m) (mg_store m1)" by (rule transition_routing [OF t])
  have inv1: "store_inv rp (mg_store m1)" by (rule inv_same [OF inv s1])
  have "published_over rp (mg_store m1) (rpf_id target) (mg_store m2)" by (rule publish_target_routes [OF inv1 rp target(2)])
  moreover have "same_routing (mg_store m2) (mg_store m')"
    using transition_routing [OF v2(1)] by (simp add: same_routing_def set_configuration_value_def)
  ultimately have "published_over rp (mg_store m1) (rpf_id target) (mg_store m')" by (rule published_over_same)
  then show "published_over rp (mg_store m) (rpf_id (pc_target p)) (mg_store m')"
    using s1 v2(2) by (simp add: published_over_def same_routing_def route_def revisions_of_def)
  show "active_routing_snapshots (mg_store m) = Inr (pc_previous p)"
    using c v2(3) by (auto simp: publication_checks_def rbind_eq_Inr invalid_profile_def split: if_splits)
qed

lemma smoke_routing: "same_routing (mg_store m) (mg_store (snd (smoke_entry su px post pid cid ds found m)))"
  by (auto simp: smoke_entry_def rehearse_route_tool_calling_def save_route_tool_calling_rehearsal_def same_routing_def Let_def
      split: prod.splits sum.splits)

lemma entering_state: "setup_state (entering io st d) = st" "dget (entering io st d) ''id'' = dget d ''id''"
  by (simp_all add: entering_def setup_state_def)

lemma verification_failed:
  assumes d: "docs_ok rp (mg_store m)" and c: "claim_sound rp (mg_store m) doc"
    and inv0: "store_inv rp s0" and v: "revalidates (io_su io) s0" and rp: "su_repr (io_su io) = rp"
    and over: "published_over rp s0 target (mg_store m)"
    and xs: "list_all2 (snapshot_of s0) pids previous" "set pids = fst ` set (st_active s0)"
  shows "\<exists>d k m'. publication_ends io doc target previous (Inl (HTTPException code why)) m = (Inr d, m')
    \<and> setup_state d = ''failed'' \<and> dget d ''id'' = VStr k \<and> recorded (mg_store m') k ''failed''
    \<and> (\<forall>pid. route (mg_store m') pid = route s0 pid)"
proof -
  let ?s = "snd (deactivate_routing_profile target (mg_store m))"
  obtain s' where s': "restore_all io previous ?s = (Inr (), s')" "\<And>pid. route s' pid = route s0 pid"
    using restored [OF inv0 v rp over_deactivated [OF over] xs] by blast
  have "spares ?s s'" using restore_spares [of ?s io previous] s'(1) by simp
  then have g: "grows rp (mg_store m) (mg_store (m\<lparr>mg_store := s'\<rparr>))"
    by (intro spares_grows [OF d]) (simp add: spares_def deactivate_routing_profile_def)
  let ?err = "error_document ''route_verification_failed'' (py_str (su_repr (io_su io)) why) ''gateway'' (VStr ''verifying-route'') True"
  obtain k where k: "copy_of (mg_store (m\<lparr>mg_store := s'\<rparr>)) k doc" using claim_grows [OF c g] by (auto simp: claim_sound_def)
  then have k': "copy_of (mg_store (m\<lparr>mg_store := s'\<rparr>)) k (set_key ''error'' ?err doc)" by (rule copy_of_cong) simp_all
  have e: "evidence_ok rp (mg_store (m\<lparr>mg_store := s'\<rparr>)) (entering io ''failed'' (set_key ''error'' ?err doc))"
    by (simp add: evidence_ok_def entering_state PUBLISHABLE_def)
  obtain m' where m': "transition_setup io (set_key ''error'' ?err doc) ''failed'' ''Route verification failed; prior routing restored''
        (m\<lparr>mg_store := s'\<rparr>) = (Inr (entering io ''failed'' (set_key ''error'' ?err doc)), m')"
    "recorded (mg_store m') k ''failed''"
    by (rule transition_ok [OF growsD(1) [OF g] k' e]) blast
  have "route (mg_store m') = route s'" using same_routing_routes(1) [OF transition_routing [OF m'(1)]] by simp
  then show ?thesis using m' k' s'
    by (intro exI [of _ "entering io ''failed'' (set_key ''error'' ?err doc)"] exI [of _ k] exI [of _ m'])
      (simp add: publication_ends_def entering_state copy_of_def raised_def)
qed

end
