(* ===== verification/Setups_Properties.thy ===== *)
theory Setups_Properties
  imports Setups_Rollback
begin

text \<open>
  The properties of guided setups: publication rests on evidence, a task that ends has recorded how, a
  restart leaves no setup half way; and where the handlers fall short.
\<close>

section \<open>The properties\<close>

text \<open>C37: A setup is published only on evidence: in every run of the setup handlers, background tasks and restarts, in any
  order and with any other handler in between, a stored setup that waits for its publication, is being
  published or has been published names a recorded test that succeeded for the capability of its plan.
  The run starts from any state in which this holds of the stored setups and of the suspended tasks
  (world_ok), such as a state without setups.\<close>

theorem published_setup_rests_on_evidence:
  assumes "world_ok rp w" and "\<forall>(io, op)\<in>set ops. su_repr (io_su io) = rp"
    and "stored (mg_store (sw_management (run_setups ops w))) sid d"
    and "setup_state d \<in> {''awaiting-publication'', ''publishing'', ''verifying-route'', ''succeeded''}"
  shows "\<exists>t ev. t \<in> set (st_tests (mg_store (sw_management (run_setups ops w)))) \<and> dget d ''evidence_id'' = VInt (int (te_id t))
    \<and> te_result t = ''tested-working'' \<and> te_evidence t = encoded ev
    \<and> dget ev ''capability_id'' = VStr (py_str rp (dget (worker_plan d) ''capability_id''))"
proof -
  have "evidence_ok rp (mg_store (sw_management (run_setups ops w))) d"
    by (rule stored_facts(2) [OF run_setups_proper [OF assms(1,2)] assms(3)])
  then have "evidenced rp (mg_store (sw_management (run_setups ops w))) d" using assms(4) unfolding evidence_ok_def PUBLISHABLE_def by blast
  then show ?thesis unfolding evidenced_def .
qed

text \<open>A background task ends only with a record of its end: whatever wakes it, a task that stops has
  stored its setup as cancelled, failed or awaiting publication; and it alone held the lock.\<close>

theorem task_records_its_end:
  assumes "world_ok rp w" and "\<forall>(io, op)\<in>set ops. su_repr (io_su io) = rp" and "su_repr (io_su io) = rp"
    and "map_of (sw_tasks (run_setups ops w)) sid = Some p" and "task_running p"
    and "run_wakes io k p (sw_management (run_setups ops w)) = Some (Finished, m)"
  shows "sw_holder (run_setups ops w) = Some sid"
    and "\<exists>d. stored (mg_store m) sid d \<and> setup_state d \<in> {''cancelled'', ''failed'', ''awaiting-publication''}"
proof -
  have w: "world_ok rp (run_setups ops w)" by (rule run_setups_proper [OF assms(1,2)])
  then have h: "sw_holder (run_setups ops w) = Some sid" and s: "settled rp (mg_store (sw_management (run_setups ops w))) sid p"
    using assms(4,5) unfolding world_ok_def Let_def by blast+
  show "sw_holder (run_setups ops w) = Some sid" by (rule h)
  have "settled rp (mg_store m) sid Finished"
    using run_wakes_ok [OF assms(6) s world_docs [OF w] assms(3)] by (simp add: outcome_ok_def)
  then show "\<exists>d. stored (mg_store m) sid d \<and> setup_state d \<in> {''cancelled'', ''failed'', ''awaiting-publication''}"
    using recorded_stored by (fastforce simp: settled_def ENDED_def)
qed

text \<open>A restart leaves no setup half way: when the recovery returns, no stored setup is being applied,
  started, qualified, paused, published or verified, and each queued one has a task that waits for the lock.\<close>

theorem restart_leaves_nothing_midway:
  assumes "world_ok rp w" and "fst (reconcile_setups io (shutdown_setups w)) = Inr ()"
    and "w' = snd (reconcile_setups io (shutdown_setups w))" and "stored (mg_store (sw_management w')) sid d"
  shows "setup_state d \<notin> {''applying-policy'', ''creating-worker'', ''starting-worker'', ''verifying-identity'', ''qualifying'',
      ''waiting-for-thermal-capacity'', ''publishing'', ''verifying-route''}"
    and "setup_state d = ''queued'' \<Longrightarrow> map_of (sw_tasks w') sid = Some Waiting"
proof -
  have "resumed w' sid"
    using reconcile_setups_ok(2) [OF shutdown_ok(1) [OF assms(1)] shutdown_ok(2) assms(2)] assms(3,4) by simp
  then show "setup_state d \<notin> {''applying-policy'', ''creating-worker'', ''starting-worker'', ''verifying-identity'', ''qualifying'',
      ''waiting-for-thermal-capacity'', ''publishing'', ''verifying-route''}"
    and "setup_state d = ''queued'' \<Longrightarrow> map_of (sw_tasks w') sid = Some Waiting"
    using assms(4) by (auto simp: resumed_def stored_def MIDWAY_def encoded_def)
qed

section \<open>Concrete setups\<close>

definition setup_test :: test_entry where
  "setup_test = \<lparr>te_id = 1, te_fingerprint = ''f'', te_result = ''tested-working'', te_failure_class = None,
     te_evidence = encoded [(''capability_id'', VStr ''general-chat'')], te_tested_at = ''t''\<rparr>"

definition example_setup :: "string \<Rightarrow> pydict" where
  "example_setup state = [(''id'', VStr ''s1''), (''state'', VStr state), (''evidence_id'', VInt 1),
     (''plan'', VDict [(''worker'', VDict [(''capability_id'', VStr ''general-chat'')])]), (''cancel_requested'', VBool False)]"

definition setup_start :: "string \<Rightarrow> setup_world" where
  "setup_start state = no_setups (chat_start\<lparr>mg_store := empty_store\<lparr>st_tests := [setup_test],
     st_setups := [(''s1'', \<lparr>se_request_id = ''q'', se_request_fingerprint = ''f'', se_document = encoded (example_setup state),
       se_created_at = ''t'', se_updated_at = ''t''\<rparr>)]\<rparr>\<rparr>)"

definition chat_io :: "string \<Rightarrow> setup_io" where
  "chat_io uuid = \<lparr>io_su = chat_surroundings uuid, io_thermal = chat_thermal, io_selection_fields = (\<lambda>_. Inl (ValueError [])),
     io_create_fields = (\<lambda>_. Inr chat_request), io_fingerprint = (\<lambda>_. ''fp''), io_uuid5 = (\<lambda>_ n. n)\<rparr>"

lemma chat_io_repr: "su_repr (io_su (chat_io u)) = (\<lambda>_. [])" by (simp add: chat_io_def chat_surroundings_def)

lemma example_setup_simps: "dget (example_setup st) ''id'' = VStr ''s1''" "setup_state (example_setup st) = st"
  "dget (example_setup st) ''evidence_id'' = VInt 1" "dget (worker_plan (example_setup st)) ''capability_id'' = VStr ''general-chat''"
  by (simp_all add: example_setup_def dget_def setup_state_def worker_plan_def as_mapping_def)

lemma setup_start_stores: "stored (mg_store (sw_management (setup_start st))) ''s1'' (example_setup st)"
  by (simp add: stored_def setup_start_def no_setups_def)

lemma setup_start_ok: "world_ok (\<lambda>_. []) (setup_start st)"
proof -
  have "evidenced (\<lambda>_. []) (mg_store (sw_management (setup_start st))) (example_setup st)"
    unfolding evidenced_def
    by (rule exI [of _ setup_test], rule exI [of _ "[(''capability_id'', VStr ''general-chat'')]"])
      (simp add: setup_start_def no_setups_def example_setup_simps setup_test_def py_str_def, simp add: dget_def)
  then have "docs_ok (\<lambda>_. []) (mg_store (sw_management (setup_start st)))"
    by (auto simp: docs_ok_def evidence_ok_def setup_start_def no_setups_def example_setup_simps)
  then show ?thesis by (simp add: world_ok_def Let_def) (simp add: setup_start_def no_setups_def)
qed

lemma got_setup: "get_capability_setup sid s = Inr (Some (VDict d)) \<Longrightarrow> stored s sid d"
  by (auto simp: get_capability_setup_def stored_def decode_json_def encoded_def rbind_eq_Inr split: option.splits)

text \<open>A publication that a restart interrupted waits for its review again.\<close>

lemma interrupted_publication:
  "case get_capability_setup ''s1'' (mg_store (sw_management (run_setups [(chat_io ''u'', Restarts)] (setup_start ''publishing'')))) of
     Inr (Some (VDict d)) \<Rightarrow> setup_state d = ''awaiting-publication'' | _ \<Rightarrow> False"
  by code_simp

theorem published_setup_rests_on_evidence_witness:
  "\<exists>d (t :: test_entry). stored (mg_store (sw_management (run_setups [(chat_io ''u'', Restarts)] (setup_start ''publishing'')))) ''s1'' d
     \<and> setup_state d = ''awaiting-publication'' \<and> te_result t = ''tested-working'' \<and> dget d ''evidence_id'' = VInt (int (te_id t))"
proof -
  let ?w = "run_setups [(chat_io ''u'', Restarts)] (setup_start ''publishing'')"
  obtain d where d: "get_capability_setup ''s1'' (mg_store (sw_management ?w)) = Inr (Some (VDict d))" "setup_state d = ''awaiting-publication''"
    using interrupted_publication by (auto split: sum.splits option.splits pyval.splits)
  have r: "\<forall>(io, op)\<in>set [(chat_io ''u'', Restarts)]. su_repr (io_su io) = (\<lambda>_. [])" by (simp add: chat_io_repr)
  have p: "setup_state d \<in> {''awaiting-publication'', ''publishing'', ''verifying-route'', ''succeeded''}" by (simp add: d(2))
  obtain t :: test_entry where "te_result t = ''tested-working''" "dget d ''evidence_id'' = VInt (int (te_id t))"
    using published_setup_rests_on_evidence [OF setup_start_ok r got_setup [OF d(1)] p] by blast
  then show ?thesis using got_setup [OF d(1)] d(2) by blast
qed

definition starting_frame :: run_frame where
  "starting_frame = \<lparr>fr_id = ''s1'', fr_setup = example_setup ''starting-worker'', fr_plan = worker_plan (example_setup ''starting-worker''),
     fr_worker = chat_uuid\<rparr>"

definition starting_world :: setup_world where
  "starting_world = (setup_start ''starting-worker'')\<lparr>sw_tasks := [(''s1'', Starting starting_frame)], sw_holder := Some ''s1''\<rparr>"

lemma starting_frame_ok: "frame_ok (\<lambda>_. []) (mg_store (sw_management (setup_start ''starting-worker''))) ''s1'' starting_frame"
  using stored_facts [OF setup_start_ok setup_start_stores] by (simp add: frame_ok_def starting_frame_def)

lemma starting_world_ok: "world_ok (\<lambda>_. []) starting_world"
  using setup_start_ok [of "''starting-worker''"] starting_frame_ok
  by (simp add: world_ok_def Let_def starting_world_def settled_def setup_start_def no_setups_def)

theorem task_records_its_end_witness:
  "\<exists>m d. run_wakes (chat_io ''u'') (Start_Returned (Lifecycle_Raises (RuntimeError ''exited''))) (Starting starting_frame)
       (sw_management starting_world) = Some (Finished, m)
     \<and> stored (mg_store m) ''s1'' d \<and> setup_state d \<in> {''cancelled'', ''failed'', ''awaiting-publication''}"
proof -
  let ?k = "Start_Returned (Lifecycle_Raises (RuntimeError ''exited''))"
  have "fst (run_fails io f e m) = Finished" for io f e m by (simp add: run_fails_def Let_def split: sum.split)
  then obtain m where m: "run_wakes (chat_io ''u'') ?k (Starting starting_frame) (sw_management starting_world) = Some (Finished, m)"
    by (simp add: start_returned_def) (metis prod.collapse)
  have "map_of (sw_tasks (run_setups [] starting_world)) ''s1'' = Some (Starting starting_frame)" "task_running (Starting starting_frame)"
    by (simp_all add: run_setups_def starting_world_def task_running_def)
  then show ?thesis
    using task_records_its_end(2) [OF starting_world_ok _ chat_io_repr, where ops = "[]" and sid = "''s1''" and p = "Starting starting_frame"
        and k = ?k and m = m] m
    by (auto simp: run_setups_def)
qed

lemma restarted_setup:
  "fst (reconcile_setups (chat_io ''u'') (shutdown_setups starting_world)) = Inr ()
   \<and> (case get_capability_setup ''s1'' (mg_store (sw_management (snd (reconcile_setups (chat_io ''u'') (shutdown_setups starting_world))))) of
     Inr (Some (VDict d)) \<Rightarrow> setup_state d = ''queued'' | _ \<Rightarrow> False)"
  by code_simp

theorem restart_leaves_nothing_midway_witness:
  "map_of (sw_tasks (snd (reconcile_setups (chat_io ''u'') (shutdown_setups starting_world)))) ''s1'' = Some Waiting"
proof -
  let ?w = "snd (reconcile_setups (chat_io ''u'') (shutdown_setups starting_world))"
  obtain d where d: "get_capability_setup ''s1'' (mg_store (sw_management ?w)) = Inr (Some (VDict d))" "setup_state d = ''queued''"
    using restarted_setup by (auto split: sum.splits option.splits pyval.splits)
  show ?thesis
    using restart_leaves_nothing_midway(2) [OF starting_world_ok _ refl got_setup [OF d(1)] d(2)] restarted_setup by blast
qed

section \<open>Where the handlers fall short\<close>

text \<open>A cancellation that is requested while the task waits for a worker is lost: the task stores its own copy of the
  document, in which nothing was requested. Here the operator asks while the worker starts, and the start is refused
  for thermal reasons; the pause that follows reads the overwritten document.\<close>

lemma cancel_is_overwritten:
  "fst (request_cancel (chat_io ''u'') ''s1'' starting_world) \<noteq> None \<and>
   (case get_capability_setup ''s1'' (mg_store (sw_management (run_setups [(chat_io ''u'', Requests_Cancel ''s1'')] starting_world))) of
     Inr (Some (VDict d)) \<Rightarrow> dget d ''cancel_requested'' = VBool True | _ \<Rightarrow> False) \<and>
   (case get_capability_setup ''s1'' (mg_store (sw_management (run_setups [(chat_io ''u'', Requests_Cancel ''s1''),
       (chat_io ''u'', Resumes ''s1'' (Start_Returned (Lifecycle_Thermal decision)))] starting_world))) of
     Inr (Some (VDict d)) \<Rightarrow> dget d ''cancel_requested'' = VBool False | _ \<Rightarrow> False)"
  by code_simp

text \<open>A rehearsal that fails does not fail the publication: its answer is \<open>ok: false\<close> and no \<open>HTTPException\<close>.\<close>

lemma failed_rehearsal_succeeds:
  assumes "smoke_entry (io_su io) px post (rpf_id (pc_target p)) (pc_binding p) (pc_definitions p) (pc_found p) m = (Inr (False, state), m1)"
    and "docs_ok rp (mg_store m1)" and "claim_sound rp (mg_store m1) (pc_setup p)"
  shows "\<exists>d m2. publication_answered io px post p m = (Inr d, m2) \<and> setup_state d = ''succeeded''"
proof -
  obtain m2 where "transition_setup io (pc_setup p) ''succeeded'' ''Capability is published and serving locally'' m1
      = (Inr (entering io ''succeeded'' (pc_setup p)), m2)" by (rule claim_transition [OF assms(2,3)])
  then show ?thesis by (simp add: publication_answered_def assms(1) publication_ends_def raised_def entering_state)
qed

lemma unreachable_gateway_succeeds:
  assumes "dget (snd (pc_found p)) ''tool_calling_enabled'' = VBool True"
    and "rbind (py_index (VDict (fst (pc_found p))) ''revision'') py_int_of = Inr revision"
    and "fst (post (list_request (entry_text (snd (pc_found p)) ''public_name''))) = Inl (TransportFailure e)"
    and "docs_ok rp (mg_store m)" and "claim_sound rp (mg_store m) (pc_setup p)"
  shows "\<exists>d m2. publication_answered io px post p m = (Inr d, m2) \<and> setup_state d = ''succeeded''"
proof -
  obtain state m1 where s: "smoke_entry (io_su io) px post (rpf_id (pc_target p)) (pc_binding p) (pc_definitions p) (pc_found p) m = (Inr (False, state), m1)"
    using unreachable_gateway_answers [where post = post, OF assms(3)] assms(1,2) by (cases "pc_found p") (fastforce simp: smoke_entry_def raised_def)
  have "grows rp (mg_store m) (mg_store m1)" using spares_grows [OF assms(4) smoke_entry_spares] s by (metis snd_conv)
  then show ?thesis using failed_rehearsal_succeeds [OF s] growsD(1) claim_grows [OF assms(5)] by blast
qed

text \<open>The reviewed plan lists the policies that the setup will change, so a setup that has applied them is refused a
  retry: its preview has become another document.\<close>

lemma retry_needs_a_new_review:
  assumes "setup_preview io s m = Inr (plan, fp)" and "setup_preview io s m' = Inr (plan', fp')"
    and "\<not> model_capability_allowed (sl_model_id s) (sl_revision s) (sl_capability_id s) (mg_store m)"
    and "model_capability_allowed (sl_model_id s) (sl_revision s) (sl_capability_id s) (mg_store m')"
    and "inj (io_fingerprint io)"
  shows "fp \<noteq> fp'"
proof -
  have plan: "\<exists>w basis reg. plan = setup_plan_of s w basis reg n \<and> fp = io_fingerprint io plan"
    if "setup_preview io s n = Inr (plan, fp)" for n plan fp
    using that by (auto simp: setup_preview_def Let_def rbind_eq_Inr refused_def split: option.splits if_splits) blast
  obtain w b r w' b' r' where p: "plan = setup_plan_of s w b r m" "fp = io_fingerprint io plan"
    "plan' = setup_plan_of s w' b' r' m'" "fp' = io_fingerprint io plan'"
    using plan [OF assms(1)] plan [OF assms(2)] by blast
  have "plan \<noteq> plan'" using assms(3,4) by (simp add: p setup_plan_of_def)
  then show ?thesis using assms(5) p by (simp add: inj_eq)
qed

text \<open>A verification that ends with another exception leaves the setup in \<open>verifying-route\<close>; until a restart it can
  be neither cancelled nor retried.\<close>

lemma stuck_verification:
  assumes "setup_or_404 sid (sw_management w) = Inr d" and "setup_state d = ''verifying-route''"
    and "require_mutable (io_su io) = Inr ()"
  shows "publication_ends io d target previous (Inl (Raised e)) (sw_management w) = (Inl (Raised e), sw_management w)"
    "request_cancel io sid w = (Some (refused 409 ''Publishing has started and can no longer be cancelled''), w)"
    "retry_setup io sid w = (refused 409 ''Only a failed or cancelled setup can be retried'', w)"
  using assms by (simp_all add: publication_ends_def request_cancel_def retry_setup_def retry_checks_def rbind_def refused_def Let_def)

text \<open>A cancellation that had to wait for the worker records \<open>cancelled\<close> over a publication that ended meanwhile.\<close>

lemma late_cancel_overwrites:
  assumes "docs_ok rp (mg_store (sw_management w))" and "claim_sound rp (mg_store (sw_management w)) d"
  shows "\<exists>d' w'. cancel_ends io d w = (Inr d', w') \<and> setup_state d' = ''cancelled'' \<and> st_active (mg_store (sw_management w')) = st_active (mg_store (sw_management w))"
proof -
  obtain m' where t: "transition_setup io d ''cancelled'' ''Setup cancelled; the Worker was retained'' (sw_management w)
      = (Inr (entering io ''cancelled'' d), m')" by (rule claim_transition [OF assms])
  then show ?thesis using transition_routing [OF t] by (simp add: cancel_ends_def raised_def entering_state same_routing_def)
qed

text \<open>Two requests that the typed models accept and the handlers answer with an uncaught validation error.\<close>

lemma blank_name_raises:
  "validate_create (planned_worker (s\<lparr>sl_worker_name := ''  ''\<rparr>) template artifact t n) = Inl (ValueError ''name'')"
  by (simp add: validate_create_def planned_worker_def Let_def spaced_name_def py_words.simps is_space_def label_length_def)

lemma replaced_backup_repeats:
  assumes "VStr wid \<in> set (drop 1 (items (dget current ''worker_ids'')))"
  shows "\<not> distinct (items (dget (replaced_binding q wid current) ''worker_ids''))"
  using assms by (simp add: replaced_binding_def merged_def dget_def items_def)

end
