(* ===== verification/Setups_Publication.thy ===== *)
theory Setups_Publication
  imports Setups_Properties
begin

text \<open>
  A publication that fails its verification restores the routes that were active, and a run in which
  that happens: a second capability is added to a live profile while no gateway answers.
\<close>

section \<open>The property\<close>

text \<open>A publication that fails gives the routes back: when the gateway does not serve the route that was just
  published, the handler answers with the failed setup, has recorded it as failed, and every profile is routed as
  it was before the publication began: at the same revision, with the same snapshot, or not at all.\<close>

theorem failed_publication_restores_routes:
  assumes "management_inv rp m0" and "docs_ok rp (mg_store m0)" and "revalidates (io_su io') (mg_store m0)"
    and "su_repr (io_su io) = rp" and "su_repr (io_su io') = rp"
    and "publication_begins io sid q fp m0 = (Inr p, m1)"
    and "fst (smoke_entry (io_su io') px post (rpf_id (pc_target p)) (pc_binding p) (pc_definitions p) (pc_found p) m1)
       = Inl (HTTPException code why)"
  shows "\<exists>d k m2. publication_answered io' px post p m1 = (Inr d, m2) \<and> setup_state d = ''failed''
    \<and> dget d ''id'' = VStr k \<and> recorded (mg_store m2) k ''failed'' \<and> (\<forall>pid. route (mg_store m2) pid = route (mg_store m0) pid)"
proof -
  have inv0: "store_inv rp (mg_store m0)" and w: "written_store (mg_store m0)" using assms(1) by (simp_all add: management_inv_def)
  have pend: "grows rp (mg_store m0) (mg_store m1)" "claim_sound rp (mg_store m1) (pc_setup p)"
    using publication_begins_ok [OF assms(2), of io sid q fp] assms(6) by (simp_all add: pending_ok_def)
  obtain m2 where m2: "smoke_entry (io_su io') px post (rpf_id (pc_target p)) (pc_binding p) (pc_definitions p) (pc_found p) m1
      = (Inl (HTTPException code why), m2)" using assms(7) by (metis prod.collapse)
  have sp: "grows rp (mg_store m1) (mg_store m2)" using spares_grows [OF growsD(1) [OF pend(1)] smoke_entry_spares] m2 by (metis snd_conv)
  have over: "published_over rp (mg_store m0) (rpf_id (pc_target p)) (mg_store m2)"
    using published_over_same [OF begun_publication(1) [OF inv0 assms(4,6)] smoke_routing] m2 by (metis snd_conv)
  have "distinct (map fst (st_active (mg_store m0)))" using inv0 by (simp add: store_inv_def)
  then obtain pids where "list_all2 (snapshot_of (mg_store m0)) pids (pc_previous p)" "set pids = fst ` set (st_active (mg_store m0))"
    using previous_snapshots [OF w _ begun_publication(2) [OF inv0 assms(4,6)]] by blast
  from verification_failed [OF growsD(1) [OF sp] claim_grows [OF pend(2) sp] inv0 assms(3,5) over this]
  show ?thesis by (simp add: publication_answered_def m2)
qed

section \<open>A publication that fails\<close>

definition booth_activation :: active_entry where
  "booth_activation = \<lparr>ae_revision = 1, ae_routing = encoded (routing_snapshot chat_profile 1), ae_published_at = ''t''\<rparr>"

definition booth_published :: "supervisor \<Rightarrow> management" where
  "booth_published sv = management_step (chat_surroundings ''u2'', Publishes_Profile (rpf_id chat_profile)) (chat_drafted sv)"

definition booth_store :: store where
  "booth_store = (mg_store (chat_drafted (supervisor_init [] (Fin 30) ''/data'')))
     \<lparr>st_revisions := [((rpf_id chat_profile, 1), \<lparr>re_document = encoded (routing_dump chat_profile), re_published_at = ''t''\<rparr>)],
      st_active := [(rpf_id chat_profile, booth_activation)], st_last_activation := Some (rpf_id chat_profile, booth_activation)\<rparr>"

definition booth_setup :: pydict where
  "booth_setup = set_key ''worker_id'' (VStr chat_uuid) (example_setup ''awaiting-publication'')"
definition booth_request :: publication_request where
  "booth_request = \<lparr>pn_profile_name = None, pn_display_name = ''Chat two'', pn_public_name = ''chat-2'', pn_tool_calling_enabled = False,
     pn_route_action = Add\<rparr>"

definition booth_io :: setup_io where
  "booth_io = (chat_io ''u'')\<lparr>io_uuid5 := (\<lambda>_ _. ''7c9e6679-7425-40de-944b-e07fc1f90ae6'')\<rparr>"

definition booth_ready :: store where
  "booth_ready = booth_store\<lparr>st_tests := [setup_test], st_configuration := [(''guided_profile_id'', rpf_id chat_profile)],
       st_setups := [(''s1'', \<lparr>se_request_id = ''q'', se_request_fingerprint = ''f'', se_document = encoded booth_setup,
         se_created_at = ''t'', se_updated_at = ''t''\<rparr>)]\<rparr>"

definition booth_start :: "supervisor \<Rightarrow> management" where
  "booth_start sv = \<lparr>mg_store = booth_ready, mg_definitions = [(chat_uuid, chat_worker)], mg_supervisor = sv\<rparr>"

definition booth_target :: routing_profile where
  "booth_target = chat_profile\<lparr>rpf_capabilities := rpf_capabilities chat_profile @ [\<lparr>cb_id = ''7c9e6679-7425-40de-944b-e07fc1f90ae6'', cb_display_name = ''Chat two'',
     cb_public_name = ''chat-2'', cb_protocol_contract = ''openai-chat-v1'', cb_tool_calling_enabled = False, cb_worker_ids = [chat_uuid]\<rparr>]\<rparr>"

definition booth_entry :: pydict where
  "booth_entry = [(''capability_id'', VStr ''7c9e6679-7425-40de-944b-e07fc1f90ae6''), (''display_name'', VStr ''Chat two''),
     (''public_name'', VStr ''chat-2''), (''protocol_contract'', VStr ''openai-chat-v1''), (''tool_calling_enabled'', VBool False),
     (''worker_ids'', VList [VStr chat_uuid])]"

definition booth_plan :: "routing_validation \<Rightarrow> publication_plan" where
  "booth_plan v = \<lparr>pb_profile_id = rpf_id chat_profile, pb_base_updated_at = Some ''t'', pb_target = booth_target, pb_validation = v,
     pb_fingerprint = ''fp''\<rparr>"

lemma booth_surroundings: "su_repr (io_su booth_io) = (\<lambda>_. [])" "require_mutable (io_su booth_io) = Inr ()"
  "su_profile_fields (io_su booth_io) = read_profile" "su_worker_fields (io_su booth_io) = read_worker"
  by (simp_all add: booth_io_def chat_io_def chat_surroundings_def require_mutable_def)

lemma booth_base: "publication_base booth_io booth_setup booth_request booth_ready = Inr (rpf_id chat_profile, routing_dump chat_profile, Some ''t'')"
  by code_simp

lemma booth_updated: "rbind (get_routing_profile (rpf_id chat_profile) booth_ready) (\<lambda>x. Inr (map_option pr_updated_at x)) = Inr (Some ''t'')"
  by code_simp

lemma booth_worker: "validate_worker chat_worker = Inr chat_worker"
  by code_simp

lemma booth_valid_model: "validate_routing_model chat_profile = Inr ()" "validate_routing_model booth_target = Inr ()"
  by code_simp+

lemma booth_valid: "\<exists>v. validate_profile_definition (io_su booth_io) booth_target (booth_start sv) = Inr v \<and> rv_valid v"
proof -
  have "case validate_profile_definition (io_su booth_io) booth_target (booth_start sv) of Inr v \<Rightarrow> rv_valid v | _ \<Rightarrow> False" by code_simp
  then show ?thesis by (simp split: sum.splits)
qed

lemma booth_snapshots: "active_routing_snapshots booth_ready = Inr [routing_snapshot chat_profile 1]"
  by code_simp

lemma booth_published_entry:
  "case publish_target booth_io booth_target ((booth_start sv)\<lparr>mg_store := booth_ready\<lparr>st_setups := xs, st_setup_events := ys\<rparr>\<rparr>) of
     (Inr r, m) \<Rightarrow> (case live_entry (rpf_id chat_profile) ''7c9e6679-7425-40de-944b-e07fc1f90ae6'' (mg_store m) of
        Inr (l, e) \<Rightarrow> e = booth_entry | _ \<Rightarrow> False) | _ \<Rightarrow> False"
  by code_simp

lemma booth_smoke_request: "\<exists>q. capability_smoke_request chat_context booth_entry [(chat_uuid, chat_worker)] = Inr q"
proof -
  have "case capability_smoke_request chat_context booth_entry [(chat_uuid, chat_worker)] of Inr _ \<Rightarrow> True | _ \<Rightarrow> False" by code_simp
  then show ?thesis by (simp split: sum.splits)
qed

lemma booth_bindings: "proposed_bindings booth_io booth_setup booth_request ''openai-chat-v1'' (wd_id chat_worker)
    (map as_mapping (items (dget (routing_dump chat_profile) ''capabilities'')))
  = Inr (map binding_dump (rpf_capabilities chat_profile) @ [added_binding booth_io booth_setup booth_request ''openai-chat-v1'' chat_uuid])"
  by code_simp

lemma booth_target_read: "read_profile (VDict (set_key ''capabilities'' (VList (map VDict (map binding_dump (rpf_capabilities chat_profile)
    @ [added_binding booth_io booth_setup booth_request ''openai-chat-v1'' chat_uuid]))) (routing_dump chat_profile))) = Inr booth_target"
proof -
  have r: "read_binding (VDict (added_binding booth_io booth_setup booth_request ''openai-chat-v1'' chat_uuid)) = last (rpf_capabilities booth_target)"
    by (simp add: read_binding_def added_binding_def booth_request_def booth_io_def booth_target_def as_mapping_def dget_def text_of_def list_of_def)
  show ?thesis
    by (simp add: read_profile_def as_mapping_def set_key_def routing_dump_def dget_def list_of_def read_binding_dump comp_def r text_of_def)
      (simp add: booth_target_def chat_profile_def qualification_value_def)
qed

lemma booth_contract: "catalogue_contract (py_str (su_repr (io_su booth_io)) (dget (worker_plan booth_setup) ''capability_id'')) = Inr (Some ''openai-chat-v1'')"
  by (simp add: booth_setup_def set_key_def example_setup_def worker_plan_def as_mapping_def dget_def py_str_def chat_contract)

lemma booth_qualified: "qualified_worker booth_io booth_setup booth_ready = Inr chat_worker"
proof -
  have "py_str (su_repr (io_su booth_io)) (dget booth_setup ''worker_id'') = chat_uuid"
    by (simp add: booth_setup_def set_key_def example_setup_def dget_def py_str_def)
  moreover have "get_worker_definition chat_uuid booth_ready
      = Inr (Some (VDict (worker_dump chat_worker), snd (hd (st_workers booth_ready))))"
    by (simp add: get_worker_definition_def booth_ready_def booth_store_def chat_drafted_def chat_created_def encoded_def decode_json_def)
  ultimately show ?thesis
    by (simp add: qualified_worker_def worker_model_validate_def booth_surroundings read_worker_dump booth_worker rbind_def)
qed

lemma booth_preview: "\<exists>v. publication_preview booth_io booth_setup booth_request (booth_start sv) = Inr (booth_plan v) \<and> rv_valid v"
proof -
  obtain v where v: "validate_profile_definition (io_su booth_io) booth_target (booth_start sv) = Inr v" "rv_valid v" using booth_valid by blast
  have s: "setup_state booth_setup = ''awaiting-publication''" by (simp add: booth_setup_def set_key_def example_setup_def setup_state_def dget_def)
  have st: "mg_store (booth_start sv) = booth_ready" by (simp add: booth_start_def)
  have f: "io_fingerprint booth_io d = ''fp''" for d by (simp add: booth_io_def chat_io_def)
  show ?thesis
    by (intro exI [of _ v]) (simp add: publication_preview_def s st booth_base booth_qualified booth_contract [unfolded booth_surroundings] booth_bindings v f rbind_def raised_def
      profile_model_validate_def booth_surroundings booth_target_read booth_valid_model booth_plan_def del: map_append)
qed

text \<open>A moving setup changes its document and its events only.\<close>

lemma save_setup_frame: "snd (save_setup io d m) = m\<lparr>mg_store := (mg_store m)\<lparr>st_setups := st_setups (mg_store (snd (save_setup io d m)))\<rparr>\<rparr>"
  by (simp add: save_setup_def save_capability_setup_def split: sum.split option.split)

lemma record_event_frame:
  "snd (record_event io d t msg m) = m\<lparr>mg_store := (mg_store m)\<lparr>st_setup_events := st_setup_events (mg_store (snd (record_event io d t msg m)))\<rparr>\<rparr>"
  by (simp add: record_event_def record_capability_setup_event_def attempt_def Let_def)

lemma transition_frame:
  assumes "transition_setup io d st msg m = (r, m')"
  obtains xs ys where "m' = m\<lparr>mg_store := mg_store m\<lparr>st_setups := xs, st_setup_events := ys\<rparr>\<rparr>"
proof -
  obtain x m1 where x: "save_setup io (entering io st d) m = (x, m1)" by fastforce
  obtain y m2 where y: "record_event io (entering io st d) st msg m1 = (y, m2)" by fastforce
  obtain xs where m1: "m1 = m\<lparr>mg_store := (mg_store m)\<lparr>st_setups := xs\<rparr>\<rparr>"
    using save_setup_frame [of io "entering io st d" m] unfolding x snd_conv by blast
  obtain ys where m2: "m2 = m1\<lparr>mg_store := (mg_store m1)\<lparr>st_setup_events := ys\<rparr>\<rparr>"
    using record_event_frame [of io "entering io st d" st msg m1] unfolding y snd_conv by blast
  have "m' = m1 \<or> m' = m2" using assms by (cases x) (simp_all add: transition_setup_def Let_def x y)
  moreover have "m1 = m\<lparr>mg_store := mg_store m\<lparr>st_setups := xs, st_setup_events := st_setup_events (mg_store m)\<rparr>\<rparr>"
    "m2 = m\<lparr>mg_store := mg_store m\<lparr>st_setups := xs, st_setup_events := ys\<rparr>\<rparr>" by (simp_all add: m2 m1)
  ultimately show thesis using that by blast
qed

lemma live_entry_active: "st_active s' = st_active s \<Longrightarrow> live_entry pid cid s' = live_entry pid cid s"
  by (simp add: live_entry_def active_routing_snapshots_def)

lemma publish_target_definitions: "mg_definitions (snd (publish_target io t m)) = mg_definitions m"
  by (simp add: publish_target_def Let_def case_prod_beta split: sum.split)

lemma booth_docs: "docs_ok (\<lambda>_. []) (mg_store (booth_start sv))"
proof -
  have s: "dget booth_setup ''id'' = VStr ''s1''" "dget booth_setup ''evidence_id'' = VInt 1"
    "dget (worker_plan booth_setup) ''capability_id'' = VStr ''general-chat''"
    by (simp_all add: booth_setup_def set_key_def example_setup_def dget_def worker_plan_def as_mapping_def)
  have "evidenced (\<lambda>_. []) (mg_store (booth_start sv)) booth_setup"
    unfolding evidenced_def
    by (rule exI [of _ setup_test], rule exI [of _ "[(''capability_id'', VStr ''general-chat'')]"])
      (simp add: booth_start_def booth_ready_def s setup_test_def py_str_def, simp add: dget_def)
  then show ?thesis
    by (simp add: docs_ok_def evidence_ok_def booth_start_def booth_ready_def)
      (auto split: if_splits simp: s intro!: exI [of _ booth_setup])
qed

lemma booth_checks: "\<exists>v. publication_checks booth_io ''s1'' booth_request ''fp'' (booth_start sv)
    = Inr (booth_setup, booth_plan v, [routing_snapshot chat_profile 1])"
proof -
  obtain v where v: "publication_preview booth_io booth_setup booth_request (booth_start sv) = Inr (booth_plan v)" "rv_valid v"
    using booth_preview by blast
  obtain c :: profile_record where c: "get_routing_profile (rpf_id chat_profile) booth_ready = Inr (Some c)" "pr_updated_at c = ''t''"
    using booth_updated by (auto simp: rbind_eq_Inr)
  have st: "mg_store (booth_start sv) = booth_ready" by (simp add: booth_start_def)
  have "setup_or_404 ''s1'' (booth_start sv) = Inr booth_setup"
    by (simp add: setup_or_404_def get_capability_setup_def booth_start_def booth_ready_def encoded_def decode_json_def as_mapping_def raised_def)
  then show ?thesis
    by (intro exI [of _ v]) (simp add: publication_checks_def booth_surroundings v st booth_plan_def c booth_snapshots raised_def)
qed

lemma booth_begins: "\<exists>p m1. publication_begins booth_io ''s1'' booth_request ''fp'' (booth_start sv) = (Inr p, m1)
    \<and> pc_definitions p = [(chat_uuid, chat_worker)] \<and> snd (pc_found p) = booth_entry"
proof -
  let ?m = "booth_start sv" and ?cid = "''7c9e6679-7425-40de-944b-e07fc1f90ae6''"
  obtain v where c: "publication_checks booth_io ''s1'' booth_request ''fp'' ?m = Inr (booth_setup, booth_plan v, [routing_snapshot chat_profile 1])"
    using booth_checks by blast
  have cl: "claim_sound (\<lambda>_. []) (mg_store ?m) (set_key ''error'' VNone booth_setup)"
    by (rule claim_set [OF checked_claim [OF c booth_docs]]) simp
  obtain d m1 where t: "transition_setup booth_io (set_key ''error'' VNone booth_setup) ''publishing''
      ''Publishing the reviewed Routing Profile'' ?m = (Inr d, m1)" "grows (\<lambda>_. []) (mg_store ?m) (mg_store m1)" "claim_sound (\<lambda>_. []) (mg_store m1) d"
    using claim_transition [OF booth_docs cl] by metis
  obtain xs ys where f: "m1 = ?m\<lparr>mg_store := booth_ready\<lparr>st_setups := xs, st_setup_events := ys\<rparr>\<rparr>"
    by (rule transition_frame [OF t(1)]) (simp add: booth_start_def)
  have tgt: "profile_model_validate (io_su booth_io) (VDict (routing_dump (pb_target (booth_plan v)))) = Inr booth_target"
    by (simp add: profile_model_validate_def booth_surroundings booth_plan_def read_profile_dump booth_valid_model)
  obtain r m2 where p: "publish_target booth_io booth_target m1 = (Inr r, m2)"
    and l: "\<exists>l. live_entry (rpf_id chat_profile) ?cid (mg_store m2) = Inr (l, booth_entry)"
    using booth_published_entry [where sv = sv and xs = xs and ys = ys] f by (auto split: prod.splits sum.splits)
  have spares: "spares (mg_store m1) (mg_store m2)" "mg_definitions m2 = [(chat_uuid, chat_worker)]"
    using p publish_target_spares [of m1 booth_io booth_target] publish_target_definitions [of booth_io booth_target m1]
    by (simp_all add: f booth_start_def)
  have i: "rpf_id booth_target = rpf_id chat_profile" by (simp add: booth_target_def)
  let ?m3 = "m2\<lparr>mg_store := set_configuration_value ''guided_profile_id'' (rpf_id chat_profile) (mg_store m2)\<rparr>"
  let ?pub = "VDict [(''profile_id'', VStr (rpf_id chat_profile)), (''revision'', VInt r), (''public_name'', VStr (pn_public_name booth_request))]"
  have g: "grows (\<lambda>_. []) (mg_store m1) (mg_store ?m3)"
    by (rule spares_grows [OF growsD(1) [OF t(2)]]) (use spares in \<open>simp add: spares_def set_configuration_value_def\<close>)
  have cl3: "claim_sound (\<lambda>_. []) (mg_store ?m3) (set_key ''publication'' ?pub d)"
    by (rule claim_set [OF claim_grows [OF t(3) g]]) simp
  obtain d4 m4 where t4: "transition_setup booth_io (set_key ''publication'' ?pub d) ''verifying-route'' ''Exercising the published local route'' ?m3 = (Inr d4, m4)"
    using claim_transition [OF growsD(1) [OF g] cl3] by metis
  obtain xs4 ys4 where f4: "m4 = ?m3\<lparr>mg_store := mg_store ?m3\<lparr>st_setups := xs4, st_setup_events := ys4\<rparr>\<rparr>"
    by (rule transition_frame [OF t4])
  obtain l where "live_entry (rpf_id chat_profile) ?cid (mg_store m4) = Inr (l, booth_entry)"
    using l live_entry_active [of "mg_store m4" "mg_store m2"] by (auto simp: f4 set_configuration_value_def)
  moreover have "List.find (\<lambda>b. cb_public_name b = pn_public_name booth_request) (rpf_capabilities booth_target) = Some (last (rpf_capabilities booth_target))"
    "cb_id (last (rpf_capabilities booth_target)) = ?cid"
    by (simp_all add: booth_target_def chat_profile_def booth_request_def)
  ultimately show ?thesis using spares(2)
    by (simp add: publication_begins_def c t(1) tgt p publication_verifies_def i t4) (simp add: f4)
qed

lemma booth_put: "put_publication (\<lambda>_. []) ''t'' (routing_dump chat_profile) (routing_snapshot chat_profile 0) (mg_store (chat_drafted sv))
    = Inr ((rpf_id chat_profile, 1), booth_store)"
proof -
  have i: "py_index (VDict (routing_dump chat_profile)) ''id'' = Inr (VStr (rpf_id chat_profile))" by (simp add: py_index_def routing_dump_def)
  have n: "is_ok (requested_names (\<lambda>_. []) (VDict (routing_snapshot chat_profile 1)))"
    by (simp add: requested_names_def public_names_def value_get_def routing_snapshot_def iterable_def dget_or_def chat_profile_def rbind_def is_ok_def)
  then obtain ns where ns: "requested_names (\<lambda>_. []) (VDict (routing_snapshot chat_profile 1)) = Inr ns" by (auto simp: is_ok_iff)
  have st: "st_active (mg_store (chat_drafted sv)) = []" "st_revisions (mg_store (chat_drafted sv)) = []"
    "dhas (st_profiles (mg_store (chat_drafted sv))) (rpf_id chat_profile)"
    by (simp_all add: chat_drafted_def chat_created_def chat_permitted_def empty_store_def dhas_def)
  show ?thesis
    by (simp add: put_publication_def i py_str_def latest_revision_def revisions_of_def st set_active_routing_profile_def snapshot_revision
        ensure_no_active_capability_collisions_def ns Let_def)
      (simp add: booth_store_def booth_activation_def chat_drafted_def chat_created_def chat_permitted_def empty_store_def)
qed

lemma booth_published_facts: "mg_store (booth_published sv) = booth_store" "mg_definitions (booth_published sv) = [(chat_uuid, chat_worker)]"
proof -
  let ?su = "chat_surroundings ''u2''" and ?m = "chat_drafted sv"
  have d: "rbind (get_routing_profile (rpf_id chat_profile) (mg_store ?m)) (\<lambda>x. Inr (map_option pr_definition x))
      = Inr (Some (VDict (routing_dump chat_profile)))" by code_simp
  obtain x :: profile_record where x: "get_routing_profile (rpf_id chat_profile) (mg_store ?m) = Inr (Some x)"
    "pr_definition x = VDict (routing_dump chat_profile)" using d by (auto simp: rbind_eq_Inr)
  have su: "require_mutable ?su = Inr ()" "su_profile_fields ?su = read_profile" "su_repr ?su = (\<lambda>_. [])" "su_now ?su = ''t''"
    by (simp_all add: chat_surroundings_def require_mutable_def)
  have "routing_profile_definition ?su (rpf_id chat_profile) ?m = Inr chat_profile"
    by (simp add: routing_profile_definition_def x raised_def profile_model_validate_def su read_profile_dump booth_valid_model rbind_def)
  moreover have "validated ?su chat_profile ?m = Inr chat_profile"
  proof -
    have "case validate_profile_definition ?su chat_profile ?m of Inr v \<Rightarrow> rv_valid v | _ \<Rightarrow> False" by code_simp
    then show ?thesis by (simp add: validated_def raised_def rbind_def split: sum.splits)
  qed
  ultimately show "mg_store (booth_published sv) = booth_store"
    by (simp add: booth_published_def publish_profile_handler_def su publish_routing_profile_def after_commit_def attempt_def reading_def booth_put
        rbind_def case_prod_beta)
  have "mg_definitions (snd (publish_profile_handler su pid m)) = mg_definitions m" for su pid m
    by (simp add: publish_profile_handler_def case_prod_beta split: sum.split)
  then show "mg_definitions (booth_published sv) = [(chat_uuid, chat_worker)]"
    by (simp add: booth_published_def chat_drafted_def chat_created_def)
qed

lemma booth_inv: "\<exists>sv. management_inv (\<lambda>_. []) (booth_start sv)"
proof -
  obtain sv where run: "fresh_run chat_ops chat_start" "run_management chat_ops chat_start = booth_published sv"
    using chat_run unfolding booth_published_def by blast
  have "management_inv (\<lambda>_. []) (run_management chat_ops chat_start)"
    by (rule management_run_inv [OF chat_surroundings_ok run(1)]) (simp add: chat_start_def empty_inv)
  then have inv: "management_inv (\<lambda>_. []) (booth_published sv)" by (simp add: run(2))
  have "management_inv (\<lambda>_. []) (booth_start sv)"
  proof (rule inv_keeps [OF inv])
    show "same_routing (mg_store (booth_published sv)) (mg_store (booth_start sv))"
      by (simp add: booth_published_facts same_routing_def booth_start_def booth_ready_def)
    show "same_policies (mg_store (booth_published sv)) (mg_store (booth_start sv))"
      by (simp add: booth_published_facts same_policies_def booth_start_def booth_ready_def)
    show "keeps_workers (booth_published sv) (booth_start sv)"
      by (rule keeps_workers_refl) (simp add: booth_published_facts booth_start_def)
    show "definitions_ok (booth_start sv)"
      by (rule definitions_ok_same [OF inv_definitions_ok [OF inv]]) (simp_all add: booth_published_facts booth_start_def booth_ready_def)
  qed
  then show ?thesis by blast
qed

lemma booth_revalidates: "revalidates (io_su booth_io) (mg_store (booth_start sv))"
  unfolding revalidates_def
proof (intro allI impI)
  fix p a d assume a: "(p, a) \<in> set (st_active (mg_store (booth_start sv)))" and l: "live (mg_store (booth_start sv)) p a d"
  have p: "p = rpf_id chat_profile" using a by (simp add: booth_start_def booth_ready_def booth_store_def)
  obtain e where e: "(ae_revision a, e) \<in> set (revisions_of p (mg_store (booth_start sv)))" "re_document e = encoded (routing_dump d)"
    using l by (auto simp: live_def)
  have "re_document e = encoded (routing_dump chat_profile)"
    using e(1) p by (auto simp: revisions_of_def booth_start_def booth_ready_def booth_store_def)
  then have "routing_dump d = routing_dump chat_profile" using e(2) by (simp add: encoded_def)
  then have "d = chat_profile" using read_profile_dump [of d] read_profile_dump [of chat_profile] by simp
  then show "profile_model_validate (io_su booth_io) (VDict (routing_dump d)) = Inr d"
    by (simp add: profile_model_validate_def booth_surroundings read_profile_dump booth_valid_model)
qed

definition no_gateway :: gateway where
  "no_gateway q = (Inl (TransportFailure (''ConnectError'', ''refused'')), 7)"

theorem failed_publication_restores_routes_witness:
  "\<exists>sv p m1 d m2. publication_begins booth_io ''s1'' booth_request ''fp'' (booth_start sv) = (Inr p, m1)
     \<and> publication_answered booth_io chat_context no_gateway p m1 = (Inr d, m2) \<and> setup_state d = ''failed''
     \<and> route (mg_store m2) (rpf_id chat_profile) = Some (1, encoded (routing_snapshot chat_profile 1))"
proof -
  obtain sv where inv: "management_inv (\<lambda>_. []) (booth_start sv)" using booth_inv by blast
  obtain p m1 where b: "publication_begins booth_io ''s1'' booth_request ''fp'' (booth_start sv) = (Inr p, m1)"
    "pc_definitions p = [(chat_uuid, chat_worker)]" "snd (pc_found p) = booth_entry" using booth_begins by blast
  obtain q where q: "capability_smoke_request chat_context booth_entry [(chat_uuid, chat_worker)] = Inr q" using booth_smoke_request by blast
  have "fst (no_gateway q) = Inl (TransportFailure (''ConnectError'', ''refused''))" by (simp add: no_gateway_def)
  from unreachable_gateway_refuses [where post = no_gateway and q = q, OF q this] have "\<exists>why. fst (smoke_entry (io_su booth_io) chat_context no_gateway (rpf_id (pc_target p)) (pc_binding p) (pc_definitions p) (pc_found p) m1)
      = Inl (HTTPException 503 why)"
    using b(2,3) by (cases "pc_found p") (simp add: smoke_entry_def booth_entry_def dget_def refused_def rbind_def)
  then obtain why where s: "fst (smoke_entry (io_su booth_io) chat_context no_gateway (rpf_id (pc_target p)) (pc_binding p) (pc_definitions p) (pc_found p) m1)
      = Inl (HTTPException 503 why)" by blast
  have "route (mg_store (booth_start sv)) (rpf_id chat_profile) = Some (1, encoded (routing_snapshot chat_profile 1))"
    by (simp add: route_def booth_start_def booth_ready_def booth_store_def booth_activation_def)
  then show ?thesis
    using failed_publication_restores_routes [OF inv booth_docs booth_revalidates booth_surroundings(1) booth_surroundings(1) b(1) s] b(1)
    by metis
qed

end
