(* ===== verification/Spec2Isabelle.thy ===== *)
theory Spec2Isabelle
  imports Thermal_Publishing Registry_Trust Launch_Safety Log_Redaction Supervisor_Critical Gateway_Properties Gateway_Endpoints Store_Properties Management_Creation Qualification_Properties Route_Probes Setups_Publication
begin

text \<open>
  ModelDeck (\<open>src/backend/modeldeck\<close>) manages local language, speech and vision models. A management
  process keeps the operator's configuration and starts one worker process per model; a gateway
  process offers the workers to clients; a thermal policy, fed by the machine's sensors, decides
  how much work both may admit. This library models those processes' own decisions and state and
  leaves to parameters what lies outside the repository: the file system, sockets, the sensors,
  worker processes and the model libraries.

  \<^bold>\<open>Parts.\<close> A theory with a plain name holds the definitions of one part in the order of the code,
  its companion what the part guarantees.

  \<^item> \<open>Prelude\<close>: Python values (\<open>pyval\<close>), floats with infinities and NaN over exact rationals
    (\<open>pyfloat\<close>), strings, insertion-ordered dictionaries as association lists, exceptions as
    values (\<open>py_error\<close>, \<open>'a res\<close>), and three interfaces as locales: a bounded buffer, a dictionary
    and a machine with an invariant. Each is interpreted where a part implements it.
  \<^item> \<open>Thermal\<close>, \<open>Thermal_Manager\<close> (\<open>thermal.py\<close>): the critical guard, the state machine with
    hysteresis and dwell, capacity tables, admission, the poll of the manager, the status and
    workload files. \<open>Thermal_Safety\<close> shows that escalation is immediate, recovery is one level at a
    time, and missing readings degrade; \<open>Thermal_Publishing\<close> the round trips of the files, their
    age limit and when the critical handler runs.
  \<^item> \<open>Protocol\<close>, \<open>Runtime_Trust\<close>, \<open>Profiles\<close> (\<open>protocol.py\<close>, \<open>contracts\<close>, \<open>runtime_trust.py\<close>,
    \<open>profiles/models.py\<close>): the shared vocabulary, the contracts with their adapters, the code-owned
    table of worker implementations, execution profiles.
  \<^item> \<open>Registry\<close> with \<open>Registry_Trust\<close> (\<open>registry.py\<close>): templates are checked against the trusted
    implementation they select, and installed manifests are found by their digest.
  \<^item> \<open>Capabilities\<close> with \<open>Capabilities_Evidence\<close> (\<open>capabilities.py\<close>, \<open>reviewed_models.py\<close>), \<open>Domain\<close>
    with \<open>Domain_Routing\<close> (\<open>domain.py\<close>, \<open>gateway/resolution.py\<close>): published capabilities, test
    evidence, worker definitions, routing profiles and the routes they resolve to.
  \<^item> \<open>Launch\<close> with \<open>Launch_Safety\<close>, \<open>Logs\<close> with \<open>Log_Redaction\<close>, \<open>Supervisor\<close> with
    \<open>Supervisor_Safety\<close>, \<open>Supervisor_Properties\<close> and \<open>Supervisor_Critical\<close>
    (\<open>supervisor/service.py\<close>): building a worker's command and environment, redacting and keeping its
    output, and the life cycle of the workers as a transition system over every interleaving of the
    supervisor's coroutines. One exclusive worker runs at a time, a ready worker has reported the
    identity of its profile, and a critical stop that is done has ended the processes it found.

  \<^item> \<open>Store\<close> with \<open>Store_Properties\<close> (\<open>compatibility/store.py\<close>, \<open>persistence.py\<close>): the tables of the
    operational database and every operation on them as a transaction. Any sequence of operations
    keeps the API model identifiers of active routing profiles distinct and published revisions
    unchanged; publishing is all or nothing; discarding a draft restores the last publication.

  \<^item> \<open>Local_Profiles\<close> (\<open>profiles/local.py\<close>), \<open>Management\<close> (\<open>v2_api.py\<close>, the start and the policies of
    \<open>main.py\<close>): the handlers of the management process over the store, the definitions in memory and
    the supervisor. \<open>Management_Invariant\<close> states what they keep (an active route is the snapshot of a
    published revision, its workers are configured and permitted), \<open>Management_Workers\<close> and
    \<open>Management_Properties\<close> prove it handler by handler and for every run, \<open>Management_Creation\<close> shows
    that creating a worker is all or nothing and where the handlers fall short.
  \<^item> \<open>SceneChat\<close> (\<open>contracts/scenechat\<close>), \<open>Probes\<close> (\<open>smoke_probes.py\<close>), \<open>Qualification\<close> with
    \<open>Qualification_Properties\<close> (\<open>v2_api.py\<close>): the contract of scene analyses with the regular expressions
    that police it, the request and the validator of every protocol probe, and the handler that
    qualifies a capability of a running worker. A success rests on evidence and on a cool machine, and
    the routing rules of \<open>Capabilities\<close> then find exactly this test.
  \<^item> \<open>Route_Probes\<close> (\<open>v2_api.py\<close>, \<open>persistence.py\<close>): the rehearsal of a published route in three
    rounds of a tool call, and the recorded state that results; tools are supported exactly when the
    rehearsal passed.
  \<^item> \<open>Setups\<close> (\<open>v2_api.py\<close>): guided setups, from the previewed plan over the background task that
    creates, starts and qualifies a worker (\<open>run_setup\<close>, one stretch between two suspensions per step
    under the one lock) to the publication with its verification and rollback, cancellation, retry and
    the recovery after a restart. \<open>Setups_Invariant\<close> proves the invariant of stored setups, tasks and
    lock, \<open>Setups_Rollback\<close> and \<open>Setups_Publication\<close> that a failed verification restores the routes,
    \<open>Setups_Properties\<close> that a publication rests on evidence, that a task records its end and that a
    restart leaves nothing midway, and where the handlers fall short.

  \<^item> \<open>Gateway\<close>, \<open>Gateway_Discovery\<close>, \<open>Gateway_Requests\<close>, \<open>Gateway_Flow\<close>, \<open>Gateway_Endpoints\<close>
    (\<open>gateway/app.py\<close>): answers and identities, what is published about routes and workers, the
    request bodies the gateway inspects, the requests in flight as a transition system (one
    stretch between two suspensions per step: capacity, the choice of a ready worker, sending,
    reading, streaming, cancelling, releasing) with the monitors of diffusion jobs, and the table of
    endpoints with the job book. \<open>Gateway_Safety\<close> proves the invariant of that system,
    \<open>Gateway_Properties\<close> what follows: capacity is never given back twice and grows only below the
    published limit, the table of active requests is exact, a queued request is answered at its
    deadline, discovery and proxy choose the same worker.

  \<^bold>\<open>Interaction.\<close> A start of the supervisor asks the thermal admission of \<open>Thermal\<close>, builds its
  command with \<open>Launch\<close> from an execution profile of \<open>Profiles\<close>, which \<open>Domain\<close> builds from the
  operator's worker definition and \<open>Registry\<close> from a template; \<open>Launch\<close> looks the runtime up in the
  table that \<open>Runtime_Trust\<close> fixes (\<open>launchable_runtimes_are_the_trusted_ones\<close>). The routes of
  \<open>Domain\<close> use the contract tables of \<open>Protocol\<close> and the evidence of \<open>Capabilities\<close>. The gateway
  resolves its routes with \<open>Domain\<close>, admits requests with the same admission of \<open>Thermal\<close> on the
  status file that \<open>Thermal_Manager\<close> writes, and publishes its activity in the workload file that
  the manager reads.

  \<^bold>\<open>Conventions.\<close> Definitions keep the names of the code where HOL allows them. A dictionary is an
  association list in insertion order. Times are numbers in the units of the code. A computation
  that raises returns \<open>Inl\<close>. Loops over finite data are structural recursions; the redaction of
  nested diagnostics takes its nesting bound as fuel, and \<open>redaction_nesting_suffices\<close> shows that
  the length of the message is enough. Event history and queue hold 256 events, a log 500 records,
  as in the code.

  \<^bold>\<open>Atomicity.\<close> The supervisor, the gateway and the setup tasks take one step per stretch between two
  suspensions. A handler of \<open>Management\<close> is one step: in its runs no other handler comes in between, and
  an archival that would wait for its worker's lock is not performed; \<open>archive_meets_publication\<close> shows
  what such an interleaving does. A poll of the thermal manager is one step. The validation library is a
  parameter: the theorems about runs of the management handlers assume that it reads back every document
  that it wrote.

  \<^bold>\<open>Not modelled.\<close> Sockets, subprocesses, SQL, the file system and the clock are parameters or
  inputs. The catalogue and telemetry responses, the live view and the event streams only read; the
  request that clears a worker's prefix cache is passed on to the worker. Case folding is that of ASCII. Cancellation of a coroutine is not modelled, nor a
  failing write of the workload file; the body of a streamed answer is assumed to be iterated to its
  end or closed. The model
  workers are thin services over third-party libraries; the graphical and web interfaces, the
  benchmark and qualification scripts are not part of the serving path.
\<close>

end
